(* ===== verification/Prelude.thy ===== *)
theory Prelude
  imports Main "HOL-Library.State_Monad"
begin

text \<open>
  What every component of the development shares.

  A Go function that may fail returns \<^typ>\<open>'a\<close> inside \<open>'a outcome\<close>: \<open>Ok\<close> is a return
  with a nil error, \<open>Err\<close> a return with an error, \<open>Panic\<close> a run-time panic (a nil
  dereference). A function with effects is a state action over a world \<open>'w\<close> that is
  never looked into: the services the code calls act on it, the code does not.

  An error value keeps what the code can observe of it: its text (\<open>err_msg\<close>, the method
  Error), the type tag errors.As finds in its chain (\<open>errors_as\<close>), and the chain that
  \<open>fmt.Errorf("...%w...")\<close> builds (\<open>Wrapped\<close>).

  Reasoning is by weakest preconditions: \<open>wp m Q w\<close> says that running \<open>m\<close> from \<open>w\<close> ends
  in a result and a world that satisfy \<open>Q\<close>. Its rules for the combinators are in
  \<open>wp_simps\<close>; the rules for a service's operations come from the service's contract.
\<close>

declare split_paired_All [simp del] split_paired_Ex [simp del]

section \<open>Errors and results\<close>

text \<open>
  \<open>ErrorString\<close> is errors.New or fmt.Errorf without %w; \<open>ServiceError code text reasons\<close> is
  an error value made by a library, with the type (or reason) the code asks about, its
  text, and the cancellation reasons (code and message of each item) that only a
  TransactionCanceledException carries; \<open>Wrapped pre e post\<close> is fmt.Errorf("pre%wpost", e).
\<close>

datatype go_error =
    ErrorString string
  | ServiceError string string "(string option \<times> string option) list"
  | Wrapped string go_error string

primrec err_msg :: "go_error \<Rightarrow> string" where
  "err_msg (ErrorString s) = s"
| "err_msg (ServiceError code text reasons) = text"
| "err_msg (Wrapped pre e post) = pre @ err_msg e @ post"

text \<open>errors.As with a target of the named type: the first error of the chain decides.\<close>

primrec errors_as :: "string \<Rightarrow> go_error \<Rightarrow> bool" where
  "errors_as code (ErrorString s) \<longleftrightarrow> False"
| "errors_as code (ServiceError c text reasons) \<longleftrightarrow> c = code"
| "errors_as code (Wrapped pre e post) \<longleftrightarrow> errors_as code e"

datatype 'a outcome = Ok 'a | Err go_error | Panic

primrec is_ok :: "'a outcome \<Rightarrow> bool" where
  "is_ok (Ok x) \<longleftrightarrow> True"
| "is_ok (Err e) \<longleftrightarrow> False"
| "is_ok Panic \<longleftrightarrow> False"

primrec is_err :: "'a outcome \<Rightarrow> bool" where
  "is_err (Ok x) \<longleftrightarrow> False"
| "is_err (Err e) \<longleftrightarrow> True"
| "is_err Panic \<longleftrightarrow> False"

lemma is_ok_iff: "is_ok r \<longleftrightarrow> (\<exists>x. r = Ok x)"
  by (cases r) auto

lemma is_err_iff: "is_err r \<longleftrightarrow> (\<exists>e. r = Err e)"
  by (cases r) auto

lemma not_is_ok_Err [intro]: "r = Err e \<Longrightarrow> \<not> is_ok r"
  by simp

section \<open>Go control flow over state actions\<close>

text \<open>\<open>return x, nil\<close>\<close>

definition ret :: "'a \<Rightarrow> ('w, 'a outcome) state" where
  "ret x = State_Monad.return (Ok x)"

text \<open>\<open>return ..., e\<close>\<close>

definition raise :: "go_error \<Rightarrow> ('w, 'a outcome) state" where
  "raise e = State_Monad.return (Err e)"

text \<open>\<open>x, err := m; if err != nil { h(err) }; k(x)\<close>. A panic of \<open>m\<close> passes through.\<close>

definition try_or ::
    "('w, 'a outcome) state \<Rightarrow> (go_error \<Rightarrow> ('w, 'b outcome) state) \<Rightarrow>
     ('a \<Rightarrow> ('w, 'b outcome) state) \<Rightarrow> ('w, 'b outcome) state" where
  "try_or m h k =
     State_Monad.bind m (\<lambda>r. case r of
        Ok x \<Rightarrow> k x
      | Err e \<Rightarrow> h e
      | Panic \<Rightarrow> State_Monad.return Panic)"

text \<open>\<open>x, err := m; if err != nil { return ..., f(err) }; k(x)\<close>\<close>

definition check ::
    "('w, 'a outcome) state \<Rightarrow> (go_error \<Rightarrow> go_error) \<Rightarrow>
     ('a \<Rightarrow> ('w, 'b outcome) state) \<Rightarrow> ('w, 'b outcome) state" where
  "check m f k = try_or m (\<lambda>e. raise (f e)) k"

text \<open>\<open>fmt.Errorf("pre: %w", err)\<close> and \<open>return err\<close> itself.\<close>

definition wrapf :: "string \<Rightarrow> go_error \<Rightarrow> go_error" where
  "wrapf pre e = Wrapped (pre @ '': '') e ''''"

text \<open>\<open>defer func() { d() }()\<close> followed by the rest: \<open>d\<close> runs however the rest ends, and its
  own result is dropped.\<close>

definition deferred ::
    "('w, 'd outcome) state \<Rightarrow> ('w, 'a outcome) state \<Rightarrow> ('w, 'a outcome) state" where
  "deferred d m =
     State_Monad.bind m (\<lambda>r. State_Monad.bind d (\<lambda>r'. State_Monad.return
        (case r' of Panic \<Rightarrow> Panic | _ \<Rightarrow> r)))"

text \<open>A call whose error is logged and otherwise ignored.\<close>

definition ignore_err :: "('w, 'a outcome) state \<Rightarrow> ('w, unit outcome) state" where
  "ignore_err m = try_or m (\<lambda>e. ret ()) (\<lambda>x. ret ())"

section \<open>Weakest preconditions\<close>

named_theorems wp_simps \<open>weakest preconditions of the control flow\<close>

definition wp :: "('w, 'a) state \<Rightarrow> ('a \<Rightarrow> 'w \<Rightarrow> bool) \<Rightarrow> 'w \<Rightarrow> bool" where
  "wp m Q w \<longleftrightarrow> (case run_state m w of (r, w') \<Rightarrow> Q r w')"

lemma wpI: "(\<And>r w'. run_state m w = (r, w') \<Longrightarrow> Q r w') \<Longrightarrow> wp m Q w"
  by (simp add: wp_def split: prod.splits)

lemma wpD: "run_state m w = (r, w') \<Longrightarrow> wp m Q w \<Longrightarrow> Q r w'"
  by (simp add: wp_def)

lemma wp_mono: "wp m P w \<Longrightarrow> (\<And>r w'. P r w' \<Longrightarrow> Q r w') \<Longrightarrow> wp m Q w"
  by (auto simp: wp_def split: prod.splits)

lemma wp_conj: "wp m P w \<Longrightarrow> wp m Q w \<Longrightarrow> wp m (\<lambda>r w'. P r w' \<and> Q r w') w"
  by (auto simp: wp_def split: prod.splits)

lemma wp_return [wp_simps]: "wp (State_Monad.return x) Q w = Q x w"
  by (simp add: wp_def)

lemma wp_bind [wp_simps]: "wp (State_Monad.bind m f) Q w = wp m (\<lambda>x. wp (f x) Q) w"
  by (simp add: wp_def split: prod.splits)

lemma wp_ret [wp_simps]: "wp (ret x) Q w = Q (Ok x) w"
  by (simp add: ret_def wp_simps)

lemma wp_raise [wp_simps]: "wp (raise e) Q w = Q (Err e) w"
  by (simp add: raise_def wp_simps)

lemma wp_case_outcome [wp_simps]:
  "wp (case r of Ok x \<Rightarrow> k x | Err e \<Rightarrow> h e | Panic \<Rightarrow> p) Q w =
   (case r of Ok x \<Rightarrow> wp (k x) Q w | Err e \<Rightarrow> wp (h e) Q w | Panic \<Rightarrow> wp p Q w)"
  by (cases r) auto

lemma wp_if [wp_simps]: "wp (if b then m else m') Q w = (if b then wp m Q w else wp m' Q w)"
  by simp

lemma wp_case_option [wp_simps]:
  "wp (case x of None \<Rightarrow> m | Some y \<Rightarrow> f y) Q w =
   (case x of None \<Rightarrow> wp m Q w | Some y \<Rightarrow> wp (f y) Q w)"
  by (cases x) auto

lemma wp_case_prod [wp_simps]:
  "wp (case p of (a, b) \<Rightarrow> f a b) Q w = (case p of (a, b) \<Rightarrow> wp (f a b) Q w)"
  by (cases p) auto

lemma wp_try_or [wp_simps]:
  "wp (try_or m h k) Q w =
   wp m (\<lambda>r w'. case r of Ok x \<Rightarrow> wp (k x) Q w' | Err e \<Rightarrow> wp (h e) Q w'
                 | Panic \<Rightarrow> Q Panic w') w"
  by (simp add: try_or_def wp_def split: prod.splits outcome.splits)

lemma wp_check [wp_simps]:
  "wp (check m f k) Q w =
   wp m (\<lambda>r w'. case r of Ok x \<Rightarrow> wp (k x) Q w' | Err e \<Rightarrow> Q (Err (f e)) w'
                 | Panic \<Rightarrow> Q Panic w') w"
  by (simp add: check_def try_or_def raise_def wp_def split: prod.splits outcome.splits)

lemma wp_deferred [wp_simps]:
  "wp (deferred d m) Q w =
   wp m (\<lambda>r. wp d (\<lambda>r'. Q (case r' of Panic \<Rightarrow> Panic | _ \<Rightarrow> r))) w"
  by (simp add: deferred_def wp_def split: prod.splits)

lemma wp_ignore_err [wp_simps]:
  "wp (ignore_err m) Q w =
   wp m (\<lambda>r. Q (case r of Panic \<Rightarrow> Panic | _ \<Rightarrow> Ok ())) w"
  by (simp add: ignore_err_def try_or_def ret_def wp_def split: prod.splits outcome.splits)

text \<open>The step of every proof about a call: with what the callee promises (\<open>P\<close>), show the rest.\<close>

lemma wp_call: "wp m P w \<Longrightarrow> (\<And>r w'. P r w' \<Longrightarrow> Q r w') \<Longrightarrow> wp m Q w"
  by (rule wp_mono)

text \<open>A property of worlds that every operation of a group keeps.\<close>

definition keeps :: "('w \<Rightarrow> 'w \<Rightarrow> bool) \<Rightarrow> ('w, 'a) state \<Rightarrow> bool" where
  "keeps R m \<longleftrightarrow> (\<forall>w r w'. run_state m w = (r, w') \<longrightarrow> R w w')"

lemma keepsD: "keeps R m \<Longrightarrow> run_state m w = (r, w') \<Longrightarrow> R w w'"
  by (simp add: keeps_def)

lemma keeps_wp: "keeps R m \<Longrightarrow> wp m (\<lambda>r w'. R w w') w"
  by (auto simp: keeps_def intro!: wpI)

lemma keeps_return: "(\<And>w. R w w) \<Longrightarrow> keeps R (State_Monad.return x)"
  by (simp add: keeps_def)

lemma keeps_bind:
  assumes "\<And>a b c. R a b \<Longrightarrow> R b c \<Longrightarrow> R a c" "keeps R m" "\<And>x. keeps R (f x)"
  shows "keeps R (State_Monad.bind m f)"
  using assms by (fastforce simp: keeps_def split: prod.splits)

section \<open>Association lists as Go maps\<close>

text \<open>
  A Go map with string keys is an association list without duplicate keys, read with
  \<open>map_of\<close>. \<open>map_put\<close> is \<open>m[k] = v\<close>, \<open>map_del\<close> is \<open>delete(m, k)\<close>.
\<close>

fun map_put :: "'k \<Rightarrow> 'v \<Rightarrow> ('k \<times> 'v) list \<Rightarrow> ('k \<times> 'v) list" where
  "map_put k v [] = [(k, v)]"
| "map_put k v ((k', v') # m) = (if k = k' then (k, v) # m else (k', v') # map_put k v m)"

definition map_del :: "'k \<Rightarrow> ('k \<times> 'v) list \<Rightarrow> ('k \<times> 'v) list" where
  "map_del k m = filter (\<lambda>p. fst p \<noteq> k) m"

lemma map_of_map_put [simp]: "map_of (map_put k v m) = (map_of m)(k \<mapsto> v)"
  by (induction k v m rule: map_put.induct) auto

lemma map_put_not_Nil [simp]: "map_put k v m \<noteq> []"
  by (cases m) (auto split: if_splits)

lemma keys_map_put: "set (map fst (map_put k v m)) = insert k (set (map fst m))"
  by (induction k v m rule: map_put.induct) auto

lemma distinct_map_put: "distinct (map fst m) \<Longrightarrow> distinct (map fst (map_put k v m))"
proof (induction k v m rule: map_put.induct)
  case (2 k v k' v' m)
  then show ?case
    using keys_map_put [of k v m] by auto
qed auto

lemma map_of_map_del [simp]: "map_of (map_del k m) = (map_of m)(k := None)"
  by (induction m) (auto simp: map_del_def)

end
