(* ===== verification/Go_Strings.thy ===== *)
theory Go_Strings
  imports Prelude "HOL-Library.Sublist" "HOL-Library.Char_ord"
begin

text \<open>
  The string functions of Go's standard library the program uses: \<open>fmt.Sprintf("%d", n)\<close>
  (\<open>show_int\<close>), \<open>fmt.Sscanf(s, "%d", &i)\<close> (\<open>scan_int\<close>), strings.HasPrefix (\<open>prefix\<close> of
  the library), strings.Contains (\<open>contains\<close>), and the order of strings by bytes that Go
  and DynamoDB use (\<open>str_less\<close>). A Go string is its list of bytes; the literals of the
  program are ASCII.
\<close>

section \<open>Decimal numbers\<close>

definition digit_char :: "nat \<Rightarrow> char" where
  "digit_char d = char_of (48 + d)"

definition digit_val :: "char \<Rightarrow> nat option" where
  "digit_val c = (let n = of_char c :: nat in if 48 \<le> n \<and> n \<le> 57 then Some (n - 48) else None)"

definition is_digit :: "char \<Rightarrow> bool" where
  "is_digit c \<longleftrightarrow> digit_val c \<noteq> None"

lemma digit_val_digit_char [simp]: "d < 10 \<Longrightarrow> digit_val (digit_char d) = Some d"
  by (simp add: digit_val_def digit_char_def Let_def)

fun show_nat :: "nat \<Rightarrow> string" where
  "show_nat n = (if n < 10 then [digit_char n] else show_nat (n div 10) @ [digit_char (n mod 10)])"

declare show_nat.simps [simp del]

text \<open>The \<open>%d\<close> verb.\<close>

definition show_int :: "int \<Rightarrow> string" where
  "show_int i = (if i < 0 then CHR ''-'' # show_nat (nat (- i)) else show_nat (nat i))"

text \<open>The longest prefix of digits, read in base ten onto an accumulator.\<close>

fun scan_digits :: "nat \<Rightarrow> string \<Rightarrow> nat \<times> string" where
  "scan_digits acc [] = (acc, [])"
| "scan_digits acc (c # cs) =
     (case digit_val c of Some d \<Rightarrow> scan_digits (acc * 10 + d) cs | None \<Rightarrow> (acc, c # cs))"

text \<open>The leading characters the scanner skips: tab, vertical tab, form feed, carriage return
  and space. A newline is not skipped, and is an error where a number is expected.\<close>

definition is_blank :: "char \<Rightarrow> bool" where
  "is_blank c \<longleftrightarrow> (of_char c :: nat) \<in> {9, 11, 12, 13, 32}"

definition int64_min :: int where "int64_min = - (2 ^ 63)"
definition int64_max :: int where "int64_max = 2 ^ 63 - 1"

definition int64 :: "int \<Rightarrow> bool" where
  "int64 i \<longleftrightarrow> int64_min \<le> i \<and> i \<le> int64_max"

text \<open>Go's \<open>int\<close> on the 64-bit platforms the operator runs on: arithmetic wraps around.\<close>

definition wrap64 :: "int \<Rightarrow> int" where
  "wrap64 i = (i + 2 ^ 63) mod 2 ^ 64 - 2 ^ 63"

lemma wrap64_id [simp]: "int64 i \<Longrightarrow> wrap64 i = i"
  by (simp add: wrap64_def int64_def int64_min_def int64_max_def)

lemma int64_wrap64 [simp]: "int64 (wrap64 i)"
proof -
  have "0 \<le> (i + 2 ^ 63) mod 2 ^ 64" "(i + 2 ^ 63) mod 2 ^ 64 < (2 ^ 64 :: int)"
    by (rule pos_mod_sign, simp) (rule pos_mod_bound, simp)
  then show ?thesis
    by (simp add: wrap64_def int64_def int64_min_def int64_max_def)
qed

lemma wrap64_Suc_neq: "wrap64 (i + 1) \<noteq> i"
proof
  assume a: "wrap64 (i + 1) = i"
  then have "(i + 1 + 2 ^ 63) mod 2 ^ 64 = (i + 2 ^ 63 :: int)"
    by (simp add: wrap64_def)
  then have "(2 ^ 64 :: int) dvd (i + 1 + 2 ^ 63) - (i + 2 ^ 63)"
    by (metis mod_eq_dvd_iff mod_mod_trivial)
  then show False by simp
qed

text \<open>\<open>fmt.Sscanf(s, "%d", &i)\<close>: what follows the number is left unread; no digits, or a number
  that does not fit in an int, is an error.\<close>

definition scan_int :: "string \<Rightarrow> int option" where
  "scan_int s =
     (let t = dropWhile is_blank s;
          (sgn, u) = (case t of
              [] \<Rightarrow> (1, [])
            | c # cs \<Rightarrow> if c = CHR ''-'' then (- 1, cs) else if c = CHR ''+'' then (1, cs) else (1, t))
      in case u of
           [] \<Rightarrow> None
         | c # _ \<Rightarrow>
             (if digit_val c = None then None
              else let i = sgn * int (fst (scan_digits 0 u)) in if int64 i then Some i else None))"

lemma show_nat_not_Nil [simp]: "show_nat n \<noteq> []"
  by (subst show_nat.simps) simp

lemma show_nat_digits: "c \<in> set (show_nat n) \<Longrightarrow> digit_val c \<noteq> None"
proof (induction n rule: show_nat.induct)
  case (1 n)
  then show ?case
    by (subst (asm) (2) show_nat.simps) (auto split: if_splits)
qed

lemma scan_digits_append:
  "(\<forall>c \<in> set xs. digit_val c \<noteq> None) \<Longrightarrow>
   scan_digits acc (xs @ ys) = scan_digits (fst (scan_digits acc xs)) ys"
  by (induction acc xs rule: scan_digits.induct) auto

lemma scan_digits_show_nat: "fst (scan_digits 0 (show_nat n)) = n"
proof (induction n rule: show_nat.induct)
  case (1 n)
  show ?case
  proof (cases "n < 10")
    case True
    then show ?thesis by (simp add: show_nat.simps)
  next
    case False
    then have "scan_digits 0 (show_nat n) =
        scan_digits (fst (scan_digits 0 (show_nat (n div 10)))) [digit_char (n mod 10)]"
      by (subst show_nat.simps) (simp add: scan_digits_append show_nat_digits)
    with 1 False show ?thesis by simp
  qed
qed

lemma show_nat_hd: "digit_val (hd (show_nat n)) \<noteq> None"
  by (rule show_nat_digits [of _ n]) simp

lemma digit_not_blank: "digit_val c \<noteq> None \<Longrightarrow> \<not> is_blank c \<and> c \<noteq> CHR ''-'' \<and> c \<noteq> CHR ''+''"
  by (auto simp: digit_val_def is_blank_def Let_def split: if_splits)

lemma scan_int_show_int: "int64 i \<Longrightarrow> scan_int (show_int i) = Some i"
proof (cases "i < 0")
  case False
  assume "int64 i"
  obtain c cs where s: "show_nat (nat i) = c # cs"
    by (metis show_nat_not_Nil list.exhaust)
  with show_nat_hd [of "nat i"] have d: "digit_val c \<noteq> None" by simp
  with digit_not_blank [OF d] False \<open>int64 i\<close> s scan_digits_show_nat [of "nat i"] show ?thesis
    by (simp add: scan_int_def show_int_def)
next
  case True
  assume "int64 i"
  obtain c cs where s: "show_nat (nat (- i)) = c # cs"
    by (metis show_nat_not_Nil list.exhaust)
  with show_nat_hd [of "nat (- i)"] have d: "digit_val c \<noteq> None" by simp
  have "\<not> is_blank CHR ''-''" by (simp add: is_blank_def)
  with d True \<open>int64 i\<close> s scan_digits_show_nat [of "nat (- i)"] show ?thesis
    by (simp add: scan_int_def show_int_def)
qed

lemma show_nat_inject: "show_nat m = show_nat n \<longleftrightarrow> m = n"
  by (metis scan_digits_show_nat)

lemma show_int_inject [simp]: "show_int i = show_int j \<longleftrightarrow> i = j"
proof -
  have "digit_val CHR ''-'' = None" by (simp add: digit_val_def Let_def)
  then have neg: "CHR ''-'' # xs \<noteq> show_nat n" for xs n
    by (metis show_nat_digits list.set_intros(1))
  show ?thesis
    using neg by (auto simp: show_int_def show_nat_inject neg [symmetric])
qed

lemma show_int_chars: "c \<in> set (show_int i) \<Longrightarrow> c = CHR ''-'' \<or> digit_val c \<noteq> None"
  using show_nat_digits by (fastforce simp: show_int_def split: if_splits)

section \<open>Order and search\<close>

text \<open>Bytewise lexicographic order.\<close>

fun str_less :: "string \<Rightarrow> string \<Rightarrow> bool" where
  "str_less _ [] \<longleftrightarrow> False"
| "str_less [] (c # cs) \<longleftrightarrow> True"
| "str_less (a # as) (b # bs) \<longleftrightarrow>
     (of_char a :: nat) < of_char b \<or> (a = b \<and> str_less as bs)"

lemma str_less_irrefl [simp]: "\<not> str_less s s"
  by (induction s) auto

lemma str_less_trans: "str_less a b \<Longrightarrow> str_less b c \<Longrightarrow> str_less a c"
proof (induction a b arbitrary: c rule: str_less.induct)
  case (2 x xs)
  then show ?case by (cases c) auto
next
  case (3 x xs y ys)
  then show ?case by (cases c) auto
qed auto

lemma str_less_linear: "str_less a b \<or> a = b \<or> str_less b a"
proof (induction a b rule: str_less.induct)
  case (1 s)
  then show ?case by (cases s) auto
next
  case (3 x xs y ys)
  then show ?case by (metis linorder_neqE_nat of_char_eq_iff str_less.simps(3))
qed auto

lemma str_less_append_same [simp]: "str_less (p @ a) (p @ b) \<longleftrightarrow> str_less a b"
  by (induction p) auto

lemma str_less_append:
  "length a = length b \<Longrightarrow> str_less (a @ x) (b @ y) \<longleftrightarrow> str_less a b \<or> (a = b \<and> str_less x y)"
  by (induction a b rule: list_induct2) auto

fun contains :: "string \<Rightarrow> string \<Rightarrow> bool" where
  "contains [] pat \<longleftrightarrow> pat = []"
| "contains (c # cs) pat \<longleftrightarrow> prefix pat (c # cs) \<or> contains cs pat"

lemma contains_iff: "contains s pat \<longleftrightarrow> (\<exists>pre post. s = pre @ pat @ post)"
proof (induction s)
  case Nil
  then show ?case by simp
next
  case (Cons c cs)
  then show ?case
    by (auto simp: prefix_def Cons_eq_append_conv)
qed

text \<open>Decimal numbers of one width compare as their texts do.\<close>

fun show_width :: "nat \<Rightarrow> nat \<Rightarrow> string" where
  "show_width 0 n = []"
| "show_width (Suc k) n = show_width k (n div 10) @ [digit_char (n mod 10)]"

lemma length_show_width [simp]: "length (show_width k n) = k"
  by (induction k arbitrary: n) auto

lemma digit_char_less: "a < 10 \<Longrightarrow> b < 10 \<Longrightarrow> (of_char (digit_char a) :: nat) < of_char (digit_char b) \<longleftrightarrow> a < b"
  by (simp add: digit_char_def)

lemma digit_char_inject: "a < 10 \<Longrightarrow> b < 10 \<Longrightarrow> digit_char a = digit_char b \<longleftrightarrow> a = b"
  by (metis digit_val_digit_char option.inject)

lemma show_width_inject:
  "m < 10 ^ k \<Longrightarrow> n < 10 ^ k \<Longrightarrow> show_width k m = show_width k n \<longleftrightarrow> m = n"
proof (induction k arbitrary: m n)
  case 0
  then show ?case by simp
next
  case (Suc k)
  have "m div 10 < 10 ^ k" "n div 10 < 10 ^ k"
    using Suc.prems by (simp_all add: less_mult_imp_div_less mult.commute)
  with Suc.IH have "show_width k (m div 10) = show_width k (n div 10) \<longleftrightarrow> m div 10 = n div 10"
    by blast
  moreover have "digit_char (m mod 10) = digit_char (n mod 10) \<longleftrightarrow> m mod 10 = n mod 10"
    by (simp add: digit_char_inject)
  ultimately show ?case
    by (metis append1_eq_conv show_width.simps(2) div_mult_mod_eq)
qed

lemma show_width_less:
  "m < 10 ^ k \<Longrightarrow> n < 10 ^ k \<Longrightarrow> str_less (show_width k m) (show_width k n) \<longleftrightarrow> m < n"
proof (induction k arbitrary: m n)
  case 0
  then show ?case by simp
next
  case (Suc k)
  have b: "m div 10 < 10 ^ k" "n div 10 < 10 ^ k"
    using Suc.prems by (simp_all add: less_mult_imp_div_less mult.commute)
  have "str_less (show_width (Suc k) m) (show_width (Suc k) n) \<longleftrightarrow>
      m div 10 < n div 10 \<or> (m div 10 = n div 10 \<and> m mod 10 < n mod 10)"
    by (simp add: str_less_append Suc.IH [OF b] show_width_inject [OF b] digit_char_less)
  also have "\<dots> \<longleftrightarrow> m < n"
    using div_mult_mod_eq [of m 10] div_mult_mod_eq [of n 10] div_le_mono [of m n 10]
      div_le_mono [of n m 10] by linarith
  finally show ?case .
qed

lemma scan_digits_show_width:
  "n < 10 ^ k \<Longrightarrow> fst (scan_digits acc (show_width k n)) = acc * 10 ^ k + n"
proof (induction k arbitrary: n)
  case 0
  then show ?case by simp
next
  case (Suc k)
  have b: "n div 10 < 10 ^ k"
    using Suc.prems by (simp add: less_mult_imp_div_less mult.commute)
  have dig: "\<forall>c \<in> set (show_width j m). digit_val c \<noteq> None" for j m
    by (induction j arbitrary: m) auto
  show ?case
    using Suc.IH [OF b] div_mult_mod_eq [of n 10]
    by (simp add: scan_digits_append [OF dig] algebra_simps)
qed

lemma show_width_digits: "c \<in> set (show_width k n) \<Longrightarrow> digit_val c \<noteq> None"
  by (induction k arbitrary: n) auto

section \<open>Faster equations for evaluation\<close>

text \<open>Natural numbers evaluate in unary; these equations keep concrete runs in binary integers.\<close>

definition digits :: string where
  "digits = ''0123456789''"

definition int_digit :: "int \<Rightarrow> char" where
  "int_digit i = digits ! nat i"

fun int_width :: "nat \<Rightarrow> int \<Rightarrow> string" where
  "int_width 0 i = []"
| "int_width (Suc k) i = int_width k (i div 10) @ [int_digit (i mod 10)]"

lemma digits_eq: "map digit_char [0..<10] = digits"
  by code_simp

lemma int_digit_char: "d < 10 \<Longrightarrow> int_digit (int d) = digit_char d"
  by (simp add: int_digit_def flip: digits_eq)

lemma int_width_show_width: "int_width k (int n) = show_width k n"
proof (induction k arbitrary: n)
  case (Suc k)
  have "int n div 10 = int (n div 10)" "int n mod 10 = int (n mod 10)"
    by (simp_all add: zdiv_int zmod_int)
  then show ?case using Suc by (simp add: int_digit_char)
qed simp

lemma digit_val_char: "digit_val c = Some d \<longleftrightarrow> d < 10 \<and> c = digit_char d"
proof
  assume "digit_val c = Some d"
  then have "d < 10" and "char_of (48 + d) = c"
    by (auto simp: digit_val_def Let_def split: if_splits simp del: char_of_eq_iff)
  then show "d < 10 \<and> c = digit_char d" by (simp only: digit_char_def)
qed simp

lemma digit_val_code [code]: "digit_val c = map_of (zip digits [0..<10]) c"
proof -
  have z: "zip digits [0..<10] = map (\<lambda>d. (digit_char d, d)) [0..<10]"
    by (simp add: zip_map1 zip_same_conv_map flip: digits_eq)
  have d: "distinct (map fst (zip digits [0..<10]))"
    by (simp add: digits_def)
  show ?thesis
  proof (cases "digit_val c")
    case None
    then have "c \<notin> fst ` set (zip digits [0..<10])"
      by (auto simp: z digit_val_char)
    then have "map_of (zip digits [0..<10]) c = None" by (simp only: map_of_eq_None_iff not_False_eq_True)
    with None show ?thesis by (simp only:)
  next
    case (Some i)
    then have "(c, i) \<in> set (zip digits [0..<10])" by (auto simp: z digit_val_char)
    with d have "map_of (zip digits [0..<10]) c = Some i" by (simp only: map_of_eq_Some_iff)
    with Some show ?thesis by (simp only:)
  qed
qed

lemma of_char_nat_int: "(of_char c :: nat) < of_char d \<longleftrightarrow> (of_char c :: int) < of_char d"
  using of_nat_less_iff [of "of_char c :: nat" "of_char d", where ?'a = int]
  by (simp only: of_nat_of_char)

lemma str_less_code [code]:
  "str_less x [] \<longleftrightarrow> False"
  "str_less [] (c # cs) \<longleftrightarrow> True"
  "str_less (a # as) (b # bs) \<longleftrightarrow> (if a = b then str_less as bs else (of_char a :: int) < of_char b)"
  by (auto simp: of_char_nat_int)

end
