(* ===== verification/Go_Time.thy ===== *)
theory Go_Time
  imports Go_Strings
begin

text \<open>
  The part of Go's package time the program uses. A \<open>time.Time\<close> is an instant (nanoseconds
  since the Unix epoch) and the offset in seconds of the zone it is shown in; a
  \<open>time.Duration\<close> is its number of nanoseconds. \<open>format_rfc3339\<close> is
  \<open>t.Format(time.RFC3339)\<close>, which drops fractions of a second and shows the zone as Z or
  as hours and minutes; \<open>parse_rfc3339\<close> is \<open>time.Parse(time.RFC3339, s)\<close>. The calendar is
  the proleptic Gregorian one, by the quotients of the package's own code.

  Shown: parsing what was formatted gives the time back, to the second
  (\<open>parse_format_rfc3339\<close>), and texts in one zone compare as the times do
  (\<open>format_rfc3339_less\<close>), which the lock condition of the database rests on. Both hold for
  years 1 to 9999 and zones of whole minutes. The two clock readings of a \<open>time.Now()\<close> (wall
  and monotonic) are one here.
\<close>

section \<open>The calendar\<close>

definition is_leap :: "int \<Rightarrow> bool" where
  "is_leap y \<longleftrightarrow> y mod 4 = 0 \<and> (y mod 100 \<noteq> 0 \<or> y mod 400 = 0)"

definition month_lengths :: "bool \<Rightarrow> int list" where
  "month_lengths leap = [31, if leap then 29 else 28, 31, 30, 31, 30, 31, 31, 30, 31, 30, 31]"

text \<open>Days from 1 January of year 1 to 1 January of year \<open>y\<close>.\<close>

definition days_before_year :: "int \<Rightarrow> int" where
  "days_before_year y =
     (let z = y - 1 in 365 * z + z div 4 - z div 100 + z div 400)"

text \<open>Year and day of the year of a day number, by cycles of 400, 100, 4 and 1 years.\<close>

definition year_of_day :: "int \<Rightarrow> int \<times> int" where
  "year_of_day d =
     (let n400 = d div 146097; d = d mod 146097;
          n100 = min 3 (d div 36524); d = d - 36524 * n100;
          n4 = d div 1461; d = d mod 1461;
          n1 = min 3 (d div 365)
      in (400 * n400 + 100 * n100 + 4 * n4 + n1 + 1, d - 365 * n1))"

fun month_of_day :: "int list \<Rightarrow> int \<Rightarrow> int \<times> int" where
  "month_of_day [] d = (1, d + 1)"
| "month_of_day (l # ls) d =
     (if d < l then (1, d + 1)
      else case month_of_day ls (d - l) of (m, x) \<Rightarrow> (m + 1, x))"

fun days_before_month :: "int list \<Rightarrow> int \<Rightarrow> int" where
  "days_before_month [] m = 0"
| "days_before_month (l # ls) m = (if m \<le> 1 then 0 else l + days_before_month ls (m - 1))"

fun month_length :: "int list \<Rightarrow> int \<Rightarrow> int" where
  "month_length [] m = 0"
| "month_length (l # ls) m = (if m \<le> 1 then l else month_length ls (m - 1))"

definition civil_of_day :: "int \<Rightarrow> int \<times> int \<times> int" where
  "civil_of_day d =
     (case year_of_day d of (y, yd) \<Rightarrow>
        case month_of_day (month_lengths (is_leap y)) yd of (m, day) \<Rightarrow> (y, m, day))"

definition day_of_civil :: "int \<Rightarrow> int \<Rightarrow> int \<Rightarrow> int" where
  "day_of_civil y m day =
     days_before_year y + days_before_month (month_lengths (is_leap y)) m + (day - 1)"

definition year_length :: "int \<Rightarrow> int" where
  "year_length y = (if is_leap y then 366 else 365)"

lemma min3_quotient:
  fixes r k :: int
  assumes "0 < k" "0 \<le> r"
  shows "0 \<le> min 3 (r div k)" "min 3 (r div k) \<le> 3" "0 \<le> r - k * min 3 (r div k)"
    "r - k * min 3 (r div k) < k \<or> min 3 (r div k) = 3"
proof -
  have q: "0 \<le> r div k" using assms by (simp add: pos_imp_zdiv_nonneg_iff)
  have m: "r - k * (r div k) = r mod k" by (rule minus_mult_div_eq_mod)
  show "0 \<le> min 3 (r div k)" "min 3 (r div k) \<le> 3" using q by simp_all
  have "k * min 3 (r div k) \<le> k * (r div k)"
    using assms(1) by (intro mult_left_mono) auto
  then show "0 \<le> r - k * min 3 (r div k)"
    using m pos_mod_sign [OF assms(1), of r] by linarith
  show "r - k * min 3 (r div k) < k \<or> min 3 (r div k) = 3"
    using m pos_mod_bound [OF assms(1), of r] by (simp add: min_def)
qed

lemma year_of_day_parts:
  assumes "year_of_day d = (y, yd)"
  obtains a b c e where
    "y = 400 * a + 100 * b + 4 * c + e + 1"
    "0 \<le> b" "b \<le> 3" "0 \<le> c" "c \<le> 24" "0 \<le> e" "e \<le> 3"
    "d = 146097 * a + 36524 * b + 1461 * c + 365 * e + yd"
    "0 \<le> yd" "yd \<le> 365" "yd = 365 \<Longrightarrow> e = 3 \<and> (c < 24 \<or> b = 3)"
proof -
  define a where "a = d div 146097"
  define r1 where "r1 = d mod 146097"
  define b where "b = min 3 (r1 div 36524)"
  define r2 where "r2 = r1 - 36524 * b"
  define c where "c = r2 div 1461"
  define r3 where "r3 = r2 mod 1461"
  define e where "e = min 3 (r3 div 365)"
  have d: "d = 146097 * a + r1" "0 \<le> r1" "r1 < 146097"
    by (simp_all add: a_def r1_def)
  have b: "0 \<le> b" "b \<le> 3" "0 \<le> r2" "r2 \<le> 36524" "r2 = 36524 \<Longrightarrow> b = 3"
    using min3_quotient [of 36524 r1, folded b_def, folded r2_def] d(2,3)
    by (simp_all add: r2_def, linarith+)
  have c: "r2 = 1461 * c + r3" "0 \<le> c" "c \<le> 24" "0 \<le> r3" "r3 < 1461"
    using b by (auto simp: c_def r3_def)
  have e: "0 \<le> e" "e \<le> 3" "0 \<le> r3 - 365 * e" "r3 - 365 * e \<le> 365"
      "r3 - 365 * e = 365 \<Longrightarrow> e = 3"
    using min3_quotient [of 365 r3, folded e_def] c(4,5) by linarith+
  have y: "y = 400 * a + 100 * b + 4 * c + e + 1" "yd = r3 - 365 * e"
    using assms unfolding year_of_day_def Let_def a_def [symmetric] r1_def [symmetric]
      b_def [symmetric] r2_def [symmetric] c_def [symmetric] r3_def [symmetric] e_def [symmetric]
    by simp_all
  have leap: "e = 3 \<and> (c < 24 \<or> b = 3)" if "yd = 365"
  proof -
    have "e = 3" using e(5) y(2) that by simp
    moreover have "c < 24 \<or> b = 3"
    proof (rule ccontr)
      assume "\<not> ?thesis"
      then have "c = 24" "b \<noteq> 3" using c(3) by auto
      moreover have "r3 = 1460" using that y(2) \<open>e = 3\<close> by simp
      ultimately have "r2 = 36524" using c(1) by simp
      then show False using b(5) \<open>b \<noteq> 3\<close> by simp
    qed
    ultimately show ?thesis ..
  qed
  show ?thesis
  proof (rule that [of a b c e])
    have "r1 = 36524 * b + r2" by (simp add: r2_def)
    with d(1) c(1) y(2) show "d = 146097 * a + 36524 * b + 1461 * c + 365 * e + yd" by linarith
    show "0 \<le> yd" "yd \<le> 365" using e y by simp_all
    show "e = 3 \<and> (c < 24 \<or> b = 3)" if "yd = 365" using that by (rule leap)
  qed (rule y b c e)+
qed

lemma cycle_quotients:
  fixes a b c e :: int
  assumes "0 \<le> b" "b \<le> 3" "0 \<le> c" "c \<le> 24" "0 \<le> e" "e \<le> 3"
  shows "(400 * a + 100 * b + 4 * c + e) div 4 = 100 * a + 25 * b + c"
    and "(400 * a + 100 * b + 4 * c + e) div 100 = 4 * a + b"
    and "(400 * a + 100 * b + 4 * c + e) div 400 = a"
  using assms by auto

lemma days_before_year_cycles:
  fixes a b c e :: int
  assumes "0 \<le> b" "b \<le> 3" "0 \<le> c" "c \<le> 24" "0 \<le> e" "e \<le> 3"
  shows "days_before_year (400 * a + 100 * b + 4 * c + e + 1) =
         146097 * a + 36524 * b + 1461 * c + 365 * e"
  by (simp add: days_before_year_def Let_def cycle_quotients [OF assms])

lemma year_of_day_correct:
  assumes "year_of_day d = (y, yd)"
  shows "d = days_before_year y + yd" "0 \<le> yd" "yd < year_length y"
proof -
  obtain a b c e where p:
    "y = 400 * a + 100 * b + 4 * c + e + 1"
    "0 \<le> b" "b \<le> 3" "0 \<le> c" "c \<le> 24" "0 \<le> e" "e \<le> 3"
    "d = 146097 * a + 36524 * b + 1461 * c + 365 * e + yd"
    "0 \<le> yd" "yd \<le> 365" "yd = 365 \<Longrightarrow> e = 3 \<and> (c < 24 \<or> b = 3)"
    using year_of_day_parts [OF assms] by blast
  show "d = days_before_year y + yd"
    using p by (simp add: days_before_year_cycles)
  show "0 \<le> yd" by (rule p)
  show "yd < year_length y"
  proof (cases "yd = 365")
    case True
    with p have "e = 3" "c < 24 \<or> b = 3" by auto
    have y: "y = 4 * (100 * a + 25 * b + (c + 1))"
      using p(1) \<open>e = 3\<close> by simp
    have "is_leap y"
    proof (cases "c < 24")
      case True
      have "y mod 4 = 0" by (simp add: y)
      moreover have "y mod 100 \<noteq> 0"
      proof -
        have "y = 100 * (4 * a + b) + 4 * (c + 1)" using y by simp
        then have "y mod 100 = 4 * (c + 1)" using True p(4) by (simp only: mod_mult_self4) simp
        then show ?thesis using p(4) by simp
      qed
      ultimately show ?thesis by (simp add: is_leap_def)
    next
      case False
      with p \<open>c < 24 \<or> b = 3\<close> have "c = 24" "b = 3" by auto
      then have "y = 400 * (a + 1)" using y by simp
      then show ?thesis by (simp add: is_leap_def)
    qed
    then show ?thesis using True by (simp add: year_length_def)
  next
    case False
    then show ?thesis using p(10) by (simp add: year_length_def)
  qed
qed

lemma is_leap_iff: "is_leap y \<longleftrightarrow> 4 dvd y \<and> (\<not> 100 dvd y \<or> 400 dvd y)"
  by (simp add: is_leap_def dvd_eq_mod_eq_0)

lemma div_pred:
  assumes k: "0 < k"
  shows "(y :: int) div k = (y - 1) div k + (if k dvd y then 1 else 0)"
proof -
  have y: "y = k * (y div k) + y mod k" and r: "0 \<le> y mod k" "y mod k < k"
    using k by simp_all
  show ?thesis
  proof (cases "y mod k = 0")
    case True
    have "y - 1 = k * (y div k - 1) + (k - 1)" using y True by (simp add: right_diff_distrib)
    then have "(y - 1) div k = y div k - 1"
      by (rule int_div_pos_eq) (use k in simp_all)
    then show ?thesis using True by (simp add: dvd_eq_mod_eq_0)
  next
    case False
    have "y - 1 = k * (y div k) + (y mod k - 1)" using y by simp
    then have "(y - 1) div k = y div k"
      by (rule int_div_pos_eq) (use r False in simp_all)
    then show ?thesis using False by (simp add: dvd_eq_mod_eq_0)
  qed
qed

lemma leap_count:
  "(R \<longrightarrow> Q) \<Longrightarrow> (Q \<longrightarrow> P) \<Longrightarrow>
   (if P \<and> (\<not> Q \<or> R) then 366 else 365) =
   365 + (if P then 1 else 0) - (if Q then 1 else 0) + (if R then 1 else 0 :: int)"
  by (cases P; cases Q; cases R) simp_all

lemma days_before_year_Suc: "days_before_year (y + 1) = days_before_year y + year_length y"
proof -
  have c: "400 dvd y \<longrightarrow> 100 dvd y"
    by (rule impI, rule dvd_trans [of 100 400 y], simp, assumption)
  have h: "100 dvd y \<longrightarrow> 4 dvd y"
    by (rule impI, rule dvd_trans [of 4 100 y], simp, assumption)
  have l: "year_length y = 365 + (if 4 dvd y then 1 else 0) - (if 100 dvd y then 1 else 0)
      + (if 400 dvd y then 1 else 0)"
    unfolding year_length_def is_leap_iff by (rule leap_count [OF c h])
  have q: "y div 4 = (y - 1) div 4 + (if 4 dvd y then 1 else 0)"
    "y div 100 = (y - 1) div 100 + (if 100 dvd y then 1 else 0)"
    "y div 400 = (y - 1) div 400 + (if 400 dvd y then 1 else 0)"
    by (rule div_pred; simp)+
  have "365 * y + (A + p) - (B + q) + (C + r) = 365 * (y - 1) + A - B + C + (365 + p - q + r)"
    for A B C p q r :: int
    by simp
  then show ?thesis
    unfolding days_before_year_def Let_def add_diff_cancel_right' q l by this
qed

lemma days_before_year_mono: "y < y' \<Longrightarrow> days_before_year y + year_length y \<le> days_before_year y'"
proof (induction "nat (y' - y)" arbitrary: y')
  case 0
  then show ?case by simp
next
  case (Suc n)
  show ?case
  proof (cases "y' = y + 1")
    case True
    then show ?thesis by (simp add: days_before_year_Suc)
  next
    case False
    then have "days_before_year y + year_length y \<le> days_before_year (y' - 1)"
      using Suc by (intro Suc.hyps(1)) auto
    also have "\<dots> \<le> days_before_year y'"
      using days_before_year_Suc [of "y' - 1"] by (simp add: year_length_def)
    finally show ?thesis .
  qed
qed

lemma month_of_day_correct:
  assumes "month_of_day ls d = (m, x)" "0 \<le> d" "d < sum_list ls"
  shows "1 \<le> m \<and> m \<le> int (length ls) \<and> 1 \<le> x \<and> x \<le> month_length ls m \<and>
         d = days_before_month ls m + (x - 1)"
  using assms
proof (induction ls arbitrary: d m x)
  case Nil
  then show ?case by simp
next
  case (Cons l ls)
  show ?case
  proof (cases "d < l")
    case True
    with Cons.prems show ?thesis by auto
  next
    case False
    obtain m' where m': "month_of_day ls (d - l) = (m', x)" "m = m' + 1"
      using Cons.prems(1) False by (auto split: prod.splits)
    have "1 \<le> m' \<and> m' \<le> int (length ls) \<and> 1 \<le> x \<and> x \<le> month_length ls m' \<and>
        d - l = days_before_month ls m' + (x - 1)"
      using Cons.prems False by (intro Cons.IH [OF m'(1)]) auto
    with m'(2) show ?thesis by auto
  qed
qed

lemma sum_month_lengths: "sum_list (month_lengths (is_leap y)) = year_length y"
  by (simp add: month_lengths_def year_length_def)

lemma month_lengths_bounds: "l \<in> set (month_lengths b) \<Longrightarrow> 0 < l \<and> l \<le> 31"
  by (auto simp: month_lengths_def)

lemma month_length_le: "0 \<le> k \<Longrightarrow> (\<And>l. l \<in> set ls \<Longrightarrow> l \<le> k) \<Longrightarrow> month_length ls m \<le> k"
  by (induction ls m rule: month_length.induct) auto

text \<open>A date as the package shows it: month and day within the calendar.\<close>

definition valid_date :: "int \<Rightarrow> int \<Rightarrow> int \<Rightarrow> bool" where
  "valid_date y m day \<longleftrightarrow> 1 \<le> m \<and> m \<le> 12 \<and> 1 \<le> day \<and>
     day \<le> month_length (month_lengths (is_leap y)) m"

lemma civil_of_day_correct:
  assumes "civil_of_day d = (y, m, day)"
  shows "valid_date y m day" "day_of_civil y m day = d"
proof -
  obtain yd where yd: "year_of_day d = (y, yd)"
    "month_of_day (month_lengths (is_leap y)) yd = (m, day)"
    using assms by (auto simp: civil_of_day_def split: prod.splits)
  note c = year_of_day_correct [OF yd(1)]
  have len: "length (month_lengths (is_leap y)) = 12"
    by (simp add: month_lengths_def)
  have "1 \<le> m \<and> m \<le> int (length (month_lengths (is_leap y))) \<and> 1 \<le> day \<and>
      day \<le> month_length (month_lengths (is_leap y)) m \<and>
      yd = days_before_month (month_lengths (is_leap y)) m + (day - 1)"
    by (rule month_of_day_correct [OF yd(2)]) (use c in \<open>simp_all add: sum_month_lengths\<close>)
  then show "valid_date y m day" "day_of_civil y m day = d"
    using c(1) len by (auto simp: valid_date_def day_of_civil_def)
qed

lemma days_before_month_nonneg: "(\<And>l. l \<in> set ls \<Longrightarrow> 0 < l) \<Longrightarrow> 0 \<le> days_before_month ls (m :: int)"
proof (induction ls arbitrary: m)
  case (Cons l ls)
  have "0 \<le> days_before_month ls (m - 1)" using Cons by auto
  moreover have "0 < l" using Cons.prems by simp
  ultimately show ?case by simp
qed simp

lemma days_before_month_mono:
  assumes "\<And>l. l \<in> set ls \<Longrightarrow> 0 < l" "1 \<le> m" "m < m'" "m' \<le> int (length ls)"
  shows "days_before_month ls m + month_length ls m \<le> days_before_month ls m'"
  using assms
proof (induction ls arbitrary: m m')
  case Nil
  then show ?case by simp
next
  case (Cons l ls)
  show ?case
  proof (cases "m = 1")
    case True
    have "0 \<le> days_before_month ls k" for k
      using Cons.prems(1) by (intro days_before_month_nonneg) auto
    with True Cons.prems show ?thesis by auto
  next
    case False
    then have "days_before_month ls (m - 1) + month_length ls (m - 1) \<le> days_before_month ls (m' - 1)"
      using Cons.prems by (intro Cons.IH) auto
    with False Cons.prems show ?thesis by auto
  qed
qed

lemma days_in_year:
  assumes "valid_date y m day"
  shows "0 \<le> days_before_month (month_lengths (is_leap y)) m + (day - 1)"
    and "days_before_month (month_lengths (is_leap y)) m + (day - 1) < year_length y"
proof -
  have "1 \<le> m" "m \<le> 12"
    using assms by (simp_all add: valid_date_def)
  then have "m = 1 \<or> m = 2 \<or> m = 3 \<or> m = 4 \<or> m = 5 \<or> m = 6 \<or> m = 7 \<or> m = 8 \<or> m = 9 \<or>
      m = 10 \<or> m = 11 \<or> m = 12"
    by presburger
  then show "0 \<le> days_before_month (month_lengths (is_leap y)) m + (day - 1)"
    "days_before_month (month_lengths (is_leap y)) m + (day - 1) < year_length y"
    using assms by (auto simp: valid_date_def month_lengths_def year_length_def split: if_splits)
qed

text \<open>The order of dates is the order of days.\<close>

definition date_less :: "int \<times> int \<times> int \<Rightarrow> int \<times> int \<times> int \<Rightarrow> bool" where
  "date_less a b \<longleftrightarrow>
     (case (a, b) of ((y, m, d), (y', m', d')) \<Rightarrow>
        y < y' \<or> (y = y' \<and> (m < m' \<or> (m = m' \<and> d < d'))))"

lemma day_of_civil_less:
  assumes "valid_date y m d" "valid_date y' m' d'" "date_less (y, m, d) (y', m', d')"
  shows "day_of_civil y m d < day_of_civil y' m' d'"
proof (cases "y < y'")
  case True
  then show ?thesis
    using days_in_year [OF assms(1)] days_in_year [OF assms(2)] days_before_year_mono [OF True]
    by (simp add: day_of_civil_def)
next
  case False
  with assms(3) have y: "y' = y" and c: "m < m' \<or> (m = m' \<and> d < d')"
    by (auto simp: date_less_def)
  show ?thesis
  proof (cases "m < m'")
    case True
    have "days_before_month (month_lengths (is_leap y)) m + month_length (month_lengths (is_leap y)) m
        \<le> days_before_month (month_lengths (is_leap y)) m'"
      using assms(1,2) True month_lengths_bounds
      by (intro days_before_month_mono) (auto simp: valid_date_def y month_lengths_def split: if_splits)
    then show ?thesis
      using assms(1,2) by (simp add: day_of_civil_def y valid_date_def)
  next
    case False
    with c show ?thesis by (simp add: day_of_civil_def y)
  qed
qed

lemma civil_of_day_less: "date_less (civil_of_day d) (civil_of_day d') \<longleftrightarrow> d < d'"
proof -
  have *: "date_less (civil_of_day a) (civil_of_day b) \<Longrightarrow> a < b" for a b
    by (metis civil_of_day_correct day_of_civil_less prod_cases3)
  have "civil_of_day a = civil_of_day b \<Longrightarrow> a = b" for a b
    by (metis civil_of_day_correct(2) prod_cases3)
  moreover have "date_less x y \<or> x = y \<or> date_less y x" for x y
    by (auto simp: date_less_def split: prod.splits)
  ultimately show ?thesis
    using * by (metis less_asym less_irrefl linorder_neqE)
qed

section \<open>Times and durations\<close>

record go_time =
  nanos :: int
  zone :: int

definition second :: int where "second = 1000000000"

text \<open>\<open>time.Time{}\<close>: 1 January of year 1, UTC.\<close>

definition zero_time :: go_time where
  "zero_time = \<lparr> nanos = - 62135596800 * second, zone = 0 \<rparr>"

definition is_zero_time :: "go_time \<Rightarrow> bool" where
  "is_zero_time t \<longleftrightarrow> nanos t = nanos zero_time"

definition time_add :: "go_time \<Rightarrow> int \<Rightarrow> go_time" where
  "time_add t d = t\<lparr> nanos := nanos t + d \<rparr>"

text \<open>\<open>t.Sub(u)\<close> saturates at the ends of an int64.\<close>

definition time_sub :: "go_time \<Rightarrow> go_time \<Rightarrow> int" where
  "time_sub t u = max int64_min (min int64_max (nanos t - nanos u))"

definition time_after :: "go_time \<Rightarrow> go_time \<Rightarrow> bool" where
  "time_after t u \<longleftrightarrow> nanos u < nanos t"

definition time_before :: "go_time \<Rightarrow> go_time \<Rightarrow> bool" where
  "time_before t u \<longleftrightarrow> nanos t < nanos u"

text \<open>\<open>int64(d.Seconds())\<close>: whole seconds, towards zero. (The float64 in between is exact
  enough for every duration below some weeks.)\<close>

definition whole_seconds :: "int \<Rightarrow> int" where
  "whole_seconds d = sgn d * (\<bar>d\<bar> div second)"

text \<open>\<open>t.Unix()\<close>\<close>

definition unix :: "go_time \<Rightarrow> int" where
  "unix t = nanos t div second"

section \<open>Durations\<close>

text \<open>
  \<open>time.ParseDuration\<close>: an optional sign, then numbers with a unit each (\<open>1h30m\<close>, \<open>1.5s\<close>), or
  the text 0. A fraction is cut to whole nanoseconds (the package computes it in float64).
\<close>

definition duration_unit :: "string \<Rightarrow> int option" where
  "duration_unit u =
     map_of [(''ns'', 1), (''us'', 1000), (''ms'', 1000000), (''s'', 1000000000),
             (''m'', 60000000000), (''h'', 3600000000000)] u"

definition duration_max :: int where "duration_max = 2 ^ 63"

definition unit_char :: "char \<Rightarrow> bool" where
  "unit_char c \<longleftrightarrow> c \<noteq> CHR ''.'' \<and> digit_val c = None"

text \<open>The digits after an optional point, and the rest.\<close>

fun duration_fraction :: "string \<Rightarrow> string \<times> string" where
  "duration_fraction (p # cs) =
     (if p = CHR ''.'' then (takeWhile is_digit cs, dropWhile is_digit cs)
      else ([], p # cs))"
| "duration_fraction [] = ([], [])"

text \<open>One number with its unit: its nanoseconds and the rest.\<close>

definition duration_term :: "string \<Rightarrow> (int \<times> string) option" where
  "duration_term s =
     (let ds = takeWhile is_digit s;
          (fs, r) = duration_fraction (dropWhile is_digit s);
          u = takeWhile unit_char r;
          v = int (fst (scan_digits 0 ds))
      in if (ds = [] \<and> fs = []) \<or> u = [] then None
         else case duration_unit u of
                None \<Rightarrow> None
              | Some unit \<Rightarrow>
                  let t = v * unit + int (fst (scan_digits 0 fs)) * unit div 10 ^ length fs
                  in if v * unit > duration_max \<or> t > duration_max then None
                     else Some (t, dropWhile unit_char r))"

text \<open>Every term consumes its unit, so the length of the text bounds the number of terms.\<close>

fun duration_terms :: "nat \<Rightarrow> int \<Rightarrow> string \<Rightarrow> int option" where
  "duration_terms fuel d [] = Some d"
| "duration_terms 0 d (c # cs) = None"
| "duration_terms (Suc fuel) d (c # cs) =
     (case duration_term (c # cs) of
        None \<Rightarrow> None
      | Some (t, r) \<Rightarrow> if d + t > duration_max then None else duration_terms fuel (d + t) r)"

definition parse_duration :: "string \<Rightarrow> int option" where
  "parse_duration s =
     (let neg = (s \<noteq> [] \<and> hd s = CHR ''-'');
          r = (if s \<noteq> [] \<and> (hd s = CHR ''-'' \<or> hd s = CHR ''+'') then tl s else s)
      in if r = ''0'' then Some 0
         else if r = [] then None
         else case duration_terms (length r) 0 r of
                None \<Rightarrow> None
              | Some d \<Rightarrow> if neg then Some (- d) else if d > int64_max then None else Some d)"

definition parse_duration_error :: "string \<Rightarrow> go_error" where
  "parse_duration_error s = ErrorString (''time: invalid duration '' @ s)"

lemma duration_fraction_length: "length (snd (duration_fraction s)) \<le> length s"
  by (cases s) (auto intro: le_trans [OF length_dropWhile_le])

lemma duration_term_shorter: "duration_term s = Some (t, r) \<Longrightarrow> length r < length s"
proof -
  assume a: "duration_term s = Some (t, r)"
  define q where "q = dropWhile is_digit s"
  obtain fs x where x: "duration_fraction q = (fs, x)" by (cases "duration_fraction q") auto
  have r: "takeWhile unit_char x \<noteq> []" "r = dropWhile unit_char x"
    using a by (auto simp: duration_term_def Let_def q_def [symmetric] x
        split: option.splits if_splits)
  have "length x = length (takeWhile unit_char x) + length r"
    using r(2) by (metis length_append takeWhile_dropWhile_id)
  moreover have "length x \<le> length s"
    using duration_fraction_length [of q] x length_dropWhile_le [of _ s]
    by (metis le_trans q_def snd_conv)
  ultimately show ?thesis using r(1) by (cases "takeWhile unit_char x") auto
qed

text \<open>More fuel than the length of the text changes nothing.\<close>

lemma duration_terms_fuel:
  "length s \<le> n \<Longrightarrow> length s \<le> n' \<Longrightarrow> duration_terms n d s = duration_terms n' d s"
proof (induction n d s arbitrary: n' rule: duration_terms.induct)
  case (3 fuel d c cs)
  then obtain m where m: "n' = Suc m" by (cases n') auto
  show ?case
  proof (cases "duration_term (c # cs)")
    case None
    then show ?thesis by (simp add: m)
  next
    case (Some p)
    obtain t r where p: "p = (t, r)" by (cases p) auto
    have "length r \<le> fuel" "length r \<le> m"
      using duration_term_shorter [OF Some [unfolded p]] 3(2,3) m by auto
    then have "\<not> d + t > duration_max \<Longrightarrow> duration_terms fuel (d + t) r = duration_terms m (d + t) r"
      using 3(1) [OF Some] p by blast
    then show ?thesis unfolding m duration_terms.simps Some p by (cases "d + t > duration_max") auto
  qed
qed auto

section \<open>RFC 3339\<close>

text \<open>Seconds since 1 January of year 1 on the clock of the time's own zone.\<close>

definition wall_seconds :: "go_time \<Rightarrow> int" where
  "wall_seconds t = unix t + zone t + 62135596800"

definition show_year :: "int \<Rightarrow> string" where
  "show_year y =
     (if y < 0 then CHR ''-'' # show_width 4 (nat (- y))
      else if y < 10000 then show_width 4 (nat y) else show_nat (nat y))"

definition show2 :: "int \<Rightarrow> string" where
  "show2 n = show_width 2 (nat n)"

lemma show_year_code [code]:
  "show_year y =
     (if y < 0 then CHR ''-'' # int_width 4 (- y)
      else if y < 10000 then int_width 4 y else show_nat (nat y))"
  using int_width_show_width [of 4 "nat y"] int_width_show_width [of 4 "nat (- y)"]
  by (cases "y < 0") (simp_all add: show_year_def)

lemma show2_code [code]: "show2 n = int_width 2 (max 0 n)"
  using int_width_show_width [of 2 "nat n"] by (cases "0 \<le> n") (simp_all add: show2_def)

definition show_zone :: "int \<Rightarrow> string" where
  "show_zone off =
     (if off = 0 then ''Z''
      else (let m = \<bar>off\<bar> div 60
            in (if off < 0 then ''-'' else ''+'') @ show2 (m div 60) @ '':'' @ show2 (m mod 60)))"

definition format_wall :: "int \<Rightarrow> string" where
  "format_wall s =
     (case civil_of_day (s div 86400) of (y, m, d) \<Rightarrow>
        let r = s mod 86400 in
        show_year y @ ''-'' @ show2 m @ ''-'' @ show2 d @ ''T'' @
        show2 (r div 3600) @ '':'' @ show2 (r mod 3600 div 60) @ '':'' @ show2 (r mod 60))"

definition format_rfc3339 :: "go_time \<Rightarrow> string" where
  "format_rfc3339 t = format_wall (wall_seconds t) @ show_zone (zone t)"

text \<open>The parser reads exactly \<open>k\<close> digits, or a literal character, and gives the rest. The
  hour may have one digit, the second may be followed by a fraction of which nine digits
  count, and zones up to 24 hours and 60 minutes are let through, as the package does.\<close>

fun scan_width :: "nat \<Rightarrow> int \<Rightarrow> string \<Rightarrow> (int \<times> string) option" where
  "scan_width 0 acc s = Some (acc, s)"
| "scan_width (Suc k) acc [] = None"
| "scan_width (Suc k) acc (c # cs) =
     (case digit_val c of None \<Rightarrow> None | Some d \<Rightarrow> scan_width k (acc * 10 + int d) cs)"

fun expect :: "char \<Rightarrow> string \<Rightarrow> string option" where
  "expect c [] = None"
| "expect c (d # s) = (if c = d then Some s else None)"

definition scan_hour :: "string \<Rightarrow> (int \<times> string) option" where
  "scan_hour s = (case scan_width 2 0 s of Some r \<Rightarrow> Some r | None \<Rightarrow> scan_width 1 0 s)"

text \<open>The nanoseconds of a list of digits after the decimal point.\<close>

definition fraction_nanos :: "string \<Rightarrow> int" where
  "fraction_nanos ds =
     (let n = take 9 ds in int (fst (scan_digits 0 n)) * 10 ^ (9 - length n))"

fun scan_fraction :: "string \<Rightarrow> int \<times> string" where
  "scan_fraction (p # c # cs) =
     (if (p = CHR ''.'' \<or> p = CHR '','') \<and> is_digit c
      then (fraction_nanos (takeWhile is_digit (c # cs)), dropWhile is_digit (c # cs))
      else (0, p # c # cs))"
| "scan_fraction s = (0, s)"

definition scan_zone :: "string \<Rightarrow> (int \<times> string) option" where
  "scan_zone s =
     (case s of
        [] \<Rightarrow> None
      | c # cs \<Rightarrow>
          if c = CHR ''Z'' then Some (0, cs)
          else if c = CHR ''+'' \<or> c = CHR ''-'' then
            do { (h, r) \<leftarrow> scan_width 2 0 cs;
                 r \<leftarrow> expect CHR '':'' r;
                 (m, r) \<leftarrow> scan_width 2 0 r;
                 if h \<le> 24 \<and> m \<le> 60
                 then Some ((if c = CHR ''-'' then - 1 else 1) * (h * 3600 + m * 60), r)
                 else None }
          else None)"

definition parse_rfc3339 :: "string \<Rightarrow> go_time option" where
  "parse_rfc3339 s = do {
     (y, r) \<leftarrow> scan_width 4 0 s;
     r \<leftarrow> expect CHR ''-'' r;
     (m, r) \<leftarrow> scan_width 2 0 r;
     r \<leftarrow> expect CHR ''-'' r;
     (d, r) \<leftarrow> scan_width 2 0 r;
     r \<leftarrow> expect CHR ''T'' r;
     (h, r) \<leftarrow> scan_hour r;
     r \<leftarrow> expect CHR '':'' r;
     (mi, r) \<leftarrow> scan_width 2 0 r;
     r \<leftarrow> expect CHR '':'' r;
     (sc, r) \<leftarrow> scan_width 2 0 r;
     let (ns, r) = scan_fraction r;
     (off, r) \<leftarrow> scan_zone r;
     if r = [] \<and> valid_date y m d \<and> h < 24 \<and> mi < 60 \<and> sc < 60
     then Some \<lparr> nanos = (day_of_civil y m d * 86400 + h * 3600 + mi * 60 + sc
                            - 62135596800 - off) * second + ns,
                 zone = off \<rparr>
     else None }"

text \<open>The error of a failed parse. Its text is the package's; only its presence matters here.\<close>

definition parse_time_error :: "string \<Rightarrow> go_error" where
  "parse_time_error s = ServiceError ''time.ParseError'' (''parsing time '' @ s) []"

section \<open>Parsing what was formatted, and the order of texts\<close>

text \<open>Times the program handles: years 1 to 9999 in their zone, a zone of whole minutes and
  less than a day. \<open>to_second\<close> drops the fraction of a second.\<close>

definition zone_ok :: "int \<Rightarrow> bool" where
  "zone_ok off \<longleftrightarrow> off mod 60 = 0 \<and> \<bar>off\<bar> < 86400"

definition in_era :: "go_time \<Rightarrow> bool" where
  "in_era t \<longleftrightarrow> zone_ok (zone t) \<and> 0 \<le> wall_seconds t \<and> wall_seconds t < 315537897600"

definition to_second :: "go_time \<Rightarrow> go_time" where
  "to_second t = t\<lparr> nanos := unix t * second \<rparr>"

lemma scan_width_show_width:
  "n < 10 ^ k \<Longrightarrow> scan_width k acc (show_width k n @ rest) = Some (acc * 10 ^ k + int n, rest)"
proof (induction k arbitrary: n rest)
  case 0
  then show ?case by simp
next
  case (Suc k)
  have b: "n div 10 < 10 ^ k"
    using Suc.prems by (simp add: less_mult_imp_div_less mult.commute)
  have snoc: "scan_width (Suc j) a (show_width j q @ c # rest) =
      (case scan_width j a (show_width j q @ c # rest) of Some (v, c' # r) \<Rightarrow>
         (case digit_val c' of Some d \<Rightarrow> Some (v * 10 + int d, r) | None \<Rightarrow> None) | _ \<Rightarrow> None)"
    if "q < 10 ^ j" for j a q c
  proof -
    have dig: "\<forall>x \<in> set xs. digit_val x \<noteq> None \<Longrightarrow> length xs = j \<Longrightarrow>
        scan_width (Suc j) a (xs @ c # rest) =
        (case scan_width j a (xs @ c # rest) of Some (v, c' # r) \<Rightarrow>
         (case digit_val c' of Some d \<Rightarrow> Some (v * 10 + int d, r) | None \<Rightarrow> None) | _ \<Rightarrow> None)"
      for xs :: string
    proof (induction xs arbitrary: j a)
      case Nil
      then show ?case by (auto split: option.splits)
    next
      case (Cons x xs)
      then obtain d where d: "digit_val x = Some d" by auto
      from Cons.prems obtain i where i: "j = Suc i" "length xs = i" by auto
      show ?case using Cons.IH [of i "a * 10 + int d"] Cons.prems i d by simp
    qed
    show ?thesis
      using show_width_digits by (intro dig) auto
  qed
  have q: "int (n div 10) * 10 + int (n mod 10) = int n"
    using div_mult_mod_eq [of n 10] by linarith
  show ?case
    using snoc [OF b] Suc.IH [OF b] q by (simp add: algebra_simps)
qed

lemma scan_width_show2:
  "0 \<le> n \<Longrightarrow> n < 100 \<Longrightarrow> scan_width 2 0 (show2 n @ rest) = Some (n, rest)"
  using scan_width_show_width [of "nat n" 2 0 rest] by (simp add: show2_def nat_less_iff)

lemma scan_width_show_year:
  "0 \<le> y \<Longrightarrow> y < 10000 \<Longrightarrow> scan_width 4 0 (show_year y @ rest) = Some (y, rest)"
  using scan_width_show_width [of "nat y" 4 0 rest] by (simp add: show_year_def nat_less_iff)

lemma scan_hour_show2:
  "0 \<le> n \<Longrightarrow> n < 100 \<Longrightarrow> scan_hour (show2 n @ rest) = Some (n, rest)"
  by (simp add: scan_hour_def scan_width_show2)

lemma show_zone_cases: "\<exists>c cs. show_zone off = c # cs \<and> c \<noteq> CHR ''.'' \<and> c \<noteq> CHR '',''"
  by (simp add: show_zone_def Let_def)

lemma scan_fraction_show_zone [simp]: "scan_fraction (show_zone off) = (0, show_zone off)"
proof -
  obtain c cs where "show_zone off = c # cs" "c \<noteq> CHR ''.''" "c \<noteq> CHR '',''"
    using show_zone_cases by blast
  then show ?thesis by (cases cs) auto
qed

lemma zone_minutes:
  assumes "zone_ok off"
  shows "(\<bar>off\<bar> div 60 div 60) * 3600 + (\<bar>off\<bar> div 60 mod 60) * 60 = \<bar>off\<bar>"
    and "\<bar>off\<bar> div 60 div 60 < 24" and "0 \<le> \<bar>off\<bar> div 60 div 60"
    and "\<bar>off\<bar> div 60 mod 60 < 60" and "0 \<le> \<bar>off\<bar> div 60 mod 60"
proof -
  have "60 dvd off" using assms by (auto simp: zone_ok_def dvd_eq_mod_eq_0)
  then have "60 dvd \<bar>off\<bar>" by simp
  then have "\<bar>off\<bar> = 60 * (\<bar>off\<bar> div 60)" by simp
  moreover have "\<bar>off\<bar> div 60 = 60 * (\<bar>off\<bar> div 60 div 60) + \<bar>off\<bar> div 60 mod 60" by simp
  ultimately show "(\<bar>off\<bar> div 60 div 60) * 3600 + (\<bar>off\<bar> div 60 mod 60) * 60 = \<bar>off\<bar>"
    by linarith
  have "\<bar>off\<bar> div 60 < 1440"
    using assms \<open>\<bar>off\<bar> = 60 * (\<bar>off\<bar> div 60)\<close> by (simp add: zone_ok_def)
  then show "\<bar>off\<bar> div 60 div 60 < 24" by simp
  show "0 \<le> \<bar>off\<bar> div 60 div 60" by (simp add: pos_imp_zdiv_nonneg_iff)
  show "\<bar>off\<bar> div 60 mod 60 < 60" "0 \<le> \<bar>off\<bar> div 60 mod 60" by simp_all
qed

lemma scan_zone_show_zone:
  assumes "zone_ok off"
  shows "scan_zone (show_zone off) = Some (off, [])"
proof (cases "off = 0")
  case True
  then show ?thesis by (simp add: show_zone_def scan_zone_def)
next
  case False
  define h where "h = \<bar>off\<bar> div 60 div 60"
  define m where "m = \<bar>off\<bar> div 60 mod 60"
  have b: "h * 3600 + m * 60 = \<bar>off\<bar>" "0 \<le> h" "h < 24" "0 \<le> m" "m < 60"
    using zone_minutes [OF assms] by (simp_all only: h_def m_def)
  have z: "show_zone off = (if off < 0 then CHR ''-'' else CHR ''+'') # show2 h @ CHR '':'' # show2 m"
    using False by (simp add: show_zone_def Let_def h_def m_def)
  have sh: "scan_width 2 0 (show2 h @ CHR '':'' # show2 m) = Some (h, CHR '':'' # show2 m)"
    using b by (intro scan_width_show2) simp_all
  have sm: "scan_width 2 0 (show2 m) = Some (m, [])"
    using scan_width_show2 [of m "[]"] b by simp
  have s: "(if off < 0 then - 1 else 1) * (h * 3600 + m * 60) = off"
    using b(1) by (simp add: abs_if split: if_splits)
  show ?thesis
  proof (cases "off < 0")
    case True
    then show ?thesis using s b(3,5) by (simp add: z scan_zone_def sh sm)
  next
    case False
    then show ?thesis using s b(3,5) by (simp add: z scan_zone_def sh sm)
  qed
qed

lemma year_bounds:
  assumes "civil_of_day d = (y, m, day)" "0 \<le> d" "d < 3652059"
  shows "1 \<le> y" "y < 10000"
proof -
  obtain yd where yd: "year_of_day d = (y, yd)"
    using assms(1) by (auto simp: civil_of_day_def split: prod.splits)
  note c = year_of_day_correct [OF yd]
  show "1 \<le> y"
  proof (rule ccontr)
    assume "\<not> 1 \<le> y"
    then have "days_before_year y + year_length y \<le> days_before_year 1"
      by (intro days_before_year_mono) simp
    moreover have "days_before_year 1 = 0" by (simp add: days_before_year_def)
    ultimately show False using c assms(2) by linarith
  qed
  show "y < 10000"
  proof (rule ccontr)
    assume "\<not> y < 10000"
    then have "days_before_year 9999 + year_length 9999 \<le> days_before_year y"
      by (intro days_before_year_mono) simp
    moreover have "days_before_year 9999 + year_length 9999 = 3652059"
      by (simp add: days_before_year_def year_length_def is_leap_def)
    ultimately show False using c assms(3) by linarith
  qed
qed

lemma valid_date_bounds:
  assumes "valid_date y m d"
  shows "1 \<le> m" "m \<le> 12" "1 \<le> d" "d \<le> 31"
  using assms month_length_le [of 31 "month_lengths (is_leap y)" m] month_lengths_bounds
  by (auto simp: valid_date_def intro: order_trans)

lemma sod_parts:
  fixes r :: int
  assumes "0 \<le> r" "r < 86400"
  shows "0 \<le> r div 3600" "r div 3600 < 24" "0 \<le> r mod 3600 div 60" "r mod 3600 div 60 < 60"
    "0 \<le> r mod 60" "r mod 60 < 60"
    "r div 3600 * 3600 + r mod 3600 div 60 * 60 + r mod 60 = r"
proof -
  have a: "r = 3600 * (r div 3600) + r mod 3600" "0 \<le> r mod 3600" "r mod 3600 < 3600" by simp_all
  have b: "r mod 3600 = 60 * (r mod 3600 div 60) + r mod 3600 mod 60" by simp
  have "r mod 3600 mod 60 = r mod 60" by (rule mod_mod_cancel) simp
  with a b show "r div 3600 * 3600 + r mod 3600 div 60 * 60 + r mod 60 = r" by linarith
  show "0 \<le> r div 3600" "0 \<le> r mod 3600 div 60"
    using assms(1) a(2) by (simp_all add: pos_imp_zdiv_nonneg_iff)
  show "0 \<le> r mod 60" "r mod 60 < 60" by simp_all
  show "r div 3600 < 24" using a(1,2) assms(2) by linarith
  have "0 \<le> r mod 3600 mod 60" by simp
  with b a(3) show "r mod 3600 div 60 < 60" by linarith
qed

lemma parse_format_rfc3339:
  assumes "in_era t"
  shows "parse_rfc3339 (format_rfc3339 t) = Some (to_second t)"
proof -
  define s where "s = wall_seconds t"
  define d where "d = s div 86400"
  define r where "r = s mod 86400"
  have s: "s = d * 86400 + r" "0 \<le> r" "r < 86400" by (simp_all add: d_def r_def)
  have era: "0 \<le> s" "s < 315537897600" and z: "zone_ok (zone t)"
    using assms by (simp_all add: in_era_def s_def)
  have d: "0 \<le> d" "d < 3652059" using s era by linarith+
  obtain y m day where c: "civil_of_day d = (y, m, day)" by (rule prod_cases3)
  note v = civil_of_day_correct [OF c] and yb = year_bounds [OF c d]
  note db = valid_date_bounds [OF v(1)] and p = sod_parts [OF s(2,3)]
  define h where "h = r div 3600"
  define mi where "mi = r mod 3600 div 60"
  define sc where "sc = r mod 60"
  note p = p [folded h_def mi_def sc_def]
  have f: "format_rfc3339 t = show_year y @ CHR ''-'' # show2 m @ CHR ''-'' # show2 day @ CHR ''T'' #
      show2 h @ CHR '':'' # show2 mi @ CHR '':'' # show2 sc @ show_zone (zone t)"
    by (simp add: format_rfc3339_def format_wall_def Let_def s_def [symmetric] d_def [symmetric]
        r_def [symmetric] c h_def mi_def sc_def)
  have *: "d * 86400 + h * 3600 + mi * 60 + sc - 62135596800 - zone t = unix t"
    using s(1) p(7) by (simp add: s_def wall_seconds_def)
  show ?thesis
    unfolding parse_rfc3339_def f
    using yb db p(1-6) v *
    by (simp add: scan_width_show_year scan_width_show2 scan_hour_show2
        scan_zone_show_zone [OF z] to_second_def)
qed

lemma show2_less:
  "0 \<le> a \<Longrightarrow> a < 100 \<Longrightarrow> 0 \<le> b \<Longrightarrow> b < 100 \<Longrightarrow>
   str_less (show2 a @ x) (show2 b @ y) \<longleftrightarrow> a < b \<or> (a = b \<and> str_less x y)"
  using show_width_less [of "nat a" 2 "nat b"] show_width_inject [of "nat a" 2 "nat b"]
  by (auto simp: show2_def str_less_append nat_less_iff eq_nat_nat_iff)

lemma show_year_less:
  "0 \<le> a \<Longrightarrow> a < 10000 \<Longrightarrow> 0 \<le> b \<Longrightarrow> b < 10000 \<Longrightarrow>
   str_less (show_year a @ x) (show_year b @ y) \<longleftrightarrow> a < b \<or> (a = b \<and> str_less x y)"
  using show_width_less [of "nat a" 4 "nat b"] show_width_inject [of "nat a" 4 "nat b"]
  by (auto simp: show_year_def str_less_append nat_less_iff eq_nat_nat_iff)

lemma str_less_Cons_same [simp]: "str_less (c # x) (c # y) \<longleftrightarrow> str_less x y"
  by simp

lemma day_second_less:
  fixes d d' r r' :: int
  assumes "0 \<le> r" "r < k" "0 \<le> r'" "r' < k"
  shows "d * k + r < d' * k + r' \<longleftrightarrow> d < d' \<or> (d = d' \<and> r < r')"
proof (cases d d' rule: linorder_cases)
  case less
  then have "(d + 1) * k \<le> d' * k" using assms by (intro mult_right_mono) auto
  then show ?thesis using assms less by (simp add: distrib_right)
next
  case greater
  then have "(d' + 1) * k \<le> d * k" using assms by (intro mult_right_mono) auto
  then show ?thesis using assms greater by (simp add: distrib_right)
qed simp

text \<open>The text of a date and a time of day, and its order.\<close>

definition show_stamp :: "int \<Rightarrow> int \<Rightarrow> int \<Rightarrow> int \<Rightarrow> int \<Rightarrow> int \<Rightarrow> string \<Rightarrow> string" where
  "show_stamp y m d h mi sc x =
     show_year y @ CHR ''-'' # show2 m @ CHR ''-'' # show2 d @ CHR ''T'' #
     show2 h @ CHR '':'' # show2 mi @ CHR '':'' # show2 sc @ x"

definition stamp_ok :: "int \<Rightarrow> int \<Rightarrow> int \<Rightarrow> int \<Rightarrow> int \<Rightarrow> int \<Rightarrow> bool" where
  "stamp_ok y m d h mi sc \<longleftrightarrow> 0 \<le> y \<and> y < 10000 \<and> 0 \<le> m \<and> m < 100 \<and> 0 \<le> d \<and> d < 100 \<and>
     0 \<le> h \<and> h < 100 \<and> 0 \<le> mi \<and> mi < 100 \<and> 0 \<le> sc \<and> sc < 100"

lemma stamp_okI:
  "1 \<le> y \<Longrightarrow> y < 10000 \<Longrightarrow> 1 \<le> m \<Longrightarrow> m \<le> 12 \<Longrightarrow> 1 \<le> d \<Longrightarrow> d \<le> 31 \<Longrightarrow>
   0 \<le> h \<Longrightarrow> h < 24 \<Longrightarrow> 0 \<le> mi \<Longrightarrow> mi < 60 \<Longrightarrow> 0 \<le> sc \<Longrightarrow> sc < 60 \<Longrightarrow>
   stamp_ok y m d h mi sc"
  by (simp add: stamp_ok_def)

lemma show_stamp_less:
  assumes "stamp_ok y m d h mi sc" "stamp_ok y' m' d' h' mi' sc'"
  shows "str_less (show_stamp y m d h mi sc x) (show_stamp y' m' d' h' mi' sc' x') \<longleftrightarrow>
    y < y' \<or> (y = y' \<and> (m < m' \<or> (m = m' \<and> (d < d' \<or> (d = d' \<and> (h < h' \<or> (h = h' \<and>
      (mi < mi' \<or> (mi = mi' \<and> (sc < sc' \<or> (sc = sc' \<and> str_less x x')))))))))))"
  using assms unfolding show_stamp_def stamp_ok_def
  by (simp only: show2_less show_year_less str_less_Cons_same)

lemma sod_less:
  fixes r r' :: int
  shows "r < r' \<longleftrightarrow> r div 3600 < r' div 3600 \<or> (r div 3600 = r' div 3600 \<and>
     (r mod 3600 div 60 < r' mod 3600 div 60 \<or> (r mod 3600 div 60 = r' mod 3600 div 60 \<and>
       r mod 60 < r' mod 60)))"
proof -
  have m: "q mod 3600 mod 60 = q mod 60" for q :: int by (rule mod_mod_cancel) simp
  have e: "q mod 3600 div 60 * 60 + q mod 60 = q mod 3600" for q :: int
    using div_mult_mod_eq [of "q mod 3600" 60] unfolding m .
  have a: "r < r' \<longleftrightarrow> r div 3600 < r' div 3600 \<or> (r div 3600 = r' div 3600 \<and> r mod 3600 < r' mod 3600)"
    using day_second_less [of "r mod 3600" 3600 "r' mod 3600" "r div 3600" "r' div 3600"] by simp
  have b: "r mod 3600 < r' mod 3600 \<longleftrightarrow> r mod 3600 div 60 < r' mod 3600 div 60 \<or>
      (r mod 3600 div 60 = r' mod 3600 div 60 \<and> r mod 60 < r' mod 60)"
    using day_second_less [of "r mod 60" 60 "r' mod 60" "r mod 3600 div 60" "r' mod 3600 div 60"]
    by (simp only: e pos_mod_sign pos_mod_bound zero_less_numeral simp_thms)
  show ?thesis unfolding a b by (rule refl)
qed

lemma format_wall_stamp:
  assumes "0 \<le> s" "s < 315537897600"
  obtains y m d where "civil_of_day (s div 86400) = (y, m, d)"
    "\<And>x. format_wall s @ x = show_stamp y m d (s mod 86400 div 3600)
       (s mod 86400 mod 3600 div 60) (s mod 86400 mod 60) x"
    "stamp_ok y m d (s mod 86400 div 3600) (s mod 86400 mod 3600 div 60) (s mod 86400 mod 60)"
proof -
  define r where "r = s mod 86400"
  have r: "0 \<le> r" "r < 86400" by (simp_all add: r_def)
  have d: "0 \<le> s div 86400" "s div 86400 < 3652059"
    using assms by (simp_all add: pos_imp_zdiv_nonneg_iff div_less_iff_less_mult)
  obtain y m q where c: "civil_of_day (s div 86400) = (y, m, q)" by (rule prod_cases3)
  note b = year_bounds [OF c d] valid_date_bounds [OF civil_of_day_correct(1) [OF c]]
    sod_parts [OF r]
  have "stamp_ok y m q (r div 3600) (r mod 3600 div 60) (r mod 60)"
    by (rule stamp_okI) (rule b)+
  moreover have "format_wall s @ x = show_stamp y m q (r div 3600) (r mod 3600 div 60) (r mod 60) x"
    for x
    by (simp add: format_wall_def c Let_def show_stamp_def r_def [symmetric])
  ultimately show ?thesis
    using that [of y m q] c by (simp add: r_def)
qed

lemma format_wall_less:
  assumes "0 \<le> s" "s < 315537897600" "0 \<le> s'" "s' < 315537897600"
  shows "str_less (format_wall s @ x) (format_wall s' @ x') \<longleftrightarrow>
         s < s' \<or> (s = s' \<and> str_less x x')"
proof -
  define r r' where "r = s mod 86400" and "r' = s' mod 86400"
  have r: "0 \<le> r" "r < 86400" "0 \<le> r'" "r' < 86400" by (simp_all add: r_def r'_def)
  obtain y m q where c: "civil_of_day (s div 86400) = (y, m, q)"
    and f: "format_wall s @ x = show_stamp y m q (r div 3600) (r mod 3600 div 60) (r mod 60) x"
    and o: "stamp_ok y m q (r div 3600) (r mod 3600 div 60) (r mod 60)"
    using format_wall_stamp [OF assms(1,2)] unfolding r_def by metis
  obtain y' m' q' where c': "civil_of_day (s' div 86400) = (y', m', q')"
    and f': "format_wall s' @ x' = show_stamp y' m' q' (r' div 3600) (r' mod 3600 div 60) (r' mod 60) x'"
    and o': "stamp_ok y' m' q' (r' div 3600) (r' mod 3600 div 60) (r' mod 60)"
    using format_wall_stamp [OF assms(3,4)] unfolding r'_def by metis
  have date: "s div 86400 < s' div 86400 \<longleftrightarrow> y < y' \<or> (y = y' \<and> (m < m' \<or> (m = m' \<and> q < q')))"
    using civil_of_day_less [of "s div 86400" "s' div 86400"] by (simp add: c c' date_less_def)
  have deq: "s div 86400 = s' div 86400 \<longleftrightarrow> y = y' \<and> m = m' \<and> q = q'"
    using c c' civil_of_day_correct(2) by (metis prod.inject)
  have sr: "s = s div 86400 * 86400 + r" "s' = s' div 86400 * 86400 + r'"
    by (simp_all add: r_def r'_def)
  have less: "s < s' \<longleftrightarrow> s div 86400 < s' div 86400 \<or> (s div 86400 = s' div 86400 \<and> r < r')"
    using day_second_less [OF r, of "s div 86400" "s' div 86400"] sr by simp
  have eq: "s = s' \<longleftrightarrow> s div 86400 = s' div 86400 \<and> r = r'"
    using sr by (metis r_def r'_def)
  have req: "r = r' \<longleftrightarrow> r div 3600 = r' div 3600 \<and> r mod 3600 div 60 = r' mod 3600 div 60 \<and>
      r mod 60 = r' mod 60"
    using sod_parts(7) [OF r(1,2)] sod_parts(7) [OF r(3,4)] by metis
  show ?thesis
    unfolding f f' show_stamp_less [OF o o'] less eq date deq sod_less [of r r'] req by blast
qed

text \<open>In one zone the texts compare as the times do, to the second.\<close>

lemma format_rfc3339_less:
  assumes "in_era t" "in_era u" "zone t = zone u"
  shows "str_less (format_rfc3339 t) (format_rfc3339 u) \<longleftrightarrow> unix t < unix u"
  using assms format_wall_less [of "wall_seconds t" "wall_seconds u"]
  by (simp add: format_rfc3339_def in_era_def) (simp add: wall_seconds_def)

lemma format_rfc3339_to_second [simp]: "format_rfc3339 (to_second t) = format_rfc3339 t"
  by (simp add: format_rfc3339_def wall_seconds_def to_second_def unix_def second_def)

lemma to_second_simps [simp]:
  "zone (to_second t) = zone t" "unix (to_second t) = unix t" "in_era (to_second t) = in_era t"
  by (simp_all add: to_second_def unix_def second_def in_era_def wall_seconds_def)

lemma nanos_to_second: "nanos (to_second t) \<le> nanos t" "nanos t < nanos (to_second t) + second"
  using minus_mult_div_eq_mod [of "nanos t" second]
  by (auto simp: to_second_def unix_def second_def mult.commute)

lemma unix_mono: "nanos t \<le> nanos u \<Longrightarrow> unix t \<le> unix u"
  by (simp add: unix_def second_def zdiv_mono1)

end
