(* ===== verification/Dynamo_Client.thy ===== *)
theory Dynamo_Client
  imports Go_Time
begin

text \<open>
  The interface between the operator and DynamoDB: the interface DynamoDBClient of
  dynamodb/manager.go with the request and response types of the AWS SDK it mentions, and
  the Go runtime services (clock, uuid, timers) the package calls. Neither is in the
  repository, so both are parameters: records of state actions over a world the program does
  not see. What the program relies on is stated as contracts in Dynamo_Store.

  Condition, key-condition and update expressions are given as their parse trees; attribute
  names (\<open>#x\<close>) and values (\<open>:x\<close>) are still placeholders in them, resolved against the
  request's two maps as the service does.
\<close>

section \<open>Items and expressions\<close>

datatype attribute_value =
    AvS string
  | AvN string
  | AvBOOL bool
  | AvM "(string \<times> attribute_value) list"
  | AvOther nat

type_synonym item = "(string \<times> attribute_value) list"
type_synonym item_key = "string \<times> string"
type_synonym dynamo_table = "item_key \<Rightarrow> item option"

datatype operand = Path "string list" | Val string

datatype expression =
    Attribute_exists "string list"
  | Attribute_not_exists "string list"
  | Equals operand operand
  | Less operand operand
  | Begins_with operand operand
  | And expression expression
  | Or expression expression

text \<open>\<open>SET path = :value, ...\<close>\<close>

type_synonym update_expression = "(string list \<times> string) list"

definition is_placeholder :: "string \<Rightarrow> bool" where
  "is_placeholder s \<longleftrightarrow> prefix ''#'' s"

definition resolve_name :: "(string \<times> string) list \<Rightarrow> string \<Rightarrow> string option" where
  "resolve_name names s = (if is_placeholder s then map_of names s else Some s)"

definition resolve_path :: "(string \<times> string) list \<Rightarrow> string list \<Rightarrow> string list option" where
  "resolve_path names p = those (map (resolve_name names) p)"

fun get_path :: "item \<Rightarrow> string list \<Rightarrow> attribute_value option" where
  "get_path it [] = None"
| "get_path it [k] = map_of it k"
| "get_path it (k # ks) = (case map_of it k of Some (AvM m) \<Rightarrow> get_path m ks | _ \<Rightarrow> None)"

fun set_path :: "item \<Rightarrow> string list \<Rightarrow> attribute_value \<Rightarrow> item option" where
  "set_path it [] v = None"
| "set_path it [k] v = Some (map_put k v it)"
| "set_path it (k # ks) v =
     (case map_of it k of
        Some (AvM m) \<Rightarrow> (case set_path m ks v of Some m' \<Rightarrow> Some (map_put k (AvM m') it) | None \<Rightarrow> None)
      | _ \<Rightarrow> None)"

definition attr :: "(string \<times> string) list \<Rightarrow> item \<Rightarrow> string list \<Rightarrow> attribute_value option" where
  "attr names it p = (case resolve_path names p of Some ks \<Rightarrow> get_path it ks | None \<Rightarrow> None)"

fun operand_value ::
    "(string \<times> string) list \<Rightarrow> (string \<times> attribute_value) list \<Rightarrow> item \<Rightarrow> operand \<Rightarrow> attribute_value option" where
  "operand_value names vals it (Path p) = attr names it p"
| "operand_value names vals it (Val v) = map_of vals v"

text \<open>Strings compare by bytes; numbers are kept in the service's normal form, so equal
  numbers are equal texts. The program orders no other type.\<close>

fun av_less :: "attribute_value \<Rightarrow> attribute_value \<Rightarrow> bool" where
  "av_less (AvS a) (AvS b) \<longleftrightarrow> str_less a b"
| "av_less _ _ \<longleftrightarrow> False"

fun av_prefix :: "attribute_value \<Rightarrow> attribute_value \<Rightarrow> bool" where
  "av_prefix (AvS a) (AvS b) \<longleftrightarrow> prefix b a"
| "av_prefix _ _ \<longleftrightarrow> False"

definition compare_values ::
    "(attribute_value \<Rightarrow> attribute_value \<Rightarrow> bool) \<Rightarrow> attribute_value option \<Rightarrow> attribute_value option \<Rightarrow> bool" where
  "compare_values R x y \<longleftrightarrow> (case (x, y) of (Some a, Some b) \<Rightarrow> R a b | _ \<Rightarrow> False)"

fun holds ::
    "(string \<times> string) list \<Rightarrow> (string \<times> attribute_value) list \<Rightarrow> item \<Rightarrow> expression \<Rightarrow> bool" where
  "holds names vals it (Attribute_exists p) \<longleftrightarrow> attr names it p \<noteq> None"
| "holds names vals it (Attribute_not_exists p) \<longleftrightarrow> attr names it p = None"
| "holds names vals it (Equals a b) \<longleftrightarrow>
     compare_values (=) (operand_value names vals it a) (operand_value names vals it b)"
| "holds names vals it (Less a b) \<longleftrightarrow>
     compare_values av_less (operand_value names vals it a) (operand_value names vals it b)"
| "holds names vals it (Begins_with a b) \<longleftrightarrow>
     compare_values av_prefix (operand_value names vals it a) (operand_value names vals it b)"
| "holds names vals it (And c d) \<longleftrightarrow> holds names vals it c \<and> holds names vals it d"
| "holds names vals it (Or c d) \<longleftrightarrow> holds names vals it c \<or> holds names vals it d"

fun apply_update ::
    "(string \<times> string) list \<Rightarrow> (string \<times> attribute_value) list \<Rightarrow> update_expression \<Rightarrow> item \<Rightarrow> item option" where
  "apply_update names vals [] it = Some it"
| "apply_update names vals ((p, v) # us) it =
     (case (resolve_path names p, map_of vals v) of
        (Some ks, Some a) \<Rightarrow>
          (case set_path it ks a of Some it' \<Rightarrow> apply_update names vals us it' | None \<Rightarrow> None)
      | _ \<Rightarrow> None)"

text \<open>The placeholders an expression uses.\<close>

fun operand_names :: "operand \<Rightarrow> string list" where
  "operand_names (Path p) = filter is_placeholder p"
| "operand_names (Val v) = []"

fun operand_vals :: "operand \<Rightarrow> string list" where
  "operand_vals (Path p) = []"
| "operand_vals (Val v) = [v]"

fun expr_names :: "expression \<Rightarrow> string list" where
  "expr_names (Attribute_exists p) = filter is_placeholder p"
| "expr_names (Attribute_not_exists p) = filter is_placeholder p"
| "expr_names (Equals a b) = operand_names a @ operand_names b"
| "expr_names (Less a b) = operand_names a @ operand_names b"
| "expr_names (Begins_with a b) = operand_names a @ operand_names b"
| "expr_names (And c d) = expr_names c @ expr_names d"
| "expr_names (Or c d) = expr_names c @ expr_names d"

fun expr_vals :: "expression \<Rightarrow> string list" where
  "expr_vals (Attribute_exists p) = []"
| "expr_vals (Attribute_not_exists p) = []"
| "expr_vals (Equals a b) = operand_vals a @ operand_vals b"
| "expr_vals (Less a b) = operand_vals a @ operand_vals b"
| "expr_vals (Begins_with a b) = operand_vals a @ operand_vals b"
| "expr_vals (And c d) = expr_vals c @ expr_vals d"
| "expr_vals (Or c d) = expr_vals c @ expr_vals d"

definition update_names :: "update_expression \<Rightarrow> string list" where
  "update_names us = concat (map (\<lambda>u. filter is_placeholder (fst u)) us)"

definition update_vals :: "update_expression \<Rightarrow> string list" where
  "update_vals us = map snd us"

section \<open>Requests\<close>

record get_item_input =
  gi_TableName :: string
  gi_Key :: item
  gi_ConsistentRead :: bool

record put_item_input =
  pi_TableName :: string
  pi_Item :: item
  pi_Condition :: "expression option"
  pi_Names :: "(string \<times> string) list"
  pi_Values :: "(string \<times> attribute_value) list"

record update_item_input =
  ui_TableName :: string
  ui_Key :: item
  ui_Update :: update_expression
  ui_Condition :: "expression option"
  ui_Names :: "(string \<times> string) list"
  ui_Values :: "(string \<times> attribute_value) list"

record delete_item_input =
  di_TableName :: string
  di_Key :: item
  di_Condition :: "expression option"
  di_Names :: "(string \<times> string) list"
  di_Values :: "(string \<times> attribute_value) list"

record query_input =
  qi_TableName :: string
  qi_KeyCondition :: expression
  qi_Values :: "(string \<times> attribute_value) list"
  qi_Projection :: "string option"
  qi_ScanIndexForward :: "bool option"
  qi_Limit :: "int option"
  qi_ConsistentRead :: bool

record scan_input =
  si_TableName :: string
  si_Filter :: expression
  si_Values :: "(string \<times> attribute_value) list"

text \<open>The transactions of the program consist of updates. A write request of a batch is the key
  of its DeleteRequest, or nothing for the zero value of the struct.\<close>

type_synonym transact_write_input = "update_item_input list"
type_synonym write_request = "item option"

record batch_get_input =
  bg_RequestItems :: "(string \<times> item list) list"
  bg_ConsistentRead :: bool

record batch_get_output =
  bgo_Responses :: "(string \<times> item list) list"
  bgo_UnprocessedKeys :: "(string \<times> item list) list"

type_synonym batch_write_input = "(string \<times> write_request list) list"

record 'w dynamo_client =
  GetItem :: "get_item_input \<Rightarrow> ('w, item outcome) state"
  PutItem :: "put_item_input \<Rightarrow> ('w, unit outcome) state"
  UpdateItem :: "update_item_input \<Rightarrow> ('w, unit outcome) state"
  DeleteItem :: "delete_item_input \<Rightarrow> ('w, unit outcome) state"
  Query :: "query_input \<Rightarrow> ('w, item list outcome) state"
  Scan :: "scan_input \<Rightarrow> ('w, item list outcome) state"
  TransactWriteItems :: "transact_write_input \<Rightarrow> ('w, unit outcome) state"
  BatchGetItem :: "batch_get_input \<Rightarrow> ('w, batch_get_output outcome) state"
  BatchWriteItem :: "batch_write_input \<Rightarrow> ('w, batch_write_input outcome) state"

text \<open>The Go runtime: time.Now, uuid.New().String, and waiting for a timer, whose answer is
  whether the context was cancelled first, with ctx.Err().\<close>

record 'w go_runtime =
  time_now :: "('w, go_time) state"
  uuid_new :: "('w, string) state"
  timer_wait :: "int \<Rightarrow> ('w, go_error option) state"

section \<open>What a request does to the table\<close>

definition item_key_of :: "item \<Rightarrow> item_key option" where
  "item_key_of it =
     (case (map_of it ''PK'', map_of it ''SK'') of
        (Some (AvS p), Some (AvS s)) \<Rightarrow> Some (p, s)
      | _ \<Rightarrow> None)"

definition the_item :: "item option \<Rightarrow> item" where
  "the_item x = (case x of Some it \<Rightarrow> it | None \<Rightarrow> [])"

definition condition_holds ::
    "expression option \<Rightarrow> (string \<times> string) list \<Rightarrow> (string \<times> attribute_value) list \<Rightarrow> item option \<Rightarrow> bool" where
  "condition_holds c names vals cur \<longleftrightarrow>
     (case c of None \<Rightarrow> True | Some e \<Rightarrow> holds names vals (the_item cur) e)"

text \<open>The table after the write, or \<open>None\<close> where the condition fails or the request makes no sense.\<close>

definition put_effect :: "put_item_input \<Rightarrow> dynamo_table \<Rightarrow> dynamo_table option" where
  "put_effect i t =
     (case item_key_of (pi_Item i) of
        Some k \<Rightarrow> if condition_holds (pi_Condition i) (pi_Names i) (pi_Values i) (t k)
                   then Some (t(k \<mapsto> pi_Item i)) else None
      | None \<Rightarrow> None)"

text \<open>No path of an update expression may lie on another one.\<close>

fun disjoint_paths :: "string list list \<Rightarrow> bool" where
  "disjoint_paths [] \<longleftrightarrow> True"
| "disjoint_paths (p # ps) \<longleftrightarrow> (\<forall>q \<in> set ps. \<not> prefix p q \<and> \<not> prefix q p) \<and> disjoint_paths ps"

definition paths_ok :: "(string \<times> string) list \<Rightarrow> update_expression \<Rightarrow> bool" where
  "paths_ok names us \<longleftrightarrow> disjoint_paths (List.map_filter (\<lambda>u. resolve_path names (fst u)) us)"

definition update_effect :: "update_item_input \<Rightarrow> dynamo_table \<Rightarrow> dynamo_table option" where
  "update_effect i t =
     (case item_key_of (ui_Key i) of
        Some k \<Rightarrow>
          if condition_holds (ui_Condition i) (ui_Names i) (ui_Values i) (t k) \<and>
            paths_ok (ui_Names i) (ui_Update i)
          then (case apply_update (ui_Names i) (ui_Values i) (ui_Update i)
                       (case t k of Some it \<Rightarrow> it | None \<Rightarrow> ui_Key i) of
                  Some it \<Rightarrow> if item_key_of it = Some k then Some (t(k \<mapsto> it)) else None
                | None \<Rightarrow> None)
          else None
      | None \<Rightarrow> None)"

definition delete_effect :: "delete_item_input \<Rightarrow> dynamo_table \<Rightarrow> dynamo_table option" where
  "delete_effect i t =
     (case item_key_of (di_Key i) of
        Some k \<Rightarrow> if condition_holds (di_Condition i) (di_Names i) (di_Values i) (t k)
                   then Some (t(k := None)) else None
      | None \<Rightarrow> None)"

text \<open>All updates of a transaction, on distinct items, or none.\<close>

fun transact_effect :: "transact_write_input \<Rightarrow> dynamo_table \<Rightarrow> dynamo_table option" where
  "transact_effect [] t = Some t"
| "transact_effect (i # is) t =
     (case update_effect i t of Some t' \<Rightarrow> transact_effect is t' | None \<Rightarrow> None)"

definition transact_keys :: "transact_write_input \<Rightarrow> item_key option list" where
  "transact_keys is = map (\<lambda>i. item_key_of (ui_Key i)) is"

section \<open>Well-formed requests\<close>

text \<open>The service rejects a request that defines a placeholder no expression uses, or uses one
  that is not defined.\<close>

definition placeholders_ok ::
    "string list \<Rightarrow> string list \<Rightarrow> (string \<times> string) list \<Rightarrow> (string \<times> attribute_value) list \<Rightarrow> bool" where
  "placeholders_ok ns vs names vals \<longleftrightarrow>
     set ns = fst ` set names \<and> set vs = fst ` set vals"

definition put_valid :: "put_item_input \<Rightarrow> bool" where
  "put_valid i \<longleftrightarrow> item_key_of (pi_Item i) \<noteq> None \<and>
     placeholders_ok (case pi_Condition i of Some c \<Rightarrow> expr_names c | None \<Rightarrow> [])
       (case pi_Condition i of Some c \<Rightarrow> expr_vals c | None \<Rightarrow> []) (pi_Names i) (pi_Values i)"

definition delete_valid :: "delete_item_input \<Rightarrow> bool" where
  "delete_valid i \<longleftrightarrow> item_key_of (di_Key i) \<noteq> None \<and>
     placeholders_ok (case di_Condition i of Some c \<Rightarrow> expr_names c | None \<Rightarrow> [])
       (case di_Condition i of Some c \<Rightarrow> expr_vals c | None \<Rightarrow> []) (di_Names i) (di_Values i)"

definition update_valid :: "update_item_input \<Rightarrow> bool" where
  "update_valid i \<longleftrightarrow> item_key_of (ui_Key i) \<noteq> None \<and>
     placeholders_ok (update_names (ui_Update i) @ (case ui_Condition i of Some c \<Rightarrow> expr_names c | None \<Rightarrow> []))
       (update_vals (ui_Update i) @ (case ui_Condition i of Some c \<Rightarrow> expr_vals c | None \<Rightarrow> []))
       (ui_Names i) (ui_Values i)"

definition transact_valid :: "transact_write_input \<Rightarrow> bool" where
  "transact_valid is \<longleftrightarrow> is \<noteq> [] \<and> (\<forall>i \<in> set is. update_valid i) \<and> distinct (transact_keys is)"

section \<open>Facts about effects\<close>

text \<open>A table files every item under its own key.\<close>

definition stored :: "dynamo_table \<Rightarrow> bool" where
  "stored t \<longleftrightarrow> (\<forall>k it. t k = Some it \<longrightarrow> item_key_of it = Some k)"

lemma storedD: "stored t \<Longrightarrow> t k = Some it \<Longrightarrow> item_key_of it = Some k"
  unfolding stored_def by blast

lemma item_key_of_Nil [simp]: "item_key_of [] = None"
  by (simp add: item_key_of_def)

lemma stored_not_Nil: "stored t \<Longrightarrow> t k \<noteq> Some []"
  by (metis stored_def item_key_of_Nil option.distinct(1))

lemma the_item_Nil: "stored t \<Longrightarrow> the_item (t k) = [] \<longleftrightarrow> t k = None"
  using stored_not_Nil [of t k] by (auto simp: the_item_def split: option.splits)

lemma the_item_simps [simp]: "the_item None = []" "the_item (Some it) = it"
  by (simp_all add: the_item_def)

lemma put_effect_key:
  "item_key_of (pi_Item i) = Some k \<Longrightarrow>
   put_effect i t = (if condition_holds (pi_Condition i) (pi_Names i) (pi_Values i) (t k)
                     then Some (t(k \<mapsto> pi_Item i)) else None)"
  by (simp add: put_effect_def)

lemma delete_effect_key:
  "item_key_of (di_Key i) = Some k \<Longrightarrow>
   delete_effect i t = (if condition_holds (di_Condition i) (di_Names i) (di_Values i) (t k)
                        then Some (t(k := None)) else None)"
  by (simp add: delete_effect_def)

lemma put_effect_stored: "stored t \<Longrightarrow> put_effect i t = Some u \<Longrightarrow> stored u"
  by (auto simp: put_effect_def stored_def split: option.splits if_splits)

lemma delete_effect_stored: "stored t \<Longrightarrow> delete_effect i t = Some u \<Longrightarrow> stored u"
  by (auto simp: delete_effect_def stored_def split: option.splits if_splits)

lemma update_effect_stored: "stored t \<Longrightarrow> update_effect i t = Some u \<Longrightarrow> stored u"
  by (auto simp: update_effect_def stored_def split: option.splits if_splits)

lemma transact_effect_stored: "stored t \<Longrightarrow> transact_effect is t = Some u \<Longrightarrow> stored u"
  by (induction "is" t rule: transact_effect.induct)
     (auto split: option.splits dest: update_effect_stored)

text \<open>A write touches the item it names and no other.\<close>

lemma put_effect_other:
  "put_effect i t = Some u \<Longrightarrow> item_key_of (pi_Item i) \<noteq> Some k \<Longrightarrow> u k = t k"
  by (auto simp: put_effect_def split: option.splits if_splits)

lemma delete_effect_other:
  "delete_effect i t = Some u \<Longrightarrow> item_key_of (di_Key i) \<noteq> Some k \<Longrightarrow> u k = t k"
  by (auto simp: delete_effect_def split: option.splits if_splits)

lemma update_effect_other:
  "update_effect i t = Some u \<Longrightarrow> item_key_of (ui_Key i) \<noteq> Some k \<Longrightarrow> u k = t k"
  by (auto simp: update_effect_def split: option.splits if_splits)

text \<open>Doing the same unconditional-on-success write twice is doing it once: what a client that
  repeats a request relies on.\<close>

lemma put_effect_idem: "put_effect i t = Some u \<Longrightarrow> put_effect i u = Some v \<Longrightarrow> v = u"
  by (auto simp: put_effect_def split: option.splits if_splits)

lemma delete_effect_idem: "delete_effect i t = Some u \<Longrightarrow> delete_effect i u = Some v \<Longrightarrow> v = u"
  by (auto simp: delete_effect_def split: option.splits if_splits)

lemma map_put_same: "map_of m k = Some v \<Longrightarrow> map_put k v m = m"
  by (induction k v m rule: map_put.induct) (auto split: if_splits)

lemma set_path_same: "get_path it p = Some v \<Longrightarrow> set_path it p v = Some it"
proof (induction it p v rule: set_path.induct)
  case (3 it k k' ks v)
  then show ?case by (auto split: option.splits attribute_value.splits intro: map_put_same)
qed (auto intro: map_put_same)

lemma get_set_path: "set_path it p v = Some it' \<Longrightarrow> get_path it' p = Some v"
proof (induction it p v arbitrary: it' rule: set_path.induct)
  case (3 it k k' ks v)
  then show ?case by (auto split: option.splits attribute_value.splits)
qed auto

lemma get_set_path_other:
  "set_path it p v = Some it' \<Longrightarrow> \<not> prefix p q \<Longrightarrow> \<not> prefix q p \<Longrightarrow> get_path it' q = get_path it q"
proof (induction it p v arbitrary: it' q rule: set_path.induct)
  case (2 it k v)
  show ?case
  proof (cases q)
    case (Cons a q')
    with 2 have "a \<noteq> k" by auto
    then show ?thesis using 2 by (cases q') (auto simp: Cons)
  qed (use 2 in simp)
next
  case (3 it k k' ks v)
  then obtain m m' where m: "map_of it k = Some (AvM m)" "set_path m (k' # ks) v = Some m'"
    "it' = map_put k (AvM m') it"
    by (auto split: option.splits attribute_value.splits)
  show ?case
  proof (cases q)
    case (Cons a q')
    show ?thesis
    proof (cases "a = k")
      case True
      then have "q' \<noteq> []" "\<not> prefix (k' # ks) q'" "\<not> prefix q' (k' # ks)"
        using "3.prems"(2,3) by (auto simp: Cons)
      with "3.IH" [OF m(1) refl m(2)] show ?thesis
        by (cases q') (auto simp: Cons True m)
    next
      case False
      then show ?thesis by (cases q') (auto simp: Cons m)
    qed
  qed (use "3.prems" in simp)
qed simp

text \<open>Repeating an update, or a transaction of updates of distinct items, changes nothing more.\<close>

lemma apply_update_other:
  "apply_update names vals us it = Some it' \<Longrightarrow>
   (\<And>u ks. u \<in> set us \<Longrightarrow> resolve_path names (fst u) = Some ks \<Longrightarrow> \<not> prefix ks q \<and> \<not> prefix q ks) \<Longrightarrow>
   get_path it' q = get_path it q"
proof (induction names vals us it arbitrary: it' rule: apply_update.induct)
  case (2 names vals p v us it)
  then obtain ks a it1 where s: "resolve_path names p = Some ks" "map_of vals v = Some a"
    "set_path it ks a = Some it1" "apply_update names vals us it1 = Some it'"
    by (auto split: option.splits)
  have "get_path it' q = get_path it1 q"
    by (rule "2.IH") (use s "2.prems"(2) in auto)
  also have "\<dots> = get_path it q"
    using get_set_path_other [OF s(3)] "2.prems"(2) [of "(p, v)" ks] s(1) by auto
  finally show ?case .
qed simp

lemma apply_update_satisfied:
  "apply_update names vals us it = Some it' \<Longrightarrow> paths_ok names us \<Longrightarrow> (p, v) \<in> set us \<Longrightarrow>
   \<exists>ks a. resolve_path names p = Some ks \<and> map_of vals v = Some a \<and> get_path it' ks = Some a"
proof (induction names vals us it arbitrary: it' rule: apply_update.induct)
  case (2 names vals p' v' us it)
  then obtain ks a it1 where s: "resolve_path names p' = Some ks" "map_of vals v' = Some a"
    "set_path it ks a = Some it1" "apply_update names vals us it1 = Some it'"
    by (auto split: option.splits)
  have ok: "paths_ok names us"
    and d: "\<And>u qs. u \<in> set us \<Longrightarrow> resolve_path names (fst u) = Some qs \<Longrightarrow> \<not> prefix qs ks \<and> \<not> prefix ks qs"
    using "2.prems"(2) s(1) by (auto simp: paths_ok_def List.map_filter_def image_iff split: option.splits)
  show ?case
  proof (cases "(p, v) \<in> set us")
    case True
    then show ?thesis using "2.IH" s ok by blast
  next
    case False
    then have "p = p'" "v = v'" using "2.prems"(3) by auto
    moreover have "get_path it' ks = Some a"
      using apply_update_other [OF s(4), of ks] d get_set_path [OF s(3)] by auto
    ultimately show ?thesis using s by blast
  qed
qed simp

lemma apply_update_satisfied_id:
  "(\<And>p v. (p, v) \<in> set us \<Longrightarrow>
     \<exists>ks a. resolve_path names p = Some ks \<and> map_of vals v = Some a \<and> get_path it ks = Some a) \<Longrightarrow>
   apply_update names vals us it = Some it"
proof (induction us)
  case (Cons u us)
  obtain p v where u: "u = (p, v)" by (cases u)
  obtain ks a where "resolve_path names p = Some ks" "map_of vals v = Some a" "get_path it ks = Some a"
    using Cons.prems [of p v] by (auto simp: u)
  moreover have "apply_update names vals us it = Some it"
    by (rule Cons.IH) (use Cons.prems in auto)
  ultimately show ?case by (simp add: u set_path_same)
qed simp

lemma update_effectD:
  assumes "update_effect i t = Some u"
  obtains k it where "item_key_of (ui_Key i) = Some k" "u = t(k \<mapsto> it)" "paths_ok (ui_Names i) (ui_Update i)"
    "apply_update (ui_Names i) (ui_Values i) (ui_Update i) it = Some it"
proof -
  from assms obtain k it where k: "item_key_of (ui_Key i) = Some k" "paths_ok (ui_Names i) (ui_Update i)"
    "apply_update (ui_Names i) (ui_Values i) (ui_Update i)
       (case t k of Some x \<Rightarrow> x | None \<Rightarrow> ui_Key i) = Some it" "u = t(k \<mapsto> it)"
    by (auto simp: update_effect_def split: option.splits if_splits)
  have "apply_update (ui_Names i) (ui_Values i) (ui_Update i) it = Some it"
    by (rule apply_update_satisfied_id, rule apply_update_satisfied [OF k(3,2)])
  then show ?thesis using that k by blast
qed

text \<open>A table the update has been done on already.\<close>

lemma update_effect_done:
  assumes "item_key_of (ui_Key i) = Some k" "u k = Some it"
    "apply_update (ui_Names i) (ui_Values i) (ui_Update i) it = Some it" "update_effect i u = Some v"
  shows "v = u"
  using assms by (auto simp: update_effect_def split: if_splits)

lemma update_effect_idem: "update_effect i t = Some u \<Longrightarrow> update_effect i u = Some v \<Longrightarrow> v = u"
  by (erule update_effectD) (rule update_effect_done, auto)

lemma transact_effect_other:
  "transact_effect is t = Some u \<Longrightarrow> Some k \<notin> set (transact_keys is) \<Longrightarrow> u k = t k"
proof (induction "is" t rule: transact_effect.induct)
  case (2 i "is" t)
  then obtain t' where t': "update_effect i t = Some t'" "transact_effect is t' = Some u"
    by (auto split: option.splits)
  then have "u k = t' k" using 2 by (auto simp: transact_keys_def)
  also have "\<dots> = t k" by (rule update_effect_other [OF t'(1)]) (use 2 in \<open>auto simp: transact_keys_def\<close>)
  finally show ?case .
qed simp

lemma transact_effect_done:
  "transact_effect is t = Some u \<Longrightarrow> distinct (transact_keys is) \<Longrightarrow> i \<in> set is \<Longrightarrow>
   \<exists>k it. item_key_of (ui_Key i) = Some k \<and> u k = Some it \<and>
     apply_update (ui_Names i) (ui_Values i) (ui_Update i) it = Some it"
proof (induction "is" t rule: transact_effect.induct)
  case (2 j "is" t)
  then obtain t' where t': "update_effect j t = Some t'" "transact_effect is t' = Some u"
    by (auto split: option.splits)
  show ?case
  proof (cases "i \<in> set is")
    case True
    then show ?thesis using 2 t' by (auto simp: transact_keys_def)
  next
    case False
    then have "i = j" using 2 by simp
    with t'(1) obtain k it where k: "item_key_of (ui_Key i) = Some k" "t' = t(k \<mapsto> it)"
      "apply_update (ui_Names i) (ui_Values i) (ui_Update i) it = Some it"
      by (auto elim: update_effectD)
    have "Some k \<notin> set (transact_keys is)"
      using "2.prems"(2) k(1) \<open>i = j\<close> by (auto simp: transact_keys_def)
    then have "u k = Some it" using transact_effect_other [OF t'(2)] k(2) by simp
    then show ?thesis using k by blast
  qed
qed simp

lemma transact_effect_all_done:
  "transact_effect is u = Some v \<Longrightarrow> (\<And>i. i \<in> set is \<Longrightarrow>
     \<exists>k it. item_key_of (ui_Key i) = Some k \<and> u k = Some it \<and>
       apply_update (ui_Names i) (ui_Values i) (ui_Update i) it = Some it) \<Longrightarrow> v = u"
proof (induction "is" u rule: transact_effect.induct)
  case (2 j "is" u)
  then obtain u' where u': "update_effect j u = Some u'" "transact_effect is u' = Some v"
    by (auto split: option.splits)
  have "u' = u" using "2.prems"(2) [of j] update_effect_done u'(1) by auto
  then show ?case using 2 u' by auto
qed simp

lemma transact_effect_idem:
  "transact_effect is t = Some u \<Longrightarrow> distinct (transact_keys is) \<Longrightarrow> transact_effect is u = Some v \<Longrightarrow> v = u"
  using transact_effect_all_done transact_effect_done by blast

end
