(* ===== verification/Dynamo_Store.thy ===== *)
theory Dynamo_Store
  imports Dynamo_Client
begin

text \<open>
  What the operator relies on in DynamoDB and in the Go runtime, as contracts over a client
  \<open>dc\<close>, a runtime \<open>rt\<close>, the table's name \<open>T\<close>, the local zone \<open>Z\<close>, and two views of the world:
  \<open>tbl\<close>, the items of the table, and \<open>clk\<close>, the last clock reading.

  \<^item> \<open>dynamo_store\<close>: writes are atomic and conditional; a call that failed has had the whole
    effect or none (a response may be lost); a consistent read returns the item; a query
    returns a page of matching items in key order; the clock does not run backwards.
  \<^item> \<open>dynamo_definite\<close>: a failed condition is reported only for a write that was not applied.
  \<^item> \<open>dynamo_reliable\<close>: in addition nothing is down: well-formed requests are answered, reads
    have caught up, pages are complete.
  \<^item> \<open>dynamo_validating\<close>: a request whose placeholders do not match its expressions is
    rejected with a ValidationException and has no effect.

  The contracts are about the calls one process makes in sequence; what other processes do in
  between is the subject of Lock_Protocol.
\<close>

section \<open>Answers\<close>

definition atomic_write :: "dynamo_table option \<Rightarrow> dynamo_table \<Rightarrow> dynamo_table \<Rightarrow> 'a outcome \<Rightarrow> bool" where
  "atomic_write eff t u r \<longleftrightarrow>
     (case r of Ok _ \<Rightarrow> eff = Some u | Err e \<Rightarrow> u = t \<or> eff = Some u | Panic \<Rightarrow> False)"

definition condition_failed :: "go_error \<Rightarrow> bool" where
  "condition_failed e \<longleftrightarrow> errors_as ''ConditionalCheckFailedException'' e"

definition transaction_canceled :: "go_error \<Rightarrow> bool" where
  "transaction_canceled e \<longleftrightarrow> errors_as ''TransactionCanceledException'' e"

text \<open>A page of a query: matching items in the order of their sort keys.\<close>

definition project :: "string option \<Rightarrow> item \<Rightarrow> item" where
  "project a it =
     (case a of None \<Rightarrow> it
      | Some k \<Rightarrow> (case map_of it k of Some v \<Rightarrow> [(k, v)] | None \<Rightarrow> []))"

definition query_match :: "query_input \<Rightarrow> dynamo_table \<Rightarrow> item_key \<Rightarrow> bool" where
  "query_match i t k \<longleftrightarrow>
     (case t k of Some it \<Rightarrow> holds [] (qi_Values i) it (qi_KeyCondition i) | None \<Rightarrow> False)"

text \<open>A query names one partition.\<close>

definition query_valid :: "query_input \<Rightarrow> bool" where
  "query_valid i \<longleftrightarrow>
     (case qi_KeyCondition i of
        And (Equals (Path [a]) (Val v)) c \<Rightarrow>
          a = ''PK'' \<and> (case map_of (qi_Values i) v of Some (AvS _) \<Rightarrow> True | _ \<Rightarrow> False)
      | _ \<Rightarrow> False)"

lemma query_validI:
  "qi_KeyCondition i = And (Equals (Path [''PK'']) (Val v)) c \<Longrightarrow>
   map_of (qi_Values i) v = Some (AvS p) \<Longrightarrow> query_valid i"
  by (simp add: query_valid_def)

definition key_before :: "query_input \<Rightarrow> item_key \<Rightarrow> item_key \<Rightarrow> bool" where
  "key_before i a b \<longleftrightarrow>
     (if qi_ScanIndexForward i = Some False then str_less (snd b) (snd a) else str_less (snd a) (snd b))"

definition query_page :: "query_input \<Rightarrow> dynamo_table \<Rightarrow> item_key list \<Rightarrow> item list \<Rightarrow> bool" where
  "query_page i t ks items \<longleftrightarrow>
     (\<forall>k \<in> set ks. query_match i t k) \<and> sorted_wrt (key_before i) ks \<and>
     (case qi_Limit i of None \<Rightarrow> True | Some n \<Rightarrow> int (length ks) \<le> n) \<and>
     items = map (\<lambda>k. project (qi_Projection i) (the_item (t k))) ks"

definition scan_page :: "scan_input \<Rightarrow> dynamo_table \<Rightarrow> item_key list \<Rightarrow> item list \<Rightarrow> bool" where
  "scan_page i t ks items \<longleftrightarrow>
     (\<forall>k \<in> set ks. t k \<noteq> None \<and> holds [] (si_Values i) (the_item (t k)) (si_Filter i)) \<and>
     items = map (\<lambda>k. the_item (t k)) ks"

text \<open>The keys a list of requests names.\<close>

definition keys_of :: "item list \<Rightarrow> item_key set" where
  "keys_of ks = {k. \<exists>it \<in> set ks. item_key_of it = Some k}"

definition delete_keys :: "write_request list \<Rightarrow> item_key set" where
  "delete_keys rs = set (List.map_filter (\<lambda>r. case r of Some it \<Rightarrow> item_key_of it | None \<Rightarrow> None) rs)"

definition entries :: "(string \<times> 'a list) list \<Rightarrow> string \<Rightarrow> 'a list" where
  "entries m T = (case map_of m T of Some xs \<Rightarrow> xs | None \<Rightarrow> [])"

text \<open>The clock of a process: local zone, and a date on which leases of days can still be
  written with a four-digit year.\<close>

definition clock_ok :: "int \<Rightarrow> go_time \<Rightarrow> bool" where
  "clock_ok Z t \<longleftrightarrow> zone t = Z \<and> zone_ok Z \<and> 0 \<le> wall_seconds t \<and> wall_seconds t < 315500000000"

lemma clock_ok_in_era: "clock_ok Z t \<Longrightarrow> in_era t"
  by (auto simp: clock_ok_def in_era_def)

lemma clock_ok_add:
  "clock_ok Z t \<Longrightarrow> 0 \<le> d \<Longrightarrow> d \<le> 86400 * second \<Longrightarrow> in_era (time_add t d)"
proof -
  assume a: "clock_ok Z t" "0 \<le> d" "d \<le> 86400 * second"
  have "unix t \<le> unix (time_add t d)"
    using a by (intro unix_mono) (simp add: time_add_def)
  moreover have "unix (time_add t d) \<le> unix t + 86400"
  proof -
    have "nanos (time_add t d) \<le> nanos t + 86400 * second"
      using a by (simp add: time_add_def)
    then have "nanos (time_add t d) div second \<le> (nanos t + 86400 * second) div second"
      by (intro zdiv_mono1) (simp_all add: second_def)
    then show ?thesis by (simp add: unix_def second_def)
  qed
  ultimately show ?thesis
    using a by (auto simp: clock_ok_def in_era_def wall_seconds_def time_add_def)
qed

section \<open>The contracts\<close>

locale dynamo_store =
  fixes dc :: "'w dynamo_client"
    and rt :: "'w go_runtime"
    and T :: string
    and Z :: int
    and tbl :: "'w \<Rightarrow> dynamo_table"
    and clk :: "'w \<Rightarrow> go_time"
  assumes stored_tbl: "stored (tbl w)"
    and now_law: "run_state (time_now rt) w = (t, w') \<Longrightarrow>
      tbl w' = tbl w \<and> clk w' = t \<and> nanos (clk w) \<le> nanos t \<and> clock_ok Z t"
    and uuid_law: "run_state (uuid_new rt) w = (u, w') \<Longrightarrow> tbl w' = tbl w \<and> clk w' = clk w"
    and timer_law: "run_state (timer_wait rt d) w = (c, w') \<Longrightarrow> tbl w' = tbl w \<and> clk w' = clk w"
    and get_law: "run_state (GetItem dc gi) w = (r, w') \<Longrightarrow> gi_TableName gi = T \<Longrightarrow>
      tbl w' = tbl w \<and> clk w' = clk w \<and> r \<noteq> Panic \<and>
      (\<forall>k it. gi_ConsistentRead gi \<and> item_key_of (gi_Key gi) = Some k \<and> r = Ok it \<longrightarrow>
         it = the_item (tbl w k))"
    and put_law: "run_state (PutItem dc pi) w = (pr, w') \<Longrightarrow> pi_TableName pi = T \<Longrightarrow>
      clk w' = clk w \<and> atomic_write (put_effect pi (tbl w)) (tbl w) (tbl w') pr"
    and update_law: "run_state (UpdateItem dc ui) w = (ur, w') \<Longrightarrow> ui_TableName ui = T \<Longrightarrow>
      clk w' = clk w \<and> atomic_write (update_effect ui (tbl w)) (tbl w) (tbl w') ur"
    and delete_law: "run_state (DeleteItem dc di) w = (dr, w') \<Longrightarrow> di_TableName di = T \<Longrightarrow>
      clk w' = clk w \<and> atomic_write (delete_effect di (tbl w)) (tbl w) (tbl w') dr"
    and query_law: "run_state (Query dc qi) w = (qr, w') \<Longrightarrow> qi_TableName qi = T \<Longrightarrow>
      query_valid qi \<Longrightarrow> tbl w' = tbl w \<and> clk w' = clk w \<and> qr \<noteq> Panic \<and>
      (\<forall>items. qr = Ok items \<longrightarrow>
         (\<exists>t ks. stored t \<and> (qi_ConsistentRead qi \<longrightarrow> t = tbl w) \<and> query_page qi t ks items))"
    and scan_law: "run_state (Scan dc si) w = (sr, w') \<Longrightarrow> si_TableName si = T \<Longrightarrow>
      tbl w' = tbl w \<and> clk w' = clk w \<and> sr \<noteq> Panic \<and>
      (\<forall>items. sr = Ok items \<longrightarrow> (\<exists>t ks. stored t \<and> scan_page si t ks items))"
    and transact_law: "run_state (TransactWriteItems dc ti) w = (tr, w') \<Longrightarrow>
      (\<forall>i \<in> set ti. ui_TableName i = T) \<Longrightarrow> distinct (transact_keys ti) \<Longrightarrow>
      clk w' = clk w \<and> atomic_write (transact_effect ti (tbl w)) (tbl w) (tbl w') tr"
    and transact_duplicate: "run_state (TransactWriteItems dc ti) w = (tr, w') \<Longrightarrow>
      \<not> distinct (transact_keys ti) \<Longrightarrow> tbl w' = tbl w \<and> clk w' = clk w \<and> is_err tr"
    and batch_get_law: "run_state (BatchGetItem dc bi) w = (br, w') \<Longrightarrow>
      tbl w' = tbl w \<and> clk w' = clk w \<and> br \<noteq> Panic \<and>
      (\<forall>out. br = Ok out \<and> bg_ConsistentRead bi \<longrightarrow>
         (\<forall>it \<in> set (entries (bgo_Responses out) T).
            \<exists>k \<in> keys_of (entries (bg_RequestItems bi) T). tbl w k = Some it))"
    and batch_write_law: "run_state (BatchWriteItem dc wi) w = (wr, w') \<Longrightarrow>
      clk w' = clk w \<and> wr \<noteq> Panic \<and>
      (\<exists>D \<subseteq> delete_keys (entries wi T). tbl w' = (\<lambda>k. if k \<in> D then None else tbl w k) \<and>
         (\<forall>un. wr = Ok un \<longrightarrow> delete_keys (entries wi T) - delete_keys (entries un T) \<subseteq> D))"

locale dynamo_definite = dynamo_store +
  assumes put_definite: "run_state (PutItem dc pi) w = (Err e, w') \<Longrightarrow> pi_TableName pi = T \<Longrightarrow>
      condition_failed e \<Longrightarrow> put_effect pi (tbl w) = None \<and> tbl w' = tbl w"
    and delete_definite: "run_state (DeleteItem dc di) w = (Err e, w') \<Longrightarrow> di_TableName di = T \<Longrightarrow>
      condition_failed e \<Longrightarrow> delete_effect di (tbl w) = None \<and> tbl w' = tbl w"
    and transact_definite: "run_state (TransactWriteItems dc ti) w = (Err e, w') \<Longrightarrow>
      (\<forall>i \<in> set ti. ui_TableName i = T) \<Longrightarrow> transaction_canceled e \<Longrightarrow> tbl w' = tbl w"

locale dynamo_reliable = dynamo_definite +
  assumes get_answered: "run_state (GetItem dc gi) w = (r, w') \<Longrightarrow> gi_TableName gi = T \<Longrightarrow>
      item_key_of (gi_Key gi) = Some k \<Longrightarrow> r = Ok (the_item (tbl w k))"
    and put_answered: "run_state (PutItem dc pi) w = (pr, w') \<Longrightarrow> pi_TableName pi = T \<Longrightarrow>
      put_valid pi \<Longrightarrow>
      (case put_effect pi (tbl w) of Some u \<Rightarrow> pr = Ok () | None \<Rightarrow> \<exists>e. pr = Err e \<and> condition_failed e)"
    and delete_answered: "run_state (DeleteItem dc di) w = (dr, w') \<Longrightarrow> di_TableName di = T \<Longrightarrow>
      delete_valid di \<Longrightarrow>
      (case delete_effect di (tbl w) of Some u \<Rightarrow> dr = Ok () | None \<Rightarrow> \<exists>e. dr = Err e \<and> condition_failed e)"
    and update_answered: "run_state (UpdateItem dc ui) w = (ur, w') \<Longrightarrow> ui_TableName ui = T \<Longrightarrow>
      update_valid ui \<Longrightarrow> update_effect ui (tbl w) \<noteq> None \<Longrightarrow> ur = Ok ()"
    and query_answered: "run_state (Query dc qi) w = (qr, w') \<Longrightarrow> qi_TableName qi = T \<Longrightarrow>
      query_valid qi \<Longrightarrow> qi_Limit qi = None \<Longrightarrow>
      \<exists>items ks. qr = Ok items \<and> query_page qi (tbl w) ks items \<and> set ks = {k. query_match qi (tbl w) k}"
    and scan_answered: "run_state (Scan dc si) w = (sr, w') \<Longrightarrow> si_TableName si = T \<Longrightarrow>
      \<exists>items ks. sr = Ok items \<and> scan_page si (tbl w) ks items \<and>
        set ks = {k. tbl w k \<noteq> None \<and> holds [] (si_Values si) (the_item (tbl w k)) (si_Filter si)}"

locale dynamo_validating = dynamo_store +
  assumes transact_rejected: "run_state (TransactWriteItems dc ti) w = (tr, w') \<Longrightarrow>
      \<not> transact_valid ti \<Longrightarrow>
      tbl w' = tbl w \<and> (\<exists>text rs. tr = Err (ServiceError ''ValidationException'' text rs))"

section \<open>Rules for the calls\<close>

context dynamo_store
begin

lemma wp_now:
  "(\<And>t w'. tbl w' = tbl w \<Longrightarrow> clk w' = t \<Longrightarrow> nanos (clk w) \<le> nanos t \<Longrightarrow> clock_ok Z t \<Longrightarrow> Q t w') \<Longrightarrow>
   wp (time_now rt) Q w"
  by (rule wpI) (use now_law in blast)

lemma wp_uuid: "(\<And>u w'. tbl w' = tbl w \<Longrightarrow> clk w' = clk w \<Longrightarrow> Q u w') \<Longrightarrow> wp (uuid_new rt) Q w"
  by (rule wpI) (use uuid_law in blast)

lemma wp_get:
  assumes "gi_TableName i = T" "item_key_of (gi_Key i) = Some k"
    "\<And>w' it. tbl w' = tbl w \<Longrightarrow> clk w' = clk w \<Longrightarrow>
       (gi_ConsistentRead i \<Longrightarrow> it = the_item (tbl w k)) \<Longrightarrow> Q (Ok it) w'"
    "\<And>w' e. tbl w' = tbl w \<Longrightarrow> clk w' = clk w \<Longrightarrow> Q (Err e) w'"
  shows "wp (GetItem dc i) Q w"
proof (rule wpI)
  fix r w'
  assume "run_state (GetItem dc i) w = (r, w')"
  note l = get_law [OF this assms(1)]
  show "Q r w'"
  proof (cases r)
    case (Ok it)
    have "it = the_item (tbl w k)" if "gi_ConsistentRead i"
      using l Ok that assms(2) by metis
    then show ?thesis using l Ok by (simp add: assms(3))
  next
    case (Err e)
    then show ?thesis using l by (simp add: assms(4))
  next
    case Panic
    then show ?thesis using l by simp
  qed
qed

lemma wp_put:
  assumes "pi_TableName i = T"
    "\<And>w'. clk w' = clk w \<Longrightarrow> put_effect i (tbl w) = Some (tbl w') \<Longrightarrow> Q (Ok ()) w'"
    "\<And>w' e. clk w' = clk w \<Longrightarrow> tbl w' = tbl w \<or> put_effect i (tbl w) = Some (tbl w') \<Longrightarrow> Q (Err e) w'"
  shows "wp (PutItem dc i) Q w"
proof (rule wpI)
  fix r w'
  assume "run_state (PutItem dc i) w = (r, w')"
  from put_law [OF this assms(1)] assms(2,3) show "Q r w'"
    by (cases r) (auto simp: atomic_write_def)
qed

lemma wp_update:
  assumes "ui_TableName i = T"
    "\<And>w'. clk w' = clk w \<Longrightarrow> update_effect i (tbl w) = Some (tbl w') \<Longrightarrow> Q (Ok ()) w'"
    "\<And>w' e. clk w' = clk w \<Longrightarrow> tbl w' = tbl w \<or> update_effect i (tbl w) = Some (tbl w') \<Longrightarrow> Q (Err e) w'"
  shows "wp (UpdateItem dc i) Q w"
proof (rule wpI)
  fix r w'
  assume "run_state (UpdateItem dc i) w = (r, w')"
  from update_law [OF this assms(1)] assms(2,3) show "Q r w'"
    by (cases r) (auto simp: atomic_write_def)
qed

lemma wp_delete:
  assumes "di_TableName i = T"
    "\<And>w'. clk w' = clk w \<Longrightarrow> delete_effect i (tbl w) = Some (tbl w') \<Longrightarrow> Q (Ok ()) w'"
    "\<And>w' e. clk w' = clk w \<Longrightarrow> tbl w' = tbl w \<or> delete_effect i (tbl w) = Some (tbl w') \<Longrightarrow> Q (Err e) w'"
  shows "wp (DeleteItem dc i) Q w"
proof (rule wpI)
  fix r w'
  assume "run_state (DeleteItem dc i) w = (r, w')"
  from delete_law [OF this assms(1)] assms(2,3) show "Q r w'"
    by (cases r) (auto simp: atomic_write_def)
qed

lemma wp_transact:
  assumes "\<forall>i \<in> set ti. ui_TableName i = T" "distinct (transact_keys ti)"
    "\<And>w'. clk w' = clk w \<Longrightarrow> transact_effect ti (tbl w) = Some (tbl w') \<Longrightarrow> Q (Ok ()) w'"
    "\<And>w' e. clk w' = clk w \<Longrightarrow> tbl w' = tbl w \<or> transact_effect ti (tbl w) = Some (tbl w') \<Longrightarrow> Q (Err e) w'"
  shows "wp (TransactWriteItems dc ti) Q w"
proof (rule wpI)
  fix r w'
  assume "run_state (TransactWriteItems dc ti) w = (r, w')"
  from transact_law [OF this assms(1,2)] assms(3,4) show "Q r w'"
    by (cases r) (auto simp: atomic_write_def)
qed

lemma wp_transact_duplicate:
  assumes "\<not> distinct (transact_keys ti)"
    "\<And>w' e. clk w' = clk w \<Longrightarrow> tbl w' = tbl w \<Longrightarrow> Q (Err e) w'"
  shows "wp (TransactWriteItems dc ti) Q w"
proof (rule wpI)
  fix r w'
  assume "run_state (TransactWriteItems dc ti) w = (r, w')"
  from transact_duplicate [OF this assms(1)] assms(2) show "Q r w'" by (cases r) auto
qed

lemma wp_query:
  assumes "qi_TableName i = T" "query_valid i"
    "\<And>w' items t ks. tbl w' = tbl w \<Longrightarrow> clk w' = clk w \<Longrightarrow> stored t \<Longrightarrow>
       (qi_ConsistentRead i \<Longrightarrow> t = tbl w) \<Longrightarrow> query_page i t ks items \<Longrightarrow> Q (Ok items) w'"
    "\<And>w' e. tbl w' = tbl w \<Longrightarrow> clk w' = clk w \<Longrightarrow> Q (Err e) w'"
  shows "wp (Query dc i) Q w"
proof (rule wpI)
  fix r w'
  assume "run_state (Query dc i) w = (r, w')"
  from query_law [OF this assms(1,2)] assms(3,4) show "Q r w'" by (cases r) auto
qed

lemma wp_scan:
  assumes "si_TableName i = T"
    "\<And>w' items t ks. tbl w' = tbl w \<Longrightarrow> clk w' = clk w \<Longrightarrow> stored t \<Longrightarrow>
       scan_page i t ks items \<Longrightarrow> Q (Ok items) w'"
    "\<And>w' e. tbl w' = tbl w \<Longrightarrow> clk w' = clk w \<Longrightarrow> Q (Err e) w'"
  shows "wp (Scan dc i) Q w"
proof (rule wpI)
  fix r w'
  assume "run_state (Scan dc i) w = (r, w')"
  from scan_law [OF this assms(1)] assms(2,3) show "Q r w'" by (cases r) auto
qed

lemma wp_batch_get:
  assumes "\<And>w' out. tbl w' = tbl w \<Longrightarrow> clk w' = clk w \<Longrightarrow>
       (bg_ConsistentRead i \<Longrightarrow> (\<forall>it \<in> set (entries (bgo_Responses out) T).
            \<exists>k \<in> keys_of (entries (bg_RequestItems i) T). tbl w k = Some it)) \<Longrightarrow> Q (Ok out) w'"
    "\<And>w' e. tbl w' = tbl w \<Longrightarrow> clk w' = clk w \<Longrightarrow> Q (Err e) w'"
  shows "wp (BatchGetItem dc i) Q w"
proof (rule wpI)
  fix r w'
  assume "run_state (BatchGetItem dc i) w = (r, w')"
  from batch_get_law [OF this] assms show "Q r w'" by (cases r) auto
qed

lemma wp_batch_write:
  assumes "\<And>r w' D. clk w' = clk w \<Longrightarrow> r \<noteq> Panic \<Longrightarrow> D \<subseteq> delete_keys (entries i T) \<Longrightarrow>
       tbl w' = (\<lambda>k. if k \<in> D then None else tbl w k) \<Longrightarrow>
       (\<And>un. r = Ok un \<Longrightarrow> delete_keys (entries i T) - delete_keys (entries un T) \<subseteq> D) \<Longrightarrow> Q r w'"
  shows "wp (BatchWriteItem dc i) Q w"
proof (rule wpI)
  fix r w'
  assume "run_state (BatchWriteItem dc i) w = (r, w')"
  from batch_write_law [OF this] assms show "Q r w'" by blast
qed

end

section \<open>Rules when nothing is down\<close>

context dynamo_reliable
begin

lemma wp_get_ok:
  assumes "gi_TableName i = T" "item_key_of (gi_Key i) = Some k"
    "\<And>w'. tbl w' = tbl w \<Longrightarrow> clk w' = clk w \<Longrightarrow> Q (Ok (the_item (tbl w k))) w'"
  shows "wp (GetItem dc i) Q w"
proof (rule wpI)
  fix r w'
  assume "run_state (GetItem dc i) w = (r, w')"
  from get_answered [OF this assms(1,2)] get_law [OF this assms(1)] assms(3) show "Q r w'" by simp
qed

lemma wp_put_ok:
  assumes "pi_TableName i = T" "put_valid i"
    "\<And>w'. clk w' = clk w \<Longrightarrow> put_effect i (tbl w) = Some (tbl w') \<Longrightarrow> Q (Ok ()) w'"
    "\<And>w' e. clk w' = clk w \<Longrightarrow> tbl w' = tbl w \<Longrightarrow> put_effect i (tbl w) = None \<Longrightarrow> condition_failed e \<Longrightarrow> Q (Err e) w'"
  shows "wp (PutItem dc i) Q w"
proof (rule wpI)
  fix r w'
  assume a: "run_state (PutItem dc i) w = (r, w')"
  note l = put_law [OF a assms(1)] put_answered [OF a assms(1,2)]
  show "Q r w'"
  proof (cases "put_effect i (tbl w)")
    case None
    then obtain e where e: "r = Err e" "condition_failed e" using l(2) by auto
    with put_definite [OF a [unfolded e(1)] assms(1)] l(1) None show ?thesis
      by (simp add: assms(4))
  next
    case (Some u)
    then have "r = Ok ()" using l(2) by simp
    with l(1) Some show ?thesis by (simp add: assms(3) atomic_write_def)
  qed
qed

lemma wp_delete_ok:
  assumes "di_TableName i = T" "delete_valid i"
    "\<And>w'. clk w' = clk w \<Longrightarrow> delete_effect i (tbl w) = Some (tbl w') \<Longrightarrow> Q (Ok ()) w'"
    "\<And>w' e. clk w' = clk w \<Longrightarrow> tbl w' = tbl w \<Longrightarrow> delete_effect i (tbl w) = None \<Longrightarrow> condition_failed e \<Longrightarrow> Q (Err e) w'"
  shows "wp (DeleteItem dc i) Q w"
proof (rule wpI)
  fix r w'
  assume a: "run_state (DeleteItem dc i) w = (r, w')"
  note l = delete_law [OF a assms(1)] delete_answered [OF a assms(1,2)]
  show "Q r w'"
  proof (cases "delete_effect i (tbl w)")
    case None
    then obtain e where e: "r = Err e" "condition_failed e" using l(2) by auto
    with delete_definite [OF a [unfolded e(1)] assms(1)] l(1) None show ?thesis
      by (simp add: assms(4))
  next
    case (Some u)
    then have "r = Ok ()" using l(2) by simp
    with l(1) Some show ?thesis by (simp add: assms(3) atomic_write_def)
  qed
qed

lemma wp_update_ok:
  assumes "ui_TableName i = T" "update_valid i" "update_effect i (tbl w) = Some u"
    "\<And>w'. clk w' = clk w \<Longrightarrow> tbl w' = u \<Longrightarrow> Q (Ok ()) w'"
  shows "wp (UpdateItem dc i) Q w"
proof (rule wpI)
  fix r w'
  assume a: "run_state (UpdateItem dc i) w = (r, w')"
  have "r = Ok ()" using update_answered [OF a assms(1,2)] assms(3) by simp
  with update_law [OF a assms(1)] assms(3,4) show "Q r w'" by (simp add: atomic_write_def)
qed

end

context dynamo_validating
begin

lemma wp_transact_invalid:
  assumes "\<not> transact_valid ti"
    "\<And>w' text rs. tbl w' = tbl w \<Longrightarrow>
       Q (Err (ServiceError ''ValidationException'' text rs)) w'"
  shows "wp (TransactWriteItems dc ti) Q w"
  by (rule wpI) (use transact_rejected assms in blast)

end

end
