(* ===== verification/Mem_Store.thy ===== *)
theory Mem_Store
  imports Dynamo_Store
begin

text \<open>
  An in-memory store and runtime that keep every contract of Dynamo_Store: the contracts can
  hold together, and the properties are tried on it. It is not a model of DynamoDB beyond
  those contracts. The clock shows UTC, starts on 1 January 2025 and moves one second at each
  reading; uuids are numbered. With \<open>strict\<close> the client rejects transactions whose placeholders
  do not match their expressions, as the service does; without it (as emulators and the
  repository's test client do) it lets them through.
\<close>

record mem =
  mem_map :: dynamo_table
  mem_keys :: "item_key list"
  mem_ticks :: nat
  mem_uuids :: nat

definition mem_tbl :: "mem \<Rightarrow> dynamo_table" where
  "mem_tbl w k =
     (if k \<in> set (mem_keys w)
      then (case mem_map w k of Some it \<Rightarrow> if item_key_of it = Some k then Some it else None | None \<Rightarrow> None)
      else None)"

definition mem_time :: "mem \<Rightarrow> go_time" where
  "mem_time w = \<lparr> nanos = (1735689600 + min (int (mem_ticks w)) 1000000000) * second, zone = 0 \<rparr>"

definition mem_empty :: mem where
  "mem_empty = \<lparr> mem_map = (\<lambda>k. None), mem_keys = [], mem_ticks = 0, mem_uuids = 0 \<rparr>"

definition mem_now :: "(mem, go_time) state" where
  "mem_now = State (\<lambda>w. let w' = w\<lparr> mem_ticks := mem_ticks w + 1 \<rparr> in (mem_time w', w'))"

definition mem_uuid :: "(mem, string) state" where
  "mem_uuid = State (\<lambda>w. (''token-'' @ show_nat (mem_uuids w), w\<lparr> mem_uuids := mem_uuids w + 1 \<rparr>))"

definition mem_runtime :: "mem go_runtime" where
  "mem_runtime = \<lparr> time_now = mem_now, uuid_new = mem_uuid,
                    timer_wait = (\<lambda>d. State_Monad.return None) \<rparr>"

definition mem_error :: "string \<Rightarrow> go_error" where
  "mem_error code = ServiceError code code []"

definition mem_set :: "item_key list \<Rightarrow> dynamo_table \<Rightarrow> mem \<Rightarrow> mem" where
  "mem_set ks u w = w\<lparr> mem_map := u, mem_keys := ks @ mem_keys w \<rparr>"

definition mem_write ::
    "bool \<Rightarrow> item_key option list \<Rightarrow> (dynamo_table \<Rightarrow> dynamo_table option) \<Rightarrow> string \<Rightarrow> (mem, unit outcome) state" where
  "mem_write ok ks eff code = State (\<lambda>w.
     if \<not> ok then (Err (mem_error ''ValidationException''), w)
     else case eff (mem_tbl w) of
        Some u \<Rightarrow> (Ok (), mem_set (List.map_filter id ks) u w)
      | None \<Rightarrow> (Err (mem_error code), w))"

fun insert_key :: "('a \<Rightarrow> 'a \<Rightarrow> bool) \<Rightarrow> 'a \<Rightarrow> 'a list \<Rightarrow> 'a list" where
  "insert_key R k [] = [k]"
| "insert_key R k (x # xs) = (if R x k then x # insert_key R k xs else k # x # xs)"

definition sort_keys :: "('a \<Rightarrow> 'a \<Rightarrow> bool) \<Rightarrow> 'a list \<Rightarrow> 'a list" where
  "sort_keys R ks = foldr (insert_key R) ks []"

definition mem_query :: "string \<Rightarrow> query_input \<Rightarrow> (mem, item list outcome) state" where
  "mem_query T i = State (\<lambda>w.
     let ks = sort_keys (key_before i) (filter (query_match i (mem_tbl w)) (remdups (mem_keys w)));
         ks' = (case qi_Limit i of None \<Rightarrow> ks | Some n \<Rightarrow> take (nat n) ks)
     in if qi_TableName i \<noteq> T \<or> \<not> query_valid i \<or> (case qi_Limit i of None \<Rightarrow> False | Some n \<Rightarrow> n < 1)
        then (Err (mem_error ''ValidationException''), w)
        else (Ok (map (\<lambda>k. project (qi_Projection i) (the_item (mem_tbl w k))) ks'), w))"

definition mem_scan :: "string \<Rightarrow> scan_input \<Rightarrow> (mem, item list outcome) state" where
  "mem_scan T i = State (\<lambda>w.
     let ks = filter (\<lambda>k. mem_tbl w k \<noteq> None \<and> holds [] (si_Values i) (the_item (mem_tbl w k)) (si_Filter i))
                (remdups (mem_keys w))
     in if si_TableName i \<noteq> T then (Err (mem_error ''ResourceNotFoundException''), w)
        else (Ok (map (\<lambda>k. the_item (mem_tbl w k)) ks), w))"

definition mem_get :: "string \<Rightarrow> get_item_input \<Rightarrow> (mem, item outcome) state" where
  "mem_get T i = State (\<lambda>w.
     case item_key_of (gi_Key i) of
       Some k \<Rightarrow> if gi_TableName i = T then (Ok (the_item (mem_tbl w k)), w)
                 else (Err (mem_error ''ResourceNotFoundException''), w)
     | None \<Rightarrow> (Err (mem_error ''ValidationException''), w))"

definition mem_batch_get :: "string \<Rightarrow> batch_get_input \<Rightarrow> (mem, batch_get_output outcome) state" where
  "mem_batch_get T i = State (\<lambda>w.
     (Ok \<lparr> bgo_Responses = [(T, List.map_filter
             (\<lambda>it. case item_key_of it of Some k \<Rightarrow> mem_tbl w k | None \<Rightarrow> None)
             (entries (bg_RequestItems i) T))],
           bgo_UnprocessedKeys = [] \<rparr>, w))"

definition mem_batch_write :: "string \<Rightarrow> batch_write_input \<Rightarrow> (mem, batch_write_input outcome) state" where
  "mem_batch_write T i = State (\<lambda>w.
     if None \<in> set (entries i T) then (Err (mem_error ''ValidationException''), w)
     else (Ok [], w\<lparr> mem_map := (\<lambda>k. if k \<in> set (List.map_filter (\<lambda>r. case r of Some it \<Rightarrow> item_key_of it | None \<Rightarrow> None) (entries i T))
                                  then None else mem_tbl w k) \<rparr>))"

definition mem_client :: "string \<Rightarrow> bool \<Rightarrow> mem dynamo_client" where
  "mem_client T strict =
     \<lparr> GetItem = mem_get T,
       PutItem = (\<lambda>i. mem_write (pi_TableName i = T \<and> item_key_of (pi_Item i) \<noteq> None)
                        [item_key_of (pi_Item i)] (put_effect i) ''ConditionalCheckFailedException''),
       UpdateItem = (\<lambda>i. mem_write (ui_TableName i = T) [item_key_of (ui_Key i)] (update_effect i)
                           ''ConditionalCheckFailedException''),
       DeleteItem = (\<lambda>i. mem_write (di_TableName i = T \<and> item_key_of (di_Key i) \<noteq> None)
                           [] (delete_effect i) ''ConditionalCheckFailedException''),
       Query = mem_query T,
       Scan = mem_scan T,
       TransactWriteItems = (\<lambda>is. mem_write
         ((\<forall>i \<in> set is. ui_TableName i = T) \<and> distinct (transact_keys is) \<and> (strict \<longrightarrow> transact_valid is))
         (transact_keys is) (transact_effect is) ''TransactionCanceledException''),
       BatchGetItem = mem_batch_get T,
       BatchWriteItem = mem_batch_write T \<rparr>"

section \<open>It keeps the contracts\<close>

lemma mem_tbl_stored: "stored (mem_tbl w)"
  unfolding stored_def mem_tbl_def by (auto split: if_splits option.splits)

lemma mem_tbl_keys: "mem_tbl w k \<noteq> None \<Longrightarrow> k \<in> set (mem_keys w)"
  by (auto simp: mem_tbl_def split: if_splits)

lemma mem_tbl_set:
  assumes "stored u" "\<And>k. u k \<noteq> None \<Longrightarrow> k \<in> set ks \<or> k \<in> set (mem_keys w)"
  shows "mem_tbl (mem_set ks u w) = u"
proof
  fix k
  show "mem_tbl (mem_set ks u w) k = u k"
  proof (cases "u k")
    case None
    then show ?thesis by (simp add: mem_tbl_def mem_set_def)
  next
    case (Some it)
    then have "item_key_of it = Some k" using assms(1) by (rule storedD [rotated])
    moreover have "k \<in> set ks \<or> k \<in> set (mem_keys w)" using Some assms(2) by auto
    ultimately show ?thesis using Some by (auto simp: mem_tbl_def mem_set_def)
  qed
qed

lemma mem_time_set [simp]: "mem_time (mem_set ks u w) = mem_time w"
  by (simp add: mem_time_def mem_set_def)

text \<open>An effect that keeps items under their keys and creates only those it names.\<close>

definition effect_ok :: "item_key option list \<Rightarrow> (dynamo_table \<Rightarrow> dynamo_table option) \<Rightarrow> bool" where
  "effect_ok ks eff \<longleftrightarrow>
     (\<forall>t u. stored t \<and> eff t = Some u \<longrightarrow>
        stored u \<and> (\<forall>k. u k \<noteq> None \<longrightarrow> Some k \<in> set ks \<or> t k \<noteq> None))"

lemma mem_write_atomic:
  assumes "effect_ok ks eff"
    "run_state (mem_write ok ks eff code) w = (r, w')"
  shows "mem_time w' = mem_time w" "atomic_write (eff (mem_tbl w)) (mem_tbl w) (mem_tbl w') r"
    "ok \<Longrightarrow> (case eff (mem_tbl w) of Some u \<Rightarrow> r = Ok () | None \<Rightarrow> r = Err (mem_error code) \<and> w' = w)"
    "\<not> ok \<Longrightarrow> r = Err (mem_error ''ValidationException'') \<and> w' = w"
proof -
  have set: "mem_tbl (mem_set (List.map_filter id ks) u w) = u" if e: "eff (mem_tbl w) = Some u" for u
  proof (rule mem_tbl_set)
    show "stored u" using assms(1) mem_tbl_stored e unfolding effect_ok_def by blast
  next
    fix k
    assume "u k \<noteq> None"
    then have "Some k \<in> set ks \<or> mem_tbl w k \<noteq> None"
      using assms(1) mem_tbl_stored e unfolding effect_ok_def by blast
    then show "k \<in> set (List.map_filter id ks) \<or> k \<in> set (mem_keys w)"
    proof
      assume "Some k \<in> set ks"
      then have "k \<in> set (List.map_filter id ks)"
        unfolding List.map_filter_def by (auto simp: image_iff intro!: bexI [of _ "Some k"])
      then show ?thesis ..
    next
      assume "mem_tbl w k \<noteq> None"
      then show ?thesis using mem_tbl_keys by blast
    qed
  qed
  show "mem_time w' = mem_time w"
    using assms(2) by (auto simp: mem_write_def split: if_splits option.splits)
  show "atomic_write (eff (mem_tbl w)) (mem_tbl w) (mem_tbl w') r"
    "ok \<Longrightarrow> (case eff (mem_tbl w) of Some u \<Rightarrow> r = Ok () | None \<Rightarrow> r = Err (mem_error code) \<and> w' = w)"
    "\<not> ok \<Longrightarrow> r = Err (mem_error ''ValidationException'') \<and> w' = w"
    using assms(2) set
    by (auto simp: mem_write_def atomic_write_def split: if_splits option.splits)
qed

lemma transact_effect_keys:
  "transact_effect is t = Some u \<Longrightarrow> u k \<noteq> None \<Longrightarrow> Some k \<in> set (transact_keys is) \<or> t k \<noteq> None"
proof (induction "is" t rule: transact_effect.induct)
  case (2 i "is" t)
  then obtain t' where t': "update_effect i t = Some t'" "transact_effect is t' = Some u"
    by (auto split: option.splits)
  from 2(1) [OF t'] 2(3) have "Some k \<in> set (transact_keys is) \<or> t' k \<noteq> None" by simp
  with update_effect_other [OF t'(1), of k] show ?case by (auto simp: transact_keys_def)
qed simp

lemma set_insert_key [simp]: "set (insert_key R k xs) = insert k (set xs)"
  by (induction R k xs rule: insert_key.induct) auto

lemma set_sort_keys [simp]: "set (sort_keys R ks) = set ks"
  by (induction ks) (auto simp: sort_keys_def)

lemma insert_key_sorted:
  assumes "\<And>a b c. R a b \<Longrightarrow> R b c \<Longrightarrow> R a c" "\<And>x. x \<in> set xs \<Longrightarrow> R x k \<or> R k x" "sorted_wrt R xs"
  shows "sorted_wrt R (insert_key R k xs)"
  using assms(2,3)
proof (induction xs)
  case (Cons x xs)
  show ?case
  proof (cases "R x k")
    case True
    then show ?thesis using Cons by auto
  next
    case False
    then have "R k x" using Cons by auto
    then show ?thesis using False Cons(3) assms(1) by auto
  qed
qed simp

lemma sort_keys_sorted:
  assumes "\<And>a b c. R a b \<Longrightarrow> R b c \<Longrightarrow> R a c" "distinct ks"
    "\<And>x y. x \<in> set ks \<Longrightarrow> y \<in> set ks \<Longrightarrow> x \<noteq> y \<Longrightarrow> R x y \<or> R y x"
  shows "sorted_wrt R (sort_keys R ks)"
  using assms(2,3)
proof (induction ks)
  case Nil
  then show ?case by (simp add: sort_keys_def)
next
  case (Cons k ks)
  have e: "sort_keys R (k # ks) = insert_key R k (sort_keys R ks)"
    by (simp add: sort_keys_def)
  have tot: "R x k \<or> R k x" if "x \<in> set (sort_keys R ks)" for x
  proof -
    have "x \<in> set ks" using that by simp
    then have "x \<noteq> k" using Cons.prems(1) by auto
    then show ?thesis using Cons.prems(2) [of x k] \<open>x \<in> set ks\<close> by simp
  qed
  have "sorted_wrt R (sort_keys R ks)" using Cons by simp
  with tot show ?case unfolding e by (intro insert_key_sorted) (auto intro: assms(1))
qed

lemma key_before_trans: "key_before i a b \<Longrightarrow> key_before i b c \<Longrightarrow> key_before i a c"
  by (auto simp: key_before_def split: if_splits intro: str_less_trans)

lemma query_match_partition:
  assumes "query_valid i" "stored t" "query_match i t k" "query_match i t k'"
  shows "fst k = fst k'"
proof -
  obtain v c p where q: "qi_KeyCondition i = And (Equals (Path [''PK'']) (Val v)) c"
    "map_of (qi_Values i) v = Some (AvS p)"
    using assms(1) by (auto simp: query_valid_def split: expression.splits operand.splits list.splits option.splits
        attribute_value.splits)
  have "fst k = p" if m: "query_match i t k" for k
  proof -
    obtain it where it: "t k = Some it" "holds [] (qi_Values i) it (qi_KeyCondition i)"
      using m unfolding query_match_def by (cases "t k") auto
    have "map_of it ''PK'' = Some (AvS p)"
      using it(2) q by (auto simp: compare_values_def attr_def resolve_path_def resolve_name_def
          is_placeholder_def split: option.splits)
    then show ?thesis
      using storedD [OF assms(2) it(1)]
      by (auto simp: item_key_of_def split: option.splits attribute_value.splits)
  qed
  with assms(3,4) show ?thesis by simp
qed

lemma mem_query_sorted:
  assumes "query_valid i"
  shows "sorted_wrt (key_before i)
    (sort_keys (key_before i) (filter (query_match i (mem_tbl w)) (remdups (mem_keys w))))"
proof (rule sort_keys_sorted)
  fix x y
  assume a: "x \<in> set (filter (query_match i (mem_tbl w)) (remdups (mem_keys w)))"
    "y \<in> set (filter (query_match i (mem_tbl w)) (remdups (mem_keys w)))" "x \<noteq> y"
  then have "fst x = fst y"
    using query_match_partition [OF assms mem_tbl_stored, of w x y] by simp
  with a(3) have "snd x \<noteq> snd y" by (auto simp: prod_eq_iff)
  then show "key_before i x y \<or> key_before i y x"
    using str_less_linear [of "snd x" "snd y"] by (auto simp: key_before_def)
qed (auto intro: key_before_trans)

lemma mem_query_page:
  assumes "run_state (mem_query T i) w = (r, w')" "qi_TableName i = T" "query_valid i"
  shows "w' = w" "r \<noteq> Panic" "r = Ok items \<Longrightarrow> \<exists>ks. query_page i (mem_tbl w) ks items"
    "qi_Limit i = None \<Longrightarrow> \<exists>items ks. r = Ok items \<and> query_page i (mem_tbl w) ks items \<and>
       set ks = {k. query_match i (mem_tbl w) k}"
proof -
  define ks where "ks = sort_keys (key_before i) (filter (query_match i (mem_tbl w)) (remdups (mem_keys w)))"
  have ks: "sorted_wrt (key_before i) ks" "set ks = {k. query_match i (mem_tbl w) k}"
    using mem_query_sorted [OF assms(3)] mem_tbl_keys
    by (auto simp: ks_def query_match_def split: option.splits)
  have e: "run_state (mem_query T i) w =
    (if (case qi_Limit i of None \<Rightarrow> False | Some n \<Rightarrow> n < 1)
     then (Err (mem_error ''ValidationException''), w)
     else (Ok (map (\<lambda>k. project (qi_Projection i) (the_item (mem_tbl w k)))
             (case qi_Limit i of None \<Rightarrow> ks | Some n \<Rightarrow> take (nat n) ks)), w))"
    using assms(2,3) unfolding ks_def by (simp add: mem_query_def Let_def)
  show "w' = w" "r \<noteq> Panic" using assms(1) e by (auto split: if_splits)
  show "\<exists>ks. query_page i (mem_tbl w) ks items" if "r = Ok items"
  proof (cases "qi_Limit i")
    case None
    then have "query_page i (mem_tbl w) ks items"
      using assms(1) e ks that by (auto simp: query_page_def)
    then show ?thesis ..
  next
    case (Some n)
    then have "query_page i (mem_tbl w) (take (nat n) ks) items"
      using assms(1) e ks that
      by (auto simp: query_page_def dest: in_set_takeD intro: sorted_wrt_take split: if_splits)
    then show ?thesis ..
  qed
  show "\<exists>items ks. r = Ok items \<and> query_page i (mem_tbl w) ks items \<and>
       set ks = {k. query_match i (mem_tbl w) k}" if "qi_Limit i = None"
    using that assms(1) e ks by (auto simp: query_page_def)
qed

lemma mem_time_ok: "clock_ok 0 (mem_time w)"
  by (auto simp: clock_ok_def zone_ok_def wall_seconds_def unix_def mem_time_def)

lemma mem_client_sel [simp]:
  "GetItem (mem_client T strict) = mem_get T"
  "PutItem (mem_client T strict) = (\<lambda>i. mem_write (pi_TableName i = T \<and> item_key_of (pi_Item i) \<noteq> None)
      [item_key_of (pi_Item i)] (put_effect i) ''ConditionalCheckFailedException'')"
  "UpdateItem (mem_client T strict) = (\<lambda>i. mem_write (ui_TableName i = T) [item_key_of (ui_Key i)]
      (update_effect i) ''ConditionalCheckFailedException'')"
  "DeleteItem (mem_client T strict) = (\<lambda>i. mem_write (di_TableName i = T \<and> item_key_of (di_Key i) \<noteq> None)
      [] (delete_effect i) ''ConditionalCheckFailedException'')"
  "Query (mem_client T strict) = mem_query T"
  "Scan (mem_client T strict) = mem_scan T"
  "TransactWriteItems (mem_client T strict) = (\<lambda>is. mem_write
      ((\<forall>i \<in> set is. ui_TableName i = T) \<and> distinct (transact_keys is) \<and> (strict \<longrightarrow> transact_valid is))
      (transact_keys is) (transact_effect is) ''TransactionCanceledException'')"
  "BatchGetItem (mem_client T strict) = mem_batch_get T"
  "BatchWriteItem (mem_client T strict) = mem_batch_write T"
  by (simp_all add: mem_client_def)

lemma effect_okI:
  assumes "\<And>t u. stored t \<Longrightarrow> eff t = Some u \<Longrightarrow> stored u"
    "\<And>t u k. eff t = Some u \<Longrightarrow> u k \<noteq> None \<Longrightarrow> t k = None \<Longrightarrow> Some k \<in> set ks"
  shows "effect_ok ks eff"
  unfolding effect_ok_def using assms by blast

lemma effect_ok_put: "effect_ok [item_key_of (pi_Item i)] (put_effect i)"
proof (rule effect_okI)
  fix t u k
  assume "put_effect i t = Some u" "u k \<noteq> None" "t k = None"
  then show "Some k \<in> set [item_key_of (pi_Item i)]"
    using put_effect_other [of i t u k] by (cases "item_key_of (pi_Item i) = Some k") auto
qed (rule put_effect_stored)

lemma effect_ok_update: "effect_ok [item_key_of (ui_Key i)] (update_effect i)"
proof (rule effect_okI)
  fix t u k
  assume "update_effect i t = Some u" "u k \<noteq> None" "t k = None"
  then show "Some k \<in> set [item_key_of (ui_Key i)]"
    using update_effect_other [of i t u k] by (cases "item_key_of (ui_Key i) = Some k") auto
qed (rule update_effect_stored)

lemma effect_ok_delete: "effect_ok [] (delete_effect i)"
proof (rule effect_okI)
  fix t u k
  assume "delete_effect i t = Some u" "u k \<noteq> None" "t k = None"
  then show "Some k \<in> set []"
    by (auto simp: delete_effect_def split: option.splits if_splits)
qed (rule delete_effect_stored)

lemma effect_ok_transact: "effect_ok (transact_keys is) (transact_effect is)"
proof (rule effect_okI)
  fix t u k
  assume "transact_effect is t = Some u" "u k \<noteq> None" "t k = None"
  then show "Some k \<in> set (transact_keys is)"
    using transact_effect_keys [of "is" t u k] by simp
qed (rule transact_effect_stored)

lemmas mem_put = mem_write_atomic [OF effect_ok_put]
lemmas mem_update = mem_write_atomic [OF effect_ok_update]
lemmas mem_delete = mem_write_atomic [OF effect_ok_delete]
lemmas mem_transact = mem_write_atomic [OF effect_ok_transact]

lemma mem_error_as [simp]: "errors_as c (mem_error code) \<longleftrightarrow> code = c"
  by (simp add: mem_error_def)

lemma mem_scan_page:
  "run_state (mem_scan T i) w = (r, w') \<Longrightarrow> si_TableName i = T \<Longrightarrow>
   w' = w \<and> (\<exists>items ks. r = Ok items \<and> scan_page i (mem_tbl w) ks items \<and>
     set ks = {k. mem_tbl w k \<noteq> None \<and> holds [] (si_Values i) (the_item (mem_tbl w k)) (si_Filter i)})"
proof -
  assume a: "run_state (mem_scan T i) w = (r, w')" "si_TableName i = T"
  define ks where "ks = filter (\<lambda>k. mem_tbl w k \<noteq> None \<and> holds [] (si_Values i) (the_item (mem_tbl w k)) (si_Filter i))
      (remdups (mem_keys w))"
  have "w' = w" "r = Ok (map (\<lambda>k. the_item (mem_tbl w k)) ks)"
    using a by (auto simp: mem_scan_def Let_def ks_def)
  moreover have "set ks = {k. mem_tbl w k \<noteq> None \<and> holds [] (si_Values i) (the_item (mem_tbl w k)) (si_Filter i)}"
    using mem_tbl_keys [of w] unfolding ks_def by auto
  ultimately show ?thesis by (auto simp: scan_page_def)
qed

lemma mem_batch_get_law:
  assumes "run_state (mem_batch_get T i) w = (r, w')"
  shows "w' = w" "r \<noteq> Panic"
    "r = Ok out \<Longrightarrow> it \<in> set (entries (bgo_Responses out) T) \<Longrightarrow>
      \<exists>k \<in> keys_of (entries (bg_RequestItems i) T). mem_tbl w k = Some it"
proof -
  show "w' = w" "r \<noteq> Panic" using assms by (auto simp: mem_batch_get_def)
  assume "r = Ok out" "it \<in> set (entries (bgo_Responses out) T)"
  then have "it \<in> set (List.map_filter (\<lambda>it. case item_key_of it of Some k \<Rightarrow> mem_tbl w k | None \<Rightarrow> None)
      (entries (bg_RequestItems i) T))"
    using assms by (auto simp: mem_batch_get_def entries_def [of "[_]"])
  then obtain q k where "q \<in> set (entries (bg_RequestItems i) T)" "item_key_of q = Some k" "mem_tbl w k = Some it"
    unfolding List.map_filter_def by (auto split: option.splits)
  then show "\<exists>k \<in> keys_of (entries (bg_RequestItems i) T). mem_tbl w k = Some it"
    unfolding keys_of_def by blast
qed

lemma mem_batch_write_law:
  assumes "run_state (mem_batch_write T i) w = (r, w')"
  shows "mem_time w' = mem_time w \<and> r \<noteq> Panic \<and>
    (\<exists>D \<subseteq> delete_keys (entries i T). mem_tbl w' = (\<lambda>k. if k \<in> D then None else mem_tbl w k) \<and>
      (\<forall>un. r = Ok un \<longrightarrow> delete_keys (entries i T) - delete_keys (entries un T) \<subseteq> D))"
proof (cases "None \<in> set (entries i T)")
  case True
  with assms have "w' = w" "r = Err (mem_error ''ValidationException'')"
    by (auto simp: mem_batch_write_def)
  then show ?thesis by (intro conjI exI [of _ "{}"]) auto
next
  case False
  define D where "D = set (List.map_filter (\<lambda>r. case r of Some it \<Rightarrow> item_key_of it | None \<Rightarrow> None) (entries i T))"
  have w': "r = Ok []" "w' = w\<lparr> mem_map := (\<lambda>k. if k \<in> D then None else mem_tbl w k) \<rparr>"
    using assms False by (auto simp: mem_batch_write_def D_def)
  have D: "D = delete_keys (entries i T)"
    by (simp add: D_def delete_keys_def)
  have "mem_tbl w' = (\<lambda>k. if k \<in> D then None else mem_tbl w k)"
  proof
    fix k
    show "mem_tbl w' k = (if k \<in> D then None else mem_tbl w k)"
    proof (cases "mem_tbl w k")
      case None
      then show ?thesis by (simp add: w' mem_tbl_def [of "w\<lparr> mem_map := _ \<rparr>"])
    next
      case (Some it)
      then have "item_key_of it = Some k" "k \<in> set (mem_keys w)"
        using storedD [OF mem_tbl_stored] mem_tbl_keys [of w k] by auto
      then show ?thesis using Some by (simp add: w' mem_tbl_def [of "w\<lparr> mem_map := _ \<rparr>"])
    qed
  qed
  moreover have "mem_time w' = mem_time w" by (simp add: w' mem_time_def)
  ultimately show ?thesis
    using w'(1) D by (intro conjI exI [of _ D]) auto
qed

interpretation mem: dynamo_reliable "mem_client T strict" mem_runtime T 0 mem_tbl mem_time
  for T strict
proof (unfold_locales, goal_cases)
  case (1 w)
  show ?case by (rule mem_tbl_stored)
next
  case (2 w t w')
  then have t: "w' = w\<lparr> mem_ticks := mem_ticks w + 1 \<rparr>" "t = mem_time w'"
    by (auto simp: mem_runtime_def mem_now_def Let_def)
  have "nanos (mem_time w) \<le> nanos (mem_time w')"
    by (simp add: t mem_time_def second_def)
  moreover have "mem_tbl w' = mem_tbl w" by (simp add: t mem_tbl_def fun_eq_iff)
  ultimately show ?case using mem_time_ok t(2) by simp
next
  case (3 w u w')
  then show ?case
    by (auto simp: mem_runtime_def mem_uuid_def mem_tbl_def mem_time_def fun_eq_iff)
next
  case (4 d w c w')
  then show ?case by (simp add: mem_runtime_def)
next
  case (5 gi w r w')
  then show ?case by (auto simp: mem_get_def split: option.splits)
next
  case (6 pi w pr w')
  then show ?case using mem_put(1,2) [OF 6(1) [unfolded mem_client_sel]] by simp
next
  case (7 ui w ur w')
  then show ?case using mem_update(1,2) [OF 7(1) [unfolded mem_client_sel]] by simp
next
  case (8 di w dr w')
  then show ?case using mem_delete(1,2) [OF 8(1) [unfolded mem_client_sel]] by simp
next
  case (9 qi w qr w')
  then show ?case
    using mem_query_page [of T qi w qr w'] mem_tbl_stored [of w] by auto
next
  case (10 si w sr w')
  then show ?case using mem_scan_page [of T si w sr w'] mem_tbl_stored [of w] by auto
next
  case (11 ti w tr w')
  then show ?case using mem_transact(1,2) [OF 11(1) [unfolded mem_client_sel]] by simp
next
  case (12 ti w tr w')
  then show ?case using mem_transact(4) [OF 12(1) [unfolded mem_client_sel]] by simp
next
  case (13 bi w br w')
  then show ?case using mem_batch_get_law [OF 13(1) [unfolded mem_client_sel]] by blast
next
  case (14 wi w wr w')
  then show ?case using mem_batch_write_law [OF 14 [unfolded mem_client_sel]] by simp
next
  case (15 pi w e w')
  then show ?case
    using mem_put(3,4) [of "pi_TableName pi = T \<and> item_key_of (pi_Item pi) \<noteq> None" pi]
    by (fastforce simp: condition_failed_def put_effect_def split: option.splits)
next
  case (16 di w e w')
  then show ?case
    using mem_delete(3,4) [of "di_TableName di = T \<and> item_key_of (di_Key di) \<noteq> None" di]
    by (fastforce simp: condition_failed_def delete_effect_def split: option.splits)
next
  case (17 ti w e w')
  then show ?case
    using mem_transact(3,4) [of _ ti]
    by (fastforce simp: transaction_canceled_def split: option.splits)
next
  case (18 gi w r w' k)
  then show ?case by (auto simp: mem_get_def)
next
  case (19 pi w pr w')
  then show ?case
    using mem_put(3) [of "pi_TableName pi = T \<and> item_key_of (pi_Item pi) \<noteq> None" pi]
    by (fastforce simp: condition_failed_def put_valid_def split: option.splits)
next
  case (20 di w dr w')
  then show ?case
    using mem_delete(3) [of "di_TableName di = T \<and> item_key_of (di_Key di) \<noteq> None" di]
    by (fastforce simp: condition_failed_def delete_valid_def split: option.splits)
next
  case (21 ui w ur w')
  then show ?case
    using mem_update(3) [of "ui_TableName ui = T" ui] by (fastforce split: option.splits)
next
  case (22 qi w qr w')
  then show ?case using mem_query_page(4) [of T qi w qr w'] by simp
next
  case (23 si w sr w')
  then show ?case using mem_scan_page [of T si w sr w'] by auto
qed

interpretation mem_strict: dynamo_validating "mem_client T True" mem_runtime T 0 mem_tbl mem_time
  for T
proof (unfold_locales, goal_cases)
  case (1 ti w tr w')
  then show ?case
    using mem_transact(4) [of _ ti] by (fastforce simp: mem_error_def)
qed

end
