(* ===== verification/Dynamo_Records.thy ===== *)
theory Dynamo_Records
  imports Dynamo_Store
begin

text \<open>
  The records of dynamodb/common_types.go, the keys of dynamodb/manager.go that file them, and
  the conversions between records and items (dynamodb/state_manager.go). A Go struct is a
  record with a prefix for its fields; a pointer or a map that may be nil is an option.

  Shown: keys are injective in what they encode and lock, configuration, cluster and history
  records of a group never share a key; unmarshalling a marshalled configuration gives it
  back to the second, except for the fields the unmarshaller does not read
  (\<open>unmarshal_group_config_item\<close>).
\<close>

section \<open>Records\<close>

record timeout_settings =
  ts_TransitoryState :: string
  ts_UnhealthyPrimary :: string
  ts_Heartbeat :: string

record failover_reference =
  fr_Name :: string
  fr_Namespace :: string
  fr_Timestamp :: go_time

record group_config_record =
  gc_PK :: string
  gc_SK :: string
  gc_GSI1PK :: string
  gc_GSI1SK :: string
  gc_OperatorID :: string
  gc_GroupNamespace :: string
  gc_GroupName :: string
  gc_OwnerCluster :: string
  gc_PreviousOwner :: string
  gc_Version :: int
  gc_Timeouts :: timeout_settings
  gc_HeartbeatInterval :: string
  gc_LastUpdated :: go_time
  gc_LastFailover :: "failover_reference option"
  gc_Suspended :: bool
  gc_SuspensionReason :: string
  gc_Metadata :: "(string \<times> string) list option"

record cluster_status_record =
  cs_PK :: string
  cs_SK :: string
  cs_GSI1PK :: string
  cs_GSI1SK :: string
  cs_OperatorID :: string
  cs_GroupNamespace :: string
  cs_GroupName :: string
  cs_ClusterName :: string
  cs_Health :: string
  cs_State :: string
  cs_LastHeartbeat :: go_time
  cs_Components :: string

record history_record =
  hr_PK :: string
  hr_SK :: string
  hr_OperatorID :: string
  hr_GroupNamespace :: string
  hr_GroupName :: string
  hr_FailoverName :: string
  hr_SourceCluster :: string
  hr_TargetCluster :: string
  hr_StartTime :: go_time
  hr_EndTime :: go_time
  hr_Status :: string
  hr_Reason :: string
  hr_Downtime :: int
  hr_Duration :: int

record manager_group_state =
  mg_GroupID :: string
  mg_Status :: string
  mg_CurrentRole :: string
  mg_FailoverCount :: int
  mg_LastFailover :: "go_time option"
  mg_LastHeartbeat :: "go_time option"
  mg_FailoverReason :: string
  mg_LastUpdate :: int
  mg_VolumeState :: string
  mg_LastVolumeStateUpdateTime :: string

text \<open>The status of one component in the JSON text of a cluster's record.\<close>

record component_status =
  co_Health :: string
  co_Message :: string

definition HealthOK :: string where "HealthOK = ''OK''"
definition HealthDegraded :: string where "HealthDegraded = ''DEGRADED''"
definition HealthError :: string where "HealthError = ''ERROR''"

definition StatePrimary :: string where "StatePrimary = ''PRIMARY''"
definition StateStandby :: string where "StateStandby = ''STANDBY''"
definition StateFailover :: string where "StateFailover = ''FAILOVER''"
definition StateFailback :: string where "StateFailback = ''FAILBACK''"

text \<open>\<open>&GroupConfigRecord{}\<close>\<close>

definition zero_group_config :: group_config_record where
  "zero_group_config =
     \<lparr> gc_PK = '''', gc_SK = '''', gc_GSI1PK = '''', gc_GSI1SK = '''', gc_OperatorID = '''',
       gc_GroupNamespace = '''', gc_GroupName = '''', gc_OwnerCluster = '''',
       gc_PreviousOwner = '''', gc_Version = 0,
       gc_Timeouts = \<lparr> ts_TransitoryState = '''', ts_UnhealthyPrimary = '''', ts_Heartbeat = '''' \<rparr>,
       gc_HeartbeatInterval = '''', gc_LastUpdated = zero_time, gc_LastFailover = None,
       gc_Suspended = False, gc_SuspensionReason = '''', gc_Metadata = None \<rparr>"

section \<open>The base manager and its keys\<close>

record 'w base_manager =
  bm_client :: "'w dynamo_client"
  bm_tableName :: string
  bm_clusterName :: string
  bm_operatorID :: string

definition getGroupPK :: "'w base_manager \<Rightarrow> string \<Rightarrow> string \<Rightarrow> string" where
  "getGroupPK m namespace name = ''GROUP#'' @ bm_operatorID m @ ''#'' @ namespace @ ''#'' @ name"

definition getClusterSK :: "string \<Rightarrow> string" where
  "getClusterSK clusterName = ''CLUSTER#'' @ clusterName"

definition getHistorySK :: "go_time \<Rightarrow> string" where
  "getHistorySK timestamp = ''HISTORY#'' @ format_rfc3339 timestamp"

definition getOperatorGSI1PK :: "'w base_manager \<Rightarrow> string" where
  "getOperatorGSI1PK m = ''OPERATOR#'' @ bm_operatorID m"

definition getGroupGSI1SK :: "string \<Rightarrow> string \<Rightarrow> string" where
  "getGroupGSI1SK namespace name = ''GROUP#'' @ namespace @ ''#'' @ name"

definition getClusterGSI1PK :: "string \<Rightarrow> string" where
  "getClusterGSI1PK clusterName = ''CLUSTER#'' @ clusterName"

text \<open>The \<open>Key\<close> of a request.\<close>

definition key_item :: "string \<Rightarrow> string \<Rightarrow> item" where
  "key_item pk sk = [(''PK'', AvS pk), (''SK'', AvS sk)]"

definition config_key :: "'w base_manager \<Rightarrow> string \<Rightarrow> string \<Rightarrow> item_key" where
  "config_key m namespace name = (getGroupPK m namespace name, ''CONFIG'')"

definition lock_key :: "'w base_manager \<Rightarrow> string \<Rightarrow> string \<Rightarrow> item_key" where
  "lock_key m namespace name = (getGroupPK m namespace name, ''LOCK'')"

definition cluster_key :: "'w base_manager \<Rightarrow> string \<Rightarrow> string \<Rightarrow> string \<Rightarrow> item_key" where
  "cluster_key m namespace name cluster = (getGroupPK m namespace name, getClusterSK cluster)"

lemma item_key_of_key_item [simp]: "item_key_of (key_item pk sk) = Some (pk, sk)"
  by (simp add: item_key_of_def key_item_def)

lemma getClusterSK_inject [simp]: "getClusterSK a = getClusterSK b \<longleftrightarrow> a = b"
  by (simp add: getClusterSK_def)

lemma key_kinds_disjoint [simp]:
  "getClusterSK c \<noteq> ''CONFIG''" "getClusterSK c \<noteq> ''LOCK''" "getClusterSK c \<noteq> getHistorySK t"
  "getHistorySK t \<noteq> ''CONFIG''" "getHistorySK t \<noteq> ''LOCK''" "getHistorySK t \<noteq> getClusterSK c"
  "''CONFIG'' \<noteq> getClusterSK c" "''LOCK'' \<noteq> getClusterSK c"
  "''CONFIG'' \<noteq> getHistorySK t" "''LOCK'' \<noteq> getHistorySK t"
  by (simp_all add: getClusterSK_def getHistorySK_def)

lemma keys_disjoint [simp]:
  "config_key m ns n \<noteq> lock_key m ns n" "lock_key m ns n \<noteq> config_key m ns n"
  "config_key m ns n \<noteq> cluster_key m ns n c" "cluster_key m ns n c \<noteq> config_key m ns n"
  "lock_key m ns n \<noteq> cluster_key m ns n c" "cluster_key m ns n c \<noteq> lock_key m ns n"
  "cluster_key m ns n c = cluster_key m ns n d \<longleftrightarrow> c = d"
  by (simp_all add: config_key_def lock_key_def cluster_key_def)

lemma append_hash_inject:
  "CHR ''#'' \<notin> set a \<Longrightarrow> CHR ''#'' \<notin> set b \<Longrightarrow> a @ CHR ''#'' # x = b @ CHR ''#'' # y \<longleftrightarrow> a = b \<and> x = y"
  by (auto simp: append_eq_append_conv2 Cons_eq_append_conv append_eq_Cons_conv)

text \<open>Kubernetes names have no \<open>#\<close>, so distinct groups have distinct partition keys.\<close>

lemma getGroupPK_inject:
  assumes "CHR ''#'' \<notin> set ns" "CHR ''#'' \<notin> set ns'"
  shows "getGroupPK m ns n = getGroupPK m ns' n' \<longleftrightarrow> ns = ns' \<and> n = n'"
  using assms by (simp add: getGroupPK_def append_hash_inject)

section \<open>Reading attributes\<close>

text \<open>\<open>if v, ok := item[k]; ok { if sv, ok := v.(*types.AttributeValueMemberS); ok { x = sv.Value } }\<close>\<close>

definition get_S :: "item \<Rightarrow> string \<Rightarrow> string option" where
  "get_S it k = (case map_of it k of Some (AvS s) \<Rightarrow> Some s | _ \<Rightarrow> None)"

definition get_N :: "item \<Rightarrow> string \<Rightarrow> string option" where
  "get_N it k = (case map_of it k of Some (AvN s) \<Rightarrow> Some s | _ \<Rightarrow> None)"

definition get_BOOL :: "item \<Rightarrow> string \<Rightarrow> bool option" where
  "get_BOOL it k = (case map_of it k of Some (AvBOOL b) \<Rightarrow> Some b | _ \<Rightarrow> None)"

definition get_time :: "item \<Rightarrow> string \<Rightarrow> go_time option" where
  "get_time it k = (case get_S it k of Some s \<Rightarrow> parse_rfc3339 s | None \<Rightarrow> None)"

definition parseInt :: "string \<Rightarrow> int option" where
  "parseInt s = scan_int s"

definition get_int :: "item \<Rightarrow> string \<Rightarrow> int option" where
  "get_int it k = (case get_N it k of Some s \<Rightarrow> parseInt s | None \<Rightarrow> None)"

text \<open>Assign the attribute if it is there with the right type, else leave the field.\<close>

definition or_else :: "'a option \<Rightarrow> 'a \<Rightarrow> 'a" where
  "or_else x d = (case x of Some y \<Rightarrow> y | None \<Rightarrow> d)"

lemma or_else_simps [simp]: "or_else (Some y) d = y" "or_else None d = d"
  by (simp_all add: or_else_def)

section \<open>Group configurations\<close>

definition default_timeouts :: timeout_settings where
  "default_timeouts =
     \<lparr> ts_TransitoryState = ''5m'', ts_UnhealthyPrimary = ''2m'', ts_Heartbeat = ''1m'' \<rparr>"

text \<open>\<open>unmarshalDynamoDBItem(item, config)\<close> for \<open>config\<close> a configuration record, its only caller's
  use, where it returns no error.\<close>

definition unmarshalDynamoDBItem :: "item \<Rightarrow> group_config_record \<Rightarrow> group_config_record" where
  "unmarshalDynamoDBItem it c =
     c\<lparr> gc_PK := or_else (get_S it ''PK'') (gc_PK c),
        gc_SK := or_else (get_S it ''SK'') (gc_SK c),
        gc_GSI1PK := or_else (get_S it ''GSI1PK'') (gc_GSI1PK c),
        gc_GSI1SK := or_else (get_S it ''GSI1SK'') (gc_GSI1SK c),
        gc_OperatorID := or_else (get_S it ''operatorID'') (gc_OperatorID c),
        gc_GroupNamespace := or_else (get_S it ''groupNamespace'') (gc_GroupNamespace c),
        gc_GroupName := or_else (get_S it ''groupName'') (gc_GroupName c),
        gc_OwnerCluster := or_else (get_S it ''ownerCluster'') (gc_OwnerCluster c),
        gc_PreviousOwner := or_else (get_S it ''previousOwner'') (gc_PreviousOwner c),
        gc_Version := or_else (get_int it ''version'') (gc_Version c),
        gc_HeartbeatInterval := or_else (get_S it ''heartbeatInterval'') (gc_HeartbeatInterval c),
        gc_LastUpdated := or_else (get_time it ''lastUpdated'') (gc_LastUpdated c),
        gc_Suspended := or_else (get_BOOL it ''suspended'') (gc_Suspended c),
        gc_SuspensionReason := or_else (get_S it ''suspensionReason'') (gc_SuspensionReason c),
        gc_Timeouts := default_timeouts \<rparr>"

text \<open>The item UpdateGroupConfig writes.\<close>

definition group_config_item :: "group_config_record \<Rightarrow> item" where
  "group_config_item c =
     [(''PK'', AvS (gc_PK c)),
      (''SK'', AvS (gc_SK c)),
      (''GSI1PK'', AvS (gc_GSI1PK c)),
      (''GSI1SK'', AvS (gc_GSI1SK c)),
      (''operatorID'', AvS (gc_OperatorID c)),
      (''groupNamespace'', AvS (gc_GroupNamespace c)),
      (''groupName'', AvS (gc_GroupName c)),
      (''ownerCluster'', AvS (gc_OwnerCluster c)),
      (''version'', AvN (show_int (gc_Version c))),
      (''suspended'', AvBOOL (gc_Suspended c)),
      (''heartbeatInterval'', AvS (gc_HeartbeatInterval c)),
      (''lastUpdated'', AvS (format_rfc3339 (gc_LastUpdated c)))]
     @ (if gc_PreviousOwner c \<noteq> '''' then [(''previousOwner'', AvS (gc_PreviousOwner c))] else [])
     @ (if gc_SuspensionReason c \<noteq> '''' then [(''suspensionReason'', AvS (gc_SuspensionReason c))] else [])
     @ [(''timeouts'', AvM
          [(''transitoryState'', AvS (ts_TransitoryState (gc_Timeouts c))),
           (''unhealthyPrimary'', AvS (ts_UnhealthyPrimary (gc_Timeouts c))),
           (''heartbeat'', AvS (ts_Heartbeat (gc_Timeouts c)))])]
     @ (case gc_Metadata c of
          Some (x # xs) \<Rightarrow> [(''metadata'', AvM (map (\<lambda>(k, v). (k, AvS v)) (x # xs)))]
        | _ \<Rightarrow> [])
     @ (case gc_LastFailover c of
          Some f \<Rightarrow> [(''lastFailover'', AvM
            [(''namespace'', AvS (fr_Namespace f)),
             (''name'', AvS (fr_Name f)),
             (''timestamp'', AvS (format_rfc3339 (fr_Timestamp f)))])]
        | None \<Rightarrow> [])"

lemma group_config_item_lookup [simp]:
  "map_of (group_config_item c) ''PK'' = Some (AvS (gc_PK c))"
  "map_of (group_config_item c) ''SK'' = Some (AvS (gc_SK c))"
  "map_of (group_config_item c) ''GSI1PK'' = Some (AvS (gc_GSI1PK c))"
  "map_of (group_config_item c) ''GSI1SK'' = Some (AvS (gc_GSI1SK c))"
  "map_of (group_config_item c) ''operatorID'' = Some (AvS (gc_OperatorID c))"
  "map_of (group_config_item c) ''groupNamespace'' = Some (AvS (gc_GroupNamespace c))"
  "map_of (group_config_item c) ''groupName'' = Some (AvS (gc_GroupName c))"
  "map_of (group_config_item c) ''ownerCluster'' = Some (AvS (gc_OwnerCluster c))"
  "map_of (group_config_item c) ''version'' = Some (AvN (show_int (gc_Version c)))"
  "map_of (group_config_item c) ''suspended'' = Some (AvBOOL (gc_Suspended c))"
  "map_of (group_config_item c) ''heartbeatInterval'' = Some (AvS (gc_HeartbeatInterval c))"
  "map_of (group_config_item c) ''lastUpdated'' = Some (AvS (format_rfc3339 (gc_LastUpdated c)))"
  by (simp_all add: group_config_item_def)

lemma group_config_item_optional [simp]:
  "map_of (group_config_item c) ''previousOwner'' =
     (if gc_PreviousOwner c \<noteq> '''' then Some (AvS (gc_PreviousOwner c)) else None)"
  "map_of (group_config_item c) ''suspensionReason'' =
     (if gc_SuspensionReason c \<noteq> '''' then Some (AvS (gc_SuspensionReason c)) else None)"
  by (simp_all add: group_config_item_def split: option.splits list.splits)

lemma item_key_of_group_config_item [simp]:
  "item_key_of (group_config_item c) = Some (gc_PK c, gc_SK c)"
  by (simp add: item_key_of_def)

lemma group_config_item_not_Nil [simp]: "group_config_item c \<noteq> []"
  by (simp add: group_config_item_def)

lemma get_attr_group_config_item [simp]:
  "get_S (group_config_item c) ''PK'' = Some (gc_PK c)"
  "get_S (group_config_item c) ''SK'' = Some (gc_SK c)"
  "get_S (group_config_item c) ''GSI1PK'' = Some (gc_GSI1PK c)"
  "get_S (group_config_item c) ''GSI1SK'' = Some (gc_GSI1SK c)"
  "get_S (group_config_item c) ''operatorID'' = Some (gc_OperatorID c)"
  "get_S (group_config_item c) ''groupNamespace'' = Some (gc_GroupNamespace c)"
  "get_S (group_config_item c) ''groupName'' = Some (gc_GroupName c)"
  "get_S (group_config_item c) ''ownerCluster'' = Some (gc_OwnerCluster c)"
  "get_S (group_config_item c) ''heartbeatInterval'' = Some (gc_HeartbeatInterval c)"
  "get_S (group_config_item c) ''lastUpdated'' = Some (format_rfc3339 (gc_LastUpdated c))"
  "get_N (group_config_item c) ''version'' = Some (show_int (gc_Version c))"
  "get_BOOL (group_config_item c) ''suspended'' = Some (gc_Suspended c)"
  by (simp_all add: get_S_def get_N_def get_BOOL_def)

lemma get_optional_group_config_item [simp]:
  "or_else (get_S (group_config_item c) ''previousOwner'') '''' = gc_PreviousOwner c"
  "or_else (get_S (group_config_item c) ''suspensionReason'') '''' = gc_SuspensionReason c"
  by (simp_all add: get_S_def)

text \<open>What survives being written and read again.\<close>

definition as_reread :: "group_config_record \<Rightarrow> group_config_record" where
  "as_reread c = c\<lparr> gc_LastUpdated := to_second (gc_LastUpdated c), gc_Timeouts := default_timeouts,
                    gc_LastFailover := None, gc_Metadata := None \<rparr>"

lemma unmarshal_group_config_item:
  assumes "int64 (gc_Version c)" "in_era (gc_LastUpdated c)"
  shows "unmarshalDynamoDBItem (group_config_item c) zero_group_config = as_reread c"
  using assms
  by (simp add: unmarshalDynamoDBItem_def as_reread_def zero_group_config_def get_int_def parseInt_def
      scan_int_show_int get_time_def parse_format_rfc3339)

text \<open>The configuration an item stands for.\<close>

definition config_of_item :: "item \<Rightarrow> group_config_record" where
  "config_of_item it = unmarshalDynamoDBItem it zero_group_config"

lemma config_of_item_simps [simp]:
  "gc_LastFailover (config_of_item it) = None"
  "gc_Metadata (config_of_item it) = None"
  "gc_Timeouts (config_of_item it) = default_timeouts"
  by (simp_all add: config_of_item_def unmarshalDynamoDBItem_def zero_group_config_def)

end
