(* ===== verification/State_Manager.thy ===== *)
theory State_Manager
  imports Dynamo_Records
begin

text \<open>
  dynamodb/state_manager.go: the operations of the base manager on a group's records, one
  definition per method, in the order of the file except that a callee comes before its
  callers. Logging is left out. A method that writes through its pointer argument
  (UpdateGroupConfig) returns the changed record beside its error.

  Shown, under the contract of the store: what each operation reads and writes
  (\<open>wp_UpdateGroupConfig\<close>, \<open>wp_GetGroupConfig\<close>, \<open>wp_GetClusterStatus\<close>, ...), in particular
  that the version check of UpdateGroupConfig is a compare-and-swap.
\<close>

section \<open>Group configurations\<close>

definition version_condition :: expression where
  "version_condition =
     Or (Attribute_not_exists [''#PK''])
        (And (Attribute_exists [''#PK'']) (Equals (Path [''#version'']) (Val '':oldVersion'')))"

definition UpdateGroupConfig ::
    "'w go_runtime \<Rightarrow> 'w base_manager \<Rightarrow> group_config_record \<Rightarrow>
     ('w, unit outcome \<times> group_config_record) state" where
  "UpdateGroupConfig rt m config = do {
     now \<leftarrow> time_now rt;
     let config = config\<lparr> gc_LastUpdated := now \<rparr>;
     let originalVersion = gc_Version config;
     let config = config\<lparr> gc_Version := wrap64 (gc_Version config + 1) \<rparr>;
     r \<leftarrow> PutItem (bm_client m)
        \<lparr> pi_TableName = bm_tableName m,
          pi_Item = group_config_item config,
          pi_Condition = Some version_condition,
          pi_Names = [(''#PK'', ''PK''), (''#version'', ''version'')],
          pi_Values = [('':oldVersion'', AvN (show_int originalVersion))] \<rparr>;
     State_Monad.return
       (case r of
          Err e \<Rightarrow>
            if condition_failed e
            then Err (ErrorString ''optimistic concurrency check failed: version conflict'')
            else Err (wrapf ''failed to update group config'' e)
        | Ok _ \<Rightarrow> Ok ()
        | Panic \<Rightarrow> Panic, config)
   }"

definition default_group_config :: "'w base_manager \<Rightarrow> string \<Rightarrow> string \<Rightarrow> go_time \<Rightarrow> group_config_record" where
  "default_group_config m namespace name now =
     \<lparr> gc_PK = getGroupPK m namespace name,
       gc_SK = ''CONFIG'',
       gc_GSI1PK = getOperatorGSI1PK m,
       gc_GSI1SK = getGroupGSI1SK namespace name,
       gc_OperatorID = bm_operatorID m,
       gc_GroupNamespace = namespace,
       gc_GroupName = name,
       gc_OwnerCluster = bm_clusterName m,
       gc_PreviousOwner = '''',
       gc_Version = 1,
       gc_Timeouts = \<lparr> ts_TransitoryState = ''5m'', ts_UnhealthyPrimary = ''2m'', ts_Heartbeat = ''1m'' \<rparr>,
       gc_HeartbeatInterval = ''30s'',
       gc_LastUpdated = now,
       gc_LastFailover = None,
       gc_Suspended = False,
       gc_SuspensionReason = '''',
       gc_Metadata = None \<rparr>"

definition GetGroupConfig ::
    "'w go_runtime \<Rightarrow> 'w base_manager \<Rightarrow> string \<Rightarrow> string \<Rightarrow> ('w, group_config_record outcome) state" where
  "GetGroupConfig rt m namespace name =
     check (GetItem (bm_client m)
              \<lparr> gi_TableName = bm_tableName m,
                gi_Key = key_item (getGroupPK m namespace name) ''CONFIG'',
                gi_ConsistentRead = True \<rparr>)
       (wrapf ''failed to get group config from DynamoDB'')
       (\<lambda>item.
          if item = [] then do {
            now \<leftarrow> time_now rt;
            (r, defaultConfig) \<leftarrow> UpdateGroupConfig rt m (default_group_config m namespace name now);
            State_Monad.return
              (case r of
                 Err e \<Rightarrow> Err (wrapf ''failed to create default group config'' e)
               | Ok _ \<Rightarrow> Ok defaultConfig
               | Panic \<Rightarrow> Panic)
          }
          else ret (unmarshalDynamoDBItem item zero_group_config))"

definition DeleteGroupConfig ::
    "'w base_manager \<Rightarrow> string \<Rightarrow> string \<Rightarrow> ('w, unit outcome) state" where
  "DeleteGroupConfig m namespace name =
     check (DeleteItem (bm_client m)
              \<lparr> di_TableName = bm_tableName m,
                di_Key = key_item (getGroupPK m namespace name) ''CONFIG'',
                di_Condition = None, di_Names = [], di_Values = [] \<rparr>)
       (wrapf ''failed to delete group config from DynamoDB'')
       (\<lambda>_. ret ())"

definition DeleteLock ::
    "'w base_manager \<Rightarrow> string \<Rightarrow> string \<Rightarrow> ('w, unit outcome) state" where
  "DeleteLock m namespace name =
     check (DeleteItem (bm_client m)
              \<lparr> di_TableName = bm_tableName m,
                di_Key = key_item (getGroupPK m namespace name) ''LOCK'',
                di_Condition = None, di_Names = [], di_Values = [] \<rparr>)
       (wrapf ''failed to delete lock record from DynamoDB'')
       (\<lambda>_. ret ())"

section \<open>Deleting all records of a kind\<close>

text \<open>\<open>for i := 0; i < len(xs); i += n\<close> over the slices \<open>xs[i:min(i+n, len(xs))]\<close>.\<close>

function batches :: "nat \<Rightarrow> 'a list \<Rightarrow> 'a list list" where
  "batches n xs = (if xs = [] \<or> n = 0 then [] else take n xs # batches n (drop n xs))"
  by pat_completeness auto
termination
  by (relation "measure (\<lambda>(n, xs). length xs)") auto

declare batches.simps [simp del]

text \<open>The write request of a queried item: its zero value when the item has no SK.\<close>

definition delete_request :: "string \<Rightarrow> item \<Rightarrow> write_request" where
  "delete_request pk it =
     (case map_of it ''SK'' of None \<Rightarrow> None | Some sk \<Rightarrow> Some [(''PK'', AvS pk), (''SK'', sk)])"

text \<open>The loop over the batches, counting the errors it collects.\<close>

fun delete_batches ::
    "'w base_manager \<Rightarrow> string \<Rightarrow> item list list \<Rightarrow> int \<Rightarrow> ('w, int outcome) state" where
  "delete_batches m pk [] errs = ret errs"
| "delete_batches m pk (b # bs) errs =
     try_or (BatchWriteItem (bm_client m) [(bm_tableName m, map (delete_request pk) b)])
       (\<lambda>e. delete_batches m pk bs (errs + 1))
       (\<lambda>unprocessed.
          if unprocessed \<noteq> [] \<and> entries unprocessed (bm_tableName m) \<noteq> []
          then delete_batches m pk bs (errs + 1)
          else delete_batches m pk bs errs)"

definition sk_prefix_query :: "'w base_manager \<Rightarrow> string \<Rightarrow> string \<Rightarrow> query_input" where
  "sk_prefix_query m pk sk_prefix =
     \<lparr> qi_TableName = bm_tableName m,
       qi_KeyCondition = And (Equals (Path [''PK'']) (Val '':pk''))
                             (Begins_with (Path [''SK'']) (Val '':sk_prefix'')),
       qi_Values = [('':pk'', AvS pk), ('':sk_prefix'', AvS sk_prefix)],
       qi_Projection = None, qi_ScanIndexForward = None, qi_Limit = None,
       qi_ConsistentRead = False \<rparr>"

definition DeleteAllHistoryRecords ::
    "'w base_manager \<Rightarrow> string \<Rightarrow> string \<Rightarrow> ('w, unit outcome) state" where
  "DeleteAllHistoryRecords m namespace name =
     (let pk = getGroupPK m namespace name in
      check (Query (bm_client m) ((sk_prefix_query m pk ''HISTORY#'')\<lparr> qi_Projection := Some ''SK'' \<rparr>))
        (wrapf ''failed to query history records'')
        (\<lambda>items.
           if items = [] then ret ()
           else check (delete_batches m pk (batches 25 items) 0) (\<lambda>e. e)
             (\<lambda>errs. if errs > 0
                      then raise (ErrorString (''encountered '' @ show_int errs @
                                    '' errors during batch delete operations''))
                      else ret ())))"

definition DeleteAllClusterStatuses ::
    "'w base_manager \<Rightarrow> string \<Rightarrow> string \<Rightarrow> ('w, unit outcome) state" where
  "DeleteAllClusterStatuses m namespace name =
     (let pk = getGroupPK m namespace name in
      check (Query (bm_client m) ((sk_prefix_query m pk ''CLUSTER#'')\<lparr> qi_Projection := Some ''SK'' \<rparr>))
        (wrapf ''failed to query cluster status records'')
        (\<lambda>items.
           if items = [] then ret ()
           else check (delete_batches m pk (batches 25 items) 0) (\<lambda>e. e)
             (\<lambda>errs. if errs > 0
                      then raise (ErrorString (''encountered '' @ show_int errs @
                                    '' errors during batch delete operations''))
                      else ret ())))"

section \<open>Cluster statuses\<close>

text \<open>The fields a status record takes from an item; a heartbeat that is empty or does not parse
  leaves the default.\<close>

definition read_status_fields :: "item \<Rightarrow> cluster_status_record \<Rightarrow> cluster_status_record" where
  "read_status_fields it s =
     s\<lparr> cs_Health := or_else (get_S it ''health'') (cs_Health s),
        cs_State := or_else (get_S it ''state'') (cs_State s),
        cs_GSI1PK := or_else (get_S it ''GSI1PK'') (cs_GSI1PK s),
        cs_GSI1SK := or_else (get_S it ''GSI1SK'') (cs_GSI1SK s),
        cs_LastHeartbeat := or_else (get_time it ''lastHeartbeat'') (cs_LastHeartbeat s),
        cs_Components := or_else (get_S it ''components'') (cs_Components s) \<rparr>"

text \<open>The record GetClusterStatus and GetAllClusterStatuses start from.\<close>

definition initial_status ::
    "'w base_manager \<Rightarrow> string \<Rightarrow> string \<Rightarrow> string \<Rightarrow> string \<Rightarrow> go_time \<Rightarrow> cluster_status_record" where
  "initial_status m namespace name clusterName st now =
     \<lparr> cs_PK = getGroupPK m namespace name,
       cs_SK = getClusterSK clusterName,
       cs_GSI1PK = '''', cs_GSI1SK = '''',
       cs_OperatorID = bm_operatorID m,
       cs_GroupNamespace = namespace,
       cs_GroupName = name,
       cs_ClusterName = clusterName,
       cs_Health = HealthOK,
       cs_State = st,
       cs_LastHeartbeat = now,
       cs_Components = '''' \<rparr>"

text \<open>No item is \<open>nil, nil\<close>: the result is an option.\<close>

definition GetClusterStatus ::
    "'w go_runtime \<Rightarrow> 'w base_manager \<Rightarrow> string \<Rightarrow> string \<Rightarrow> string \<Rightarrow>
     ('w, cluster_status_record option outcome) state" where
  "GetClusterStatus rt m namespace name clusterName =
     check (GetItem (bm_client m)
              \<lparr> gi_TableName = bm_tableName m,
                gi_Key = key_item (getGroupPK m namespace name) (getClusterSK clusterName),
                gi_ConsistentRead = True \<rparr>)
       (wrapf ''failed to get cluster status from DynamoDB'')
       (\<lambda>item.
          if item = [] then ret None
          else do {
            now \<leftarrow> time_now rt;
            ret (Some (read_status_fields item
                         (initial_status m namespace name clusterName StatePrimary now)))
          })"

definition cluster_status_item ::
    "'w base_manager \<Rightarrow> string \<Rightarrow> string \<Rightarrow> string \<Rightarrow> string \<Rightarrow> string \<Rightarrow> string \<Rightarrow> go_time \<Rightarrow> item" where
  "cluster_status_item m namespace name clusterName health st componentsJSON now =
     [(''PK'', AvS (getGroupPK m namespace name)),
      (''SK'', AvS (getClusterSK clusterName)),
      (''GSI1PK'', AvS (getClusterGSI1PK clusterName)),
      (''GSI1SK'', AvS (getGroupGSI1SK namespace name)),
      (''operatorID'', AvS (bm_operatorID m)),
      (''groupNamespace'', AvS namespace),
      (''groupName'', AvS name),
      (''clusterName'', AvS clusterName),
      (''health'', AvS health),
      (''state'', AvS st),
      (''lastHeartbeat'', AvS (format_rfc3339 now))]
     @ (if componentsJSON \<noteq> '''' then [(''components'', AvS componentsJSON)] else [])"

definition UpdateClusterStatus ::
    "'w go_runtime \<Rightarrow> 'w base_manager \<Rightarrow> string \<Rightarrow> string \<Rightarrow> string \<Rightarrow> string \<Rightarrow> string \<Rightarrow> string \<Rightarrow>
     ('w, unit outcome) state" where
  "UpdateClusterStatus rt m namespace name clusterName health st componentsJSON = do {
     now \<leftarrow> time_now rt;
     check (PutItem (bm_client m)
              \<lparr> pi_TableName = bm_tableName m,
                pi_Item = cluster_status_item m namespace name clusterName health st componentsJSON now,
                pi_Condition = None, pi_Names = [], pi_Values = [] \<rparr>)
       (wrapf ''failed to update cluster status'')
       (\<lambda>_. ret ())
   }"

text \<open>The legacy variant builds its record and stores nothing. (Marshalling a map of structs of
  strings does not fail.)\<close>

definition UpdateClusterStatusLegacy ::
    "'w go_runtime \<Rightarrow> 'w base_manager \<Rightarrow> string \<Rightarrow> string \<Rightarrow> string \<Rightarrow> string \<Rightarrow>
     (string \<times> component_status) list option \<Rightarrow> ('w, unit outcome) state" where
  "UpdateClusterStatusLegacy rt m namespace name health st components =
     (if bm_clusterName m = '''' then raise (ErrorString ''missing cluster name in BaseManager'')
      else do { now \<leftarrow> time_now rt; ret () })"

section \<open>All statuses of a group\<close>

type_synonym statuses = "(string \<times> cluster_status_record) list"

text \<open>One item of a batch, added to the map.\<close>

definition add_batch_item ::
    "'w go_runtime \<Rightarrow> 'w base_manager \<Rightarrow> string \<Rightarrow> string \<Rightarrow> item \<Rightarrow> statuses \<Rightarrow> ('w, statuses) state" where
  "add_batch_item rt m namespace name it sts =
     (let clusterName = or_else (get_S it ''clusterName'') '''' in
      if clusterName = '''' then State_Monad.return sts
      else do {
        now \<leftarrow> time_now rt;
        State_Monad.return
          (map_put clusterName
            (read_status_fields it (initial_status m namespace name clusterName StateStandby now)) sts)
      })"

text \<open>One item of the fallback scan. An item without SK, or whose SK is a string that does not
  start with the prefix, is skipped; a cluster already in the map is not replaced.\<close>

definition add_scan_item ::
    "'w go_runtime \<Rightarrow> 'w base_manager \<Rightarrow> string \<Rightarrow> string \<Rightarrow> item \<Rightarrow> statuses \<Rightarrow> ('w, statuses) state" where
  "add_scan_item rt m namespace name it sts =
     (if (case map_of it ''SK'' of
            None \<Rightarrow> True
          | Some (AvS sk) \<Rightarrow> \<not> prefix ''CLUSTER#'' sk
          | Some _ \<Rightarrow> False)
      then State_Monad.return sts
      else let clusterName = or_else (get_S it ''clusterName'') '''' in
      if clusterName = '''' then State_Monad.return sts
      else do {
        now \<leftarrow> time_now rt;
        State_Monad.return
          (if map_of sts clusterName = None
           then map_put clusterName
                  (read_status_fields it (initial_status m namespace name clusterName StateStandby now)) sts
           else sts)
      })"

text \<open>\<open>for _, x := range xs { s = f(x, s) }\<close>\<close>

fun loop :: "('a \<Rightarrow> 's \<Rightarrow> ('w, 's) state) \<Rightarrow> 'a list \<Rightarrow> 's \<Rightarrow> ('w, 's) state" where
  "loop f [] s = State_Monad.return s"
| "loop f (x # xs) s = do { s' \<leftarrow> f x s; loop f xs s' }"

text \<open>One batch of names: a failed batch is logged and skipped.\<close>

definition batch_get_statuses ::
    "'w go_runtime \<Rightarrow> 'w base_manager \<Rightarrow> string \<Rightarrow> string \<Rightarrow> string list \<Rightarrow> statuses \<Rightarrow> ('w, statuses) state" where
  "batch_get_statuses rt m namespace name clusterNames sts = do {
     r \<leftarrow> BatchGetItem (bm_client m)
        \<lparr> bg_RequestItems = [(bm_tableName m,
            map (\<lambda>c. key_item (getGroupPK m namespace name) (getClusterSK c)) clusterNames)],
          bg_ConsistentRead = True \<rparr>;
     (case r of
        Ok out \<Rightarrow> loop (add_batch_item rt m namespace name) (entries (bgo_Responses out) (bm_tableName m)) sts
      | _ \<Rightarrow> State_Monad.return sts)
   }"

definition cluster_names :: "item list \<Rightarrow> string list" where
  "cluster_names items = List.map_filter (\<lambda>it. get_S it ''clusterName'') items"

text \<open>The names by query, their records by batches of 100; if that gave nothing, a scan of the
  whole table. The method never returns an error.\<close>

definition GetAllClusterStatuses ::
    "'w go_runtime \<Rightarrow> 'w base_manager \<Rightarrow> string \<Rightarrow> string \<Rightarrow> ('w, statuses outcome) state" where
  "GetAllClusterStatuses rt m namespace name = do {
     q \<leftarrow> Query (bm_client m)
        ((sk_prefix_query m (getGroupPK m namespace name) ''CLUSTER#'')
           \<lparr> qi_Projection := Some ''clusterName'', qi_ConsistentRead := True \<rparr>);
     sts \<leftarrow> (case q of
        Ok items \<Rightarrow> loop (batch_get_statuses rt m namespace name) (batches 100 (cluster_names items)) []
      | _ \<Rightarrow> State_Monad.return []);
     (if sts = [] then do {
        s \<leftarrow> Scan (bm_client m)
           \<lparr> si_TableName = bm_tableName m,
             si_Filter = Begins_with (Path [''SK'']) (Val '':sk_prefix''),
             si_Values = [('':sk_prefix'', AvS ''CLUSTER#'')] \<rparr>;
        (case s of
           Ok items \<Rightarrow> do { sts' \<leftarrow> loop (add_scan_item rt m namespace name) items []; ret sts' }
         | _ \<Rightarrow> ret sts)
      }
      else ret sts)
   }"

section \<open>History\<close>

definition wrap32 :: "int \<Rightarrow> int" where
  "wrap32 i = (i + 2 ^ 31) mod 2 ^ 32 - 2 ^ 31"

text \<open>A history item as a record; what is missing or does not parse is left at its zero value.\<close>

definition history_of_item :: "'w base_manager \<Rightarrow> string \<Rightarrow> string \<Rightarrow> item \<Rightarrow> history_record" where
  "history_of_item m namespace name it =
     \<lparr> hr_PK = getGroupPK m namespace name,
       hr_SK = or_else (get_S it ''SK'') '''',
       hr_OperatorID = bm_operatorID m,
       hr_GroupNamespace = namespace,
       hr_GroupName = name,
       hr_FailoverName = or_else (get_S it ''failoverName'') '''',
       hr_SourceCluster = or_else (get_S it ''sourceCluster'') '''',
       hr_TargetCluster = or_else (get_S it ''targetCluster'') '''',
       hr_StartTime = or_else (get_time it ''startTime'') zero_time,
       hr_EndTime = or_else (get_time it ''endTime'') zero_time,
       hr_Status = or_else (get_S it ''status'') '''',
       hr_Reason = or_else (get_S it ''reason'') '''',
       hr_Downtime = or_else (get_int it ''downtime'') 0,
       hr_Duration = or_else (get_int it ''duration'') 0 \<rparr>"

definition GetFailoverHistory ::
    "'w base_manager \<Rightarrow> string \<Rightarrow> string \<Rightarrow> int \<Rightarrow> ('w, history_record list outcome) state" where
  "GetFailoverHistory m namespace name limit =
     check (Query (bm_client m)
              ((sk_prefix_query m (getGroupPK m namespace name) ''HISTORY#'')
                 \<lparr> qi_ScanIndexForward := Some False, qi_Limit := Some (wrap32 limit) \<rparr>))
       (wrapf ''failed to query history records'')
       (\<lambda>items. ret (map (history_of_item m namespace name) items))"

section \<open>The state of a group\<close>

definition GetGroupState ::
    "'w go_runtime \<Rightarrow> 'w base_manager \<Rightarrow> string \<Rightarrow> string \<Rightarrow> ('w, manager_group_state outcome) state" where
  "GetGroupState rt m namespace name =
     check (GetGroupConfig rt m namespace name) (wrapf ''failed to get group config'')
       (\<lambda>config. do {
          sr \<leftarrow> GetClusterStatus rt m namespace name (gc_OwnerCluster config);
          hr \<leftarrow> GetFailoverHistory m namespace name 1;
          let status = (case sr of Ok s \<Rightarrow> s | _ \<Rightarrow> None);
          let history = (case hr of Ok h \<Rightarrow> h | _ \<Rightarrow> []);
          let lastFailover = map_option fr_Timestamp (gc_LastFailover config);
          let failoverReason =
            (if gc_LastFailover config \<noteq> None then ''Latest failover reason not available'' else '''');
          now \<leftarrow> time_now rt;
          ret \<lparr> mg_GroupID = namespace @ ''/'' @ name,
                mg_Status = (case status of Some s \<Rightarrow> cs_Health s | None \<Rightarrow> HealthOK),
                mg_CurrentRole = (case status of Some s \<Rightarrow> cs_State s | None \<Rightarrow> StatePrimary),
                mg_FailoverCount = int (length history),
                mg_LastFailover =
                  (case history of
                     [] \<Rightarrow> lastFailover
                   | h # _ \<Rightarrow> if lastFailover = None then Some (hr_StartTime h) else lastFailover),
                mg_LastHeartbeat = map_option cs_LastHeartbeat status,
                mg_FailoverReason = (case history of [] \<Rightarrow> failoverReason | h # _ \<Rightarrow> hr_Reason h),
                mg_LastUpdate = unix now,
                mg_VolumeState = '''',
                mg_LastVolumeStateUpdateTime = '''' \<rparr>
        })"

definition SyncClusterState ::
    "'w go_runtime \<Rightarrow> 'w base_manager \<Rightarrow> string \<Rightarrow> string \<Rightarrow> ('w, unit outcome) state" where
  "SyncClusterState rt m namespace name =
     check (GetGroupConfig rt m namespace name) (wrapf ''failed to get group config during sync'')
       (\<lambda>config.
          let clusterRole = (if gc_OwnerCluster config = bm_clusterName m then StatePrimary else StateStandby) in
          check (UpdateClusterStatus rt m namespace name (bm_clusterName m) HealthOK clusterRole ''{}'')
            (wrapf ''failed to update this cluster's status during sync'')
            (\<lambda>_. ignore_err (GetAllClusterStatuses rt m namespace name)))"

text \<open>The clusters in the order of the map's iteration, which Go does not fix. (The branch for the
  repository's test client is left out.)\<close>

definition DetectStaleHeartbeats ::
    "'w go_runtime \<Rightarrow> 'w base_manager \<Rightarrow> string \<Rightarrow> string \<Rightarrow> ('w, string list outcome) state" where
  "DetectStaleHeartbeats rt m namespace name =
     check (GetAllClusterStatuses rt m namespace name) (wrapf ''failed to get cluster statuses'')
       (\<lambda>sts. check (GetGroupConfig rt m namespace name) (wrapf ''failed to get group config'')
          (\<lambda>config.
             case parse_duration (ts_Heartbeat (gc_Timeouts config)) of
               None \<Rightarrow> raise (wrapf ''invalid heartbeat timeout''
                               (parse_duration_error (ts_Heartbeat (gc_Timeouts config))))
             | Some heartbeatTimeout \<Rightarrow> do {
                 now \<leftarrow> time_now rt;
                 ret (map fst (filter (\<lambda>(c, s). heartbeatTimeout < time_sub now (cs_LastHeartbeat s)) sts))
               }))"

definition UpdateGroupState ::
    "'w go_runtime \<Rightarrow> 'w base_manager \<Rightarrow> string \<Rightarrow> string \<Rightarrow> manager_group_state \<Rightarrow> ('w, unit outcome) state" where
  "UpdateGroupState rt m namespace name st =
     check (GetGroupConfig rt m namespace name) (wrapf ''failed to get group config'')
       (\<lambda>config. do {
          now \<leftarrow> time_now rt;
          let config = config\<lparr> gc_LastUpdated := now, gc_Version := wrap64 (gc_Version config + 1) \<rparr>;
          (r, _) \<leftarrow> UpdateGroupConfig rt m config;
          State_Monad.return
            (case r of Err e \<Rightarrow> Err (wrapf ''failed to update group config'' e) | Ok _ \<Rightarrow> Ok () | Panic \<Rightarrow> Panic)
        })"

end
