(* ===== verification/Operations_Manager.thy ===== *)
theory Operations_Manager
  imports State_Manager
begin

text \<open>
  dynamodb/operations_manager.go: the distributed lock of a group, failover and failback as
  transactions, suspension, ownership transfer and history. One definition per method, a
  callee before its callers. Logging is left out.
\<close>

section \<open>Text of times and of JSON\<close>

text \<open>\<open>t.Format("20060102-150405")\<close>\<close>

definition format_compact :: "go_time \<Rightarrow> string" where
  "format_compact t =
     (let s = wall_seconds t; r = s mod 86400 in
      case civil_of_day (s div 86400) of (y, m, d) \<Rightarrow>
        show_year y @ show2 m @ show2 d @ ''-'' @
        show2 (r div 3600) @ show2 (r mod 3600 div 60) @ show2 (r mod 60))"

text \<open>\<open>t.Format(time.RFC3339Nano)\<close>: the fraction without trailing zeros.\<close>

definition format_rfc3339_nano :: "go_time \<Rightarrow> string" where
  "format_rfc3339_nano t =
     (let f = nanos t mod second;
          ds = rev (dropWhile (\<lambda>c. c = CHR ''0'') (rev (show_width 9 (nat f))))
      in format_wall (wall_seconds t) @ (if f = 0 then '''' else CHR ''.'' # ds) @ show_zone (zone t))"

definition hex_digit :: "nat \<Rightarrow> char" where
  "hex_digit d = (if d < 10 then char_of (48 + d) else char_of (87 + d))"

text \<open>A character in a JSON string as encoding/json writes it, for ASCII.\<close>

definition json_char :: "char \<Rightarrow> string" where
  "json_char c =
     (let n = of_char c :: nat in
      if n = 34 then [CHR 0x5C, CHR 0x22]
      else if n = 92 then [CHR 0x5C, CHR 0x5C]
      else if n = 10 then [CHR 0x5C, CHR ''n'']
      else if n = 13 then [CHR 0x5C, CHR ''r'']
      else if n = 9 then [CHR 0x5C, CHR ''t'']
      else if n = 8 then [CHR 0x5C, CHR ''b'']
      else if n = 12 then [CHR 0x5C, CHR ''f'']
      else if n < 32 \<or> n = 60 \<or> n = 62 \<or> n = 38
        then CHR 0x5C # ''u00'' @ [hex_digit (n div 16), hex_digit (n mod 16)]
      else [c])"

definition json_string :: "string \<Rightarrow> string" where
  "json_string s = CHR 0x22 # concat (map json_char s) @ [CHR 0x22]"

text \<open>\<open>json.Marshal(FailoverReference{...})\<close>\<close>

definition json_failover_reference :: "failover_reference \<Rightarrow> string" where
  "json_failover_reference f =
     ''{'' @ json_string ''name'' @ '':'' @ json_string (fr_Name f) @ '','' @
     json_string ''namespace'' @ '':'' @ json_string (fr_Namespace f) @ '','' @
     json_string ''timestamp'' @ '':'' @ json_string (format_rfc3339_nano (fr_Timestamp f)) @ ''}''"

text \<open>Go's integer division truncates.\<close>

definition go_quot :: "int \<Rightarrow> int \<Rightarrow> int" where
  "go_quot a b = sgn a * sgn b * (\<bar>a\<bar> div \<bar>b\<bar>)"

section \<open>The lock\<close>

text \<open>Whether the group is locked, and by which cluster. The read is not a consistent one.\<close>

definition IsLocked ::
    "'w go_runtime \<Rightarrow> 'w base_manager \<Rightarrow> string \<Rightarrow> string \<Rightarrow> ('w, (bool \<times> string) outcome) state" where
  "IsLocked rt m namespace name =
     check (GetItem (bm_client m)
              \<lparr> gi_TableName = bm_tableName m,
                gi_Key = key_item (getGroupPK m namespace name) ''LOCK'',
                gi_ConsistentRead = False \<rparr>)
       (wrapf ''failed to check lock status'')
       (\<lambda>item.
          if item = [] then ret (False, '''')
          else
            let expiry = (case get_S item ''expiresAt'' of
                            None \<Rightarrow> Some zero_time
                          | Some s \<Rightarrow> parse_rfc3339 s) in
            (case expiry of
               None \<Rightarrow> raise (wrapf ''invalid expiration time in lock''
                               (parse_time_error (or_else (get_S item ''expiresAt'') '''')))
             | Some expiresAt \<Rightarrow> do {
                 now \<leftarrow> time_now rt;
                 (if time_after now expiresAt then ret (False, '''')
                  else ret (True, or_else (get_S item ''lockedBy'') ''''))
               }))"

definition lock_lease :: int where
  "lock_lease = 10 * 60 * second"

definition lock_item :: "'w base_manager \<Rightarrow> string \<Rightarrow> string \<Rightarrow> string \<Rightarrow> go_time \<Rightarrow> string \<Rightarrow> item" where
  "lock_item m namespace name reason now leaseToken =
     [(''PK'', AvS (getGroupPK m namespace name)),
      (''SK'', AvS ''LOCK''),
      (''operatorID'', AvS (bm_operatorID m)),
      (''groupNamespace'', AvS namespace),
      (''groupName'', AvS name),
      (''lockedBy'', AvS (bm_clusterName m)),
      (''lockReason'', AvS reason),
      (''acquiredAt'', AvS (format_rfc3339 now)),
      (''expiresAt'', AvS (format_rfc3339 (time_add now lock_lease))),
      (''leaseToken'', AvS leaseToken)]"

text \<open>\<open>attribute_not_exists(#PK) OR (attribute_exists(#PK) AND #expiresAt < :now)\<close>\<close>

definition lock_condition :: expression where
  "lock_condition =
     Or (Attribute_not_exists [''#PK''])
        (And (Attribute_exists [''#PK'']) (Less (Path [''#expiresAt'']) (Val '':now'')))"

definition lock_put :: "'w base_manager \<Rightarrow> string \<Rightarrow> string \<Rightarrow> string \<Rightarrow> go_time \<Rightarrow> string \<Rightarrow> put_item_input" where
  "lock_put m namespace name reason now leaseToken =
     \<lparr> pi_TableName = bm_tableName m,
       pi_Item = lock_item m namespace name reason now leaseToken,
       pi_Condition = Some lock_condition,
       pi_Names = [(''#PK'', ''PK''), (''#expiresAt'', ''expiresAt'')],
       pi_Values = [('':now'', AvS (format_rfc3339 now))] \<rparr>"

definition AcquireLock ::
    "'w go_runtime \<Rightarrow> 'w base_manager \<Rightarrow> string \<Rightarrow> string \<Rightarrow> string \<Rightarrow> ('w, string outcome) state" where
  "AcquireLock rt m namespace name reason = do {
     leaseToken \<leftarrow> uuid_new rt;
     check (IsLocked rt m namespace name) (wrapf ''failed to check existing lock'')
       (\<lambda>(locked, lockedBy).
          if locked then raise (ErrorString (''lock already held by '' @ lockedBy))
          else do {
            now \<leftarrow> time_now rt;
            try_or (PutItem (bm_client m) (lock_put m namespace name reason now leaseToken))
              (\<lambda>e. if condition_failed e
                    then raise (ErrorString ''lock already held by another process'')
                    else raise (wrapf ''failed to acquire lock'' e))
              (\<lambda>_. ret leaseToken)
          })
   }"

definition release_delete :: "'w base_manager \<Rightarrow> string \<Rightarrow> string \<Rightarrow> string \<Rightarrow> delete_item_input" where
  "release_delete m namespace name leaseToken =
     \<lparr> di_TableName = bm_tableName m,
       di_Key = key_item (getGroupPK m namespace name) ''LOCK'',
       di_Condition = Some (And (Attribute_exists [''#PK''])
                                (Equals (Path [''#leaseToken'']) (Val '':leaseToken''))),
       di_Names = [(''#PK'', ''PK''), (''#leaseToken'', ''leaseToken'')],
       di_Values = [('':leaseToken'', AvS leaseToken)] \<rparr>"

definition ReleaseLock ::
    "'w base_manager \<Rightarrow> string \<Rightarrow> string \<Rightarrow> string \<Rightarrow> ('w, unit outcome) state" where
  "ReleaseLock m namespace name leaseToken =
     try_or (DeleteItem (bm_client m) (release_delete m namespace name leaseToken))
       (\<lambda>e. if condition_failed e
             then raise (ErrorString ''lock doesn't exist or lease token doesn't match'')
             else raise (wrapf ''failed to release lock'' e))
       (\<lambda>_. ret ())"

section \<open>Preconditions and suspension\<close>

text \<open>A missing status record is a nil pointer, and reading its health panics.\<close>

definition ValidateFailoverPreconditions ::
    "'w go_runtime \<Rightarrow> 'w base_manager \<Rightarrow> string \<Rightarrow> string \<Rightarrow> string \<Rightarrow> bool \<Rightarrow> ('w, unit outcome) state" where
  "ValidateFailoverPreconditions rt m namespace name targetCluster skipHealthCheck =
     check (IsLocked rt m namespace name) (wrapf ''failed to check lock status'')
       (\<lambda>(locked, lockedBy).
          if locked then raise (ErrorString (''failover group is locked by: '' @ lockedBy))
          else check (GetGroupConfig rt m namespace name) (wrapf ''failed to check config'')
            (\<lambda>config.
               if gc_Suspended config
               then raise (ErrorString (''failover group is suspended: '' @ gc_SuspensionReason config))
               else if skipHealthCheck then ret ()
               else check (GetClusterStatus rt m namespace name targetCluster)
                      (wrapf ''failed to check target cluster health'')
                      (\<lambda>status.
                         case status of
                           None \<Rightarrow> State_Monad.return Panic
                         | Some s \<Rightarrow>
                             if cs_Health s \<noteq> HealthOK
                             then raise (ErrorString (''target cluster '' @ targetCluster @
                                           '' is not healthy: '' @ cs_Health s))
                             else ret ())))"

definition UpdateSuspension ::
    "'w go_runtime \<Rightarrow> 'w base_manager \<Rightarrow> string \<Rightarrow> string \<Rightarrow> bool \<Rightarrow> string \<Rightarrow> ('w, unit outcome) state" where
  "UpdateSuspension rt m namespace name suspended reason =
     check (GetGroupConfig rt m namespace name) (wrapf ''failed to get current config'')
       (\<lambda>config. do {
          let config = config\<lparr> gc_Suspended := suspended, gc_SuspensionReason := reason,
                               gc_Version := wrap64 (gc_Version config + 1) \<rparr>;
          now \<leftarrow> time_now rt;
          (r, _) \<leftarrow> UpdateGroupConfig rt m (config\<lparr> gc_LastUpdated := now \<rparr>);
          State_Monad.return r
        })"

section \<open>Ownership transfer\<close>

definition forced_transfer ::
    "'w base_manager \<Rightarrow> string \<Rightarrow> string \<Rightarrow> string \<Rightarrow> string \<Rightarrow> int \<Rightarrow> go_time \<Rightarrow> update_item_input" where
  "forced_transfer m namespace name newOwner previousOwner version now =
     \<lparr> ui_TableName = bm_tableName m,
       ui_Key = key_item (getGroupPK m namespace name) ''CONFIG'',
       ui_Update = [([''ownerCluster''], '':newOwner''), ([''previousOwner''], '':prevOwner''),
                    ([''version''], '':newVersion''), ([''lastUpdated''], '':now'')],
       ui_Condition = None,
       ui_Names = [],
       ui_Values = [('':newOwner'', AvS newOwner), ('':prevOwner'', AvS previousOwner),
                    ('':newVersion'', AvN (show_int version)), ('':now'', AvS (format_rfc3339 now))] \<rparr>"

definition is_version_conflict :: "go_error \<Rightarrow> bool" where
  "is_version_conflict e \<longleftrightarrow>
     contains (err_msg e) ''version conflict'' \<or> contains (err_msg e) ''conditional check failed''"

definition transferOwnership ::
    "'w go_runtime \<Rightarrow> 'w base_manager \<Rightarrow> string \<Rightarrow> string \<Rightarrow> string \<Rightarrow> ('w, unit outcome) state" where
  "transferOwnership rt m namespace name newOwner =
     check (GetGroupConfig rt m namespace name) (wrapf ''failed to get current config'')
       (\<lambda>config.
          if gc_OwnerCluster config = newOwner then ret ()
          else do {
            let previousOwner = gc_OwnerCluster config;
            let config = config\<lparr> gc_PreviousOwner := previousOwner, gc_OwnerCluster := newOwner,
                                 gc_Version := wrap64 (gc_Version config + 1) \<rparr>;
            now \<leftarrow> time_now rt;
            let config = config\<lparr> gc_LastUpdated := now \<rparr>;
            config \<leftarrow> (case gc_LastFailover config of
                None \<Rightarrow> do {
                  t1 \<leftarrow> time_now rt;
                  t2 \<leftarrow> time_now rt;
                  State_Monad.return (config\<lparr> gc_LastFailover := Some
                    \<lparr> fr_Name = ''forced-failover-'' @ format_compact t1,
                      fr_Namespace = namespace, fr_Timestamp = t2 \<rparr> \<rparr>)
                }
              | Some f \<Rightarrow> do {
                  t \<leftarrow> time_now rt;
                  State_Monad.return (config\<lparr> gc_LastFailover := Some (f\<lparr> fr_Timestamp := t \<rparr>) \<rparr>)
                });
            (r, config) \<leftarrow> UpdateGroupConfig rt m config;
            (case r of
               Ok _ \<Rightarrow> ret ()
             | Panic \<Rightarrow> State_Monad.return Panic
             | Err e \<Rightarrow>
                 if is_version_conflict e
                 then do {
                   now \<leftarrow> time_now rt;
                   check (UpdateItem (bm_client m)
                            (forced_transfer m namespace name newOwner previousOwner
                               (wrap64 (gc_Version config + 1)) now))
                     (wrapf ''forced ownership update failed'')
                     (\<lambda>_. ret ())
                 }
                 else raise (wrapf ''failed to update ownership'' e))
          })"

definition TransferOwnership ::
    "'w go_runtime \<Rightarrow> 'w base_manager \<Rightarrow> string \<Rightarrow> string \<Rightarrow> string \<Rightarrow> ('w, unit outcome) state" where
  "TransferOwnership rt m namespace name newOwner = transferOwnership rt m namespace name newOwner"

section \<open>History\<close>

definition history_item ::
    "'w base_manager \<Rightarrow> string \<Rightarrow> string \<Rightarrow> string \<Rightarrow> string \<Rightarrow> string \<Rightarrow> string \<Rightarrow> go_time \<Rightarrow> go_time \<Rightarrow>
     string \<Rightarrow> int \<Rightarrow> int \<Rightarrow> item" where
  "history_item m namespace name failoverName sourceCluster targetCluster reason startTime endTime
     status downtime duration =
     [(''PK'', AvS (getGroupPK m namespace name)),
      (''SK'', AvS (getHistorySK startTime)),
      (''operatorID'', AvS (bm_operatorID m)),
      (''groupNamespace'', AvS namespace),
      (''groupName'', AvS name),
      (''failoverName'', AvS failoverName),
      (''sourceCluster'', AvS sourceCluster),
      (''targetCluster'', AvS targetCluster),
      (''startTime'', AvS (format_rfc3339 startTime)),
      (''endTime'', AvS (format_rfc3339 endTime)),
      (''status'', AvS status),
      (''downtime'', AvN (show_int downtime)),
      (''duration'', AvN (show_int duration))]
     @ (if reason \<noteq> '''' then [(''reason'', AvS reason)] else [])"

text \<open>The history record, then the reference in the configuration; errors of the second part are
  only logged.\<close>

definition recordFailoverEvent ::
    "'w go_runtime \<Rightarrow> 'w base_manager \<Rightarrow> string \<Rightarrow> string \<Rightarrow> string \<Rightarrow> string \<Rightarrow> string \<Rightarrow> string \<Rightarrow>
     go_time \<Rightarrow> go_time \<Rightarrow> string \<Rightarrow> int \<Rightarrow> int \<Rightarrow> ('w, unit outcome) state" where
  "recordFailoverEvent rt m namespace name failoverName sourceCluster targetCluster reason
     startTime endTime status downtime duration =
     check (PutItem (bm_client m)
              \<lparr> pi_TableName = bm_tableName m,
                pi_Item = history_item m namespace name failoverName sourceCluster targetCluster
                            reason startTime endTime status downtime duration,
                pi_Condition = None, pi_Names = [], pi_Values = [] \<rparr>)
       (wrapf ''failed to record failover event'')
       (\<lambda>_. try_or (GetGroupConfig rt m namespace name)
          (\<lambda>e. ret ())
          (\<lambda>config. do {
             (r, _) \<leftarrow> UpdateGroupConfig rt m
               (config\<lparr> gc_LastFailover := Some \<lparr> fr_Name = failoverName, fr_Namespace = namespace,
                                                fr_Timestamp = startTime \<rparr> \<rparr>);
             (case r of Panic \<Rightarrow> State_Monad.return Panic | _ \<Rightarrow> ret ())
           }))"

section \<open>Failover\<close>

text \<open>The update of a cluster's status record inside a transaction.\<close>

definition status_update ::
    "'w base_manager \<Rightarrow> string \<Rightarrow> string \<Rightarrow> string \<Rightarrow> string \<Rightarrow> string \<Rightarrow> go_time \<Rightarrow> update_item_input" where
  "status_update m namespace name clusterName placeholder st now =
     \<lparr> ui_TableName = bm_tableName m,
       ui_Key = key_item (getGroupPK m namespace name) (getClusterSK clusterName),
       ui_Update = [([''#state''], placeholder), ([''lastHeartbeat''], '':timestamp'')],
       ui_Condition = None,
       ui_Names = [(''#state'', ''state'')],
       ui_Values = [(placeholder, AvS st), ('':timestamp'', AvS (format_rfc3339 now))] \<rparr>"

text \<open>\<open>ownerCluster = :sourceCluster AND version = :currentVersion\<close>\<close>

definition owner_condition :: expression where
  "owner_condition =
     And (Equals (Path [''ownerCluster'']) (Val '':sourceCluster''))
         (Equals (Path [''version'']) (Val '':currentVersion''))"

text \<open>The part of the update expression that depends on the last failover.\<close>

definition last_failover_update :: "group_config_record \<Rightarrow> update_expression" where
  "last_failover_update config =
     (if gc_LastFailover config = None then [([''lastFailover''], '':failoverRef'')]
      else [([''lastFailover'', ''#ts''], '':failoverTimestamp''),
            ([''lastFailover'', ''#nm''], '':failoverName''),
            ([''lastFailover'', ''#ns''], '':namespace'')])"

definition failover_config_update ::
    "'w base_manager \<Rightarrow> string \<Rightarrow> string \<Rightarrow> group_config_record \<Rightarrow> string \<Rightarrow> string \<Rightarrow> string \<Rightarrow>
     go_time \<Rightarrow> go_time \<Rightarrow> update_item_input" where
  "failover_config_update m namespace name config sourceCluster targetCluster failoverName startTime now =
     \<lparr> ui_TableName = bm_tableName m,
       ui_Key = key_item (getGroupPK m namespace name) ''CONFIG'',
       ui_Update =
         [([''ownerCluster''], '':targetCluster''), ([''previousOwner''], '':sourceCluster''),
          ([''version''], '':newVersion''), ([''lastUpdated''], '':timestamp'')]
         @ last_failover_update config,
       ui_Condition = Some owner_condition,
       ui_Names = [(''#ts'', ''timestamp''), (''#nm'', ''name''), (''#ns'', ''namespace'')],
       ui_Values =
         [('':targetCluster'', AvS targetCluster),
          ('':sourceCluster'', AvS sourceCluster),
          ('':currentVersion'', AvN (show_int (gc_Version config))),
          ('':newVersion'', AvN (show_int (wrap64 (gc_Version config + 1)))),
          ('':timestamp'', AvS (format_rfc3339 now)),
          ('':failoverRef'', AvS (json_failover_reference
             \<lparr> fr_Name = failoverName, fr_Namespace = namespace, fr_Timestamp = startTime \<rparr>)),
          ('':failoverTimestamp'', AvS (format_rfc3339 startTime)),
          ('':failoverName'', AvS failoverName),
          ('':namespace'', AvS namespace)] \<rparr>"

definition executeFailoverTransaction ::
    "'w go_runtime \<Rightarrow> 'w base_manager \<Rightarrow> string \<Rightarrow> string \<Rightarrow> string \<Rightarrow> string \<Rightarrow> string \<Rightarrow> string \<Rightarrow> go_time \<Rightarrow>
     ('w, unit outcome) state" where
  "executeFailoverTransaction rt m namespace name sourceCluster targetCluster reason failoverName startTime =
     check (GetGroupConfig rt m namespace name) (wrapf ''failed to get current config for transaction'')
       (\<lambda>config. do {
          t1 \<leftarrow> time_now rt;
          t2 \<leftarrow> time_now rt;
          t3 \<leftarrow> time_now rt;
          try_or (TransactWriteItems (bm_client m)
              [failover_config_update m namespace name config sourceCluster targetCluster
                 failoverName startTime t1,
               status_update m namespace name sourceCluster '':failoverState'' StateFailover t2,
               status_update m namespace name targetCluster '':primaryState'' StatePrimary t3])
            (\<lambda>e. if transaction_canceled e
                  then raise (wrapf ''failover transaction cancelled'' e)
                  else raise (wrapf ''failed to execute failover transaction'' e))
            (\<lambda>_. ret ())
        })"

definition ExecuteFailover ::
    "'w go_runtime \<Rightarrow> 'w base_manager \<Rightarrow> string \<Rightarrow> string \<Rightarrow> string \<Rightarrow> string \<Rightarrow> string \<Rightarrow> bool \<Rightarrow>
     ('w, unit outcome) state" where
  "ExecuteFailover rt m namespace name failoverName targetCluster reason forceFastMode = do {
     startTime \<leftarrow> time_now rt;
     check (ValidateFailoverPreconditions rt m namespace name targetCluster forceFastMode)
       (wrapf ''failover preconditions not met'')
       (\<lambda>_. check (GetGroupConfig rt m namespace name) (wrapf ''failed to get current config'')
       (\<lambda>config.
          let sourceCluster = gc_OwnerCluster config in
          if sourceCluster = targetCluster
          then raise (ErrorString (''source and target clusters are the same: '' @ sourceCluster))
          else
            check (AcquireLock rt m namespace name (''Failover to '' @ targetCluster))
              (wrapf ''failed to acquire lock'')
              (\<lambda>leaseToken.
                 deferred (ReleaseLock m namespace name leaseToken)
                   (check (executeFailoverTransaction rt m namespace name sourceCluster targetCluster
                             reason failoverName startTime)
                      (wrapf ''failover transaction failed'')
                      (\<lambda>_. do {
                         endTime \<leftarrow> time_now rt;
                         let duration = whole_seconds (time_sub endTime startTime);
                         let downtime = go_quot duration 2;
                         ignore_err (recordFailoverEvent rt m namespace name failoverName sourceCluster
                           targetCluster reason startTime endTime ''SUCCESS'' downtime duration)
                       })))))
   }"

section \<open>Failback\<close>

definition failback_config_update ::
    "'w base_manager \<Rightarrow> string \<Rightarrow> string \<Rightarrow> group_config_record \<Rightarrow> string \<Rightarrow> string \<Rightarrow> string \<Rightarrow>
     go_time \<Rightarrow> go_time \<Rightarrow> update_item_input" where
  "failback_config_update m namespace name config sourceCluster targetCluster failbackName startTime now =
     \<lparr> ui_TableName = bm_tableName m,
       ui_Key = key_item (getGroupPK m namespace name) ''CONFIG'',
       ui_Update =
         [([''ownerCluster''], '':targetCluster''), ([''previousOwner''], '':emptyValue''),
          ([''version''], '':newVersion''), ([''lastUpdated''], '':timestamp'')]
         @ last_failover_update config,
       ui_Condition = Some owner_condition,
       ui_Names = [(''#ts'', ''timestamp''), (''#nm'', ''name''), (''#ns'', ''namespace'')],
       ui_Values =
         [('':targetCluster'', AvS targetCluster),
          ('':sourceCluster'', AvS sourceCluster),
          ('':emptyValue'', AvS ''''),
          ('':currentVersion'', AvN (show_int (gc_Version config))),
          ('':newVersion'', AvN (show_int (wrap64 (gc_Version config + 1)))),
          ('':timestamp'', AvS (format_rfc3339 now)),
          ('':failoverRef'', AvS (json_failover_reference
             \<lparr> fr_Name = failbackName, fr_Namespace = namespace, fr_Timestamp = startTime \<rparr>)),
          ('':failoverTimestamp'', AvS (format_rfc3339 startTime)),
          ('':failoverName'', AvS failbackName),
          ('':namespace'', AvS namespace)] \<rparr>"

definition executeFailbackTransaction ::
    "'w go_runtime \<Rightarrow> 'w base_manager \<Rightarrow> string \<Rightarrow> string \<Rightarrow> string \<Rightarrow> string \<Rightarrow> string \<Rightarrow> string \<Rightarrow> go_time \<Rightarrow>
     ('w, unit outcome) state" where
  "executeFailbackTransaction rt m namespace name sourceCluster targetCluster reason failbackName startTime =
     check (GetGroupConfig rt m namespace name) (wrapf ''failed to get current config for transaction'')
       (\<lambda>config. do {
          t1 \<leftarrow> time_now rt;
          t2 \<leftarrow> time_now rt;
          t3 \<leftarrow> time_now rt;
          try_or (TransactWriteItems (bm_client m)
              [failback_config_update m namespace name config sourceCluster targetCluster
                 failbackName startTime t1,
               status_update m namespace name sourceCluster '':failbackState'' StateFailback t2,
               status_update m namespace name targetCluster '':primaryState'' StatePrimary t3])
            (\<lambda>e. if transaction_canceled e
                  then raise (wrapf ''failback transaction cancelled'' e)
                  else raise (wrapf ''failed to execute failback transaction'' e))
            (\<lambda>_. ret ())
        })"

definition ExecuteFailback ::
    "'w go_runtime \<Rightarrow> 'w base_manager \<Rightarrow> string \<Rightarrow> string \<Rightarrow> string \<Rightarrow> ('w, unit outcome) state" where
  "ExecuteFailback rt m namespace name reason = do {
     startTime \<leftarrow> time_now rt;
     check (GetGroupConfig rt m namespace name) (wrapf ''failed to get current config'')
       (\<lambda>config.
          if gc_PreviousOwner config = ''''
          then raise (ErrorString ''cannot failback: no previous owner recorded'')
          else do {
            let sourceCluster = gc_OwnerCluster config;
            let targetCluster = gc_PreviousOwner config;
            t \<leftarrow> time_now rt;
            let failoverName = ''failback-'' @ format_compact t;
            check (ValidateFailoverPreconditions rt m namespace name targetCluster False)
              (wrapf ''failback preconditions not met'')
              (\<lambda>_. check (AcquireLock rt m namespace name (''Failback to '' @ targetCluster))
                (wrapf ''failed to acquire lock for failback'')
                (\<lambda>leaseToken.
                   deferred (ReleaseLock m namespace name leaseToken)
                     (check (executeFailbackTransaction rt m namespace name sourceCluster targetCluster
                               reason failoverName startTime)
                        (wrapf ''failback transaction failed'')
                        (\<lambda>_. do {
                           endTime \<leftarrow> time_now rt;
                           let duration = whole_seconds (time_sub endTime startTime);
                           let downtime = go_quot duration 3;
                           ignore_err (recordFailoverEvent rt m namespace name failoverName sourceCluster
                             targetCluster reason startTime endTime ''SUCCESS'' downtime duration)
                         }))))
          })
   }"

section \<open>The other operations\<close>

text \<open>A placeholder in the source: no problem is ever reported.\<close>

definition DetectAndReportProblems ::
    "'w base_manager \<Rightarrow> string \<Rightarrow> string \<Rightarrow> ('w, string list outcome) state" where
  "DetectAndReportProblems m namespace name = ret []"

text \<open>The parsed components are not used afterwards, so their parsing leaves no trace; a status
  that does not exist is a nil pointer whose field is assigned.\<close>

definition updateClusterStateForFailover ::
    "'w go_runtime \<Rightarrow> 'w base_manager \<Rightarrow> string \<Rightarrow> string \<Rightarrow> string \<Rightarrow> string \<Rightarrow> ('w, unit outcome) state" where
  "updateClusterStateForFailover rt m namespace name clusterName st =
     try_or (GetClusterStatus rt m namespace name clusterName)
       (\<lambda>e. UpdateClusterStatus rt m namespace name clusterName HealthOK st ''{}'')
       (\<lambda>status.
          case status of
            None \<Rightarrow> State_Monad.return Panic
          | Some s \<Rightarrow> UpdateClusterStatus rt m namespace name clusterName (cs_Health s) st (cs_Components s))"

definition RemoveClusterStatus ::
    "'w base_manager \<Rightarrow> string \<Rightarrow> string \<Rightarrow> string \<Rightarrow> ('w, unit outcome) state" where
  "RemoveClusterStatus m namespace name clusterName =
     check (DeleteItem (bm_client m)
              \<lparr> di_TableName = bm_tableName m,
                di_Key = key_item (getGroupPK m namespace name) (getClusterSK clusterName),
                di_Condition = None, di_Names = [], di_Values = [] \<rparr>)
       (wrapf ''failed to delete cluster status'')
       (\<lambda>_. ret ())"

end
