(* ===== verification/State_Facts.thy ===== *)
theory State_Facts
  imports State_Manager
begin

text \<open>
  What the operations of State_Manager do under the contract of the store, as rules the
  components that call them use. \<open>config_cas\<close> is the abstract meaning of UpdateGroupConfig: a
  compare-and-swap on the version of one item.
\<close>

locale manager_store = dynamo_store "bm_client m" rt "bm_tableName m" Z tbl clk
  for m :: "'w base_manager" and rt :: "'w go_runtime" and Z :: int
    and tbl :: "'w \<Rightarrow> dynamo_table" and clk :: "'w \<Rightarrow> go_time"

section \<open>Compare and swap\<close>

text \<open>The version text of the stored item is the expected one, or there is no item.\<close>

definition version_matches :: "item option \<Rightarrow> int \<Rightarrow> bool" where
  "version_matches cur v \<longleftrightarrow>
     (case cur of None \<Rightarrow> True | Some it \<Rightarrow> map_of it ''version'' = Some (AvN (show_int v)))"

definition config_cas :: "dynamo_table \<Rightarrow> int \<Rightarrow> group_config_record \<Rightarrow> dynamo_table option" where
  "config_cas t v c =
     (if version_matches (t (gc_PK c, gc_SK c)) v
      then Some (t((gc_PK c, gc_SK c) \<mapsto> group_config_item c)) else None)"

lemma holds_version_condition:
  "stored t \<Longrightarrow>
   holds [(''#PK'', ''PK''), (''#version'', ''version'')] [('':oldVersion'', AvN (show_int v))]
     (the_item (t k)) version_condition \<longleftrightarrow> version_matches (t k) v"
proof (cases "t k")
  case None
  then show ?thesis
    by (simp add: version_condition_def version_matches_def attr_def resolve_path_def
        resolve_name_def is_placeholder_def)
next
  case (Some it)
  moreover assume "stored t"
  ultimately have "item_key_of it = Some k"
    by (blast dest: storedD)
  then have "map_of it ''PK'' \<noteq> None"
    by (auto simp: item_key_of_def split: option.splits)
  with Some show ?thesis
    by (auto simp: version_condition_def version_matches_def attr_def resolve_path_def
        resolve_name_def is_placeholder_def compare_values_def split: option.splits)
qed

lemma put_effect_config:
  "stored t \<Longrightarrow>
   put_effect \<lparr> pi_TableName = T, pi_Item = group_config_item c, pi_Condition = Some version_condition,
                pi_Names = [(''#PK'', ''PK''), (''#version'', ''version'')],
                pi_Values = [('':oldVersion'', AvN (show_int v))] \<rparr> t = config_cas t v c"
  by (simp add: put_effect_def condition_holds_def config_cas_def holds_version_condition)

lemma config_cas_SomeD:
  "config_cas t v c = Some u \<Longrightarrow>
   version_matches (t (gc_PK c, gc_SK c)) v \<and> u = t((gc_PK c, gc_SK c) \<mapsto> group_config_item c)"
  by (simp add: config_cas_def split: if_splits)

text \<open>A configuration read from an item never carries the version the item would have to have for
  a write that raised the version by hand first.\<close>

lemma version_of_item_stale:
  "\<not> version_matches (Some it) (wrap64 (gc_Version (config_of_item it) + 1))"
proof
  assume "version_matches (Some it) (wrap64 (gc_Version (config_of_item it) + 1))"
  then have v: "map_of it ''version'' = Some (AvN (show_int (wrap64 (gc_Version (config_of_item it) + 1))))"
    by (simp add: version_matches_def)
  then have "get_int it ''version'' = Some (wrap64 (gc_Version (config_of_item it) + 1))"
    by (simp add: get_int_def get_N_def parseInt_def scan_int_show_int)
  then have "gc_Version (config_of_item it) = wrap64 (gc_Version (config_of_item it) + 1)"
    by (subst config_of_item_def) (simp add: unmarshalDynamoDBItem_def zero_group_config_def)
  then show False using wrap64_Suc_neq by metis
qed

lemma version_of_config_item:
  "version_matches (Some (group_config_item c)) v \<longleftrightarrow> v = gc_Version c"
  by (auto simp: version_matches_def)

text \<open>The record UpdateGroupConfig leaves behind its pointer.\<close>

definition stamped :: "group_config_record \<Rightarrow> go_time \<Rightarrow> group_config_record" where
  "stamped c now = c\<lparr> gc_LastUpdated := now, gc_Version := wrap64 (gc_Version c + 1) \<rparr>"

text \<open>What a caller of GetGroupConfig gets and what is stored then: an existing item is read and
  left alone; a missing one is created, with version 2 in the store and in the record
  returned.\<close>

definition created_config :: "'w base_manager \<Rightarrow> string \<Rightarrow> string \<Rightarrow> go_time \<Rightarrow> group_config_record" where
  "created_config m ns n t = (default_group_config m ns n t)\<lparr> gc_Version := 2 \<rparr>"

definition got_config ::
    "'w base_manager \<Rightarrow> string \<Rightarrow> string \<Rightarrow> dynamo_table \<Rightarrow> dynamo_table \<Rightarrow> go_time \<Rightarrow>
     group_config_record outcome \<Rightarrow> bool" where
  "got_config m ns n t u now r \<longleftrightarrow>
     (case t (config_key m ns n) of
        Some it \<Rightarrow> u = t \<and> (r = Ok (config_of_item it) \<or> is_err r)
      | None \<Rightarrow>
          (r = Ok (created_config m ns n now) \<and> clock_ok (zone now) now \<and>
             u = t(config_key m ns n \<mapsto> group_config_item (created_config m ns n now))) \<or>
          (is_err r \<and> (u = t \<or> (clock_ok (zone now) now \<and>
             u = t(config_key m ns n \<mapsto> group_config_item (created_config m ns n now))))))"

lemma stamped_default: "stamped (default_group_config m ns n t) now = created_config m ns n now"
  by (simp add: stamped_def created_config_def default_group_config_def wrap64_def)

lemma created_config_key [simp]:
  "(gc_PK (created_config m ns n now), gc_SK (created_config m ns n now)) = config_key m ns n"
  by (simp add: created_config_def default_group_config_def config_key_def)

lemma config_cas_created:
  "t (config_key m ns n) = None \<Longrightarrow>
   config_cas t v (created_config m ns n now) =
     Some (t(config_key m ns n \<mapsto> group_config_item (created_config m ns n now)))"
  unfolding config_cas_def created_config_key by (simp add: version_matches_def)

lemma clock_ok_zone: "clock_ok Z t \<Longrightarrow> clock_ok (zone t) t"
  by (auto simp: clock_ok_def)

context manager_store
begin

text \<open>UpdateGroupConfig\<close>

lemma wp_UpdateGroupConfig:
  assumes "\<And>r w'. nanos (clk w) \<le> nanos (clk w') \<Longrightarrow> clock_ok Z (clk w') \<Longrightarrow>
      atomic_write (config_cas (tbl w) (gc_Version c) (stamped c (clk w'))) (tbl w) (tbl w') r \<Longrightarrow>
      Q (r, stamped c (clk w')) w'"
  shows "wp (UpdateGroupConfig rt m c) Q w"
  unfolding UpdateGroupConfig_def Let_def wp_simps
proof (rule wp_now, goal_cases)
  case (1 t w1)
  note eff = put_effect_config [OF stored_tbl]
  show ?case
  proof (rule wp_put, goal_cases)
    case 1
    show ?case by simp
  next
    case (2 w2)
    with 1 show ?case
      using assms [of w2 "Ok ()"] by (simp add: eff atomic_write_def stamped_def)
  next
    case (3 w2 e)
    with 1 have "Q (Err e', stamped c (clk w2)) w2" for e'
      by (intro assms) (simp_all add: eff atomic_write_def stamped_def)
    with 1 3(1) show ?case
      by (cases "condition_failed e") (simp_all add: stamped_def)
  qed
qed

text \<open>GetGroupConfig\<close>

lemma wp_GetGroupConfig:
  assumes "\<And>r w'. nanos (clk w) \<le> nanos (clk w') \<Longrightarrow> got_config m ns n (tbl w) (tbl w') (clk w') r \<Longrightarrow> Q r w'"
  shows "wp (GetGroupConfig rt m ns n) Q w"
  unfolding GetGroupConfig_def wp_simps
proof (rule wp_get [where k = "config_key m ns n"], goal_cases)
  case (3 w1 it)
  then have it: "it = the_item (tbl w (config_key m ns n))" by simp
  show ?case
  proof (cases "tbl w (config_key m ns n)")
    case (Some i)
    with it have "it = i" "i \<noteq> []"
      using stored_not_Nil [OF stored_tbl, of w "config_key m ns n"] by auto
    with Some 3 show ?thesis
      using assms [of w1 "Ok (config_of_item i)"]
      by (simp add: wp_simps got_config_def config_of_item_def)
  next
    case None
    with it 3 show ?thesis
      apply (simp add: wp_simps)
      apply (rule wp_now)
      apply (rule wp_UpdateGroupConfig)
      apply (simp add: wp_simps stamped_default)
      subgoal for t w2 r w3
        by (rule assms)
           (auto simp: atomic_write_def config_cas_created got_config_def clock_ok_zone
             split: outcome.splits)
      done
  qed
next
  case (4 w1 e)
  then show ?case
    by (simp, intro assms) (auto simp: got_config_def split: option.splits)
qed (simp_all add: config_key_def)

end

section \<open>When nothing is down\<close>

locale manager_reliable = dynamo_reliable "bm_client m" rt "bm_tableName m" Z tbl clk
  for m :: "'w base_manager" and rt :: "'w go_runtime" and Z :: int
    and tbl :: "'w \<Rightarrow> dynamo_table" and clk :: "'w \<Rightarrow> go_time"

sublocale manager_reliable \<subseteq> manager_store
  by unfold_locales

lemma put_valid_config:
  "put_valid \<lparr> pi_TableName = T, pi_Item = group_config_item c, pi_Condition = Some version_condition,
     pi_Names = [(''#PK'', ''PK''), (''#version'', ''version'')],
     pi_Values = [('':oldVersion'', v)] \<rparr>"
  by (simp add: put_valid_def placeholders_ok_def version_condition_def is_placeholder_def)

context manager_reliable
begin

lemma wp_UpdateGroupConfig_ok:
  assumes "\<And>w'. nanos (clk w) \<le> nanos (clk w') \<Longrightarrow> clock_ok Z (clk w') \<Longrightarrow>
      config_cas (tbl w) (gc_Version c) (stamped c (clk w')) = Some (tbl w') \<Longrightarrow>
      Q (Ok (), stamped c (clk w')) w'"
    "\<And>w'. nanos (clk w) \<le> nanos (clk w') \<Longrightarrow> clock_ok Z (clk w') \<Longrightarrow> tbl w' = tbl w \<Longrightarrow>
      config_cas (tbl w) (gc_Version c) (stamped c (clk w')) = None \<Longrightarrow>
      Q (Err (ErrorString ''optimistic concurrency check failed: version conflict''), stamped c (clk w')) w'"
  shows "wp (UpdateGroupConfig rt m c) Q w"
  unfolding UpdateGroupConfig_def Let_def wp_simps
proof (rule wp_now, goal_cases)
  case (1 t w1)
  note eff = put_effect_config [OF stored_tbl]
  show ?case
  proof (rule wp_put_ok, goal_cases)
    case 2
    show ?case by (rule put_valid_config)
  next
    case (3 w2)
    with 1 show ?case using assms(1) [of w2] by (simp add: eff stamped_def)
  next
    case (4 w2 e)
    with 1 show ?case using assms(2) [of w2] by (simp add: eff stamped_def)
  qed simp
qed

lemma wp_GetGroupConfig_ok:
  assumes "\<And>it w'. tbl w (config_key m ns n) = Some it \<Longrightarrow> tbl w' = tbl w \<Longrightarrow> clk w' = clk w \<Longrightarrow>
      Q (Ok (config_of_item it)) w'"
    "\<And>w'. tbl w (config_key m ns n) = None \<Longrightarrow> nanos (clk w) \<le> nanos (clk w') \<Longrightarrow> clock_ok Z (clk w') \<Longrightarrow>
      tbl w' = (tbl w)(config_key m ns n \<mapsto> group_config_item (created_config m ns n (clk w'))) \<Longrightarrow>
      Q (Ok (created_config m ns n (clk w'))) w'"
  shows "wp (GetGroupConfig rt m ns n) Q w"
  unfolding GetGroupConfig_def wp_simps
proof (rule wp_get_ok [where k = "config_key m ns n"], goal_cases)
  case (3 w1)
  show ?case
  proof (cases "tbl w (config_key m ns n)")
    case (Some i)
    then have "i \<noteq> []" using stored_not_Nil [OF stored_tbl, of w "config_key m ns n"] by auto
    with Some 3 assms(1) [of i w1] show ?thesis
      by (simp add: wp_simps config_of_item_def)
  next
    case None
    show ?thesis
      unfolding None outcome.case the_item_simps wp_simps if_P [OF refl]
    proof (rule wp_now, rule wp_UpdateGroupConfig_ok, goal_cases)
      case (1 t w2 w3)
      then have "tbl w3 = (tbl w)(config_key m ns n \<mapsto> group_config_item (created_config m ns n (clk w3)))"
        using None 3 by (simp add: stamped_default config_cas_created)
      then show ?case using 1 3 None assms(2) [of w3] by (simp add: stamped_default)
    next
      case (2 t w2 w3)
      then show ?case using None 3 by (simp add: stamped_default config_cas_created)
    qed
  qed
qed (simp_all add: config_key_def)

end

locale manager_validating = dynamo_validating "bm_client m" rt "bm_tableName m" Z tbl clk
  for m :: "'w base_manager" and rt :: "'w go_runtime" and Z :: int
    and tbl :: "'w \<Rightarrow> dynamo_table" and clk :: "'w \<Rightarrow> go_time"

sublocale manager_validating \<subseteq> manager_store
  by unfold_locales

end
