(* ===== verification/Operations_Facts.thy ===== *)
theory Operations_Facts
  imports Operations_Manager State_Facts
begin

text \<open>
  What the operations of Operations_Manager do under the contract of the store, in terms of
  abstract effects on the table: \<open>lock_taken\<close> and \<open>lock_dropped\<close> for the lock,
  \<open>failover_effect\<close> for the transaction that moves the ownership, \<open>event_recorded\<close> for the
  history. The properties of the component are in Operations_Properties.
\<close>

section \<open>Abstract effects\<close>

text \<open>A string attribute of an item of the table.\<close>

definition item_S :: "dynamo_table \<Rightarrow> item_key \<Rightarrow> string \<Rightarrow> string option" where
  "item_S t k a = get_S (the_item (t k)) a"

lemma item_S_upd [simp]:
  "item_S (t(k \<mapsto> it)) k a = get_S it a"
  "k \<noteq> k' \<Longrightarrow> item_S (t(k' := x)) k a = item_S t k a"
  by (simp_all add: item_S_def)

text \<open>What a read of the lock item at time \<open>now\<close> answers.\<close>

definition lock_expiry :: "item \<Rightarrow> go_time option" where
  "lock_expiry it = (case get_S it ''expiresAt'' of None \<Rightarrow> Some zero_time | Some s \<Rightarrow> parse_rfc3339 s)"

definition lock_reply :: "item option \<Rightarrow> go_time \<Rightarrow> (bool \<times> string) outcome" where
  "lock_reply x now =
     (case x of
        None \<Rightarrow> Ok (False, '''')
      | Some it \<Rightarrow>
          (case lock_expiry it of
             None \<Rightarrow> Err (wrapf ''invalid expiration time in lock''
                           (parse_time_error (or_else (get_S it ''expiresAt'') '''')))
           | Some e \<Rightarrow> Ok (if time_after now e then (False, '''')
                            else (True, or_else (get_S it ''lockedBy'') ''''))))"

text \<open>The lock can be taken: there is none, or its expiry reads smaller than the present.\<close>

definition lock_open :: "item option \<Rightarrow> go_time \<Rightarrow> bool" where
  "lock_open x now \<longleftrightarrow>
     (case x of None \<Rightarrow> True
      | Some it \<Rightarrow> (case get_S it ''expiresAt'' of
                      Some s \<Rightarrow> str_less s (format_rfc3339 now) | None \<Rightarrow> False))"

definition lock_taken ::
    "'w base_manager \<Rightarrow> string \<Rightarrow> string \<Rightarrow> string \<Rightarrow> go_time \<Rightarrow> string \<Rightarrow> dynamo_table \<Rightarrow> dynamo_table option" where
  "lock_taken m ns n reason now token t =
     (if lock_open (t (lock_key m ns n)) now
      then Some (t(lock_key m ns n \<mapsto> lock_item m ns n reason now token)) else None)"

definition lock_dropped ::
    "'w base_manager \<Rightarrow> string \<Rightarrow> string \<Rightarrow> string \<Rightarrow> dynamo_table \<Rightarrow> dynamo_table option" where
  "lock_dropped m ns n token t =
     (if item_S t (lock_key m ns n) ''leaseToken'' = Some token
      then Some (t(lock_key m ns n := None)) else None)"

lemma stored_PK: "stored t \<Longrightarrow> t k = Some it \<Longrightarrow> map_of it ''PK'' = Some (AvS (fst k))"
  using storedD [of t k it] by (auto simp: item_key_of_def split: option.splits attribute_value.splits)

lemma stored_SK: "stored t \<Longrightarrow> t k = Some it \<Longrightarrow> map_of it ''SK'' = Some (AvS (snd k))"
  using storedD [of t k it] by (auto simp: item_key_of_def split: option.splits attribute_value.splits)

lemma item_key_of_lock_item [simp]:
  "item_key_of (lock_item m ns n reason now token) = Some (lock_key m ns n)"
  by (simp add: lock_item_def item_key_of_def lock_key_def)

lemma put_effect_lock:
  assumes "stored t"
  shows "put_effect (lock_put m ns n reason now token) t = lock_taken m ns n reason now token t"
proof (cases "t (lock_key m ns n)")
  case None
  then show ?thesis
    by (simp add: put_effect_def lock_put_def lock_taken_def lock_open_def condition_holds_def
        lock_condition_def attr_def resolve_path_def resolve_name_def is_placeholder_def)
next
  case (Some it)
  have "condition_holds (Some lock_condition) [(''#PK'', ''PK''), (''#expiresAt'', ''expiresAt'')]
      [('':now'', AvS (format_rfc3339 now))] (Some it) \<longleftrightarrow> lock_open (Some it) now"
    using stored_PK [OF assms Some]
    by (auto simp: condition_holds_def lock_open_def lock_condition_def attr_def resolve_path_def
        resolve_name_def is_placeholder_def compare_values_def get_S_def
        split: option.splits attribute_value.splits)
  then show ?thesis
    by (simp add: put_effect_def lock_put_def lock_taken_def Some)
qed

lemma delete_effect_lock:
  assumes "stored t"
  shows "delete_effect (release_delete m ns n token) t = lock_dropped m ns n token t"
proof (cases "t (lock_key m ns n)")
  case None
  then show ?thesis
    by (simp add: delete_effect_def release_delete_def lock_dropped_def condition_holds_def item_S_def
        get_S_def lock_key_def attr_def resolve_path_def resolve_name_def is_placeholder_def)
next
  case (Some it)
  have "condition_holds (Some (And (Attribute_exists [''#PK''])
        (Equals (Path [''#leaseToken'']) (Val '':leaseToken''))))
      [(''#PK'', ''PK''), (''#leaseToken'', ''leaseToken'')] [('':leaseToken'', AvS token)] (Some it)
      \<longleftrightarrow> get_S it ''leaseToken'' = Some token"
    using stored_PK [OF assms Some]
    by (auto simp: condition_holds_def attr_def resolve_path_def
        resolve_name_def is_placeholder_def compare_values_def get_S_def
        split: option.splits attribute_value.splits)
  then show ?thesis
    using Some by (simp add: delete_effect_def release_delete_def lock_dropped_def item_S_def lock_key_def)
qed

lemma lock_taken_token:
  "lock_taken m ns n reason now token t = Some u \<Longrightarrow> item_S u (lock_key m ns n) ''leaseToken'' = Some token"
  by (auto simp: lock_taken_def item_S_def lock_item_def get_S_def split: if_splits)

lemma lock_taken_other:
  "lock_taken m ns n reason now token t = Some u \<Longrightarrow> k \<noteq> lock_key m ns n \<Longrightarrow> u k = t k"
  by (auto simp: lock_taken_def split: if_splits)

lemma lock_dropped_other:
  "lock_dropped m ns n token t = Some u \<Longrightarrow> k \<noteq> lock_key m ns n \<Longrightarrow> u k = t k"
  by (auto simp: lock_dropped_def split: if_splits)

section \<open>The lock operations\<close>

context manager_store
begin

lemma wp_IsLocked:
  assumes "\<And>r w'. tbl w' = tbl w \<Longrightarrow> nanos (clk w) \<le> nanos (clk w') \<Longrightarrow> r \<noteq> Panic \<Longrightarrow> Q r w'"
  shows "wp (IsLocked rt m ns n) Q w"
  unfolding IsLocked_def wp_simps
proof (rule wp_get [where k = "lock_key m ns n"], goal_cases)
  case (3 w1 it)
  show ?case
    unfolding Let_def outcome.case
    apply (simp add: wp_simps)
    using 3 assms
    apply (auto split: option.splits simp: wp_simps raise_def intro!: wp_now)
    done
next
  case (4 w1 e)
  then show ?case by (auto intro: assms)
qed (simp_all add: lock_key_def)

lemma wp_AcquireLock:
  assumes "\<And>token w'. nanos (clk w) \<le> nanos (clk w') \<Longrightarrow> clock_ok Z (clk w') \<Longrightarrow>
      lock_taken m ns n reason (clk w') token (tbl w) = Some (tbl w') \<Longrightarrow> Q (Ok token) w'"
    "\<And>e token w'. nanos (clk w) \<le> nanos (clk w') \<Longrightarrow>
      tbl w' = tbl w \<or> (clock_ok Z (clk w') \<and>
        lock_taken m ns n reason (clk w') token (tbl w) = Some (tbl w')) \<Longrightarrow> Q (Err e) w'"
  shows "wp (AcquireLock rt m ns n reason) Q w"
  unfolding AcquireLock_def wp_simps
proof (rule wp_uuid, rule wp_IsLocked, goal_cases)
  case (1 token w1 r w2)
  show ?case
  proof (cases r)
    case (Ok p)
    obtain locked holder where p: "p = (locked, holder)" by (cases p)
    show ?thesis
    proof (cases locked)
      case True
      with 1 show ?thesis
        by (simp add: Ok p wp_simps) (rule assms(2), simp_all)
    next
      case False
      have "wp (time_now rt) (\<lambda>now. wp (PutItem (bm_client m) (lock_put m ns n reason now token))
          (\<lambda>r w'. case r of Ok x \<Rightarrow> Q (Ok token) w' | Err e \<Rightarrow>
             if condition_failed e then Q (Err (ErrorString ''lock already held by another process'')) w'
             else Q (Err (wrapf ''failed to acquire lock'' e)) w' | Panic \<Rightarrow> Q Panic w')) w2"
      proof (rule wp_now, rule wp_put, goal_cases)
        case (1 now w3)
        show ?case by (simp add: lock_put_def)
      next
        case (2 now w3 w4)
        then show ?case
          using 1 assms(1) [of w4 token] by (simp add: put_effect_lock [OF stored_tbl])
      next
        case (3 now w3 w4 e)
        then have "Q (Err e') w4" for e'
          using 1 assms(2) [of w4 token e'] by (simp add: put_effect_lock [OF stored_tbl])
        then show ?case by simp
      qed
      then show ?thesis
        using False by (simp add: Ok p wp_simps)
    qed
  next
    case (Err e)
    with 1 show ?thesis by simp (rule assms(2), simp_all)
  next
    case Panic
    with 1 show ?thesis by simp
  qed
qed

lemma wp_ReleaseLock:
  assumes "\<And>r w'. clk w' = clk w \<Longrightarrow>
      atomic_write (lock_dropped m ns n token (tbl w)) (tbl w) (tbl w') r \<Longrightarrow> Q r w'"
  shows "wp (ReleaseLock m ns n token) Q w"
  unfolding ReleaseLock_def wp_simps
proof (rule wp_delete, goal_cases)
  case 1
  show ?case by (simp add: release_delete_def)
next
  case (2 w1)
  then show ?case
    using assms [of w1 "Ok ()"] by (simp add: wp_simps delete_effect_lock [OF stored_tbl] atomic_write_def)
next
  case (3 w1 e)
  then have "Q (Err e') w1" for e'
    by (intro assms) (simp_all add: delete_effect_lock [OF stored_tbl] atomic_write_def)
  then show ?case by (simp add: wp_simps)
qed

end

section \<open>The transactions\<close>

text \<open>The configuration item after the ownership moved, and a status item after its state was set.\<close>

definition moved_item :: "string \<Rightarrow> string \<Rightarrow> int \<Rightarrow> string \<Rightarrow> string \<Rightarrow> item \<Rightarrow> item" where
  "moved_item target prev version stamp ref it =
     map_put ''lastFailover'' (AvS ref) (map_put ''lastUpdated'' (AvS stamp)
       (map_put ''version'' (AvN (show_int version)) (map_put ''previousOwner'' (AvS prev)
         (map_put ''ownerCluster'' (AvS target) it))))"

definition stated_item :: "string \<Rightarrow> string \<Rightarrow> item \<Rightarrow> item" where
  "stated_item st stamp it = map_put ''lastHeartbeat'' (AvS stamp) (map_put ''state'' (AvS st) it)"

definition item_or_key :: "dynamo_table \<Rightarrow> item_key \<Rightarrow> item" where
  "item_or_key t k = (case t k of Some it \<Rightarrow> it | None \<Rightarrow> key_item (fst k) (snd k))"

text \<open>What a transfer does: if the configuration names the source as owner and has the expected
  version, it names the target, remembers \<open>prev\<close>, and the two clusters' records get their
  states; else nothing.\<close>

definition transfer_effect ::
    "'w base_manager \<Rightarrow> string \<Rightarrow> string \<Rightarrow> string \<Rightarrow> string \<Rightarrow> string \<Rightarrow> string \<Rightarrow> int \<Rightarrow> string \<Rightarrow>
     go_time \<Rightarrow> go_time \<Rightarrow> go_time \<Rightarrow> dynamo_table \<Rightarrow> dynamo_table option" where
  "transfer_effect m ns n source prev target st version ref t1 t2 t3 t =
     (case t (config_key m ns n) of
        None \<Rightarrow> None
      | Some it \<Rightarrow>
          if get_S it ''ownerCluster'' = Some source \<and> get_N it ''version'' = Some (show_int version)
          then Some (t(config_key m ns n \<mapsto>
                          moved_item target prev (wrap64 (version + 1)) (format_rfc3339 t1) ref it,
                       cluster_key m ns n source \<mapsto>
                          stated_item st (format_rfc3339 t2) (item_or_key t (cluster_key m ns n source)),
                       cluster_key m ns n target \<mapsto>
                          stated_item StatePrimary (format_rfc3339 t3) (item_or_key t (cluster_key m ns n target))))
          else None)"

lemma item_key_of_map_put [simp]:
  "a \<noteq> ''PK'' \<Longrightarrow> a \<noteq> ''SK'' \<Longrightarrow> item_key_of (map_put a v it) = item_key_of it"
  by (simp add: item_key_of_def)

lemma get_S_map_put [simp]:
  "get_S (map_put a (AvS s) it) a = Some s"
  "a \<noteq> b \<Longrightarrow> get_S (map_put a v it) b = get_S it b"
  by (simp_all add: get_S_def)

lemma owner_condition_holds:
  "condition_holds (Some owner_condition) names vals (Some it) \<longleftrightarrow>
   get_S it ''ownerCluster'' = Some source \<and> get_N it ''version'' = Some (show_int v)"
  if "map_of vals '':sourceCluster'' = Some (AvS source)"
     "map_of vals '':currentVersion'' = Some (AvN (show_int v))"
  using that
  by (auto simp: condition_holds_def owner_condition_def attr_def resolve_path_def resolve_name_def
      is_placeholder_def compare_values_def get_S_def get_N_def
      split: option.splits attribute_value.splits)

lemma owner_condition_absent [simp]: "\<not> condition_holds (Some owner_condition) names vals None"
  by (simp add: condition_holds_def owner_condition_def attr_def resolve_path_def resolve_name_def
      is_placeholder_def compare_values_def)

lemma update_effect_eq:
  "ui_Key i = key_item (fst k) (snd k) \<Longrightarrow>
   update_effect i t =
     (if condition_holds (ui_Condition i) (ui_Names i) (ui_Values i) (t k) \<and>
        paths_ok (ui_Names i) (ui_Update i)
      then (case apply_update (ui_Names i) (ui_Values i) (ui_Update i) (item_or_key t k) of
              Some it \<Rightarrow> if item_key_of it = Some k then Some (t(k \<mapsto> it)) else None
            | None \<Rightarrow> None)
      else None)"
  by (cases "t k") (simp_all add: update_effect_def item_or_key_def)

lemma item_key_of_item_or_key: "stored t \<Longrightarrow> item_key_of (item_or_key t k) = Some k"
  by (cases "t k") (simp_all add: item_or_key_def storedD)

lemma item_key_of_stated_item [simp]: "item_key_of (stated_item a s it) = item_key_of it"
  by (simp add: stated_item_def)

lemma apply_update_status:
  "(p, a) \<in> {('':failoverState'', StateFailover), ('':failbackState'', StateFailback), ('':primaryState'', StatePrimary)} \<Longrightarrow>
   apply_update [(''#state'', ''state'')] [(p, AvS a), ('':timestamp'', AvS s)]
     [([''#state''], p), ([''lastHeartbeat''], '':timestamp'')] it = Some (stated_item a s it)"
  by (auto simp: resolve_path_def resolve_name_def is_placeholder_def stated_item_def)

lemma update_effect_status:
  assumes "stored t"
    "(p, a) \<in> {('':failoverState'', StateFailover), ('':failbackState'', StateFailback), ('':primaryState'', StatePrimary)}"
  shows "update_effect (status_update m ns n c p a now) t =
    Some (t(cluster_key m ns n c \<mapsto> stated_item a (format_rfc3339 now) (item_or_key t (cluster_key m ns n c))))"
proof -
  have k: "ui_Key (status_update m ns n c p a now) =
      key_item (fst (cluster_key m ns n c)) (snd (cluster_key m ns n c))"
    by (simp add: status_update_def cluster_key_def)
  have "apply_update (ui_Names (status_update m ns n c p a now)) (ui_Values (status_update m ns n c p a now))
      (ui_Update (status_update m ns n c p a now)) (item_or_key t (cluster_key m ns n c)) =
      Some (stated_item a (format_rfc3339 now) (item_or_key t (cluster_key m ns n c)))"
    using apply_update_status [OF assms(2)] by (simp add: status_update_def)
  then show ?thesis
    unfolding update_effect_eq [OF k] using item_key_of_item_or_key [OF assms(1)]
    by (simp add: condition_holds_def status_update_def paths_ok_def resolve_path_def resolve_name_def
        is_placeholder_def)
qed

text \<open>The update of the configuration, given the rest of the transaction's parameters.\<close>

definition config_moved ::
    "'w base_manager \<Rightarrow> string \<Rightarrow> string \<Rightarrow> string \<Rightarrow> string \<Rightarrow> string \<Rightarrow> int \<Rightarrow> string \<Rightarrow> go_time \<Rightarrow>
     dynamo_table \<Rightarrow> dynamo_table option" where
  "config_moved m ns n source prev target version ref t1 t =
     (case t (config_key m ns n) of
        None \<Rightarrow> None
      | Some it \<Rightarrow>
          if get_S it ''ownerCluster'' = Some source \<and> get_N it ''version'' = Some (show_int version)
          then Some (t(config_key m ns n \<mapsto>
                          moved_item target prev (wrap64 (version + 1)) (format_rfc3339 t1) ref it))
          else None)"

definition failover_ref :: "string \<Rightarrow> string \<Rightarrow> go_time \<Rightarrow> string" where
  "failover_ref name ns start =
     json_failover_reference \<lparr> fr_Name = name, fr_Namespace = ns, fr_Timestamp = start \<rparr>"

lemma update_effect_failover_config:
  assumes "stored t" "gc_LastFailover config = None"
  shows "update_effect (failover_config_update m ns n config source target name start now) t =
    config_moved m ns n source source target (gc_Version config) (failover_ref name ns start) now t"
proof (cases "t (config_key m ns n)")
  case None
  then show ?thesis
    by (simp add: update_effect_def failover_config_update_def config_key_def config_moved_def)
next
  case (Some it)
  then have "item_key_of it = Some (config_key m ns n)" using assms(1) by (rule storedD [rotated])
  then show ?thesis
    using Some assms(2)
    by (simp add: update_effect_def failover_config_update_def owner_condition_holds
        last_failover_update_def resolve_path_def resolve_name_def is_placeholder_def moved_item_def
        paths_ok_def config_key_def config_moved_def failover_ref_def)
qed

lemma update_effect_failback_config:
  assumes "stored t" "gc_LastFailover config = None"
  shows "update_effect (failback_config_update m ns n config source target name start now) t =
    config_moved m ns n source '''' target (gc_Version config) (failover_ref name ns start) now t"
proof (cases "t (config_key m ns n)")
  case None
  then show ?thesis
    by (simp add: update_effect_def failback_config_update_def config_key_def config_moved_def)
next
  case (Some it)
  then have "item_key_of it = Some (config_key m ns n)" using assms(1) by (rule storedD [rotated])
  then show ?thesis
    using Some assms(2)
    by (simp add: update_effect_def failback_config_update_def owner_condition_holds
        last_failover_update_def resolve_path_def resolve_name_def is_placeholder_def moved_item_def
        paths_ok_def config_key_def config_moved_def failover_ref_def)
qed

lemma transact_effect_transfer:
  assumes "stored t" "source \<noteq> target"
    "update_effect cu t = config_moved m ns n source prev target v ref t1 t"
    "(p, a) \<in> {('':failoverState'', StateFailover), ('':failbackState'', StateFailback)}"
  shows "transact_effect [cu, status_update m ns n source p a t2,
            status_update m ns n target '':primaryState'' StatePrimary t3] t =
         transfer_effect m ns n source prev target a v ref t1 t2 t3 t"
proof (cases "\<exists>it. t (config_key m ns n) = Some it \<and>
    get_S it ''ownerCluster'' = Some source \<and> get_N it ''version'' = Some (show_int v)")
  case False
  then show ?thesis
    using assms(3) by (auto simp: transfer_effect_def config_moved_def split: option.splits)
next
  case True
  then obtain it where it: "t (config_key m ns n) = Some it"
    "get_S it ''ownerCluster'' = Some source" "get_N it ''version'' = Some (show_int v)" by blast
  define u where "u = t(config_key m ns n \<mapsto> moved_item target prev (wrap64 (v + 1)) (format_rfc3339 t1) ref it)"
  have u: "update_effect cu t = Some u" using assms(3) it by (simp add: u_def config_moved_def)
  have su: "stored u" by (rule update_effect_stored [OF assms(1) u])
  have pa: "(p, a) \<in> {('':failoverState'', StateFailover), ('':failbackState'', StateFailback),
      ('':primaryState'', StatePrimary)}" using assms(4) by auto
  note s1 = update_effect_status [OF su pa]
  have s2: "update_effect (status_update m ns n target '':primaryState'' StatePrimary t3)
      (u(cluster_key m ns n source \<mapsto>
           stated_item a (format_rfc3339 t2) (item_or_key u (cluster_key m ns n source)))) =
    Some (u(cluster_key m ns n source \<mapsto>
           stated_item a (format_rfc3339 t2) (item_or_key u (cluster_key m ns n source)),
         cluster_key m ns n target \<mapsto> stated_item StatePrimary (format_rfc3339 t3)
           (item_or_key (u(cluster_key m ns n source \<mapsto>
              stated_item a (format_rfc3339 t2) (item_or_key u (cluster_key m ns n source))))
             (cluster_key m ns n target))))"
    by (rule update_effect_status [OF update_effect_stored [OF su s1]]) simp
  have k: "item_or_key u (cluster_key m ns n c) = item_or_key t (cluster_key m ns n c)" for c
    by (simp add: item_or_key_def u_def)
  have k2: "item_or_key (u(cluster_key m ns n source \<mapsto> x)) (cluster_key m ns n target) =
      item_or_key t (cluster_key m ns n target)" for x
    using assms(2) by (simp add: item_or_key_def u_def)
  have "transact_effect [cu, status_update m ns n source p a t2,
            status_update m ns n target '':primaryState'' StatePrimary t3] t =
      Some (u(cluster_key m ns n source \<mapsto>
                stated_item a (format_rfc3339 t2) (item_or_key t (cluster_key m ns n source)),
              cluster_key m ns n target \<mapsto>
                stated_item StatePrimary (format_rfc3339 t3) (item_or_key t (cluster_key m ns n target))))"
    using u by (simp add: s1 s2 [unfolded k] k k2)
  then show ?thesis
    using it by (simp add: transfer_effect_def u_def)
qed

section \<open>What a group's records look like before and after a transfer\<close>

text \<open>Up to the transaction only the lock changes, and a missing configuration may be created.\<close>

definition before :: "'w base_manager \<Rightarrow> string \<Rightarrow> string \<Rightarrow> dynamo_table \<Rightarrow> dynamo_table \<Rightarrow> bool" where
  "before m ns n t u \<longleftrightarrow>
     (\<forall>k. k \<noteq> lock_key m ns n \<longrightarrow> k \<noteq> config_key m ns n \<longrightarrow> u k = t k) \<and>
     (u (config_key m ns n) = t (config_key m ns n) \<or>
      (t (config_key m ns n) = None \<and> (\<exists>now. clock_ok (zone now) now \<and>
         u (config_key m ns n) = Some (group_config_item (created_config m ns n now)))))"

text \<open>The owner a reader of the configuration finds: a missing one is created for the reader's own
  cluster.\<close>

definition owner_of :: "'w base_manager \<Rightarrow> string \<Rightarrow> string \<Rightarrow> dynamo_table \<Rightarrow> string" where
  "owner_of m ns n t =
     (case t (config_key m ns n) of
        Some it \<Rightarrow> or_else (get_S it ''ownerCluster'') '''' | None \<Rightarrow> bm_clusterName m)"

definition previous_owner_of :: "'w base_manager \<Rightarrow> string \<Rightarrow> string \<Rightarrow> dynamo_table \<Rightarrow> string" where
  "previous_owner_of m ns n t =
     (case t (config_key m ns n) of
        Some it \<Rightarrow> or_else (get_S it ''previousOwner'') '''' | None \<Rightarrow> '''')"

text \<open>The ownership has moved: all three records agree on it, and nothing else of the table has
  changed but the lock and the history.\<close>

definition moved ::
    "'w base_manager \<Rightarrow> string \<Rightarrow> string \<Rightarrow> string \<Rightarrow> string \<Rightarrow> string \<Rightarrow> string \<Rightarrow>
     dynamo_table \<Rightarrow> dynamo_table \<Rightarrow> bool" where
  "moved m ns n st source prev target t u \<longleftrightarrow>
     owner_of m ns n u = target \<and> previous_owner_of m ns n u = prev \<and>
     item_S u (cluster_key m ns n source) ''state'' = Some st \<and>
     item_S u (cluster_key m ns n target) ''state'' = Some StatePrimary \<and>
     (\<forall>k. k \<noteq> lock_key m ns n \<longrightarrow> k \<noteq> config_key m ns n \<longrightarrow>
          k \<noteq> cluster_key m ns n source \<longrightarrow> k \<noteq> cluster_key m ns n target \<longrightarrow>
          \<not> prefix ''HISTORY#'' (snd k) \<longrightarrow> u k = t k)"

lemma before_refl [simp]: "before m ns n t t"
  by (simp add: before_def)

lemma before_trans: "before m ns n t u \<Longrightarrow> before m ns n u v \<Longrightarrow> before m ns n t v"
  unfolding before_def by (metis option.distinct(1))

lemma before_lock: "before m ns n t u \<Longrightarrow> (\<And>k. k \<noteq> lock_key m ns n \<Longrightarrow> v k = u k) \<Longrightarrow> before m ns n t v"
  unfolding before_def by (metis keys_disjoint(1))

lemma before_got_config: "got_config m ns n t u now r \<Longrightarrow> before m ns n t u"
  unfolding before_def got_config_def by (auto split: option.splits)

lemma owner_of_before: "before m ns n t u \<Longrightarrow> owner_of m ns n u = owner_of m ns n t"
  by (auto simp: before_def owner_of_def created_config_def default_group_config_def)

lemma previous_owner_of_before: "before m ns n t u \<Longrightarrow> previous_owner_of m ns n u = previous_owner_of m ns n t"
  by (auto simp: before_def previous_owner_of_def created_config_def default_group_config_def
      get_S_def)

lemma get_state_stated_item [simp]: "get_S (stated_item st s it) ''state'' = Some st"
  by (simp add: stated_item_def)

lemma get_moved_item [simp]:
  "get_S (moved_item target prev v s ref it) ''ownerCluster'' = Some target"
  "get_S (moved_item target prev v s ref it) ''previousOwner'' = Some prev"
  by (simp_all add: moved_item_def)

lemma moved_transfer:
  assumes "before m ns n t u" "transfer_effect m ns n source prev target st v ref t1 t2 t3 u = Some x"
    "source \<noteq> target"
  shows "moved m ns n st source prev target t x" "owner_of m ns n t = source"
proof -
  obtain it where it: "u (config_key m ns n) = Some it" "get_S it ''ownerCluster'' = Some source"
    "x = u(config_key m ns n \<mapsto> moved_item target prev (wrap64 (v + 1)) (format_rfc3339 t1) ref it,
           cluster_key m ns n source \<mapsto>
             stated_item st (format_rfc3339 t2) (item_or_key u (cluster_key m ns n source)),
           cluster_key m ns n target \<mapsto>
             stated_item StatePrimary (format_rfc3339 t3) (item_or_key u (cluster_key m ns n target)))"
    using assms(2) by (auto simp: transfer_effect_def split: option.splits if_splits)
  show "owner_of m ns n t = source"
    using owner_of_before [OF assms(1)] it(1,2) by (simp add: owner_of_def)
  have "\<forall>k. k \<noteq> lock_key m ns n \<longrightarrow> k \<noteq> config_key m ns n \<longrightarrow>
          k \<noteq> cluster_key m ns n source \<longrightarrow> k \<noteq> cluster_key m ns n target \<longrightarrow> x k = t k"
    using assms(1) by (simp add: it(3) before_def)
  then show "moved m ns n st source prev target t x"
    using assms(3) by (simp add: moved_def it(3) owner_of_def previous_owner_of_def)
qed

text \<open>What is done after the transaction leaves it standing.\<close>

lemma moved_lock:
  "moved m ns n st source prev target t u \<Longrightarrow> (\<And>k. k \<noteq> lock_key m ns n \<Longrightarrow> v k = u k) \<Longrightarrow>
   moved m ns n st source prev target t v"
  by (simp add: moved_def owner_of_def previous_owner_of_def item_S_def)

lemma moved_history:
  "moved m ns n st source prev target t u \<Longrightarrow> snd k = getHistorySK s \<Longrightarrow>
   moved m ns n st source prev target t (u(k \<mapsto> it))"
  by (cases k)
     (auto simp: moved_def owner_of_def previous_owner_of_def item_S_def config_key_def cluster_key_def
      getHistorySK_def getClusterSK_def)

lemma moved_config:
  "moved m ns n st source prev target t u \<Longrightarrow> u (config_key m ns n) = Some it \<Longrightarrow>
   or_else (get_S it' ''ownerCluster'') '''' = or_else (get_S it ''ownerCluster'') '''' \<Longrightarrow>
   or_else (get_S it' ''previousOwner'') '''' = or_else (get_S it ''previousOwner'') '''' \<Longrightarrow>
   moved m ns n st source prev target t (u(config_key m ns n \<mapsto> it'))"
  by (simp add: moved_def owner_of_def previous_owner_of_def)

section \<open>Rules for the operations\<close>

text \<open>The configuration read, as a view of the item that is stored then.\<close>

lemma config_of_created:
  "clock_ok (zone now) now \<Longrightarrow>
   created_config m ns n now =
     (config_of_item (group_config_item (created_config m ns n now)))\<lparr> gc_LastUpdated := now \<rparr>"
  unfolding config_of_item_def
  by (subst unmarshal_group_config_item)
     (simp_all add: clock_ok_in_era as_reread_def created_config_def default_group_config_def
       default_timeouts_def int64_def int64_min_def int64_max_def)

lemma config_key_of_item:
  assumes "stored t" "t (config_key m ns n) = Some it"
  shows "(gc_PK (config_of_item it), gc_SK (config_of_item it)) = config_key m ns n"
  using stored_PK [OF assms] stored_SK [OF assms]
  by (simp add: config_of_item_def unmarshalDynamoDBItem_def get_S_def config_key_def)

lemma config_of_item_owner:
  "gc_OwnerCluster (config_of_item it) = or_else (get_S it ''ownerCluster'') ''''"
  "gc_PreviousOwner (config_of_item it) = or_else (get_S it ''previousOwner'') ''''"
  by (simp_all add: config_of_item_def unmarshalDynamoDBItem_def zero_group_config_def)

context manager_store
begin

lemma wp_read_config:
  assumes "\<And>it x w'. nanos (clk w) \<le> nanos (clk w') \<Longrightarrow> before m ns n (tbl w) (tbl w') \<Longrightarrow>
      (\<And>k. k \<noteq> config_key m ns n \<Longrightarrow> tbl w' k = tbl w k) \<Longrightarrow>
      tbl w' (config_key m ns n) = Some it \<Longrightarrow>
      Q (Ok ((config_of_item it)\<lparr> gc_LastUpdated := x \<rparr>)) w'"
    "\<And>e w'. nanos (clk w) \<le> nanos (clk w') \<Longrightarrow> before m ns n (tbl w) (tbl w') \<Longrightarrow>
      (\<And>k. k \<noteq> config_key m ns n \<Longrightarrow> tbl w' k = tbl w k) \<Longrightarrow> Q (Err e) w'"
  shows "wp (GetGroupConfig rt m ns n) Q w"
proof (rule wp_GetGroupConfig)
  fix r w'
  assume a: "nanos (clk w) \<le> nanos (clk w')" "got_config m ns n (tbl w) (tbl w') (clk w') r"
  note b = before_got_config [OF a(2)]
  have f: "tbl w' k = tbl w k" if "k \<noteq> config_key m ns n" for k
    using a(2) that by (auto simp: got_config_def split: option.splits)
  show "Q r w'"
  proof (cases r)
    case (Ok c)
    then obtain it x where it: "tbl w' (config_key m ns n) = Some it"
      "c = (config_of_item it)\<lparr> gc_LastUpdated := x \<rparr>"
    proof (cases "tbl w (config_key m ns n)")
      case None
      then have c: "c = created_config m ns n (clk w')" and o: "clock_ok (zone (clk w')) (clk w')"
        and t: "tbl w' (config_key m ns n) = Some (group_config_item (created_config m ns n (clk w')))"
        using a(2) Ok by (auto simp: got_config_def)
      show ?thesis
        by (rule that [OF t]) (unfold c, rule config_of_created [OF o])
    next
      case (Some it)
      then have "c = config_of_item it" "tbl w' (config_key m ns n) = Some it"
        using a(2) Ok by (auto simp: got_config_def)
      with that [of it "gc_LastUpdated c"] show ?thesis by simp
    qed
    show ?thesis unfolding Ok it(2) by (rule assms(1) [OF a(1) b f it(1)])
  next
    case (Err e)
    show ?thesis unfolding Err by (rule assms(2) [OF a(1) b f])
  next
    case Panic
    then show ?thesis using a(2) by (auto simp: got_config_def split: option.splits)
  qed
qed

lemma wp_GetClusterStatus:
  assumes "\<And>r w'. nanos (clk w) \<le> nanos (clk w') \<Longrightarrow> tbl w' = tbl w \<Longrightarrow>
      (case r of Panic \<Rightarrow> False | Err e \<Rightarrow> True | Ok s \<Rightarrow>
         (case tbl w (cluster_key m ns n c) of
            None \<Rightarrow> s = None
          | Some it \<Rightarrow> s = Some (read_status_fields it (initial_status m ns n c StatePrimary (clk w'))))) \<Longrightarrow> Q r w'"
  shows "wp (GetClusterStatus rt m ns n c) Q w"
  unfolding GetClusterStatus_def wp_simps
proof (rule wp_get [where k = "cluster_key m ns n c"], goal_cases)
  case (3 w1 it)
  then have it: "it = the_item (tbl w (cluster_key m ns n c))" by simp
  show ?case
  proof (cases "tbl w (cluster_key m ns n c)")
    case None
    then show ?thesis
      using 3 it by (simp add: wp_simps) (rule assms, simp_all)
  next
    case (Some i)
    with it have "it = i" "i \<noteq> []"
      using stored_not_Nil [OF stored_tbl, of w "cluster_key m ns n c"] by auto
    then show ?thesis
      using 3 Some by (simp add: wp_simps) (rule wp_now, simp add: wp_simps, rule assms, simp_all)
  qed
next
  case (4 w1 e)
  then show ?case by simp (rule assms, simp_all)
qed (simp_all add: cluster_key_def)

lemma wp_ValidateFailoverPreconditions:
  assumes "\<And>r w'. nanos (clk w) \<le> nanos (clk w') \<Longrightarrow> before m ns n (tbl w) (tbl w') \<Longrightarrow>
      (\<And>k. k \<noteq> config_key m ns n \<Longrightarrow> tbl w' k = tbl w k) \<Longrightarrow> Q r w'"
  shows "wp (ValidateFailoverPreconditions rt m ns n target skip) Q w"
  unfolding ValidateFailoverPreconditions_def wp_simps
proof (rule wp_IsLocked, goal_cases)
  case (1 r w1)
  show ?case
  proof (cases r)
    case (Ok p)
    obtain locked holder where p: "p = (locked, holder)" by (cases p)
    note start = 1
    show ?thesis
    proof (cases locked)
      case True
      then show ?thesis using 1 assms by (simp add: Ok p wp_simps)
    next
      case False
      show ?thesis
        unfolding Ok p outcome.case prod.case wp_simps if_not_P [OF False]
      proof (rule wp_read_config, goal_cases)
        case (1 it x w2)
        then have "Q r w3" if "tbl w3 = tbl w2" "nanos (clk w2) \<le> nanos (clk w3)" for r w3
          using start that by (intro assms) auto
        then show ?case
          by (auto simp: wp_simps split: option.splits outcome.splits intro!: wp_GetClusterStatus)
      next
        case (2 e w2)
        then show ?case using start assms by auto
      qed
    qed
  qed (use 1 assms in auto)
qed

end

section \<open>Failover and failback\<close>

text \<open>A failed step of the transaction: nothing but what a step before it may have done.\<close>

definition transfer_step ::
    "'w base_manager \<Rightarrow> string \<Rightarrow> string \<Rightarrow> string \<Rightarrow> string \<Rightarrow> string \<Rightarrow> string \<Rightarrow>
     dynamo_table \<Rightarrow> dynamo_table \<Rightarrow> unit outcome \<Rightarrow> bool" where
  "transfer_step m ns n st source prev target t u r \<longleftrightarrow>
     (is_ok r \<longrightarrow> moved m ns n st source prev target t u \<and> owner_of m ns n t = source) \<and>
     (before m ns n t u \<or> (moved m ns n st source prev target t u \<and> owner_of m ns n t = source))"

lemma transfer_step_before [simp]:
  "before m ns n t u \<Longrightarrow> transfer_step m ns n st source prev target t u (Err e)"
  "before m ns n t u \<Longrightarrow> transfer_step m ns n st source prev target t u Panic"
  by (simp_all add: transfer_step_def)

lemma transfer_stepI:
  assumes "before m ns n t u" "source \<noteq> target"
    "atomic_write (transfer_effect m ns n source prev target st v ref t1 t2 t3 u) u x r"
  shows "transfer_step m ns n st source prev target t x r"
  using assms(3) moved_transfer [OF assms(1) _ assms(2)] assms(1)
  unfolding transfer_step_def atomic_write_def by (cases r) auto

context manager_store
begin

text \<open>The transaction itself, for either direction.\<close>

lemma wp_transfer:
  assumes "source \<noteq> target" "before m ns n t (tbl w)"
    "update_effect cu (tbl w) = config_moved m ns n source prev target v ref tc (tbl w)"
    "ui_TableName cu = bm_tableName m" "ui_Key cu = key_item (getGroupPK m ns n) ''CONFIG''"
    "(p, a) \<in> {('':failoverState'', StateFailover), ('':failbackState'', StateFailback)}"
    "\<And>w'. clk w' = clk w \<Longrightarrow> (\<And>r. transfer_step m ns n a source prev target t (tbl w') r) \<Longrightarrow>
       tbl w' (lock_key m ns n) = tbl w (lock_key m ns n) \<Longrightarrow>
       tbl w' (config_key m ns n) \<noteq> None \<Longrightarrow> Q (Ok ()) w'"
    "\<And>e w'. clk w' = clk w \<Longrightarrow> (\<And>e'. transfer_step m ns n a source prev target t (tbl w') (Err e')) \<Longrightarrow>
       tbl w' (lock_key m ns n) = tbl w (lock_key m ns n) \<Longrightarrow> Q (Err e) w'"
  shows "wp (TransactWriteItems (bm_client m)
     [cu, status_update m ns n source p a t2, status_update m ns n target '':primaryState'' StatePrimary t3]) Q w"
proof (rule wp_transact, goal_cases)
  case 1
  show ?case using assms(4) by (simp add: status_update_def)
next
  case 2
  show ?case
    using assms(1,5) by (auto simp: transact_keys_def status_update_def)
next
  let ?e = "transfer_effect m ns n source prev target a v ref tc t2 t3 (tbl w)"
  note eff = transact_effect_transfer [OF stored_tbl assms(1,3,6)]
  have l: "u (lock_key m ns n) = tbl w (lock_key m ns n) \<and> u (config_key m ns n) \<noteq> None" if "?e = Some u" for u
    using that by (auto simp: transfer_effect_def split: option.splits if_splits)
  {
    case (3 w')
    then have e: "?e = Some (tbl w')" unfolding eff by simp
    then have "atomic_write ?e (tbl w) (tbl w') (Ok ())" by (simp add: atomic_write_def)
    from transfer_stepI [OF assms(2,1) this] have "transfer_step m ns n a source prev target t (tbl w') r" for r
      by (auto simp: transfer_step_def)
    then show ?case using 3(1) l [OF e] by (intro assms(7)) auto
  next
    case (4 w' e)
    then have e: "tbl w' = tbl w \<or> ?e = Some (tbl w')" unfolding eff by simp
    then have "atomic_write ?e (tbl w) (tbl w') (Err e')" for e' :: go_error
      by (simp add: atomic_write_def)
    from transfer_stepI [OF assms(2,1) this] show ?case
      using 4(1) e l by (intro assms(8)) auto
  }
qed

lemma wp_executeFailoverTransaction:
  assumes "source \<noteq> target" "before m ns n t (tbl w)"
    "\<And>r w'. nanos (clk w) \<le> nanos (clk w') \<Longrightarrow>
       transfer_step m ns n StateFailover source source target t (tbl w') r \<Longrightarrow>
       tbl w' (lock_key m ns n) = tbl w (lock_key m ns n) \<Longrightarrow>
       (is_ok r \<Longrightarrow> tbl w' (config_key m ns n) \<noteq> None) \<Longrightarrow> Q r w'"
  shows "wp (executeFailoverTransaction rt m ns n source target reason name start) Q w"
  unfolding executeFailoverTransaction_def wp_simps
proof (rule wp_read_config, goal_cases)
  case (1 it x w1)
  define c where "c = (config_of_item it)\<lparr> gc_LastUpdated := x \<rparr>"
  have b: "before m ns n t (tbl w1)" using assms(2) 1(2) by (rule before_trans)
  have l: "tbl w1 (lock_key m ns n) = tbl w (lock_key m ns n)" using 1(3) by simp
  show ?case
    unfolding outcome.case wp_simps c_def [symmetric]
  proof (rule wp_now, rule wp_now, rule wp_now, goal_cases)
    case (1 t1 w2 t2 w3 t3 w4)
    note T = this
    show ?case
    proof (rule wp_transfer [where t = t and prev = source and v = "gc_Version c" and
        ref = "failover_ref name ns start" and tc = t1], goal_cases)
      case 2
      show ?case using b T by simp
    next
      case 3
      show ?case by (rule update_effect_failover_config [OF stored_tbl]) (simp add: c_def)
    next
      case (7 w5)
      then show ?case
        using l T \<open>nanos (clk w) \<le> nanos (clk w1)\<close> by (auto simp: wp_simps intro!: assms(3))
    next
      case (8 e w5)
      then show ?case
        using l T \<open>nanos (clk w) \<le> nanos (clk w1)\<close> by (auto simp: wp_simps intro!: assms(3))
    qed (simp_all add: assms(1) failover_config_update_def)
  qed
next
  case (2 e w1)
  have "before m ns n t (tbl w1)" using assms(2) 2(2) by (rule before_trans)
  moreover have "tbl w1 (lock_key m ns n) = tbl w (lock_key m ns n)" using 2(3) by simp
  ultimately show ?case using 2(1) by (auto intro!: assms(3))
qed

lemma wp_executeFailbackTransaction:
  assumes "source \<noteq> target" "before m ns n t (tbl w)"
    "\<And>r w'. nanos (clk w) \<le> nanos (clk w') \<Longrightarrow>
       transfer_step m ns n StateFailback source '''' target t (tbl w') r \<Longrightarrow>
       tbl w' (lock_key m ns n) = tbl w (lock_key m ns n) \<Longrightarrow>
       (is_ok r \<Longrightarrow> tbl w' (config_key m ns n) \<noteq> None) \<Longrightarrow> Q r w'"
  shows "wp (executeFailbackTransaction rt m ns n source target reason name start) Q w"
  unfolding executeFailbackTransaction_def wp_simps
proof (rule wp_read_config, goal_cases)
  case (1 it x w1)
  define c where "c = (config_of_item it)\<lparr> gc_LastUpdated := x \<rparr>"
  have b: "before m ns n t (tbl w1)" using assms(2) 1(2) by (rule before_trans)
  have l: "tbl w1 (lock_key m ns n) = tbl w (lock_key m ns n)" using 1(3) by simp
  show ?case
    unfolding outcome.case wp_simps c_def [symmetric]
  proof (rule wp_now, rule wp_now, rule wp_now, goal_cases)
    case (1 t1 w2 t2 w3 t3 w4)
    note T = this
    show ?case
    proof (rule wp_transfer [where t = t and prev = "''''" and v = "gc_Version c" and
        ref = "failover_ref name ns start" and tc = t1], goal_cases)
      case 2
      show ?case using b T by simp
    next
      case 3
      show ?case by (rule update_effect_failback_config [OF stored_tbl]) (simp add: c_def)
    next
      case (7 w5)
      then show ?case
        using l T \<open>nanos (clk w) \<le> nanos (clk w1)\<close> by (auto simp: wp_simps intro!: assms(3))
    next
      case (8 e w5)
      then show ?case
        using l T \<open>nanos (clk w) \<le> nanos (clk w1)\<close> by (auto simp: wp_simps intro!: assms(3))
    qed (simp_all add: assms(1) failback_config_update_def)
  qed
next
  case (2 e w1)
  have "before m ns n t (tbl w1)" using assms(2) 2(2) by (rule before_trans)
  moreover have "tbl w1 (lock_key m ns n) = tbl w (lock_key m ns n)" using 2(3) by simp
  ultimately show ?case using 2(1) by (auto intro!: assms(3))
qed

text \<open>The history record and the new reference in the configuration do not disturb the move.\<close>

lemma wp_recordFailoverEvent:
  assumes "moved m ns n st src prev tgt t (tbl w)" "tbl w (config_key m ns n) \<noteq> None"
    "\<And>r w'. nanos (clk w) \<le> nanos (clk w') \<Longrightarrow> r \<noteq> Panic \<Longrightarrow> moved m ns n st src prev tgt t (tbl w') \<Longrightarrow>
       tbl w' (lock_key m ns n) = tbl w (lock_key m ns n) \<Longrightarrow> Q r w'"
  shows "wp (recordFailoverEvent rt m ns n name src' tgt' reason s e status down dur) Q w"
  unfolding recordFailoverEvent_def wp_simps
proof (rule wp_put, goal_cases)
  case 1
  show ?case by simp
next
  define h where "h = history_item m ns n name src' tgt' reason s e status down dur"
  define hk where "hk = (getGroupPK m ns n, getHistorySK s)"
  have put: "put_effect \<lparr> pi_TableName = bm_tableName m, pi_Item = h, pi_Condition = None,
      pi_Names = [], pi_Values = [] \<rparr> u = Some (u(hk \<mapsto> h))" for u
    by (simp add: put_effect_def condition_holds_def h_def hk_def history_item_def item_key_of_def)
  have hk: "hk \<noteq> config_key m ns n" "hk \<noteq> lock_key m ns n" "snd hk = getHistorySK s"
    by (simp_all add: hk_def config_key_def lock_key_def)
  {
    case (2 w1)
    then have t1: "tbl w1 = (tbl w)(hk \<mapsto> h)" by (simp add: put h_def [symmetric])
    have m1: "moved m ns n st src prev tgt t (tbl w1)"
      unfolding t1 using moved_history [OF assms(1) hk(3)] .
    obtain it where it: "tbl w1 (config_key m ns n) = Some it"
      using assms(2) hk(1) by (auto simp: t1)
    show ?case
      unfolding outcome.case wp_simps
    proof (rule wp_GetGroupConfig, goal_cases)
      case (1 r w2)
      then have w2: "tbl w2 = tbl w1" "r = Ok (config_of_item it) \<or> is_err r"
        using it by (auto simp: got_config_def)
      have l2: "tbl w2 (lock_key m ns n) = tbl w (lock_key m ns n)"
        using hk(2) by (simp add: w2(1) t1)
      show ?case
      proof (cases r)
        case (Ok c)
        then have c: "c = config_of_item it" using w2 by simp
        define c' where "c' = c\<lparr> gc_LastFailover := Some \<lparr> fr_Name = name, fr_Namespace = ns, fr_Timestamp = s \<rparr> \<rparr>"
        have key: "(gc_PK (stamped c' now), gc_SK (stamped c' now)) = config_key m ns n" for now
          using config_key_of_item [OF stored_tbl it] by (simp add: stamped_def c'_def c)
        have own: "or_else (get_S (group_config_item (stamped c' now)) ''ownerCluster'') '''' =
              or_else (get_S it ''ownerCluster'') ''''"
          "or_else (get_S (group_config_item (stamped c' now)) ''previousOwner'') '''' =
              or_else (get_S it ''previousOwner'') ''''" for now
          by (simp_all add: stamped_def c'_def c config_of_item_owner)
        show ?thesis
          unfolding Ok outcome.case wp_simps c'_def [symmetric]
        proof (rule wp_UpdateGroupConfig, goal_cases)
          case (1 r' w3)
          have "tbl w3 = tbl w1 \<or>
              tbl w3 = (tbl w1)(config_key m ns n \<mapsto> group_config_item (stamped c' (clk w3)))"
            using 1(3) config_cas_SomeD [of "tbl w2" _ "stamped c' (clk w3)" "tbl w3"]
            unfolding key w2(1) atomic_write_def by (cases r') auto
          then have "moved m ns n st src prev tgt t (tbl w3)"
            "tbl w3 (lock_key m ns n) = tbl w (lock_key m ns n)"
            using moved_config [OF m1 it own] m1 l2 w2(1) by auto
          moreover have "r' \<noteq> Panic" using 1(3) by (auto simp: atomic_write_def)
          moreover have "nanos (clk w) \<le> nanos (clk w3)"
            using 1(1) \<open>nanos (clk w1) \<le> nanos (clk w2)\<close> 2(1) by simp
          ultimately show ?case
            by (cases r') (auto simp: wp_simps intro: assms(3))
        qed
      next
        case (Err e)
        then show ?thesis
          using 1(1) 2(1) m1 l2 w2(1) by (simp add: wp_simps) (rule assms(3), simp_all)
      next
        case Panic
        then show ?thesis using w2 by simp
      qed
    qed
  next
    case (3 w1 e)
    then have "tbl w1 = tbl w \<or> tbl w1 = (tbl w)(hk \<mapsto> h)" by (auto simp: put h_def [symmetric])
    then have "moved m ns n st src prev tgt t (tbl w1)" "tbl w1 (lock_key m ns n) = tbl w (lock_key m ns n)"
      using assms(1) moved_history [OF assms(1) hk(3), of h] hk(2) by auto
    then show ?case using 3(1) by (auto intro: assms(3))
  }
qed

end

text \<open>The whole operations. Every outcome leaves the ownership either where it was or moved with
  all three records; success means moved.\<close>

lemma transfer_step_lock:
  "transfer_step m ns n st source prev target t u r \<Longrightarrow> (\<And>k. k \<noteq> lock_key m ns n \<Longrightarrow> v k = u k) \<Longrightarrow>
   transfer_step m ns n st source prev target t v r"
  unfolding transfer_step_def by (blast intro: moved_lock before_lock)

lemma atomic_write_lock_frame:
  "atomic_write (lock_dropped m ns n token t) t u r \<Longrightarrow> k \<noteq> lock_key m ns n \<Longrightarrow> u k = t k"
  by (cases r) (auto simp: atomic_write_def dest: lock_dropped_other)

lemma atomic_write_not_Panic: "atomic_write e t u r \<Longrightarrow> r \<noteq> Panic"
  by (auto simp: atomic_write_def)

context manager_store
begin

text \<open>The part under the lock.\<close>

lemma wp_locked_transfer:
  assumes "\<And>Q. (\<And>r w'. nanos (clk w) \<le> nanos (clk w') \<Longrightarrow>
       transfer_step m ns n st source prev target t (tbl w') r \<Longrightarrow>
       tbl w' (lock_key m ns n) = tbl w (lock_key m ns n) \<Longrightarrow>
       (is_ok r \<Longrightarrow> tbl w' (config_key m ns n) \<noteq> None) \<Longrightarrow> Q r w') \<Longrightarrow> wp txn Q w"
    "\<And>r w'. nanos (clk w) \<le> nanos (clk w') \<Longrightarrow> transfer_step m ns n st source prev target t (tbl w') r \<Longrightarrow> Q r w'"
  shows "wp (deferred (ReleaseLock m ns n token)
     (check txn f (\<lambda>_. do {
        endTime \<leftarrow> time_now rt;
        let duration = whole_seconds (time_sub endTime startTime);
        let downtime = go_quot duration d;
        ignore_err (recordFailoverEvent rt m ns n name source target reason startTime endTime ''SUCCESS''
          downtime duration)
      }))) Q w"
  unfolding wp_simps
proof (rule assms(1), goal_cases)
  case (1 r w1)
  have fin: "wp (ReleaseLock m ns n token) (\<lambda>r'. Q (case r' of Panic \<Rightarrow> Panic | _ \<Rightarrow> r)) w2"
    if "nanos (clk w) \<le> nanos (clk w2)" "transfer_step m ns n st source prev target t (tbl w2) r" for r w2
  proof (rule wp_ReleaseLock)
    fix r' w'
    assume a: "clk w' = clk w2" "atomic_write (lock_dropped m ns n token (tbl w2)) (tbl w2) (tbl w') r'"
    have "transfer_step m ns n st source prev target t (tbl w') r"
      by (rule transfer_step_lock [OF that(2) atomic_write_lock_frame [OF a(2)]])
    then have "Q r w'" using that(1) a(1) by (intro assms(2)) auto
    then show "Q (case r' of Panic \<Rightarrow> Panic | _ \<Rightarrow> r) w'"
      using atomic_write_not_Panic [OF a(2)] by (cases r') auto
  qed
  show ?case
  proof (cases r)
    case (Ok u)
    then have mv: "moved m ns n st source prev target t (tbl w1)" "owner_of m ns n t = source"
      "tbl w1 (config_key m ns n) \<noteq> None"
      using 1 by (auto simp: transfer_step_def)
    show ?thesis
      unfolding Ok outcome.case Let_def wp_simps
    proof (rule wp_now, goal_cases)
      case (1 e w2)
      show ?case
      proof (rule wp_recordFailoverEvent [where t = t and st = st and src = source and prev = prev
            and tgt = target], goal_cases)
        case (3 r2 w3)
        then have "transfer_step m ns n st source prev target t (tbl w3) (Ok ())"
          using mv(2) by (simp add: transfer_step_def)
        moreover have "nanos (clk w) \<le> nanos (clk w3)"
          using 1 3(1) \<open>nanos (clk w) \<le> nanos (clk w1)\<close> by simp
        ultimately show ?case
        proof -
          assume "transfer_step m ns n st source prev target t (tbl w3) (Ok ())"
            "nanos (clk w) \<le> nanos (clk w3)"

          have e: "(case r2 of Panic \<Rightarrow> Panic | _ \<Rightarrow> Ok ()) = Ok ()" using 3(2) by (cases r2) auto
          show ?thesis unfolding e by (rule fin) fact+
        qed
      qed (use 1 mv in simp_all)
    qed
  next
    case (Err e)
    have "transfer_step m ns n st source prev target t (tbl w1) (Err (f e))"
      using 1(2) by (simp add: Err transfer_step_def)
    then show ?thesis unfolding Err outcome.case using 1(1) by (intro fin)
  next
    case Panic
    then show ?thesis using 1(1,2) by (simp add: fin)
  qed
qed

lemma wp_ExecuteFailover:
  assumes "\<And>r w'. nanos (clk w) \<le> nanos (clk w') \<Longrightarrow>
      (is_ok r \<Longrightarrow> owner_of m ns n (tbl w) \<noteq> target) \<Longrightarrow>
      transfer_step m ns n StateFailover (owner_of m ns n (tbl w)) (owner_of m ns n (tbl w)) target
        (tbl w) (tbl w') r \<Longrightarrow> Q r w'"
  shows "wp (ExecuteFailover rt m ns n name target reason force) Q w"
proof -
  let ?src = "owner_of m ns n (tbl w)"
  have early: "Q r w'" if "nanos (clk w) \<le> nanos (clk w')" "before m ns n (tbl w) (tbl w')" "\<not> is_ok r" for r w'
    using that by (intro assms) (auto simp: transfer_step_def)
  show ?thesis
    unfolding ExecuteFailover_def wp_simps
  proof (rule wp_now, rule wp_ValidateFailoverPreconditions, goal_cases)
    case (1 s w1 r w2)
    note v = this
    have b2: "before m ns n (tbl w) (tbl w2)" using v by simp
    have m2: "nanos (clk w) \<le> nanos (clk w2)" using v by simp
    show ?case
    proof (cases r)
      case (Ok u)
      show ?thesis
        unfolding Ok outcome.case wp_simps
      proof (rule wp_read_config, goal_cases)
        case (1 it x w3)
        have b3: "before m ns n (tbl w) (tbl w3)" using b2 1(2) by (rule before_trans)
        have m3: "nanos (clk w) \<le> nanos (clk w3)" using m2 1(1) by simp
        have own: "gc_OwnerCluster ((config_of_item it)\<lparr> gc_LastUpdated := x \<rparr>) = ?src"
          using owner_of_before [OF b3] 1(4) by (simp add: owner_of_def config_of_item_owner)
        show ?case
          unfolding outcome.case Let_def own wp_simps
        proof (cases "?src = target", goal_cases)
          case 1
          then show ?case using b3 m3 by (simp add: early)
        next
          case 2
          show ?case
            unfolding if_not_P [OF 2]
          proof (rule wp_AcquireLock, goal_cases)
            case (1 token w4)
            have b4: "before m ns n (tbl w) (tbl w4)"
              by (rule before_lock [OF b3 lock_taken_other [OF 1(3)]])
            have m4: "nanos (clk w) \<le> nanos (clk w4)" using m3 1(1) by simp
            show ?case
              unfolding outcome.case wp_simps
            proof (rule wp_locked_transfer [where t = "tbl w" and st = StateFailover and source = ?src and
                prev = ?src and target = target, unfolded Let_def wp_simps], goal_cases)
              case (1 Q')
              then show ?case by (intro wp_executeFailoverTransaction [OF 2 b4]) auto
            next
              case (2 r w')
              then show ?case using m4 \<open>?src \<noteq> target\<close> by (intro assms) auto
            qed
          next
            case (2 e token w4)
            have "before m ns n (tbl w) (tbl w4)"
              using 2(2) b3 by (auto intro: before_lock lock_taken_other)
            then show ?case using m3 2(1) by (simp add: early)
          qed
        qed
      next
        case (2 e w3)
        have "before m ns n (tbl w) (tbl w3)" using b2 2(2) by (rule before_trans)
        then show ?case using m2 2(1) by (simp add: early)
      qed
    next
      case (Err e)
      then show ?thesis using b2 m2 by (simp add: early)
    next
      case Panic
      then show ?thesis using b2 m2 by (simp add: early)
    qed
  qed
qed

end

context manager_store
begin

lemma wp_executeFailbackTransaction_same:
  assumes "before m ns n t (tbl w)"
    "\<And>e w'. nanos (clk w) \<le> nanos (clk w') \<Longrightarrow> before m ns n t (tbl w') \<Longrightarrow> Q (Err e) w'"
  shows "wp (executeFailbackTransaction rt m ns n source source reason name start) Q w"
  unfolding executeFailbackTransaction_def wp_simps
proof (rule wp_read_config, goal_cases)
  case (1 it x w1)
  have b: "before m ns n t (tbl w1)" using assms(1) 1(2) by (rule before_trans)
  have m1: "nanos (clk w) \<le> nanos (clk w1)" using 1(1) .
  show ?case
    unfolding outcome.case wp_simps
  proof (rule wp_now, rule wp_now, rule wp_now, rule wp_transact_duplicate, goal_cases)
    case (1 t1 w2 t2 w3 t3 w4)
    show ?case by (simp add: transact_keys_def status_update_def)
  next
    case (2 t1 w2 t2 w3 t3 w4 w5 e)
    then show ?case using b m1 by (auto simp: wp_simps intro!: assms(2))
  qed
next
  case (2 e w1)
  have "before m ns n t (tbl w1)" using assms(1) 2(2) by (rule before_trans)
  then show ?case using 2(1) by (auto intro!: assms(2))
qed

lemma wp_ExecuteFailback:
  assumes "\<And>r w'. nanos (clk w) \<le> nanos (clk w') \<Longrightarrow>
      (is_ok r \<Longrightarrow> previous_owner_of m ns n (tbl w) \<noteq> '''' \<and>
         previous_owner_of m ns n (tbl w) \<noteq> owner_of m ns n (tbl w)) \<Longrightarrow>
      transfer_step m ns n StateFailback (owner_of m ns n (tbl w)) '''' (previous_owner_of m ns n (tbl w))
        (tbl w) (tbl w') r \<Longrightarrow> Q r w'"
  shows "wp (ExecuteFailback rt m ns n reason) Q w"
proof -
  let ?src = "owner_of m ns n (tbl w)" and ?tgt = "previous_owner_of m ns n (tbl w)"
  have early: "Q r w'" if "nanos (clk w) \<le> nanos (clk w')" "before m ns n (tbl w) (tbl w')" "\<not> is_ok r" for r w'
    using that by (intro assms) (auto simp: transfer_step_def)
  show ?thesis
    unfolding ExecuteFailback_def wp_simps
  proof (rule wp_now, rule wp_read_config, goal_cases)
    case (1 s w1 it x w2)
    have b2: "before m ns n (tbl w) (tbl w2)" and m2: "nanos (clk w) \<le> nanos (clk w2)"
      using 1 by simp_all
    have own: "gc_OwnerCluster ((config_of_item it)\<lparr> gc_LastUpdated := x \<rparr>) = ?src"
      "gc_PreviousOwner ((config_of_item it)\<lparr> gc_LastUpdated := x \<rparr>) = ?tgt"
      using owner_of_before [OF b2] previous_owner_of_before [OF b2] 1(8)
      by (simp_all add: owner_of_def previous_owner_of_def config_of_item_owner)
    show ?case
      unfolding outcome.case own Let_def wp_simps
    proof (cases "?tgt = ''''", goal_cases)
      case 1
      then show ?case using b2 m2 by (simp add: early)
    next
      case 2
      note prev = this
      show ?case
        unfolding if_not_P [OF 2]
      proof (rule wp_now, rule wp_ValidateFailoverPreconditions, goal_cases)
        case (1 tn w3 r w4)
        have b4: "before m ns n (tbl w) (tbl w4)" and m4: "nanos (clk w) \<le> nanos (clk w4)"
          using b2 m2 1 by (auto intro: before_trans)
        show ?case
        proof (cases r)
          case (Ok u)
          show ?thesis
            unfolding Ok outcome.case
          proof (rule wp_AcquireLock, goal_cases)
            case (1 token w5)
            have b5: "before m ns n (tbl w) (tbl w5)"
              by (rule before_lock [OF b4 lock_taken_other [OF 1(3)]])
            have m5: "nanos (clk w) \<le> nanos (clk w5)" using m4 1(1) by simp
            show ?case
            proof (cases "?src = ?tgt")
              case False
              show ?thesis
                unfolding outcome.case
              proof (rule wp_locked_transfer [where t = "tbl w" and st = StateFailback and source = ?src and
                  prev = "''''" and target = ?tgt, unfolded Let_def wp_simps], goal_cases)
                case (1 Q')
                then show ?case by (intro wp_executeFailbackTransaction [OF False b5]) auto
              next
                case (2 r w')
                then show ?case using m5 prev False by (intro assms) auto
              qed
            next
              case True
              have fin: "wp (ReleaseLock m ns n token) (\<lambda>r'. Q (case r' of Panic \<Rightarrow> Panic | _ \<Rightarrow> Err e)) w6"
                if "nanos (clk w5) \<le> nanos (clk w6)" "before m ns n (tbl w) (tbl w6)" for e w6
              proof (rule wp_ReleaseLock)
                fix r' w'
                assume a: "clk w' = clk w6" "atomic_write (lock_dropped m ns n token (tbl w6)) (tbl w6) (tbl w') r'"
                have "before m ns n (tbl w) (tbl w')"
                  by (rule before_lock [OF that(2) atomic_write_lock_frame [OF a(2)]])
                then show "Q (case r' of Panic \<Rightarrow> Panic | _ \<Rightarrow> Err e) w'"
                  using that(1) m5 a(1) by (cases r') (auto intro!: early)
              qed
              show ?thesis
                unfolding outcome.case True
                by (rule wp_executeFailbackTransaction_same [OF b5]) (simp add: fin)
            qed
          next
            case (2 e token w5)
            have "before m ns n (tbl w) (tbl w5)"
              using 2(2) b4 by (auto intro: before_lock lock_taken_other)
            then show ?case using m4 2(1) by (simp add: early)
          qed
        next
          case (Err e)
          then show ?thesis using b4 m4 by (simp add: early)
        next
          case Panic
          then show ?thesis using b4 m4 by (simp add: early)
        qed
      qed
    qed
  next
    case (2 s w1 e w2)
    then show ?case by (simp add: early)
  qed
qed

end

section \<open>When nothing is down\<close>

lemma lock_put_valid: "put_valid (lock_put m ns n reason now token)"
  by (simp add: put_valid_def lock_put_def placeholders_ok_def lock_condition_def is_placeholder_def)

lemma release_delete_valid: "delete_valid (release_delete m ns n token)"
  by (simp add: delete_valid_def release_delete_def placeholders_ok_def is_placeholder_def)

text \<open>A lock that a reader at \<open>now\<close> takes for held.\<close>

definition lock_live :: "item option \<Rightarrow> go_time \<Rightarrow> bool" where
  "lock_live x now \<longleftrightarrow>
     (case x of None \<Rightarrow> False
      | Some it \<Rightarrow> (case lock_expiry it of Some e \<Rightarrow> \<not> time_after now e | None \<Rightarrow> False))"

lemma lock_reply_cases:
  "lock_live x now \<Longrightarrow> lock_reply x now = Ok (True, or_else (get_S (the_item x) ''lockedBy'') '''')"
  "\<not> lock_live x now \<Longrightarrow> lock_reply x now = Ok (False, '''') \<or> is_err (lock_reply x now)"
  by (auto simp: lock_live_def lock_reply_def split: option.splits if_splits)

context manager_reliable
begin

lemma wp_IsLocked_ok:
  assumes "\<And>w'. tbl w' = tbl w \<Longrightarrow> nanos (clk w) \<le> nanos (clk w') \<Longrightarrow>
      Q (lock_reply (tbl w (lock_key m ns n)) (clk w')) w'"
  shows "wp (IsLocked rt m ns n) Q w"
  unfolding IsLocked_def wp_simps
proof (rule wp_get_ok [where k = "lock_key m ns n"], goal_cases)
  case (3 w1)
  show ?case
  proof (cases "tbl w (lock_key m ns n)")
    case None
    with 3 assms [of w1] show ?thesis by (simp add: wp_simps lock_reply_def)
  next
    case (Some it)
    then have "it \<noteq> []" using stored_not_Nil [OF stored_tbl, of w "lock_key m ns n"] by auto
    show ?thesis
    proof (cases "lock_expiry it")
      case None
      with Some 3 assms [of w1] \<open>it \<noteq> []\<close> show ?thesis
        by (simp add: wp_simps lock_reply_def lock_expiry_def)
    next
      case (Some e)
      have "wp (time_now rt) (\<lambda>now. Q (lock_reply (Some it) now)) w1"
      proof (rule wp_now, goal_cases)
        case (1 t w')
        with 3 assms [of w'] \<open>tbl w (lock_key m ns n) = Some it\<close> show ?case by simp
      qed
      then have "wp (time_now rt) (\<lambda>now. wp (if time_after now e then ret (False, '''')
          else ret (True, or_else (get_S it ''lockedBy'') '''')) Q) w1"
        by (rule wp_mono) (simp add: lock_reply_def Some wp_simps split: if_splits)
      with Some \<open>tbl w (lock_key m ns n) = Some it\<close> \<open>it \<noteq> []\<close> show ?thesis
        by (simp add: wp_simps lock_expiry_def [symmetric])
    qed
  qed
qed (simp_all add: lock_key_def)

lemma wp_AcquireLock_ok:
  assumes "\<And>token w'. clock_ok Z (clk w') \<Longrightarrow> nanos (clk w) \<le> nanos (clk w') \<Longrightarrow>
      lock_taken m ns n reason (clk w') token (tbl w) = Some (tbl w') \<Longrightarrow> Q (Ok token) w'"
    "\<And>e w'. nanos (clk w) \<le> nanos (clk w') \<Longrightarrow> tbl w' = tbl w \<Longrightarrow> tbl w (lock_key m ns n) \<noteq> None \<Longrightarrow> Q (Err e) w'"
  shows "wp (AcquireLock rt m ns n reason) Q w"
  unfolding AcquireLock_def wp_simps
proof (rule wp_uuid, rule wp_IsLocked_ok, goal_cases)
  case (1 token w1 w2)
  note start = this
  let ?x = "tbl w (lock_key m ns n)"
  have put: "wp (time_now rt) (\<lambda>now. wp (PutItem (bm_client m) (lock_put m ns n reason now token))
      (\<lambda>r w'. case r of Ok x \<Rightarrow> Q (Ok token) w' | Err e \<Rightarrow>
         if condition_failed e then Q (Err (ErrorString ''lock already held by another process'')) w'
         else Q (Err (wrapf ''failed to acquire lock'' e)) w' | Panic \<Rightarrow> Q Panic w')) w2"
  proof (rule wp_now, rule wp_put_ok, goal_cases)
    case (2 now w3)
    show ?case by (rule lock_put_valid)
  next
    case (3 now w3 w4)
    then show ?case
      using start assms(1) [of w4 token] by (simp add: put_effect_lock [OF stored_tbl])
  next
    case (4 now w3 w4 e)
    then have "?x \<noteq> None"
      using start by (cases ?x) (simp_all add: put_effect_lock [OF stored_tbl] lock_taken_def lock_open_def)
    then show ?case
      using 4 start assms(2) [of w4] by simp
  qed (simp add: lock_put_def)
  show ?case
  proof (cases "lock_live ?x (clk w2)")
    case True
    then have "?x \<noteq> None" by (cases ?x) (simp_all add: lock_live_def)
    with True start show ?thesis
      by (simp add: lock_reply_cases(1) wp_simps) (rule assms(2), simp_all)
  next
    case False
    then consider "lock_reply ?x (clk w2) = Ok (False, '''')" | e where "lock_reply ?x (clk w2) = Err e"
      using lock_reply_cases(2) by (auto simp: is_err_iff)
    then show ?thesis
    proof cases
      case 1
      then show ?thesis using start put by (simp add: wp_simps)
    next
      case (2 e)
      then have "?x \<noteq> None" by (cases ?x) (simp_all add: lock_reply_def)
      then show ?thesis using 2 start by (simp add: wp_simps) (rule assms(2), simp_all)
    qed
  qed
qed

lemma wp_ReleaseLock_ok:
  assumes "\<And>w'. clk w' = clk w \<Longrightarrow> lock_dropped m ns n token (tbl w) = Some (tbl w') \<Longrightarrow> Q (Ok ()) w'"
    "\<And>w'. clk w' = clk w \<Longrightarrow> tbl w' = tbl w \<Longrightarrow> lock_dropped m ns n token (tbl w) = None \<Longrightarrow>
      Q (Err (ErrorString ''lock doesn't exist or lease token doesn't match'')) w'"
  shows "wp (ReleaseLock m ns n token) Q w"
  unfolding ReleaseLock_def wp_simps
proof (rule wp_delete_ok, goal_cases)
  case 2
  show ?case by (rule release_delete_valid)
next
  case (3 w1)
  then show ?case using assms(1) [of w1] by (simp add: delete_effect_lock [OF stored_tbl] wp_simps)
next
  case (4 w1 e)
  then show ?case using assms(2) [of w1] by (simp add: delete_effect_lock [OF stored_tbl] wp_simps)
qed (simp add: release_delete_def)

end

end
