(* ===== verification/Operations_Liveness.thy ===== *)
theory Operations_Liveness
  imports Operations_Facts
begin

text \<open>
  When nothing is down: what the reads, the status writes and the checks before a move answer for
  a group that is ready to be moved.
\<close>

text \<open>The group is ready to be moved from \<open>source\<close> to \<open>target\<close>.\<close>

definition config_ready ::
    "'w base_manager \<Rightarrow> string \<Rightarrow> string \<Rightarrow> string \<Rightarrow> int \<Rightarrow> dynamo_table \<Rightarrow> item \<Rightarrow> bool" where
  "config_ready m ns n source v t it \<longleftrightarrow>
     t (config_key m ns n) = Some it \<and> get_S it ''ownerCluster'' = Some source \<and>
     get_N it ''version'' = Some (show_int v) \<and> int64 v \<and> get_BOOL it ''suspended'' \<noteq> Some True"

definition cluster_healthy :: "'w base_manager \<Rightarrow> string \<Rightarrow> string \<Rightarrow> string \<Rightarrow> dynamo_table \<Rightarrow> bool" where
  "cluster_healthy m ns n c t \<longleftrightarrow>
     (case t (cluster_key m ns n c) of Some st \<Rightarrow> get_S st ''health'' = Some HealthOK | None \<Rightarrow> False)"

lemma config_ready_of_item:
  assumes "config_ready m ns n source v t it"
  shows "gc_OwnerCluster (config_of_item it) = source" "gc_Version (config_of_item it) = v"
    "\<not> gc_Suspended (config_of_item it)"
  using assms
  by (auto simp: config_ready_def config_of_item_def unmarshalDynamoDBItem_def zero_group_config_def
      get_int_def parseInt_def scan_int_show_int or_else_def split: option.splits)

lemma item_key_of_status_item [simp]:
  "item_key_of (cluster_status_item m ns n c h s j now) = Some (cluster_key m ns n c)"
  by (simp add: item_key_of_def cluster_status_item_def cluster_key_def)

context manager_reliable
begin

lemma wp_UpdateClusterStatus_ok:
  assumes "\<And>w'. nanos (clk w) \<le> nanos (clk w') \<Longrightarrow> clock_ok Z (clk w') \<Longrightarrow>
      tbl w' = (tbl w)(cluster_key m ns n c \<mapsto> cluster_status_item m ns n c h s j (clk w')) \<Longrightarrow> Q (Ok ()) w'"
  shows "wp (UpdateClusterStatus rt m ns n c h s j) Q w"
  unfolding UpdateClusterStatus_def wp_simps
proof (rule wp_now, rule wp_put_ok, goal_cases)
  case (2 t w1)
  show ?case by (simp add: put_valid_def placeholders_ok_def)
next
  case (3 t w1 w2)
  then show ?case by (simp add: wp_simps assms put_effect_def condition_holds_def)
next
  case (4 t w1 w2 e)
  then show ?case by (simp add: put_effect_def condition_holds_def)
qed simp

lemma wp_GetClusterStatus_ok:
  assumes "\<And>w'. tbl w' = tbl w \<Longrightarrow> nanos (clk w) \<le> nanos (clk w') \<Longrightarrow>
      Q (Ok (map_option (\<lambda>it. read_status_fields it (initial_status m ns n c StatePrimary (clk w')))
               (tbl w (cluster_key m ns n c)))) w'"
  shows "wp (GetClusterStatus rt m ns n c) Q w"
  unfolding GetClusterStatus_def wp_simps
proof (rule wp_get_ok [where k = "cluster_key m ns n c"], goal_cases)
  case (3 w1)
  show ?case
  proof (cases "tbl w (cluster_key m ns n c)")
    case None
    then show ?thesis using 3 assms [of w1] by (simp add: wp_simps)
  next
    case (Some it)
    then have "it \<noteq> []" using stored_not_Nil [OF stored_tbl, of w "cluster_key m ns n c"] by auto
    then show ?thesis
      using 3 Some assms by (simp add: wp_simps) (rule wp_now, auto simp: wp_simps)
  qed
qed (simp_all add: cluster_key_def)

lemma wp_ValidateFailoverPreconditions_ok:
  assumes "tbl w (lock_key m ns n) = None" "config_ready m ns n source v (tbl w) it"
    "skip \<or> cluster_healthy m ns n target (tbl w)"
    "\<And>w'. tbl w' = tbl w \<Longrightarrow> nanos (clk w) \<le> nanos (clk w') \<Longrightarrow> Q (Ok ()) w'"
  shows "wp (ValidateFailoverPreconditions rt m ns n target skip) Q w"
  unfolding ValidateFailoverPreconditions_def wp_simps
proof (rule wp_IsLocked_ok, goal_cases)
  case (1 w1)
  note w1 = this
  show ?case
    unfolding assms(1) lock_reply_def option.case outcome.case prod.case wp_simps if_False
  proof (rule wp_GetGroupConfig_ok, goal_cases)
    case (1 it' w2)
    then have it': "it' = it" using w1 assms(2) by (simp add: config_ready_def)
    show ?case
    proof (cases skip)
      case True
      then show ?thesis
        using 1 w1 config_ready_of_item(3) [OF assms(2)] by (simp add: it' wp_simps assms(4))
    next
      case False
      then obtain st where st: "tbl w (cluster_key m ns n target) = Some st" "get_S st ''health'' = Some HealthOK"
        using assms(3) by (auto simp: cluster_healthy_def split: option.splits)
      show ?thesis
        unfolding it' outcome.case if_not_P [OF config_ready_of_item(3) [OF assms(2)]] if_not_P [OF False]
          wp_simps
      proof (rule wp_GetClusterStatus_ok, goal_cases)
        case (1 w3)
        then show ?case
          using st w1 \<open>tbl w2 = tbl w1\<close> \<open>clk w2 = clk w1\<close> by (simp add: read_status_fields_def wp_simps assms(4))
      qed
    qed
  next
    case (2 w2)
    then show ?case using w1 assms(2) by (simp add: config_ready_def)
  qed
qed

end

end
