(* ===== verification/Mem_Manager.thy ===== *)
theory Mem_Manager
  imports Mem_Store Operations_Liveness
begin

text \<open>
  A base manager on the in-memory store, for concrete runs: operator \<open>op\<close>, table \<open>T\<close>. The
  contracts of the managers hold for it.
\<close>

definition mem_manager :: "bool \<Rightarrow> string \<Rightarrow> mem base_manager" where
  "mem_manager strict cluster =
     \<lparr> bm_client = mem_client ''T'' strict, bm_tableName = ''T'', bm_clusterName = cluster,
       bm_operatorID = ''op'' \<rparr>"

lemma mem_manager_sel [simp]:
  "bm_client (mem_manager strict c) = mem_client ''T'' strict"
  "bm_tableName (mem_manager strict c) = ''T''"
  "bm_clusterName (mem_manager strict c) = c"
  "bm_operatorID (mem_manager strict c) = ''op''"
  by (simp_all add: mem_manager_def)

interpretation mem_mgr: manager_reliable "mem_manager strict c" mem_runtime 0 mem_tbl mem_time
  for strict c
  unfolding manager_reliable_def mem_manager_sel by (rule mem.dynamo_reliable_axioms)

lemma mem_manager_store: "manager_store (mem_manager strict c) mem_runtime 0 mem_tbl mem_time"
  by (rule mem_mgr.manager_store_axioms)

section \<open>Moves that succeed\<close>

text \<open>
  For concrete runs only: on the store in memory that does not check the placeholders of a
  transaction, a move of a group that is ready succeeds. DynamoDB rejects these transactions.
\<close>

lemma wp_mem_transact:
  assumes "\<forall>i \<in> set ti. ui_TableName i = T" "distinct (transact_keys ti)"
    "transact_effect ti (mem_tbl w) = Some u"
    "\<And>w'. mem_time w' = mem_time w \<Longrightarrow> mem_tbl w' = u \<Longrightarrow> Q (Ok ()) w'"
  shows "wp (TransactWriteItems (mem_client T False) ti) Q w"
proof (rule wpI)
  fix r w'
  assume a: "run_state (TransactWriteItems (mem_client T False) ti) w = (r, w')"
  have "r = Ok ()"
    using mem_transact(3) [OF a [unfolded mem_client_sel]] assms(1-3) by (fastforce split: option.splits)
  with mem.transact_law [OF a assms(1,2)] assms(3,4) show "Q r w'" by (simp add: atomic_write_def)
qed

lemma config_ready_transfer:
  assumes "config_ready m ns n source v t it"
  shows "transfer_effect m ns n source prev target st v ref t1 t2 t3 t \<noteq> None"
  using assms by (simp add: config_ready_def transfer_effect_def)

lemma transfer_effect_frame:
  assumes "transfer_effect m ns n source prev target st v ref t1 t2 t3 t = Some u"
  shows "u (lock_key m ns n) = t (lock_key m ns n)" "u (config_key m ns n) \<noteq> None"
  using assms by (auto simp: transfer_effect_def split: option.splits if_splits)

lemma lock_dropped_gone: "lock_dropped m ns n token t = Some u \<Longrightarrow> u (lock_key m ns n) = None"
  by (auto simp: lock_dropped_def split: if_splits)

lemma lock_dropped_None:
  "lock_dropped m ns n token t = None \<Longrightarrow> item_S t (lock_key m ns n) ''leaseToken'' \<noteq> Some token"
  by (auto simp: lock_dropped_def split: if_splits)

lemma config_ready_lock:
  "config_ready m ns n source v t it \<Longrightarrow> lock_taken m ns n reason now token t = Some u \<Longrightarrow>
   config_ready m ns n source v u it"
  using lock_taken_other [of m ns n reason now token t u "config_key m ns n"]
  by (simp add: config_ready_def)

lemma wp_mem_transfer:
  assumes "source \<noteq> target" "config_ready (mem_manager False cl) ns n source v (mem_tbl w) it"
    "update_effect cu (mem_tbl w) = config_moved (mem_manager False cl) ns n source prev target v ref tc (mem_tbl w)"
    "ui_TableName cu = bm_tableName (mem_manager False cl)" "ui_Key cu = key_item (getGroupPK (mem_manager False cl) ns n) ''CONFIG''"
    "(p, a) \<in> {('':failoverState'', StateFailover), ('':failbackState'', StateFailback)}"
    "\<And>w'. mem_time w' = mem_time w \<Longrightarrow>
       transfer_effect (mem_manager False cl) ns n source prev target a v ref tc t2 t3 (mem_tbl w) = Some (mem_tbl w') \<Longrightarrow> Q (Ok ()) w'"
  shows "wp (TransactWriteItems (bm_client (mem_manager False cl))
     [cu, status_update (mem_manager False cl) ns n source p a t2, status_update (mem_manager False cl) ns n target '':primaryState'' StatePrimary t3]) Q w"
proof -
  note eff = transact_effect_transfer [OF mem_mgr.stored_tbl assms(1,3,6)]
  obtain u where u: "transfer_effect (mem_manager False cl) ns n source prev target a v ref tc t2 t3 (mem_tbl w) = Some u"
    using config_ready_transfer [OF assms(2)] by blast
  show ?thesis
    unfolding mem_manager_sel(1)
  proof (rule wp_mem_transact [where u = u], goal_cases)
    case 2
    show ?case using assms(1,5) by (auto simp: transact_keys_def status_update_def)
  next
    case 3
    show ?case unfolding eff by (rule u)
  next
    case (4 w')
    then show ?case using assms(7) u by simp
  qed (simp add: assms(4) status_update_def)
qed

lemma wp_mem_executeFailoverTransaction:
  assumes "source \<noteq> target" "config_ready (mem_manager False cl) ns n source v (mem_tbl w) it"
    "\<And>w' ref t1 t2 t3. nanos (mem_time w) \<le> nanos (mem_time w') \<Longrightarrow>
       transfer_effect (mem_manager False cl) ns n source source target StateFailover v ref t1 t2 t3 (mem_tbl w) = Some (mem_tbl w') \<Longrightarrow>
       Q (Ok ()) w'"
  shows "wp (executeFailoverTransaction mem_runtime (mem_manager False cl) ns n source target reason name start) Q w"
  unfolding executeFailoverTransaction_def wp_simps
proof (rule mem_mgr.wp_GetGroupConfig_ok, goal_cases)
  case (1 it' w1)
  then have it': "it' = it" using assms(2) by (simp add: config_ready_def)
  note w1 = 1(2,3)
  show ?case
    unfolding outcome.case it' wp_simps
  proof (rule mem_mgr.wp_now, rule mem_mgr.wp_now, rule mem_mgr.wp_now, goal_cases)
    case (1 t1 w2 t2 w3 t3 w4)
    note T = this
    then have t4: "mem_tbl w4 = mem_tbl w" using w1 by simp
    show ?case
    proof (rule wp_mem_transfer [where it = it and prev = source and v = v and
        ref = "failover_ref name ns start" and tc = t1], goal_cases)
      case 2
      show ?case unfolding t4 by (rule assms(2))
    next
      case 3
      show ?case
        using update_effect_failover_config [OF mem_mgr.stored_tbl config_of_item_simps(1)] config_ready_of_item(2) [OF assms(2)]
        by metis
    next
      case (7 w5)
      then show ?case using T w1 by (simp add: wp_simps) (rule assms(3), simp_all)
    qed (simp_all add: assms(1) failover_config_update_def)
  qed
next
  case (2 w1)
  then show ?case using assms(2) by (simp add: config_ready_def)
qed

text \<open>The other direction.\<close>

lemma wp_mem_executeFailbackTransaction:
  assumes "source \<noteq> target" "config_ready (mem_manager False cl) ns n source v (mem_tbl w) it"
    "\<And>w' ref t1 t2 t3. nanos (mem_time w) \<le> nanos (mem_time w') \<Longrightarrow>
       transfer_effect (mem_manager False cl) ns n source '''' target StateFailback v ref t1 t2 t3 (mem_tbl w) = Some (mem_tbl w') \<Longrightarrow>
       Q (Ok ()) w'"
  shows "wp (executeFailbackTransaction mem_runtime (mem_manager False cl) ns n source target reason name start) Q w"
  unfolding executeFailbackTransaction_def wp_simps
proof (rule mem_mgr.wp_GetGroupConfig_ok, goal_cases)
  case (1 it' w1)
  then have it': "it' = it" using assms(2) by (simp add: config_ready_def)
  note w1 = 1(2,3)
  show ?case
    unfolding outcome.case it' wp_simps
  proof (rule mem_mgr.wp_now, rule mem_mgr.wp_now, rule mem_mgr.wp_now, goal_cases)
    case (1 t1 w2 t2 w3 t3 w4)
    note T = this
    then have t4: "mem_tbl w4 = mem_tbl w" using w1 by simp
    show ?case
    proof (rule wp_mem_transfer [where it = it and prev = "''''" and v = v and
        ref = "failover_ref name ns start" and tc = t1], goal_cases)
      case 2
      show ?case unfolding t4 by (rule assms(2))
    next
      case 3
      show ?case
        using update_effect_failback_config [OF mem_mgr.stored_tbl config_of_item_simps(1)] config_ready_of_item(2) [OF assms(2)]
        by metis
    next
      case (7 w5)
      then show ?case using T w1 by (simp add: wp_simps) (rule assms(3), simp_all)
    qed (simp_all add: assms(1) failback_config_update_def)
  qed
next
  case (2 w1)
  then show ?case using assms(2) by (simp add: config_ready_def)
qed

text \<open>The part under the lock: the move, the record of it, and the release.\<close>

lemma wp_mem_locked_transfer:
  assumes "source \<noteq> target" "item_S (mem_tbl w) (lock_key (mem_manager False cl) ns n) ''leaseToken'' = Some token"
    "\<And>Q. (\<And>w' ref t1 t2 t3. nanos (mem_time w) \<le> nanos (mem_time w') \<Longrightarrow>
       transfer_effect (mem_manager False cl) ns n source prev target st v ref t1 t2 t3 (mem_tbl w) = Some (mem_tbl w') \<Longrightarrow>
       Q (Ok ()) w') \<Longrightarrow> wp txn Q w"
    "\<And>w'. mem_tbl w' (lock_key (mem_manager False cl) ns n) = None \<Longrightarrow> Q (Ok ()) w'"
  shows "wp (deferred (ReleaseLock (mem_manager False cl) ns n token)
     (check txn f (\<lambda>_. do {
        endTime \<leftarrow> time_now mem_runtime;
        let duration = whole_seconds (time_sub endTime startTime);
        let downtime = go_quot duration d;
        ignore_err (recordFailoverEvent mem_runtime (mem_manager False cl) ns n name source target reason startTime endTime ''SUCCESS''
          downtime duration)
      }))) Q w"
  unfolding wp_simps
proof (rule assms(3), goal_cases)
  case (1 w5 ref t1 t2 t3)
  note lk = transfer_effect_frame(1) [OF 1(2)] and cf = transfer_effect_frame(2) [OF 1(2)]
  have mv: "moved (mem_manager False cl) ns n st source prev target (mem_tbl w) (mem_tbl w5)"
    by (rule moved_transfer(1) [OF before_refl 1(2) assms(1)])
  show ?case
    unfolding outcome.case wp_simps Let_def
  proof (rule mem_mgr.wp_now, rule mem_mgr.wp_recordFailoverEvent [where t = "mem_tbl w" and st = st and
        src = source and prev = prev and tgt = target], goal_cases)
    case (3 e w6 r w7)
    then have "mem_tbl w7 (lock_key (mem_manager False cl) ns n) = mem_tbl w (lock_key (mem_manager False cl) ns n)" using lk by simp
    then have tok: "item_S (mem_tbl w7) (lock_key (mem_manager False cl) ns n) ''leaseToken'' = Some token"
      using assms(2) by (simp add: item_S_def)
    have e: "(case r of Panic \<Rightarrow> Panic | _ \<Rightarrow> Ok ()) = Ok ()" using 3(6) by (cases r) auto
    show ?case
      unfolding e
    proof (rule mem_mgr.wp_ReleaseLock_ok, goal_cases)
      case (1 w8)
      then show ?case by (simp add: assms(4) lock_dropped_gone)
    next
      case (2 w8)
      then show ?case using tok lock_dropped_None by blast
    qed
  qed (use mv cf in simp_all)
qed

lemma wp_mem_ExecuteFailover:
  assumes "config_ready (mem_manager False cl) ns n source v (mem_tbl w) it" "source \<noteq> target"
    "mem_tbl w (lock_key (mem_manager False cl) ns n) = None" "force \<or> cluster_healthy (mem_manager False cl) ns n target (mem_tbl w)"
  shows "wp (ExecuteFailover mem_runtime (mem_manager False cl) ns n name target reason force)
     (\<lambda>r w'. r = Ok () \<and> mem_tbl w' (lock_key (mem_manager False cl) ns n) = None) w"
  unfolding ExecuteFailover_def wp_simps
proof (rule mem_mgr.wp_now, rule mem_mgr.wp_ValidateFailoverPreconditions_ok [where it = it and source = source and v = v], goal_cases)
  case (4 start w1 w2)
  then have t2: "mem_tbl w2 = mem_tbl w" by simp
  show ?case
    unfolding outcome.case wp_simps
  proof (rule mem_mgr.wp_GetGroupConfig_ok, goal_cases)
    case (1 it' w3)
    then have it': "it' = it" using assms(1) t2 by (simp add: config_ready_def)
    have t3: "mem_tbl w3 = mem_tbl w" using 1 t2 by simp
    show ?case
      unfolding outcome.case it' Let_def config_ready_of_item(1) [OF assms(1)] if_not_P [OF assms(2)] wp_simps
    proof (rule mem_mgr.wp_AcquireLock_ok, goal_cases)
      case (1 token w4)
      note L = 1(3) [unfolded t3]
      show ?case
        unfolding outcome.case
        by (rule wp_mem_locked_transfer [OF assms(2) lock_taken_token [OF L], where st = StateFailover and
              prev = source and v = v, unfolded Let_def wp_simps])
           (rule wp_mem_executeFailoverTransaction [OF assms(2) config_ready_lock [OF assms(1) L]], auto)
    next
      case (2 e w4)
      then show ?case using t3 assms(3) by simp
    qed
  next
    case (2 w3)
    then show ?case using t2 assms(1) by (simp add: config_ready_def)
  qed
qed (use assms in simp_all)

lemma wp_mem_ExecuteFailback:
  assumes "config_ready (mem_manager False cl) ns n source v (mem_tbl w) it" "get_S it ''previousOwner'' = Some target"
    "target \<noteq> ''''" "source \<noteq> target"
    "mem_tbl w (lock_key (mem_manager False cl) ns n) = None" "cluster_healthy (mem_manager False cl) ns n target (mem_tbl w)"
  shows "wp (ExecuteFailback mem_runtime (mem_manager False cl) ns n reason)
     (\<lambda>r w'. r = Ok () \<and> mem_tbl w' (lock_key (mem_manager False cl) ns n) = None) w"
  unfolding ExecuteFailback_def wp_simps
proof (rule mem_mgr.wp_now, rule mem_mgr.wp_GetGroupConfig_ok, goal_cases)
  case (1 start w1 it' w2)
  then have it': "it' = it" and t2: "mem_tbl w2 = mem_tbl w" using assms(1) by (simp_all add: config_ready_def)
  have p: "gc_PreviousOwner (config_of_item it) = target"
    using assms(2) by (simp add: config_of_item_owner)
  show ?case
    unfolding outcome.case it' p if_not_P [OF assms(3)] Let_def config_ready_of_item(1) [OF assms(1)] wp_simps
  proof (rule mem_mgr.wp_now, rule mem_mgr.wp_ValidateFailoverPreconditions_ok [where it = it and source = source and v = v],
      goal_cases)
    case (4 tn w3 w4)
    then have t4: "mem_tbl w4 = mem_tbl w" using t2 by simp
    show ?case
      unfolding outcome.case
    proof (rule mem_mgr.wp_AcquireLock_ok, goal_cases)
      case (1 token w5)
      note L = 1(3) [unfolded t4]
      show ?case
        unfolding outcome.case
        by (rule wp_mem_locked_transfer [OF assms(4) lock_taken_token [OF L], where st = StateFailback and
              prev = "''''" and v = v, unfolded Let_def wp_simps])
           (rule wp_mem_executeFailbackTransaction [OF assms(4) config_ready_lock [OF assms(1) L]], auto)
    next
      case (2 e w5)
      then show ?case using t4 assms(5) by simp
    qed
  qed (use assms t2 in simp_all)
next
  case (2 start w1 w2)
  then show ?case using assms(1) by (simp add: config_ready_def)
qed

section \<open>Concrete worlds\<close>

definition mem_with :: "item list \<Rightarrow> mem" where
  "mem_with its =
     \<lparr> mem_map = (\<lambda>k. find (\<lambda>it. item_key_of it = Some k) its),
       mem_keys = List.map_filter item_key_of its, mem_ticks = 0, mem_uuids = 0 \<rparr>"

lemma mem_tbl_with: "mem_tbl (mem_with its) k = find (\<lambda>it. item_key_of it = Some k) its"
proof (cases "find (\<lambda>it. item_key_of it = Some k) its")
  case None
  then show ?thesis by (simp add: mem_tbl_def mem_with_def)
next
  case (Some it)
  then have "it \<in> set its" "item_key_of it = Some k"
    by (auto simp: find_Some_iff)
  then have "k \<in> set (List.map_filter item_key_of its)"
    by (force simp: List.map_filter_def)
  with Some \<open>item_key_of it = Some k\<close> show ?thesis by (simp add: mem_tbl_def mem_with_def)
qed

text \<open>Group \<open>ns/g\<close> with the given owner, previous owner and version.\<close>

definition demo_config :: "string \<Rightarrow> string \<Rightarrow> int \<Rightarrow> group_config_record" where
  "demo_config owner prev v =
     (default_group_config (mem_manager False owner) ''ns'' ''g'' (mem_time mem_empty))
       \<lparr> gc_PreviousOwner := prev, gc_Version := v \<rparr>"

definition demo_status :: "string \<Rightarrow> string \<Rightarrow> string \<Rightarrow> item" where
  "demo_status c health st =
     cluster_status_item (mem_manager False c) ''ns'' ''g'' c health st ''{}'' (mem_time mem_empty)"

text \<open>The group is owned by \<open>east\<close>, and both clusters are healthy.\<close>

definition mem_demo :: mem where
  "mem_demo = mem_with [group_config_item (demo_config ''east'' '''' 2),
     demo_status ''east'' HealthOK StatePrimary, demo_status ''west'' HealthOK StateStandby]"

lemma demo_keys [simp]:
  "gc_PK (demo_config owner prev v) = ''GROUP#op#ns#g''"
  "gc_SK (demo_config owner prev v) = ''CONFIG''"
  "item_key_of (demo_status c h s) = Some (''GROUP#op#ns#g'', ''CLUSTER#'' @ c)"
  "config_key (mem_manager strict d) ''ns'' ''g'' = (''GROUP#op#ns#g'', ''CONFIG'')"
  "lock_key (mem_manager strict d) ''ns'' ''g'' = (''GROUP#op#ns#g'', ''LOCK'')"
  "cluster_key (mem_manager strict d) ''ns'' ''g'' c = (''GROUP#op#ns#g'', ''CLUSTER#'' @ c)"
  by (simp_all add: demo_config_def default_group_config_def getGroupPK_def demo_status_def
      cluster_key_def config_key_def lock_key_def getClusterSK_def)

lemma mem_demo_tbl [simp]:
  "mem_tbl mem_demo (''GROUP#op#ns#g'', ''CONFIG'') = Some (group_config_item (demo_config ''east'' '''' 2))"
  "mem_tbl mem_demo (''GROUP#op#ns#g'', ''LOCK'') = None"
  "mem_tbl mem_demo (''GROUP#op#ns#g'', ''CLUSTER#east'') = Some (demo_status ''east'' HealthOK StatePrimary)"
  "mem_tbl mem_demo (''GROUP#op#ns#g'', ''CLUSTER#west'') = Some (demo_status ''west'' HealthOK StateStandby)"
  by (simp_all add: mem_demo_def mem_tbl_with)

lemma demo_config_sel [simp]:
  "gc_OwnerCluster (demo_config owner prev v) = owner" "gc_Version (demo_config owner prev v) = v"
  "gc_PreviousOwner (demo_config owner prev v) = prev" "gc_Suspended (demo_config owner prev v) = False"
  by (simp_all add: demo_config_def default_group_config_def)

lemma get_demo_status [simp]: "get_S (demo_status c h s) ''health'' = Some h"
  by (simp add: demo_status_def cluster_status_item_def get_S_def)

lemma mem_demo_ready: "config_ready (mem_manager False c) ''ns'' ''g'' ''east'' 2 (mem_tbl mem_demo)
    (group_config_item (demo_config ''east'' '''' 2))"
  by (simp add: config_ready_def int64_def int64_min_def int64_max_def)

lemma mem_demo_failover:
  "\<exists>w'. run_state (ExecuteFailover mem_runtime (mem_manager False ''west'') ''ns'' ''g'' ''f1'' ''west''
     ''why'' False) mem_demo = (Ok (), w')"
  using wp_mem_ExecuteFailover [OF mem_demo_ready [of "''west''"], where target = "''west''" and
      force = False and name = "''f1''" and reason = "''why''"]
  by (auto simp: wp_def cluster_healthy_def)

text \<open>The same group after it moved to \<open>west\<close>.\<close>

definition mem_moved :: mem where
  "mem_moved = mem_with [group_config_item (demo_config ''west'' ''east'' 3),
     demo_status ''east'' HealthOK StateFailover, demo_status ''west'' HealthOK StatePrimary]"

lemma mem_moved_tbl [simp]:
  "mem_tbl mem_moved (''GROUP#op#ns#g'', ''CONFIG'') = Some (group_config_item (demo_config ''west'' ''east'' 3))"
  "mem_tbl mem_moved (''GROUP#op#ns#g'', ''LOCK'') = None"
  "mem_tbl mem_moved (''GROUP#op#ns#g'', ''CLUSTER#east'') = Some (demo_status ''east'' HealthOK StateFailover)"
  "mem_tbl mem_moved (''GROUP#op#ns#g'', ''CLUSTER#west'') = Some (demo_status ''west'' HealthOK StatePrimary)"
  by (simp_all add: mem_moved_def mem_tbl_with)

lemma mem_moved_ready: "config_ready (mem_manager False c) ''ns'' ''g'' ''west'' 3 (mem_tbl mem_moved)
    (group_config_item (demo_config ''west'' ''east'' 3))"
  by (simp add: config_ready_def int64_def int64_min_def int64_max_def)

lemma mem_moved_previous:
  "get_S (group_config_item (demo_config ''west'' ''east'' 3)) ''previousOwner'' = Some ''east''"
  by (simp add: get_S_def)

lemma mem_moved_failback:
  "\<exists>w'. run_state (ExecuteFailback mem_runtime (mem_manager False ''west'') ''ns'' ''g'' ''back'') mem_moved
     = (Ok (), w')"
  using wp_mem_ExecuteFailback [OF mem_moved_ready [of "''west''"], where target = "''east''" and
      reason = "''back''"]
  by (auto simp: wp_def cluster_healthy_def mem_moved_previous)

end
