(* ===== verification/State_Properties.thy ===== *)
theory State_Properties
  imports Mem_Manager
begin

text \<open>The properties of the state manager's operations, with concrete runs on the in-memory store.\<close>

section \<open>The contracts in closed form\<close>

lemma before_existing:
  assumes "before m ns n t u" "\<And>k. k \<noteq> config_key m ns n \<Longrightarrow> u k = t k" "t (config_key m ns n) \<noteq> None"
  shows "u = t"
proof
  fix k
  show "u k = t k" using assms by (cases "k = config_key m ns n") (auto simp: before_def)
qed

text \<open>An operation that has done nothing but create a missing configuration.\<close>

definition only_created :: "'w base_manager \<Rightarrow> string \<Rightarrow> string \<Rightarrow> dynamo_table \<Rightarrow> dynamo_table \<Rightarrow> bool" where
  "only_created m ns n t u \<longleftrightarrow> before m ns n t u \<and> (t (config_key m ns n) \<noteq> None \<longrightarrow> u = t)"

context manager_store
begin

lemma update_config_contract:
  "wp (UpdateGroupConfig rt m c) (\<lambda>(r, c') w'. c' = stamped c (clk w') \<and> clock_ok Z (clk w') \<and>
      atomic_write (config_cas (tbl w) (gc_Version c) c') (tbl w) (tbl w') r) w"
  by (rule wp_UpdateGroupConfig) simp

text \<open>A record whose version was raised by hand before the write does not match the stored item.\<close>

lemma raised_version_conflicts:
  assumes "stored t" "t (config_key m ns n) = Some it"
    "gc_PK c = gc_PK (config_of_item it)" "gc_SK c = gc_SK (config_of_item it)"
  shows "config_cas t (wrap64 (gc_Version (config_of_item it) + 1)) c = None"
  using config_key_of_item [OF assms(1,2)] assms(2-4) version_of_item_stale [of it]
  by (simp add: config_cas_def)

lemma wp_raised_update:
  assumes "tbl w (config_key m ns n) = Some it"
    "gc_PK c = gc_PK (config_of_item it)" "gc_SK c = gc_SK (config_of_item it)"
    "gc_Version c = wrap64 (gc_Version (config_of_item it) + 1)"
    "\<And>e w'. tbl w' = tbl w \<Longrightarrow> Q (Err e, stamped c (clk w')) w'"
  shows "wp (UpdateGroupConfig rt m c) Q w"
proof (rule wp_UpdateGroupConfig, goal_cases)
  case (1 r w')
  have "config_cas (tbl w) (gc_Version c) (stamped c (clk w')) = None"
    unfolding assms(4) by (rule raised_version_conflicts [OF stored_tbl assms(1)]) (simp_all add: stamped_def assms)
  with 1(3) show ?case by (cases r) (auto simp: atomic_write_def assms(5))
qed

lemma wp_read_config_raised:
  assumes "\<And>it x w'. only_created m ns n (tbl w) (tbl w') \<Longrightarrow> tbl w' (config_key m ns n) = Some it \<Longrightarrow>
      Q (Ok ((config_of_item it)\<lparr> gc_LastUpdated := x \<rparr>)) w'"
    "\<And>e w'. only_created m ns n (tbl w) (tbl w') \<Longrightarrow> Q (Err e) w'"
  shows "wp (GetGroupConfig rt m ns n) Q w"
proof (rule wp_read_config, goal_cases)
  case (1 it x w')
  have "only_created m ns n (tbl w) (tbl w')"
    using 1(2) before_existing [OF 1(2,3)] by (simp add: only_created_def)
  then show ?case using 1(4) by (rule assms(1))
next
  case (2 e w')
  have "only_created m ns n (tbl w) (tbl w')"
    using 2(2) before_existing [OF 2(2,3)] by (simp add: only_created_def)
  then show ?case by (rule assms(2))
qed

lemma update_suspension_contract:
  "wp (UpdateSuspension rt m ns n suspended reason)
     (\<lambda>r w'. is_err r \<and> only_created m ns n (tbl w) (tbl w')) w"
  unfolding UpdateSuspension_def wp_simps
proof (rule wp_read_config_raised, goal_cases)
  case (1 it x w1)
  show ?case
    unfolding outcome.case Let_def wp_simps
    by (rule wp_now, rule wp_raised_update [where ns = ns and n = n and it = it])
       (use 1 in \<open>simp_all add: wp_simps\<close>)
qed simp

lemma update_group_state_contract:
  "wp (UpdateGroupState rt m ns n st)
     (\<lambda>r w'. is_err r \<and> only_created m ns n (tbl w) (tbl w')) w"
  unfolding UpdateGroupState_def wp_simps
proof (rule wp_read_config_raised, goal_cases)
  case (1 it x w1)
  show ?case
    unfolding outcome.case Let_def wp_simps
    by (rule wp_now, rule wp_raised_update [where ns = ns and n = n and it = it])
       (use 1 in \<open>simp_all add: wp_simps\<close>)
qed simp

end

text \<open>What a read leaves when the service answers: an existing record as it is, a missing one created.\<close>

definition after_read :: "'w base_manager \<Rightarrow> string \<Rightarrow> string \<Rightarrow> dynamo_table \<Rightarrow> dynamo_table \<Rightarrow> bool" where
  "after_read m ns n t u \<longleftrightarrow>
     (case t (config_key m ns n) of
        Some it \<Rightarrow> u = t
      | None \<Rightarrow> \<exists>now. u = t(config_key m ns n \<mapsto> group_config_item (created_config m ns n now)))"

context manager_reliable
begin

lemma wp_raised_update_ok:
  assumes "tbl w (config_key m ns n) = Some it"
    "gc_PK c = gc_PK (config_of_item it)" "gc_SK c = gc_SK (config_of_item it)"
    "gc_Version c = wrap64 (gc_Version (config_of_item it) + 1)"
    "\<And>w'. tbl w' = tbl w \<Longrightarrow>
       Q (Err (ErrorString ''optimistic concurrency check failed: version conflict''), stamped c (clk w')) w'"
  shows "wp (UpdateGroupConfig rt m c) Q w"
proof (rule wp_UpdateGroupConfig_ok, goal_cases)
  case (1 w')
  have "config_cas (tbl w) (gc_Version c) (stamped c (clk w')) = None"
    unfolding assms(4) by (rule raised_version_conflicts [OF stored_tbl assms(1)]) (simp_all add: stamped_def assms)
  with 1(3) show ?case by simp
next
  case (2 w')
  then show ?case by (simp add: assms(5))
qed

lemma wp_read_config_ok:
  assumes "\<And>it x w'. after_read m ns n (tbl w) (tbl w') \<Longrightarrow> tbl w' (config_key m ns n) = Some it \<Longrightarrow>
      Q (Ok ((config_of_item it)\<lparr> gc_LastUpdated := x \<rparr>)) w'"
  shows "wp (GetGroupConfig rt m ns n) Q w"
proof (rule wp_GetGroupConfig_ok, goal_cases)
  case (1 it w')
  then show ?case using assms [of w' it "gc_LastUpdated (config_of_item it)"] by (simp add: after_read_def)
next
  case (2 w')
  obtain x where "created_config m ns n (clk w') =
      (config_of_item (group_config_item (created_config m ns n (clk w'))))\<lparr> gc_LastUpdated := x \<rparr>"
    using config_of_created [OF clock_ok_zone [OF 2(3)]] by blast
  with 2 assms [of w' "group_config_item (created_config m ns n (clk w'))" x] show ?case
    by (auto simp: after_read_def)
qed

lemma suspension_conflict:
  "wp (UpdateSuspension rt m ns n suspended reason) (\<lambda>r w'. after_read m ns n (tbl w) (tbl w') \<and>
     r = Err (ErrorString ''optimistic concurrency check failed: version conflict'')) w"
  unfolding UpdateSuspension_def Let_def wp_simps
proof (rule wp_read_config_ok, goal_cases)
  case (1 it x w1)
  show ?case
    unfolding outcome.case wp_simps
    by (rule wp_now, rule wp_raised_update_ok [where ns = ns and n = n and it = it]) (use 1 in \<open>simp_all add: wp_simps\<close>)
qed

end

section \<open>Configurations\<close>

text \<open>C13: UpdateGroupConfig is a compare-and-swap: if it reports success the stored version was the
  one of the given record, and the item is now the record with the version raised by one and the
  present time; if it reports an error the table is as it was or as after a success.\<close>

theorem UpdateGroupConfig_cas:
  assumes "manager_store m rt Z tbl clk" "run_state (UpdateGroupConfig rt m c) w = ((r, c'), w')"
  shows "c' = c\<lparr> gc_LastUpdated := clk w', gc_Version := wrap64 (gc_Version c + 1) \<rparr> \<and>
    (case r of
       Ok _ \<Rightarrow> version_matches (tbl w (gc_PK c, gc_SK c)) (gc_Version c) \<and>
                tbl w' = (tbl w)((gc_PK c, gc_SK c) \<mapsto> group_config_item c')
     | Err _ \<Rightarrow> tbl w' = tbl w \<or> (version_matches (tbl w (gc_PK c, gc_SK c)) (gc_Version c) \<and>
                tbl w' = (tbl w)((gc_PK c, gc_SK c) \<mapsto> group_config_item c'))
     | Panic \<Rightarrow> False)"
  using wpD [OF assms(2) manager_store.update_config_contract [OF assms(1)]]
  by (cases r) (auto simp: stamped_def atomic_write_def config_cas_def split: if_splits)

lemma mem_demo_update:
  "\<exists>w'. run_state (UpdateGroupConfig mem_runtime (mem_manager False ''east'') (demo_config ''east'' '''' 2))
     mem_demo = ((Ok (), stamped (demo_config ''east'' '''' 2) (mem_time w')), w')"
proof -
  have "wp (UpdateGroupConfig mem_runtime (mem_manager False ''east'') (demo_config ''east'' '''' 2))
      (\<lambda>(r, c') w'. r = Ok () \<and> c' = stamped (demo_config ''east'' '''' 2) (mem_time w')) mem_demo"
    by (rule mem_mgr.wp_UpdateGroupConfig_ok) (simp_all add: config_cas_def stamped_def version_of_config_item)
  then show ?thesis by (auto simp: wp_def split: prod.splits)
qed

theorem UpdateGroupConfig_cas_witness:
  "\<exists>c' w'. run_state (UpdateGroupConfig mem_runtime (mem_manager False ''east'') (demo_config ''east'' '''' 2))
       mem_demo = ((Ok (), c'), w') \<and>
     gc_Version c' = 3 \<and> mem_tbl w' (''GROUP#op#ns#g'', ''CONFIG'') = Some (group_config_item c')"
proof -
  obtain w' where r: "run_state (UpdateGroupConfig mem_runtime (mem_manager False ''east'')
      (demo_config ''east'' '''' 2)) mem_demo =
      ((Ok (), stamped (demo_config ''east'' '''' 2) (mem_time w')), w')"
    using mem_demo_update by blast
  show ?thesis
    using r UpdateGroupConfig_cas [OF mem_manager_store r] by (auto simp: wrap64_def)
qed

text \<open>Of two writers that start from the same version, the second fails, and the item stays what
  the first one wrote.\<close>

theorem UpdateGroupConfig_no_lost_update:
  assumes "manager_store m rt Z tbl clk"
    and "run_state (UpdateGroupConfig rt m c1) w = ((Ok u, c1'), w1)"
    and "gc_PK c2 = gc_PK c1" "gc_SK c2 = gc_SK c1" "gc_Version c2 = gc_Version c1"
    and "run_state (UpdateGroupConfig rt m c2) w1 = ((r2, c2'), w2)"
  shows "is_err r2 \<and> tbl w2 (gc_PK c1, gc_SK c1) = Some (group_config_item c1')"
proof -
  have one: "c1' = c1\<lparr> gc_LastUpdated := clk w1, gc_Version := wrap64 (gc_Version c1 + 1) \<rparr>"
    "tbl w1 = (tbl w)((gc_PK c1, gc_SK c1) \<mapsto> group_config_item c1')"
    using wpD [OF assms(2) manager_store.update_config_contract [OF assms(1)]]
    by (auto simp: stamped_def atomic_write_def config_cas_def split: if_splits)
  have "\<not> version_matches (tbl w1 (gc_PK c1, gc_SK c1)) (gc_Version c1)"
    using wrap64_Suc_neq [of "gc_Version c1"] by (simp add: one version_of_config_item)
  then show ?thesis
    using wpD [OF assms(6) manager_store.update_config_contract [OF assms(1)]] assms(3-5) one
    by (cases r2) (auto simp: stamped_def atomic_write_def config_cas_def split: if_splits)
qed

theorem UpdateGroupConfig_no_lost_update_witness:
  "\<exists>c1' w1. run_state (UpdateGroupConfig mem_runtime (mem_manager False ''east'') (demo_config ''east'' '''' 2))
       mem_demo = ((Ok (), c1'), w1) \<and>
     is_err (fst (fst (run_state (UpdateGroupConfig mem_runtime (mem_manager False ''west'')
       (demo_config ''west'' ''east'' 2)) w1)))"
proof -
  obtain c1' w1 where r: "run_state (UpdateGroupConfig mem_runtime (mem_manager False ''east'')
      (demo_config ''east'' '''' 2)) mem_demo = ((Ok (), c1'), w1)"
    using mem_demo_update by blast
  obtain r2 c2' w2 where r2: "run_state (UpdateGroupConfig mem_runtime (mem_manager False ''east'')
      (demo_config ''west'' ''east'' 2)) w1 = ((r2, c2'), w2)"
    by (metis surj_pair)
  moreover have "run_state (UpdateGroupConfig mem_runtime (mem_manager False ''west'')
      (demo_config ''west'' ''east'' 2)) w1 = run_state (UpdateGroupConfig mem_runtime (mem_manager False ''east'')
      (demo_config ''west'' ''east'' 2)) w1"
    by (simp add: UpdateGroupConfig_def)
  ultimately show ?thesis
    using r UpdateGroupConfig_no_lost_update [OF mem_manager_store r _ _ _ r2] by auto
qed



text \<open>Nor does UpdateGroupState.\<close>

theorem UpdateGroupState_never_effective:
  assumes "manager_store m rt Z tbl clk"
    and "run_state (UpdateGroupState rt m ns n st) w = (r, w')"
  shows "is_err r \<and> only_created m ns n (tbl w) (tbl w')"
  by (rule wpD [OF assms(2) manager_store.update_group_state_contract [OF assms(1)]])

definition demo_state :: manager_group_state where
  "demo_state = \<lparr> mg_GroupID = ''ns/g'', mg_Status = HealthOK, mg_CurrentRole = StatePrimary,
     mg_FailoverCount = 0, mg_LastFailover = None, mg_LastHeartbeat = None, mg_FailoverReason = '''',
     mg_LastUpdate = 0, mg_VolumeState = '''', mg_LastVolumeStateUpdateTime = '''' \<rparr>"

theorem UpdateGroupState_never_effective_witness:
  "is_err (fst (run_state (UpdateGroupState mem_runtime (mem_manager False ''east'') ''ns'' ''g'' demo_state)
     mem_demo))"
  using UpdateGroupState_never_effective [OF mem_manager_store] by (metis prod.collapse)

section \<open>Ownership transfer\<close>

definition transferred_item :: "string \<Rightarrow> go_time \<Rightarrow> item \<Rightarrow> item" where
  "transferred_item newOwner now it =
     (let c = config_of_item it in
      map_put ''lastUpdated'' (AvS (format_rfc3339 now))
        (map_put ''version'' (AvN (show_int (wrap64 (wrap64 (wrap64 (gc_Version c + 1) + 1) + 1))))
          (map_put ''previousOwner'' (AvS (gc_OwnerCluster c)) (map_put ''ownerCluster'' (AvS newOwner) it))))"

lemma version_conflict_text [simp]:
  "is_version_conflict (ErrorString ''optimistic concurrency check failed: version conflict'')"
  by code_simp

lemma forced_transfer_valid: "update_valid (forced_transfer m ns n newOwner prev v now)"
  by (auto simp: update_valid_def placeholders_ok_def forced_transfer_def update_names_def update_vals_def
      is_placeholder_def)

lemma forced_transfer_effect:
  assumes "stored t" "t (config_key m ns n) = Some it"
  shows "update_effect (forced_transfer m ns n newOwner (gc_OwnerCluster (config_of_item it))
      (wrap64 (wrap64 (wrap64 (gc_Version (config_of_item it) + 1) + 1) + 1)) now) t =
    Some (t(config_key m ns n \<mapsto> transferred_item newOwner now it))"
proof -
  have "item_key_of it = Some (config_key m ns n)" using assms by (rule storedD)
  then show ?thesis
    using assms(2)
    by (simp add: update_effect_def forced_transfer_def config_key_def condition_holds_def
        transferred_item_def paths_ok_def resolve_path_def resolve_name_def is_placeholder_def Let_def)
qed

context manager_reliable
begin

lemma transfer_contract:
  assumes "tbl w (config_key m ns n) = Some it" "gc_OwnerCluster (config_of_item it) \<noteq> newOwner"
  shows "wp (transferOwnership rt m ns n newOwner) (\<lambda>r w'. r = Ok () \<and>
     tbl w' = (tbl w)(config_key m ns n \<mapsto> transferred_item newOwner (clk w') it)) w"
  unfolding transferOwnership_def wp_simps
proof (rule wp_GetGroupConfig_ok, goal_cases)
  case (1 it' w1)
  then have it': "it' = it" and t1: "tbl w1 = tbl w" using assms(1) by simp_all
  show ?case
    unfolding outcome.case it' if_not_P [OF assms(2)] Let_def wp_simps
    apply (rule wp_now)
    apply (simp add: wp_simps)
    apply (rule wp_now, rule wp_now)
    apply (rule wp_raised_update_ok [where ns = ns and n = n and it = it])
        apply (simp_all add: t1 assms(1) wp_simps stamped_def)
    apply (rule wp_now)
    apply (rule wp_update_ok [where u = "U" for U])
       apply (simp add: forced_transfer_def)
      apply (rule forced_transfer_valid)
     apply (rule forced_transfer_effect [OF stored_tbl])
     apply (simp_all add: t1 assms(1) wp_simps)
    done
next
  case (2 w1)
  then show ?case using assms(1) by simp
qed

end

text \<open>TransferOwnership to another cluster always succeeds when the service answers, by the
  unconditional update and never by the versioned one: owner and previous owner are set, the
  version grows by three and the reference to the last failover is not written.\<close>

theorem TransferOwnership_forced:
  assumes "manager_reliable m rt Z tbl clk"
    and "tbl w (config_key m ns n) = Some it" "gc_OwnerCluster (config_of_item it) \<noteq> newOwner"
    and "run_state (TransferOwnership rt m ns n newOwner) w = (r, w')"
  shows "r = Ok () \<and> tbl w' = (tbl w)(config_key m ns n \<mapsto> transferred_item newOwner (clk w') it) \<and>
    map_of (the_item (tbl w' (config_key m ns n))) ''lastFailover'' = map_of it ''lastFailover''"
  using wpD [OF assms(4) [unfolded TransferOwnership_def]
      manager_reliable.transfer_contract [of m rt Z tbl clk w ns n it newOwner, OF assms(1-3)]]
  by (simp add: transferred_item_def Let_def)

theorem TransferOwnership_forced_witness:
  "\<exists>w'. run_state (TransferOwnership mem_runtime (mem_manager False ''west'') ''ns'' ''g'' ''west'') mem_demo
       = (Ok (), w') \<and>
     get_S (the_item (mem_tbl w' (''GROUP#op#ns#g'', ''CONFIG''))) ''ownerCluster'' = Some ''west'' \<and>
     get_N (the_item (mem_tbl w' (''GROUP#op#ns#g'', ''CONFIG''))) ''version'' = Some (show_int 5)"
proof -
  obtain r w' where r: "run_state (TransferOwnership mem_runtime (mem_manager False ''west'') ''ns'' ''g'' ''west'')
      mem_demo = (r, w')" by (metis surj_pair)
  have c: "mem_tbl mem_demo (config_key (mem_manager False ''west'') ''ns'' ''g'') =
      Some (group_config_item (demo_config ''east'' '''' 2))" by simp
  have o: "gc_OwnerCluster (config_of_item (group_config_item (demo_config ''east'' '''' 2))) \<noteq> ''west''"
    by (simp add: config_of_item_owner)
  have v: "gc_Version (config_of_item (group_config_item (demo_config ''east'' '''' 2))) = 2"
    by (rule config_ready_of_item(2) [OF mem_demo_ready])
  show ?thesis
    using TransferOwnership_forced [OF mem_mgr.manager_reliable_axioms c o r] r
    by (simp add: transferred_item_def Let_def v wrap64_def get_N_def)
qed

section \<open>Reading configurations\<close>

text \<open>C25: Writing a configuration and reading the item back gives the same record to the second,
  except that the timeouts become the defaults and the last failover and the metadata are lost.\<close>

theorem config_item_roundtrip:
  assumes "int64 (gc_Version c)" "in_era (gc_LastUpdated c)"
  shows "unmarshalDynamoDBItem (group_config_item c) zero_group_config =
    c\<lparr> gc_LastUpdated := to_second (gc_LastUpdated c), gc_Timeouts := default_timeouts,
       gc_LastFailover := None, gc_Metadata := None \<rparr>"
  using unmarshal_group_config_item [OF assms] by (simp add: as_reread_def)

theorem config_item_roundtrip_witness:
  "gc_OwnerCluster (unmarshalDynamoDBItem (group_config_item (demo_config ''east'' ''west'' 7)) zero_group_config)
     = ''east''"
proof -
  have "in_era (gc_LastUpdated (demo_config ''east'' ''west'' 7))"
    by (simp add: demo_config_def default_group_config_def) (rule clock_ok_in_era [OF mem_time_ok])
  then show ?thesis
    by (subst config_item_roundtrip) (simp_all add: int64_def int64_min_def int64_max_def)
qed

text \<open>GetGroupConfig reads an existing configuration without changing anything; for a missing
  one it stores and returns a default owned by the calling cluster, with version 2.\<close>

theorem GetGroupConfig_reads_or_creates:
  assumes "manager_reliable m rt Z tbl clk" "run_state (GetGroupConfig rt m ns n) w = (r, w')"
  shows "case tbl w (config_key m ns n) of
      Some it \<Rightarrow> r = Ok (unmarshalDynamoDBItem it zero_group_config) \<and> tbl w' = tbl w
    | None \<Rightarrow> \<exists>c. r = Ok c \<and> gc_OwnerCluster c = bm_clusterName m \<and> gc_Version c = 2 \<and>
        \<not> gc_Suspended c \<and> gc_PreviousOwner c = '''' \<and>
        tbl w' = (tbl w)(config_key m ns n \<mapsto> group_config_item c)"
proof (rule wpD [OF assms(2)], rule manager_reliable.wp_GetGroupConfig_ok [OF assms(1)], goal_cases)
  case (2 w')
  then show ?case
    by (auto simp: created_config_def default_group_config_def intro!: exI [of _ "created_config m ns n (clk w')"])
qed (simp add: config_of_item_def)

theorem GetGroupConfig_reads_or_creates_witness:
  "\<exists>c. fst (run_state (GetGroupConfig mem_runtime (mem_manager False ''west'') ''ns'' ''new'') mem_demo) = Ok c \<and>
     gc_OwnerCluster c = ''west'' \<and> gc_Version c = 2"
proof -
  obtain r w' where r: "run_state (GetGroupConfig mem_runtime (mem_manager False ''west'') ''ns'' ''new'')
      mem_demo = (r, w')" by (metis surj_pair)
  have "mem_tbl mem_demo (config_key (mem_manager False ''west'') ''ns'' ''new'') = None"
    by (simp add: mem_demo_def mem_tbl_with config_key_def getGroupPK_def)
  then show ?thesis
    using GetGroupConfig_reads_or_creates [OF mem_mgr.manager_reliable_axioms r] r by auto
qed

end
