(* ===== verification/Lock_Protocol.thy ===== *)
theory Lock_Protocol
  imports Operations_Facts
begin

text \<open>
  The lock of a group under interleaving. Several operator processes share the lock item; each
  acquires, releases or forgets its lease (a crash), the lock is deleted with its group, and other
  writes and time go on between. The steps are the effects on the table of AcquireLock, ReleaseLock
  and DeleteLock, which are all the writes of the lock item there are (\<open>lock_taken\<close>,
  \<open>lock_dropped\<close>, the removal of the item).

  Time is \<open>lw_now\<close>. No clock runs ahead of it by more than \<open>D\<close>: the condition of a write is checked
  against the time \<open>stamp\<close> the process has read, which may lie back and may lie up to \<open>D\<close> ahead.
  All processes print their times in one zone \<open>Z\<close>.

  Shown: of the processes whose lease still runs on every clock and was not cut by a deletion
  (\<open>lw_cut\<close>), there is at most one (\<open>lock_inv\<close> is kept by every step), provided tokens are not reused.
\<close>

record 'p lock_world =
  lw_tbl :: dynamo_table
  lw_now :: int
  lw_tokens :: "string set"
  lw_held :: "'p \<Rightarrow> (string \<times> go_time) option"
  lw_cut :: "'p set"

text \<open>A step of one process. \<open>ms p\<close> is the manager of process \<open>p\<close>. DeleteLock has no condition: it
  removes the lock whoever holds it, and cuts every lease there is.\<close>

inductive lock_step ::
    "('p \<Rightarrow> 'w base_manager) \<Rightarrow> int \<Rightarrow> int \<Rightarrow> string \<Rightarrow> string \<Rightarrow> 'p lock_world \<Rightarrow> 'p lock_world \<Rightarrow> bool"
  for ms :: "'p \<Rightarrow> 'w base_manager" and Z D :: int and ns n :: string where
  acquire: "clock_ok Z stamp \<Longrightarrow> nanos stamp \<le> lw_now s + D \<Longrightarrow> token \<notin> lw_tokens s \<Longrightarrow>
     lock_taken (ms p) ns n reason stamp token (lw_tbl s) = Some u \<Longrightarrow>
     lock_step ms Z D ns n s (s\<lparr> lw_tbl := u, lw_tokens := insert token (lw_tokens s),
                                  lw_held := (lw_held s)(p \<mapsto> (token, stamp)), lw_cut := lw_cut s - {p} \<rparr>)"
| release: "lw_held s p = Some (token, stamp) \<Longrightarrow>
     lock_step ms Z D ns n s (s\<lparr> lw_tbl := (case lock_dropped (ms p) ns n token (lw_tbl s) of
                                              Some u \<Rightarrow> u | None \<Rightarrow> lw_tbl s),
                                  lw_held := (lw_held s)(p := None) \<rparr>)"
| crash: "lock_step ms Z D ns n s (s\<lparr> lw_held := (lw_held s)(p := None) \<rparr>)"
| delete: "lock_step ms Z D ns n s (s\<lparr> lw_tbl := (lw_tbl s)(lock_key (ms p) ns n := None),
                                         lw_cut := lw_cut s \<union> {q. lw_held s q \<noteq> None} \<rparr>)"
| other: "(\<And>p. u (lock_key (ms p) ns n) = lw_tbl s (lock_key (ms p) ns n)) \<Longrightarrow>
     lock_step ms Z D ns n s (s\<lparr> lw_tbl := u \<rparr>)"
| tick: "lw_now s \<le> now \<Longrightarrow> lock_step ms Z D ns n s (s\<lparr> lw_now := now \<rparr>)"

inductive lock_reach ::
    "('p \<Rightarrow> 'w base_manager) \<Rightarrow> int \<Rightarrow> int \<Rightarrow> string \<Rightarrow> string \<Rightarrow> 'p lock_world \<Rightarrow> bool"
  for ms :: "'p \<Rightarrow> 'w base_manager" and Z D :: int and ns n :: string where
  init: "lw_held s = (\<lambda>p. None) \<Longrightarrow> lock_reach ms Z D ns n s"
| step: "lock_reach ms Z D ns n s \<Longrightarrow> lock_step ms Z D ns n s s' \<Longrightarrow> lock_reach ms Z D ns n s'"

text \<open>A process that acquired the lock, has not given it back, and whose lease runs on, on whatever
  clock one looks.\<close>

definition holds_lock :: "int \<Rightarrow> 'p lock_world \<Rightarrow> 'p \<Rightarrow> bool" where
  "holds_lock D s p \<longleftrightarrow>
     (case lw_held s p of Some (token, stamp) \<Rightarrow> lw_now s + D \<le> nanos stamp + lock_lease | None \<Rightarrow> False)"

definition lock_inv :: "('p \<Rightarrow> 'w base_manager) \<Rightarrow> int \<Rightarrow> int \<Rightarrow> string \<Rightarrow> string \<Rightarrow> 'p lock_world \<Rightarrow> bool" where
  "lock_inv ms Z D ns n s \<longleftrightarrow>
     (\<forall>p token stamp. lw_held s p = Some (token, stamp) \<longrightarrow>
        token \<in> lw_tokens s \<and> clock_ok Z stamp \<and>
        (\<forall>q stamp'. lw_held s q = Some (token, stamp') \<longrightarrow> q = p) \<and>
        (p \<notin> lw_cut s \<and> lw_now s + D \<le> nanos stamp + lock_lease \<longrightarrow>
           (\<exists>reason. lw_tbl s (lock_key (ms p) ns n) = Some (lock_item (ms p) ns n reason stamp token))))"

lemma lock_invD:
  assumes "lock_inv ms Z D ns n s" "lw_held s p = Some (token, stamp)"
  shows "token \<in> lw_tokens s" "clock_ok Z stamp" "lw_held s q = Some (token, stamp') \<Longrightarrow> q = p"
    "p \<notin> lw_cut s \<Longrightarrow> lw_now s + D \<le> nanos stamp + lock_lease \<Longrightarrow>
       \<exists>reason. lw_tbl s (lock_key (ms p) ns n) = Some (lock_item (ms p) ns n reason stamp token)"
  using assms unfolding lock_inv_def by blast+

text \<open>A lease that still runs cannot be taken over by a process in the same zone.\<close>

lemma live_lease_closed:
  assumes "clock_ok Z stamp" "clock_ok Z now" "nanos now \<le> nanos stamp + lock_lease"
  shows "\<not> lock_open (Some (lock_item m ns n reason stamp token)) now"
proof
  assume "lock_open (Some (lock_item m ns n reason stamp token)) now"
  then have "str_less (format_rfc3339 (time_add stamp lock_lease)) (format_rfc3339 now)"
    by (simp add: lock_open_def lock_item_def get_S_def)
  moreover have "in_era (time_add stamp lock_lease)"
    by (rule clock_ok_add [OF assms(1)]) (simp_all add: lock_lease_def second_def)
  ultimately have "unix (time_add stamp lock_lease) < unix now"
    using clock_ok_in_era [OF assms(2)] assms(1,2)
    by (subst format_rfc3339_less [symmetric]) (auto simp: clock_ok_def time_add_def)
  moreover have "unix now \<le> unix (time_add stamp lock_lease)"
    using assms(3) by (intro unix_mono) (simp add: time_add_def)
  ultimately show False by simp
qed

text \<open>All processes are of one operator, so they use one lock item.\<close>

definition one_lock :: "('p \<Rightarrow> 'w base_manager) \<Rightarrow> string \<Rightarrow> string \<Rightarrow> bool" where
  "one_lock ms ns n \<longleftrightarrow> (\<forall>p q. lock_key (ms p) ns n = lock_key (ms q) ns n)"

lemma lock_taken_open:
  "lock_taken m ns n reason now token t = Some u \<Longrightarrow>
   lock_open (t (lock_key m ns n)) now \<and> u (lock_key m ns n) = Some (lock_item m ns n reason now token)"
  by (auto simp: lock_taken_def split: if_splits)

lemma lease_token_of_lock_item: "get_S (lock_item m ns n reason stamp token) ''leaseToken'' = Some token"
  by (simp add: lock_item_def get_S_def)

lemma lock_dropped_token:
  "lock_dropped m ns n token t = Some u \<Longrightarrow> t (lock_key m ns n) = Some (lock_item m' ns' n' r st token') \<Longrightarrow>
   token' = token"
  by (auto simp: lock_dropped_def item_S_def lease_token_of_lock_item split: if_splits)

lemma lock_inv_acquire:
  assumes inv: "lock_inv ms Z D ns n s" and one: "one_lock ms ns n"
    and st: "clock_ok Z stamp" "nanos stamp \<le> lw_now s + D" "token \<notin> lw_tokens s"
    and taken: "lock_taken (ms p) ns n reason stamp token (lw_tbl s) = Some u"
  shows "lock_inv ms Z D ns n (s\<lparr> lw_tbl := u, lw_tokens := insert token (lw_tokens s),
                                lw_held := (lw_held s)(p \<mapsto> (token, stamp)), lw_cut := lw_cut s - {p} \<rparr>)"
proof -
  have k: "lock_key (ms q) ns n = lock_key (ms p) ns n" for q
    using one unfolding one_lock_def by blast
  have dead: "\<not> lw_now s + D \<le> nanos st + lock_lease" if h: "lw_held s q = Some (tk, st)" and c: "q \<notin> lw_cut s" for q tk st
  proof
    assume live: "lw_now s + D \<le> nanos st + lock_lease"
    obtain r where "lw_tbl s (lock_key (ms p) ns n) = Some (lock_item (ms q) ns n r st tk)"
      using lock_invD(4) [OF inv h c live] unfolding k [of q] by blast
    moreover have "\<not> lock_open (Some (lock_item (ms q) ns n r st tk)) stamp"
      by (rule live_lease_closed [OF lock_invD(2) [OF inv h] st(1)]) (use st(2) live in simp)
    ultimately show False using lock_taken_open [OF taken] by simp
  qed
  have fresh: "lw_held s q \<noteq> Some (token, x)" for q x
    using lock_invD(1) [OF inv] st(3) by blast
  show ?thesis
    unfolding lock_inv_def
    using lock_taken_open [OF taken] st(1) dead fresh lock_invD(1-3) [OF inv] by auto
qed

lemma lock_inv_release:
  assumes inv: "lock_inv ms Z D ns n s" and one: "one_lock ms ns n" and h: "lw_held s p = Some (token, stamp)"
  shows "lock_inv ms Z D ns n (s\<lparr> lw_tbl := (case lock_dropped (ms p) ns n token (lw_tbl s) of
           Some u \<Rightarrow> u | None \<Rightarrow> lw_tbl s), lw_held := (lw_held s)(p := None) \<rparr>)"
proof -
  have keep: "(case lock_dropped (ms p) ns n token (lw_tbl s) of Some u \<Rightarrow> u | None \<Rightarrow> lw_tbl s)
      (lock_key (ms q) ns n) = Some (lock_item (ms q) ns n r st tk)"
    if "lw_tbl s (lock_key (ms q) ns n) = Some (lock_item (ms q) ns n r st tk)" "tk \<noteq> token" for q r st tk
  proof (cases "lock_dropped (ms p) ns n token (lw_tbl s)")
    case (Some u)
    have "lock_key (ms q) ns n = lock_key (ms p) ns n" using one unfolding one_lock_def by blast
    then show ?thesis using lock_dropped_token [OF Some] that by metis
  qed (use that in simp)
  show ?thesis
    unfolding lock_inv_def
  proof (intro allI impI, goal_cases)
    case (1 q tk st)
    then have q: "lw_held s q = Some (tk, st)" "q \<noteq> p" by (auto split: if_splits)
    then have ne: "tk \<noteq> token" using lock_invD(3) [OF inv q(1)] h by blast
    have "r = q" if "((lw_held s)(p := None)) r = Some (tk, x)" for r x
      using that lock_invD(3) [OF inv q(1), of r x] by (simp split: if_splits)
    moreover have "\<exists>reason. (case lock_dropped (ms p) ns n token (lw_tbl s) of Some u \<Rightarrow> u | None \<Rightarrow> lw_tbl s)
        (lock_key (ms q) ns n) = Some (lock_item (ms q) ns n reason st tk)"
      if live: "q \<notin> lw_cut s" "lw_now s + D \<le> nanos st + lock_lease"
      using lock_invD(4) [OF inv q(1) live] keep [OF _ ne] by blast
    ultimately show ?case
      using lock_invD(1,2) [OF inv q(1)] by simp
  qed
qed

lemma lock_inv_step:
  assumes "lock_step ms Z D ns n s s'" "lock_inv ms Z D ns n s" "one_lock ms ns n"
  shows "lock_inv ms Z D ns n s'"
  using assms
proof cases
  case (acquire stamp token p reason u)
  then show ?thesis using lock_inv_acquire [OF assms(2,3)] by simp
next
  case (release p token stamp)
  then show ?thesis using lock_inv_release [OF assms(2,3)] by simp
next
  case (crash p)
  then show ?thesis using assms(2) unfolding lock_inv_def by auto
next
  case (delete p)
  then show ?thesis using assms(2) unfolding lock_inv_def by auto
next
  case (other u)
  then show ?thesis using assms(2) unfolding lock_inv_def by auto
next
  case (tick now)
  then show ?thesis using assms(2) unfolding lock_inv_def by fastforce
qed

lemma lock_inv_reach:
  "lock_reach ms Z D ns n s \<Longrightarrow> one_lock ms ns n \<Longrightarrow> lock_inv ms Z D ns n s"
proof (induction rule: lock_reach.induct)
  case (init s)
  then show ?case by (simp add: lock_inv_def)
next
  case (step s s')
  then show ?case using lock_inv_step by blast
qed

lemma lock_inv_exclusive:
  assumes "lock_inv ms Z D ns n s" "one_lock ms ns n" "holds_lock D s p" "holds_lock D s q"
    and cut: "p \<notin> lw_cut s" "q \<notin> lw_cut s"
  shows "p = q"
proof -
  obtain tp sp tq sq where h: "lw_held s p = Some (tp, sp)" "lw_now s + D \<le> nanos sp + lock_lease"
    "lw_held s q = Some (tq, sq)" "lw_now s + D \<le> nanos sq + lock_lease"
    using assms(3,4) by (auto simp: holds_lock_def split: option.splits)
  have "lock_key (ms q) ns n = lock_key (ms p) ns n" using assms(2) unfolding one_lock_def by blast
  then have "tp = tq"
    using lock_invD(4) [OF assms(1) h(1) cut(1) h(2)] lock_invD(4) [OF assms(1) h(3) cut(2) h(4)]
      lease_token_of_lock_item by (metis option.inject)
  then show ?thesis using lock_invD(3) [OF assms(1) h(3)] h(1) by blast
qed

end
