(* ===== verification/Operations_Validation.thy ===== *)
theory Operations_Validation
  imports Operations_Facts
begin

text \<open>
  A store that checks the placeholders of a request, as DynamoDB does: the failover transaction
  defines names and values its expressions do not use, so it is always rejected.
\<close>

section \<open>A store that checks placeholders\<close>

lemma failover_update_invalid:
  "gc_LastFailover config = None \<Longrightarrow>
   \<not> update_valid (failover_config_update m ns n config source target name start now)"
  by (auto simp: update_valid_def placeholders_ok_def failover_config_update_def last_failover_update_def
      update_names_def owner_condition_def is_placeholder_def)

context manager_store
begin

lemma wp_locked_failure:
  assumes "\<And>Q. (\<And>e w'. before m ns n t (tbl w') \<Longrightarrow> Q (Err e) w') \<Longrightarrow> wp txn Q w"
    "\<And>r w'. before m ns n t (tbl w') \<Longrightarrow> \<not> is_ok r \<Longrightarrow> Q r w'"
  shows "wp txn (\<lambda>r w'. case r of
       Ok x \<Rightarrow> K x w'
     | Err e \<Rightarrow> wp (ReleaseLock m ns n token) (\<lambda>r'. Q (case r' of Panic \<Rightarrow> Panic | _ \<Rightarrow> Err (f e))) w'
     | Panic \<Rightarrow> P w') w"
proof (rule assms(1), goal_cases)
  case (1 e w1)
  show ?case
    unfolding outcome.case
  proof (rule wp_ReleaseLock, goal_cases)
    case (1 r' w')
    have "before m ns n t (tbl w')"
      by (rule before_lock [OF \<open>before m ns n t (tbl w1)\<close> atomic_write_lock_frame [OF 1(2)]])
    then show ?case by (cases r') (auto intro: assms(2))
  qed
qed

text \<open>If the transaction itself must fail, so must the failover.\<close>

lemma wp_ExecuteFailover_fails:
  assumes "\<And>w s Q source reason start. before m ns n t (tbl w) \<Longrightarrow>
      (\<And>e w'. before m ns n t (tbl w') \<Longrightarrow> Q (Err e) w') \<Longrightarrow>
      wp (executeFailoverTransaction rt m ns n source target reason name start) Q w"
    "\<And>r w'. before m ns n t (tbl w') \<Longrightarrow> \<not> is_ok r \<Longrightarrow> Q r w'" "tbl w = t"
  shows "wp (ExecuteFailover rt m ns n name target reason force) Q w"
  unfolding ExecuteFailover_def wp_simps
proof (rule wp_now, rule wp_ValidateFailoverPreconditions, goal_cases)
  case (1 s w1 r w2)
  have b2: "before m ns n t (tbl w2)" using 1 assms(3) by simp
  show ?case
  proof (cases r)
    case (Ok u)
    show ?thesis
      unfolding Ok outcome.case wp_simps
    proof (rule wp_read_config, goal_cases)
      case (1 it x w3)
      have b3: "before m ns n t (tbl w3)" using b2 1(2) by (rule before_trans)
      let ?src = "gc_OwnerCluster ((config_of_item it)\<lparr> gc_LastUpdated := x \<rparr>)"
      show ?case
      proof (cases "?src = target")
        case True
        then show ?thesis using b3 by (simp add: wp_simps assms(2))
      next
        case False
        show ?thesis
          unfolding outcome.case Let_def if_not_P [OF False] wp_simps
        proof (rule wp_AcquireLock, goal_cases)
          case (1 token w4)
          have b4: "before m ns n t (tbl w4)" by (rule before_lock [OF b3 lock_taken_other [OF 1(3)]])
          show ?case
            unfolding outcome.case
            by (rule wp_locked_failure [where t = t]) (auto intro: assms(1) [OF b4] assms(2))
        next
          case (2 e token w4)
          then have "before m ns n t (tbl w4)" using b3 by (auto intro: before_lock lock_taken_other)
          then show ?case by (simp add: assms(2))
        qed
      qed
    next
      case (2 e w3)
      have "before m ns n t (tbl w3)" using b2 2(2) by (rule before_trans)
      then show ?case by (simp add: assms(2))
    qed
  qed (use b2 assms(2) in simp_all)
qed

end

context manager_validating
begin

lemma wp_executeFailoverTransaction_invalid:
  assumes "before m ns n t (tbl w)" "\<And>e w'. before m ns n t (tbl w') \<Longrightarrow> Q (Err e) w'"
  shows "wp (executeFailoverTransaction rt m ns n source target reason name start) Q w"
  unfolding executeFailoverTransaction_def wp_simps
proof (rule wp_read_config, goal_cases)
  case (1 it x w1)
  have b: "before m ns n t (tbl w1)" using assms(1) 1(2) by (rule before_trans)
  show ?case
    unfolding outcome.case wp_simps
  proof (rule wp_now, rule wp_now, rule wp_now, rule wp_transact_invalid, goal_cases)
    case (1 t1 w2 t2 w3 t3 w4)
    show ?case
      by (simp add: transact_valid_def failover_update_invalid)
  next
    case (2 t1 w2 t2 w3 t3 w4 w5 tx rs)
    then show ?case using b by (simp add: wp_simps assms(2))
  qed
next
  case (2 e w1)
  have "before m ns n t (tbl w1)" using assms(1) 2(2) by (rule before_trans)
  then show ?case by (simp add: assms(2))
qed

lemma wp_ExecuteFailover_invalid:
  "wp (ExecuteFailover rt m ns n name target reason force) (\<lambda>r w'. \<not> is_ok r \<and> before m ns n (tbl w) (tbl w')) w"
  by (rule wp_ExecuteFailover_fails [where t = "tbl w"]) (auto intro: wp_executeFailoverTransaction_invalid)

end
end
