(* ===== verification/Operations_Properties.thy ===== *)
theory Operations_Properties
  imports Mem_Manager Lock_Protocol Operations_Validation
begin

text \<open>The properties of failover, failback and the lock, with concrete runs on the in-memory store.\<close>

section \<open>The contracts in closed form\<close>

context manager_store
begin

lemma failover_contract:
  "wp (ExecuteFailover rt m ns n name target reason force) (\<lambda>r w'.
      (is_ok r \<longrightarrow> owner_of m ns n (tbl w) \<noteq> target) \<and>
      transfer_step m ns n StateFailover (owner_of m ns n (tbl w)) (owner_of m ns n (tbl w)) target
        (tbl w) (tbl w') r) w"
  by (rule wp_ExecuteFailover) auto

lemma failback_contract:
  "wp (ExecuteFailback rt m ns n reason) (\<lambda>r w'.
      (is_ok r \<longrightarrow> previous_owner_of m ns n (tbl w) \<noteq> '''' \<and>
         previous_owner_of m ns n (tbl w) \<noteq> owner_of m ns n (tbl w)) \<and>
      transfer_step m ns n StateFailback (owner_of m ns n (tbl w)) '''' (previous_owner_of m ns n (tbl w))
        (tbl w) (tbl w') r) w"
  by (rule wp_ExecuteFailback) auto

lemma acquire_contract:
  "wp (AcquireLock rt m ns n reason) (\<lambda>r w'. nanos (clk w) \<le> nanos (clk w') \<and>
      (case r of
         Ok token \<Rightarrow> clock_ok Z (clk w') \<and> lock_taken m ns n reason (clk w') token (tbl w) = Some (tbl w')
       | Err e \<Rightarrow> tbl w' = tbl w \<or>
           (clock_ok Z (clk w') \<and> (\<exists>token. lock_taken m ns n reason (clk w') token (tbl w) = Some (tbl w')))
       | Panic \<Rightarrow> False)) w"
  by (rule wp_AcquireLock) auto

lemma delete_lock_contract:
  "wp (DeleteLock m ns n) (\<lambda>r w'. tbl w' = tbl w \<or> tbl w' = (tbl w)(lock_key m ns n := None)) w"
  unfolding DeleteLock_def wp_simps
  by (rule wp_delete) (auto simp: delete_effect_def condition_holds_def lock_key_def wp_simps)

end

context manager_reliable
begin

text \<open>The lease is over, but its end reads larger than the present.\<close>

lemma late_text_closed:
  assumes "clock_ok Z0 stamp" "clock_ok Z now" "wall_seconds now < wall_seconds (time_add stamp lock_lease)"
  shows "\<not> lock_open (Some (lock_item m0 ns0 n0 reason0 stamp token0)) now"
proof
  assume "lock_open (Some (lock_item m0 ns0 n0 reason0 stamp token0)) now"
  then have "str_less (format_rfc3339 (time_add stamp lock_lease)) (format_rfc3339 now)"
    by (simp add: lock_open_def lock_item_def get_S_def)
  moreover have "in_era (time_add stamp lock_lease)"
    by (rule clock_ok_add [OF assms(1)]) (simp_all add: lock_lease_def second_def)
  ultimately show False
    using clock_ok_in_era [OF assms(2)] assms(3) by (auto simp: format_rfc3339_def in_era_def format_wall_less)
qed

lemma acquire_dead:
  assumes "tbl w (lock_key m ns n) = Some (lock_item m0 ns0 n0 reason0 stamp token0)" "clock_ok Z0 stamp"
    and "nanos stamp + lock_lease < nanos (clk w)"
  shows "wp (AcquireLock rt m ns n reason) (\<lambda>r w'. wall_seconds (clk w') < wall_seconds (time_add stamp lock_lease) \<longrightarrow>
      r = Err (ErrorString ''lock already held by another process'') \<and> tbl w' = tbl w) w"
  unfolding AcquireLock_def wp_simps
proof (rule wp_uuid, rule wp_IsLocked_ok, goal_cases)
  case (1 token w1 w2)
  let ?it = "lock_item m0 ns0 n0 reason0 stamp token0"
  have "in_era (time_add stamp lock_lease)"
    by (rule clock_ok_add [OF assms(2)]) (simp_all add: lock_lease_def second_def)
  then have "lock_expiry ?it = Some (to_second (time_add stamp lock_lease))"
    using parse_format_rfc3339 by (simp add: lock_expiry_def lock_item_def get_S_def)
  moreover have "time_after (clk w2) (to_second (time_add stamp lock_lease))"
    using nanos_to_second(1) [of "time_add stamp lock_lease"] assms(3) 1
    by (simp add: time_after_def time_add_def)
  ultimately have free: "lock_reply (tbl w1 (lock_key m ns n)) (clk w2) = Ok (False, '''')"
    using 1 by (simp add: lock_reply_def assms(1))
  show ?case
    unfolding free outcome.case prod.case if_False wp_simps
  proof (rule wp_now, rule wp_put_ok, goal_cases)
    case (2 now w3)
    show ?case by (rule lock_put_valid)
  next
    case (3 now w3 w4)
    then have "lock_open (Some ?it) (clk w4)" "clock_ok Z (clk w4)"
      using 1 assms(1) by (simp_all add: put_effect_lock [OF stored_tbl] lock_taken_def split: if_splits)
    with late_text_closed [OF assms(2), of "clk w4" m0 ns0 n0 reason0 token0] show ?case by (auto simp: wp_simps)
  next
    case (4 now w3 w4 e)
    then show ?case using 1 by (simp add: wp_simps)
  qed (simp add: lock_put_def)
qed

lemma release_contract:
  "wp (ReleaseLock m ns n token) (\<lambda>r w'.
      if item_S (tbl w) (lock_key m ns n) ''leaseToken'' = Some token
      then r = Ok () \<and> tbl w' = (tbl w)(lock_key m ns n := None)
      else is_err r \<and> tbl w' = tbl w) w"
  by (rule wp_ReleaseLock_ok) (auto simp: lock_dropped_def split: if_splits)

end

section \<open>Failover\<close>

text \<open>C1: A failover that reports success has moved the group: its owner was another cluster, the
  configuration now names the target as owner and the old owner as previous owner, the records of
  both clusters carry their new states, and besides lock and history nothing else has changed.\<close>

theorem ExecuteFailover_moves:
  assumes "manager_store m rt Z tbl clk"
    and "run_state (ExecuteFailover rt m ns n name target reason force) w = (Ok u, w')"
  shows "owner_of m ns n (tbl w) \<noteq> target \<and>
    moved m ns n StateFailover (owner_of m ns n (tbl w)) (owner_of m ns n (tbl w)) target (tbl w) (tbl w')"
  using wpD [OF assms(2) manager_store.failover_contract [OF assms(1)]] by (simp add: transfer_step_def)

lemma mem_owner [simp]:
  "owner_of (mem_manager strict c) ''ns'' ''g'' (mem_tbl mem_demo) = ''east''"
  "owner_of (mem_manager strict c) ''ns'' ''g'' (mem_tbl mem_moved) = ''west''"
  "previous_owner_of (mem_manager strict c) ''ns'' ''g'' (mem_tbl mem_moved) = ''east''"
  by (simp_all add: owner_of_def previous_owner_of_def)

theorem ExecuteFailover_moves_witness:
  "\<exists>w'. run_state (ExecuteFailover mem_runtime (mem_manager False ''west'') ''ns'' ''g'' ''f1'' ''west''
       ''why'' False) mem_demo = (Ok (), w') \<and>
     moved (mem_manager False ''west'') ''ns'' ''g'' StateFailover ''east'' ''east'' ''west''
       (mem_tbl mem_demo) (mem_tbl w')"
  using mem_demo_failover ExecuteFailover_moves [OF mem_manager_store] by fastforce

text \<open>C2: A failover that does not report success, through an error at any point or a panic, has
  moved the group completely or not at all; where it has not, at most a missing configuration
  was created and the lock has changed.\<close>

theorem ExecuteFailover_all_or_nothing:
  assumes "manager_store m rt Z tbl clk"
    and "run_state (ExecuteFailover rt m ns n name target reason force) w = (r, w')"
  shows "before m ns n (tbl w) (tbl w') \<or>
    moved m ns n StateFailover (owner_of m ns n (tbl w)) (owner_of m ns n (tbl w)) target (tbl w) (tbl w')"
  using wpD [OF assms(2) manager_store.failover_contract [OF assms(1)]] by (auto simp: transfer_step_def)

theorem ExecuteFailover_all_or_nothing_witness:
  "\<exists>r w'. run_state (ExecuteFailover mem_runtime (mem_manager True ''west'') ''ns'' ''g'' ''f1'' ''west''
       ''why'' False) mem_demo = (r, w') \<and>
     (before (mem_manager True ''west'') ''ns'' ''g'' (mem_tbl mem_demo) (mem_tbl w') \<or>
      moved (mem_manager True ''west'') ''ns'' ''g'' StateFailover ''east'' ''east'' ''west''
       (mem_tbl mem_demo) (mem_tbl w'))"
  using ExecuteFailover_all_or_nothing [OF mem_manager_store] by (metis mem_owner(1) surj_pair)

text \<open>C23: A service that rejects requests with unused placeholders never lets a failover
  succeed: the transaction defines names and values its expressions do not use.\<close>

theorem ExecuteFailover_rejected:
  assumes "manager_validating m rt Z tbl clk"
    and "run_state (ExecuteFailover rt m ns n name target reason force) w = (r, w')"
  shows "\<not> is_ok r \<and> before m ns n (tbl w) (tbl w')"
  using wpD [OF assms(2) manager_validating.wp_ExecuteFailover_invalid [OF assms(1)]] .

lemma mem_validating: "manager_validating (mem_manager True c) mem_runtime 0 mem_tbl mem_time"
  unfolding manager_validating_def mem_manager_sel by (rule mem_strict.dynamo_validating_axioms)

theorem ExecuteFailover_rejected_witness:
  "\<not> is_ok (fst (run_state (ExecuteFailover mem_runtime (mem_manager True ''west'') ''ns'' ''g'' ''f1''
       ''west'' ''why'' False) mem_demo))"
  using ExecuteFailover_rejected [OF mem_validating] by (metis prod.collapse)

section \<open>Failback\<close>

text \<open>C7: A failback that reports success has moved the group to its recorded previous owner, a
  cluster other than the owner, and cleared the previous owner; any other outcome has moved the
  group completely or not at all.\<close>

theorem ExecuteFailback_moves:
  assumes "manager_store m rt Z tbl clk"
    and "run_state (ExecuteFailback rt m ns n reason) w = (r, w')"
  shows "(before m ns n (tbl w) (tbl w') \<and> \<not> is_ok r) \<or>
    (moved m ns n StateFailback (owner_of m ns n (tbl w)) '''' (previous_owner_of m ns n (tbl w))
       (tbl w) (tbl w') \<and>
     \<not> (is_ok r \<and> (previous_owner_of m ns n (tbl w) = '''' \<or>
          previous_owner_of m ns n (tbl w) = owner_of m ns n (tbl w))))"
  using wpD [OF assms(2) manager_store.failback_contract [OF assms(1)]]
  by (auto simp: transfer_step_def)

theorem ExecuteFailback_moves_witness:
  "\<exists>w'. run_state (ExecuteFailback mem_runtime (mem_manager False ''west'') ''ns'' ''g'' ''back'')
       mem_moved = (Ok (), w') \<and>
     moved (mem_manager False ''west'') ''ns'' ''g'' StateFailback ''west'' '''' ''east''
       (mem_tbl mem_moved) (mem_tbl w')"
  using mem_moved_failback ExecuteFailback_moves [OF mem_manager_store] by fastforce

section \<open>The lock\<close>

text \<open>AcquireLock returns a token only when there was no lock or its expiry text was smaller
  than the text of the present; then the lock item carries the token, the cluster's name and an
  expiry ten minutes ahead, and nothing else has changed.\<close>

theorem AcquireLock_takes:
  assumes "manager_store m rt Z tbl clk"
    and "run_state (AcquireLock rt m ns n reason) w = (Ok token, w')"
  shows "lock_open (tbl w (lock_key m ns n)) (clk w') \<and> clock_ok Z (clk w') \<and>
    tbl w' = (tbl w)(lock_key m ns n \<mapsto> lock_item m ns n reason (clk w') token)"
  using wpD [OF assms(2) manager_store.acquire_contract [OF assms(1)]]
  by (auto simp: lock_taken_def split: if_splits)

theorem AcquireLock_takes_witness:
  "\<exists>token w'. run_state (AcquireLock mem_runtime (mem_manager False ''west'') ''ns'' ''g'' ''why'') mem_demo
       = (Ok token, w') \<and>
     mem_tbl w' (''GROUP#op#ns#g'', ''LOCK'') =
       Some (lock_item (mem_manager False ''west'') ''ns'' ''g'' ''why'' (mem_time w') token)"
proof -
  have "wp (AcquireLock mem_runtime (mem_manager False ''west'') ''ns'' ''g'' ''why'') (\<lambda>r w'. is_ok r) mem_demo"
    by (rule mem_mgr.wp_AcquireLock_ok) simp_all
  then obtain token w' where
    r: "run_state (AcquireLock mem_runtime (mem_manager False ''west'') ''ns'' ''g'' ''why'') mem_demo = (Ok token, w')"
    by (auto simp: wp_def is_ok_iff)
  show ?thesis
    using r AcquireLock_takes [OF mem_manager_store r] by auto
qed

text \<open>C17: While a lease runs, no process in the same zone acquires the lock, and the attempt
  leaves the lock as it is.\<close>

theorem AcquireLock_respects_lease:
  assumes "manager_store m rt Z tbl clk"
    and "tbl w (lock_key m ns n) = Some (lock_item m0 ns0 n0 reason0 stamp token0)" "clock_ok Z stamp"
    and "run_state (AcquireLock rt m ns n reason) w = (r, w')" "nanos (clk w') \<le> nanos stamp + lock_lease"
  shows "is_err r \<and> tbl w' = tbl w"
proof -
  have "\<not> lock_open (tbl w (lock_key m ns n)) (clk w')" if "clock_ok Z (clk w')"
    unfolding assms(2) by (rule live_lease_closed [OF assms(3) that assms(5)])
  then show ?thesis
    using wpD [OF assms(4) manager_store.acquire_contract [OF assms(1)]]
    by (cases r) (auto simp: lock_taken_def split: if_splits)
qed

definition mem_locked :: mem where
  "mem_locked = mem_with [group_config_item (demo_config ''east'' '''' 2),
     lock_item (mem_manager False ''east'') ''ns'' ''g'' ''why'' (mem_time mem_empty) ''token-e'']"

lemma item_key_of_demo_lock [simp]:
  "item_key_of (lock_item (mem_manager False c) ''ns'' ''g'' why stamp token) = Some (''GROUP#op#ns#g'', ''LOCK'')"
  by simp

lemma mem_locked_tbl [simp]:
  "mem_tbl mem_locked (''GROUP#op#ns#g'', ''LOCK'') =
     Some (lock_item (mem_manager False ''east'') ''ns'' ''g'' ''why'' (mem_time mem_empty) ''token-e'')"
  by (simp add: mem_locked_def mem_tbl_with)

lemma mem_locked_ticks:
  "mem_ticks (snd (run_state (AcquireLock mem_runtime (mem_manager False ''west'') ''ns'' ''g'' ''mine'') mem_locked)) = 1"
  by code_simp

theorem AcquireLock_respects_lease_witness:
  "is_err (fst (run_state (AcquireLock mem_runtime (mem_manager False ''west'') ''ns'' ''g'' ''mine'') mem_locked))"
proof -
  obtain r w' where r: "run_state (AcquireLock mem_runtime (mem_manager False ''west'') ''ns'' ''g'' ''mine'')
      mem_locked = (r, w')" by (cases "run_state (AcquireLock mem_runtime (mem_manager False ''west'') ''ns'' ''g'' ''mine'')
      mem_locked")
  then have "nanos (mem_time w') \<le> nanos (mem_time mem_empty) + lock_lease"
    using mem_locked_ticks by (simp add: mem_time_def mem_empty_def lock_lease_def second_def)
  moreover have "mem_tbl mem_locked (lock_key (mem_manager False ''west'') ''ns'' ''g'') =
      Some (lock_item (mem_manager False ''east'') ''ns'' ''g'' ''why'' (mem_time mem_empty) ''token-e'')"
    by simp
  ultimately show ?thesis
    using AcquireLock_respects_lease [OF mem_manager_store _ mem_time_ok r] r by (metis fst_conv)
qed

text \<open>What AcquireLock took, ReleaseLock with the same token gives back: the table is the one
  from before.\<close>

theorem AcquireLock_ReleaseLock:
  assumes "manager_reliable m rt Z tbl clk" "tbl w (lock_key m ns n) = None"
    and "run_state (check (AcquireLock rt m ns n reason) (\<lambda>e. e) (\<lambda>token. ReleaseLock m ns n token)) w = (r, w')"
  shows "r = Ok () \<and> tbl w' = tbl w"
proof (rule wpD [OF assms(3)], unfold wp_simps, rule manager_reliable.wp_AcquireLock_ok [OF assms(1)], goal_cases)
  case (1 token w1)
  have tok: "item_S (tbl w1) (lock_key m ns n) ''leaseToken'' = Some token"
    by (rule lock_taken_token [OF 1(3)])
  have w1: "tbl w1 = (tbl w)(lock_key m ns n \<mapsto> lock_item m ns n reason (clk w1) token)"
    using 1(3) by (auto simp: lock_taken_def split: if_splits)
  have undo: "(tbl w1)(lock_key m ns n := None) = tbl w"
    using w1 assms(2) by (simp add: fun_upd_idem)
  show ?case
    unfolding outcome.case
    by (rule wp_mono [OF manager_reliable.release_contract [OF assms(1)]]) (simp add: tok undo)
qed (use assms(2) in simp)

theorem AcquireLock_ReleaseLock_witness:
  "fst (run_state (check (AcquireLock mem_runtime (mem_manager False ''west'') ''ns'' ''g'' ''why'') (\<lambda>e. e)
      (\<lambda>token. ReleaseLock (mem_manager False ''west'') ''ns'' ''g'' token)) mem_demo) = Ok ()"
  using AcquireLock_ReleaseLock [OF mem_mgr.manager_reliable_axioms]
  by (metis demo_keys(5) mem_demo_tbl(2) prod.collapse)

text \<open>ReleaseLock removes the lock exactly when the lock item carries the given token, and
  reports success exactly then; otherwise it changes nothing.\<close>

theorem ReleaseLock_needs_token:
  assumes "manager_reliable m rt Z tbl clk"
    and "run_state (ReleaseLock m ns n token) w = (r, w')"
  shows "if item_S (tbl w) (lock_key m ns n) ''leaseToken'' = Some token
    then r = Ok () \<and> tbl w' = (tbl w)(lock_key m ns n := None) else is_err r \<and> tbl w' = tbl w"
  by (rule wpD [OF assms(2) manager_reliable.release_contract [OF assms(1)]])

theorem ReleaseLock_needs_token_witness:
  "is_err (fst (run_state (ReleaseLock (mem_manager False ''west'') ''ns'' ''g'' ''token-w'') mem_locked)) \<and>
   fst (run_state (ReleaseLock (mem_manager False ''east'') ''ns'' ''g'' ''token-e'') mem_locked) = Ok ()"
  using ReleaseLock_needs_token [OF mem_mgr.manager_reliable_axioms [of False "''west''"],
      of "''ns''" "''g''" "''token-w''" mem_locked]
    ReleaseLock_needs_token [OF mem_mgr.manager_reliable_axioms [of False "''east''"],
      of "''ns''" "''g''" "''token-e''" mem_locked]
  by (simp add: item_S_def lease_token_of_lock_item prod_eq_iff)

text \<open>C4: At any time at most one process holds a lease of a group's lock that runs on on every clock and
  that no DeleteLock (the deletion of the group) has cut since it was taken, however the processes'
  acquisitions, releases, crashes and deletions interleave with other writes and with time. No clock
  runs ahead by more than \<open>D\<close>, and the processes print their times in one zone.\<close>

theorem lock_mutual_exclusion:
  assumes "lock_reach ms Z D ns n s" "one_lock ms ns n"
    and "holds_lock D s p" "p \<notin> lw_cut s" "holds_lock D s q" "q \<notin> lw_cut s"
  shows "p = q"
  using lock_inv_exclusive [OF lock_inv_reach [OF assms(1,2)] assms(2,3,5,4,6)] .

definition demo_lock_world :: "dynamo_table \<Rightarrow> string lock_world" where
  "demo_lock_world t =
     \<lparr> lw_tbl = t, lw_now = nanos (mem_time mem_empty), lw_tokens = {}, lw_held = (\<lambda>p. None), lw_cut = {} \<rparr>"

definition demo_held :: "string lock_world" where
  "demo_held = (demo_lock_world (mem_tbl mem_demo))\<lparr>
     lw_tbl := (mem_tbl mem_demo)((''GROUP#op#ns#g'', ''LOCK'') \<mapsto>
       lock_item (mem_manager False ''west'') ''ns'' ''g'' ''why'' (mem_time mem_empty) ''t1''),
     lw_tokens := {''t1''}, lw_held := (\<lambda>p. None)(''west'' \<mapsto> (''t1'', mem_time mem_empty)) \<rparr>"

lemma demo_held_reach: "lock_reach (mem_manager False) 0 0 ''ns'' ''g'' demo_held"
proof (rule lock_reach.step)
  show "lock_reach (mem_manager False) 0 0 ''ns'' ''g'' (demo_lock_world (mem_tbl mem_demo))"
    by (rule lock_reach.init) (simp add: demo_lock_world_def)
next
  have "lock_step (mem_manager False) 0 0 ''ns'' ''g'' (demo_lock_world (mem_tbl mem_demo))
      ((demo_lock_world (mem_tbl mem_demo))\<lparr>
         lw_tbl := (mem_tbl mem_demo)((''GROUP#op#ns#g'', ''LOCK'') \<mapsto>
           lock_item (mem_manager False ''west'') ''ns'' ''g'' ''why'' (mem_time mem_empty) ''t1''),
         lw_tokens := insert ''t1'' (lw_tokens (demo_lock_world (mem_tbl mem_demo))),
         lw_held := (lw_held (demo_lock_world (mem_tbl mem_demo)))(''west'' \<mapsto> (''t1'', mem_time mem_empty)),
         lw_cut := lw_cut (demo_lock_world (mem_tbl mem_demo)) - {''west''} \<rparr>)"
    by (rule lock_step.acquire [where reason = "''why''"])
       (simp_all add: mem_time_ok demo_lock_world_def lock_taken_def lock_open_def)
  then show "lock_step (mem_manager False) 0 0 ''ns'' ''g'' (demo_lock_world (mem_tbl mem_demo)) demo_held"
    by (simp add: demo_held_def demo_lock_world_def)
qed

theorem lock_mutual_exclusion_witness:
  "holds_lock 0 demo_held ''west'' \<and> \<not> holds_lock 0 demo_held ''east''"
proof -
  have "holds_lock 0 demo_held ''west''"
    by (simp add: holds_lock_def demo_held_def demo_lock_world_def lock_lease_def second_def)
  moreover have "one_lock (mem_manager False) ''ns'' ''g''" "lw_cut demo_held = {}"
    by (simp_all add: one_lock_def demo_held_def demo_lock_world_def)
  ultimately show ?thesis
    using lock_mutual_exclusion [OF demo_held_reach, of "''west''" "''east''"] by auto
qed

text \<open>A deletion of the group is why the leases that were cut are left out: after it, another cluster
  takes the lock while the lease of the first still runs.\<close>

theorem deletion_breaks_exclusion:
  "\<exists>s. lock_reach (mem_manager False) 0 0 ''ns'' ''g'' s \<and>
     holds_lock 0 s ''west'' \<and> holds_lock 0 s ''east'' \<and> ''west'' \<in> lw_cut s"
proof -
  define s where "s = demo_held\<lparr> lw_tbl := (lw_tbl demo_held)((''GROUP#op#ns#g'', ''LOCK'') := None),
    lw_cut := lw_cut demo_held \<union> {q. lw_held demo_held q \<noteq> None} \<rparr>"
  have del: "lock_step (mem_manager False) 0 0 ''ns'' ''g'' demo_held s"
    using lock_step.delete [of "mem_manager False" 0 0 "''ns''" "''g''" demo_held "''north''"] by (simp add: s_def)
  have acq: "lock_step (mem_manager False) 0 0 ''ns'' ''g'' s (s\<lparr> lw_tbl := (lw_tbl s)((''GROUP#op#ns#g'', ''LOCK'') \<mapsto>
        lock_item (mem_manager False ''east'') ''ns'' ''g'' ''why'' (mem_time mem_empty) ''t2''),
      lw_tokens := insert ''t2'' (lw_tokens s), lw_held := (lw_held s)(''east'' \<mapsto> (''t2'', mem_time mem_empty)),
      lw_cut := lw_cut s - {''east''} \<rparr>)" (is "lock_step _ _ _ _ _ s ?t")
    by (rule lock_step.acquire [where reason = "''why''"])
       (simp_all add: s_def demo_held_def demo_lock_world_def mem_time_ok lock_taken_def lock_open_def)
  have "lock_reach (mem_manager False) 0 0 ''ns'' ''g'' ?t"
    by (rule lock_reach.step [OF lock_reach.step [OF demo_held_reach del] acq])
  moreover have "holds_lock 0 ?t ''west''" "holds_lock 0 ?t ''east''" "''west'' \<in> lw_cut ?t"
    by (simp_all add: holds_lock_def s_def demo_held_def demo_lock_world_def lock_lease_def second_def)
  ultimately show ?thesis by blast
qed

text \<open>C21: A successful AcquireLock is an acquire step of the protocol, made with the last clock
  reading of the call.\<close>

theorem AcquireLock_is_step:
  assumes "manager_store (ms p) rt Z tbl clk"
    and "run_state (AcquireLock rt (ms p) ns n reason) w = (Ok token, w')"
    and "lw_tbl s = tbl w" "nanos (clk w') \<le> lw_now s + D" "token \<notin> lw_tokens s"
  shows "lock_step ms Z D ns n s (s\<lparr> lw_tbl := tbl w', lw_tokens := insert token (lw_tokens s),
           lw_held := (lw_held s)(p \<mapsto> (token, clk w')), lw_cut := lw_cut s - {p} \<rparr>)"
  by (rule lock_step.acquire [where reason = reason])
     (use wpD [OF assms(2) manager_store.acquire_contract [OF assms(1)]] assms(3-5) in simp_all)

theorem AcquireLock_is_step_witness:
  "\<exists>token w' s. lock_step (mem_manager False) 0 0 ''ns'' ''g'' s (s\<lparr> lw_tbl := mem_tbl w',
     lw_tokens := insert token (lw_tokens s), lw_held := (lw_held s)(''west'' \<mapsto> (token, mem_time w')),
     lw_cut := lw_cut s - {''west''} \<rparr>)"
proof -
  have "wp (AcquireLock mem_runtime (mem_manager False ''west'') ''ns'' ''g'' ''why'') (\<lambda>r w'. is_ok r) mem_demo"
    by (rule mem_mgr.wp_AcquireLock_ok) simp_all
  then obtain token w' where
    r: "run_state (AcquireLock mem_runtime (mem_manager False ''west'') ''ns'' ''g'' ''why'') mem_demo = (Ok token, w')"
    by (auto simp: wp_def is_ok_iff)
  let ?s = "(demo_lock_world (mem_tbl mem_demo))\<lparr> lw_now := nanos (mem_time w') \<rparr>"
  have "lock_step (mem_manager False) 0 0 ''ns'' ''g'' ?s (?s\<lparr> lw_tbl := mem_tbl w',
     lw_tokens := insert token (lw_tokens ?s), lw_held := (lw_held ?s)(''west'' \<mapsto> (token, mem_time w')),
     lw_cut := lw_cut ?s - {''west''} \<rparr>)"
    by (rule AcquireLock_is_step [where ms = "mem_manager False" and p = "''west''", OF mem_manager_store r])
       (simp_all add: demo_lock_world_def)
  then show ?thesis by blast
qed

text \<open>The other two operations that write the lock are steps too, whatever they report. A process that
  gives its token to ReleaseLock makes a release step, or (when the write was lost) forgets its lease;
  DeleteLock makes a deletion step or leaves the table.\<close>

theorem ReleaseLock_DeleteLock_are_steps:
  assumes "manager_store (ms p) rt Z tbl clk" "lw_tbl s = tbl w"
  shows "(lw_held s p = Some (token, stamp) \<and> run_state (ReleaseLock (ms p) ns n token) w = (r, w') \<longrightarrow>
      lock_step ms Z D ns n s (s\<lparr> lw_tbl := tbl w', lw_held := (lw_held s)(p := None) \<rparr>)) \<and>
    (run_state (DeleteLock (ms p) ns n) w = (r, w') \<longrightarrow> tbl w' = tbl w \<or>
      lock_step ms Z D ns n s (s\<lparr> lw_tbl := tbl w', lw_cut := lw_cut s \<union> {q. lw_held s q \<noteq> None} \<rparr>))"
proof (intro conjI impI, elim conjE)
  assume held: "lw_held s p = Some (token, stamp)" and run: "run_state (ReleaseLock (ms p) ns n token) w = (r, w')"
  have "atomic_write (lock_dropped (ms p) ns n token (tbl w)) (tbl w) (tbl w') r"
    by (rule wpD [OF run], rule manager_store.wp_ReleaseLock [OF assms(1)])
  then consider "tbl w' = tbl w" | "lock_dropped (ms p) ns n token (tbl w) = Some (tbl w')"
    by (cases r) (auto simp: atomic_write_def)
  then show "lock_step ms Z D ns n s (s\<lparr> lw_tbl := tbl w', lw_held := (lw_held s)(p := None) \<rparr>)"
    using lock_step.crash [of ms Z D ns n s p] lock_step.release [OF held, of ms Z D ns n]
    by cases (simp_all add: assms(2) [symmetric])
next
  assume run: "run_state (DeleteLock (ms p) ns n) w = (r, w')"
  have "tbl w' = tbl w \<or> tbl w' = (tbl w)(lock_key (ms p) ns n := None)"
    by (rule wpD [OF run manager_store.delete_lock_contract [OF assms(1)]])
  with lock_step.delete [of ms Z D ns n s p] show "tbl w' = tbl w \<or>
      lock_step ms Z D ns n s (s\<lparr> lw_tbl := tbl w', lw_cut := lw_cut s \<union> {q. lw_held s q \<noteq> None} \<rparr>)"
    by (auto simp: assms(2))
qed

definition demo_locked_world :: "string lock_world" where
  "demo_locked_world = (demo_lock_world (mem_tbl mem_locked))\<lparr> lw_tokens := {''token-e''},
     lw_held := [''east'' \<mapsto> (''token-e'', mem_time mem_empty)] \<rparr>"

theorem ReleaseLock_DeleteLock_are_steps_witness:
  "lock_step (mem_manager False) 0 0 ''ns'' ''g'' demo_locked_world (demo_locked_world\<lparr>
     lw_tbl := mem_tbl (snd (run_state (ReleaseLock (mem_manager False ''east'') ''ns'' ''g'' ''token-e'') mem_locked)),
     lw_held := \<lambda>p. None \<rparr>)"
  using ReleaseLock_DeleteLock_are_steps [where ms = "mem_manager False" and p = "''east''" and s = demo_locked_world
      and D = 0, OF mem_manager_store, THEN conjunct1, rule_format, OF _ conjI, OF _ _ surjective_pairing]
  by (simp add: demo_locked_world_def demo_lock_world_def)

section \<open>Zones\<close>

text \<open>C22: A dead lease of a cluster in another zone can stay closed: when the lease is over, but the
  caller's wall clock still shows an earlier time than the wall clock of the holder showed for its end,
  IsLocked (which compares times) finds the lock free and the write (which compares texts) does not.
  AcquireLock reports that another process holds the lock, and the table stays.\<close>

theorem dead_lease_stays_closed:
  assumes "manager_reliable m rt Z tbl clk"
    and "tbl w (lock_key m ns n) = Some (lock_item m0 ns0 n0 reason0 stamp token0)" "clock_ok Z0 stamp"
    and "nanos stamp + lock_lease < nanos (clk w)"
    and "run_state (AcquireLock rt m ns n reason) w = (r, w')"
    and "wall_seconds (clk w') < wall_seconds (time_add stamp lock_lease)"
  shows "r = Err (ErrorString ''lock already held by another process'') \<and> tbl w' = tbl w"
  using wpD [OF assms(5) manager_reliable.acquire_dead [OF assms(1-4)]] assms(6) by blast

definition mem_dead_lock :: mem where
  "mem_dead_lock = mem_with [group_config_item (demo_config ''east'' '''' 2),
     lock_item (mem_manager False ''east'') ''ns'' ''g'' ''why''
       \<lparr> nanos = 1735686000 * second, zone = 7200 \<rparr> ''token-e'']"

lemma mem_dead_lock_facts:
  "mem_tbl mem_dead_lock (''GROUP#op#ns#g'', ''LOCK'') = Some (lock_item (mem_manager False ''east'') ''ns'' ''g'' ''why''
     \<lparr> nanos = 1735686000 * second, zone = 7200 \<rparr> ''token-e'')"
  "mem_time mem_dead_lock = \<lparr> nanos = 1735689600 * second, zone = 0 \<rparr>"
  "mem_ticks (snd (run_state (AcquireLock mem_runtime (mem_manager False ''west'') ''ns'' ''g'' ''mine'') mem_dead_lock)) = 2"
  by (simp add: mem_dead_lock_def mem_tbl_with, simp add: mem_dead_lock_def mem_with_def mem_time_def, code_simp)

text \<open>The lease of a holder at UTC+2 ended fifty minutes ago; a caller at UTC cannot take the lock.\<close>

theorem dead_lease_stays_closed_witness:
  "fst (run_state (AcquireLock mem_runtime (mem_manager False ''west'') ''ns'' ''g'' ''mine'') mem_dead_lock) =
     Err (ErrorString ''lock already held by another process'')"
proof -
  obtain r w' where r: "run_state (AcquireLock mem_runtime (mem_manager False ''west'') ''ns'' ''g'' ''mine'')
      mem_dead_lock = (r, w')" by (metis surj_pair)
  have stamp: "clock_ok 7200 \<lparr> nanos = 1735686000 * second, zone = 7200 \<rparr>"
    by (simp add: clock_ok_def zone_ok_def wall_seconds_def unix_def second_def)
  have late: "wall_seconds (mem_time w') < wall_seconds (time_add \<lparr> nanos = 1735686000 * second, zone = 7200 \<rparr> lock_lease)"
    using mem_dead_lock_facts(3) by (simp add: r mem_time_def wall_seconds_def unix_def time_add_def lock_lease_def second_def)
  have lock: "mem_tbl mem_dead_lock (lock_key (mem_manager False ''west'') ''ns'' ''g'') =
      Some (lock_item (mem_manager False ''east'') ''ns'' ''g'' ''why'' \<lparr> nanos = 1735686000 * second, zone = 7200 \<rparr> ''token-e'')"
    using mem_dead_lock_facts(1) by simp
  show ?thesis
    using dead_lease_stays_closed [OF mem_mgr.manager_reliable_axioms lock stamp _ r late] mem_dead_lock_facts(2)
    by (simp add: r lock_lease_def second_def)
qed

end
