(* ===== verification/Volume_State.thy ===== *)
theory Volume_State
  imports Operations_Manager
begin

text \<open>
  dynamodb/volume_state.go: the volume state kept in a group's metadata, and heartbeats. The
  manager and its client exist (the nil checks of UpdateHeartbeat pass).

  \<open>json_map\<close> stands for encoding/json's Unmarshal into a \<open>map[string]ComponentStatus\<close>: nothing for
  an error, else the map, which is nil for the text \<open>null\<close>. The conversions below use it on the
  components' text of a status record.
\<close>

definition VolumeStateReady :: string where "VolumeStateReady = ''READY_FOR_PROMOTION''"
definition VolumeStatePromoted :: string where "VolumeStatePromoted = ''PROMOTED''"
definition VolumeStateCompleted :: string where "VolumeStateCompleted = ''COMPLETED''"
definition VolumeStateFailed :: string where "VolumeStateFailed = ''FAILED''"

section \<open>Volume state\<close>

definition GetVolumeState ::
    "'w go_runtime \<Rightarrow> 'w base_manager \<Rightarrow> string \<Rightarrow> string \<Rightarrow> ('w, string outcome) state" where
  "GetVolumeState rt m namespace groupName =
     check (GetGroupState rt m namespace groupName) (wrapf ''failed to get group state'')
       (\<lambda>groupState. ret (mg_VolumeState groupState))"

definition SetVolumeState ::
    "'w go_runtime \<Rightarrow> 'w base_manager \<Rightarrow> string \<Rightarrow> string \<Rightarrow> string \<Rightarrow> ('w, unit outcome) state" where
  "SetVolumeState rt m namespace groupName st =
     check (GetGroupConfig rt m namespace groupName) (wrapf ''failed to get group config'')
       (\<lambda>config.
          case gc_Metadata config of
            None \<Rightarrow> raise (ErrorString ''metadata field not available for storing volume state'')
          | Some metadata \<Rightarrow> do {
              now \<leftarrow> time_now rt;
              (r, _) \<leftarrow> UpdateGroupConfig rt m
                (config\<lparr> gc_Metadata := Some (map_put ''volumeStateUpdateTime'' (format_rfc3339 now)
                                                (map_put ''volumeState'' st metadata)) \<rparr>);
              State_Monad.return r
            })"

definition RemoveVolumeState ::
    "'w go_runtime \<Rightarrow> 'w base_manager \<Rightarrow> string \<Rightarrow> string \<Rightarrow> ('w, unit outcome) state" where
  "RemoveVolumeState rt m namespace groupName =
     check (GetGroupConfig rt m namespace groupName) (wrapf ''failed to get group config'')
       (\<lambda>config. do {
          (r, _) \<leftarrow> UpdateGroupConfig rt m
            (case gc_Metadata config of
               None \<Rightarrow> config
             | Some metadata \<Rightarrow>
                 config\<lparr> gc_Metadata := Some (map_del ''volumeStateUpdateTime'' (map_del ''volumeState'' metadata)) \<rparr>);
          State_Monad.return r
        })"

section \<open>Heartbeats\<close>

text \<open>\<open>json.Marshal\<close> of a map of components: the keys in order.\<close>

definition json_component :: "component_status \<Rightarrow> string" where
  "json_component c =
     ''{'' @ json_string ''health'' @ '':'' @ json_string (co_Health c) @ '','' @
     json_string ''message'' @ '':'' @ json_string (co_Message c) @ ''}''"

fun intercalate :: "string \<Rightarrow> string list \<Rightarrow> string" where
  "intercalate sep [] = ''''"
| "intercalate sep [x] = x"
| "intercalate sep (x # y # xs) = x @ sep @ intercalate sep (y # xs)"

fun insert_sorted :: "string \<times> 'a \<Rightarrow> (string \<times> 'a) list \<Rightarrow> (string \<times> 'a) list" where
  "insert_sorted p [] = [p]"
| "insert_sorted p (q # qs) = (if str_less (fst q) (fst p) then q # insert_sorted p qs else p # q # qs)"

definition sort_entries :: "(string \<times> 'a) list \<Rightarrow> (string \<times> 'a) list" where
  "sort_entries m = foldr insert_sorted m []"

definition json_components :: "(string \<times> component_status) list option \<Rightarrow> string" where
  "json_components m =
     (case m of None \<Rightarrow> ''null''
      | Some xs \<Rightarrow> ''{'' @ intercalate '','' (map (\<lambda>(k, c). json_string k @ '':'' @ json_component c) (sort_entries xs)) @ ''}'')"

definition reencode_components ::
    "(string \<Rightarrow> (string \<times> component_status) list option option) \<Rightarrow> string \<Rightarrow> string" where
  "reencode_components json_map components =
     json_components
       (if components \<noteq> '''' \<and> components \<noteq> ''{}''
        then (case json_map components of Some cm \<Rightarrow> cm | None \<Rightarrow> Some [])
        else Some [])"

definition UpdateHeartbeat ::
    "(string \<Rightarrow> (string \<times> component_status) list option option) \<Rightarrow> 'w go_runtime \<Rightarrow> 'w base_manager \<Rightarrow>
     string \<Rightarrow> string \<Rightarrow> string \<Rightarrow> ('w, unit outcome) state" where
  "UpdateHeartbeat json_map rt m namespace groupName clusterName =
     (if namespace = '''' then raise (ErrorString ''namespace cannot be empty'')
      else if groupName = '''' then raise (ErrorString ''group name cannot be empty'')
      else do {
        let clusterName =
          (if clusterName = '''' then (if bm_clusterName m = '''' then ''unknown-cluster'' else bm_clusterName m)
           else clusterName);
        now \<leftarrow> time_now rt;
        r \<leftarrow> GetClusterStatus rt m namespace groupName clusterName;
        (case r of
           Ok (Some s) \<Rightarrow> do {
             t \<leftarrow> time_now rt;
             UpdateClusterStatus rt m namespace groupName clusterName (cs_Health s) (cs_State s)
               (reencode_components json_map (cs_Components s))
           }
         | Panic \<Rightarrow> State_Monad.return Panic
         | _ \<Rightarrow> UpdateClusterStatus rt m namespace groupName clusterName HealthOK StatePrimary
                  (reencode_components json_map ''{}''))
      })"

end
