(* ===== verification/Volume_Properties.thy ===== *)
theory Volume_Properties
  imports State_Properties Volume_State
begin

text \<open>The properties of volume state and heartbeats, with concrete runs on the in-memory store.\<close>

section \<open>The contracts in closed form\<close>

context manager_store
begin

lemma set_volume_state_contract:
  "wp (SetVolumeState rt m ns n st) (\<lambda>r w'. is_err r \<and> only_created m ns n (tbl w) (tbl w')) w"
  unfolding SetVolumeState_def wp_simps
  by (rule wp_read_config_raised) (simp_all add: wp_simps)

lemma wp_GetFailoverHistory:
  assumes "\<And>r w'. tbl w' = tbl w \<Longrightarrow> clk w' = clk w \<Longrightarrow> r \<noteq> Panic \<Longrightarrow> Q r w'"
  shows "wp (GetFailoverHistory m ns n limit) Q w"
  unfolding GetFailoverHistory_def wp_simps
  by (rule wp_query) (auto simp: sk_prefix_query_def query_valid_def wp_simps intro!: assms)

lemma wp_GetGroupState:
  assumes "\<And>s w'. only_created m ns n (tbl w) (tbl w') \<Longrightarrow> mg_VolumeState s = '''' \<Longrightarrow> Q (Ok s) w'"
    "\<And>e w'. only_created m ns n (tbl w) (tbl w') \<Longrightarrow> Q (Err e) w'"
  shows "wp (GetGroupState rt m ns n) Q w"
  unfolding GetGroupState_def wp_simps
proof (rule wp_read_config_raised, goal_cases)
  case (1 it x w1)
  show ?case
    unfolding outcome.case wp_simps
  proof (rule wp_GetClusterStatus, rule wp_GetFailoverHistory, goal_cases)
    case (1 sr w2 hr w3)
    have "Q (Ok s) w4" if "tbl w4 = tbl w3" "mg_VolumeState s = ''''" for s w4
      using that 1 \<open>only_created m ns n (tbl w) (tbl w1)\<close> by (simp add: assms(1))
    then show ?case
      unfolding Let_def wp_simps by (intro wp_now) simp
  qed
next
  case (2 e w1)
  then show ?case by (simp add: assms(2))
qed

end

context manager_reliable
begin

lemma volume_refused:
  "wp (SetVolumeState rt m ns n st) (\<lambda>r w'. after_read m ns n (tbl w) (tbl w') \<and>
     r = Err (ErrorString ''metadata field not available for storing volume state'')) w"
  unfolding SetVolumeState_def wp_simps by (rule wp_read_config_ok) (simp add: wp_simps)

lemma wp_UpdateHeartbeat_ok:
  assumes "ns \<noteq> ''''" "n \<noteq> ''''"
    "c' = (if c = '''' then (if bm_clusterName m = '''' then ''unknown-cluster'' else bm_clusterName m) else c)"
    "\<And>w' h s j. nanos (clk w) \<le> nanos (clk w') \<Longrightarrow>
      (h, s) = (case tbl w (cluster_key m ns n c') of
          Some it \<Rightarrow> (or_else (get_S it ''health'') HealthOK, or_else (get_S it ''state'') StatePrimary)
        | None \<Rightarrow> (HealthOK, StatePrimary)) \<Longrightarrow>
      tbl w' = (tbl w)(cluster_key m ns n c' \<mapsto> cluster_status_item m ns n c' h s j (clk w')) \<Longrightarrow> Q (Ok ()) w'"
  shows "wp (UpdateHeartbeat json_map rt m ns n c) Q w"
  unfolding UpdateHeartbeat_def Let_def wp_simps if_not_P [OF assms(1)] if_not_P [OF assms(2)]
    assms(3) [symmetric]
proof (rule wp_now, rule wp_GetClusterStatus_ok, goal_cases)
  case (1 t w1 w2)
  show ?case
  proof (cases "tbl w (cluster_key m ns n c')")
    case None
    show ?thesis
      using 1 None by (simp add: wp_simps) (rule wp_UpdateClusterStatus_ok, rule assms(4), simp_all)
  next
    case (Some it)
    have "wp (time_now rt) (\<lambda>t. wp (UpdateClusterStatus rt m ns n c' (or_else (get_S it ''health'') HealthOK)
        (or_else (get_S it ''state'') StatePrimary) j) Q) w2" for j
      by (rule wp_now, rule wp_UpdateClusterStatus_ok, rule assms(4)) (use 1 Some in simp_all)
    then show ?thesis
      using 1 Some by (simp add: wp_simps read_status_fields_def initial_status_def)
  qed
qed

lemma wp_RemoveVolumeState_ok:
  assumes "tbl w (config_key m ns n) = Some it" "get_N it ''version'' = Some (show_int v)" "int64 v"
    "\<And>c w'. gc_LastFailover c = None \<Longrightarrow> gc_Metadata c = None \<Longrightarrow> gc_Version c = wrap64 (v + 1) \<Longrightarrow>
      gc_OwnerCluster c = or_else (get_S it ''ownerCluster'') '''' \<Longrightarrow>
      tbl w' = (tbl w)(config_key m ns n \<mapsto> group_config_item c) \<Longrightarrow> Q (Ok ()) w'"
  shows "wp (RemoveVolumeState rt m ns n) Q w"
  unfolding RemoveVolumeState_def wp_simps
proof (rule wp_GetGroupConfig_ok, goal_cases)
  case (1 it' w1)
  then have it': "it' = it" and t1: "tbl w1 = tbl w" using assms(1) by simp_all
  have v: "gc_Version (config_of_item it) = v"
    using assms(2,3) by (simp add: config_of_item_def unmarshalDynamoDBItem_def get_int_def parseInt_def
        scan_int_show_int)
  have k: "(gc_PK (config_of_item it), gc_SK (config_of_item it)) = config_key m ns n"
    by (rule config_key_of_item [OF stored_tbl assms(1)])
  have ok: "version_matches (tbl w (config_key m ns n)) v"
    using assms(1,2) by (auto simp: version_matches_def get_N_def split: option.splits attribute_value.splits)
  have cas: "config_cas (tbl w) v (stamped (config_of_item it) now) =
      Some ((tbl w)(config_key m ns n \<mapsto> group_config_item (stamped (config_of_item it) now)))" for now
    using k ok by (simp add: config_cas_def stamped_def)
  show ?case
    unfolding outcome.case it' wp_simps config_of_item_simps option.case
  proof (rule wp_UpdateGroupConfig_ok, goal_cases)
    case (1 w2)
    then show ?case
      using cas [of "clk w2"] v t1
      by (simp add: wp_simps) (rule assms(4) [of "stamped (config_of_item it) (clk w2)"],
          simp_all add: stamped_def config_of_item_owner)
  next
    case (2 w2)
    then show ?case using cas [of "clk w2"] v t1 by simp
  qed
next
  case (2 w1)
  then show ?case using assms(1) by simp
qed

end

section \<open>Volume state\<close>



text \<open>GetVolumeState answers the empty text whenever it answers.\<close>

theorem GetVolumeState_empty:
  assumes "manager_store m rt Z tbl clk" "run_state (GetVolumeState rt m ns n) w = (r, w')"
  shows "is_err r \<or> r = Ok ''''"
proof (rule wpD [OF assms(2)], unfold GetVolumeState_def wp_simps, rule manager_store.wp_GetGroupState [OF assms(1)],
    goal_cases)
  case (1 s w')
  then show ?case by (simp add: wp_simps)
next
  case (2 e w')
  then show ?case by simp
qed

theorem GetVolumeState_empty_witness:
  "\<exists>r. fst (run_state (GetVolumeState mem_runtime (mem_manager False ''east'') ''ns'' ''g'') mem_demo) = r \<and>
     (is_err r \<or> r = Ok '''')"
  using GetVolumeState_empty [OF mem_manager_store] by (metis prod.collapse)

text \<open>RemoveVolumeState rewrites the configuration, and with it erases the reference to the last
  failover and all other metadata the item had.\<close>

theorem RemoveVolumeState_erases:
  assumes "manager_reliable m rt Z tbl clk"
    and "tbl w (config_key m ns n) = Some it" "get_N it ''version'' = Some (show_int v)" "int64 v"
    and "run_state (RemoveVolumeState rt m ns n) w = (r, w')"
  shows "r = Ok () \<and> (\<exists>it'. tbl w' = (tbl w)(config_key m ns n \<mapsto> it') \<and>
    map_of it' ''lastFailover'' = None \<and> map_of it' ''metadata'' = None \<and>
    get_S it' ''ownerCluster'' = Some (or_else (get_S it ''ownerCluster'') ''''))"
proof (rule wpD [OF assms(5)], rule manager_reliable.wp_RemoveVolumeState_ok [of m rt Z tbl clk w ns n it v, OF assms(1-4)],
    goal_cases)
  case (1 c w')
  have "map_of (group_config_item c) ''lastFailover'' = None" "map_of (group_config_item c) ''metadata'' = None"
    using 1(1,2) by (simp_all add: group_config_item_def)
  with 1 show ?case by (intro conjI exI [of _ "group_config_item c"]) simp_all
qed

theorem RemoveVolumeState_erases_witness:
  "fst (run_state (RemoveVolumeState mem_runtime (mem_manager False ''east'') ''ns'' ''g'') mem_demo) = Ok ()"
proof -
  obtain r w' where r: "run_state (RemoveVolumeState mem_runtime (mem_manager False ''east'') ''ns'' ''g'')
      mem_demo = (r, w')" by (metis surj_pair)
  have "mem_tbl mem_demo (config_key (mem_manager False ''east'') ''ns'' ''g'') =
      Some (group_config_item (demo_config ''east'' '''' 2))" by simp
  moreover have "int64 2" by (simp add: int64_def int64_min_def int64_max_def)
  ultimately show ?thesis
    using RemoveVolumeState_erases [OF mem_mgr.manager_reliable_axioms _ _ _ r, where v = 2] r by simp
qed

section \<open>Heartbeats\<close>

text \<open>A heartbeat writes the cluster's record anew with the present time: health and state stay
  what they were, a missing record is created as a healthy primary, and no other item changes.\<close>

theorem UpdateHeartbeat_keeps_status:
  assumes "manager_reliable m rt Z tbl clk" "ns \<noteq> ''''" "n \<noteq> ''''" "c \<noteq> ''''"
    and "run_state (UpdateHeartbeat json_map rt m ns n c) w = (r, w')"
  shows "r = Ok () \<and> (\<exists>h s j.
    tbl w' = (tbl w)(cluster_key m ns n c \<mapsto> cluster_status_item m ns n c h s j (clk w')) \<and>
    (h, s) = (case tbl w (cluster_key m ns n c) of
        Some it \<Rightarrow> (or_else (get_S it ''health'') HealthOK, or_else (get_S it ''state'') StatePrimary)
      | None \<Rightarrow> (HealthOK, StatePrimary)))"
  by (rule wpD [OF assms(5)], rule manager_reliable.wp_UpdateHeartbeat_ok [where c' = c, OF assms(1-3)])
     (use assms(4) in auto)

theorem UpdateHeartbeat_keeps_status_witness:
  "fst (run_state (UpdateHeartbeat (\<lambda>s. Some (Some [])) mem_runtime (mem_manager False ''east'') ''ns'' ''g''
     ''west'') mem_demo) = Ok ()"
proof -
  obtain r w' where r: "run_state (UpdateHeartbeat (\<lambda>s. Some (Some [])) mem_runtime (mem_manager False ''east'')
      ''ns'' ''g'' ''west'') mem_demo = (r, w')" by (metis surj_pair)
  show ?thesis
    using UpdateHeartbeat_keeps_status [OF mem_mgr.manager_reliable_axioms _ _ _ r] r by simp
qed

end
