(* ===== verification/Service_Cache.thy ===== *)
theory Service_Cache
  imports Volume_State
begin

text \<open>
  dynamodb/manager.go: the service the controllers talk to. It answers some reads from an
  in-memory cache, whose entries live for \<open>cacheTTL\<close>, and passes the other operations to the
  managers. The state is the outside world together with the cache. A manager pointer of the
  service may be nil (an option). A cached record is a value here: in Go the caller gets a
  pointer to it, and no caller in the repository writes through that pointer.
\<close>

section \<open>The service and its cache\<close>

record 'v cache_entry =
  ce_Value :: 'v
  ce_Expiration :: go_time

record service_cache =
  ca_groupConfigs :: "(string \<times> group_config_record cache_entry) list"
  ca_clusterStatuses :: "(string \<times> cluster_status_record cache_entry) list"
  ca_groupStates :: "(string \<times> manager_group_state cache_entry) list"

record 'w dynamo_service =
  sv_base :: "'w base_manager"
  sv_operations :: "'w base_manager option"
  sv_volumeState :: "'w base_manager option"
  sv_cacheEnabled :: bool
  sv_cacheTTL :: int

type_synonym ('w, 'a) service_action = "('w \<times> service_cache, 'a) state"

definition empty_cache :: service_cache where
  "empty_cache = \<lparr> ca_groupConfigs = [], ca_clusterStatuses = [], ca_groupStates = [] \<rparr>"

text \<open>An operation of a manager leaves the cache alone.\<close>

definition uncached :: "('w, 'a) state \<Rightarrow> ('w, 'a) service_action" where
  "uncached m = State (\<lambda>(w, c). case run_state m w of (r, w') \<Rightarrow> (r, (w', c)))"

definition read_cache :: "(service_cache \<Rightarrow> 'a) \<Rightarrow> ('w, 'a) service_action" where
  "read_cache f = State (\<lambda>(w, c). (f c, (w, c)))"

definition change_cache :: "(service_cache \<Rightarrow> service_cache) \<Rightarrow> ('w, unit) service_action" where
  "change_cache f = State (\<lambda>(w, c). ((), (w, f c)))"

text \<open>NewDynamoDBService: \<open>hostname\<close> is what os.Hostname answers, if anything.\<close>

definition NewDynamoDBService ::
    "'w dynamo_client \<Rightarrow> string \<Rightarrow> string \<Rightarrow> string \<Rightarrow> string option \<Rightarrow> 'w dynamo_service" where
  "NewDynamoDBService client tableName clusterName operatorID hostname =
     (let tableName = (if tableName = '''' then ''FailoverOperator'' else tableName);
          operatorID = (if operatorID = '''' then ''default-operator'' else operatorID);
          clusterName =
            (if clusterName = ''''
             then (case hostname of Some h \<Rightarrow> if h \<noteq> '''' then h else ''unknown-cluster'' | None \<Rightarrow> ''unknown-cluster'')
             else clusterName);
          base = \<lparr> bm_client = client, bm_tableName = tableName, bm_clusterName = clusterName,
                   bm_operatorID = operatorID \<rparr>
      in \<lparr> sv_base = base, sv_operations = Some base, sv_volumeState = Some base,
           sv_cacheEnabled = True, sv_cacheTTL = 30 * second \<rparr>)"

definition groupConfigKey :: "string \<Rightarrow> string \<Rightarrow> string" where
  "groupConfigKey namespace name = ''config:'' @ namespace @ '':'' @ name"

definition clusterStatusKey :: "string \<Rightarrow> string \<Rightarrow> string \<Rightarrow> string" where
  "clusterStatusKey namespace name clusterName = ''status:'' @ namespace @ '':'' @ name @ '':'' @ clusterName"

definition groupStateKey :: "string \<Rightarrow> string \<Rightarrow> string" where
  "groupStateKey namespace name = ''state:'' @ namespace @ '':'' @ name"

text \<open>A cached value that has not expired.\<close>

definition cache_hit :: "(string \<times> 'v cache_entry) list \<Rightarrow> string \<Rightarrow> go_time \<Rightarrow> 'v option" where
  "cache_hit es k now =
     (case map_of es k of
        Some e \<Rightarrow> if time_after (ce_Expiration e) now then Some (ce_Value e) else None
      | None \<Rightarrow> None)"

definition unexpired :: "go_time \<Rightarrow> (string \<times> 'v cache_entry) list \<Rightarrow> (string \<times> 'v cache_entry) list" where
  "unexpired now es = filter (\<lambda>(k, e). \<not> time_before (ce_Expiration e) now) es"

definition cleanupExpiredEntries :: "'w go_runtime \<Rightarrow> ('w, unit) service_action" where
  "cleanupExpiredEntries rt = do {
     now \<leftarrow> uncached (time_now rt);
     change_cache (\<lambda>c. \<lparr> ca_groupConfigs = unexpired now (ca_groupConfigs c),
                         ca_clusterStatuses = unexpired now (ca_clusterStatuses c),
                         ca_groupStates = unexpired now (ca_groupStates c) \<rparr>)
   }"

text \<open>The goroutine that cleans up at each tick; its context is never cancelled in the code, so it runs for
  every number of ticks.\<close>

definition cleanupInterval :: "'w dynamo_service \<Rightarrow> int" where
  "cleanupInterval s =
     (let i = go_quot (sv_cacheTTL s) 4 in if i < 10 * second then 10 * second else i)"

fun startCacheCleanup :: "'w go_runtime \<Rightarrow> 'w dynamo_service \<Rightarrow> nat \<Rightarrow> ('w, unit) service_action" where
  "startCacheCleanup rt s 0 = State_Monad.return ()"
| "startCacheCleanup rt s (Suc ticks) = do {
     stopped \<leftarrow> uncached (timer_wait rt (cleanupInterval s));
     (case stopped of
        Some _ \<Rightarrow> State_Monad.return ()
      | None \<Rightarrow> do {
          _ \<leftarrow> cleanupExpiredEntries rt;
          startCacheCleanup rt s ticks
        })
   }"

section \<open>Cached reads and invalidating writes\<close>

definition svc_GetGroupConfig ::
    "'w go_runtime \<Rightarrow> 'w dynamo_service \<Rightarrow> string \<Rightarrow> string \<Rightarrow>
     ('w, group_config_record outcome) service_action" where
  "svc_GetGroupConfig rt s namespace name =
     (if \<not> sv_cacheEnabled s then uncached (GetGroupConfig rt (sv_base s) namespace name)
      else do {
        let cacheKey = groupConfigKey namespace name;
        es \<leftarrow> read_cache ca_groupConfigs;
        now \<leftarrow> uncached (time_now rt);
        (case cache_hit es cacheKey now of
           Some config \<Rightarrow> ret config
         | None \<Rightarrow>
             check (uncached (GetGroupConfig rt (sv_base s) namespace name)) (\<lambda>e. e)
               (\<lambda>config. do {
                  change_cache (\<lambda>c. c\<lparr> ca_groupConfigs := map_put cacheKey
                    \<lparr> ce_Value = config, ce_Expiration = time_add now (sv_cacheTTL s) \<rparr> (ca_groupConfigs c) \<rparr>);
                  ret config
                }))
      })"

definition svc_UpdateGroupConfig ::
    "'w go_runtime \<Rightarrow> 'w dynamo_service \<Rightarrow> group_config_record \<Rightarrow> ('w, unit outcome) service_action" where
  "svc_UpdateGroupConfig rt s config = do {
     (r, config') \<leftarrow> uncached (UpdateGroupConfig rt (sv_base s) config);
     (case r of
        Ok _ \<Rightarrow>
          if sv_cacheEnabled s
          then do {
            change_cache (\<lambda>c. c\<lparr> ca_groupConfigs :=
              map_del (groupConfigKey (gc_GroupNamespace config') (gc_GroupName config')) (ca_groupConfigs c) \<rparr>);
            ret ()
          }
          else ret ()
      | _ \<Rightarrow> State_Monad.return r)
   }"

definition svc_GetClusterStatus ::
    "'w go_runtime \<Rightarrow> 'w dynamo_service \<Rightarrow> string \<Rightarrow> string \<Rightarrow> string \<Rightarrow>
     ('w, cluster_status_record option outcome) service_action" where
  "svc_GetClusterStatus rt s namespace name clusterName =
     (if \<not> sv_cacheEnabled s then uncached (GetClusterStatus rt (sv_base s) namespace name clusterName)
      else do {
        let cacheKey = clusterStatusKey namespace name clusterName;
        es \<leftarrow> read_cache ca_clusterStatuses;
        now \<leftarrow> uncached (time_now rt);
        (case cache_hit es cacheKey now of
           Some status \<Rightarrow> ret (Some status)
         | None \<Rightarrow>
             check (uncached (GetClusterStatus rt (sv_base s) namespace name clusterName)) (\<lambda>e. e)
               (\<lambda>status. case status of
                  None \<Rightarrow> ret None
                | Some st \<Rightarrow> do {
                    change_cache (\<lambda>c. c\<lparr> ca_clusterStatuses := map_put cacheKey
                      \<lparr> ce_Value = st, ce_Expiration = time_add now (sv_cacheTTL s) \<rparr> (ca_clusterStatuses c) \<rparr>);
                    ret (Some st)
                  }))
      })"

definition svc_UpdateClusterStatus ::
    "'w go_runtime \<Rightarrow> 'w dynamo_service \<Rightarrow> string \<Rightarrow> string \<Rightarrow> string \<Rightarrow> string \<Rightarrow> string \<Rightarrow> string \<Rightarrow>
     ('w, unit outcome) service_action" where
  "svc_UpdateClusterStatus rt s namespace name clusterName health st componentsJSON =
     check (uncached (UpdateClusterStatus rt (sv_base s) namespace name clusterName health st componentsJSON)) (\<lambda>e. e)
       (\<lambda>_. if sv_cacheEnabled s
            then do {
              change_cache (\<lambda>c. c\<lparr> ca_clusterStatuses :=
                map_del (clusterStatusKey namespace name clusterName) (ca_clusterStatuses c) \<rparr>);
              change_cache (\<lambda>c. c\<lparr> ca_groupStates := map_del (groupStateKey namespace name) (ca_groupStates c) \<rparr>);
              ret ()
            }
            else ret ())"

definition svc_GetGroupState ::
    "'w go_runtime \<Rightarrow> 'w dynamo_service \<Rightarrow> string \<Rightarrow> string \<Rightarrow>
     ('w, manager_group_state outcome) service_action" where
  "svc_GetGroupState rt s namespace name =
     (if \<not> sv_cacheEnabled s then uncached (GetGroupState rt (sv_base s) namespace name)
      else do {
        let cacheKey = groupStateKey namespace name;
        es \<leftarrow> read_cache ca_groupStates;
        now \<leftarrow> uncached (time_now rt);
        (case cache_hit es cacheKey now of
           Some st \<Rightarrow> ret st
         | None \<Rightarrow>
             check (uncached (GetGroupState rt (sv_base s) namespace name)) (\<lambda>e. e)
               (\<lambda>st. do {
                  change_cache (\<lambda>c. c\<lparr> ca_groupStates := map_put cacheKey
                    \<lparr> ce_Value = st, ce_Expiration = time_add now (sv_cacheTTL s) \<rparr> (ca_groupStates c) \<rparr>);
                  ret st
                }))
      })"

definition svc_ClearCache :: "'w dynamo_service \<Rightarrow> ('w, unit) service_action" where
  "svc_ClearCache s = (if \<not> sv_cacheEnabled s then State_Monad.return () else change_cache (\<lambda>c. empty_cache))"

section \<open>Delegation\<close>

text \<open>A method that passes its arguments to a manager, or reports that there is none.\<close>

definition delegate ::
    "'w base_manager option \<Rightarrow> string \<Rightarrow> ('w base_manager \<Rightarrow> ('w, 'a outcome) state) \<Rightarrow>
     ('w, 'a outcome) service_action" where
  "delegate x msg f = (case x of None \<Rightarrow> raise (ErrorString msg) | Some m \<Rightarrow> uncached (f m))"

definition svc_ExecuteFailover where
  "svc_ExecuteFailover rt s namespace name failoverName targetCluster reason forceFastMode =
     delegate (sv_operations s) ''operationsManager is nil, cannot execute failover''
       (\<lambda>m. ExecuteFailover rt m namespace name failoverName targetCluster reason forceFastMode)"

definition svc_ExecuteFailback where
  "svc_ExecuteFailback rt s namespace name reason =
     delegate (sv_operations s) ''operationsManager is nil, cannot execute failback''
       (\<lambda>m. ExecuteFailback rt m namespace name reason)"

definition svc_ValidateFailoverPreconditions where
  "svc_ValidateFailoverPreconditions rt s namespace name targetCluster skipHealthCheck =
     delegate (sv_operations s) ''operationsManager is nil, cannot validate failover preconditions''
       (\<lambda>m. ValidateFailoverPreconditions rt m namespace name targetCluster skipHealthCheck)"

definition svc_UpdateSuspension where
  "svc_UpdateSuspension rt s namespace name suspended reason =
     delegate (sv_operations s) ''operationsManager is nil, cannot update suspension''
       (\<lambda>m. UpdateSuspension rt m namespace name suspended reason)"

definition svc_AcquireLock where
  "svc_AcquireLock rt s namespace name reason =
     delegate (sv_operations s) ''operationsManager is nil, cannot acquire lock''
       (\<lambda>m. AcquireLock rt m namespace name reason)"

definition svc_ReleaseLock where
  "svc_ReleaseLock s namespace name leaseToken =
     delegate (sv_operations s) ''operationsManager is nil, cannot release lock''
       (\<lambda>m. ReleaseLock m namespace name leaseToken)"

definition svc_IsLocked where
  "svc_IsLocked rt s namespace name =
     delegate (sv_operations s) ''operationsManager is nil, cannot check lock status''
       (\<lambda>m. IsLocked rt m namespace name)"

definition svc_DetectAndReportProblems where
  "svc_DetectAndReportProblems s namespace name =
     delegate (sv_operations s) ''operationsManager is nil, cannot detect problems''
       (\<lambda>m. DetectAndReportProblems m namespace name)"

definition svc_GetVolumeState where
  "svc_GetVolumeState rt s namespace groupName =
     delegate (sv_volumeState s) ''volumeStateManager is nil, cannot get volume state''
       (\<lambda>m. GetVolumeState rt m namespace groupName)"

definition svc_SetVolumeState where
  "svc_SetVolumeState rt s namespace groupName st =
     delegate (sv_volumeState s) ''volumeStateManager is nil, cannot set volume state''
       (\<lambda>m. SetVolumeState rt m namespace groupName st)"

definition svc_UpdateHeartbeat where
  "svc_UpdateHeartbeat json_map rt s namespace groupName clusterName =
     delegate (sv_volumeState s) ''volumeStateManager is nil, cannot update heartbeat''
       (\<lambda>m. UpdateHeartbeat json_map rt m namespace groupName clusterName)"

definition svc_RemoveVolumeState where
  "svc_RemoveVolumeState rt s namespace groupName =
     delegate (sv_volumeState s) ''volumeStateManager is nil, cannot remove volume state''
       (\<lambda>m. RemoveVolumeState rt m namespace groupName)"

text \<open>The two stubs of the service.\<close>

definition svc_SyncClusterState ::
    "'w dynamo_service \<Rightarrow> string \<Rightarrow> string \<Rightarrow> ('w, unit outcome) service_action" where
  "svc_SyncClusterState s namespace name = ret ()"

definition svc_DetectStaleHeartbeats ::
    "'w dynamo_service \<Rightarrow> string \<Rightarrow> string \<Rightarrow> ('w, string list outcome) service_action" where
  "svc_DetectStaleHeartbeats s namespace name = ret []"

definition svc_GetAllClusterStatuses where
  "svc_GetAllClusterStatuses rt s namespace name =
     uncached (GetAllClusterStatuses rt (sv_base s) namespace name)"

text \<open>TransferOwnership does not check its manager.\<close>

definition svc_TransferOwnership where
  "svc_TransferOwnership rt s namespace name newOwner =
     (case sv_operations s of
        None \<Rightarrow> State_Monad.return Panic
      | Some m \<Rightarrow> uncached (TransferOwnership rt m namespace name newOwner))"

end
