(* ===== verification/Service_Properties.thy ===== *)
theory Service_Properties
  imports Service_Cache Operations_Properties State_Properties
begin

text \<open>The properties of the service and its cache, with concrete runs on the in-memory store.\<close>

section \<open>Running service actions\<close>

lemma run_uncached [simp]:
  "run_state (uncached m) (w, c) = (fst (run_state m w), (snd (run_state m w), c))"
  by (simp add: uncached_def split: prod.splits)

lemma run_read_cache [simp]: "run_state (read_cache f) (w, c) = (f c, (w, c))"
  by (simp add: read_cache_def)

lemma run_change_cache [simp]: "run_state (change_cache f) (w, c) = ((), (w, f c))"
  by (simp add: change_cache_def)

lemma run_try_or:
  "run_state (try_or m h k) w =
   (case run_state m w of (r, w') \<Rightarrow>
      (case r of Ok x \<Rightarrow> run_state (k x) w' | Err e \<Rightarrow> run_state (h e) w' | Panic \<Rightarrow> (Panic, w')))"
  by (simp add: try_or_def split: prod.splits outcome.splits)

lemma run_check:
  "run_state (check m f k) w =
   (case run_state m w of (r, w') \<Rightarrow>
      (case r of Ok x \<Rightarrow> run_state (k x) w' | Err e \<Rightarrow> (Err (f e), w') | Panic \<Rightarrow> (Panic, w')))"
  by (simp add: check_def run_try_or raise_def split: prod.splits outcome.splits)

lemma run_ret [simp]: "run_state (ret x) w = (Ok x, w)"
  by (simp add: ret_def)

lemma run_raise [simp]: "run_state (raise e) w = (Err e, w)"
  by (simp add: raise_def)

lemma run_delegate:
  "run_state (delegate (Some m) msg f) (w, c) = (fst (run_state (f m) w), (snd (run_state (f m) w), c))"
  by (simp add: delegate_def)

section \<open>The cache of configurations\<close>

lemma svc_hit:
  assumes "sv_cacheEnabled s" "run_state (time_now rt) w = (now, w1)"
    "cache_hit (ca_groupConfigs c) (groupConfigKey ns n) now = Some v"
  shows "run_state (svc_GetGroupConfig rt s ns n) (w, c) = (Ok v, (w1, c))"
  using assms by (simp add: svc_GetGroupConfig_def Let_def)

lemma svc_miss:
  assumes "sv_cacheEnabled s" "run_state (time_now rt) w = (now, w1)"
    "cache_hit (ca_groupConfigs c) (groupConfigKey ns n) now = None"
    "run_state (GetGroupConfig rt (sv_base s) ns n) w1 = (r, w2)"
  shows "run_state (svc_GetGroupConfig rt s ns n) (w, c) =
    (r, (w2, case r of Ok v \<Rightarrow> c\<lparr> ca_groupConfigs := map_put (groupConfigKey ns n)
                    \<lparr> ce_Value = v, ce_Expiration = time_add now (sv_cacheTTL s) \<rparr> (ca_groupConfigs c) \<rparr>
              | _ \<Rightarrow> c))"
  using assms by (simp add: svc_GetGroupConfig_def Let_def run_check split: outcome.splits)

text \<open>A read that finds an unexpired entry answers it without asking the database, and a read
  that does not asks the database and keeps the answer for the cache's time to live.\<close>

theorem svc_GetGroupConfig_cached:
  assumes "sv_cacheEnabled s" "run_state (time_now rt) w = (now, w1)"
  shows "run_state (svc_GetGroupConfig rt s ns n) (w, c) =
    (case cache_hit (ca_groupConfigs c) (groupConfigKey ns n) now of
       Some v \<Rightarrow> (Ok v, (w1, c))
     | None \<Rightarrow> (case run_state (GetGroupConfig rt (sv_base s) ns n) w1 of (r, w2) \<Rightarrow>
         (r, (w2, case r of Ok v \<Rightarrow> c\<lparr> ca_groupConfigs := map_put (groupConfigKey ns n)
                    \<lparr> ce_Value = v, ce_Expiration = time_add now (sv_cacheTTL s) \<rparr> (ca_groupConfigs c) \<rparr>
              | _ \<Rightarrow> c))))"
  using svc_hit [OF assms] svc_miss [OF assms] by (auto split: option.splits prod.splits)

definition mem_service :: "string \<Rightarrow> mem dynamo_service" where
  "mem_service c = NewDynamoDBService (mem_client ''T'' False) ''T'' c ''op'' None"

lemma mem_service_sel [simp]:
  "c \<noteq> '''' \<Longrightarrow> sv_base (mem_service c) = mem_manager False c"
  "c \<noteq> '''' \<Longrightarrow> sv_operations (mem_service c) = Some (mem_manager False c)"
  "sv_cacheEnabled (mem_service c) = True" "sv_cacheTTL (mem_service c) = 30 * second"
  by (simp_all add: mem_service_def NewDynamoDBService_def Let_def mem_manager_def)

definition demo_cache :: service_cache where
  "demo_cache = empty_cache\<lparr> ca_groupConfigs :=
     [(''config:ns:g'', \<lparr> ce_Value = demo_config ''east'' '''' 2,
        ce_Expiration = time_add (mem_time mem_empty) (30 * second) \<rparr>)] \<rparr>"

theorem svc_GetGroupConfig_cached_witness:
  "fst (run_state (svc_GetGroupConfig mem_runtime (mem_service ''west'') ''ns'' ''g'') (mem_moved, demo_cache))
     = Ok (demo_config ''east'' '''' 2)"
proof -
  have t: "run_state (time_now mem_runtime) mem_moved =
      (mem_time (mem_moved\<lparr> mem_ticks := 1 \<rparr>), mem_moved\<lparr> mem_ticks := 1 \<rparr>)"
    by (simp add: mem_runtime_def mem_now_def mem_moved_def mem_with_def Let_def)
  have "cache_hit (ca_groupConfigs demo_cache) (groupConfigKey ''ns'' ''g'') (mem_time (mem_moved\<lparr> mem_ticks := 1 \<rparr>)) =
      Some (demo_config ''east'' '''' 2)"
    by (simp add: cache_hit_def demo_cache_def groupConfigKey_def time_after_def time_add_def mem_time_def
        mem_empty_def second_def)
  then show ?thesis
    by (subst svc_GetGroupConfig_cached [OF _ t]) simp_all
qed

text \<open>After a successful UpdateGroupConfig the service asks the database for that group's
  configuration again.\<close>

theorem svc_UpdateGroupConfig_invalidates:
  assumes "sv_cacheEnabled s" "run_state (svc_UpdateGroupConfig rt s config) (w, c) = (Ok u, (w1, c1))"
    and "run_state (time_now rt) w1 = (now, w2)"
    and "run_state (GetGroupConfig rt (sv_base s) (gc_GroupNamespace config) (gc_GroupName config)) w2 = (r, w3)"
  shows "fst (run_state (svc_GetGroupConfig rt s (gc_GroupNamespace config) (gc_GroupName config)) (w1, c1)) = r"
proof -
  obtain r0 config' w' where u: "run_state (UpdateGroupConfig rt (sv_base s) config) w = ((r0, config'), w')"
    by (metis surj_pair)
  have n: "gc_GroupNamespace config' = gc_GroupNamespace config" "gc_GroupName config' = gc_GroupName config"
    using u by (auto simp: UpdateGroupConfig_def Let_def split: prod.splits)
  have "c1 = c\<lparr> ca_groupConfigs := map_del (groupConfigKey (gc_GroupNamespace config) (gc_GroupName config))
      (ca_groupConfigs c) \<rparr>"
    using assms(1,2) by (auto simp: svc_UpdateGroupConfig_def u n split: outcome.splits)
  then have "cache_hit (ca_groupConfigs c1) (groupConfigKey (gc_GroupNamespace config) (gc_GroupName config)) now = None"
    by (simp add: cache_hit_def)
  from svc_miss [OF assms(1,3) this assms(4)] show ?thesis by simp
qed

theorem svc_UpdateGroupConfig_invalidates_witness:
  "\<exists>w1 c1 w2 r. run_state (svc_UpdateGroupConfig mem_runtime (mem_service ''east'') (demo_config ''east'' '''' 2))
       (mem_demo, demo_cache) = (Ok (), (w1, c1)) \<and>
     fst (run_state (GetGroupConfig mem_runtime (mem_manager False ''east'') ''ns'' ''g'') w2) = r \<and>
     fst (run_state (svc_GetGroupConfig mem_runtime (mem_service ''east'') ''ns'' ''g'') (w1, c1)) = r"
proof -
  obtain c' w1 where u: "run_state (UpdateGroupConfig mem_runtime (mem_manager False ''east'')
      (demo_config ''east'' '''' 2)) mem_demo = ((Ok (), c'), w1)"
    using mem_demo_update by blast
  define c1 where "c1 = demo_cache\<lparr> ca_groupConfigs :=
      map_del (groupConfigKey (gc_GroupNamespace c') (gc_GroupName c')) (ca_groupConfigs demo_cache) \<rparr>"
  have s: "run_state (svc_UpdateGroupConfig mem_runtime (mem_service ''east'') (demo_config ''east'' '''' 2))
       (mem_demo, demo_cache) = (Ok (), (w1, c1))"
    by (simp add: svc_UpdateGroupConfig_def u c1_def)
  obtain now w2 where t: "run_state (time_now mem_runtime) w1 = (now, w2)" by (metis surj_pair)
  obtain r w3 where g: "run_state (GetGroupConfig mem_runtime (sv_base (mem_service ''east''))
      (gc_GroupNamespace (demo_config ''east'' '''' 2)) (gc_GroupName (demo_config ''east'' '''' 2))) w2 = (r, w3)"
    by (metis surj_pair)
  have n: "gc_GroupNamespace (demo_config ''east'' '''' 2) = ''ns''" "gc_GroupName (demo_config ''east'' '''' 2) = ''g''"
    by (simp_all add: demo_config_def default_group_config_def)
  show ?thesis
    using s g svc_UpdateGroupConfig_invalidates [OF _ s t g] unfolding n
    by (intro exI [of _ w1] exI [of _ c1] exI [of _ w2] exI [of _ r]) simp
qed

text \<open>C27: A failover goes past the cache: until the cached configuration expires, the service keeps
  answering the owner from before a failover that it has itself reported as done.\<close>

theorem svc_ExecuteFailover_leaves_stale_owner:
  assumes "manager_store m rt Z tbl clk" "sv_base s = m" "sv_operations s = Some m" "sv_cacheEnabled s"
    and "map_of (ca_groupConfigs c) (groupConfigKey ns n) = Some e"
    and "gc_OwnerCluster (ce_Value e) = owner_of m ns n (tbl w)"
    and "run_state (svc_ExecuteFailover rt s ns n name target reason force) (w, c) = (Ok u, (w1, c1))"
    and "run_state (svc_GetGroupConfig rt s ns n) (w1, c1) = (r, (w2, c2))"
    and "nanos (clk w2) < nanos (ce_Expiration e)"
  shows "\<exists>config. r = Ok config \<and> owner_of m ns n (tbl w2) = target \<and> gc_OwnerCluster config \<noteq> target"
proof -
  have f: "run_state (ExecuteFailover rt m ns n name target reason force) w = (Ok u, w1)" "c1 = c"
    using assms(3,7) by (simp_all add: svc_ExecuteFailover_def run_delegate prod_eq_iff)
  obtain now w' where t: "run_state (time_now rt) w1 = (now, w')" by (metis surj_pair)
  have l: "tbl w' = tbl w1" "clk w' = now"
    using wpD [OF t, of "\<lambda>t w'. tbl w' = tbl w1 \<and> clk w' = t"]
      manager_store.axioms [OF assms(1), THEN dynamo_store.wp_now, of w1 "\<lambda>t w'. tbl w' = tbl w1 \<and> clk w' = t"]
    by simp_all
  show ?thesis
  proof (cases "nanos now < nanos (ce_Expiration e)")
    case True
    then have h: "cache_hit (ca_groupConfigs c1) (groupConfigKey ns n) now = Some (ce_Value e)"
      by (simp add: cache_hit_def assms(5) f(2) time_after_def)
    have "r = Ok (ce_Value e)" "w2 = w'"
      using svc_hit [OF assms(4) t h] assms(8) by simp_all
    then show ?thesis
      using wpD [OF f(1) manager_store.failover_contract [OF assms(1)]] l(1) assms(6)
      by (simp add: transfer_step_def moved_def)
  next
    case False
    then have h: "cache_hit (ca_groupConfigs c1) (groupConfigKey ns n) now = None"
      by (simp add: cache_hit_def assms(5) f(2) time_after_def)
    obtain r0 w3 where g: "run_state (GetGroupConfig rt (sv_base s) ns n) w' = (r0, w3)" by (metis surj_pair)
    then have "nanos (clk w') \<le> nanos (clk w3)"
      using wpD [OF g [unfolded assms(2)], of "\<lambda>r v. nanos (clk w') \<le> nanos (clk v)"]
        manager_store.wp_GetGroupConfig [OF assms(1), of w' ns n "\<lambda>r v. nanos (clk w') \<le> nanos (clk v)"]
      by simp
    moreover have "w2 = w3" using svc_miss [OF assms(4) t h g] assms(8) by simp
    ultimately show ?thesis using False assms(9) l(2) by simp
  qed
qed

definition long_cache :: service_cache where
  "long_cache = empty_cache\<lparr> ca_groupConfigs :=
     [(''config:ns:g'', \<lparr> ce_Value = demo_config ''east'' '''' 2,
        ce_Expiration = \<lparr> nanos = (1735689600 + 1000000001) * second, zone = 0 \<rparr> \<rparr>)] \<rparr>"

theorem svc_ExecuteFailover_leaves_stale_owner_witness:
  "\<exists>w1 w2 c2 config. run_state (svc_ExecuteFailover mem_runtime (mem_service ''west'') ''ns'' ''g'' ''f1'' ''west''
       ''why'' False) (mem_demo, long_cache) = (Ok (), (w1, long_cache)) \<and>
     run_state (svc_GetGroupConfig mem_runtime (mem_service ''west'') ''ns'' ''g'') (w1, long_cache)
       = (Ok config, (w2, c2)) \<and> gc_OwnerCluster config \<noteq> ''west''"
proof -
  obtain w1 where f: "run_state (ExecuteFailover mem_runtime (mem_manager False ''west'') ''ns'' ''g'' ''f1''
      ''west'' ''why'' False) mem_demo = (Ok (), w1)"
    using mem_demo_failover by blast
  have s: "run_state (svc_ExecuteFailover mem_runtime (mem_service ''west'') ''ns'' ''g'' ''f1'' ''west''
       ''why'' False) (mem_demo, long_cache) = (Ok (), (w1, long_cache))"
    by (simp add: svc_ExecuteFailover_def run_delegate f)
  obtain r w2 c2 where g: "run_state (svc_GetGroupConfig mem_runtime (mem_service ''west'') ''ns'' ''g'')
      (w1, long_cache) = (r, (w2, c2))" by (metis surj_pair)
  have e: "map_of (ca_groupConfigs long_cache) (groupConfigKey ''ns'' ''g'') = Some
      \<lparr> ce_Value = demo_config ''east'' '''' 2,
        ce_Expiration = \<lparr> nanos = (1735689600 + 1000000001) * second, zone = 0 \<rparr> \<rparr>"
    by (simp add: long_cache_def groupConfigKey_def)
  have "\<exists>config. r = Ok config \<and>
      owner_of (mem_manager False ''west'') ''ns'' ''g'' (mem_tbl w2) = ''west'' \<and> gc_OwnerCluster config \<noteq> ''west''"
    by (rule svc_ExecuteFailover_leaves_stale_owner [OF mem_manager_store _ _ _ e _ s g])
       (simp_all add: mem_time_def second_def)
  then show ?thesis using s g by blast
qed

lemma cache_hit_unexpired:
  "distinct (map fst es) \<Longrightarrow> nanos now \<le> nanos now' \<Longrightarrow>
   cache_hit (unexpired now es) k now' = cache_hit es k now'"
proof (induction es)
  case (Cons x es)
  obtain k' e where x: "x = (k', e)" by (cases x)
  have "map_of (unexpired now es) k' = None"
    using Cons.prems(1) by (auto simp: x unexpired_def map_of_eq_None_iff)
  moreover have "map_of es k' = None"
    using Cons.prems(1) by (auto simp: x map_of_eq_None_iff)
  ultimately show ?case
    using Cons.IH Cons.prems
    by (auto simp: x cache_hit_def unexpired_def time_before_def time_after_def)
qed (simp add: cache_hit_def unexpired_def)

text \<open>Removing expired entries never changes what a later read finds in the cache.\<close>

theorem cleanupExpiredEntries_transparent:
  assumes "run_state (time_now rt) w = (now, w1)" "nanos now \<le> nanos now'"
    and "distinct (map fst (ca_groupConfigs c))" "distinct (map fst (ca_clusterStatuses c))"
      "distinct (map fst (ca_groupStates c))"
    and "run_state (cleanupExpiredEntries rt) (w, c) = ((), (w1, c1))"
  shows "cache_hit (ca_groupConfigs c1) k now' = cache_hit (ca_groupConfigs c) k now' \<and>
    cache_hit (ca_clusterStatuses c1) k now' = cache_hit (ca_clusterStatuses c) k now' \<and>
    cache_hit (ca_groupStates c1) k now' = cache_hit (ca_groupStates c) k now'"
  using assms by (auto simp: cleanupExpiredEntries_def cache_hit_unexpired)

theorem cleanupExpiredEntries_transparent_witness:
  "\<exists>w1 c1. run_state (cleanupExpiredEntries mem_runtime) (mem_demo, demo_cache) = ((), (w1, c1)) \<and>
     cache_hit (ca_groupConfigs c1) ''config:ns:g'' (mem_time (mem_demo\<lparr> mem_ticks := 29 \<rparr>))
       = Some (demo_config ''east'' '''' 2)"
proof -
  have t: "run_state (time_now mem_runtime) mem_demo =
      (mem_time (mem_demo\<lparr> mem_ticks := 1 \<rparr>), mem_demo\<lparr> mem_ticks := 1 \<rparr>)"
    by (simp add: mem_runtime_def mem_now_def mem_demo_def mem_with_def Let_def)
  obtain c1 where r: "run_state (cleanupExpiredEntries mem_runtime) (mem_demo, demo_cache) =
      ((), (mem_demo\<lparr> mem_ticks := 1 \<rparr>, c1))"
    by (simp add: cleanupExpiredEntries_def t)
  have "nanos (mem_time (mem_demo\<lparr> mem_ticks := 1 \<rparr>)) \<le> nanos (mem_time (mem_demo\<lparr> mem_ticks := 29 \<rparr>))"
    by (simp add: mem_time_def second_def)
  then have "cache_hit (ca_groupConfigs c1) ''config:ns:g'' (mem_time (mem_demo\<lparr> mem_ticks := 29 \<rparr>)) =
      cache_hit (ca_groupConfigs demo_cache) ''config:ns:g'' (mem_time (mem_demo\<lparr> mem_ticks := 29 \<rparr>))"
    using cleanupExpiredEntries_transparent [OF t _ _ _ _ r]
    by (auto simp: demo_cache_def empty_cache_def)
  also have "\<dots> = Some (demo_config ''east'' '''' 2)"
    by (simp add: cache_hit_def demo_cache_def time_after_def time_add_def mem_time_def mem_empty_def second_def)
  finally show ?thesis using r by blast
qed

context manager_store
begin

lemma waited: "run_state (timer_wait rt d) w = (c, w') \<Longrightarrow> tbl w' = tbl w \<and> clk w' = clk w"
  by (rule timer_law)

lemma clocked:
  "run_state (time_now rt) w = (t, w') \<Longrightarrow> tbl w' = tbl w \<and> clk w' = t \<and> nanos (clk w) \<le> nanos t"
  using now_law by blast

end

lemma distinct_unexpired: "distinct (map fst es) \<Longrightarrow> distinct (map fst (unexpired now es))"
  unfolding unexpired_def by (rule distinct_map_filter)

lemma run_cleanupExpiredEntries:
  "run_state (time_now rt) w = (now, w1) \<Longrightarrow>
   run_state (cleanupExpiredEntries rt) (w, c) = ((), (w1,
     \<lparr> ca_groupConfigs = unexpired now (ca_groupConfigs c), ca_clusterStatuses = unexpired now (ca_clusterStatuses c),
       ca_groupStates = unexpired now (ca_groupStates c) \<rparr>))"
  by (simp add: cleanupExpiredEntries_def)

text \<open>C28: However long the goroutine that cleans the cache has been running, a later read finds in the
  cache what it would have found without it, and the table is untouched.\<close>

theorem startCacheCleanup_transparent:
  assumes "manager_store m rt Z tbl clk"
    and "distinct (map fst (ca_groupConfigs c))" "distinct (map fst (ca_clusterStatuses c))"
      "distinct (map fst (ca_groupStates c))"
    and "run_state (startCacheCleanup rt s ticks) (w, c) = ((), (w1, c1))" "nanos (clk w1) \<le> nanos later"
  shows "tbl w1 = tbl w \<and> cache_hit (ca_groupConfigs c1) k later = cache_hit (ca_groupConfigs c) k later \<and>
    cache_hit (ca_clusterStatuses c1) k later = cache_hit (ca_clusterStatuses c) k later \<and>
    cache_hit (ca_groupStates c1) k later = cache_hit (ca_groupStates c) k later"
proof -
  have "nanos (clk w) \<le> nanos (clk w1) \<and> (nanos (clk w1) \<le> nanos later \<longrightarrow> tbl w1 = tbl w \<and>
      cache_hit (ca_groupConfigs c1) k later = cache_hit (ca_groupConfigs c) k later \<and>
      cache_hit (ca_clusterStatuses c1) k later = cache_hit (ca_clusterStatuses c) k later \<and>
      cache_hit (ca_groupStates c1) k later = cache_hit (ca_groupStates c) k later)"
    using assms(2-5)
  proof (induction ticks arbitrary: w c)
    case (Suc ticks)
    obtain stopped w2 where wait: "run_state (timer_wait rt (cleanupInterval s)) w = (stopped, w2)" by (metis surj_pair)
    note w2 = manager_store.waited [OF assms(1) wait]
    show ?case
    proof (cases stopped)
      case None
      obtain now w3 where now: "run_state (time_now rt) w2 = (now, w3)" by (metis surj_pair)
      note w3 = manager_store.clocked [OF assms(1) now]
      from Suc.prems(4) None wait have "run_state (startCacheCleanup rt s ticks) (w3,
          \<lparr> ca_groupConfigs = unexpired now (ca_groupConfigs c), ca_clusterStatuses = unexpired now (ca_clusterStatuses c),
            ca_groupStates = unexpired now (ca_groupStates c) \<rparr>) = ((), (w1, c1))"
        by (simp add: run_cleanupExpiredEntries [OF now])
      from Suc.IH [OF _ _ _ this] Suc.prems(1-3) w2 w3 show ?thesis
        by (auto simp: distinct_unexpired cache_hit_unexpired)
    qed (use Suc.prems wait w2 in auto)
  qed simp
  with assms(6) show ?thesis by simp
qed

theorem startCacheCleanup_transparent_witness:
  "\<exists>w1 c1. run_state (startCacheCleanup mem_runtime (mem_service ''west'') 3) (mem_demo, demo_cache) = ((), (w1, c1)) \<and>
     cache_hit (ca_groupConfigs c1) ''config:ns:g'' (mem_time w1) =
       cache_hit (ca_groupConfigs demo_cache) ''config:ns:g'' (mem_time w1)"
proof -
  obtain w1 c1 where r: "run_state (startCacheCleanup mem_runtime (mem_service ''west'') 3) (mem_demo, demo_cache) =
      ((), (w1, c1))"
    by (metis surj_pair unit.exhaust)
  then show ?thesis
    using startCacheCleanup_transparent [OF mem_manager_store _ _ _ r] by (auto simp: demo_cache_def empty_cache_def)
qed

end
