(* ===== verification/Retry_Client.thy ===== *)
theory Retry_Client
  imports Complex_Main Dynamo_Store
begin

text \<open>
  dynamodb/retry_client.go: a client that repeats requests which failed with a retryable error.

  Whether an error is retried depends on its dynamic type: \<open>et_Retryable\<close> is the answer of the
  method Retryable of the errors that have one, \<open>et_Type\<close> the name \<open>%T\<close> prints. errors.Is is left
  out: it compares pointers, and the values of RetryableErrors are made for the configuration.
  The backoff is computed over the reals: the rounding of float64 is left out.
\<close>

record error_types =
  et_Retryable :: "go_error \<Rightarrow> bool option"
  et_Type :: "go_error \<Rightarrow> string"

text \<open>RetryableErrors by their type names.\<close>

record retry_config =
  rc_MaxRetries :: int
  rc_InitialBackoffMs :: int
  rc_MaxBackoffMs :: int
  rc_BackoffMultiplier :: real
  rc_RetryableErrors :: "string list"

definition DefaultRetryConfig :: retry_config where
  "DefaultRetryConfig =
     \<lparr> rc_MaxRetries = 5, rc_InitialBackoffMs = 100, rc_MaxBackoffMs = 5000, rc_BackoffMultiplier = 2,
       rc_RetryableErrors = [''*types.ProvisionedThroughputExceededException'', ''*types.InternalServerError'',
         ''*types.LimitExceededException'', ''*types.TransactionConflictException''] \<rparr>"

definition IsRetryable :: "error_types \<Rightarrow> retry_config \<Rightarrow> go_error \<Rightarrow> bool" where
  "IsRetryable ty cfg err \<longleftrightarrow>
     (case et_Retryable ty err of
        Some b \<Rightarrow> b
      | None \<Rightarrow> et_Type ty err \<in> set (rc_RetryableErrors cfg))"

text \<open>The cancellation reasons of the first TransactionCanceledException in the chain.\<close>

fun cancellation_reasons :: "go_error \<Rightarrow> (string option \<times> string option) list" where
  "cancellation_reasons (ErrorString s) = []"
| "cancellation_reasons (ServiceError code txt rs) = (if code = ''TransactionCanceledException'' then rs else [])"
| "cancellation_reasons (Wrapped pre e post) = cancellation_reasons e"

text \<open>The map from item index to text, in the order of the indices.\<close>

definition reason_text :: "string option \<times> string option \<Rightarrow> string option" where
  "reason_text r =
     (case r of (code, msg) \<Rightarrow>
        (case code of
           None \<Rightarrow> None
         | Some c \<Rightarrow> if c = '''' then None
                     else Some (case msg of Some t \<Rightarrow> if t \<noteq> '''' then c @ '': '' @ t else c | None \<Rightarrow> c)))"

definition ExtractTransactionErrors :: "go_error \<Rightarrow> (nat \<times> string) list" where
  "ExtractTransactionErrors err =
     List.map_filter (\<lambda>(i, r). map_option (\<lambda>t. (i, t)) (reason_text r))
       (zip [0..<length (cancellation_reasons err)] (cancellation_reasons err))"

definition calculateBackoff :: "retry_config \<Rightarrow> nat \<Rightarrow> int" where
  "calculateBackoff cfg attempt =
     (let backoffMs = of_int (rc_InitialBackoffMs cfg) * rc_BackoffMultiplier cfg ^ attempt;
          jitterFactor = 8 / 10 + 4 / 10 * \<bar>sin (real attempt)\<bar>;
          backoffMs = backoffMs * jitterFactor;
          backoffMs = (if of_int (rc_MaxBackoffMs cfg) < backoffMs then of_int (rc_MaxBackoffMs cfg) else backoffMs);
          ms = (if backoffMs < 0 then \<lceil>backoffMs\<rceil> else \<lfloor>backoffMs\<rfloor>)
      in wrap64 (ms * 1000000))"

text \<open>The loop from a given attempt on; \<open>lastErr\<close> is nil before the first one.\<close>

function retry_from ::
    "error_types \<Rightarrow> 'w go_runtime \<Rightarrow> retry_config \<Rightarrow> string \<Rightarrow> ('w, 'a outcome) state \<Rightarrow>
     nat \<Rightarrow> go_error option \<Rightarrow> ('w, 'a outcome) state" where
  "retry_from ty rt cfg operation fn attempt lastErr =
     (if int attempt \<le> rc_MaxRetries cfg
      then do {
        cancelled \<leftarrow> (if 0 < attempt then timer_wait rt (calculateBackoff cfg attempt)
                      else State_Monad.return None);
        (case cancelled of
           Some e \<Rightarrow> raise (Wrapped (''operation '' @ operation @ '' cancelled during retry: '') e '''')
         | None \<Rightarrow> try_or fn
             (\<lambda>err. if \<not> IsRetryable ty cfg err
                    then raise (Wrapped (''non-retryable error in '' @ operation @ '': '') err '''')
                    else retry_from ty rt cfg operation fn (Suc attempt) (Some err))
             (\<lambda>result. ret result))
      }
      else
        let pre = ''operation '' @ operation @ '' failed after '' @ show_int (rc_MaxRetries cfg) @ '' retries: '' in
        raise (case lastErr of Some e \<Rightarrow> Wrapped pre e '''' | None \<Rightarrow> ErrorString (pre @ ''%!w(<nil>)'')))"
  by pat_completeness auto
termination
  by (relation "measure (\<lambda>(ty, rt, cfg, operation, fn, attempt, lastErr).
        nat (rc_MaxRetries cfg + 1 - int attempt))") auto

declare retry_from.simps [simp del]

definition retryOperation ::
    "error_types \<Rightarrow> 'w go_runtime \<Rightarrow> retry_config \<Rightarrow> string \<Rightarrow> ('w, 'a outcome) state \<Rightarrow>
     ('w, 'a outcome) state" where
  "retryOperation ty rt cfg operation fn = retry_from ty rt cfg operation fn 0 None"

text \<open>\<open>%v\<close> of the map of item errors.\<close>

fun join_spaced :: "string list \<Rightarrow> string" where
  "join_spaced [] = ''''"
| "join_spaced [x] = x"
| "join_spaced (x # y # xs) = x @ '' '' @ join_spaced (y # xs)"

definition show_item_errors :: "(nat \<times> string) list \<Rightarrow> string" where
  "show_item_errors es = ''map['' @ join_spaced (map (\<lambda>(i, t). show_nat i @ '':'' @ t) es) @ '']''"

definition retry_TransactWriteItems ::
    "error_types \<Rightarrow> 'w go_runtime \<Rightarrow> retry_config \<Rightarrow> 'w dynamo_client \<Rightarrow>
     transact_write_input \<Rightarrow> ('w, unit outcome) state" where
  "retry_TransactWriteItems ty rt cfg dc params =
     try_or (retryOperation ty rt cfg ''TransactWriteItems'' (TransactWriteItems dc params))
       (\<lambda>err.
          if transaction_canceled err \<and> ExtractTransactionErrors err \<noteq> []
          then raise (Wrapped ''transaction failed: '' err
                 ('' (item errors: '' @ show_item_errors (ExtractTransactionErrors err) @ '')''))
          else raise err)
       (\<lambda>result. ret result)"

text \<open>The client: every method of the interface by way of retryOperation.\<close>

definition RetryingDynamoDBClient ::
    "error_types \<Rightarrow> 'w go_runtime \<Rightarrow> retry_config \<Rightarrow> 'w dynamo_client \<Rightarrow> 'w dynamo_client" where
  "RetryingDynamoDBClient ty rt cfg dc =
     \<lparr> GetItem = (\<lambda>i. retryOperation ty rt cfg ''GetItem'' (GetItem dc i)),
       PutItem = (\<lambda>i. retryOperation ty rt cfg ''PutItem'' (PutItem dc i)),
       UpdateItem = (\<lambda>i. retryOperation ty rt cfg ''UpdateItem'' (UpdateItem dc i)),
       DeleteItem = (\<lambda>i. retryOperation ty rt cfg ''DeleteItem'' (DeleteItem dc i)),
       Query = (\<lambda>i. retryOperation ty rt cfg ''Query'' (Query dc i)),
       Scan = (\<lambda>i. retryOperation ty rt cfg ''Scan'' (Scan dc i)),
       TransactWriteItems = retry_TransactWriteItems ty rt cfg dc,
       BatchGetItem = (\<lambda>i. retryOperation ty rt cfg ''BatchGetItem'' (BatchGetItem dc i)),
       BatchWriteItem = (\<lambda>i. retryOperation ty rt cfg ''BatchWriteItem'' (BatchWriteItem dc i)) \<rparr>"

definition NewRetryingDynamoDBClient ::
    "error_types \<Rightarrow> 'w go_runtime \<Rightarrow> 'w dynamo_client \<Rightarrow> retry_config option \<Rightarrow> 'w dynamo_client" where
  "NewRetryingDynamoDBClient ty rt dc config =
     RetryingDynamoDBClient ty rt
       (case config of None \<Rightarrow> DefaultRetryConfig | Some cfg \<Rightarrow> cfg) dc"

section \<open>Facts about the loop\<close>

text \<open>A fact about failed attempts that every attempt and every wait keeps holds at the end; a
  success is the success of one attempt.\<close>

lemma wp_retry_from:
  assumes fn: "\<And>w. I w \<Longrightarrow> wp fn (\<lambda>r w'. case r of Ok x \<Rightarrow> P x w' | Err e \<Rightarrow> I w' | Panic \<Rightarrow> False) w"
    and timer: "\<And>w d. I w \<Longrightarrow> wp (timer_wait rt d) (\<lambda>c w'. I w') w"
  shows "I w \<Longrightarrow> wp (retry_from ty rt cfg operation fn attempt lastErr)
    (\<lambda>r w'. case r of Ok x \<Rightarrow> P x w' | Err e \<Rightarrow> I w' | Panic \<Rightarrow> False) w"
proof (induction k \<equiv> "nat (rc_MaxRetries cfg + 1 - int attempt)" arbitrary: attempt lastErr w rule: less_induct)
  case less
  let ?Q = "\<lambda>r w'. case r of Ok x \<Rightarrow> P x w' | Err e \<Rightarrow> I w' | Panic \<Rightarrow> False"
  show ?case
  proof (cases "int attempt \<le> rc_MaxRetries cfg")
    case True
    have again: "wp (retry_from ty rt cfg operation fn (Suc attempt) (Some e)) ?Q w'" if "I w'" for e w'
      by (rule less.hyps [OF _ that]) (use True in simp)
    have att: "wp (try_or fn
             (\<lambda>err. if \<not> IsRetryable ty cfg err
                    then raise (Wrapped (''non-retryable error in '' @ operation @ '': '') err '''')
                    else retry_from ty rt cfg operation fn (Suc attempt) (Some err))
             (\<lambda>result. ret result)) ?Q w'" if "I w'" for w'
      unfolding wp_simps
    proof (rule wp_mono [OF fn [OF that]], goal_cases)
      case (1 r w1)
      then show ?case by (cases r) (simp_all add: again)
    qed
    have wait: "wp (if 0 < attempt then timer_wait rt (calculateBackoff cfg attempt)
        else State_Monad.return None) (\<lambda>c w'. I w') w"
      using timer [OF less.prems] less.prems by (simp add: wp_simps)
    show ?thesis
    proof (subst retry_from.simps, subst if_P [OF True], subst wp_bind, rule wp_mono [OF wait], goal_cases)
      case (1 c w1)
      then show ?case by (cases c) (simp_all add: wp_raise att)
    qed
  next
    case False
    then show ?thesis
      by (subst retry_from.simps) (simp add: Let_def wp_raise less.prems)
  qed
qed

lemma wp_retryOperation:
  assumes "\<And>w. I w \<Longrightarrow> wp fn (\<lambda>r w'. case r of Ok x \<Rightarrow> P x w' | Err e \<Rightarrow> I w' | Panic \<Rightarrow> False) w"
    and "\<And>w d. I w \<Longrightarrow> wp (timer_wait rt d) (\<lambda>c w'. I w') w" and "I w"
  shows "wp (retryOperation ty rt cfg operation fn)
    (\<lambda>r w'. case r of Ok x \<Rightarrow> P x w' | Err e \<Rightarrow> I w' | Panic \<Rightarrow> False) w"
  unfolding retryOperation_def by (rule wp_retry_from [where I = I, OF assms(1,2,3)])

section \<open>The retrying client keeps the contract of the store\<close>

context dynamo_store
begin

lemma wp_timer: "tbl w = t \<and> clk w = c \<Longrightarrow> wp (timer_wait rt d) (\<lambda>r w'. tbl w' = t \<and> clk w' = c) w"
  by (rule wpI) (use timer_law in blast)

text \<open>A write that is done at most once more: doing it again changes nothing.\<close>

lemma retry_write:
  assumes fn: "\<And>w. wp fn (\<lambda>r w'. clk w' = clk w \<and> atomic_write (eff (tbl w)) (tbl w) (tbl w') r) w"
    and idem: "\<And>t u v. eff t = Some u \<Longrightarrow> eff u = Some v \<Longrightarrow> v = u"
  shows "wp (retryOperation ty rt cfg operation fn)
    (\<lambda>r w'. clk w' = clk w \<and> atomic_write (eff (tbl w)) (tbl w) (tbl w') r) w"
proof -
  let ?I = "\<lambda>w'. clk w' = clk w \<and> (tbl w' = tbl w \<or> eff (tbl w) = Some (tbl w'))"
  have "wp (retryOperation ty rt cfg operation fn) (\<lambda>r w'. case r of
      Ok x \<Rightarrow> clk w' = clk w \<and> eff (tbl w) = Some (tbl w') | Err e \<Rightarrow> ?I w' | Panic \<Rightarrow> False) w"
  proof (rule wp_retryOperation [where I = ?I])
    fix w1
    assume i: "?I w1"
    show "wp fn (\<lambda>r w'. case r of Ok x \<Rightarrow> clk w' = clk w \<and> eff (tbl w) = Some (tbl w') | Err e \<Rightarrow> ?I w'
        | Panic \<Rightarrow> False) w1"
    proof (rule wp_mono [OF fn], goal_cases)
      case (1 r w')
      then show ?case
        using i idem [of "tbl w" "tbl w1" "tbl w'"] by (cases r) (auto simp: atomic_write_def)
    qed
  next
    fix w1 d
    assume "?I w1"
    then show "wp (timer_wait rt d) (\<lambda>c w'. ?I w') w1"
      by (intro wpI) (use timer_law in \<open>metis\<close>)
  qed simp
  then show ?thesis
    by (rule wp_mono) (auto simp: atomic_write_def split: outcome.splits)
qed

text \<open>A read.\<close>

lemma retry_read:
  assumes "\<And>w. wp fn (\<lambda>r w'. tbl w' = tbl w \<and> clk w' = clk w \<and> r \<noteq> Panic \<and> (\<forall>x. r = Ok x \<longrightarrow> P x (tbl w))) w"
  shows "wp (retryOperation ty rt cfg operation fn)
    (\<lambda>r w'. tbl w' = tbl w \<and> clk w' = clk w \<and> r \<noteq> Panic \<and> (\<forall>x. r = Ok x \<longrightarrow> P x (tbl w))) w"
proof -
  let ?I = "\<lambda>w'. tbl w' = tbl w \<and> clk w' = clk w"
  have "wp (retryOperation ty rt cfg operation fn) (\<lambda>r w'. case r of
      Ok x \<Rightarrow> ?I w' \<and> P x (tbl w) | Err e \<Rightarrow> ?I w' | Panic \<Rightarrow> False) w"
  proof (rule wp_retryOperation [where I = ?I])
    fix w1
    assume i: "?I w1"
    show "wp fn (\<lambda>r w'. case r of Ok x \<Rightarrow> ?I w' \<and> P x (tbl w) | Err e \<Rightarrow> ?I w' | Panic \<Rightarrow> False) w1"
      by (rule wp_mono [OF assms]) (use i in \<open>auto split: outcome.splits\<close>)
  qed (simp_all add: wp_timer)
  then show ?thesis
    by (rule wp_mono) (auto split: outcome.splits)
qed

end

locale retrying_store = dynamo_store +
  fixes ty :: error_types and cfg :: retry_config

context retrying_store
begin

lemma retry_transact:
  assumes "\<forall>i \<in> set ti. ui_TableName i = T" "distinct (transact_keys ti)"
  shows "wp (retry_TransactWriteItems ty rt cfg dc ti)
    (\<lambda>r w'. clk w' = clk w \<and> atomic_write (transact_effect ti (tbl w)) (tbl w) (tbl w') r) w"
  unfolding retry_TransactWriteItems_def wp_simps
proof (rule wp_mono [OF retry_write [where eff = "transact_effect ti"]], goal_cases)
  case (1 w1)
  show ?case by (rule wpI) (rule transact_law [OF _ assms])
next
  case (2 t u v)
  then show ?case using transact_effect_idem assms(2) by blast
next
  case (3 r w')
  then show ?case by (cases r) (auto simp: atomic_write_def wp_simps)
qed

lemma retry_transact_duplicate:
  assumes "\<not> distinct (transact_keys ti)"
  shows "wp (retry_TransactWriteItems ty rt cfg dc ti)
    (\<lambda>r w'. tbl w' = tbl w \<and> clk w' = clk w \<and> is_err r) w"
  unfolding retry_TransactWriteItems_def wp_simps
proof (rule wp_mono [OF retry_read [where P = "\<lambda>x t. False"]], goal_cases)
  case (1 w1)
  show ?case by (rule wpI) (use transact_duplicate [OF _ assms] in fastforce)
next
  case (2 r w')
  then show ?case by (cases r) (auto simp: wp_simps)
qed

lemma retry_batch_write:
  "wp (retryOperation ty rt cfg op (BatchWriteItem dc wi)) (\<lambda>r w'. clk w' = clk w \<and> r \<noteq> Panic \<and>
      (\<exists>D \<subseteq> delete_keys (entries wi T). tbl w' = (\<lambda>k. if k \<in> D then None else tbl w k) \<and>
         (\<forall>un. r = Ok un \<longrightarrow> delete_keys (entries wi T) - delete_keys (entries un T) \<subseteq> D))) w"
proof -
  let ?B = "\<lambda>w'. clk w' = clk w \<and> (\<exists>D \<subseteq> delete_keys (entries wi T). tbl w' = (\<lambda>k. if k \<in> D then None else tbl w k))"
  let ?G = "\<lambda>un w'. clk w' = clk w \<and> (\<exists>D \<subseteq> delete_keys (entries wi T).
      tbl w' = (\<lambda>k. if k \<in> D then None else tbl w k) \<and>
      delete_keys (entries wi T) - delete_keys (entries un T) \<subseteq> D)"
  have "wp (retryOperation ty rt cfg op (BatchWriteItem dc wi))
      (\<lambda>r w'. case r of Ok un \<Rightarrow> ?G un w' | Err e \<Rightarrow> ?B w' | Panic \<Rightarrow> False) w"
  proof (rule wp_retryOperation [where I = ?B])
    fix w1
    assume "?B w1"
    then obtain D where D: "D \<subseteq> delete_keys (entries wi T)" "tbl w1 = (\<lambda>k. if k \<in> D then None else tbl w k)"
      "clk w1 = clk w" by blast
    show "wp (BatchWriteItem dc wi) (\<lambda>r w'. case r of Ok un \<Rightarrow> ?G un w' | Err e \<Rightarrow> ?B w' | Panic \<Rightarrow> False) w1"
    proof (rule wp_batch_write, goal_cases)
      case (1 r w' E)
      have "tbl w' = (\<lambda>k. if k \<in> D \<union> E then None else tbl w k)" using 1(4) D(2) by auto
      moreover have "D \<union> E \<subseteq> delete_keys (entries wi T)" using 1(3) D(1) by blast
      ultimately show ?case using 1(1,2,5) D(3) by (cases r) (auto intro!: exI [of _ "D \<union> E"])
    qed
  next
    fix w1 d
    assume "?B w1"
    then show "wp (timer_wait rt d) (\<lambda>c w'. ?B w') w1"
      by (intro wpI) (use timer_law in metis)
  qed (auto intro!: exI [of _ "{}"])
  then show ?thesis
    by (rule wp_mono) (auto split: outcome.splits)
qed

end

sublocale retrying_store \<subseteq> retried: dynamo_store "RetryingDynamoDBClient ty rt cfg dc" rt T Z tbl clk
proof (unfold_locales, goal_cases)
  case (1 w)
  show ?case by (rule stored_tbl)
next
  case (2 w t w')
  then show ?case by (rule now_law)
next
  case (3 w u w')
  then show ?case by (rule uuid_law)
next
  case (4 d w c w')
  then show ?case by (rule timer_law)
next
  case (5 gi w r w')
  show ?case
    by (rule wpD [OF 5(1) [unfolded RetryingDynamoDBClient_def dynamo_client.simps]], rule wp_mono,
        rule retry_read [where P = "\<lambda>it t. \<forall>k. gi_ConsistentRead gi \<and> item_key_of (gi_Key gi) = Some k \<longrightarrow>
          it = the_item (t k)"], rule wpI)
       (use get_law 5(2) in blast)+
next
  case (6 pi w r w')
  show ?case
    by (rule wpD [OF 6(1) [unfolded RetryingDynamoDBClient_def dynamo_client.simps]], rule retry_write,
        rule wpI, use put_law 6(2) in blast, rule put_effect_idem)
next
  case (7 ui w r w')
  show ?case
    by (rule wpD [OF 7(1) [unfolded RetryingDynamoDBClient_def dynamo_client.simps]], rule retry_write,
        rule wpI, use update_law 7(2) in blast, rule update_effect_idem)
next
  case (8 di w r w')
  show ?case
    by (rule wpD [OF 8(1) [unfolded RetryingDynamoDBClient_def dynamo_client.simps]], rule retry_write,
        rule wpI, use delete_law 8(2) in blast, rule delete_effect_idem)
next
  case (9 qi w r w')
  show ?case
    by (rule wpD [OF 9(1) [unfolded RetryingDynamoDBClient_def dynamo_client.simps]], rule retry_read
          [where P = "\<lambda>items u. \<exists>t ks. stored t \<and> (qi_ConsistentRead qi \<longrightarrow> t = u) \<and> query_page qi t ks items"],
        rule wpI)
       (use query_law 9(2,3) in blast)
next
  case (10 si w r w')
  show ?case
    by (rule wpD [OF 10(1) [unfolded RetryingDynamoDBClient_def dynamo_client.simps]], rule retry_read
          [where P = "\<lambda>items u. \<exists>t ks. stored t \<and> scan_page si t ks items"], rule wpI)
       (use scan_law 10(2) in blast)
next
  case (11 ti w r w')
  show ?case
    by (rule wpD [OF 11(1) [unfolded RetryingDynamoDBClient_def dynamo_client.simps]], rule retry_transact)
       (use 11 in auto)
next
  case (12 ti w r w')
  show ?case
    by (rule wpD [OF 12(1) [unfolded RetryingDynamoDBClient_def dynamo_client.simps]],
        rule retry_transact_duplicate [OF 12(2)])
next
  case (13 bi w r w')
  have "wp (retryOperation ty rt cfg ''BatchGetItem'' (BatchGetItem dc bi))
    (\<lambda>r w'. tbl w' = tbl w \<and> clk w' = clk w \<and> r \<noteq> Panic \<and> (\<forall>out. r = Ok out \<longrightarrow> bg_ConsistentRead bi \<longrightarrow>
         (\<forall>it \<in> set (entries (bgo_Responses out) T).
            \<exists>k \<in> keys_of (entries (bg_RequestItems bi) T). tbl w k = Some it))) w"
    by (rule retry_read [where P = "\<lambda>out u. bg_ConsistentRead bi \<longrightarrow>
         (\<forall>it \<in> set (entries (bgo_Responses out) T).
            \<exists>k \<in> keys_of (entries (bg_RequestItems bi) T). u k = Some it)"], rule wpI)
       (use batch_get_law in blast)
  from wpD [OF 13 [unfolded RetryingDynamoDBClient_def dynamo_client.simps] this]
  show ?case by blast
next
  case (14 wi w r w')
  show ?case
    by (rule wpD [OF 14(1) [unfolded RetryingDynamoDBClient_def dynamo_client.simps]], rule retry_batch_write)
qed

context retrying_store
begin

lemma retry_contract: "dynamo_store (RetryingDynamoDBClient ty rt cfg dc) rt T Z tbl clk"
  by (rule retried.dynamo_store_axioms)

end

end
