(* ===== verification/Retry_Properties.thy ===== *)
theory Retry_Properties
  imports Retry_Client Mem_Manager
begin

text \<open>
  The retrying client: the contract it keeps, the number of attempts, the waits between them.
\<close>

interpretation mem_retrying: retrying_store "mem_client T strict" mem_runtime T 0 mem_tbl mem_time ty cfg
  for T strict ty cfg
  unfolding retrying_store_def by (rule mem.dynamo_store_axioms)

section \<open>The managers over the retrying client\<close>

text \<open>C29: NewRetryingDynamoDBClient is transparent to everything proved from the contract of the
  store: a base manager whose client keeps the contract keeps it when the client is wrapped,
  whatever the configuration. Repeating a write whose response was lost does no harm, because
  every write of the operator is idempotent once it has succeeded.\<close>

theorem retrying_manager_store:
  assumes "manager_store m rt Z tbl clk"
  shows "manager_store (m\<lparr>bm_client := NewRetryingDynamoDBClient ty rt (bm_client m) config\<rparr>) rt Z tbl clk"
proof -
  have "retrying_store (bm_client m) rt (bm_tableName m) Z tbl clk"
    using assms by (simp add: retrying_store_def manager_store_def)
  from retrying_store.retry_contract [OF this] show ?thesis
    by (simp add: manager_store_def NewRetryingDynamoDBClient_def)
qed

definition plain_types :: error_types where
  "plain_types = \<lparr> et_Retryable = (\<lambda>e. None),
     et_Type = (\<lambda>e. case e of ServiceError code t rs \<Rightarrow> ''*types.'' @ code | _ \<Rightarrow> ''*fmt.wrapError'') \<rparr>"

lemma retrying_manager_store_witness:
  "manager_store ((mem_manager False ''east'')\<lparr>bm_client :=
     NewRetryingDynamoDBClient plain_types mem_runtime (bm_client (mem_manager False ''east'')) None\<rparr>)
     mem_runtime 0 mem_tbl mem_time"
  by (rule retrying_manager_store [OF mem_manager_store])

section \<open>The number of attempts\<close>

lemma run_try_or_Err: "run_state fn w = (Err e, w1) \<Longrightarrow> run_state (try_or fn h k) w = run_state (h e) w1"
  by (simp add: try_or_def)

text \<open>The loop from one attempt to the next.\<close>

lemma wp_retry_calls:
  fixes calls :: "'w \<Rightarrow> nat"
  assumes fn: "\<And>w. wp fn (\<lambda>r w'. calls w' = Suc (calls w)) w"
    and timer: "\<And>d w. wp (timer_wait rt d) (\<lambda>c w'. calls w' = calls w) w"
  shows "int attempt \<le> rc_MaxRetries cfg + 1 \<Longrightarrow>
    wp (retry_from ty rt cfg operation fn attempt lastErr)
      (\<lambda>r w'. int (calls w') \<le> int (calls w) + (rc_MaxRetries cfg + 1 - int attempt)) w"
proof (induction k \<equiv> "nat (rc_MaxRetries cfg + 1 - int attempt)" arbitrary: attempt lastErr w rule: less_induct)
  case less
  show ?case
  proof (cases "int attempt \<le> rc_MaxRetries cfg")
    case True
    have again: "wp (retry_from ty rt cfg operation fn (Suc attempt) (Some e))
      (\<lambda>r w'. int (calls w') \<le> int (calls w) + (rc_MaxRetries cfg + 1 - int attempt)) w'"
      if "calls w' = Suc (calls w)" for e w'
      by (rule wp_mono [OF less.hyps]) (use True that in auto)
    have wait: "wp (if 0 < attempt then timer_wait rt (calculateBackoff cfg attempt)
        else State_Monad.return None) (\<lambda>c w'. calls w' = calls w) w"
      using timer by (simp add: wp_simps)
    show ?thesis
    proof (subst retry_from.simps, subst if_P [OF True], subst wp_bind, rule wp_mono [OF wait], goal_cases)
      case (1 c w1)
      show ?case
      proof (cases c)
        case None
        show ?thesis
          unfolding None option.case wp_simps
        proof (rule wp_mono [OF fn], goal_cases)
          case (1 r w2)
          then show ?case
            using \<open>calls w1 = calls w\<close> True by (cases r) (auto simp: wp_simps again)
        qed
      next
        case (Some e)
        then show ?thesis using 1 True by (simp add: wp_simps)
      qed
    qed
  next
    case False
    then show ?thesis
      using less.prems by (subst retry_from.simps) (simp add: Let_def wp_raise)
  qed
qed

definition retries_failed :: "string \<Rightarrow> retry_config \<Rightarrow> go_error \<Rightarrow> go_error" where
  "retries_failed operation cfg e =
     Wrapped (''operation '' @ operation @ '' failed after '' @ show_int (rc_MaxRetries cfg) @ '' retries: '') e ''''"

text \<open>An operation that keeps failing with the same retryable error is called once for every
  attempt that is left.\<close>

lemma wp_retry_exhausted:
  fixes calls :: "'w \<Rightarrow> nat"
  assumes fn: "\<And>w. wp fn (\<lambda>r w'. calls w' = Suc (calls w) \<and> r = Err e) w"
    and timer: "\<And>d w. wp (timer_wait rt d) (\<lambda>c w'. calls w' = calls w \<and> c = None) w"
    and retry: "IsRetryable ty cfg e"
  shows "int attempt \<le> rc_MaxRetries cfg + 1 \<Longrightarrow> lastErr = Some e \<or> attempt = 0 \<and> 0 \<le> rc_MaxRetries cfg \<Longrightarrow>
    wp (retry_from ty rt cfg operation fn attempt lastErr)
      (\<lambda>r w'. int (calls w') = int (calls w) + (rc_MaxRetries cfg + 1 - int attempt) \<and>
         r = Err (retries_failed operation cfg e)) w"
proof (induction k \<equiv> "nat (rc_MaxRetries cfg + 1 - int attempt)" arbitrary: attempt lastErr w rule: less_induct)
  case less
  show ?case
  proof (cases "int attempt \<le> rc_MaxRetries cfg")
    case True
    note again = less.hyps [OF _ _ disjI1 [OF refl], of "Suc attempt"]
    have wait: "wp (if 0 < attempt then timer_wait rt (calculateBackoff cfg attempt)
        else State_Monad.return None) (\<lambda>c w'. calls w' = calls w \<and> c = None) w"
      using timer by (simp add: wp_simps)
    show ?thesis
    proof (subst retry_from.simps, subst if_P [OF True], subst wp_bind, rule wp_mono [OF wait], goal_cases)
      case (1 c w1)
      then have w1: "c = None" "calls w1 = calls w" by simp_all
      show ?case
        unfolding w1(1) option.case wp_simps
      proof (rule wp_mono [OF fn], goal_cases)
        case (1 r w2)
        then show ?case using w1(2) True retry by (auto intro!: wp_mono [OF again])
      qed
    qed
  next
    case False
    then show ?thesis
      using less.prems by (subst retry_from.simps) (auto simp add: Let_def wp_raise retries_failed_def)
  qed
qed

text \<open>C30: Whatever the operation answers, retryOperation calls it at most MaxRetries + 1 times: for an
  operation that counts its calls and a timer that does not, the count grows by no more. A
  retryable error that persists uses up all the attempts and is reported wrapped; an error that is
  not retryable is reported after one call.\<close>

theorem retryOperation_attempts:
  fixes calls :: "'w \<Rightarrow> nat"
  assumes "\<And>w r w'. run_state fn w = (r, w') \<Longrightarrow> calls w' = Suc (calls w)"
    and "\<And>d w c w'. run_state (timer_wait rt d) w = (c, w') \<Longrightarrow> calls w' = calls w"
    and "0 \<le> rc_MaxRetries cfg"
    and "run_state (retryOperation ty rt cfg operation fn) w = (r, w')"
  shows "int (calls w') \<le> int (calls w) + rc_MaxRetries cfg + 1 \<and>
    ((\<forall>v. fst (run_state fn v) = Err e) \<and> IsRetryable ty cfg e \<and>
      (\<forall>d v. fst (run_state (timer_wait rt d) v) = None) \<longrightarrow>
      int (calls w') = int (calls w) + rc_MaxRetries cfg + 1 \<and> r = Err (retries_failed operation cfg e)) \<and>
    (fst (run_state fn w) = Err e \<and> \<not> IsRetryable ty cfg e \<longrightarrow>
      calls w' = Suc (calls w) \<and> r = Err (Wrapped (''non-retryable error in '' @ operation @ '': '') e ''''))"
proof (intro conjI impI)
  have "wp (retryOperation ty rt cfg operation fn)
      (\<lambda>r w'. int (calls w') \<le> int (calls w) + (rc_MaxRetries cfg + 1 - int 0)) w"
    unfolding retryOperation_def by (rule wp_retry_calls) (use assms(1-3) in \<open>auto intro: wpI\<close>)
  from wpD [OF assms(4) this] show "int (calls w') \<le> int (calls w) + rc_MaxRetries cfg + 1"
    by simp
next
  assume p: "(\<forall>v. fst (run_state fn v) = Err e) \<and> IsRetryable ty cfg e \<and>
      (\<forall>d v. fst (run_state (timer_wait rt d) v) = None)"
  have "wp fn (\<lambda>r w'. calls w' = Suc (calls v) \<and> r = Err e) v" for v
    using assms(1) p by (intro wpI) (metis fst_conv)
  moreover have "wp (timer_wait rt d) (\<lambda>c w'. calls w' = calls v \<and> c = None) v" for d v
    using assms(2) p by (intro wpI) (metis fst_conv)
  ultimately have "wp (retryOperation ty rt cfg operation fn) (\<lambda>r w'.
      int (calls w') = int (calls w) + (rc_MaxRetries cfg + 1 - int 0) \<and> r = Err (retries_failed operation cfg e)) w"
    unfolding retryOperation_def by (rule wp_retry_exhausted [where e = e]) (use p assms(3) in auto)
  from wpD [OF assms(4) this] show "int (calls w') = int (calls w) + rc_MaxRetries cfg + 1"
    "r = Err (retries_failed operation cfg e)" by simp_all
next
  assume e: "fst (run_state fn w) = Err e \<and> \<not> IsRetryable ty cfg e"
  then obtain v' where v': "run_state fn w = (Err e, v')" by (metis prod.collapse)
  then have "w' = v' \<and> r = Err (Wrapped (''non-retryable error in '' @ operation @ '': '') e '''')"
    using assms(3,4) e by (auto simp: retryOperation_def retry_from.simps [where attempt = 0] run_try_or_Err raise_def)
  then show "calls w' = Suc (calls w)" "r = Err (Wrapped (''non-retryable error in '' @ operation @ '': '') e '''')"
    using assms(1) [OF v'] by simp_all
qed

text \<open>An operation on a counter that is throttled every time.\<close>

definition counter_runtime :: "nat go_runtime" where
  "counter_runtime = \<lparr> time_now = State (\<lambda>n. (\<lparr> nanos = 0, zone = 0 \<rparr>, n)), uuid_new = State (\<lambda>n. ('''', n)),
     timer_wait = (\<lambda>d. State_Monad.return None) \<rparr>"

definition throttling :: go_error where
  "throttling = ServiceError ''ProvisionedThroughputExceededException'' ''slow down'' []"

definition throttled :: "(nat, unit outcome) state" where
  "throttled = State (\<lambda>n. (Err throttling, Suc n))"

lemma retryOperation_attempts_witness:
  "snd (run_state (retryOperation plain_types counter_runtime DefaultRetryConfig ''GetItem'' throttled) 0) = 6"
proof -
  have "int (id (snd (run_state (retryOperation plain_types counter_runtime DefaultRetryConfig ''GetItem''
      throttled) 0))) = int (id 0) + rc_MaxRetries DefaultRetryConfig + 1"
    by (rule retryOperation_attempts [where e = throttling, OF _ _ _ prod.collapse [symmetric],
          THEN conjunct2, THEN conjunct1, THEN mp, THEN conjunct1])
       (auto simp: throttled_def throttling_def counter_runtime_def DefaultRetryConfig_def IsRetryable_def plain_types_def)
  then show ?thesis by (simp add: DefaultRetryConfig_def)
qed

section \<open>The waits\<close>

lemma abs_sin_bounds: "8 / 10 \<le> 8 / 10 + 4 / 10 * \<bar>sin x\<bar>" "8 / 10 + 4 / 10 * \<bar>sin x\<bar> \<le> 12 / (10 :: real)"
  using sin_le_one [of x] sin_ge_minus_one [of x] by (auto simp: abs_le_iff field_simps)

text \<open>C31: The wait before an attempt is between 80 and 120 percent of the exponential backoff
  InitialBackoffMs * BackoffMultiplier ^ attempt, never more than MaxBackoffMs, and never negative.\<close>

theorem calculateBackoff_bounds:
  assumes "0 \<le> rc_InitialBackoffMs cfg" "0 \<le> rc_BackoffMultiplier cfg"
    "0 \<le> rc_MaxBackoffMs cfg" "rc_MaxBackoffMs cfg \<le> 9223372036854"
    and x: "x = of_int (rc_InitialBackoffMs cfg) * rc_BackoffMultiplier cfg ^ attempt"
  shows "\<lfloor>min (of_int (rc_MaxBackoffMs cfg)) (8 / 10 * x)\<rfloor> * 1000000 \<le> calculateBackoff cfg attempt \<and>
    calculateBackoff cfg attempt \<le> \<lfloor>min (of_int (rc_MaxBackoffMs cfg)) (12 / 10 * x)\<rfloor> * 1000000 \<and>
    0 \<le> calculateBackoff cfg attempt"
proof -
  define j where "j = 8 / 10 + 4 / 10 * \<bar>sin (real attempt)\<bar>"
  define M where "M = rc_MaxBackoffMs cfg"
  define b where "b = min (of_int M) (x * j)"
  have "0 \<le> x" using assms by simp
  have j: "8 / 10 \<le> j" "j \<le> 12 / 10" unfolding j_def by (rule abs_sin_bounds)+
  have b: "0 \<le> b" "b \<le> of_int M" using \<open>0 \<le> x\<close> j assms(3) by (auto simp: b_def M_def)
  then have f: "0 \<le> \<lfloor>b\<rfloor>" "\<lfloor>b\<rfloor> \<le> 9223372036854"
    using assms(4) by (simp, unfold M_def) (metis floor_mono floor_of_int order_trans)
  have cb: "calculateBackoff cfg attempt = \<lfloor>b\<rfloor> * 1000000"
  proof -
    have "(if of_int M < x * j then of_int M else x * j) = b"
      by (auto simp: b_def)
    then have "calculateBackoff cfg attempt = wrap64 (\<lfloor>b\<rfloor> * 1000000)"
      using b(1) unfolding calculateBackoff_def Let_def j_def [symmetric] x [symmetric] M_def [symmetric]
      by simp
    then show ?thesis using f by (simp add: wrap64_id int64_def int64_min_def int64_max_def)
  qed
  have "8 / 10 * x \<le> x * j" "x * j \<le> 12 / 10 * x"
    using j \<open>0 \<le> x\<close> mult_left_mono [of "8 / 10" j x] mult_left_mono [of j "12 / 10" x] by (simp_all add: mult.commute)
  then have "min (of_int M) (8 / 10 * x) \<le> b" "b \<le> min (of_int M) (12 / 10 * x)"
    by (auto simp: b_def min_def)
  then show ?thesis
    using f(1) by (auto simp: cb M_def intro: floor_mono)
qed

lemma calculateBackoff_bounds_witness:
  "80 * 2 ^ 3 * 1000000 \<le> calculateBackoff DefaultRetryConfig 3 \<and>
   calculateBackoff DefaultRetryConfig 3 \<le> 120 * 2 ^ 3 * 1000000"
  using calculateBackoff_bounds [of DefaultRetryConfig, OF _ _ _ _ refl, of 3]
  by (simp add: DefaultRetryConfig_def)

end
