(* ===== verification/Api_Types.thy ===== *)
theory Api_Types
  imports Go_Time
begin

text \<open>
  The custom resources (api/v1alpha1) as the controllers see them: the metadata they read, the
  specification and the status. \<open>metav1.Time\<close> is a \<open>go_time\<close>. A slice that the code compares with
  nil is compared for length zero too, so lists serve.
\<close>

record object_meta =
  om_Name :: string
  om_Namespace :: string
  om_ResourceVersion :: string
  om_Generation :: int
  om_DeletionTimestamp :: "go_time option"
  om_Finalizers :: "string list"
  om_Labels :: "(string \<times> string) list"
  om_Annotations :: "(string \<times> string) list"

record condition =
  cn_Type :: string
  cn_Status :: string
  cn_ObservedGeneration :: int
  cn_LastTransitionTime :: go_time
  cn_Reason :: string
  cn_Message :: string

section \<open>Failover\<close>

record failover_group_reference =
  fg_Name :: string
  fg_Namespace :: string
  fg_Status :: string
  fg_StartTime :: string
  fg_CompletionTime :: string
  fg_Message :: string

record failover_metrics =
  fm_TotalDowntimeSeconds :: int
  fm_TotalFailoverTimeSeconds :: int

record failover_spec =
  fs_TargetCluster :: string
  fs_FailoverMode :: string
  fs_Force :: bool
  fs_Reason :: string
  fs_FailoverGroups :: "failover_group_reference list"

record failover_status =
  ft_Status :: string
  ft_State :: string
  ft_Message :: string
  ft_FailoverGroups :: "failover_group_reference list"
  ft_Metrics :: failover_metrics
  ft_Conditions :: "condition list"

record failover =
  fo_Meta :: object_meta
  fo_Spec :: failover_spec
  fo_Status :: failover_status

section \<open>FailoverGroup\<close>

record group_timeouts =
  gt_TransitoryState :: string
  gt_UnhealthyPrimary :: string
  gt_Heartbeat :: string

record cluster_info =
  ci_Name :: string
  ci_Role :: string
  ci_Health :: string
  ci_LastHeartbeat :: string

record global_state_info =
  gs_ActiveCluster :: string
  gs_ThisCluster :: string
  gs_LastFailover :: "(string \<times> string) list"
  gs_DBSyncStatus :: string
  gs_LastSyncTime :: string
  gs_Clusters :: "cluster_info list"

record workload_spec =
  wl_Kind :: string
  wl_Name :: string
  wl_VolumeReplications :: "string list"

record network_resource_spec =
  nr_Kind :: string
  nr_Name :: string

record flux_resource_spec =
  fx_Kind :: string
  fx_Name :: string
  fx_TriggerReconcile :: bool

record group_spec =
  sp_OperatorID :: string
  sp_Suspended :: bool
  sp_SuspensionReason :: string
  sp_Timeouts :: group_timeouts
  sp_HeartbeatInterval :: string
  sp_Workloads :: "workload_spec list"
  sp_NetworkResources :: "network_resource_spec list"
  sp_FluxResources :: "flux_resource_spec list"

record volume_replication_status =
  vs_Name :: string
  vs_Health :: string
  vs_Status :: string

record workload_status =
  ws_Kind :: string
  ws_Name :: string
  ws_Health :: string
  ws_Status :: string
  ws_VolumeReplications :: "volume_replication_status list"

record resource_status =
  rs_Kind :: string
  rs_Name :: string
  rs_Health :: string
  rs_Status :: string

record group_status =
  st_Health :: string
  st_Suspended :: bool
  st_Workloads :: "workload_status list"
  st_NetworkResources :: "resource_status list"
  st_FluxResources :: "resource_status list"
  st_LastFailoverTime :: string
  st_GlobalState :: global_state_info
  st_Conditions :: "condition list"

record failover_group =
  gr_Meta :: object_meta
  gr_Spec :: group_spec
  gr_Status :: group_status

section \<open>Field access as the code writes it\<close>

abbreviation fo_Name :: "failover \<Rightarrow> string" where "fo_Name f \<equiv> om_Name (fo_Meta f)"
abbreviation fo_Namespace :: "failover \<Rightarrow> string" where "fo_Namespace f \<equiv> om_Namespace (fo_Meta f)"
abbreviation gr_Name :: "failover_group \<Rightarrow> string" where "gr_Name g \<equiv> om_Name (gr_Meta g)"
abbreviation gr_Namespace :: "failover_group \<Rightarrow> string" where "gr_Namespace g \<equiv> om_Namespace (gr_Meta g)"

definition on_status :: "(failover_status \<Rightarrow> failover_status) \<Rightarrow> failover \<Rightarrow> failover" where
  "on_status h f = f\<lparr> fo_Status := h (fo_Status f) \<rparr>"

definition on_group_status :: "(group_status \<Rightarrow> group_status) \<Rightarrow> failover_group \<Rightarrow> failover_group" where
  "on_group_status h g = g\<lparr> gr_Status := h (gr_Status g) \<rparr>"

lemma on_status_sel [simp]:
  "fo_Meta (on_status h f) = fo_Meta f" "fo_Spec (on_status h f) = fo_Spec f"
  "fo_Status (on_status h f) = h (fo_Status f)"
  by (simp_all add: on_status_def)

lemma on_group_status_sel [simp]:
  "gr_Meta (on_group_status h g) = gr_Meta g" "gr_Spec (on_group_status h g) = gr_Spec g"
  "gr_Status (on_group_status h g) = h (gr_Status g)"
  by (simp_all add: on_group_status_def)

end
