(* ===== verification/Kube_Client.thy ===== *)
theory Kube_Client
  imports Api_Types Prelude
begin

text \<open>
  The Kubernetes API (controller-runtime's client) as the controllers use it, and what they rely
  on. A write answers the object as the server stored it, which the client decodes into the
  caller's object; when it fails, the caller's object is left as it was.
\<close>

type_synonym object_key = "string \<times> string"

record 'w kube_client =
  GetFailover :: "object_key \<Rightarrow> ('w, failover outcome) state"
  GetFailoverGroup :: "object_key \<Rightarrow> ('w, failover_group outcome) state"
  ListFailoverGroups :: "('w, failover_group list outcome) state"
  CreateFailover :: "failover \<Rightarrow> ('w, failover outcome) state"
  UpdateFailoverObject :: "failover \<Rightarrow> ('w, failover outcome) state"
  StatusUpdateFailover :: "failover \<Rightarrow> ('w, failover outcome) state"
  UpdateGroupObject :: "failover_group \<Rightarrow> ('w, failover_group outcome) state"
  StatusUpdateGroup :: "failover_group \<Rightarrow> ('w, failover_group outcome) state"

definition failover_key :: "failover \<Rightarrow> object_key" where
  "failover_key f = (fo_Namespace f, fo_Name f)"

definition group_key :: "failover_group \<Rightarrow> object_key" where
  "group_key g = (gr_Namespace g, gr_Name g)"

text \<open>errors.IsNotFound: the reason of a status error is its type here.\<close>

definition is_not_found :: "go_error \<Rightarrow> bool" where
  "is_not_found e \<longleftrightarrow> errors_as ''NotFound'' e"

section \<open>The contract of the API server\<close>

text \<open>
  \<open>fos\<close> is the stored Failover objects. The status subresource: a write that names another
  version than the stored one is rejected; one that is accepted replaces the status and nothing
  else of the object, and makes a new version unless nothing changed. A failed call has had its
  effect or none.
\<close>

definition status_written :: "failover \<Rightarrow> failover \<Rightarrow> failover \<Rightarrow> bool" where
  "status_written f g g' \<longleftrightarrow>
     om_ResourceVersion (fo_Meta f) = om_ResourceVersion (fo_Meta g) \<and>
     g' = g\<lparr> fo_Status := fo_Status f, fo_Meta := (fo_Meta g)\<lparr> om_ResourceVersion := om_ResourceVersion (fo_Meta g') \<rparr> \<rparr> \<and>
     (om_ResourceVersion (fo_Meta g') = om_ResourceVersion (fo_Meta g) \<longleftrightarrow> fo_Status f = fo_Status g)"

locale kube_failovers =
  fixes kc :: "'w kube_client" and fos :: "'w \<Rightarrow> object_key \<Rightarrow> failover option"
  assumes status_update_law: "run_state (StatusUpdateFailover kc f) w = (r, w') \<Longrightarrow>
      r \<noteq> Panic \<and>
      (fos w' = fos w \<and> is_err r \<or>
       (\<exists>g g'. fos w (failover_key f) = Some g \<and> status_written f g g' \<and>
          fos w' = (fos w)(failover_key f \<mapsto> g') \<and> (\<forall>h. r = Ok h \<longrightarrow> h = g')))"
    and get_failover_law: "run_state (GetFailover kc k) w = (r, w') \<Longrightarrow>
      fos w' = fos w \<and> r \<noteq> Panic \<and> (\<forall>f. r = Ok f \<longrightarrow> fos w k = Some f)"

text \<open>An API server that answers: a write of the current version is accepted, a stored object is read.\<close>

locale kube_reliable = kube_failovers +
  assumes status_answered: "run_state (StatusUpdateFailover kc f) w = (r, w') \<Longrightarrow>
      fos w (failover_key f) = Some g \<Longrightarrow>
      om_ResourceVersion (fo_Meta f) = om_ResourceVersion (fo_Meta g) \<Longrightarrow> is_ok r"
    and get_answered: "run_state (GetFailover kc k) w = (r, w') \<Longrightarrow> fos w k = Some g \<Longrightarrow> is_ok r"

end
