(* ===== verification/Go_Text.thy ===== *)
theory Go_Text
  imports Go_Strings
begin

text \<open>
  The functions of Go's package strings that the controllers use, on byte strings. Letters and
  white space are those of ASCII.
\<close>

definition to_upper_char :: "char \<Rightarrow> char" where
  "to_upper_char c = (if 97 \<le> (of_char c :: nat) \<and> (of_char c :: nat) \<le> 122
     then char_of ((of_char c :: nat) - 32) else c)"

definition to_upper :: "string \<Rightarrow> string" where
  "to_upper s = map to_upper_char s"

definition is_space :: "char \<Rightarrow> bool" where
  "is_space c \<longleftrightarrow> (of_char c :: nat) \<in> {9, 10, 11, 12, 13, 32}"

definition trim_space :: "string \<Rightarrow> string" where
  "trim_space s = rev (dropWhile is_space (rev (dropWhile is_space s)))"

definition trim_prefix :: "string \<Rightarrow> string \<Rightarrow> string" where
  "trim_prefix s pre = (if prefix pre s then drop (length pre) s else s)"

text \<open>strings.Index\<close>

fun str_index :: "string \<Rightarrow> string \<Rightarrow> nat option" where
  "str_index [] pat = (if pat = [] then Some 0 else None)"
| "str_index (c # cs) pat = (if prefix pat (c # cs) then Some 0 else map_option Suc (str_index cs pat))"

lemma str_index_le: "str_index s pat = Some i \<Longrightarrow> i + length pat \<le> length s"
proof (induction s pat arbitrary: i rule: str_index.induct)
  case (2 c cs pat)
  then show ?case by (fastforce split: if_splits dest: prefix_length_le)
qed (simp split: if_splits)

text \<open>strings.Split\<close>

function str_split :: "string \<Rightarrow> string \<Rightarrow> string list" where
  "str_split s sep =
     (if sep = [] then map (\<lambda>c. [c]) s
      else case str_index s sep of
        None \<Rightarrow> [s]
      | Some i \<Rightarrow> take i s # str_split (drop (i + length sep) s) sep)"
  by pat_completeness auto
termination
proof (relation "measure (\<lambda>(s, sep). length s)")
  fix s sep i
  assume "sep \<noteq> []" "str_index s sep = Some i"
  then have "0 < length sep" "i + length sep \<le> length s" by (auto dest: str_index_le)
  then have "length s - (i + length sep) < length s" by linarith
  then show "((drop (i + length sep) s, sep), s, sep) \<in> measure (\<lambda>(s, sep). length s)"
    by simp
qed simp

declare str_split.simps [simp del]

text \<open>A text in single quotes.\<close>

definition quoted :: "string \<Rightarrow> string" where
  "quoted s = char_of (39 :: nat) # s @ [char_of (39 :: nat)]"

lemma str_index_first:
  "(\<And>i. i < length a \<Longrightarrow> \<not> prefix pat (drop i (a @ pat @ b))) \<Longrightarrow> str_index (a @ pat @ b) pat = Some (length a)"
proof (induction a)
  case Nil
  show ?case
  proof (cases "pat @ b")
    case (Cons c cs)
    then have "prefix pat (c # cs)" by (metis prefixI)
    then show ?thesis by (simp add: Cons)
  qed simp
next
  case (Cons c a)
  have "\<not> prefix pat (c # a @ pat @ b)" using Cons.prems [of 0] by simp
  moreover have "str_index (a @ pat @ b) pat = Some (length a)"
    by (rule Cons.IH) (use Cons.prems [of "Suc i" for i] in auto)
  ultimately show ?case by simp
qed

lemma str_index_None: "\<not> contains s pat \<Longrightarrow> str_index s pat = None"
  by (induction s pat rule: str_index.induct) auto

lemma str_index_char: "c \<notin> set s \<Longrightarrow> str_index s [c] = None"
  by (induction s) auto

lemma trim_space_word: "(\<And>c. c \<in> set s \<Longrightarrow> \<not> is_space c) \<Longrightarrow> trim_space s = s"
proof -
  assume "\<And>c. c \<in> set s \<Longrightarrow> \<not> is_space c"
  then have "dropWhile is_space s = s" "dropWhile is_space (rev s) = rev s"
    by (cases s; simp) (cases "rev s"; use \<open>\<And>c. c \<in> set s \<Longrightarrow> \<not> is_space c\<close> in \<open>fastforce dest: arg_cong [of _ _ set]\<close>)
  then show ?thesis by (simp add: trim_space_def)
qed

lemma to_upper_idem [simp]: "to_upper (to_upper s) = to_upper s"
  by (auto simp: to_upper_def to_upper_char_def)

end
