(* ===== verification/Workflow_Tasks.thy ===== *)
theory Workflow_Tasks
  imports Kube_Client Go_Text Service_Cache
begin

text \<open>
  internal/workflow: the tasks of a failover (tasks.go, tasks_additional.go, tasks_completion.go).

  A task runs over the outside world with the DynamoDB service's cache, and over the workflow
  context, which all tasks share: the Failover object and the group are reached through it. A
  task's client and DynamoDB service may be nil (an option). Logging is left out; a sleep is a
  wait that nothing cancels.
\<close>

section \<open>The workflow context (types.go)\<close>

datatype result_value = ResultBool bool | ResultString string | ResultMap "(string \<times> string) list"

record workflow_context =
  wc_Failover :: failover
  wc_FailoverGroup :: failover_group
  wc_ClusterName :: string
  wc_IsSourceCluster :: bool
  wc_IsTargetCluster :: bool
  wc_SourceClusterName :: string
  wc_TargetClusterName :: string
  wc_FailoverMode :: string
  wc_ForceFailover :: bool
  wc_Metrics :: failover_metrics
  wc_StartTime :: go_time
  wc_LeaseToken :: string
  wc_Results :: "(string \<times> result_value) list"

definition primary_cluster :: "failover_group \<Rightarrow> string" where
  "primary_cluster g =
     (case find (\<lambda>c. ci_Role c = ''PRIMARY'') (gs_Clusters (st_GlobalState (gr_Status g))) of
        Some c \<Rightarrow> ci_Name c | None \<Rightarrow> '''')"

definition NewWorkflowContext :: "failover \<Rightarrow> failover_group \<Rightarrow> string \<Rightarrow> go_time \<Rightarrow> workflow_context" where
  "NewWorkflowContext f g clusterName now =
     \<lparr> wc_Failover = f, wc_FailoverGroup = g, wc_ClusterName = clusterName,
       wc_IsSourceCluster = (clusterName = primary_cluster g),
       wc_IsTargetCluster = (clusterName = fs_TargetCluster (fo_Spec f)),
       wc_SourceClusterName = primary_cluster g,
       wc_TargetClusterName = fs_TargetCluster (fo_Spec f),
       wc_FailoverMode = fs_FailoverMode (fo_Spec f),
       wc_ForceFailover = fs_Force (fo_Spec f),
       wc_Metrics = \<lparr> fm_TotalDowntimeSeconds = 0, fm_TotalFailoverTimeSeconds = 0 \<rparr>,
       wc_StartTime = now, wc_LeaseToken = '''', wc_Results = [] \<rparr>"

section \<open>Actions\<close>

type_synonym ('w, 'a) workflow_action = "(('w \<times> service_cache) \<times> workflow_context, 'a) state"

definition in_service :: "('w, 'a) service_action \<Rightarrow> ('w, 'a) workflow_action" where
  "in_service m = State (\<lambda>(s, c). case run_state m s of (r, s') \<Rightarrow> (r, (s', c)))"

definition in_world :: "('w, 'a) state \<Rightarrow> ('w, 'a) workflow_action" where
  "in_world m = in_service (uncached m)"

definition get_ctx :: "('w, workflow_context) workflow_action" where
  "get_ctx = State (\<lambda>(s, c). (c, (s, c)))"

definition modify_ctx :: "(workflow_context \<Rightarrow> workflow_context) \<Rightarrow> ('w, unit) workflow_action" where
  "modify_ctx h = State (\<lambda>(s, c). ((), (s, h c)))"

definition sleep :: "'w go_runtime \<Rightarrow> int \<Rightarrow> ('w, unit) workflow_action" where
  "sleep rt d = State_Monad.bind (in_world (timer_wait rt d)) (\<lambda>_. State_Monad.return ())"

definition set_result :: "string \<Rightarrow> result_value \<Rightarrow> ('w, unit) workflow_action" where
  "set_result k v = modify_ctx (\<lambda>c. c\<lparr> wc_Results := map_put k v (wc_Results c) \<rparr>)"

definition set_token :: "string \<Rightarrow> ('w, unit) workflow_action" where
  "set_token tok = modify_ctx (\<lambda>c. c\<lparr> wc_LeaseToken := tok \<rparr>)"

definition mark_state :: "string \<Rightarrow> workflow_context \<Rightarrow> workflow_context" where
  "mark_state st c = c\<lparr> wc_Failover := on_status (\<lambda>s. s\<lparr> ft_State := st \<rparr>) (wc_Failover c) \<rparr>"

section \<open>Tasks\<close>

datatype task_type =
    ValidateFailoverTask
  | AcquireLockTask
  | UpdateNetworkResourcesTask string
  | ScaleDownWorkloadsTask
  | DisableFluxReconciliationTask
  | WaitForWorkloadsScaledDownTask
  | DemoteVolumesTask
  | WaitForVolumesDemotedTask
  | MarkVolumesReadyForPromotionTask
  | WaitForVolumesReadyForPromotionTask
  | PromoteVolumesTask
  | WaitForVolumesPromotedTask
  | VerifyDataAvailabilityTask
  | ScaleUpWorkloadsTask
  | TriggerFluxReconciliationTask
  | WaitForTargetReadyTask
  | MarkTargetReadyForTrafficTask
  | WaitForTargetReadyForTrafficTask
  | MarkTrafficTransitionCompleteTask
  | WaitForTrafficTransitionCompleteTask
  | UpdateGlobalStateTask
  | RecordFailoverHistoryTask
  | ReleaseLockTask
  | UpdateWorkflowStateTask
  | ResetWorkflowStateTask
  | SetWorkflowPhaseTask string

text \<open>A task is its type with the fields of BaseTask (the context is the state).\<close>

record 'w base_task =
  bt_Type :: task_type
  bt_TaskName :: string
  bt_TaskDescription :: string
  bt_Client :: "'w kube_client option"
  bt_DynamoDBManager :: "'w dynamo_service option"

definition new_task :: "task_type \<Rightarrow> string \<Rightarrow> string \<Rightarrow> 'w base_task" where
  "new_task ty name description =
     \<lparr> bt_Type = ty, bt_TaskName = name, bt_TaskDescription = description, bt_Client = None,
       bt_DynamoDBManager = None \<rparr>"

definition EnableTestingDelays :: bool where "EnableTestingDelays = True"
definition TestingDelayDuration :: int where "TestingDelayDuration = 5 * second"
definition EnableFrequentStateUpdates :: bool where "EnableFrequentStateUpdates = False"

definition majorPhases :: "string list" where
  "majorPhases = [''VALIDATING'', ''IN_PROGRESS'', ''ACQUIRING_LOCK'', ''DEMOTING_VOLUMES'',
     ''PROMOTING_VOLUMES'', ''SCALING_DOWN_WORKLOADS'', ''SCALING_UP_WORKLOADS'',
     ''UPDATING_GLOBAL_STATE'', ''FINISHING'', ''SUCCESS'', ''FAILED'']"

text \<open>The API server is sent a copy, and what it answers is decoded into the copy.\<close>

definition UpdateFailoverState :: "'w base_task \<Rightarrow> string \<Rightarrow> ('w, unit outcome) workflow_action" where
  "UpdateFailoverState t st = do {
     modify_ctx (mark_state st);
     (case bt_Client t of
        None \<Rightarrow> raise (ErrorString ''client not initialized in BaseTask'')
      | Some kc \<Rightarrow>
          if \<not> EnableFrequentStateUpdates \<and> st \<notin> set majorPhases then ret ()
          else do {
            c \<leftarrow> get_ctx;
            ignore_err (in_world (StatusUpdateFailover kc (wc_Failover c)))
          })
   }"

definition DelayAfterExecution :: "'w go_runtime \<Rightarrow> ('w, unit) workflow_action" where
  "DelayAfterExecution rt =
     (if \<not> EnableTestingDelays then State_Monad.return () else sleep rt TestingDelayDuration)"

text \<open>\<open>t.DelayAfterExecution(); return nil\<close>\<close>

definition delay_ok :: "'w go_runtime \<Rightarrow> ('w, unit outcome) workflow_action" where
  "delay_ok rt = State_Monad.bind (DelayAfterExecution rt) (\<lambda>_. ret ())"

text \<open>\<open>if err := t.UpdateFailoverState(...); err != nil { log }\<close>\<close>

definition note_state ::
    "'w base_task \<Rightarrow> string \<Rightarrow> ('w, 'a outcome) workflow_action \<Rightarrow> ('w, 'a outcome) workflow_action" where
  "note_state t st k = try_or (UpdateFailoverState t st) (\<lambda>_. k) (\<lambda>_. k)"

text \<open>UpdateFailoverGroupSuspended: no task calls it.\<close>

definition UpdateFailoverGroupSuspended :: "'w base_task \<Rightarrow> ('w, unit outcome) workflow_action" where
  "UpdateFailoverGroupSuspended t =
     (case bt_Client t of
        None \<Rightarrow> raise (ErrorString ''client not initialized in BaseTask'')
      | Some kc \<Rightarrow> do {
          c \<leftarrow> get_ctx;
          let g = wc_FailoverGroup c;
          let groupCopy = on_group_status (\<lambda>s. s\<lparr> st_Suspended := sp_Suspended (gr_Spec g) \<rparr>) g;
          check (in_world (StatusUpdateGroup kc groupCopy)) (\<lambda>e. e) (\<lambda>stored. do {
            modify_ctx (\<lambda>c. c\<lparr> wc_FailoverGroup :=
              on_group_status (\<lambda>s. s\<lparr> st_Suspended := st_Suspended (gr_Status stored) \<rparr>) (wc_FailoverGroup c) \<rparr>);
            ret ()
          })
        })"

subsection \<open>Initialization\<close>

definition NewValidateFailoverTask :: "'w base_task" where
  "NewValidateFailoverTask = new_task ValidateFailoverTask ''ValidateFailover''
     ''Validates that the failover prerequisites are met''"

definition target_healthy :: "string \<Rightarrow> cluster_info \<Rightarrow> bool" where
  "target_healthy target c \<longleftrightarrow> ci_Name c = target \<and> ci_Role c = ''STANDBY'' \<and>
     (ci_Health c = ''OK'' \<or> ci_Health c = ''DEGRADED'')"

text \<open>What the validation says of a group: the first prerequisite that is not met.\<close>

definition validation_error :: "failover_group \<Rightarrow> string \<Rightarrow> bool \<Rightarrow> string option" where
  "validation_error g target isForced =
     (let gs = st_GlobalState (gr_Status g); cs = gs_Clusters gs;
          targetExists = list_ex (\<lambda>c. ci_Name c = target) cs;
          targetHealthy = list_ex (target_healthy target) cs;
          sourceExists = list_ex (\<lambda>c. ci_Role c = ''PRIMARY'') cs;
          sourceIsActive = list_ex (\<lambda>c. ci_Role c = ''PRIMARY'' \<and> ci_Name c = gs_ActiveCluster gs) cs
      in if \<not> targetExists
         then Some (''target cluster '' @ target @ '' does not exist in failover group'')
         else if \<not> targetHealthy \<and> \<not> isForced
         then Some (''target cluster '' @ target @ '' is not in STANDBY role or not healthy'')
         else if \<not> sourceExists then Some ''no PRIMARY cluster found in failover group''
         else if \<not> sourceIsActive \<and> \<not> isForced
         then Some ''PRIMARY cluster is not the active cluster in global state''
         else None)"

definition ValidateFailoverTask_Execute :: "'w go_runtime \<Rightarrow> 'w base_task \<Rightarrow> ('w, unit outcome) workflow_action" where
  "ValidateFailoverTask_Execute rt t =
     note_state t ''VALIDATING'' (do {
       c \<leftarrow> get_ctx;
       (case validation_error (wc_FailoverGroup c) (wc_TargetClusterName c) (fs_Force (fo_Spec (wc_Failover c))) of
          Some msg \<Rightarrow> raise (ErrorString msg)
        | None \<Rightarrow> delay_ok rt)
     })"

definition NewAcquireLockTask :: "'w base_task" where
  "NewAcquireLockTask = new_task AcquireLockTask ''AcquireLock''
     ''Acquires a lock in DynamoDB for the failover group''"

definition extractLockHolder :: "string \<Rightarrow> string" where
  "extractLockHolder errorMsg =
     (case str_split errorMsg ''locked by'' of
        _ # p # _ \<Rightarrow>
          let h = trim_space (trim_prefix (trim_space p) '':'');
              h = (case str_index h '' '' of Some i \<Rightarrow> if 0 < i then take i h else h | None \<Rightarrow> h);
              h = (case str_index h ''.'' of Some i \<Rightarrow> if 0 < i then take i h else h | None \<Rightarrow> h)
          in h
      | _ \<Rightarrow> '''')"

definition AcquireLockTask_Execute :: "'w go_runtime \<Rightarrow> 'w base_task \<Rightarrow> ('w, unit outcome) workflow_action" where
  "AcquireLockTask_Execute rt t =
     note_state t ''ACQUIRING_LOCK'' (
       case bt_DynamoDBManager t of
         None \<Rightarrow> do {
           u \<leftarrow> in_world (uuid_new rt);
           set_token (''simulated-lock-'' @ u);
           delay_ok rt
         }
       | Some s \<Rightarrow> do {
           c \<leftarrow> get_ctx;
           let g = wc_FailoverGroup c;
           if wc_ForceFailover c
           then do {
             u \<leftarrow> in_world (uuid_new rt);
             set_token (''forced-bypass-'' @ u);
             set_result ''SourceClusterHoldsLock'' (ResultBool True);
             delay_ok rt
           }
           else
             let failed = (\<lambda>e. raise (Wrapped (''failed to acquire lock for failover group '' @ gr_Name g @ '': '') e '''')) in
             try_or (in_service (svc_AcquireLock rt s (gr_Namespace g) (gr_Name g) ''Failover operation initiated''))
               (\<lambda>e. if contains (err_msg e) ''locked by''
                 then do {
                   let isHeldBySource = (extractLockHolder (err_msg e) = wc_SourceClusterName c);
                   let isConsistencyMode = (to_upper (fs_FailoverMode (fo_Spec (wc_Failover c))) = ''CONSISTENCY'');
                   set_result ''SourceClusterHoldsLock'' (ResultBool isHeldBySource);
                   if isHeldBySource \<and> (isConsistencyMode \<or> fs_Force (fo_Spec (wc_Failover c)))
                   then do {
                     u \<leftarrow> in_world (uuid_new rt);
                     set_token (''forced-lock-bypass-'' @ u);
                     delay_ok rt
                   }
                   else failed e
                 }
                 else failed e)
               (\<lambda>leaseToken. do { set_token leaseToken; delay_ok rt })
         })"

subsection \<open>Source cluster shutdown\<close>

text \<open>The tasks on network resources, workloads, Flux resources and volumes only log what they
  would do.\<close>

definition NewUpdateNetworkResourcesTask :: "string \<Rightarrow> 'w base_task" where
  "NewUpdateNetworkResourcesTask action = new_task (UpdateNetworkResourcesTask action) ''UpdateNetworkResources''
     (if action = ''disable'' then ''Updates network resources to disable traffic routing''
      else ''Updates network resources to enable traffic routing'')"

definition UpdateNetworkResourcesTask_Execute ::
    "string \<Rightarrow> 'w base_task \<Rightarrow> ('w, unit outcome) workflow_action" where
  "UpdateNetworkResourcesTask_Execute action t = note_state t (''NETWORK_'' @ to_upper action) (ret ())"

definition NewScaleDownWorkloadsTask :: "'w base_task" where
  "NewScaleDownWorkloadsTask = new_task ScaleDownWorkloadsTask ''ScaleDownWorkloads''
     ''Scales down workloads in the source cluster''"

definition ScaleDownWorkloadsTask_Execute :: "'w go_runtime \<Rightarrow> 'w base_task \<Rightarrow> ('w, unit outcome) workflow_action" where
  "ScaleDownWorkloadsTask_Execute rt t = note_state t ''SCALING_DOWN_WORKLOADS'' (delay_ok rt)"

definition NewDisableFluxReconciliationTask :: "'w base_task" where
  "NewDisableFluxReconciliationTask = new_task DisableFluxReconciliationTask ''DisableFluxReconciliation''
     ''Disables Flux reconciliation for resources''"

definition DisableFluxReconciliationTask_Execute :: "'w go_runtime \<Rightarrow> 'w base_task \<Rightarrow> ('w, unit outcome) workflow_action" where
  "DisableFluxReconciliationTask_Execute rt t = note_state t ''DISABLING_FLUX'' (delay_ok rt)"

definition NewWaitForWorkloadsScaledDownTask :: "'w base_task" where
  "NewWaitForWorkloadsScaledDownTask = new_task WaitForWorkloadsScaledDownTask ''WaitForWorkloadsScaledDown''
     ''Waits for workloads to be fully scaled down''"

text \<open>The simulated waits: a second, then the delay for testing.\<close>

definition simulated_wait :: "'w go_runtime \<Rightarrow> ('w, unit outcome) workflow_action" where
  "simulated_wait rt = State_Monad.bind (sleep rt second) (\<lambda>_. delay_ok rt)"

definition WaitForWorkloadsScaledDownTask_Execute :: "'w go_runtime \<Rightarrow> ('w, unit outcome) workflow_action" where
  "WaitForWorkloadsScaledDownTask_Execute rt = simulated_wait rt"

subsection \<open>Volume transition\<close>

definition NewDemoteVolumesTask :: "'w base_task" where
  "NewDemoteVolumesTask = new_task DemoteVolumesTask ''DemoteVolumes''
     ''Demotes volumes in the source cluster to Secondary role''"

definition DemoteVolumesTask_Execute :: "'w go_runtime \<Rightarrow> 'w base_task \<Rightarrow> ('w, unit outcome) workflow_action" where
  "DemoteVolumesTask_Execute rt t = note_state t ''DEMOTING_VOLUMES'' (delay_ok rt)"

definition NewWaitForVolumesDemotedTask :: "'w base_task" where
  "NewWaitForVolumesDemotedTask = new_task WaitForVolumesDemotedTask ''WaitForVolumesDemoted''
     ''Waits for volumes to be fully demoted to Secondary role''"

definition WaitForVolumesDemotedTask_Execute :: "'w go_runtime \<Rightarrow> ('w, unit outcome) workflow_action" where
  "WaitForVolumesDemotedTask_Execute rt = simulated_wait rt"

definition NewMarkVolumesReadyForPromotionTask :: "'w base_task" where
  "NewMarkVolumesReadyForPromotionTask = new_task MarkVolumesReadyForPromotionTask
     ''MarkVolumesReadyForPromotion'' ''Updates DynamoDB to indicate volumes are ready for promotion''"

definition mark_volumes_ready :: "'w go_runtime \<Rightarrow> ('w, unit) workflow_action" where
  "mark_volumes_ready rt = do {
     set_result ''VolumesReadyForPromotion'' (ResultBool True);
     now \<leftarrow> in_world (time_now rt);
     set_result ''VolumeReadyTimestamp'' (ResultString (format_rfc3339 now))
   }"

definition MarkVolumesReadyForPromotionTask_Execute ::
    "'w go_runtime \<Rightarrow> 'w base_task \<Rightarrow> ('w, unit outcome) workflow_action" where
  "MarkVolumesReadyForPromotionTask_Execute rt t =
     note_state t ''VOLUMES_READY_FOR_PROMOTION'' (do {
       sleep rt (second div 2);
       mark_volumes_ready rt;
       delay_ok rt
     })"

definition NewWaitForVolumesReadyForPromotionTask :: "'w base_task" where
  "NewWaitForVolumesReadyForPromotionTask = new_task WaitForVolumesReadyForPromotionTask
     ''WaitForVolumesReadyForPromotion'' ''Waits until source cluster indicates volumes are ready for promotion''"

text \<open>The polling loop from round \<open>i\<close> on; a value that is no bool fails the type assertion.\<close>

fun poll_volumes_ready :: "'w go_runtime \<Rightarrow> nat \<Rightarrow> nat \<Rightarrow> ('w, unit outcome) workflow_action" where
  "poll_volumes_ready rt i 0 = do {
     DelayAfterExecution rt;
     raise (ErrorString ''timed out waiting for volumes to be ready for promotion'')
   }"
| "poll_volumes_ready rt i (Suc n) = do {
     c \<leftarrow> get_ctx;
     let again =
       (if 3 \<le> i then State_Monad.bind (mark_volumes_ready rt) (\<lambda>_. ret ())
        else State_Monad.bind (sleep rt second) (\<lambda>_. poll_volumes_ready rt (Suc i) n));
     (case map_of (wc_Results c) ''VolumesReadyForPromotion'' of
        Some (ResultBool b) \<Rightarrow> if b then ret () else again
      | Some _ \<Rightarrow> State_Monad.return Panic
      | None \<Rightarrow> again)
   }"

definition WaitForVolumesReadyForPromotionTask_Execute :: "'w go_runtime \<Rightarrow> ('w, unit outcome) workflow_action" where
  "WaitForVolumesReadyForPromotionTask_Execute rt = poll_volumes_ready rt 0 10"

definition NewPromoteVolumesTask :: "'w base_task" where
  "NewPromoteVolumesTask = new_task PromoteVolumesTask ''PromoteVolumes''
     ''Promotes volumes in the target cluster to Primary role''"

definition PromoteVolumesTask_Execute :: "'w go_runtime \<Rightarrow> 'w base_task \<Rightarrow> ('w, unit outcome) workflow_action" where
  "PromoteVolumesTask_Execute rt t = note_state t ''PROMOTING_VOLUMES'' (delay_ok rt)"

definition NewWaitForVolumesPromotedTask :: "'w base_task" where
  "NewWaitForVolumesPromotedTask = new_task WaitForVolumesPromotedTask ''WaitForVolumesPromoted''
     ''Waits for volumes to be fully promoted to Primary role''"

definition WaitForVolumesPromotedTask_Execute :: "'w go_runtime \<Rightarrow> ('w, unit outcome) workflow_action" where
  "WaitForVolumesPromotedTask_Execute rt = simulated_wait rt"

definition NewVerifyDataAvailabilityTask :: "'w base_task" where
  "NewVerifyDataAvailabilityTask = new_task VerifyDataAvailabilityTask ''VerifyDataAvailability''
     ''Verifies that data is available in the target cluster''"

definition VerifyDataAvailabilityTask_Execute :: "'w go_runtime \<Rightarrow> ('w, unit outcome) workflow_action" where
  "VerifyDataAvailabilityTask_Execute rt = delay_ok rt"

subsection \<open>Target cluster activation\<close>

definition NewScaleUpWorkloadsTask :: "'w base_task" where
  "NewScaleUpWorkloadsTask = new_task ScaleUpWorkloadsTask ''ScaleUpWorkloads''
     ''Scales up workloads in the target cluster''"

definition ScaleUpWorkloadsTask_Execute :: "'w go_runtime \<Rightarrow> 'w base_task \<Rightarrow> ('w, unit outcome) workflow_action" where
  "ScaleUpWorkloadsTask_Execute rt t = note_state t ''SCALING_UP_WORKLOADS'' (delay_ok rt)"

definition NewTriggerFluxReconciliationTask :: "'w base_task" where
  "NewTriggerFluxReconciliationTask = new_task TriggerFluxReconciliationTask ''TriggerFluxReconciliation''
     ''Triggers Flux reconciliation for resources in target cluster''"

definition TriggerFluxReconciliationTask_Execute :: "'w go_runtime \<Rightarrow> ('w, unit outcome) workflow_action" where
  "TriggerFluxReconciliationTask_Execute rt = delay_ok rt"

definition NewWaitForTargetReadyTask :: "'w base_task" where
  "NewWaitForTargetReadyTask = new_task WaitForTargetReadyTask ''WaitForTargetReady''
     ''Waits for target workloads to be fully ready''"

definition WaitForTargetReadyTask_Execute :: "'w go_runtime \<Rightarrow> ('w, unit outcome) workflow_action" where
  "WaitForTargetReadyTask_Execute rt = simulated_wait rt"

subsection \<open>Uptime mode\<close>

definition NewMarkTargetReadyForTrafficTask :: "'w base_task" where
  "NewMarkTargetReadyForTrafficTask = new_task MarkTargetReadyForTrafficTask ''MarkTargetReadyForTraffic''
     ''Updates DynamoDB to indicate target is ready for traffic''"

definition MarkTargetReadyForTrafficTask_Execute :: "'w go_runtime \<Rightarrow> ('w, unit outcome) workflow_action" where
  "MarkTargetReadyForTrafficTask_Execute rt = delay_ok rt"

definition NewWaitForTargetReadyForTrafficTask :: "'w base_task" where
  "NewWaitForTargetReadyForTrafficTask = new_task WaitForTargetReadyForTrafficTask
     ''WaitForTargetReadyForTraffic'' ''Waits until target is ready to serve traffic''"

definition WaitForTargetReadyForTrafficTask_Execute :: "'w go_runtime \<Rightarrow> ('w, unit outcome) workflow_action" where
  "WaitForTargetReadyForTrafficTask_Execute rt = simulated_wait rt"

definition NewMarkTrafficTransitionCompleteTask :: "'w base_task" where
  "NewMarkTrafficTransitionCompleteTask = new_task MarkTrafficTransitionCompleteTask
     ''MarkTrafficTransitionComplete'' ''Updates DynamoDB to indicate traffic transition is complete''"

definition MarkTrafficTransitionCompleteTask_Execute :: "'w go_runtime \<Rightarrow> ('w, unit outcome) workflow_action" where
  "MarkTrafficTransitionCompleteTask_Execute rt = delay_ok rt"

definition NewWaitForTrafficTransitionCompleteTask :: "'w base_task" where
  "NewWaitForTrafficTransitionCompleteTask = new_task WaitForTrafficTransitionCompleteTask
     ''WaitForTrafficTransitionComplete'' ''Waits until traffic transition is complete''"

definition WaitForTrafficTransitionCompleteTask_Execute :: "'w go_runtime \<Rightarrow> ('w, unit outcome) workflow_action" where
  "WaitForTrafficTransitionCompleteTask_Execute rt = simulated_wait rt"

subsection \<open>State tasks\<close>

definition NewUpdateWorkflowStateTask :: "'w base_task" where
  "NewUpdateWorkflowStateTask = new_task UpdateWorkflowStateTask ''UpdateWorkflowState''
     ''Update the Failover state to reflect the current failover operation''"

text \<open>The last cluster with the active cluster's name decides.\<close>

definition workflow_state :: "failover_group \<Rightarrow> string" where
  "workflow_state g =
     (let gs = st_GlobalState (gr_Status g);
          st = fold (\<lambda>c st. if ci_Name c = gs_ActiveCluster gs
                            then if ci_Role c = ''PRIMARY'' then ''PREPARING'' else ''TRANSITION'' else st)
                 (gs_Clusters gs) ''''
      in if st = '''' then ''IN_PROGRESS'' else st)"

definition UpdateWorkflowStateTask_Execute :: "'w go_runtime \<Rightarrow> 'w base_task \<Rightarrow> ('w, unit outcome) workflow_action" where
  "UpdateWorkflowStateTask_Execute rt t = do {
     c \<leftarrow> get_ctx;
     check (UpdateFailoverState t (workflow_state (wc_FailoverGroup c))) (\<lambda>e. e) (\<lambda>_. delay_ok rt)
   }"

definition NewResetWorkflowStateTask :: "'w base_task" where
  "NewResetWorkflowStateTask = new_task ResetWorkflowStateTask ''ResetWorkflowState''
     ''Reset the Failover state after failover completion''"

definition ResetWorkflowStateTask_Execute :: "'w go_runtime \<Rightarrow> 'w base_task \<Rightarrow> ('w, unit outcome) workflow_action" where
  "ResetWorkflowStateTask_Execute rt t = do {
     c \<leftarrow> get_ctx;
     check (UpdateFailoverState t
         (if wc_IsTargetCluster c then ''PRIMARY'' else if wc_IsSourceCluster c then ''STANDBY'' else ''COMPLETED''))
       (\<lambda>e. e) (\<lambda>_. delay_ok rt)
   }"

definition NewSetWorkflowPhaseTask :: "string \<Rightarrow> 'w base_task" where
  "NewSetWorkflowPhaseTask phase = new_task (SetWorkflowPhaseTask phase) (''SetWorkflowPhase_'' @ phase)
     (''Update the Failover state to show the '' @ phase @ '' phase'')"

definition SetWorkflowPhaseTask_Execute ::
    "'w go_runtime \<Rightarrow> string \<Rightarrow> 'w base_task \<Rightarrow> ('w, unit outcome) workflow_action" where
  "SetWorkflowPhaseTask_Execute rt phase t = check (UpdateFailoverState t phase) (\<lambda>e. e) (\<lambda>_. delay_ok rt)"

subsection \<open>Completion (tasks_completion.go)\<close>

definition NewUpdateGlobalStateTask :: "'w base_task" where
  "NewUpdateGlobalStateTask = new_task UpdateGlobalStateTask ''UpdateGlobalState''
     ''Updates the DynamoDB global state with new owner information''"

definition isLockedBySourceCluster :: "go_error \<Rightarrow> string \<Rightarrow> bool" where
  "isLockedBySourceCluster err sourceCluster \<longleftrightarrow>
     contains (err_msg err) (''failover group is locked by: '' @ sourceCluster) \<or>
     contains (err_msg err) (''locked by: '' @ sourceCluster)"

text \<open>The update of this cluster's own role, and the bypass when the source holds the lock.\<close>

definition update_role ::
    "'w go_runtime \<Rightarrow> 'w dynamo_service \<Rightarrow> failover_group \<Rightarrow> bool \<Rightarrow> string \<Rightarrow> string \<Rightarrow> string \<Rightarrow>
     ('w, unit outcome) workflow_action" where
  "update_role rt s g here cluster role msg =
     (if here
      then check (in_service (svc_UpdateClusterStatus rt s (gr_Namespace g) (gr_Name g) cluster ''OK'' role ''''))
             (wrapf msg) (\<lambda>_. ret ())
      else ret ())"

definition break_lock ::
    "'w go_runtime \<Rightarrow> 'w dynamo_service \<Rightarrow> failover_group \<Rightarrow> string \<Rightarrow> string \<Rightarrow> ('w, unit outcome) workflow_action" where
  "break_lock rt s g token target =
     try_or (if token \<noteq> '''' then ignore_err (in_service (svc_ReleaseLock s (gr_Namespace g) (gr_Name g) token)) else ret ())
       raise
       (\<lambda>_. check (in_service (svc_TransferOwnership rt s (gr_Namespace g) (gr_Name g) target))
          (wrapf ''failed to update group ownership even with force'') (\<lambda>_. ret ()))"

definition UpdateGlobalStateTask_Execute :: "'w go_runtime \<Rightarrow> 'w base_task \<Rightarrow> ('w, unit outcome) workflow_action" where
  "UpdateGlobalStateTask_Execute rt t =
     note_state t ''UPDATING_GLOBAL_STATE'' (do {
       c \<leftarrow> get_ctx;
       let g = wc_FailoverGroup c;
       let f = wc_Failover c;
       let source = wc_SourceClusterName c;
       let target = wc_TargetClusterName c;
       let mode = fs_FailoverMode (fo_Spec f);
       (case bt_DynamoDBManager t of
          None \<Rightarrow> do {
            set_result ''GlobalStateUpdated'' (ResultBool True);
            set_result ''NewPrimaryCluster'' (ResultString target);
            delay_ok rt
          }
        | Some s \<Rightarrow>
            check (update_role rt s g (wc_IsSourceCluster c) source ''STANDBY'' ''failed to update source cluster role'') (\<lambda>e. e)
            (\<lambda>_. check (update_role rt s g (wc_IsTargetCluster c) target ''PRIMARY'' ''failed to update target cluster role'') (\<lambda>e. e)
            (\<lambda>_. try_or (in_service (svc_ExecuteFailover rt s (gr_Namespace g) (gr_Name g) (fo_Name f) target
                             (fs_Reason (fo_Spec f)) (mode = ''UPTIME'')))
               (\<lambda>err. if isLockedBySourceCluster err source \<and> (mode = ''CONSISTENCY'' \<or> wc_ForceFailover c)
                      then break_lock rt s g (wc_LeaseToken c) target
                      else raise (wrapf ''failed to update group ownership'' err))
               (\<lambda>_. delay_ok rt))))
     })"

definition NewRecordFailoverHistoryTask :: "'w base_task" where
  "NewRecordFailoverHistoryTask = new_task RecordFailoverHistoryTask ''RecordFailoverHistory''
     ''Records the failover operation in DynamoDB history''"

definition show_bool :: "bool \<Rightarrow> string" where
  "show_bool b = (if b then ''true'' else ''false'')"

definition historyRecord :: "workflow_context \<Rightarrow> go_time \<Rightarrow> (string \<times> string) list" where
  "historyRecord c now =
     (let f = wc_Failover c in
      [(''failoverName'', fo_Name f),
       (''sourceCluster'', wc_SourceClusterName c),
       (''targetCluster'', wc_TargetClusterName c),
       (''failoverMode'', fs_FailoverMode (fo_Spec f)),
       (''force'', show_bool (fs_Force (fo_Spec f))),
       (''reason'', fs_Reason (fo_Spec f)),
       (''startTime'', format_rfc3339 (wc_StartTime c)),
       (''completionTime'', format_rfc3339 now),
       (''totalTimeSeconds'', show_int (fm_TotalFailoverTimeSeconds (wc_Metrics c))),
       (''totalDowntimeSeconds'', show_int (fm_TotalDowntimeSeconds (wc_Metrics c))),
       (''initiatedBy'', wc_ClusterName c),
       (''status'', ''SUCCESS'')])"

text \<open>With a DynamoDB service the record is only logged.\<close>

definition RecordFailoverHistoryTask_Execute :: "'w go_runtime \<Rightarrow> 'w base_task \<Rightarrow> ('w, unit outcome) workflow_action" where
  "RecordFailoverHistoryTask_Execute rt t =
     note_state t ''FINISHING'' (do {
       now \<leftarrow> in_world (time_now rt);
       modify_ctx (\<lambda>c. c\<lparr> wc_Metrics := (wc_Metrics c)\<lparr> fm_TotalFailoverTimeSeconds :=
         whole_seconds (time_sub now (wc_StartTime c)) \<rparr> \<rparr>);
       c \<leftarrow> get_ctx;
       now \<leftarrow> in_world (time_now rt);
       (case bt_DynamoDBManager t of
          None \<Rightarrow> do {
            set_result ''FailoverHistoryRecorded'' (ResultBool True);
            set_result ''FailoverHistoryRecord'' (ResultMap (historyRecord c now));
            delay_ok rt
          }
        | Some s \<Rightarrow> delay_ok rt)
     })"

definition NewReleaseLockTask :: "'w base_task" where
  "NewReleaseLockTask = new_task ReleaseLockTask ''ReleaseLock''
     ''Releases the lock in DynamoDB for the failover group''"

definition expected_release_error :: "go_error \<Rightarrow> bool" where
  "expected_release_error e \<longleftrightarrow> contains (err_msg e) ''lock doesn't exist'' \<or>
     contains (err_msg e) ''lease token doesn't match'' \<or> contains (err_msg e) ''ConditionalCheckFailed''"

definition release_with_token ::
    "'w go_runtime \<Rightarrow> 'w dynamo_service \<Rightarrow> failover_group \<Rightarrow> string \<Rightarrow> ('w, unit outcome) workflow_action" where
  "release_with_token rt s g token =
     (if token = '''' then delay_ok rt
      else try_or (in_service (svc_ReleaseLock s (gr_Namespace g) (gr_Name g) token))
        (\<lambda>e. if expected_release_error e then do { set_token ''''; delay_ok rt }
              else raise (wrapf ''unexpected error releasing lock'' e))
        (\<lambda>_. do { set_token ''''; delay_ok rt }))"

text \<open>The lock is left alone when the source cluster holds it and the token was made up.\<close>

definition ReleaseLockTask_Execute :: "'w go_runtime \<Rightarrow> 'w base_task \<Rightarrow> ('w, unit outcome) workflow_action" where
  "ReleaseLockTask_Execute rt t =
     note_state t ''RELEASING_LOCK'' (
       case bt_DynamoDBManager t of
         None \<Rightarrow> do { set_token ''''; delay_ok rt }
       | Some s \<Rightarrow> do {
           c \<leftarrow> get_ctx;
           let go = release_with_token rt s (wc_FailoverGroup c) (wc_LeaseToken c);
           (case map_of (wc_Results c) ''SourceClusterHoldsLock'' of
              None \<Rightarrow> go
            | Some (ResultBool b) \<Rightarrow> if b \<and> prefix ''forced-lock-bypass-'' (wc_LeaseToken c) then ret () else go
            | Some _ \<Rightarrow> State_Monad.return Panic)
         })"

section \<open>Dispatch\<close>

definition Execute :: "'w go_runtime \<Rightarrow> 'w base_task \<Rightarrow> ('w, unit outcome) workflow_action" where
  "Execute rt t =
     (case bt_Type t of
        ValidateFailoverTask \<Rightarrow> ValidateFailoverTask_Execute rt t
      | AcquireLockTask \<Rightarrow> AcquireLockTask_Execute rt t
      | UpdateNetworkResourcesTask action \<Rightarrow> UpdateNetworkResourcesTask_Execute action t
      | ScaleDownWorkloadsTask \<Rightarrow> ScaleDownWorkloadsTask_Execute rt t
      | DisableFluxReconciliationTask \<Rightarrow> DisableFluxReconciliationTask_Execute rt t
      | WaitForWorkloadsScaledDownTask \<Rightarrow> WaitForWorkloadsScaledDownTask_Execute rt
      | DemoteVolumesTask \<Rightarrow> DemoteVolumesTask_Execute rt t
      | WaitForVolumesDemotedTask \<Rightarrow> WaitForVolumesDemotedTask_Execute rt
      | MarkVolumesReadyForPromotionTask \<Rightarrow> MarkVolumesReadyForPromotionTask_Execute rt t
      | WaitForVolumesReadyForPromotionTask \<Rightarrow> WaitForVolumesReadyForPromotionTask_Execute rt
      | PromoteVolumesTask \<Rightarrow> PromoteVolumesTask_Execute rt t
      | WaitForVolumesPromotedTask \<Rightarrow> WaitForVolumesPromotedTask_Execute rt
      | VerifyDataAvailabilityTask \<Rightarrow> VerifyDataAvailabilityTask_Execute rt
      | ScaleUpWorkloadsTask \<Rightarrow> ScaleUpWorkloadsTask_Execute rt t
      | TriggerFluxReconciliationTask \<Rightarrow> TriggerFluxReconciliationTask_Execute rt
      | WaitForTargetReadyTask \<Rightarrow> WaitForTargetReadyTask_Execute rt
      | MarkTargetReadyForTrafficTask \<Rightarrow> MarkTargetReadyForTrafficTask_Execute rt
      | WaitForTargetReadyForTrafficTask \<Rightarrow> WaitForTargetReadyForTrafficTask_Execute rt
      | MarkTrafficTransitionCompleteTask \<Rightarrow> MarkTrafficTransitionCompleteTask_Execute rt
      | WaitForTrafficTransitionCompleteTask \<Rightarrow> WaitForTrafficTransitionCompleteTask_Execute rt
      | UpdateGlobalStateTask \<Rightarrow> UpdateGlobalStateTask_Execute rt t
      | RecordFailoverHistoryTask \<Rightarrow> RecordFailoverHistoryTask_Execute rt t
      | ReleaseLockTask \<Rightarrow> ReleaseLockTask_Execute rt t
      | UpdateWorkflowStateTask \<Rightarrow> UpdateWorkflowStateTask_Execute rt t
      | ResetWorkflowStateTask \<Rightarrow> ResetWorkflowStateTask_Execute rt t
      | SetWorkflowPhaseTask phase \<Rightarrow> SetWorkflowPhaseTask_Execute rt phase t)"

end
