(* ===== verification/Workflow_Engine.thy ===== *)
theory Workflow_Engine
  imports Workflow_Tasks
begin

text \<open>
  internal/workflow: dependency injection (injector.go), the engine that runs tasks in order
  (engine.go), the adapter the Failover controller calls (adapter.go) and the factory of staged
  workflows (factory.go).
\<close>

section \<open>Injection and execution\<close>

record 'w dependency_injector =
  di_Client :: "'w kube_client"
  di_DynamoDBManager :: "'w dynamo_service option"

text \<open>Every task type embeds BaseTask, so the type assertion never fails.\<close>

definition InjectDependencies :: "'w dependency_injector \<Rightarrow> 'w base_task \<Rightarrow> 'w base_task" where
  "InjectDependencies i t = t\<lparr> bt_Client := Some (di_Client i), bt_DynamoDBManager := di_DynamoDBManager i \<rparr>"

definition ExecuteTask ::
    "'w go_runtime \<Rightarrow> 'w dependency_injector option \<Rightarrow> 'w base_task \<Rightarrow> ('w, unit outcome) workflow_action" where
  "ExecuteTask rt injector task = do {
     modify_ctx (mark_state (''TASK_'' @ bt_TaskName task));
     let task = (case (bt_Client task, injector) of
                   (None, Some i) \<Rightarrow> task\<lparr> bt_Client := Some (di_Client i) \<rparr>
                 | _ \<Rightarrow> task);
     check (Execute rt task) (\<lambda>e. Wrapped (''task '' @ quoted (bt_TaskName task) @ '' failed: '') e '''') ret
   }"

record 'w engine =
  en_Tasks :: "'w base_task list"
  en_DepsInjector :: "'w dependency_injector option"

definition NewEngine :: "'w base_task list \<Rightarrow> 'w dependency_injector option \<Rightarrow> 'w engine" where
  "NewEngine tasks deps = \<lparr> en_Tasks = tasks, en_DepsInjector = deps \<rparr>"

text \<open>The loop over the tasks, from number \<open>i\<close> on.\<close>

fun execute_tasks ::
    "'w go_runtime \<Rightarrow> 'w dependency_injector option \<Rightarrow> nat \<Rightarrow> 'w base_task list \<Rightarrow> ('w, unit outcome) workflow_action" where
  "execute_tasks rt injector i [] = ret ()"
| "execute_tasks rt injector i (task # tasks) =
     check (ExecuteTask rt injector task)
       (\<lambda>e. Wrapped (''workflow execution failed at task '' @ show_nat i @ '' ('' @ bt_TaskName task @ ''): '') e '''')
       (\<lambda>_. execute_tasks rt injector (Suc i) tasks)"

definition Engine_Execute :: "'w go_runtime \<Rightarrow> 'w engine \<Rightarrow> ('w, unit outcome) workflow_action" where
  "Engine_Execute rt e =
     (let tasks = (case en_DepsInjector e of Some i \<Rightarrow> map (InjectDependencies i) (en_Tasks e) | None \<Rightarrow> en_Tasks e)
      in execute_tasks rt (en_DepsInjector e) 1 tasks)"

section \<open>The adapter\<close>

record 'w manager_adapter =
  ad_Client :: "'w kube_client"
  ad_ClusterName :: string
  ad_DynamoDBManager :: "'w dynamo_service option"

definition NewManagerAdapter :: "'w kube_client \<Rightarrow> string \<Rightarrow> 'w dynamo_service option \<Rightarrow> 'w manager_adapter" where
  "NewManagerAdapter kc clusterName s = \<lparr> ad_Client = kc, ad_ClusterName = clusterName, ad_DynamoDBManager = s \<rparr>"

definition createConsistencyTasks :: "'w base_task list" where
  "createConsistencyTasks =
     [NewValidateFailoverTask, NewAcquireLockTask,
      NewUpdateNetworkResourcesTask ''disable'', NewScaleDownWorkloadsTask, NewDisableFluxReconciliationTask,
      NewWaitForWorkloadsScaledDownTask,
      NewDemoteVolumesTask, NewWaitForVolumesDemotedTask, NewMarkVolumesReadyForPromotionTask,
      NewWaitForVolumesReadyForPromotionTask,
      NewPromoteVolumesTask, NewWaitForVolumesPromotedTask, NewVerifyDataAvailabilityTask,
      NewScaleUpWorkloadsTask, NewTriggerFluxReconciliationTask, NewWaitForTargetReadyTask,
      NewUpdateNetworkResourcesTask ''enable'',
      NewUpdateGlobalStateTask, NewRecordFailoverHistoryTask, NewReleaseLockTask]"

definition createUptimeTasks :: "'w base_task list" where
  "createUptimeTasks =
     [NewValidateFailoverTask, NewAcquireLockTask,
      NewPromoteVolumesTask, NewWaitForVolumesPromotedTask, NewVerifyDataAvailabilityTask,
      NewScaleUpWorkloadsTask, NewTriggerFluxReconciliationTask, NewWaitForTargetReadyTask,
      NewMarkTargetReadyForTrafficTask, NewWaitForTargetReadyForTrafficTask,
      NewUpdateNetworkResourcesTask ''transition'', NewMarkTrafficTransitionCompleteTask,
      NewWaitForTrafficTransitionCompleteTask,
      NewUpdateNetworkResourcesTask ''disable'', NewScaleDownWorkloadsTask, NewDisableFluxReconciliationTask,
      NewWaitForWorkloadsScaledDownTask, NewDemoteVolumesTask, NewWaitForVolumesDemotedTask,
      NewUpdateGlobalStateTask, NewRecordFailoverHistoryTask, NewReleaseLockTask]"

text \<open>\<open>a.Client.Status().Update(ctx, failover)\<close>: the answer is decoded into the object.\<close>

definition save_failover :: "'w kube_client \<Rightarrow> ('w, unit outcome) workflow_action" where
  "save_failover kc = do {
     c \<leftarrow> get_ctx;
     check (in_world (StatusUpdateFailover kc (wc_Failover c))) (\<lambda>e. e)
       (\<lambda>stored. do { modify_ctx (\<lambda>c. c\<lparr> wc_Failover := stored \<rparr>); ret () })
   }"

definition processed_condition :: "failover \<Rightarrow> string \<Rightarrow> string \<Rightarrow> go_time \<Rightarrow> condition" where
  "processed_condition f status message now =
     (let c = \<lparr> cn_Type = ''Reconciled'', cn_Status = ''True'',
                cn_ObservedGeneration = om_Generation (fo_Meta f), cn_LastTransitionTime = now,
                cn_Reason = ''FailoverProcessed'', cn_Message = ''Failover processed successfully'' \<rparr>
      in if status = ''FAILED''
         then c\<lparr> cn_Status := ''False'', cn_Reason := ''FailoverFailed'',
                 cn_Message := ''Failover failed: '' @ message \<rparr>
         else c)"

definition put_condition :: "condition \<Rightarrow> condition list \<Rightarrow> condition list" where
  "put_condition c cs =
     (if list_ex (\<lambda>d. cn_Type d = cn_Type c) cs
      then map (\<lambda>d. if cn_Type d = cn_Type c then c else d) cs else cs @ [c])"

definition updateFailoverStatus ::
    "'w go_runtime \<Rightarrow> 'w kube_client \<Rightarrow> string \<Rightarrow> string \<Rightarrow> ('w, unit outcome) workflow_action" where
  "updateFailoverStatus rt kc status message = do {
     now \<leftarrow> in_world (time_now rt);
     modify_ctx (\<lambda>c. c\<lparr> wc_Failover := on_status (\<lambda>s. s\<lparr> ft_Status := status,
       ft_Conditions := put_condition (processed_condition (wc_Failover c) status message now) (ft_Conditions s) \<rparr>)
       (wc_Failover c) \<rparr>);
     save_failover kc
   }"

definition lock_advice :: "string \<Rightarrow> string" where
  "lock_advice source = ''Source cluster '' @ quoted source @
     '' still holds the lock. This may happen if the source cluster is still active. '' @
     ''Verify the source cluster status and retry the failover with force=true if needed.''"

text \<open>What ProcessFailover does with the context once it is made.\<close>

definition workflow_failed ::
    "'w go_runtime \<Rightarrow> 'w kube_client \<Rightarrow> go_error \<Rightarrow> ('w, unit outcome) workflow_action" where
  "workflow_failed rt kc err = do {
     modify_ctx (mark_state ''FAILED'');
     try_or (save_failover kc) (\<lambda>_. ret ()) ret;
     c \<leftarrow> get_ctx;
     let other = try_or (updateFailoverStatus rt kc ''FAILED'' (err_msg err))
           (\<lambda>_. raise (wrapf ''workflow execution failed'' err)) (\<lambda>_. raise (wrapf ''workflow execution failed'' err));
     (case map_of (wc_Results c) ''SourceClusterHoldsLock'' of
        None \<Rightarrow> other
      | Some (ResultBool b) \<Rightarrow>
          if b \<and> contains (err_msg err) ''locked by''
          then
            let gone = raise (Wrapped (''source cluster '' @ quoted (wc_SourceClusterName c) @ '' still holds the lock: '') err '''') in
            try_or (updateFailoverStatus rt kc ''FAILED'' (lock_advice (wc_SourceClusterName c))) (\<lambda>_. gone) (\<lambda>_. gone)
          else other
      | Some _ \<Rightarrow> State_Monad.return Panic)
   }"

definition process_workflow ::
    "'w go_runtime \<Rightarrow> 'w manager_adapter \<Rightarrow> ('w, unit outcome) workflow_action" where
  "process_workflow rt a = do {
     c \<leftarrow> get_ctx;
     let injector = \<lparr> di_Client = ad_Client a, di_DynamoDBManager = ad_DynamoDBManager a \<rparr>;
     let tasks = (if to_upper (fs_FailoverMode (fo_Spec (wc_Failover c))) = ''UPTIME''
                  then createUptimeTasks else createConsistencyTasks);
     try_or (Engine_Execute rt (NewEngine tasks (Some injector)))
       (workflow_failed rt (ad_Client a))
       (\<lambda>_. do {
          modify_ctx (\<lambda>c. c\<lparr> wc_Failover := on_status (\<lambda>s. s\<lparr> ft_Metrics := wc_Metrics c, ft_State := ''SUCCESS'' \<rparr>)
            (wc_Failover c) \<rparr>);
          try_or (save_failover (ad_Client a)) (\<lambda>_. ret ()) ret;
          check (updateFailoverStatus rt (ad_Client a) ''SUCCESS'' '''')
            (wrapf ''failed to update failover status after successful workflow'') ret
        })
   }"

text \<open>The caller sees the Failover object as it is left.\<close>

definition with_context :: "workflow_context \<Rightarrow> ('w, 'a) workflow_action \<Rightarrow> ('w, 'a \<times> failover) service_action" where
  "with_context c m = State (\<lambda>s. case run_state m (s, c) of (r, (s', c')) \<Rightarrow> ((r, wc_Failover c'), s'))"

definition ProcessFailover ::
    "'w go_runtime \<Rightarrow> 'w manager_adapter \<Rightarrow> failover \<Rightarrow> failover_group \<Rightarrow>
     ('w, unit outcome \<times> failover) service_action" where
  "ProcessFailover rt a f g = do {
     let f = on_status (\<lambda>s. s\<lparr> ft_State := ''IN_PROGRESS'' \<rparr>) f;
     r \<leftarrow> uncached (StatusUpdateFailover (ad_Client a) f);
     let f = (case r of Ok obj \<Rightarrow> obj | _ \<Rightarrow> f);
     now \<leftarrow> uncached (time_now rt);
     with_context (NewWorkflowContext f g (ad_ClusterName a) now) (process_workflow rt a)
   }"

section \<open>The factory\<close>

record 'w workflow_stage =
  sg_Name :: string
  sg_Description :: string
  sg_Tasks :: "'w base_task list"

record 'w workflow =
  wf_Name :: string
  wf_Description :: string
  wf_Stages :: "'w workflow_stage list"
  wf_Context :: workflow_context

record 'w workflow_factory =
  fa_ClusterName :: string
  fa_DependencyInjector :: "'w dependency_injector option"

definition init_stage :: "'w workflow_stage" where
  "init_stage = \<lparr> sg_Name = ''Initialization'',
     sg_Description = ''Prepare for failover by validating prerequisites and acquiring locks'',
     sg_Tasks = [NewValidateFailoverTask, NewAcquireLockTask] \<rparr>"

definition completion_stage :: "'w workflow_stage" where
  "completion_stage = \<lparr> sg_Name = ''Completion'',
     sg_Description = ''Complete the failover by updating global state and recording history'',
     sg_Tasks = [NewUpdateGlobalStateTask, NewRecordFailoverHistoryTask, NewReleaseLockTask] \<rparr>"

definition source_shutdown_stages :: "'w workflow_stage list" where
  "source_shutdown_stages =
     [\<lparr> sg_Name = ''SourceClusterShutdown'',
        sg_Description = ''CONSISTENCY MODE: Deactivate the source cluster before activating target to ensure data integrity'',
        sg_Tasks = [NewUpdateNetworkResourcesTask ''disable'', NewScaleDownWorkloadsTask,
          NewDisableFluxReconciliationTask, NewWaitForWorkloadsScaledDownTask] \<rparr>,
      \<lparr> sg_Name = ''VolumeTransitionSource'',
        sg_Description = ''CONSISTENCY MODE: Demote volumes in source cluster and signal readiness for target promotion'',
        sg_Tasks = [NewDemoteVolumesTask, NewWaitForVolumesDemotedTask, NewMarkVolumesReadyForPromotionTask] \<rparr>]"

definition target_activation_stages :: "'w workflow_stage list" where
  "target_activation_stages =
     [\<lparr> sg_Name = ''VolumeTransitionTarget'',
        sg_Description = ''CONSISTENCY MODE: Wait for source shutdown, then promote volumes in target cluster to Primary role'',
        sg_Tasks = [NewWaitForVolumesReadyForPromotionTask, NewPromoteVolumesTask, NewWaitForVolumesPromotedTask,
          NewVerifyDataAvailabilityTask] \<rparr>,
      \<lparr> sg_Name = ''TargetClusterActivation'',
        sg_Description = ''CONSISTENCY MODE: Activate target cluster only after volumes are successfully promoted'',
        sg_Tasks = [NewScaleUpWorkloadsTask, NewTriggerFluxReconciliationTask, NewWaitForTargetReadyTask,
          NewUpdateNetworkResourcesTask ''enable''] \<rparr>]"

definition createConsistencyModeWorkflow :: "workflow_context \<Rightarrow> 'w workflow" where
  "createConsistencyModeWorkflow c =
     \<lparr> wf_Name = ''ConsistencyModeFailover'',
       wf_Description = ''Failover workflow that prioritizes data consistency by stopping the source cluster first'',
       wf_Stages = [init_stage] @ (if wc_IsSourceCluster c then source_shutdown_stages else []) @
         (if wc_IsTargetCluster c then target_activation_stages else []) @ [completion_stage],
       wf_Context = c \<rparr>"

definition target_preparation_stages :: "'w workflow_stage list" where
  "target_preparation_stages =
     [\<lparr> sg_Name = ''TargetClusterPreparation'',
        sg_Description = ''Prepare target cluster by promoting volumes and scaling up workloads'',
        sg_Tasks = [NewPromoteVolumesTask, NewWaitForVolumesPromotedTask, NewVerifyDataAvailabilityTask,
          NewScaleUpWorkloadsTask, NewTriggerFluxReconciliationTask, NewWaitForTargetReadyTask,
          NewMarkTargetReadyForTrafficTask] \<rparr>,
      \<lparr> sg_Name = ''TrafficTransition'', sg_Description = ''Switch traffic to the target cluster'',
        sg_Tasks = [NewWaitForTargetReadyForTrafficTask, NewUpdateNetworkResourcesTask ''enable'',
          NewMarkTrafficTransitionCompleteTask] \<rparr>]"

definition source_deactivation_stage :: "'w workflow_stage" where
  "source_deactivation_stage =
     \<lparr> sg_Name = ''SourceClusterDeactivation'',
       sg_Description = ''Deactivate the source cluster after target is serving traffic'',
       sg_Tasks = [NewWaitForTrafficTransitionCompleteTask, NewUpdateNetworkResourcesTask ''disable'',
         NewScaleDownWorkloadsTask, NewDisableFluxReconciliationTask, NewWaitForWorkloadsScaledDownTask,
         NewDemoteVolumesTask, NewWaitForVolumesDemotedTask] \<rparr>"

definition createUptimeModeWorkflow :: "workflow_context \<Rightarrow> 'w workflow" where
  "createUptimeModeWorkflow c =
     \<lparr> wf_Name = ''UptimeModeFailover'',
       wf_Description = ''Failover workflow that prioritizes service uptime'',
       wf_Stages = [init_stage] @ (if wc_IsTargetCluster c then target_preparation_stages else []) @
         (if wc_IsSourceCluster c then [source_deactivation_stage] else []) @ [completion_stage],
       wf_Context = c \<rparr>"

text \<open>The clock reading is that of NewWorkflowContext; the injector's errors are dropped.\<close>

definition CreateWorkflow ::
    "'w workflow_factory \<Rightarrow> failover \<Rightarrow> failover_group \<Rightarrow> go_time \<Rightarrow> 'w workflow" where
  "CreateWorkflow fa f g now =
     (let c = NewWorkflowContext f g (fa_ClusterName fa) now;
          w = (if to_upper (fs_FailoverMode (fo_Spec f)) = ''UPTIME'' then createUptimeModeWorkflow c
               else createConsistencyModeWorkflow c)
      in case fa_DependencyInjector fa of
           None \<Rightarrow> w
         | Some i \<Rightarrow> w\<lparr> wf_Stages := map (\<lambda>s. s\<lparr> sg_Tasks := map (InjectDependencies i) (sg_Tasks s) \<rparr>) (wf_Stages w) \<rparr>)"

end
