(* ===== verification/Workflow_Facts.thy ===== *)
theory Workflow_Facts
  imports Workflow_Engine Operations_Liveness
begin

text \<open>
  Facts about the workflow: what a step of it may change. The plan of a workflow (its group, the
  clusters, the specification of the Failover) is the same from start to end; the tasks between
  validation and completion do not touch the database.
\<close>

section \<open>Weakest preconditions\<close>

lemma wp_in_service [wp_simps]:
  "wp (in_service m) Q (s, c) = wp m (\<lambda>r s'. Q r (s', c)) s"
  by (simp add: wp_def in_service_def split: prod.splits)

lemma wp_uncached [wp_simps]: "wp (uncached m) Q (w, ca) = wp m (\<lambda>r w'. Q r (w', ca)) w"
  by (simp add: wp_def uncached_def split: prod.splits)

lemma wp_in_world [wp_simps]: "wp (in_world m) Q ((w, ca), c) = wp m (\<lambda>r w'. Q r ((w', ca), c)) w"
  by (simp add: in_world_def wp_simps)

lemma wp_get_ctx [wp_simps]: "wp get_ctx Q (s, c) = Q c (s, c)"
  by (simp add: wp_def get_ctx_def)

lemma wp_modify_ctx [wp_simps]: "wp (modify_ctx h) Q (s, c) = Q () (s, h c)"
  by (simp add: wp_def modify_ctx_def)

lemma wp_change_cache [wp_simps]: "wp (change_cache h) Q (w, ca) = Q () (w, h ca)"
  by (simp add: wp_def change_cache_def)

lemma wp_sleep [wp_simps]: "wp (sleep rt d) Q s = wp (in_world (timer_wait rt d)) (\<lambda>_ s'. Q () s') s"
  by (simp add: sleep_def wp_def split: prod.splits)

lemma wp_set_result [wp_simps]:
  "wp (set_result k v) Q (s, c) = Q () (s, c\<lparr> wc_Results := map_put k v (wc_Results c) \<rparr>)"
  by (simp add: set_result_def wp_simps)

lemma wp_set_token [wp_simps]: "wp (set_token tok) Q (s, c) = Q () (s, c\<lparr> wc_LeaseToken := tok \<rparr>)"
  by (simp add: set_token_def wp_simps)

lemma wp_delegate [wp_simps]:
  "wp (delegate (Some m) msg h) Q (w, ca) = wp (h m) (\<lambda>r w'. Q r (w', ca)) w"
  by (simp add: delegate_def wp_simps)

section \<open>What stays the same\<close>

text \<open>The plan of a workflow.\<close>

definition plan :: "workflow_context \<Rightarrow>
    failover_group \<times> string \<times> string \<times> bool \<times> bool \<times> bool \<times> failover_spec" where
  "plan c = (wc_FailoverGroup c, wc_SourceClusterName c, wc_TargetClusterName c, wc_IsSourceCluster c,
     wc_IsTargetCluster c, wc_ForceFailover c, fo_Spec (wc_Failover c))"

lemma plan_eq_iff: "plan c' = plan c \<longleftrightarrow>
    wc_FailoverGroup c' = wc_FailoverGroup c \<and> wc_SourceClusterName c' = wc_SourceClusterName c \<and>
    wc_TargetClusterName c' = wc_TargetClusterName c \<and> wc_IsSourceCluster c' = wc_IsSourceCluster c \<and>
    wc_IsTargetCluster c' = wc_IsTargetCluster c \<and> wc_ForceFailover c' = wc_ForceFailover c \<and>
    fo_Spec (wc_Failover c') = fo_Spec (wc_Failover c)"
  by (auto simp: plan_def)

text \<open>The two results that tasks read are booleans: their type assertions succeed.\<close>

primrec is_ResultBool :: "result_value \<Rightarrow> bool" where
  "is_ResultBool (ResultBool b) = True"
| "is_ResultBool (ResultString t) = False"
| "is_ResultBool (ResultMap r) = False"

definition flag :: "string \<Rightarrow> bool" where
  "flag k \<longleftrightarrow> k = ''SourceClusterHoldsLock'' \<or> k = ''VolumesReadyForPromotion''"

definition flags_ok :: "workflow_context \<Rightarrow> bool" where
  "flags_ok c \<longleftrightarrow> (\<forall>k v. flag k \<longrightarrow> map_of (wc_Results c) k = Some v \<longrightarrow> is_ResultBool v)"

lemma flags_ok_simps [simp]:
  "flags_ok (c\<lparr> wc_Failover := f \<rparr>) = flags_ok c" "flags_ok (c\<lparr> wc_Metrics := x \<rparr>) = flags_ok c"
  "flags_ok (c\<lparr> wc_LeaseToken := tok \<rparr>) = flags_ok c" "flags_ok (mark_state st c) = flags_ok c"
  by (simp_all add: flags_ok_def mark_state_def)

definition keeps_plan :: "('w, 'a) workflow_action \<Rightarrow> bool" where
  "keeps_plan m \<longleftrightarrow> keeps (\<lambda>s s'. plan (snd s') = plan (snd s) \<and> (flags_ok (snd s) \<longrightarrow> flags_ok (snd s'))) m"

named_theorems plan_intros \<open>actions that keep the plan\<close>

lemma keeps_plan_return [plan_intros]: "keeps_plan (State_Monad.return x)"
  by (simp add: keeps_plan_def keeps_return)

lemma keeps_plan_bind [plan_intros]:
  "keeps_plan m \<Longrightarrow> (\<And>x. keeps_plan (f x)) \<Longrightarrow> keeps_plan (State_Monad.bind m f)"
  unfolding keeps_plan_def by (rule keeps_bind) auto

lemma keeps_plan_ret [plan_intros]: "keeps_plan (ret x)" "keeps_plan (raise e)"
  by (simp_all add: ret_def raise_def keeps_plan_return)

lemma keeps_plan_case_outcome [plan_intros]:
  "(\<And>x. keeps_plan (k x)) \<Longrightarrow> (\<And>e. keeps_plan (h e)) \<Longrightarrow> keeps_plan p \<Longrightarrow>
   keeps_plan (case r of Ok x \<Rightarrow> k x | Err e \<Rightarrow> h e | Panic \<Rightarrow> p)"
  by (cases r) auto

lemma keeps_plan_try_or [plan_intros]:
  "keeps_plan m \<Longrightarrow> (\<And>e. keeps_plan (h e)) \<Longrightarrow> (\<And>x. keeps_plan (k x)) \<Longrightarrow> keeps_plan (try_or m h k)"
  unfolding try_or_def by (intro plan_intros)

lemma keeps_plan_check [plan_intros]:
  "keeps_plan m \<Longrightarrow> (\<And>x. keeps_plan (k x)) \<Longrightarrow> keeps_plan (check m f k)"
  unfolding check_def by (intro plan_intros)

lemma keeps_plan_ignore_err [plan_intros]: "keeps_plan m \<Longrightarrow> keeps_plan (ignore_err m)"
  unfolding ignore_err_def by (intro plan_intros)

lemma keeps_plan_if [plan_intros]: "keeps_plan m \<Longrightarrow> keeps_plan m' \<Longrightarrow> keeps_plan (if b then m else m')"
  by simp

lemma keeps_plan_case_option [plan_intros]:
  "keeps_plan m \<Longrightarrow> (\<And>y. keeps_plan (f y)) \<Longrightarrow> keeps_plan (case x of None \<Rightarrow> m | Some y \<Rightarrow> f y)"
  by (cases x) auto

lemma keeps_plan_case_result [plan_intros]:
  "(\<And>b. keeps_plan (f b)) \<Longrightarrow> (\<And>t. keeps_plan (g t)) \<Longrightarrow> (\<And>m. keeps_plan (h m)) \<Longrightarrow>
   keeps_plan (case v of ResultBool b \<Rightarrow> f b | ResultString t \<Rightarrow> g t | ResultMap m \<Rightarrow> h m)"
  by (cases v) auto

lemma keeps_plan_service [plan_intros]: "keeps_plan (in_service m)" "keeps_plan (in_world m')"
  by (auto simp: keeps_plan_def keeps_def in_world_def in_service_def split: prod.splits)

lemma keeps_plan_get_ctx [plan_intros]: "keeps_plan get_ctx"
  by (simp add: keeps_plan_def keeps_def get_ctx_def)

lemma keeps_plan_modify_ctx:
  "(\<And>c. plan (h c) = plan c) \<Longrightarrow> (\<And>c. flags_ok c \<Longrightarrow> flags_ok (h c)) \<Longrightarrow> keeps_plan (modify_ctx h)"
  by (simp add: keeps_plan_def keeps_def modify_ctx_def)

lemma keeps_plan_result: "\<not> flag k \<or> is_ResultBool v \<Longrightarrow> keeps_plan (set_result k v)"
  unfolding set_result_def by (rule keeps_plan_modify_ctx) (auto simp: plan_def flags_ok_def)

lemma keeps_plan_results [plan_intros]:
  "keeps_plan (set_result k (ResultBool b))" "keeps_plan (set_result ''VolumeReadyTimestamp'' v)"
  "keeps_plan (set_result ''NewPrimaryCluster'' v)" "keeps_plan (set_result ''FailoverHistoryRecord'' v)"
  by (simp_all add: keeps_plan_result flag_def)

lemma keeps_plan_set [plan_intros]:
  "keeps_plan (set_token tok)" "keeps_plan (modify_ctx (mark_state st))"
  "keeps_plan (modify_ctx (\<lambda>c. c\<lparr> wc_Metrics := f c \<rparr>))"
  by (simp_all add: set_token_def keeps_plan_modify_ctx plan_def, simp add: keeps_plan_modify_ctx plan_def mark_state_def)

lemma keeps_plan_delay [plan_intros]: "keeps_plan (DelayAfterExecution rt)" "keeps_plan (delay_ok rt)"
  "keeps_plan (sleep rt d)"
  unfolding delay_ok_def DelayAfterExecution_def sleep_def by (intro plan_intros)+

lemma keeps_plan_state [plan_intros]: "keeps_plan (UpdateFailoverState t st)"
  unfolding UpdateFailoverState_def by (intro plan_intros)

lemma keeps_plan_note_state [plan_intros]: "keeps_plan k \<Longrightarrow> keeps_plan (note_state t st k)"
  unfolding note_state_def by (intro plan_intros)

lemma keeps_plan_mark [plan_intros]: "keeps_plan (mark_volumes_ready rt)"
  unfolding mark_volumes_ready_def by (intro plan_intros)

lemma keeps_plan_poll [plan_intros]: "keeps_plan (poll_volumes_ready rt i n)"
proof (induction n arbitrary: i)
  case (Suc n)
  then show ?case unfolding poll_volumes_ready.simps Let_def by (intro plan_intros)
qed (unfold poll_volumes_ready.simps, intro plan_intros)

lemmas task_execute_defs =
  ValidateFailoverTask_Execute_def AcquireLockTask_Execute_def UpdateNetworkResourcesTask_Execute_def
  ScaleDownWorkloadsTask_Execute_def DisableFluxReconciliationTask_Execute_def
  WaitForWorkloadsScaledDownTask_Execute_def DemoteVolumesTask_Execute_def
  WaitForVolumesDemotedTask_Execute_def MarkVolumesReadyForPromotionTask_Execute_def
  WaitForVolumesReadyForPromotionTask_Execute_def PromoteVolumesTask_Execute_def
  WaitForVolumesPromotedTask_Execute_def VerifyDataAvailabilityTask_Execute_def
  ScaleUpWorkloadsTask_Execute_def TriggerFluxReconciliationTask_Execute_def
  WaitForTargetReadyTask_Execute_def MarkTargetReadyForTrafficTask_Execute_def
  WaitForTargetReadyForTrafficTask_Execute_def MarkTrafficTransitionCompleteTask_Execute_def
  WaitForTrafficTransitionCompleteTask_Execute_def UpdateGlobalStateTask_Execute_def
  RecordFailoverHistoryTask_Execute_def ReleaseLockTask_Execute_def UpdateWorkflowStateTask_Execute_def
  ResetWorkflowStateTask_Execute_def SetWorkflowPhaseTask_Execute_def simulated_wait_def
  update_role_def break_lock_def release_with_token_def

lemma keeps_plan_Execute [plan_intros]: "keeps_plan (Execute rt t)"
  unfolding Execute_def by (cases "bt_Type t"; simp only: task_type.case task_execute_defs Let_def; intro plan_intros)

lemma keeps_plan_ExecuteTask [plan_intros]: "keeps_plan (ExecuteTask rt i t)"
  unfolding ExecuteTask_def Let_def by (intro plan_intros)

lemma keeps_plan_execute_tasks [plan_intros]: "keeps_plan (execute_tasks rt injector i ts)"
  by (induction rt injector i ts rule: execute_tasks.induct) (simp_all add: plan_intros)

lemma wp_plan: "keeps_plan m \<Longrightarrow> wp m (\<lambda>r s'. plan (snd s') = plan (snd s)) s"
  unfolding keeps_plan_def by (drule keeps_wp [where w = s]) (auto elim: wp_mono)

lemma wp_flags: "keeps_plan m \<Longrightarrow> flags_ok (snd s) \<Longrightarrow> wp m (\<lambda>r s'. flags_ok (snd s')) s"
  unfolding keeps_plan_def by (drule keeps_wp [where w = s]) (auto elim: wp_mono)

section \<open>The world of a workflow\<close>

text \<open>
  The DynamoDB service of a workflow is that of a manager that keeps the contract of the store,
  and calls of the Kubernetes API do not touch the database.
\<close>

locale workflow_world = manager_store +
  fixes kc :: "'a kube_client" and sv :: "'a dynamo_service"
  assumes kube_beside: "run_state (StatusUpdateFailover kc f) w = (r, w') \<Longrightarrow>
      tbl w' = tbl w \<and> clk w' = clk w \<and> r \<noteq> Panic"
    and service: "sv_operations sv = Some m" "sv_base sv = m"

text \<open>Steps that leave the database, the token and the note about the lock holder alone.\<close>

definition calm ::
    "('w \<Rightarrow> dynamo_table) \<Rightarrow> ('w \<Rightarrow> go_time) \<Rightarrow> (('w \<times> service_cache) \<times> workflow_context) \<Rightarrow>
     (('w \<times> service_cache) \<times> workflow_context) \<Rightarrow> bool" where
  "calm tbl clk s s' \<longleftrightarrow>
     tbl (fst (fst s')) = tbl (fst (fst s)) \<and> nanos (clk (fst (fst s))) \<le> nanos (clk (fst (fst s'))) \<and>
     wc_LeaseToken (snd s') = wc_LeaseToken (snd s) \<and>
     map_of (wc_Results (snd s')) ''SourceClusterHoldsLock'' = map_of (wc_Results (snd s)) ''SourceClusterHoldsLock''"

lemma calm_refl [simp]: "calm tbl clk s s"
  by (simp add: calm_def)

lemma calm_trans: "calm tbl clk a b \<Longrightarrow> calm tbl clk b c \<Longrightarrow> calm tbl clk a c"
  by (auto simp: calm_def)

definition quiet :: "task_type \<Rightarrow> bool" where
  "quiet ty \<longleftrightarrow> ty \<notin> {AcquireLockTask, UpdateGlobalStateTask, ReleaseLockTask}"

context workflow_world
begin

abbreviation calms where "calms x \<equiv> keeps (calm tbl clk) x"

lemma calms_return: "calms (State_Monad.return x)" "calms (ret y)" "calms (raise e)"
  by (simp_all add: ret_def raise_def keeps_return)

lemma calms_bind: "calms x \<Longrightarrow> (\<And>y. calms (f y)) \<Longrightarrow> calms (State_Monad.bind x f)"
  by (rule keeps_bind) (auto intro: calm_trans)

lemma calms_try_or: "calms x \<Longrightarrow> (\<And>e. calms (h e)) \<Longrightarrow> (\<And>y. calms (k y)) \<Longrightarrow> calms (try_or x h k)"
  unfolding try_or_def by (rule calms_bind) (auto simp: calms_return split: outcome.split)

lemma calms_check: "calms x \<Longrightarrow> (\<And>y. calms (k y)) \<Longrightarrow> calms (check x f k)"
  unfolding check_def by (intro calms_try_or calms_return)

lemma calms_ignore_err: "calms x \<Longrightarrow> calms (ignore_err x)"
  unfolding ignore_err_def by (intro calms_try_or calms_return)

lemma calms_in_world:
  "(\<And>w r w'. run_state x w = (r, w') \<Longrightarrow> tbl w' = tbl w \<and> nanos (clk w) \<le> nanos (clk w')) \<Longrightarrow> calms (in_world x)"
  by (auto simp: keeps_def in_world_def in_service_def uncached_def calm_def split: prod.splits)

lemma calms_runtime: "calms (in_world (time_now rt))" "calms (in_world (uuid_new rt))"
    "calms (in_world (timer_wait rt d))"
  by (rule calms_in_world; use now_law uuid_law timer_law in fastforce)+

lemma calms_kube: "calms (in_world (StatusUpdateFailover kc f))"
  by (rule calms_in_world) (use kube_beside in fastforce)

lemma calms_get_ctx: "calms get_ctx"
  by (simp add: keeps_def get_ctx_def)

lemma calms_set:
  "calms (modify_ctx (mark_state st))" "calms (modify_ctx (\<lambda>c. c\<lparr> wc_Metrics := f c \<rparr>))"
  "k \<noteq> ''SourceClusterHoldsLock'' \<Longrightarrow> calms (set_result k v)"
  by (simp_all add: keeps_def modify_ctx_def calm_def mark_state_def set_result_def)

lemmas calm_intros = calms_return calms_bind calms_try_or calms_check calms_ignore_err calms_runtime
  calms_kube calms_get_ctx calms_set

lemma calms_delay: "calms (sleep rt d)" "calms (delay_ok rt)" "calms (DelayAfterExecution rt)"
  unfolding delay_ok_def DelayAfterExecution_def sleep_def by (auto intro!: calm_intros)

lemma calms_state: "bt_Client t = Some kc \<Longrightarrow> calms (UpdateFailoverState t st)"
  unfolding UpdateFailoverState_def by (auto intro!: calm_intros)

lemma calms_note_state: "bt_Client t = Some kc \<Longrightarrow> calms k \<Longrightarrow> calms (note_state t st k)"
  unfolding note_state_def by (intro calms_try_or calms_state)

lemma calms_mark: "calms (mark_volumes_ready rt)"
  unfolding mark_volumes_ready_def by (auto intro!: calm_intros)

lemma calms_poll: "calms (poll_volumes_ready rt i n)"
proof (induction n arbitrary: i)
  case (Suc n)
  then show ?case
    unfolding poll_volumes_ready.simps Let_def
    by (auto intro!: calm_intros calms_mark calms_delay split: option.split result_value.split)
qed (auto intro!: calm_intros calms_delay)

lemma calms_Execute: "bt_Client t = Some kc \<Longrightarrow> quiet (bt_Type t) \<Longrightarrow> calms (Execute rt t)"
  unfolding Execute_def
  by (cases "bt_Type t"; simp only: task_type.case task_execute_defs Let_def quiet_def;
      auto intro!: calm_intros calms_note_state calms_delay calms_poll calms_mark calms_state split: option.split)

lemma calms_ExecuteTask: "bt_Client t = Some kc \<Longrightarrow> quiet (bt_Type t) \<Longrightarrow> calms (ExecuteTask rt i t)"
  unfolding ExecuteTask_def Let_def by (auto intro!: calm_intros calms_Execute)

lemma calms_execute_tasks:
  "(\<And>t. t \<in> set ts \<Longrightarrow> bt_Client t = Some kc \<and> quiet (bt_Type t)) \<Longrightarrow> calms (execute_tasks rt injector i ts)"
proof (induction ts arbitrary: i)
  case (Cons t ts)
  then show ?case by (auto intro!: calm_intros calms_ExecuteTask)
qed (simp add: calms_return)

end
section \<open>The ownership at the end\<close>

text \<open>An ownership transfer that reports success has made the new owner the owner.\<close>

lemma forced_transfer_owner:
  assumes "update_effect (forced_transfer m ns n newOwner prev v now) t = Some u"
  shows "owner_of m ns n u = newOwner"
  using assms
proof (rule update_effectD)
  fix k it
  assume k: "item_key_of (ui_Key (forced_transfer m ns n newOwner prev v now)) = Some k" "u = t(k \<mapsto> it)"
    and ok: "paths_ok (ui_Names (forced_transfer m ns n newOwner prev v now))
        (ui_Update (forced_transfer m ns n newOwner prev v now))"
    and done_it: "apply_update (ui_Names (forced_transfer m ns n newOwner prev v now))
        (ui_Values (forced_transfer m ns n newOwner prev v now))
        (ui_Update (forced_transfer m ns n newOwner prev v now)) it = Some it"
  have "k = config_key m ns n" using k(1) by (simp add: forced_transfer_def config_key_def)
  moreover have "map_of it ''ownerCluster'' = Some (AvS newOwner)"
    using apply_update_satisfied [OF done_it ok, of "[''ownerCluster'']" "'':newOwner''"]
    by (simp add: forced_transfer_def resolve_path_def resolve_name_def is_placeholder_def)
  ultimately show ?thesis by (simp add: owner_of_def k(2) get_S_def or_else_def)
qed

context manager_store
begin

lemma wp_transferOwnership_owner:
  "wp (transferOwnership rt m ns n newOwner) (\<lambda>r w'. is_ok r \<longrightarrow> owner_of m ns n (tbl w') = newOwner) w"
  unfolding transferOwnership_def wp_simps
proof (rule wp_read_config, goal_cases)
  case (1 it x w1)
  let ?c = "(config_of_item it)\<lparr> gc_LastUpdated := x \<rparr>"
  have key: "(gc_PK ?c, gc_SK ?c) = config_key m ns n"
    using config_key_of_item [OF stored_tbl 1(4)] by simp
  show ?case
  proof (cases "gc_OwnerCluster ?c = newOwner")
    case True
    then show ?thesis using 1(4) by (simp add: wp_simps owner_of_def config_of_item_owner)
  next
    case False
    have forced: "wp (time_now rt) (\<lambda>now. wp (UpdateItem (bm_client m) (forced_transfer m ns n newOwner prev v now))
        (\<lambda>r w'. r = Ok () \<longrightarrow> owner_of m ns n (tbl w') = newOwner)) w2" for prev v w2
      by (intro wp_now wp_update) (simp_all add: forced_transfer_owner, simp add: forced_transfer_def)
    have cas: "owner_of m ns n (tbl w3) = newOwner"
      if w3: "config_cas (tbl w2) v (stamped d now) = Some (tbl w3)"
      and d: "gc_OwnerCluster d = newOwner" "(gc_PK d, gc_SK d) = config_key m ns n" for d w2 w3 v now
    proof -
      have "(gc_PK (stamped d now), gc_SK (stamped d now)) = config_key m ns n"
        using d(2) by (simp add: stamped_def)
      then have "tbl w3 (config_key m ns n) = Some (group_config_item (stamped d now))"
        using config_cas_SomeD [OF w3] by (metis fun_upd_same)
      moreover have "map_of (group_config_item (stamped d now)) ''ownerCluster'' = Some (AvS newOwner)"
        using d(1) by (simp add: group_config_item_def stamped_def)
      ultimately show ?thesis by (simp add: owner_of_def get_S_def or_else_def)
    qed
    have upd: "wp (UpdateGroupConfig rt m d) (\<lambda>p w'. case p of (r, config) \<Rightarrow> case r of
          Ok u \<Rightarrow> owner_of m ns n (tbl w') = newOwner
        | Err e \<Rightarrow> is_version_conflict e \<longrightarrow> wp (time_now rt) (\<lambda>now. wp (UpdateItem (bm_client m)
              (forced_transfer m ns n newOwner (gc_OwnerCluster (config_of_item it)) (wrap64 (gc_Version config + 1)) now))
            (\<lambda>r w'. r = Ok () \<longrightarrow> owner_of m ns n (tbl w') = newOwner)) w'
        | Panic \<Rightarrow> True) w2"
      if "gc_OwnerCluster d = newOwner" "(gc_PK d, gc_SK d) = config_key m ns n" for d w2
      by (rule wp_UpdateGroupConfig) (auto simp: atomic_write_def forced intro: cas [OF _ that] split: outcome.splits)
    show ?thesis
      unfolding outcome.case if_not_P [OF False] Let_def wp_simps
      by (rule wp_now, cases "gc_LastFailover (config_of_item it)";
          simp add: wp_simps; intro wp_now wp_mono [OF upd];
          use key in \<open>simp add: wp_simps split: prod.splits outcome.splits\<close>)
  qed
next
  case (2 e w1)
  then show ?case by simp
qed

end

lemma wp_any: "(\<And>r s'. Q r s') \<Longrightarrow> wp x Q s"
  by (rule wpI) blast

lemma wp_and_plan:
  "keeps_plan x \<Longrightarrow> wp x (\<lambda>r s'. plan (snd s') = plan (snd s) \<longrightarrow> Q r s') s \<Longrightarrow> wp x Q s"
  by (rule wp_mono [OF wp_conj [OF wp_plan]]) auto

text \<open>The workflow's group and target.\<close>

abbreviation wc_ns :: "workflow_context \<Rightarrow> string" where "wc_ns c \<equiv> gr_Namespace (wc_FailoverGroup c)"
abbreviation wc_n :: "workflow_context \<Rightarrow> string" where "wc_n c \<equiv> gr_Name (wc_FailoverGroup c)"

lemma plan_names: "plan c' = plan c \<Longrightarrow> wc_ns c' = wc_ns c \<and> wc_n c' = wc_n c"
  by (simp add: plan_def)

context workflow_world
begin

definition owns :: "string \<Rightarrow> string \<Rightarrow> string \<Rightarrow> (('a \<times> service_cache) \<times> workflow_context) \<Rightarrow> bool" where
  "owns ns n owner s \<longleftrightarrow> owner_of m ns n (tbl (fst (fst s))) = owner"

lemma wp_note_state:
  assumes "bt_Client t = Some kc"
    and "\<And>s'. calm tbl clk s s' \<Longrightarrow> plan (snd s') = plan (snd s) \<Longrightarrow> flags_ok (snd s) \<longrightarrow> flags_ok (snd s') \<Longrightarrow>
      wp k Q s'"
  shows "wp (note_state t st k) Q s"
proof -
  have k: "keeps (\<lambda>s s'. calm tbl clk s s' \<and> plan (snd s') = plan (snd s) \<and>
      (flags_ok (snd s) \<longrightarrow> flags_ok (snd s'))) (UpdateFailoverState t st)"
    using calms_state [OF assms(1)] keeps_plan_state [of t st] by (auto simp: keeps_def keeps_plan_def)
  have np: "wp (UpdateFailoverState t st) (\<lambda>r s'. r \<noteq> Panic) s"
  proof -
    obtain w ca c where s: "s = ((w, ca), c)" by (cases s) auto
    have "wp (StatusUpdateFailover kc f) (\<lambda>r w'. (case r of Panic \<Rightarrow> Panic | _ \<Rightarrow> Ok ()) \<noteq> Panic) w" for f
      by (rule wpI) (use kube_beside in \<open>force split: outcome.splits\<close>)
    then show ?thesis
      by (simp add: UpdateFailoverState_def s wp_simps assms(1))
  qed
  show ?thesis
    unfolding note_state_def wp_simps
    by (rule wp_mono [OF wp_conj [OF keeps_wp [OF k] np]]) (use assms(2) in \<open>auto split: outcome.splits\<close>)
qed

lemma wp_delay_ok:
  assumes "\<And>s'. calm tbl clk s s' \<Longrightarrow> plan (snd s') = plan (snd s) \<Longrightarrow> Q (Ok ()) s'"
  shows "wp (delay_ok rt) Q s"
proof -
  obtain w ca c where s: "s = ((w, ca), c)" by (cases s) auto
  have "wp (timer_wait rt d) (\<lambda>_ w'. Q (Ok ()) ((w', ca), c)) w" for d
    by (rule wpI) (auto dest!: timer_law simp: s calm_def intro!: assms)
  then show ?thesis
    using assms [of s] by (simp add: delay_ok_def DelayAfterExecution_def wp_simps s)
qed

lemma wp_UpdateGlobalState:
  assumes "bt_Client t = Some kc" "bt_DynamoDBManager t = Some sv"
  shows "wp (UpdateGlobalStateTask_Execute rt t)
    (\<lambda>r s'. is_ok r \<longrightarrow> owns (wc_ns (snd s)) (wc_n (snd s)) (wc_TargetClusterName (snd s)) s') s"
  unfolding UpdateGlobalStateTask_Execute_def
proof (rule wp_note_state [OF assms(1)], goal_cases)
  case (1 s1)
  let ?ns = "wc_ns (snd s)" and ?n = "wc_n (snd s)" and ?target = "wc_TargetClusterName (snd s)"
  let ?Q = "\<lambda>r s'. is_ok r \<longrightarrow> owns ?ns ?n ?target s'"
  obtain w ca c where s1: "s1 = ((w, ca), c)" by (cases s1) auto
  have c: "wc_FailoverGroup c = wc_FailoverGroup (snd s)" "wc_TargetClusterName c = ?target"
    using 1(2) by (simp_all add: s1 plan_eq_iff)
  have role: "wp (update_role rt sv g here cl role msg) (\<lambda>r s'. snd s' = c) ((w', ca'), c)"
    for g here cl role msg w' ca'
    unfolding update_role_def wp_simps
    by (auto intro!: wp_any simp: wp_simps split: outcome.splits)
  have delay: "wp (delay_ok rt) ?Q s2" if "owns ?ns ?n ?target s2" for s2
    by (rule wp_delay_ok) (use that in \<open>auto simp: owns_def calm_def\<close>)
  have break: "wp (break_lock rt sv (wc_FailoverGroup (snd s)) token ?target) ?Q ((w', ca'), c)" for token w' ca'
  proof -
    have own: "wp (svc_TransferOwnership rt sv ?ns ?n ?target)
        (\<lambda>r p. is_ok r \<longrightarrow> owns ?ns ?n ?target (p, c)) (w1, ca1)" for w1 ca1
      using wp_transferOwnership_owner [of ?ns ?n ?target w1]
      by (simp add: svc_TransferOwnership_def service wp_simps TransferOwnership_def owns_def)
    have own': "wp (svc_TransferOwnership rt sv ?ns ?n ?target)
        (\<lambda>r p. case r of Ok x \<Rightarrow> wp (ret ()) ?Q (p, c)
           | Err e \<Rightarrow> ?Q (Err (wrapf ''failed to update group ownership even with force'' e)) (p, c)
           | Panic \<Rightarrow> ?Q Panic (p, c)) p" for p
    proof (cases p)
      case (Pair w1 ca1)
      show ?thesis
        unfolding Pair by (rule wp_mono [OF own]) (auto simp: wp_simps split: outcome.splits)
    qed
    have first: "wp (if token \<noteq> '''' then ignore_err (in_service x) else ret ()) (\<lambda>r s'. snd s' = c) ((w', ca'), c)"
      for x :: "('a, unit outcome) service_action"
      by (auto intro!: wp_any simp: wp_simps)
    show ?thesis
      unfolding break_lock_def wp_try_or
    proof (rule wp_mono [OF first], goal_cases)
      case (1 r s2)
      then obtain p where p: "s2 = (p, c)" by (cases s2) auto
      have "wp (check (in_service (svc_TransferOwnership rt sv ?ns ?n ?target))
          (wrapf ''failed to update group ownership even with force'') (\<lambda>_. ret ())) ?Q s2"
        unfolding p wp_check wp_in_service by (rule own')
      then show ?case by (cases r) (simp_all add: wp_raise)
    qed
  qed
  have fail: "wp (svc_ExecuteFailover rt sv ?ns ?n nm ?target reason force)
      (\<lambda>r p. is_ok r \<longrightarrow> owns ?ns ?n ?target (p, c)) (w', ca')" for nm reason force w' ca'
    unfolding svc_ExecuteFailover_def service wp_simps
    by (rule wp_ExecuteFailover) (auto simp: transfer_step_def moved_def owns_def)
  have exec: "wp (in_service (svc_ExecuteFailover rt sv ?ns ?n nm ?target reason force))
      (\<lambda>r s'. case r of Ok x \<Rightarrow> wp (delay_ok rt) ?Q s'
         | Err e \<Rightarrow> wp (if b e then break_lock rt sv (wc_FailoverGroup (snd s)) token ?target
                        else raise (wrapf msg e)) ?Q s'
         | Panic \<Rightarrow> ?Q Panic s') s2"
    if "snd s2 = c" for nm reason force b token msg s2
  proof -
    obtain w2 ca2 where s2: "s2 = ((w2, ca2), c)" using \<open>snd s2 = c\<close> by (cases s2) auto
    show ?thesis
      unfolding s2 wp_in_service
    proof (rule wp_mono [OF fail], goal_cases)
      case (1 r p)
      then show ?case
        by (cases r; cases p) (auto intro!: delay break simp: wp_raise)
    qed
  qed
  show ?case
    unfolding s1 wp_bind wp_get_ctx Let_def assms(2) option.case c wp_check
  proof (rule wp_mono [OF role], goal_cases)
    case (1 r s2)
    show ?case
    proof (cases r)
      case (Ok u)
      obtain w2 ca2 where s2: "s2 = ((w2, ca2), c)" using 1 by (cases s2) auto
      show ?thesis
        unfolding Ok outcome.case wp_check s2
      proof (rule wp_mono [OF role], goal_cases)
        case (1 r s3)
        then show ?case
          by (cases r) (simp_all only: outcome.case wp_try_or exec, simp_all)
      qed
    qed simp_all
  qed
qed

text \<open>The last tasks touch nothing but the lock: what does not depend on it stays.\<close>

definition settled :: "((('a \<times> service_cache) \<times> workflow_context) \<Rightarrow> bool) \<Rightarrow> bool" where
  "settled I \<longleftrightarrow>
     (\<forall>s s'. I s \<longrightarrow> calm tbl clk s s' \<longrightarrow> I s') \<and>
     (\<forall>p c tok. I (p, c) \<longrightarrow> I (p, c\<lparr> wc_LeaseToken := tok \<rparr>)) \<and>
     (\<forall>p c ns' n' token. I (p, c) \<longrightarrow> wp (svc_ReleaseLock sv ns' n' token) (\<lambda>r q. I (q, c)) p)"

lemma settledD:
  assumes "settled I" "I s"
  shows "calm tbl clk s s' \<Longrightarrow> I s'" "s = (p, c) \<Longrightarrow> I (p, c\<lparr> wc_LeaseToken := tok \<rparr>)"
    "s = (p, c) \<Longrightarrow> wp (svc_ReleaseLock sv ns' n' token) (\<lambda>r q. I (q, c)) p"
  using assms unfolding settled_def by blast+

lemma settled_calms: "settled I \<Longrightarrow> calms x \<Longrightarrow> I s \<Longrightarrow> wp x (\<lambda>r s'. I s') s"
  by (rule wp_mono [OF keeps_wp [of "calm tbl clk"]]) (auto intro: settledD(1))

lemma settled_mark: "settled I \<Longrightarrow> I (p, c) \<Longrightarrow> I (p, mark_state st c)"
  by (erule settledD(1)) (auto simp: calm_def mark_state_def)

lemma settled_owns: "settled (owns ns n owner)"
proof -
  have "wp (svc_ReleaseLock sv ns' n' token) (\<lambda>r q. owns ns n owner (q, c)) p"
    if o: "owns ns n owner (p, c)" for p c ns' n' token
  proof -
    obtain w ca where p: "p = (w, ca)" by (cases p)
    have "owner_of m ns n u = owner_of m ns n (tbl w)" if "lock_dropped m ns' n' token (tbl w) = Some u" for u
      using lock_dropped_other [OF that, of "config_key m ns n"]
      by (simp add: owner_of_def config_key_def lock_key_def)
    then show ?thesis
      unfolding p svc_ReleaseLock_def service wp_simps
      by (intro wp_ReleaseLock) (use o in \<open>auto simp: p owns_def atomic_write_def split: outcome.splits\<close>)
  qed
  then show ?thesis by (auto simp: settled_def owns_def calm_def)
qed

text \<open>The clock has passed a moment.\<close>

definition past :: "int \<Rightarrow> (('a \<times> service_cache) \<times> workflow_context) \<Rightarrow> bool" where
  "past b s \<longleftrightarrow> b < nanos (clk (fst (fst s)))"

lemma settled_past: "settled (past b)"
proof -
  have "wp (svc_ReleaseLock sv ns' n' token) (\<lambda>r q. past b (q, c)) p" if "past b (p, c)" for p c ns' n' token
    using that by (cases p) (simp add: svc_ReleaseLock_def service wp_simps past_def wp_ReleaseLock)
  then show ?thesis by (auto simp: settled_def past_def calm_def)
qed

lemma wp_ReleaseLockTask_settled:
  assumes "bt_Client t = Some kc" "bt_DynamoDBManager t = Some sv" "settled I" "I s"
  shows "wp (ReleaseLockTask_Execute rt t) (\<lambda>r s'. I s') s"
  unfolding ReleaseLockTask_Execute_def
proof (rule wp_note_state [OF assms(1)], goal_cases)
  case (1 s1)
  then have o1: "I s1" using settledD(1) [OF assms(3,4)] by blast
  obtain p c where s1: "s1 = (p, c)" by (cases s1)
  have delay: "wp (delay_ok rt) (\<lambda>r s'. I s') s2" if "I s2" for s2
    by (rule settled_calms [OF assms(3) calms_delay(2) that])
  have upd: "I (p', c\<lparr> wc_LeaseToken := tok \<rparr>)" if "I (p', c)" for p' tok
    by (rule settledD(2) [OF assms(3) that]) simp
  have go: "wp (release_with_token rt sv g tok) (\<lambda>r s'. I s') s1" for g tok
  proof (cases "tok = ''''")
    case False
    show ?thesis
      unfolding release_with_token_def if_not_P [OF False] wp_try_or s1 wp_in_service
    proof (rule wp_mono [OF settledD(3) [OF assms(3) o1 s1]], goal_cases)
      case (1 r q)
      then show ?case by (cases r) (auto simp: wp_bind wp_set_token wp_raise wp_if intro!: delay upd)
    qed
  qed (simp add: release_with_token_def delay o1)
  show ?case
    using go o1 by (auto simp: assms(2) s1 wp_bind wp_get_ctx wp_if wp_ret wp_return Let_def
        split: option.splits result_value.splits)
qed

end

section \<open>The engine\<close>

lemma wp_execute_append:
  "wp (execute_tasks rt injector i (ts @ us)) Q s =
   wp (execute_tasks rt injector i ts) (\<lambda>r s'. case r of
       Ok _ \<Rightarrow> wp (execute_tasks rt injector (i + length ts) us) Q s' | Err e \<Rightarrow> Q (Err e) s' | Panic \<Rightarrow> Q Panic s') s"
proof (induction ts arbitrary: i s)
  case (Cons t ts)
  show ?case
    unfolding append_Cons execute_tasks.simps wp_check Cons.IH outcome.case list.size add_Suc add_Suc_right
      add_0_right ..
qed (simp add: wp_ret)

lemma wp_ExecuteTask:
  assumes "bt_Client task = Some kc"
  shows "wp (ExecuteTask rt injector task) Q (p, c) =
    wp (Execute rt task) (\<lambda>r s'. case r of Ok x \<Rightarrow> Q (Ok x) s'
      | Err e \<Rightarrow> Q (Err (Wrapped (''task '' @ quoted (bt_TaskName task) @ '' failed: '') e '''')) s'
      | Panic \<Rightarrow> Q Panic s') (p, mark_state (''TASK_'' @ bt_TaskName task) c)"
  unfolding ExecuteTask_def Let_def assms prod.case option.case wp_bind wp_modify_ctx wp_check wp_ret ..

lemma InjectDependencies_sel [simp]:
  "bt_Client (InjectDependencies i t) = Some (di_Client i)"
  "bt_DynamoDBManager (InjectDependencies i t) = di_DynamoDBManager i"
  "bt_Type (InjectDependencies i t) = bt_Type t"
  "bt_TaskName (InjectDependencies i t) = bt_TaskName t"
  by (simp_all add: InjectDependencies_def)

lemmas new_task_defs =
  NewValidateFailoverTask_def NewAcquireLockTask_def NewUpdateNetworkResourcesTask_def
  NewScaleDownWorkloadsTask_def NewDisableFluxReconciliationTask_def NewWaitForWorkloadsScaledDownTask_def
  NewDemoteVolumesTask_def NewWaitForVolumesDemotedTask_def NewMarkVolumesReadyForPromotionTask_def
  NewWaitForVolumesReadyForPromotionTask_def NewPromoteVolumesTask_def NewWaitForVolumesPromotedTask_def
  NewVerifyDataAvailabilityTask_def NewScaleUpWorkloadsTask_def NewTriggerFluxReconciliationTask_def
  NewWaitForTargetReadyTask_def NewMarkTargetReadyForTrafficTask_def NewWaitForTargetReadyForTrafficTask_def
  NewMarkTrafficTransitionCompleteTask_def NewWaitForTrafficTransitionCompleteTask_def
  NewUpdateGlobalStateTask_def NewRecordFailoverHistoryTask_def NewReleaseLockTask_def new_task_def

text \<open>Both task lists: validation and lock, quiet tasks, completion.\<close>

definition middle :: "'w base_task list \<Rightarrow> 'w base_task list" where
  "middle ts = drop 2 (take (length ts - 3) ts)"

definition workflow_tasks :: "'w base_task list \<Rightarrow> bool" where
  "workflow_tasks ts \<longleftrightarrow> ts = createConsistencyTasks \<or> ts = createUptimeTasks"

lemma bt_Type_new [simp]:
  "bt_Type NewValidateFailoverTask = ValidateFailoverTask" "bt_Type NewAcquireLockTask = AcquireLockTask"
  "bt_Type (NewUpdateNetworkResourcesTask a) = UpdateNetworkResourcesTask a"
  "bt_Type NewScaleDownWorkloadsTask = ScaleDownWorkloadsTask"
  "bt_Type NewDisableFluxReconciliationTask = DisableFluxReconciliationTask"
  "bt_Type NewWaitForWorkloadsScaledDownTask = WaitForWorkloadsScaledDownTask"
  "bt_Type NewDemoteVolumesTask = DemoteVolumesTask" "bt_Type NewWaitForVolumesDemotedTask = WaitForVolumesDemotedTask"
  "bt_Type NewMarkVolumesReadyForPromotionTask = MarkVolumesReadyForPromotionTask"
  "bt_Type NewWaitForVolumesReadyForPromotionTask = WaitForVolumesReadyForPromotionTask"
  "bt_Type NewPromoteVolumesTask = PromoteVolumesTask" "bt_Type NewWaitForVolumesPromotedTask = WaitForVolumesPromotedTask"
  "bt_Type NewVerifyDataAvailabilityTask = VerifyDataAvailabilityTask"
  "bt_Type NewScaleUpWorkloadsTask = ScaleUpWorkloadsTask"
  "bt_Type NewTriggerFluxReconciliationTask = TriggerFluxReconciliationTask"
  "bt_Type NewWaitForTargetReadyTask = WaitForTargetReadyTask"
  "bt_Type NewMarkTargetReadyForTrafficTask = MarkTargetReadyForTrafficTask"
  "bt_Type NewWaitForTargetReadyForTrafficTask = WaitForTargetReadyForTrafficTask"
  "bt_Type NewMarkTrafficTransitionCompleteTask = MarkTrafficTransitionCompleteTask"
  "bt_Type NewWaitForTrafficTransitionCompleteTask = WaitForTrafficTransitionCompleteTask"
  "bt_Type NewUpdateGlobalStateTask = UpdateGlobalStateTask"
  "bt_Type NewRecordFailoverHistoryTask = RecordFailoverHistoryTask" "bt_Type NewReleaseLockTask = ReleaseLockTask"
  by (simp_all add: new_task_defs)

lemma workflow_tasks_split:
  assumes "workflow_tasks ts"
  shows "ts = [NewValidateFailoverTask, NewAcquireLockTask] @ middle ts @
      [NewUpdateGlobalStateTask, NewRecordFailoverHistoryTask, NewReleaseLockTask]"
    and "\<forall>t \<in> set (middle ts). quiet (bt_Type t)"
  using assms unfolding workflow_tasks_def
  by (elim disjE; simp add: createConsistencyTasks_def createUptimeTasks_def middle_def quiet_def)+

context workflow_world
begin

definition injector :: "'a dependency_injector" where
  "injector = \<lparr> di_Client = kc, di_DynamoDBManager = Some sv \<rparr>"

lemma injector_sel [simp]: "di_Client injector = kc" "di_DynamoDBManager injector = Some sv"
  by (simp_all add: injector_def)

abbreviation injected :: "'a base_task \<Rightarrow> 'a base_task" where
  "injected \<equiv> InjectDependencies injector"

lemmas wp_ExecuteTask_injected =
  wp_ExecuteTask [of _ kc, OF InjectDependencies_sel(1) [of injector, unfolded injector_sel]]

lemma split_tasks:
  assumes "workflow_tasks ts"
  shows "map injected ts = [injected NewValidateFailoverTask, injected NewAcquireLockTask] @ map injected (middle ts) @
      [injected NewUpdateGlobalStateTask, injected NewRecordFailoverHistoryTask, injected NewReleaseLockTask]"
  using arg_cong [OF workflow_tasks_split(1) [OF assms], of "map injected"] by simp

text \<open>The completion: a fact that the update of the global state establishes stays to the end.\<close>

lemma wp_completion:
  assumes I: "settled I" "\<And>r s'. I s' \<Longrightarrow> Q r s'"
    and upd: "\<And>st. wp (UpdateGlobalStateTask_Execute rt (injected NewUpdateGlobalStateTask))
      (\<lambda>r s'. case r of Ok u \<Rightarrow> I s' | Err e \<Rightarrow> (\<forall>f. Q (Err f) s') | Panic \<Rightarrow> Q Panic s') (p, mark_state st c)"
  shows "wp (execute_tasks rt (Some injector) i
      [injected NewUpdateGlobalStateTask, injected NewRecordFailoverHistoryTask, injected NewReleaseLockTask]) Q (p, c)"
proof -
  have rel: "wp (Execute rt (injected NewReleaseLockTask)) (\<lambda>r s'. I s') s1" if "I s1" for s1
    using wp_ReleaseLockTask_settled [of "injected NewReleaseLockTask", OF _ _ I(1) that] by (simp add: Execute_def)
  have hist: "wp (Execute rt (injected NewRecordFailoverHistoryTask)) (\<lambda>r s'. I s') s1" if "I s1" for s1
    by (rule settled_calms [OF I(1) calms_Execute that]) (simp_all add: quiet_def)
  have upd': "wp (Execute rt (injected NewUpdateGlobalStateTask))
      (\<lambda>r s'. case r of Ok u \<Rightarrow> I s' | Err e \<Rightarrow> (\<forall>f. Q (Err f) s') | Panic \<Rightarrow> Q Panic s') (p, mark_state st c)" for st
    using upd by (simp add: Execute_def)
  show ?thesis
    unfolding execute_tasks.simps wp_check wp_ExecuteTask_injected
  proof (rule wp_mono [OF upd'], goal_cases)
    case (1 r s2)
    obtain p2 c2 where s2: "s2 = (p2, c2)" by (cases s2)
    show ?case
    proof (cases r)
      case (Ok u)
      then have m2: "I (p2, mark_state st c2)" for st using 1 settled_mark [OF I(1)] by (simp add: s2)
      show ?thesis
        unfolding Ok outcome.case s2 wp_ExecuteTask_injected
      proof (rule wp_mono [OF hist [OF m2]], goal_cases)
        case (1 r s3)
        obtain p3 c3 where s3: "s3 = (p3, c3)" by (cases s3)
        have m3: "I (p3, mark_state st c3)" for st using 1 settled_mark [OF I(1)] by (simp add: s3)
        show ?case
        proof (cases r)
          case (Ok u)
          show ?thesis
            unfolding Ok outcome.case s3 wp_ExecuteTask_injected
            by (rule wp_mono [OF rel [OF m3]]) (auto simp: wp_ret I(2) split: outcome.split)
        qed (use I(2) 1 in simp_all)
      qed
    qed (use 1 in simp_all)
  qed
qed

lemma engine_owns:
  assumes "workflow_tasks ts"
  shows "wp (Engine_Execute rt (NewEngine ts (Some injector)))
    (\<lambda>r s'. is_ok r \<longrightarrow> owns (wc_ns (snd s)) (wc_n (snd s)) (wc_TargetClusterName (snd s)) s') s"
    (is "wp _ ?Q s")
proof -
  have front: "wp (execute_tasks rt inj 1 us) (\<lambda>r s'. plan (snd s') = plan (snd s)) s" for inj us
    by (rule wp_plan [OF keeps_plan_execute_tasks])
  have last: "wp (execute_tasks rt (Some injector) i [injected NewUpdateGlobalStateTask,
      injected NewRecordFailoverHistoryTask, injected NewReleaseLockTask]) ?Q s1"
    if same: "plan (snd s1) = plan (snd s)" for s1 i
  proof -
    obtain p c where s1: "s1 = (p, c)" by (cases s1)
    have names: "wc_FailoverGroup (mark_state st c) = wc_FailoverGroup (snd s)"
      "wc_TargetClusterName (mark_state st c) = wc_TargetClusterName (snd s)" for st
      using same by (simp_all add: s1 plan_eq_iff mark_state_def)
    show ?thesis
      unfolding s1
    proof (rule wp_completion [where I = "owns (wc_ns (snd s)) (wc_n (snd s)) (wc_TargetClusterName (snd s))"],
        rule settled_owns, simp, goal_cases)
      case (1 st)
      show ?case
        by (rule wp_mono [OF wp_UpdateGlobalState]) (auto simp: names split: outcome.split)
    qed
  qed
  show ?thesis
    unfolding Engine_Execute_def NewEngine_def Let_def engine.simps option.case split_tasks [OF assms]
      append_assoc [symmetric] wp_execute_append [of _ _ _ "_ @ _"]
  proof (rule wp_mono [OF front], goal_cases)
    case (1 r s1)
    then show ?case by (cases r) (simp_all only: outcome.case last is_ok.simps simp_thms)
  qed
qed

end

end
