(* ===== verification/Workflow_Lock.thy ===== *)
theory Workflow_Lock
  imports Workflow_Facts Operations_Properties
begin

text \<open>The workflow and its lock.\<close>

section \<open>The clock goes forward\<close>

context manager_store
begin

abbreviation ticks where "ticks x \<equiv> keeps (\<lambda>w w'. nanos (clk w) \<le> nanos (clk w')) x"

lemma ticks_wp: "(\<And>w. wp x (\<lambda>r w'. nanos (clk w) \<le> nanos (clk w')) w) \<Longrightarrow> ticks x"
  by (force simp: keeps_def intro: wpD)

lemma ticks_bind: "ticks x \<Longrightarrow> (\<And>y. ticks (f y)) \<Longrightarrow> ticks (State_Monad.bind x f)"
  by (rule keeps_bind) auto

lemma ticks_return: "ticks (State_Monad.return x)" "ticks (ret y)" "ticks (raise e)"
  by (simp_all add: ret_def raise_def keeps_return)

lemma ticks_try_or: "ticks x \<Longrightarrow> (\<And>e. ticks (h e)) \<Longrightarrow> (\<And>y. ticks (k y)) \<Longrightarrow> ticks (try_or x h k)"
  unfolding try_or_def by (rule ticks_bind) (auto simp: ticks_return split: outcome.split)

lemma ticks_check: "ticks x \<Longrightarrow> (\<And>y. ticks (k y)) \<Longrightarrow> ticks (check x f k)"
  unfolding check_def by (intro ticks_try_or ticks_return)

lemma ticks_deferred: "ticks d \<Longrightarrow> ticks x \<Longrightarrow> ticks (deferred d x)"
  unfolding deferred_def by (intro ticks_bind ticks_return)

lemma ticks_ignore_err: "ticks x \<Longrightarrow> ticks (ignore_err x)"
  unfolding ignore_err_def by (intro ticks_try_or ticks_return)

lemma ticks_calls:
  "ticks (time_now rt)" "ticks (uuid_new rt)" "ticks (IsLocked rt m ns n)" "ticks (GetGroupConfig rt m ns n)"
  "ticks (GetClusterStatus rt m ns n c)" "ticks (AcquireLock rt m ns n reason)" "ticks (ReleaseLock m ns n token)"
  by (rule ticks_wp, rule wp_now wp_uuid wp_IsLocked wp_GetGroupConfig wp_GetClusterStatus wp_AcquireLock
      wp_ReleaseLock; simp)+

lemma ticks_writes:
  "pi_TableName i = bm_tableName m \<Longrightarrow> ticks (PutItem (bm_client m) i)" "ticks (UpdateGroupConfig rt m c)"
  by (rule ticks_wp, rule wp_put wp_UpdateGroupConfig; simp)+

lemma ticks_record: "ticks (recordFailoverEvent rt m ns n name src tgt reason s e status down dur)"
  unfolding recordFailoverEvent_def Let_def
  by (auto intro!: ticks_try_or ticks_check ticks_bind ticks_calls ticks_writes ticks_return split: outcome.splits prod.splits)

lemma ticks_transaction:
  "source \<noteq> target \<Longrightarrow> ticks (executeFailoverTransaction rt m ns n source target reason name start)"
  by (rule ticks_wp, rule wp_executeFailoverTransaction [OF _ before_refl]) simp_all

lemma ticks_transfer: "ticks (TransferOwnership rt m ns n newOwner)"
proof -
  have upd: "ticks (UpdateItem (bm_client m) (forced_transfer m ns n newOwner prev v now))" for prev v now
    by (rule ticks_wp, rule wp_update) (simp_all, simp add: forced_transfer_def)
  show ?thesis
    unfolding TransferOwnership_def transferOwnership_def Let_def
    by (auto intro!: ticks_check ticks_bind ticks_calls ticks_writes ticks_return upd split: outcome.splits prod.splits option.splits)
qed

text \<open>A failover that begins with a lock in the table whose lease runs to the end is refused.\<close>

end

definition locked_error :: "string \<Rightarrow> go_error" where
  "locked_error holder = wrapf ''failover preconditions not met'' (ErrorString (''failover group is locked by: '' @ holder))"

lemma lock_live_item:
  assumes "clock_ok Z stamp" "nanos now + second \<le> nanos stamp + lock_lease"
  shows "lock_live (Some (lock_item m ns n reason stamp token)) now"
proof -
  have era: "in_era (time_add stamp lock_lease)"
    by (rule clock_ok_add [OF assms(1)]) (simp_all add: lock_lease_def second_def)
  have "get_S (lock_item m ns n reason stamp token) ''expiresAt'' = Some (format_rfc3339 (time_add stamp lock_lease))"
    by (simp add: lock_item_def get_S_def)
  then have "lock_expiry (lock_item m ns n reason stamp token) = Some (to_second (time_add stamp lock_lease))"
    using parse_format_rfc3339 [OF era] by (simp add: lock_expiry_def)
  then show ?thesis
    using assms(2) nanos_to_second(2) [of "time_add stamp lock_lease"]
    by (simp add: lock_live_def time_after_def time_add_def)
qed

context manager_reliable
begin

lemma wp_refused:
  assumes first: "wp x (\<lambda>r w'. nanos (clk w') \<le> b \<longrightarrow> r = Ok y \<and> tbl w' = tbl w) w"
    and stop: "K1 y = raise e" and "\<And>z. ticks (K1 z)" "\<And>z. ticks (K2 z)"
  shows "wp (check (check x f K1) g K2) (\<lambda>r w'. nanos (clk w') \<le> b \<longrightarrow> r = Err (g e) \<and> tbl w' = tbl w) w"
    (is "wp _ ?Q w")
  unfolding wp_check
proof (rule wp_mono [OF first], goal_cases)
  case (1 r w1)
  show ?case
  proof (cases "nanos (clk w1) \<le> b")
    case True
    then show ?thesis using 1 by (simp add: stop wp_raise)
  next
    case False
    have late: "nanos (clk w2) \<le> b \<longrightarrow> P" if "nanos (clk w1) \<le> nanos (clk w2)" for w2 P
      using False that by simp
    show ?thesis
    proof (cases r)
      case (Ok z)
      have "wp (K2 z') ?Q w2" if "nanos (clk w1) \<le> nanos (clk w2)" for z' w2
        by (rule wp_mono [OF keeps_wp [OF assms(4)]]) (rule late, use that in simp)
      then show ?thesis
        unfolding Ok outcome.case
        by (intro wp_mono [OF keeps_wp [OF assms(3)]]) (use False in \<open>auto split: outcome.split\<close>)
    qed (use False in simp_all)
  qed
qed

lemma wp_locked_failover:
  assumes "tbl w (lock_key m ns n) = Some (lock_item m0 ns0 n0 reason0 stamp token0)" "clock_ok Z stamp"
  shows "wp (ExecuteFailover rt m ns n name target reason force) (\<lambda>r w'.
      nanos (clk w') \<le> nanos stamp + lock_lease - second \<longrightarrow>
      r = Err (locked_error (bm_clusterName m0)) \<and> tbl w' = tbl w) w"
  unfolding ExecuteFailover_def wp_bind
proof (rule wp_now, goal_cases)
  case (1 start w1)
  have read: "wp (IsLocked rt m ns n) (\<lambda>r w'. nanos (clk w') \<le> nanos stamp + lock_lease - second \<longrightarrow>
      r = Ok (True, bm_clusterName m0) \<and> tbl w' = tbl w1) w1"
  proof (rule wp_IsLocked_ok, intro impI, goal_cases)
    case (1 w2)
    have holder: "get_S (lock_item m0 ns0 n0 reason0 stamp token0) ''lockedBy'' = Some (bm_clusterName m0)"
      by (simp add: lock_item_def get_S_def)
    have "lock_live (Some (lock_item m0 ns0 n0 reason0 stamp token0)) (clk w2)"
      by (rule lock_live_item [OF assms(2)]) (use 1 in simp)
    then show ?case
      using 1 \<open>tbl w1 = tbl w\<close> by (simp add: assms(1) lock_reply_cases(1) holder or_else_def)
  qed
  show ?case
    unfolding ValidateFailoverPreconditions_def locked_error_def
    by (rule wp_mono [OF wp_refused [OF read]])
       (auto intro!: ticks_check ticks_calls ticks_return ticks_deferred ticks_bind ticks_ignore_err ticks_record
          ticks_transaction simp: 1 Let_def split: option.split)
qed


end

text \<open>What the completion cannot repair: no bypass is open for the holder of the lock.\<close>

definition no_bypass :: "'w base_manager \<Rightarrow> workflow_context \<Rightarrow> bool" where
  "no_bypass m c \<longleftrightarrow> \<not> (fs_FailoverMode (fo_Spec (wc_Failover c)) = ''CONSISTENCY'' \<and>
      isLockedBySourceCluster (locked_error (bm_clusterName m)) (wc_SourceClusterName c)) \<and> \<not> wc_ForceFailover c"

section \<open>A workflow that locks itself out\<close>

locale reliable_workflow =
  manager_reliable m rt Z tbl clk + workflow_world m rt Z tbl clk kc sv
  for m :: "'a base_manager" and rt Z tbl clk kc sv

context reliable_workflow
begin

text \<open>The workflow holds the lock of its group, with a lease taken after \<open>t0\<close>.\<close>

definition locked_since :: "int \<Rightarrow> string \<Rightarrow> string \<Rightarrow> (('a \<times> service_cache) \<times> workflow_context) \<Rightarrow> bool" where
  "locked_since t0 ns n s \<longleftrightarrow>
     (\<exists>stamp token reason. tbl (fst (fst s)) (lock_key m ns n) = Some (lock_item m ns n reason stamp token) \<and>
        clock_ok Z stamp \<and> t0 \<le> nanos stamp)"

lemma locked_since_calm: "locked_since t0 ns n s \<Longrightarrow> calm tbl clk s s' \<Longrightarrow> locked_since t0 ns n s'"
  by (simp add: locked_since_def calm_def)

lemma wp_AcquireLockTask:
  assumes "bt_Client t = Some kc" "bt_DynamoDBManager t = Some sv" "\<not> wc_ForceFailover (snd s)"
    and free: "tbl (fst (fst s)) (lock_key m (wc_ns (snd s)) (wc_n (snd s))) = None"
  shows "wp (AcquireLockTask_Execute rt t) (\<lambda>r s'. is_ok r \<and>
      (\<forall>k. k \<noteq> lock_key m (wc_ns (snd s)) (wc_n (snd s)) \<longrightarrow> tbl (fst (fst s')) k = tbl (fst (fst s)) k) \<and>
      locked_since (nanos (clk (fst (fst s)))) (wc_ns (snd s)) (wc_n (snd s)) s') s"
    (is "wp _ (\<lambda>r s'. is_ok r \<and> ?R s') s")
  unfolding AcquireLockTask_Execute_def
proof (rule wp_note_state [OF assms(1)], goal_cases)
  case (1 s1)
  obtain w ca c where s1: "s1 = ((w, ca), c)" by (cases s1) auto
  let ?ns = "wc_ns (snd s)" and ?n = "wc_n (snd s)"
  have c: "wc_FailoverGroup c = wc_FailoverGroup (snd s)" "\<not> wc_ForceFailover c"
    using 1(2) assms(3) by (simp_all add: s1 plan_eq_iff)
  have w: "tbl w = tbl (fst (fst s))" "nanos (clk (fst (fst s))) \<le> nanos (clk w)"
    using 1(1) by (simp_all add: s1 calm_def)
  have delay: "wp (delay_ok rt) (\<lambda>r s'. is_ok r \<and> ?R s') s2" if "?R s2" for s2
    by (rule wp_delay_ok) (use that in \<open>auto simp: calm_def locked_since_def\<close>)
  have acq: "wp (svc_AcquireLock rt sv ?ns ?n ''Failover operation initiated'')
      (\<lambda>r q. \<exists>token. r = Ok token \<and> (\<forall>c'. ?R (q, c'))) (w, ca)"
    unfolding svc_AcquireLock_def service wp_simps
  proof (rule wp_AcquireLock_ok, goal_cases)
    case (1 token w')
    then have t: "tbl w' = (tbl w)(lock_key m ?ns ?n \<mapsto> lock_item m ?ns ?n ''Failover operation initiated'' (clk w') token)"
      by (auto simp: lock_taken_def split: if_splits)
    show ?case
      using w 1(1,2) t by (auto simp: locked_since_def intro!: exI)
  next
    case (2 e w')
    then show ?case using w free by simp
  qed
  show ?case
    unfolding s1 assms(2) option.case wp_bind wp_get_ctx Let_def if_not_P [OF c(2)] c(1) wp_try_or wp_in_service
  proof (rule wp_mono [OF acq], goal_cases)
    case (1 r q)
    then obtain token where r: "r = Ok token" and o: "\<And>c'. ?R (q, c')" by blast
    show ?case
      unfolding r outcome.case wp_bind wp_set_token by (rule delay, rule o)
  qed
qed

lemma owns_beside_lock:
  "owns ns n ow s \<Longrightarrow> (\<forall>k. k \<noteq> lock_key m ns n \<longrightarrow> tbl (fst (fst s')) k = tbl (fst (fst s)) k) \<Longrightarrow> owns ns n ow s'"
  by (simp add: owns_def owner_of_def lock_key_def config_key_def)

text \<open>Up to the completion.\<close>

lemma wp_front:
  assumes "workflow_tasks ts" "\<not> wc_ForceFailover (snd s)"
    and "tbl (fst (fst s)) (lock_key m (wc_ns (snd s)) (wc_n (snd s))) = None"
    and "owns (wc_ns (snd s)) (wc_n (snd s)) ow s"
  shows "wp (execute_tasks rt (Some injector) 1 ([injected NewValidateFailoverTask, injected NewAcquireLockTask] @
      map injected (middle ts)))
    (\<lambda>r s'. plan (snd s') = plan (snd s) \<and> owns (wc_ns (snd s)) (wc_n (snd s)) ow s' \<and>
      (is_ok r \<longrightarrow> locked_since (nanos (clk (fst (fst s)))) (wc_ns (snd s)) (wc_n (snd s)) s')) s"
    (is "wp ?x ?Q s")
proof -
  let ?ns = "wc_ns (snd s)" and ?n = "wc_n (snd s)" and ?t0 = "nanos (clk (fst (fst s)))"
  let ?R = "\<lambda>r s'. owns ?ns ?n ow s' \<and> (is_ok r \<longrightarrow> locked_since ?t0 ?ns ?n s')"
  have mid: "wp (execute_tasks rt (Some injector) i (map injected (middle ts))) ?R s2"
    if "owns ?ns ?n ow s2" "locked_since ?t0 ?ns ?n s2" for s2 i
    by (rule wp_mono [OF keeps_wp [OF calms_execute_tasks]])
       (use that workflow_tasks_split(2) [OF assms(1)] in \<open>auto simp: owns_def calm_def locked_since_def\<close>)
  obtain p c where s: "s = (p, c)" by (cases s)
  have val: "wp (Execute rt (injected NewValidateFailoverTask)) (\<lambda>r s'. plan (snd s') = plan c \<and>
      calm tbl clk (p, mark_state st c) s') (p, mark_state st c)" for st
  proof -
    have "plan (mark_state st c) = plan c" by (simp add: plan_def mark_state_def)
    then show ?thesis
      by (intro wp_mono [OF wp_conj [OF wp_plan [OF keeps_plan_Execute] keeps_wp [OF calms_Execute]]])
         (simp_all add: quiet_def)
  qed
  have "wp ?x ?R s"
    unfolding s append_Cons append_Nil execute_tasks.simps wp_check wp_ExecuteTask_injected
  proof (rule wp_mono [OF val], goal_cases)
    case (1 r s1)
    obtain w1 ca1 c1 where s1: "s1 = ((w1, ca1), c1)" by (cases s1) auto
    have w1: "tbl w1 = tbl (fst p)" "nanos (clk (fst p)) \<le> nanos (clk w1)"
      using 1 by (simp_all add: s1 calm_def)
    have c1: "wc_FailoverGroup c1 = wc_FailoverGroup c" "\<not> wc_ForceFailover c1"
      using 1 assms(2) by (simp_all add: s1 s plan_eq_iff)
    have o1: "owns ?ns ?n ow s1" using assms(4) w1 by (simp add: owns_def s s1)
    have acq: "wp (Execute rt (injected NewAcquireLockTask)) (\<lambda>r s'. is_ok r \<and> owns ?ns ?n ow s' \<and>
        locked_since ?t0 ?ns ?n s') ((w1, ca1), mark_state st c1)" for st
    proof -
      have o: "owns ?ns ?n ow ((w1, ca1), mark_state st c1)" using o1 by (simp add: owns_def s1)
      have "wp (AcquireLockTask_Execute rt (injected NewAcquireLockTask)) (\<lambda>r s'. is_ok r \<and>
          (\<forall>k. k \<noteq> lock_key m ?ns ?n \<longrightarrow> tbl (fst (fst s')) k = tbl w1 k) \<and>
          locked_since (nanos (clk w1)) ?ns ?n s') ((w1, ca1), mark_state st c1)"
        using wp_AcquireLockTask [of "injected NewAcquireLockTask" "((w1, ca1), mark_state st c1)"]
          c1 w1 assms(3) by (simp add: s mark_state_def)
      then show ?thesis
        unfolding Execute_def
        by (simp, elim wp_mono) (use w1 owns_beside_lock [OF o] in \<open>force simp: locked_since_def s\<close>)
    qed
    show ?case
    proof (cases r)
      case (Ok u)
      show ?thesis
        unfolding Ok outcome.case s1 wp_ExecuteTask_injected
      proof (rule wp_mono [OF acq], goal_cases)
        case (1 r s2)
        then show ?case by (cases r) (simp_all add: mid [unfolded s fst_conv snd_conv] s)
      qed
    qed (use o1 in \<open>simp_all add: s\<close>)
  qed
  then show ?thesis
    by (rule wp_mono [OF wp_conj [OF wp_plan [OF keeps_plan_execute_tasks]]]) auto
qed

lemma no_bypass_plan: "plan c' = plan c \<Longrightarrow> no_bypass m c' = no_bypass m c"
  by (simp add: no_bypass_def plan_eq_iff)

lemma wp_update_role:
  "wp (update_role rt sv g here cl role msg) (\<lambda>r s'. r = Ok () \<and> snd s' = c \<and>
      nanos (clk w) \<le> nanos (clk (fst (fst s'))) \<and> (\<forall>k. (\<forall>d. k \<noteq> cluster_key m (gr_Namespace g) (gr_Name g) d) \<longrightarrow>
        tbl (fst (fst s')) k = tbl w k)) ((w, ca), c)"
proof (cases here)
  case True
  show ?thesis
    unfolding update_role_def svc_UpdateClusterStatus_def service if_P [OF True] wp_check wp_in_service wp_uncached
    by (rule wp_UpdateClusterStatus_ok, cases "sv_cacheEnabled sv") (simp_all add: wp_simps)
qed (simp add: update_role_def wp_ret)

text \<open>The clock of a workflow.\<close>

abbreviation wticks where
  "wticks x \<equiv> keeps (\<lambda>s s'. nanos (clk (fst (fst s))) \<le> nanos (clk (fst (fst s')))) x"

lemma wticks_past: "wticks x \<Longrightarrow> past b s \<Longrightarrow> wp x (\<lambda>r s'. past b s') s"
  by (rule wp_mono [OF keeps_wp [of "\<lambda>s s'. nanos (clk (fst (fst s))) \<le> nanos (clk (fst (fst s')))"]])
     (auto simp: past_def)

lemma wticks_service: "ticks x \<Longrightarrow> wticks (in_service (uncached x))"
  by (auto simp: keeps_def in_service_def uncached_def split: prod.splits)

lemma wticks_calms: "calms x \<Longrightarrow> wticks x"
  by (auto simp: keeps_def calm_def)

lemma wticks_return: "wticks (State_Monad.return x)" "wticks (ret y)" "wticks (raise e)"
  by (simp_all add: ret_def raise_def keeps_return)

lemma wticks_bind: "wticks x \<Longrightarrow> (\<And>y. wticks (f y)) \<Longrightarrow> wticks (State_Monad.bind x f)"
  by (rule keeps_bind) auto

lemma wticks_try_or: "wticks x \<Longrightarrow> (\<And>e. wticks (h e)) \<Longrightarrow> (\<And>y. wticks (k y)) \<Longrightarrow> wticks (try_or x h k)"
  unfolding try_or_def by (rule wticks_bind) (auto simp: wticks_return split: outcome.split)

lemma wticks_break_lock: "wticks (break_lock rt sv g token target)"
  unfolding break_lock_def check_def ignore_err_def svc_ReleaseLock_def svc_TransferOwnership_def service
    delegate_def option.case
  by (auto intro!: wticks_try_or wticks_service ticks_calls ticks_transfer wticks_return)

lemma wp_UpdateGlobalState_locked:
  assumes "bt_Client t = Some kc" "bt_DynamoDBManager t = Some sv" "no_bypass m (snd s)"
    and lock: "locked_since t0 (wc_ns (snd s)) (wc_n (snd s)) s"
    and own: "owns (wc_ns (snd s)) (wc_n (snd s)) ow s"
  shows "wp (UpdateGlobalStateTask_Execute rt t)
    (\<lambda>r s'. past (t0 + lock_lease - second) s' \<or> is_err r \<and> owns (wc_ns (snd s)) (wc_n (snd s)) ow s') s"
    (is "wp _ ?Q s")
  unfolding UpdateGlobalStateTask_Execute_def
proof (rule wp_note_state [OF assms(1)], goal_cases)
  case (1 s1)
  let ?ns = "wc_ns (snd s)" and ?n = "wc_n (snd s)"
  obtain w ca c where s1: "s1 = ((w, ca), c)" by (cases s1) auto
  have c: "wc_FailoverGroup c = wc_FailoverGroup (snd s)" "no_bypass m c"
    using 1(2) no_bypass_plan [OF 1(2)] assms(3) unfolding s1 snd_conv by (simp add: plan_eq_iff, blast)
  obtain stamp token reason where l: "tbl w (lock_key m ?ns ?n) = Some (lock_item m ?ns ?n reason stamp token)"
      "clock_ok Z stamp" "t0 \<le> nanos stamp"
    using locked_since_calm [OF lock 1(1)] by (auto simp: locked_since_def s1)
  have o1: "owner_of m ?ns ?n (tbl w) = ow" using own 1(1) by (simp add: owns_def calm_def s1)
  have fail: "wp (svc_ExecuteFailover rt sv ?ns ?n nm tg reason' force) (\<lambda>r p. past (t0 + lock_lease - second) (p, c) \<or>
      r = Err (locked_error (bm_clusterName m)) \<and> owns ?ns ?n ow (p, c)) (w', ca')"
    if k: "tbl w' (lock_key m ?ns ?n) = tbl w (lock_key m ?ns ?n)" "tbl w' (config_key m ?ns ?n) = tbl w (config_key m ?ns ?n)"
    for nm tg reason' force w' ca'
    unfolding svc_ExecuteFailover_def service wp_simps
    by (rule wp_mono [OF wp_locked_failover [OF k(1) [unfolded l(1)] l(2)]])
       (use l(3) k(2) o1 in \<open>auto simp: past_def owns_def owner_of_def\<close>)
  have exec: "wp (in_service (svc_ExecuteFailover rt sv ?ns ?n nm tg reason' force))
      (\<lambda>r s'. case r of Ok x \<Rightarrow> wp (delay_ok rt) ?Q s'
         | Err e \<Rightarrow> wp (if isLockedBySourceCluster e (wc_SourceClusterName c) \<and>
                          (fs_FailoverMode (fo_Spec (wc_Failover c)) = ''CONSISTENCY'' \<or> wc_ForceFailover c)
                        then break_lock rt sv g token' tg'
                        else raise (wrapf msg e)) ?Q s'
         | Panic \<Rightarrow> ?Q Panic s') ((w', ca'), c)"
    if "tbl w' (lock_key m ?ns ?n) = tbl w (lock_key m ?ns ?n)" "tbl w' (config_key m ?ns ?n) = tbl w (config_key m ?ns ?n)"
    for nm tg reason' force g token' tg' msg w' ca'
    unfolding wp_in_service
  proof (rule wp_mono [OF fail [OF that]], goal_cases)
    case (1 r q)
    then show ?case
    proof
      assume late: "past (t0 + lock_lease - second) (q, c)"
      have "wp x ?Q (q, c)" if "wticks x" for x :: "('a, unit outcome) workflow_action"
        by (rule wp_mono [OF wticks_past [OF that late]]) simp
      then show ?thesis
        using late by (cases r) (auto simp: wticks_break_lock wticks_calms [OF calms_delay(2)] wticks_return wp_if)
    next
      assume "r = Err (locked_error (bm_clusterName m)) \<and> owns ?ns ?n ow (q, c)"
      then show ?thesis using c(2) by (auto simp: no_bypass_def wp_raise)
    qed
  qed
  show ?case
    unfolding s1 wp_bind wp_get_ctx Let_def assms(2) option.case c(1) wp_check
  proof (rule wp_mono [OF wp_update_role], goal_cases)
    case A: (1 r s2)
    then obtain w2 ca2 where s2: "s2 = ((w2, ca2), c)" by (cases s2) auto
    show ?case
      unfolding conjunct1 [OF A] outcome.case wp_check s2
    proof (rule wp_mono [OF wp_update_role], goal_cases)
      case B: (1 r s3)
      then obtain w3 ca3 where s3: "s3 = ((w3, ca3), c)" by (cases s3) auto
      show ?case
        unfolding conjunct1 [OF B] outcome.case wp_try_or s3
        by (rule exec) (use A B in \<open>auto simp: s2 s3 cluster_key_def config_key_def lock_key_def getClusterSK_def\<close>)
    qed
  qed
qed

text \<open>Within one lease of its own lock, a workflow that takes the lock never succeeds.\<close>

lemma engine_locked_out:
  assumes "workflow_tasks ts" "no_bypass m (snd s)"
    and "tbl (fst (fst s)) (lock_key m (wc_ns (snd s)) (wc_n (snd s))) = None"
  shows "wp (Engine_Execute rt (NewEngine ts (Some injector)))
    (\<lambda>r s'. nanos (clk (fst (fst s'))) \<le> nanos (clk (fst (fst s))) + lock_lease - second \<longrightarrow>
      \<not> is_ok r \<and> owner_of m (wc_ns (snd s)) (wc_n (snd s)) (tbl (fst (fst s'))) =
        owner_of m (wc_ns (snd s)) (wc_n (snd s)) (tbl (fst (fst s)))) s"
    (is "wp _ ?Q s")
proof -
  let ?ns = "wc_ns (snd s)" and ?n = "wc_n (snd s)" and ?t0 = "nanos (clk (fst (fst s)))"
  let ?ow = "owner_of m ?ns ?n (tbl (fst (fst s)))"
  let ?late = "past (?t0 + lock_lease - second)"
  have last: "wp (execute_tasks rt (Some injector) i [injected NewUpdateGlobalStateTask,
      injected NewRecordFailoverHistoryTask, injected NewReleaseLockTask]) ?Q s1"
    if same: "plan (snd s1) = plan (snd s)" and "owns ?ns ?n ?ow s1" "locked_since ?t0 ?ns ?n s1" for s1 i
  proof -
    obtain p c where s1: "s1 = (p, c)" by (cases s1)
    have marked: "plan (mark_state st c) = plan (snd s)" for st
      using same by (simp add: s1 plan_def mark_state_def)
    have names: "wc_FailoverGroup (mark_state st c) = wc_FailoverGroup (snd s)" "no_bypass m (mark_state st c)" for st
      using marked [of st] no_bypass_plan [OF marked] assms(2) by (simp_all add: plan_eq_iff)
    have upd: "wp (UpdateGlobalStateTask_Execute rt (injected NewUpdateGlobalStateTask))
        (\<lambda>r s'. ?late s' \<or> is_err r \<and> owns ?ns ?n ?ow s') (p, mark_state st c)" for st
      using wp_UpdateGlobalState_locked [of "injected NewUpdateGlobalStateTask" "(p, mark_state st c)" ?t0 ?ow]
        that(2,3) names [of st] by (simp add: s1 owns_def locked_since_def)
    show ?thesis
      unfolding s1
    proof (rule wp_completion [where I = ?late], rule settled_past, simp add: past_def, goal_cases)
      case (1 st)
      show ?case
        by (rule wp_mono [OF upd]) (auto simp: past_def owns_def split: outcome.split)
    qed
  qed
  show ?thesis
    unfolding Engine_Execute_def NewEngine_def Let_def engine.simps option.case split_tasks [OF assms(1)]
      append_assoc [symmetric] wp_execute_append [of _ _ _ "_ @ _"]
  proof (rule wp_mono [OF wp_front [OF assms(1) _ assms(3), of ?ow]], goal_cases)
    case 1
    then show ?case using assms(2) by (simp add: no_bypass_def)
  next
    case 2
    then show ?case by (simp add: owns_def)
  next
    case (3 r s1)
    then show ?case
      by (cases r) (simp_all only: outcome.case last is_ok.simps simp_thms owns_def)
  qed
qed

end

end
