(* ===== verification/Kube_World.thy ===== *)
theory Kube_World
  imports Workflow_Lock Mem_Manager
begin

text \<open>
  A world of two parts, the database and the API server: what the contracts of the database say of
  a client holds of the client beside an API server. On the in-memory store it is the world of the
  concrete runs of the workflow.
\<close>

section \<open>A client beside something else\<close>

definition beside :: "('w, 'a) state \<Rightarrow> ('w \<times> 'k, 'a) state" where
  "beside x = State (\<lambda>(w, k). case run_state x w of (r, w') \<Rightarrow> (r, (w', k)))"

lemma run_beside: "run_state (beside x) p = (r, p') \<longleftrightarrow> run_state x (fst p) = (r, fst p') \<and> snd p' = snd p"
  by (cases p; cases p') (auto simp: beside_def split: prod.splits)

definition beside_client :: "'w dynamo_client \<Rightarrow> ('w \<times> 'k) dynamo_client" where
  "beside_client dc =
     \<lparr> GetItem = \<lambda>i. beside (GetItem dc i), PutItem = \<lambda>i. beside (PutItem dc i),
       UpdateItem = \<lambda>i. beside (UpdateItem dc i), DeleteItem = \<lambda>i. beside (DeleteItem dc i),
       Query = \<lambda>i. beside (Query dc i), Scan = \<lambda>i. beside (Scan dc i),
       TransactWriteItems = \<lambda>i. beside (TransactWriteItems dc i),
       BatchGetItem = \<lambda>i. beside (BatchGetItem dc i), BatchWriteItem = \<lambda>i. beside (BatchWriteItem dc i) \<rparr>"

definition beside_runtime :: "'w go_runtime \<Rightarrow> ('w \<times> 'k) go_runtime" where
  "beside_runtime rt =
     \<lparr> time_now = beside (time_now rt), uuid_new = beside (uuid_new rt), timer_wait = \<lambda>d. beside (timer_wait rt d) \<rparr>"

lemma beside_sel [simp]:
  "GetItem (beside_client dc) i1 = beside (GetItem dc i1)" "PutItem (beside_client dc) i2 = beside (PutItem dc i2)"
  "UpdateItem (beside_client dc) i3 = beside (UpdateItem dc i3)"
  "DeleteItem (beside_client dc) i4 = beside (DeleteItem dc i4)"
  "Query (beside_client dc) i5 = beside (Query dc i5)" "Scan (beside_client dc) i6 = beside (Scan dc i6)"
  "TransactWriteItems (beside_client dc) i7 = beside (TransactWriteItems dc i7)"
  "BatchGetItem (beside_client dc) i8 = beside (BatchGetItem dc i8)"
  "BatchWriteItem (beside_client dc) i9 = beside (BatchWriteItem dc i9)"
  "time_now (beside_runtime rt) = beside (time_now rt)" "uuid_new (beside_runtime rt) = beside (uuid_new rt)"
  "timer_wait (beside_runtime rt) d = beside (timer_wait rt d)"
  by (simp_all add: beside_client_def beside_runtime_def)

lemma dynamo_store_beside:
  assumes "dynamo_store dc rt T Z tbl clk"
  shows "dynamo_store (beside_client dc) (beside_runtime rt) T Z (\<lambda>p. tbl (fst p)) (\<lambda>p. clk (fst p))"
proof (unfold_locales, unfold beside_sel run_beside, goal_cases)
  case 1
  show ?case by (rule dynamo_store.stored_tbl [OF assms])
next
  case 2
  then show ?case using dynamo_store.now_law [OF assms] by blast
next
  case 3
  then show ?case using dynamo_store.uuid_law [OF assms] by blast
next
  case 4
  then show ?case using dynamo_store.timer_law [OF assms] by blast
next
  case 5
  then show ?case using dynamo_store.get_law [OF assms conjunct1 [OF 5(1)] 5(2)] by blast
next
  case 6
  then show ?case using dynamo_store.put_law [OF assms conjunct1 [OF 6(1)] 6(2)] by blast
next
  case 7
  then show ?case using dynamo_store.update_law [OF assms conjunct1 [OF 7(1)] 7(2)] by blast
next
  case 8
  then show ?case using dynamo_store.delete_law [OF assms conjunct1 [OF 8(1)] 8(2)] by blast
next
  case 9
  then show ?case using dynamo_store.query_law [OF assms conjunct1 [OF 9(1)] 9(2,3)] by blast
next
  case 10
  then show ?case using dynamo_store.scan_law [OF assms conjunct1 [OF 10(1)] 10(2)] by blast
next
  case 11
  then show ?case using dynamo_store.transact_law [OF assms conjunct1 [OF 11(1)] 11(2,3)] by blast
next
  case 12
  then show ?case using dynamo_store.transact_duplicate [OF assms conjunct1 [OF 12(1)] 12(2)] by blast
next
  case 13
  then show ?case using dynamo_store.batch_get_law [OF assms conjunct1 [OF 13(1)]] by blast
next
  case 14
  then show ?case using dynamo_store.batch_write_law [OF assms conjunct1 [OF 14(1)]] by blast
qed

lemma dynamo_definite_beside:
  assumes "dynamo_definite dc rt T Z tbl clk"
  shows "dynamo_definite (beside_client dc) (beside_runtime rt) T Z (\<lambda>p. tbl (fst p)) (\<lambda>p. clk (fst p))"
proof (rule dynamo_definite.intro [OF dynamo_store_beside [OF dynamo_definite.axioms(1) [OF assms]]],
    unfold_locales, unfold beside_sel run_beside, goal_cases)
  case 1
  then show ?case using dynamo_definite.put_definite [OF assms conjunct1 [OF 1(1)] 1(2,3)] by blast
next
  case 2
  then show ?case using dynamo_definite.delete_definite [OF assms conjunct1 [OF 2(1)] 2(2,3)] by blast
next
  case 3
  then show ?case using dynamo_definite.transact_definite [OF assms conjunct1 [OF 3(1)] 3(2,3)] by blast
qed

lemma dynamo_reliable_beside:
  assumes "dynamo_reliable dc rt T Z tbl clk"
  shows "dynamo_reliable (beside_client dc) (beside_runtime rt) T Z (\<lambda>p. tbl (fst p)) (\<lambda>p. clk (fst p))"
proof (rule dynamo_reliable.intro [OF dynamo_definite_beside [OF dynamo_reliable.axioms(1) [OF assms]]],
    unfold_locales, unfold beside_sel run_beside, goal_cases)
  case 1
  then show ?case using dynamo_reliable.get_answered [OF assms conjunct1 [OF 1(1)] 1(2,3)] by blast
next
  case 2
  then show ?case using dynamo_reliable.put_answered [OF assms conjunct1 [OF 2(1)] 2(2,3)] by blast
next
  case 3
  then show ?case using dynamo_reliable.delete_answered [OF assms conjunct1 [OF 3(1)] 3(2,3)] by blast
next
  case 4
  then show ?case using dynamo_reliable.update_answered [OF assms conjunct1 [OF 4(1)] 4(2,3,4)] by blast
next
  case 5
  then show ?case using dynamo_reliable.query_answered [OF assms conjunct1 [OF 5(1)] 5(2,3,4)] by blast
next
  case 6
  then show ?case using dynamo_reliable.scan_answered [OF assms conjunct1 [OF 6(1)] 6(2)] by blast
qed

section \<open>An API server in memory\<close>

type_synonym kube_store = "object_key \<Rightarrow> failover option"

definition api_status_update :: "failover \<Rightarrow> kube_store \<Rightarrow> failover outcome \<times> kube_store" where
  "api_status_update f k =
     (case k (failover_key f) of
        None \<Rightarrow> (Err (ServiceError ''NotFound'' ''the object is not found'' []), k)
      | Some g \<Rightarrow>
          if om_ResourceVersion (fo_Meta f) \<noteq> om_ResourceVersion (fo_Meta g)
          then (Err (ServiceError ''Conflict'' ''the object has been modified'' []), k)
          else if fo_Status f = fo_Status g then (Ok g, k)
          else let h = g\<lparr> fo_Status := fo_Status f, fo_Meta := (fo_Meta g)\<lparr> om_ResourceVersion :=
                 om_ResourceVersion (fo_Meta g) @ ''+'' \<rparr> \<rparr>
               in (Ok h, k(failover_key f \<mapsto> h)))"

definition api_create :: "failover \<Rightarrow> kube_store \<Rightarrow> failover outcome \<times> kube_store" where
  "api_create f k =
     (case k (failover_key f) of
        Some _ \<Rightarrow> (Err (ServiceError ''AlreadyExists'' ''the object already exists'' []), k)
      | None \<Rightarrow> let h = f\<lparr> fo_Meta := (fo_Meta f)\<lparr> om_ResourceVersion := ''1'' \<rparr> \<rparr> in (Ok h, k(failover_key f \<mapsto> h)))"

text \<open>Failover objects are read, created and their status written; no group is stored.\<close>

definition kube_in_memory :: "('w \<times> kube_store) kube_client" where
  "kube_in_memory =
     \<lparr> GetFailover = \<lambda>key. State (\<lambda>(w, k). (case k key of Some f \<Rightarrow> Ok f
           | None \<Rightarrow> Err (ServiceError ''NotFound'' ''the object is not found'' []), (w, k))),
       GetFailoverGroup = \<lambda>key. State_Monad.return (Err (ServiceError ''NotFound'' ''the object is not found'' [])),
       ListFailoverGroups = ret [],
       CreateFailover = \<lambda>f. State (\<lambda>(w, k). case api_create f k of (r, k') \<Rightarrow> (r, (w, k'))),
       UpdateFailoverObject = \<lambda>f. State_Monad.return (Err (ServiceError ''Forbidden'' ''the object is read-only'' [])),
       StatusUpdateFailover = \<lambda>f. State (\<lambda>(w, k). case api_status_update f k of (r, k') \<Rightarrow> (r, (w, k'))),
       UpdateGroupObject = \<lambda>g. State_Monad.return (Err (ServiceError ''NotFound'' ''the object is not found'' [])),
       StatusUpdateGroup = \<lambda>g. State_Monad.return (Err (ServiceError ''NotFound'' ''the object is not found'' [])) \<rparr>"

lemma run_kube_in_memory:
  "run_state (StatusUpdateFailover kube_in_memory f) p = (r, p') \<longleftrightarrow>
     api_status_update f (snd p) = (r, snd p') \<and> fst p' = fst p"
  "run_state (GetFailover kube_in_memory key) p = (r', p') \<longleftrightarrow> p' = p \<and>
     r' = (case snd p key of Some f \<Rightarrow> Ok f | None \<Rightarrow> Err (ServiceError ''NotFound'' ''the object is not found'' []))"
  by (cases p; cases p'; auto simp: kube_in_memory_def split: prod.splits)+

lemma api_status_update_written:
  assumes "api_status_update f k = (r, k')"
  shows "r \<noteq> Panic \<and> (k' = k \<and> is_err r \<or>
    (\<exists>g g'. k (failover_key f) = Some g \<and> status_written f g g' \<and> k' = k(failover_key f \<mapsto> g') \<and> (\<forall>h. r = Ok h \<longrightarrow> h = g')))"
proof (cases "k (failover_key f)")
  case None
  then show ?thesis using assms by (auto simp: api_status_update_def)
next
  case (Some g)
  consider (stale) "om_ResourceVersion (fo_Meta f) \<noteq> om_ResourceVersion (fo_Meta g)"
    | (same) "om_ResourceVersion (fo_Meta f) = om_ResourceVersion (fo_Meta g)" "fo_Status f = fo_Status g"
    | (new) "om_ResourceVersion (fo_Meta f) = om_ResourceVersion (fo_Meta g)" "fo_Status f \<noteq> fo_Status g"
    by blast
  then show ?thesis
  proof cases
    case stale
    then show ?thesis using assms Some by (auto simp: api_status_update_def)
  next
    case same
    then have "status_written f g g" "k' = k(failover_key f \<mapsto> g)" "r = Ok g"
      using assms Some by (auto simp: api_status_update_def status_written_def)
    then show ?thesis using Some by auto
  next
    case new
    let ?h = "g\<lparr> fo_Status := fo_Status f, fo_Meta := (fo_Meta g)\<lparr> om_ResourceVersion := om_ResourceVersion (fo_Meta g) @ ''+'' \<rparr> \<rparr>"
    have "status_written f g ?h" "k' = k(failover_key f \<mapsto> ?h)" "r = Ok ?h"
      using assms Some new by (auto simp: api_status_update_def status_written_def Let_def)
    then show ?thesis using Some by auto
  qed
qed

interpretation kube_mem: kube_reliable "kube_in_memory :: ('w \<times> kube_store) kube_client" "\<lambda>p. snd p"
proof (unfold_locales, unfold run_kube_in_memory, goal_cases)
  case (1 f w r w')
  then show ?case by (rule api_status_update_written [OF conjunct1])
next
  case (2 k w r w')
  then show ?case by (auto split: option.splits)
next
  case (3 f w r w' g)
  then show ?case by (auto simp: api_status_update_def Let_def split: if_splits)
next
  case (4 k w r w' g)
  then show ?case by (auto split: option.splits)
qed

section \<open>The world of the concrete runs\<close>

type_synonym world = "mem \<times> kube_store"

definition world_manager :: "bool \<Rightarrow> string \<Rightarrow> world base_manager" where
  "world_manager strict cluster =
     \<lparr> bm_client = beside_client (mem_client ''T'' strict), bm_tableName = ''T'', bm_clusterName = cluster,
       bm_operatorID = ''op'' \<rparr>"

definition world_service :: "bool \<Rightarrow> string \<Rightarrow> world dynamo_service" where
  "world_service strict cluster =
     \<lparr> sv_base = world_manager strict cluster, sv_operations = Some (world_manager strict cluster),
       sv_volumeState = Some (world_manager strict cluster),
       sv_cacheEnabled = False, sv_cacheTTL = 0 \<rparr>"

definition world_runtime :: "world go_runtime" where
  "world_runtime = beside_runtime mem_runtime"

definition world_tbl :: "world \<Rightarrow> dynamo_table" where "world_tbl p = mem_tbl (fst p)"
definition world_time :: "world \<Rightarrow> go_time" where "world_time p = mem_time (fst p)"

lemma world_manager_sel [simp]:
  "bm_client (world_manager strict c) = beside_client (mem_client ''T'' strict)"
  "bm_tableName (world_manager strict c) = ''T''" "bm_clusterName (world_manager strict c) = c"
  "bm_operatorID (world_manager strict c) = ''op''"
  by (simp_all add: world_manager_def)

lemma world_obs: "world_tbl = (\<lambda>p. mem_tbl (fst p))" "world_time = (\<lambda>p. mem_time (fst p))"
  by (simp_all add: fun_eq_iff world_tbl_def world_time_def)

lemma world_reliable: "manager_reliable (world_manager strict c) world_runtime 0 world_tbl world_time"
  unfolding manager_reliable_def world_manager_sel world_runtime_def world_obs
  by (rule dynamo_reliable_beside [OF mem.dynamo_reliable_axioms])

lemma world_kube_beside:
  assumes "run_state (StatusUpdateFailover kube_in_memory f) w = (r, w')"
  shows "world_tbl w' = world_tbl w \<and> world_time w' = world_time w \<and> r \<noteq> Panic"
  using assms api_status_update_written [of f "snd w" r "snd w'"]
  unfolding run_kube_in_memory by (simp add: world_tbl_def world_time_def)

interpretation world: reliable_workflow "world_manager strict c" world_runtime 0 world_tbl world_time
    kube_in_memory "world_service strict c"
  for strict c
proof (intro reliable_workflow.intro workflow_world.intro workflow_world_axioms.intro)
  show "manager_reliable (world_manager strict c) world_runtime 0 world_tbl world_time" by (rule world_reliable)
  show "manager_store (world_manager strict c) world_runtime 0 world_tbl world_time"
    using world_reliable [of strict c] manager_store_def
    by (simp add: manager_reliable_def manager_store_def dynamo_reliable_def dynamo_definite_def)
qed (use world_kube_beside in \<open>auto simp: world_service_def\<close>)

section \<open>A clock that stands still\<close>

definition frozen :: "'w go_runtime \<Rightarrow> go_time \<Rightarrow> 'w go_runtime" where
  "frozen rt t = rt\<lparr> time_now := State_Monad.return t \<rparr>"

lemma dynamo_reliable_frozen:
  assumes "dynamo_reliable dc rt T Z tbl clk" "clock_ok Z t"
  shows "dynamo_reliable dc (frozen rt t) T Z tbl (\<lambda>_. t)"
proof -
  note d = dynamo_reliable.axioms(1) [OF assms(1)]
  note s = dynamo_definite.axioms(1) [OF d]
  have "dynamo_store dc (frozen rt t) T Z tbl (\<lambda>_. t)"
    using dynamo_store.uuid_law [OF s] dynamo_store.timer_law [OF s] assms(2)
    by unfold_locales
      (auto simp: frozen_def dynamo_store.stored_tbl [OF s] dest: dynamo_store.get_law [OF s]
        dynamo_store.put_law [OF s] dynamo_store.update_law [OF s] dynamo_store.delete_law [OF s]
        dynamo_store.query_law [OF s] dynamo_store.scan_law [OF s] dynamo_store.transact_law [OF s]
        dynamo_store.transact_duplicate [OF s] dynamo_store.batch_get_law [OF s] dynamo_store.batch_write_law [OF s])
  then show ?thesis
    using d assms(1) by (simp add: dynamo_reliable_def dynamo_definite_def dynamo_definite_axioms_def
        dynamo_reliable_axioms_def)
qed

definition still_runtime :: "world go_runtime" where
  "still_runtime = frozen world_runtime (mem_time mem_empty)"

interpretation still: reliable_workflow "world_manager strict c" still_runtime 0 world_tbl "\<lambda>_. mem_time mem_empty"
    kube_in_memory "world_service strict c"
  for strict c
proof (intro reliable_workflow.intro workflow_world.intro workflow_world_axioms.intro)
  have r: "manager_reliable (world_manager strict c) still_runtime 0 world_tbl (\<lambda>_. mem_time mem_empty)"
    using dynamo_reliable_frozen [OF world_reliable [of strict c, unfolded manager_reliable_def]] mem_time_ok
    unfolding manager_reliable_def still_runtime_def by simp
  then show "manager_reliable (world_manager strict c) still_runtime 0 world_tbl (\<lambda>_. mem_time mem_empty)" .
  show "manager_store (world_manager strict c) still_runtime 0 world_tbl (\<lambda>_. mem_time mem_empty)"
    using r by (simp add: manager_reliable_def manager_store_def dynamo_reliable_def dynamo_definite_def)
qed (use world_kube_beside in \<open>auto simp: world_service_def\<close>)

end
