(* ===== verification/Workflow_Moves.thy ===== *)
theory Workflow_Moves
  imports Kube_World State_Properties
begin

text \<open>
  The workflow that gets through: in CONSISTENCY mode, on the cluster that owns the group. Its own
  lock refuses the failover of its completion, and the bypass for a lock of the source cluster gives
  the lock up and transfers the ownership.
\<close>

text \<open>The group passes the validation.\<close>

definition valid_start :: "workflow_context \<Rightarrow> bool" where
  "valid_start c \<longleftrightarrow>
     validation_error (wc_FailoverGroup c) (wc_TargetClusterName c) (fs_Force (fo_Spec (wc_Failover c))) = None"

text \<open>The bypass is open for the lock that the workflow itself takes.\<close>

definition own_bypass :: "'w base_manager \<Rightarrow> workflow_context \<Rightarrow> bool" where
  "own_bypass m c \<longleftrightarrow> \<not> wc_ForceFailover c \<and> fs_FailoverMode (fo_Spec (wc_Failover c)) = ''CONSISTENCY'' \<and>
     isLockedBySourceCluster (locked_error (bm_clusterName m)) (wc_SourceClusterName c)"

lemma own_bypass_plan: "plan c' = plan c \<Longrightarrow> own_bypass m c' = own_bypass m c"
  by (simp add: own_bypass_def plan_eq_iff)

section \<open>Tasks that cannot fail\<close>

context workflow_world
begin

text \<open>A step that succeeds, whatever the API server answers.\<close>

definition fine :: "('a, unit outcome) workflow_action \<Rightarrow> bool" where
  "fine x \<longleftrightarrow> (\<forall>s. flags_ok (snd s) \<longrightarrow> wp x (\<lambda>r s'. is_ok r) s)"

lemma fine_delay: "fine (delay_ok rt)"
  unfolding fine_def by (intro allI impI wp_delay_ok) simp

lemma fine_ret: "fine (ret ())"
  unfolding fine_def by (auto simp: wp_ret)

lemma fine_note_state: "bt_Client t = Some kc \<Longrightarrow> fine k \<Longrightarrow> fine (note_state t st k)"
  unfolding fine_def by (intro allI impI wp_note_state) auto

lemma fine_bind:
  assumes "keeps_plan x" "\<And>y. fine (f y)"
  shows "fine (State_Monad.bind x f)"
  unfolding fine_def wp_bind
proof (intro allI impI)
  fix s :: "('a \<times> service_cache) \<times> workflow_context"
  assume "flags_ok (snd s)"
  then show "wp x (\<lambda>r s'. wp (f r) (\<lambda>r s'. is_ok r) s') s"
    using assms(2) by (intro wp_mono [OF wp_flags [OF assms(1)]]) (auto simp: fine_def)
qed

lemma fine_simulated_wait: "fine (simulated_wait rt)"
  unfolding simulated_wait_def by (intro fine_bind fine_delay plan_intros)

lemma fine_get_ctx: "(\<And>c. flags_ok c \<Longrightarrow> fine (f c)) \<Longrightarrow> fine (State_Monad.bind get_ctx f)"
  unfolding fine_def wp_bind by (auto simp: wp_get_ctx)

lemma flags_okD: "flags_ok c \<Longrightarrow> flag k \<Longrightarrow> map_of (wc_Results c) k = Some v \<Longrightarrow> \<exists>b. v = ResultBool b"
  unfolding flags_ok_def by (cases v) fastforce+

lemma fine_poll: "i + n = 10 \<Longrightarrow> i \<le> 3 \<Longrightarrow> fine (poll_volumes_ready rt i n)"
proof (induction n arbitrary: i)
  case (Suc n)
  let ?again = "if 3 \<le> i then State_Monad.bind (mark_volumes_ready rt) (\<lambda>_. ret ())
      else State_Monad.bind (sleep rt second) (\<lambda>_. poll_volumes_ready rt (Suc i) n)"
  have again: "fine ?again"
    using Suc by (auto intro!: fine_bind fine_ret plan_intros)
  have "fine (case v of None \<Rightarrow> ?again | Some (ResultBool b) \<Rightarrow> if b then ret () else ?again
      | Some _ \<Rightarrow> State_Monad.return Panic)" if "\<And>x. v = Some x \<Longrightarrow> \<exists>b. x = ResultBool b" for v
    using that again by (cases v) (force simp: fine_ret)+
  then show ?case
    unfolding poll_volumes_ready.simps Let_def by (rule fine_get_ctx) (auto dest: flags_okD simp: flag_def)
qed simp

text \<open>The tasks of the middle part, and the record of the history.\<close>

definition simple :: "task_type \<Rightarrow> bool" where
  "simple ty \<longleftrightarrow> quiet ty \<and> ty \<noteq> ValidateFailoverTask \<and> ty \<noteq> UpdateWorkflowStateTask \<and> ty \<noteq> ResetWorkflowStateTask \<and>
     (\<forall>p. ty \<noteq> SetWorkflowPhaseTask p)"

lemma fine_Execute:
  assumes "bt_Client t = Some kc" "simple (bt_Type t)"
  shows "fine (Execute rt t)"
  using assms unfolding Execute_def simple_def quiet_def
  by (cases "bt_Type t"; simp only: task_type.case task_execute_defs;
      auto intro!: fine_note_state fine_delay fine_ret fine_bind fine_get_ctx fine_poll plan_intros split: option.split)

lemma run_all:
  assumes "\<And>p c st. I (p, c) \<Longrightarrow> I (p, mark_state st c)" "I s"
    and "\<And>t s. t \<in> set ts \<Longrightarrow> I s \<Longrightarrow> bt_Client t = Some kc \<and> wp (Execute rt t) (\<lambda>r s'. is_ok r \<and> I s') s"
  shows "wp (execute_tasks rt injector' i ts) (\<lambda>r s'. is_ok r \<and> I s') s"
  using assms(2,3)
proof (induction ts arbitrary: i s)
  case Nil
  then show ?case by (simp add: wp_ret)
next
  case (Cons t ts)
  obtain p c where s: "s = (p, c)" by (cases s)
  have t: "bt_Client t = Some kc" using Cons.prems(1) Cons.prems(2) [of t s] by simp
  have m: "I (p, mark_state st c)" for st using assms(1) Cons.prems(1) by (simp add: s)
  have x: "wp (Execute rt t) (\<lambda>r s'. is_ok r \<and> I s') (p, mark_state st c)" for st
    using Cons.prems(2) [of t, OF _ m] by simp
  show ?case
    unfolding execute_tasks.simps wp_check s wp_ExecuteTask [OF t]
  proof (rule wp_mono [OF x], goal_cases)
    case (1 r s')
    then have "I s'" by simp
    then have "wp (execute_tasks rt injector' (Suc i) ts) (\<lambda>r s'. is_ok r \<and> I s') s'"
      by (rule Cons.IH) (use Cons.prems(2) in simp)
    with 1 show ?case by (cases r) simp_all
  qed
qed

text \<open>A step that writes nothing to the table, and what it keeps.\<close>

definition ahead :: "(('a \<times> service_cache) \<times> workflow_context) \<Rightarrow> (('a \<times> service_cache) \<times> workflow_context) \<Rightarrow> bool" where
  "ahead s s' \<longleftrightarrow> calm tbl clk s s' \<and> plan (snd s') = plan (snd s) \<and> flags_ok (snd s')"

lemma ahead_mark: "ahead s (p, c) \<Longrightarrow> ahead s (p, mark_state st c)"
  by (simp add: ahead_def calm_def plan_def mark_state_def flags_ok_def)

lemma ahead_step: "ahead s s1 \<Longrightarrow> calms x \<Longrightarrow> keeps_plan x \<Longrightarrow> wp x (\<lambda>r s'. is_ok r) s1 \<Longrightarrow>
    wp x (\<lambda>r s'. is_ok r \<and> ahead s s') s1"
  by (rule wp_mono [OF wp_conj [OF _ wp_conj [OF keeps_wp [of "calm tbl clk"] wp_conj [OF wp_plan wp_flags]]]])
     (auto simp: ahead_def calm_def)

lemma ahead_validate:
  assumes "bt_Client t = Some kc" "bt_Type t = ValidateFailoverTask" "valid_start (snd s)" "ahead s s1"
  shows "wp (Execute rt t) (\<lambda>r s'. is_ok r \<and> ahead s s') s1"
proof (rule ahead_step [OF assms(4) calms_Execute keeps_plan_Execute], goal_cases)
  case 3
  show ?case
    unfolding Execute_def assms(2) task_type.case ValidateFailoverTask_Execute_def
  proof (rule wp_note_state [OF assms(1)], goal_cases)
    case (1 s2)
    obtain p c where s2: "s2 = (p, c)" by (cases s2)
    have "plan c = plan (snd s)" using assms(4) 1(2) by (simp add: ahead_def s2)
    then have v: "validation_error (wc_FailoverGroup c) (wc_TargetClusterName c) (fs_Force (fo_Spec (wc_Failover c))) = None"
      using assms(3) by (simp add: valid_start_def plan_eq_iff)
    show ?case
      unfolding s2 wp_bind wp_get_ctx v option.case by (rule wp_delay_ok) simp
  qed
qed (use assms in \<open>simp_all add: quiet_def\<close>)

lemma ahead_simple:
  assumes "bt_Client t = Some kc" "simple (bt_Type t)" "ahead s s1"
  shows "wp (Execute rt t) (\<lambda>r s'. is_ok r \<and> ahead s s') s1"
  using fine_Execute [OF assms(1,2)] assms
  by (intro ahead_step calms_Execute keeps_plan_Execute) (simp_all add: fine_def ahead_def simple_def del: split_paired_All)

end

section \<open>The completion\<close>

context reliable_workflow
begin

text \<open>The workflow has taken the lock, and nothing else changed.\<close>

definition taken :: "(('a \<times> service_cache) \<times> workflow_context) \<Rightarrow> (('a \<times> service_cache) \<times> workflow_context) \<Rightarrow> bool" where
  "taken s s' \<longleftrightarrow> plan (snd s') = plan (snd s) \<and> flags_ok (snd s') \<and>
     locked_since (nanos (clk (fst (fst s)))) (wc_ns (snd s)) (wc_n (snd s)) s' \<and>
     (\<forall>k. k \<noteq> lock_key m (wc_ns (snd s)) (wc_n (snd s)) \<longrightarrow> tbl (fst (fst s')) k = tbl (fst (fst s)) k)"

lemma taken_ahead: "taken s s1 \<Longrightarrow> ahead s1 s2 \<Longrightarrow> taken s s2"
  by (auto simp: taken_def ahead_def calm_def locked_since_def)

lemma taken_mark: "taken s (p, c) \<Longrightarrow> taken s (p, mark_state st c)"
  by (simp add: taken_def plan_def mark_state_def flags_ok_def locked_since_def)

lemma locked_since_mono: "t0 \<le> t1 \<Longrightarrow> locked_since t1 ns n s \<Longrightarrow> locked_since t0 ns n s"
  by (fastforce simp: locked_since_def)

lemma ahead_refl: "flags_ok (snd s) \<Longrightarrow> ahead s s"
  by (simp add: ahead_def calm_def)

lemma wp_taken:
  assumes "workflow_tasks ts" and start: "valid_start (snd s)" "flags_ok (snd s)" "\<not> wc_ForceFailover (snd s)"
    and "tbl (fst (fst s)) (lock_key m (wc_ns (snd s)) (wc_n (snd s))) = None"
  shows "wp (execute_tasks rt (Some injector) i ([injected NewValidateFailoverTask, injected NewAcquireLockTask] @
      map injected (middle ts))) (\<lambda>r s'. is_ok r \<and> taken s s') s"
proof -
  have simple: "simple (bt_Type t)" if "t \<in> set (middle ts)" for t :: "'a base_task"
    using assms(1) that unfolding workflow_tasks_def
    by (elim disjE; auto simp: createConsistencyTasks_def createUptimeTasks_def middle_def simple_def quiet_def)
  have mid: "wp (execute_tasks rt (Some injector) i (map injected (middle ts))) (\<lambda>r s'. is_ok r \<and> taken s s') s2"
    if "taken s s2" for s2 i
  proof (rule wp_mono [OF run_all [where I = "ahead s2"]])
    fix t s3
    assume "t \<in> set (map injected (middle ts))" "ahead s2 s3"
    then show "bt_Client t = Some kc \<and> wp (Execute rt t) (\<lambda>r s'. is_ok r \<and> ahead s2 s') s3"
      using simple by (auto intro: ahead_simple)
  qed (use that taken_ahead [OF that] ahead_mark ahead_refl in \<open>auto simp: taken_def\<close>)
  have acq: "wp (Execute rt (injected NewAcquireLockTask)) (\<lambda>r s'. is_ok r \<and> taken s s') s1" if "ahead s s1" for s1
  proof -
    have c: "wc_FailoverGroup (snd s1) = wc_FailoverGroup (snd s)" "\<not> wc_ForceFailover (snd s1)"
      "plan (snd s1) = plan (snd s)" "flags_ok (snd s1)"
      using that start(3) by (auto simp: ahead_def plan_eq_iff)
    have w: "tbl (fst (fst s1)) = tbl (fst (fst s))" "nanos (clk (fst (fst s))) \<le> nanos (clk (fst (fst s1)))"
      using that by (simp_all add: ahead_def calm_def)
    have "wp (AcquireLockTask_Execute rt (injected NewAcquireLockTask)) (\<lambda>r s'. is_ok r \<and>
        (\<forall>k. k \<noteq> lock_key m (wc_ns (snd s)) (wc_n (snd s)) \<longrightarrow> tbl (fst (fst s')) k = tbl (fst (fst s)) k) \<and>
        locked_since (nanos (clk (fst (fst s1)))) (wc_ns (snd s)) (wc_n (snd s)) s') s1"
      using wp_AcquireLockTask [of "injected NewAcquireLockTask" s1] c w assms(5) by simp
    then have "wp (Execute rt (injected NewAcquireLockTask)) (\<lambda>r s'. is_ok r \<and>
        (\<forall>k. k \<noteq> lock_key m (wc_ns (snd s)) (wc_n (snd s)) \<longrightarrow> tbl (fst (fst s')) k = tbl (fst (fst s)) k) \<and>
        locked_since (nanos (clk (fst (fst s1)))) (wc_ns (snd s)) (wc_n (snd s)) s') s1"
      by (simp add: Execute_def)
    from wp_conj [OF wp_conj [OF wp_plan [OF keeps_plan_Execute] wp_flags [OF keeps_plan_Execute c(4)]] this]
    show ?thesis
      by (rule wp_mono) (use c(3) w locked_since_mono [OF w(2)] in \<open>auto simp: taken_def\<close>)
  qed
  obtain p c where s: "s = (p, c)" by (cases s)
  have val: "wp (Execute rt (injected NewValidateFailoverTask)) (\<lambda>r s'. is_ok r \<and> ahead s s') (p, mark_state st c)" for st
    by (rule ahead_validate) (use start(1) ahead_mark [of s p c] ahead_refl [OF start(2)] in \<open>auto simp: s\<close>)
  show ?thesis
    unfolding s append_Cons append_Nil execute_tasks.simps wp_check wp_ExecuteTask_injected
  proof (rule wp_mono [OF val [unfolded s]], goal_cases)
    case (1 r s1)
    obtain q d where s1: "s1 = (q, d)" by (cases s1)
    obtain u where r: "r = Ok u" using 1 by (auto simp: is_ok_iff)
    have m: "ahead s (q, mark_state st d)" for st using 1 ahead_mark by (simp add: s s1)
    show ?case
      unfolding r outcome.case s1 wp_ExecuteTask_injected
    proof (rule wp_mono [OF acq [OF m, unfolded s]], goal_cases)
      case (1 r s2)
      then show ?case by (cases r) (simp_all add: mid [unfolded s])
    qed
  qed
qed

text \<open>The completion finds the lock of the workflow itself, gives it up and transfers the ownership.\<close>

lemma wp_break_lock:
  assumes "tbl w (config_key m (gr_Namespace g) (gr_Name g)) = Some it" "gc_OwnerCluster (config_of_item it) \<noteq> target"
  shows "wp (break_lock rt sv g token target) (\<lambda>r s'. is_ok r) ((w, ca), c)"
proof -
  let ?ns = "gr_Namespace g" and ?n = "gr_Name g"
  have go: "wp (svc_TransferOwnership rt sv ?ns ?n target) (\<lambda>r p. r = Ok ()) (w1, ca1)"
    if "tbl w1 (config_key m ?ns ?n) = tbl w (config_key m ?ns ?n)" for w1 ca1
    unfolding svc_TransferOwnership_def service TransferOwnership_def wp_simps option.case
    by (rule wp_mono [OF transfer_contract [OF that [unfolded assms(1)] assms(2)]]) simp
  show ?thesis
    unfolding break_lock_def
    by (auto simp: wp_if wp_simps svc_ReleaseLock_def service wp_in_service lock_dropped_def lock_key_def config_key_def wp_ret
        intro!: wp_ReleaseLock_ok wp_mono [OF go] split: if_splits) (drule sym, simp)
qed

lemma wp_UpdateGlobalState_bypass:
  assumes "bt_Client t = Some kc" "bt_DynamoDBManager t = Some sv" "own_bypass m (snd s)" "flags_ok (snd s)"
    and lock: "locked_since t0 (wc_ns (snd s)) (wc_n (snd s)) s"
    and it: "tbl (fst (fst s)) (config_key m (wc_ns (snd s)) (wc_n (snd s))) = Some it"
    and other: "gc_OwnerCluster (config_of_item it) \<noteq> wc_TargetClusterName (snd s)"
  shows "wp (UpdateGlobalStateTask_Execute rt t) (\<lambda>r s'. past (t0 + lock_lease - second) s' \<or> is_ok r) s"
    (is "wp _ ?Q s")
  unfolding UpdateGlobalStateTask_Execute_def
proof (rule wp_note_state [OF assms(1)], goal_cases)
  case (1 s1)
  let ?ns = "wc_ns (snd s)" and ?n = "wc_n (snd s)" and ?b = "t0 + lock_lease - second"
  obtain w ca c where s1: "s1 = ((w, ca), c)" by (cases s1) auto
  have c: "wc_FailoverGroup c = wc_FailoverGroup (snd s)" "wc_TargetClusterName c = wc_TargetClusterName (snd s)"
    using 1(2) by (simp_all add: plan_eq_iff s1)
  have bypass: "own_bypass m c" using own_bypass_plan [OF 1(2), of m] assms(3) by (simp only: s1 snd_conv)
  obtain stamp token reason where l: "tbl w (lock_key m ?ns ?n) = Some (lock_item m ?ns ?n reason stamp token)"
      "clock_ok Z stamp" "t0 \<le> nanos stamp"
    using locked_since_calm [OF lock 1(1)] by (auto simp: locked_since_def s1)
  have it1: "tbl w (config_key m ?ns ?n) = Some it" using it 1(1) by (simp add: calm_def s1)
  have fail: "wp (svc_ExecuteFailover rt sv ?ns ?n nm tg reason' force) (\<lambda>r p. past ?b (p, c) \<or>
      r = Err (locked_error (bm_clusterName m)) \<and> tbl (fst p) = tbl w') (w', ca')"
    if "tbl w' (lock_key m ?ns ?n) = tbl w (lock_key m ?ns ?n)" for nm tg reason' force w' ca'
    unfolding svc_ExecuteFailover_def service wp_simps
    by (rule wp_mono [OF wp_locked_failover [OF that [unfolded l(1)] l(2)]]) (use l(3) in \<open>auto simp: past_def\<close>)
  have exec: "wp (in_service (svc_ExecuteFailover rt sv ?ns ?n nm tg reason' force))
      (\<lambda>r s'. case r of Ok x \<Rightarrow> wp (delay_ok rt) ?Q s'
         | Err e \<Rightarrow> wp (if isLockedBySourceCluster e (wc_SourceClusterName c) \<and>
                          (fs_FailoverMode (fo_Spec (wc_Failover c)) = ''CONSISTENCY'' \<or> wc_ForceFailover c)
                        then break_lock rt sv (wc_FailoverGroup (snd s)) token' (wc_TargetClusterName c)
                        else raise (wrapf msg e)) ?Q s'
         | Panic \<Rightarrow> ?Q Panic s') ((w', ca'), c)"
    if k: "tbl w' (lock_key m ?ns ?n) = tbl w (lock_key m ?ns ?n)" "tbl w' (config_key m ?ns ?n) = tbl w (config_key m ?ns ?n)"
    for nm tg reason' force token' msg w' ca'
    unfolding wp_in_service
  proof (rule wp_mono [OF fail [OF k(1)]], goal_cases)
    case (1 r q)
    then show ?case
    proof
      assume late: "past ?b (q, c)"
      have "wp x ?Q (q, c)" if "wticks x" for x :: "('a, unit outcome) workflow_action"
        by (rule wp_mono [OF wticks_past [OF that late]]) simp
      then show ?thesis
        using late by (cases r) (auto simp: wticks_break_lock wticks_calms [OF calms_delay(2)] wticks_return wp_if)
    next
      assume r: "r = Err (locked_error (bm_clusterName m)) \<and> tbl (fst q) = tbl w'"
      obtain w2 ca2 where q: "q = (w2, ca2)" by (cases q)
      have "wp (break_lock rt sv (wc_FailoverGroup (snd s)) token' (wc_TargetClusterName c)) ?Q (q, c)"
        unfolding q by (rule wp_mono [OF wp_break_lock [where it = it]]) (use r k(2) it1 other c(2) q in simp_all)
      then show ?thesis using r bypass by (simp add: own_bypass_def)
    qed
  qed
  show ?case
    unfolding s1 wp_bind wp_get_ctx Let_def assms(2) option.case c(1) wp_check
  proof (rule wp_mono [OF wp_update_role], goal_cases)
    case A: (1 r s2)
    then obtain w2 ca2 where s2: "s2 = ((w2, ca2), c)" by (cases s2) auto
    show ?case
      unfolding conjunct1 [OF A] outcome.case wp_check s2
    proof (rule wp_mono [OF wp_update_role], goal_cases)
      case B: (1 r s3)
      then obtain w3 ca3 where s3: "s3 = ((w3, ca3), c)" by (cases s3) auto
      show ?case
        unfolding conjunct1 [OF B] outcome.case wp_try_or s3
        by (rule exec) (use A B in \<open>auto simp: s2 s3 cluster_key_def config_key_def lock_key_def getClusterSK_def\<close>)
    qed
  qed
qed

lemma wp_release_ok:
  assumes "bt_Client t = Some kc" "bt_DynamoDBManager t = Some sv" "flags_ok (snd s)"
  shows "wp (ReleaseLockTask_Execute rt t) (\<lambda>r s'. is_ok r) s"
  unfolding ReleaseLockTask_Execute_def
proof (rule wp_note_state [OF assms(1)], goal_cases)
  case (1 s1)
  obtain w ca c where s1: "s1 = ((w, ca), c)" by (cases s1) auto
  have flags: "flags_ok c" using 1(3) assms(3) by (simp add: s1)
  have delay: "wp (delay_ok rt) (\<lambda>r s'. is_ok r) s2" for s2
    by (rule wp_delay_ok) simp
  have expected: "expected_release_error (ErrorString ''lock doesn't exist or lease token doesn't match'')"
    by code_simp
  have go: "wp (release_with_token rt sv g tok) (\<lambda>r s'. is_ok r) ((w, ca), c)" for g tok
    unfolding release_with_token_def svc_ReleaseLock_def service
    by (auto simp: wp_if delay wp_try_or wp_simps expected intro!: wp_ReleaseLock_ok)
  show ?case
    using flags_okD [OF flags, of "''SourceClusterHoldsLock''"]
    by (cases "map_of (wc_Results c) ''SourceClusterHoldsLock''")
      (auto simp: s1 assms(2) wp_bind wp_get_ctx Let_def go wp_if wp_ret flag_def)
qed


text \<open>A CONSISTENCY workflow on the source cluster gets through within its lease.\<close>

lemma engine_bypass_succeeds:
  assumes ts: "workflow_tasks ts" and start: "valid_start (snd s)" "flags_ok (snd s)" "own_bypass m (snd s)"
    and free: "tbl (fst (fst s)) (lock_key m (wc_ns (snd s)) (wc_n (snd s))) = None"
    and it: "tbl (fst (fst s)) (config_key m (wc_ns (snd s)) (wc_n (snd s))) = Some it"
    and other: "gc_OwnerCluster (config_of_item it) \<noteq> wc_TargetClusterName (snd s)"
  shows "wp (Engine_Execute rt (NewEngine ts (Some injector)))
    (\<lambda>r s'. nanos (clk (fst (fst s'))) \<le> nanos (clk (fst (fst s))) + lock_lease - second \<longrightarrow> is_ok r) s"
    (is "wp _ ?Q s")
proof -
  let ?late = "past (nanos (clk (fst (fst s))) + lock_lease - second)"
  have last: "wp (execute_tasks rt (Some injector) i [injected NewRecordFailoverHistoryTask, injected NewReleaseLockTask])
      (\<lambda>r s'. is_ok r \<and> flags_ok (snd s')) s2" if "flags_ok (snd s2)" for i s2
  proof (rule run_all)
    fix t and s2 :: "('a \<times> service_cache) \<times> workflow_context"
    assume t: "t \<in> set [injected NewRecordFailoverHistoryTask, injected NewReleaseLockTask]" "flags_ok (snd s2)"
    then have "wp (Execute rt t) (\<lambda>r s'. is_ok r) s2"
      using fine_Execute [of t] wp_release_ok [of t s2]
      by (auto simp: fine_def simple_def quiet_def Execute_def simp del: split_paired_All)
    then show "bt_Client t = Some kc \<and> wp (Execute rt t) (\<lambda>r s'. is_ok r \<and> flags_ok (snd s')) s2"
      using t by (auto intro!: wp_conj wp_flags keeps_plan_Execute)
  qed (use that in simp_all)
  have late: "wp (execute_tasks rt (Some injector) i [injected NewUpdateGlobalStateTask,
      injected NewRecordFailoverHistoryTask, injected NewReleaseLockTask]) ?Q s1" if "taken s s1" for i s1
  proof -
    obtain p c where s1: "s1 = (p, c)" by (cases s1)
    have upd: "wp (Execute rt (injected NewUpdateGlobalStateTask)) (\<lambda>r s'. flags_ok (snd s') \<and> (?late s' \<or> is_ok r))
        (p, mark_state st c)" for st
    proof (rule wp_conj [OF wp_flags [OF keeps_plan_Execute]])
      have m: "taken s (p, mark_state st c)" using that taken_mark by (simp add: s1)
      then have same: "plan (mark_state st c) = plan (snd s)" by (simp add: taken_def)
      then have "own_bypass m (mark_state st c)" using own_bypass_plan start(3) by blast
      then show "wp (Execute rt (injected NewUpdateGlobalStateTask)) (\<lambda>r s'. ?late s' \<or> is_ok r) (p, mark_state st c)"
        using wp_UpdateGlobalState_bypass [of "injected NewUpdateGlobalStateTask" "(p, mark_state st c)"
          "nanos (clk (fst (fst s)))" it] m same it other
        by (simp add: Execute_def taken_def plan_eq_iff config_key_def lock_key_def)
      show "flags_ok (snd (p, mark_state st c))" using m by (simp add: taken_def)
    qed
    show ?thesis
      unfolding s1 execute_tasks.simps(2) [of _ _ _ "injected NewUpdateGlobalStateTask"] wp_check wp_ExecuteTask_injected
    proof (rule wp_mono [OF upd], goal_cases)
      case (1 r s')
      then show ?case
        by (cases r) (simp_all only: outcome.case, rule wp_mono [OF last], auto simp: past_def)
    qed
  qed
  show ?thesis
    unfolding Engine_Execute_def NewEngine_def Let_def engine.simps option.case split_tasks [OF ts]
      append_assoc [symmetric] wp_execute_append [of _ _ _ "_ @ _"]
  proof (rule wp_mono [OF wp_taken [OF ts start(1,2) _ free]], goal_cases)
    case 1
    then show ?case using start(3) by (simp add: own_bypass_def)
  next
    case (2 r s1)
    then show ?case by (cases r) (simp_all only: outcome.case is_ok.simps simp_thms late)
  qed
qed

end

end
