(* ===== verification/Calls_Keep.thy ===== *)
theory Calls_Keep
  imports State_Facts Operations_Manager
begin

text \<open>
  The managers reach the world only through their client and the runtime: a relation that every
  call keeps is kept by every operation of a failover, whatever the database answers.
\<close>

text \<open>What every step keeps is kept by the control flow.\<close>

locale keep_rules =
  fixes R :: "'s \<Rightarrow> 's \<Rightarrow> bool"
  assumes R_refl: "R s s" and R_trans: "R s s' \<Longrightarrow> R s' s'' \<Longrightarrow> R s s''"

context keep_rules
begin

lemma keep_return: "keeps R (State_Monad.return x)" "keeps R (ret y)" "keeps R (raise e)"
  by (simp_all add: ret_def raise_def keeps_return R_refl)

lemma keep_bind: "keeps R x \<Longrightarrow> (\<And>y. keeps R (f y)) \<Longrightarrow> keeps R (State_Monad.bind x f)"
  by (rule keeps_bind) (auto intro: R_trans)

lemma keep_try_or: "keeps R x \<Longrightarrow> (\<And>e. keeps R (h e)) \<Longrightarrow> (\<And>y. keeps R (k y)) \<Longrightarrow> keeps R (try_or x h k)"
  unfolding try_or_def by (rule keep_bind) (auto simp: keep_return split: outcome.split)

lemma keep_check: "keeps R x \<Longrightarrow> (\<And>y. keeps R (k y)) \<Longrightarrow> keeps R (check x f k)"
  unfolding check_def by (intro keep_try_or keep_return)

lemma keep_deferred: "keeps R d \<Longrightarrow> keeps R x \<Longrightarrow> keeps R (deferred d x)"
  unfolding deferred_def by (intro keep_bind keep_return)

lemma keep_ignore_err: "keeps R x \<Longrightarrow> keeps R (ignore_err x)"
  unfolding ignore_err_def by (intro keep_try_or keep_return)

lemma keep_loop: "(\<And>x s. keeps R (f x s)) \<Longrightarrow> keeps R (loop f xs s)"
  by (induction xs arbitrary: s) (auto intro: keep_bind keep_return)

lemmas keep_flow = keep_return keep_bind keep_try_or keep_check keep_deferred keep_ignore_err keep_loop

end

interpretation observed: keep_rules "\<lambda>s s'. h s' = h s" for h :: "'s \<Rightarrow> 'a"
  by unfold_locales simp_all

section \<open>Calls of the managers\<close>

locale calls_keep = keep_rules R
  for R :: "'w \<Rightarrow> 'w \<Rightarrow> bool" +
  fixes m :: "'w base_manager" and rt :: "'w go_runtime"
  assumes client_keeps: "keeps R (GetItem (bm_client m) gi)" "keeps R (PutItem (bm_client m) pi)"
      "keeps R (UpdateItem (bm_client m) ui)" "keeps R (DeleteItem (bm_client m) di)"
      "keeps R (TransactWriteItems (bm_client m) ti)"
    and runtime_keeps: "keeps R (time_now rt)" "keeps R (uuid_new rt)" "keeps R (timer_wait rt d)"

context calls_keep
begin

lemmas keep_intros = keep_flow client_keeps runtime_keeps

lemma keep_UpdateGroupConfig: "keeps R (UpdateGroupConfig rt m c)"
  unfolding UpdateGroupConfig_def Let_def
  by (auto intro!: keep_intros split: outcome.split prod.split)

lemma keep_reads:
  "keeps R (IsLocked rt m ns n)" "keeps R (GetGroupConfig rt m ns n)" "keeps R (GetClusterStatus rt m ns n c)"
  unfolding IsLocked_def GetGroupConfig_def GetClusterStatus_def Let_def
  by (auto intro!: keep_intros keep_UpdateGroupConfig split: option.split prod.split)

lemma keep_writes:
  "keeps R (UpdateClusterStatus rt m ns n c h st j)" "keeps R (ReleaseLock m ns n token)"
  "keeps R (AcquireLock rt m ns n reason)"
  unfolding UpdateClusterStatus_def ReleaseLock_def AcquireLock_def
  by (auto intro!: keep_intros keep_reads split: prod.split)

lemma keep_transfer: "keeps R (TransferOwnership rt m ns n newOwner)"
  unfolding TransferOwnership_def transferOwnership_def Let_def
  by (auto intro!: keep_intros keep_reads keep_UpdateGroupConfig split: outcome.split prod.split option.split)

lemma keep_record: "keeps R (recordFailoverEvent rt m ns n name src tgt reason s e st down dur)"
  unfolding recordFailoverEvent_def Let_def
  by (auto intro!: keep_intros keep_reads keep_UpdateGroupConfig split: outcome.split prod.split)

lemma keep_ExecuteFailover: "keeps R (ExecuteFailover rt m ns n name target reason force)"
  unfolding ExecuteFailover_def ValidateFailoverPreconditions_def executeFailoverTransaction_def Let_def
  by (auto intro!: keep_intros keep_reads keep_writes keep_record split: prod.split option.split)

end

end
