(* ===== verification/Workflow_Status.thy ===== *)
theory Workflow_Status
  imports Calls_Keep Kube_World
begin

text \<open>
  The status of a Failover during its workflow. The tasks send the API server copies, so the
  workflow's own object keeps the version it started with; once a copy has been stored, every
  later write of the status names an old version and is rejected.
\<close>

locale kube_workflow = kube_reliable kc fos + calls_keep "\<lambda>w w'. fos w' = fos w" m rt
  for kc :: "'w kube_client" and fos :: "'w \<Rightarrow> object_key \<Rightarrow> failover option"
    and m :: "'w base_manager" and rt :: "'w go_runtime" +
  fixes sv :: "'w dynamo_service option"
  assumes sv_manager: "sv = Some s \<Longrightarrow> sv_operations s = Some m \<and> sv_base s = m"

text \<open>What the write leaves: the object with another status, in another version.\<close>

definition revised :: "failover \<Rightarrow> failover_status \<Rightarrow> string \<Rightarrow> failover" where
  "revised g st v = g\<lparr> fo_Status := st, fo_Meta := (fo_Meta g)\<lparr> om_ResourceVersion := v \<rparr> \<rparr>"

lemma revised_sel [simp]:
  "fo_Status (revised g st v) = st" "fo_Spec (revised g st v) = fo_Spec g"
  "failover_key (revised g st v) = failover_key g" "om_ResourceVersion (fo_Meta (revised g st v)) = v"
  "om_Finalizers (fo_Meta (revised g st v)) = om_Finalizers (fo_Meta g)"
  "om_DeletionTimestamp (fo_Meta (revised g st v)) = om_DeletionTimestamp (fo_Meta g)"
  "revised (revised g st v) st' v' = revised g st' v'"
  by (simp_all add: revised_def failover_key_def)

lemma status_written_revised: "status_written f g g' \<Longrightarrow> \<exists>v. g' = revised g (fo_Status f) v"
  unfolding status_written_def revised_def by blast

definition validating :: "failover \<Rightarrow> failover \<Rightarrow> bool" where
  "validating g g' \<longleftrightarrow> (\<exists>v. g' = revised g ((fo_Status g)\<lparr> ft_State := ''VALIDATING'' \<rparr>) v)"

lemma wp_with_context:
  assumes "wp x P (p, c)" "\<And>r q c'. P r (q, c') \<Longrightarrow> Q (r, wc_Failover c') q"
  shows "wp (with_context c x) Q p"
  using assms by (auto simp: wp_def with_context_def split: prod.splits)

context kube_workflow
begin

text \<open>Another version is stored than the object at hand has.\<close>

definition outdated :: "failover \<Rightarrow> object_meta \<Rightarrow> (('w \<times> service_cache) \<times> workflow_context) \<Rightarrow> bool" where
  "outdated g M s \<longleftrightarrow> fo_Meta (wc_Failover (snd s)) = M \<and>
     fos (fst (fst s)) (om_Namespace M, om_Name M) = Some g \<and> om_ResourceVersion M \<noteq> om_ResourceVersion (fo_Meta g)"

text \<open>A step that leaves it so.\<close>

definition holds_on :: "('w, 'a) workflow_action \<Rightarrow> bool" where
  "holds_on x \<longleftrightarrow> (\<forall>g M. keeps (\<lambda>s s'. outdated g M s \<longrightarrow> outdated g M s') x)"

lemma holds_on_wp: "holds_on x \<Longrightarrow> outdated g M s \<Longrightarrow> wp x (\<lambda>r s'. outdated g M s') s"
  unfolding holds_on_def by (auto intro: wp_mono [OF keeps_wp [of "\<lambda>s s'. outdated g M s \<longrightarrow> outdated g M s'"]])

lemma holds_on_wpI:
  assumes "\<And>g M s. outdated g M s \<Longrightarrow> wp x (\<lambda>r s'. outdated g M s') s"
  shows "holds_on x"
  unfolding holds_on_def keeps_def using wpD [OF _ assms] by blast

lemma on_return: "holds_on (State_Monad.return x)" "holds_on (ret y)" "holds_on (raise e)"
  by (simp_all add: holds_on_def ret_def raise_def keeps_return)

lemma on_bind: "holds_on x \<Longrightarrow> (\<And>y. holds_on (f y)) \<Longrightarrow> holds_on (State_Monad.bind x f)"
  unfolding holds_on_def by (intro allI keeps_bind) auto

lemma on_try_or: "holds_on x \<Longrightarrow> (\<And>e. holds_on (h e)) \<Longrightarrow> (\<And>y. holds_on (k y)) \<Longrightarrow> holds_on (try_or x h k)"
  unfolding try_or_def by (rule on_bind) (auto simp: on_return split: outcome.split)

lemma on_check: "holds_on x \<Longrightarrow> (\<And>y. holds_on (k y)) \<Longrightarrow> holds_on (check x f k)"
  unfolding check_def by (intro on_try_or on_return)

lemma on_ignore_err: "holds_on x \<Longrightarrow> holds_on (ignore_err x)"
  unfolding ignore_err_def by (intro on_try_or on_return)

lemma on_get_ctx: "holds_on get_ctx"
  by (simp add: holds_on_def keeps_def get_ctx_def)

lemma on_set: "holds_on (set_result k v)" "holds_on (set_token tok)" "holds_on (modify_ctx (mark_state st))"
    "holds_on (modify_ctx (\<lambda>c. c\<lparr> wc_Metrics := f c \<rparr>))"
  by (simp_all add: holds_on_def keeps_def set_result_def set_token_def modify_ctx_def outdated_def mark_state_def)

lemma on_in_service: "keeps (\<lambda>p p'. fos (fst p') = fos (fst p)) x \<Longrightarrow> holds_on (in_service x)"
  by (auto simp: holds_on_def keeps_def in_service_def outdated_def split: prod.splits)

lemma on_uncached: "keeps (\<lambda>w w'. fos w' = fos w) x \<Longrightarrow> keeps (\<lambda>p p'. fos (fst p') = fos (fst p)) (uncached x)"
  by (auto simp: keeps_def uncached_def split: prod.splits)

lemma on_world: "keeps (\<lambda>w w'. fos w' = fos w) x \<Longrightarrow> holds_on (in_world x)"
  unfolding in_world_def by (intro on_in_service on_uncached)

lemma on_service:
  assumes "sv = Some s"
  shows "holds_on (in_service (svc_AcquireLock rt s ns n reason))" "holds_on (in_service (svc_ReleaseLock s ns n token))"
    "holds_on (in_service (svc_ExecuteFailover rt s ns n name target reason force))"
    "holds_on (in_service (svc_TransferOwnership rt s ns n owner))"
    "holds_on (in_service (svc_UpdateClusterStatus rt s ns n c h st j))"
proof -
  have s: "sv_operations s = Some m" "sv_base s = m" using sv_manager [OF assms] by simp_all
  show "holds_on (in_service (svc_AcquireLock rt s ns n reason))" "holds_on (in_service (svc_ReleaseLock s ns n token))"
    "holds_on (in_service (svc_ExecuteFailover rt s ns n name target reason force))"
    "holds_on (in_service (svc_TransferOwnership rt s ns n owner))"
    by (auto simp: s svc_AcquireLock_def svc_ReleaseLock_def svc_ExecuteFailover_def svc_TransferOwnership_def
        delegate_def intro!: on_in_service on_uncached keep_writes keep_ExecuteFailover keep_transfer)
  let ?K = "\<lambda>p p' :: 'w \<times> service_cache. fos (fst p') = fos (fst p)"
  have "keeps ?K (change_cache h)" "keeps ?K (ret ())" for h
    by (auto simp: keeps_def change_cache_def ret_def)
  then have "keeps ?K (svc_UpdateClusterStatus rt s ns n c h st j)"
    unfolding svc_UpdateClusterStatus_def s check_def try_or_def raise_def
    by (intro keeps_bind) (auto intro!: keeps_bind on_uncached keep_writes keeps_return split: outcome.split)
  then show "holds_on (in_service (svc_UpdateClusterStatus rt s ns n c h st j))"
    by (rule on_in_service)
qed

text \<open>The write itself: refused, as its version is not the stored one.\<close>

lemma wp_refused_write:
  assumes "outdated g (fo_Meta f) ((w, ca), c)" "fo_Meta f = fo_Meta (wc_Failover c)"
  shows "wp (StatusUpdateFailover kc f) (\<lambda>r w'. is_err r \<and> fos w' = fos w) w"
  by (rule wpI, drule status_update_law)
     (use assms in \<open>auto simp: status_written_def outdated_def failover_key_def\<close>)

lemma wp_refused_call:
  assumes "outdated g M s" "fo_Meta f = M"
  shows "wp (in_world (StatusUpdateFailover kc f)) (\<lambda>r s'. is_err r \<and> outdated g M s') s"
proof -
  obtain w ca c where s: "s = ((w, ca), c)" by (cases s) auto
  show ?thesis
    unfolding s wp_in_world
    by (rule wp_mono [OF wp_refused_write]) (use assms in \<open>auto simp: outdated_def s\<close>)
qed

lemma on_UpdateFailoverState:
  assumes "bt_Client t = Some kc"
  shows "holds_on (UpdateFailoverState t st)"
proof -
  have "holds_on (get_ctx \<bind> (\<lambda>c. ignore_err (in_world (StatusUpdateFailover kc (wc_Failover c)))))"
  proof (rule holds_on_wpI)
    fix g M and s :: "('w \<times> service_cache) \<times> workflow_context"
    assume o: "outdated g M s"
    obtain p c where s: "s = (p, c)" by (cases s)
    show "wp (get_ctx \<bind> (\<lambda>c. ignore_err (in_world (StatusUpdateFailover kc (wc_Failover c)))))
        (\<lambda>r s'. outdated g M s') s"
      unfolding s wp_bind wp_get_ctx wp_ignore_err
      by (rule wp_mono [OF wp_refused_call]) (use o in \<open>auto simp: s outdated_def split: outcome.split\<close>)
  qed
  then show ?thesis
    unfolding UpdateFailoverState_def assms option.case
    by (auto intro!: on_bind on_set on_return)
qed

lemma on_note_state: "bt_Client t = Some kc \<Longrightarrow> holds_on k \<Longrightarrow> holds_on (note_state t st k)"
  unfolding note_state_def by (intro on_try_or on_UpdateFailoverState)

lemma on_delay: "holds_on (sleep rt d)" "holds_on (DelayAfterExecution rt)" "holds_on (delay_ok rt)"
  unfolding delay_ok_def DelayAfterExecution_def sleep_def
  by (auto intro!: on_bind on_return on_world runtime_keeps)

lemma on_mark: "holds_on (mark_volumes_ready rt)"
  unfolding mark_volumes_ready_def by (intro on_bind on_set on_world runtime_keeps)

lemmas on_intros = on_return on_bind on_try_or on_check on_ignore_err on_get_ctx on_set on_note_state on_delay on_mark
  on_UpdateFailoverState

lemma on_poll: "holds_on (poll_volumes_ready rt i n)"
proof (induction n arbitrary: i)
  case (Suc n)
  then show ?case
    unfolding poll_volumes_ready.simps Let_def
    by (auto intro!: on_intros split: option.split result_value.split)
qed (auto intro!: on_intros)

lemma on_Execute: "bt_Client t = Some kc \<Longrightarrow> bt_DynamoDBManager t = sv \<Longrightarrow> holds_on (Execute rt t)"
  unfolding Execute_def
  by (cases "bt_Type t"; simp only: task_type.case task_execute_defs Let_def;
      auto intro!: on_intros on_poll on_service on_world runtime_keeps split: option.split result_value.split)

lemma on_execute_tasks:
  "(\<And>t. t \<in> set ts \<Longrightarrow> bt_Client t = Some kc \<and> bt_DynamoDBManager t = sv) \<Longrightarrow>
   holds_on (execute_tasks rt injector i ts)"
proof (induction ts arbitrary: i)
  case (Cons t ts)
  then have "holds_on (ExecuteTask rt injector t)"
    unfolding ExecuteTask_def Let_def by (auto intro!: on_intros on_Execute)
  with Cons show ?case by (auto intro!: on_check)
qed (simp add: on_return)

section \<open>The end of the workflow\<close>

lemma on_modify: "(\<And>c. fo_Meta (wc_Failover (h c)) = fo_Meta (wc_Failover c)) \<Longrightarrow> holds_on (modify_ctx h)"
  by (simp add: holds_on_def keeps_def modify_ctx_def outdated_def)

lemma wp_save_refused:
  assumes "outdated g M s"
  shows "wp (save_failover kc) (\<lambda>r s'. is_err r \<and> outdated g M s') s"
proof -
  obtain p c where s: "s = (p, c)" by (cases s)
  show ?thesis
    unfolding save_failover_def s wp_bind wp_get_ctx wp_check
    by (rule wp_mono [OF wp_refused_call]) (use assms in \<open>auto simp: s outdated_def split: outcome.split\<close>)
qed

lemma wp_status_refused:
  assumes "outdated g M s"
  shows "wp (updateFailoverStatus rt kc status message) (\<lambda>r s'. is_err r \<and> outdated g M s') s"
  unfolding updateFailoverStatus_def wp_bind
proof (rule wp_mono [OF holds_on_wp [OF on_world [OF runtime_keeps(1)] assms]], goal_cases)
  case (1 now s1)
  show ?case by (rule wp_mono [OF holds_on_wp [OF on_modify 1]]) (simp_all add: wp_save_refused)
qed

lemma wp_workflow_failed:
  assumes "outdated g M s"
  shows "wp (workflow_failed rt kc e) (\<lambda>r s'. \<not> is_ok r \<and> outdated g M s') s"
  unfolding workflow_failed_def wp_bind
proof (rule wp_mono [OF holds_on_wp [OF on_set(3) assms]], goal_cases)
  case (1 r1 s1)
  show ?case
    unfolding wp_try_or
  proof (rule wp_mono [OF wp_save_refused [OF 1]], goal_cases)
    case (1 r s2)
    obtain p c where s2: "s2 = (p, c)" by (cases s2)
    have upd: "wp (try_or (updateFailoverStatus rt kc st msg) (\<lambda>_. raise e1) (\<lambda>_. raise e1))
        (\<lambda>r s'. \<not> is_ok r \<and> outdated g M s') s2" for st msg e1
      unfolding wp_try_or
      by (rule wp_mono [OF wp_status_refused [OF conjunct2 [OF 1]]]) (auto simp: wp_raise split: outcome.split)
    show ?case
      using 1 upd by (auto simp: wp_ret wp_bind wp_get_ctx wp_return Let_def s2 is_err_iff split: option.split result_value.split)
  qed
qed

lemma wp_after_engine:
  assumes x: "wp (Engine_Execute rt (NewEngine tasks deps)) (\<lambda>r s'. \<exists>g'. P g' \<and> outdated g' M s') s"
  shows "wp (try_or (Engine_Execute rt (NewEngine tasks deps)) (workflow_failed rt kc) (\<lambda>_. do {
          modify_ctx (\<lambda>c. c\<lparr> wc_Failover := on_status (\<lambda>s. s\<lparr> ft_Metrics := wc_Metrics c, ft_State := ''SUCCESS'' \<rparr>)
            (wc_Failover c) \<rparr>);
          try_or (save_failover kc) (\<lambda>_. ret ()) ret;
          check (updateFailoverStatus rt kc ''SUCCESS'' '''')
            (wrapf ''failed to update failover status after successful workflow'') ret
        })) (\<lambda>r s'. \<not> is_ok r \<and> (\<exists>g'. P g' \<and> outdated g' M s')) s"
  unfolding wp_try_or
proof (rule wp_mono [OF x], goal_cases)
  case (1 r s1)
  then obtain g' where g': "P g'" "outdated g' M s1" by blast
  have fin: "wp (check (updateFailoverStatus rt kc ''SUCCESS'' '''')
            (wrapf ''failed to update failover status after successful workflow'') ret)
      (\<lambda>r s'. \<not> is_ok r \<and> outdated g' M s') s2" if "outdated g' M s2" for s2
    unfolding wp_check by (rule wp_mono [OF wp_status_refused [OF that]]) (auto split: outcome.split)
  have ok: "wp (do {
          modify_ctx (\<lambda>c. c\<lparr> wc_Failover := on_status (\<lambda>s. s\<lparr> ft_Metrics := wc_Metrics c, ft_State := ''SUCCESS'' \<rparr>)
            (wc_Failover c) \<rparr>);
          try_or (save_failover kc) (\<lambda>_. ret ()) ret;
          check (updateFailoverStatus rt kc ''SUCCESS'' '''')
            (wrapf ''failed to update failover status after successful workflow'') ret
        }) (\<lambda>r s'. \<not> is_ok r \<and> outdated g' M s') s1"
    unfolding wp_bind
  proof (rule wp_mono [OF holds_on_wp [OF on_modify g'(2)]], simp, goal_cases)
    case (1 u s2)
    show ?case
      unfolding wp_try_or
      by (rule wp_mono [OF wp_save_refused [OF 1]]) (auto simp: wp_ret fin is_err_iff)
  qed
  show ?case
  proof (cases r)
    case (Ok u)
    show ?thesis
      unfolding Ok outcome.case by (rule wp_mono [OF ok]) (use g'(1) in auto)
  next
    case (Err e)
    show ?thesis
      unfolding Err outcome.case by (rule wp_mono [OF wp_workflow_failed [OF g'(2)]]) (use g'(1) in auto)
  qed (use 1 in simp)
qed

section \<open>The first write of a task\<close>

text \<open>The object and the stored one agree; the state says that the failover is in progress.\<close>

definition current :: "failover \<Rightarrow> object_meta \<Rightarrow> (('w \<times> service_cache) \<times> workflow_context) \<Rightarrow> bool" where
  "current g M s \<longleftrightarrow> fo_Meta (wc_Failover (snd s)) = M \<and> fo_Meta g = M \<and>
     fos (fst (fst s)) (om_Namespace M, om_Name M) = Some g \<and>
     (\<exists>st. fo_Status (wc_Failover (snd s)) = (fo_Status g)\<lparr> ft_State := st \<rparr>) \<and>
     ft_State (fo_Status g) \<noteq> ''VALIDATING''"

lemma wp_first_write:
  assumes "bt_Client t = Some kc" "current g M s"
  shows "wp (UpdateFailoverState t ''VALIDATING'') (\<lambda>r s'. r = Ok () \<and> (\<exists>g'. validating g g' \<and> outdated g' M s')) s"
proof -
  obtain w ca c where s: "s = ((w, ca), c)" by (cases s) auto
  let ?f = "wc_Failover (mark_state ''VALIDATING'' c)"
  have f: "fo_Meta ?f = M" "fo_Status ?f = (fo_Status g)\<lparr> ft_State := ''VALIDATING'' \<rparr>"
    using assms(2) by (auto simp: current_def s mark_state_def)
  have "wp (StatusUpdateFailover kc ?f) (\<lambda>r w'. r \<noteq> Panic \<and>
      (\<exists>g'. validating g g' \<and> outdated g' M ((w', ca), mark_state ''VALIDATING'' c))) w"
  proof (rule wpI)
    fix r w'
    assume run: "run_state (StatusUpdateFailover kc ?f) w = (r, w')"
    have g: "fos w (failover_key ?f) = Some g" "om_ResourceVersion (fo_Meta ?f) = om_ResourceVersion (fo_Meta g)"
      using assms(2) f by (auto simp: current_def s failover_key_def)
    have "is_ok r" by (rule status_answered [OF run g])
    then obtain g' where g': "status_written ?f g g'" "fos w' = (fos w)(failover_key ?f \<mapsto> g')"
      using status_update_law [OF run] g by (auto simp: is_ok_iff)
    have "fo_Status ?f \<noteq> fo_Status g"
      using assms(2) f(2) by (auto simp: current_def s dest: arg_cong [of _ _ ft_State])
    then have v: "om_ResourceVersion (fo_Meta g') \<noteq> om_ResourceVersion (fo_Meta g)"
      using g'(1) by (auto simp: status_written_def)
    have "validating g g'" using status_written_revised [OF g'(1)] f by (simp add: validating_def)
    moreover have "outdated g' M ((w', ca), mark_state ''VALIDATING'' c)"
      using assms(2) f g'(2) v by (auto simp: outdated_def current_def s failover_key_def)
    ultimately show "r \<noteq> Panic \<and> (\<exists>g'. validating g g' \<and> outdated g' M ((w', ca), mark_state ''VALIDATING'' c))"
      using \<open>is_ok r\<close> by auto
  qed
  then have "wp (ignore_err (in_world (StatusUpdateFailover kc ?f)))
      (\<lambda>r s'. r = Ok () \<and> (\<exists>g'. validating g g' \<and> outdated g' M s')) ((w, ca), mark_state ''VALIDATING'' c)"
    unfolding wp_ignore_err wp_in_world by (rule wp_mono) (auto split: outcome.split)
  then show ?thesis
    unfolding UpdateFailoverState_def s assms(1) option.case wp_bind wp_modify_ctx
    by (simp add: majorPhases_def EnableFrequentStateUpdates_def wp_get_ctx wp_bind)
qed

lemma wp_engine_outdated:
  assumes "workflow_tasks ts" "current g M s"
  shows "wp (Engine_Execute rt (NewEngine ts (Some \<lparr> di_Client = kc, di_DynamoDBManager = sv \<rparr>)))
    (\<lambda>r s'. \<exists>g'. validating g g' \<and> outdated g' M s') s"
proof -
  let ?i = "\<lparr> di_Client = kc, di_DynamoDBManager = sv \<rparr>"
  obtain p c where s: "s = (p, c)" by (cases s)
  obtain us where us: "map (InjectDependencies ?i) ts = InjectDependencies ?i NewValidateFailoverTask # map (InjectDependencies ?i) us"
    using workflow_tasks_split(1) [OF assms(1)] by (metis append_Cons list.simps(9))
  have rest: "wp (execute_tasks rt (Some ?i) i (map (InjectDependencies ?i) us))
      (\<lambda>r s'. \<exists>g'. validating g g' \<and> outdated g' M s') s1" if "validating g g'" "outdated g' M s1" for g' i s1
    by (rule wp_mono [OF holds_on_wp [OF on_execute_tasks that(2)]]) (use that(1) in auto)
  have val: "wp (Execute rt (InjectDependencies ?i NewValidateFailoverTask))
      (\<lambda>r s'. \<exists>g'. validating g g' \<and> outdated g' M s') (p, mark_state st c)" for st
  proof -
    have cur: "current g M (p, mark_state st c)"
      using assms(2) by (auto simp: current_def s mark_state_def)
    show ?thesis
      unfolding Execute_def InjectDependencies_sel bt_Type_new task_type.case ValidateFailoverTask_Execute_def
        note_state_def wp_try_or
    proof (rule wp_mono [OF wp_first_write [OF _ cur]], simp, goal_cases)
      case (1 r s2)
      then obtain g' where g': "r = Ok ()" "validating g g'" "outdated g' M s2" by blast
      show ?case
        unfolding g'(1) outcome.case
        by (rule wp_mono [OF holds_on_wp [OF _ g'(3)]])
           (use g'(2) in \<open>auto intro!: on_intros split: option.split\<close>)
    qed
  qed
  show ?thesis
    unfolding Engine_Execute_def NewEngine_def Let_def engine.simps option.case us execute_tasks.simps wp_check s
      wp_ExecuteTask [of _ kc, OF InjectDependencies_sel(1) [of ?i, unfolded dependency_injector.simps]]
  proof (rule wp_mono [OF val], goal_cases)
    case (1 r s1)
    then show ?case by (cases r) (auto intro: rest)
  qed
qed

lemma wp_ProcessFailover:
  assumes "fos w (failover_key f) = Some g" "failover_key g = failover_key f"
    and "om_ResourceVersion (fo_Meta f) = om_ResourceVersion (fo_Meta g)"
    and a: "ad_Client a = kc" "ad_DynamoDBManager a = sv"
  shows "wp (ProcessFailover rt a f grp) (\<lambda>(r, f') (w', ca'). \<not> is_ok r \<and> failover_key f' = failover_key f \<and>
      (\<exists>v. om_ResourceVersion (fo_Meta f') \<noteq> v \<and>
         fos w' (failover_key f) = Some (revised g ((fo_Status f)\<lparr> ft_State := ''VALIDATING'' \<rparr>) v))) (w, ca)"
  unfolding ProcessFailover_def Let_def wp_bind wp_uncached a
proof (rule wpI)
  let ?f = "on_status (\<lambda>s. s\<lparr> ft_State := ''IN_PROGRESS'' \<rparr>) f"
  fix r w1
  assume run: "run_state (StatusUpdateFailover kc ?f) w = (r, w1)"
  have k: "fos w (failover_key ?f) = Some g" "om_ResourceVersion (fo_Meta ?f) = om_ResourceVersion (fo_Meta g)"
    using assms(1,3) by (simp_all add: failover_key_def)
  have "is_ok r" by (rule status_answered [OF run k])
  then obtain g1 where g1: "r = Ok g1" "status_written ?f g g1" "fos w1 (failover_key ?f) = Some g1"
    using status_update_law [OF run] k by (auto simp: is_ok_iff)
  obtain v1 where g1_eq: "g1 = revised g (fo_Status ?f) v1"
    using status_written_revised [OF g1(2)] by blast
  have key: "failover_key g1 = failover_key f" using assms(2) by (simp add: g1_eq)
  show "wp (time_now rt) (\<lambda>now w'. wp (with_context (NewWorkflowContext (case r of Ok obj \<Rightarrow> obj | _ \<Rightarrow> ?f) grp
        (ad_ClusterName a) now) (process_workflow rt a)) (\<lambda>(r, f') (w', ca'). \<not> is_ok r \<and> failover_key f' = failover_key f \<and>
      (\<exists>v. om_ResourceVersion (fo_Meta f') \<noteq> v \<and>
         fos w' (failover_key f) = Some (revised g ((fo_Status f)\<lparr> ft_State := ''VALIDATING'' \<rparr>) v))) (w', ca)) w1"
  proof (rule wp_mono [OF keeps_wp [OF runtime_keeps(1)]], goal_cases)
    case (1 now w2)
    let ?c = "NewWorkflowContext g1 grp (ad_ClusterName a) now"
    have cur: "current g1 (fo_Meta g1) ((w2, ca), ?c)"
      using g1(3) 1 key by (auto simp: current_def NewWorkflowContext_def failover_key_def g1_eq)
    let ?ts = "if to_upper (fs_FailoverMode (fo_Spec (wc_Failover ?c))) = ''UPTIME'' then createUptimeTasks else createConsistencyTasks"
    have ts: "workflow_tasks ?ts" by (simp add: workflow_tasks_def)
    have "wp (process_workflow rt a) (\<lambda>r s'. \<not> is_ok r \<and> (\<exists>g'. validating g1 g' \<and> outdated g' (fo_Meta g1) s')) ((w2, ca), ?c)"
      unfolding process_workflow_def wp_bind wp_get_ctx Let_def a
      by (rule wp_after_engine [OF wp_engine_outdated [OF ts cur]])
    then show ?case
      unfolding g1(1) outcome.case
      by (rule wp_with_context) (use key in \<open>force simp: outdated_def validating_def failover_key_def g1_eq\<close>)
  qed
qed

end

end
