(* ===== verification/Workflow_Properties.thy ===== *)
theory Workflow_Properties
  imports Workflow_Moves Workflow_Status
begin

text \<open>Properties of the workflow of a failover.\<close>

interpretation world_status: kube_workflow kube_in_memory "\<lambda>p. snd p" "world_manager strict c" world_runtime
    "Some (world_service strict c)"
  for strict c
proof (intro kube_workflow.intro calls_keep.intro observed.keep_rules_axioms calls_keep_axioms.intro kube_workflow_axioms.intro
    kube_mem.kube_reliable_axioms)
  have b: "keeps (\<lambda>w w'. snd w' = snd w) (beside x)" for x :: "('b, 'c) state"
    by (simp add: keeps_def run_beside)
  show "keeps (\<lambda>w w'. snd w' = snd w) (GetItem (bm_client (world_manager strict c)) gi)" for gi
    by (simp add: b)
qed (auto simp: keeps_def run_beside world_runtime_def world_service_def)

context workflow_world
begin

lemma engine_refused:
  assumes "workflow_tasks ts"
    and "validation_error (wc_FailoverGroup (snd s)) (wc_TargetClusterName (snd s)) (fs_Force (fo_Spec (wc_Failover (snd s)))) = Some msg"
  shows "wp (Engine_Execute rt (NewEngine ts (Some injector)))
    (\<lambda>r s'. (\<exists>e. r = Err e \<and> err_msg e = ''workflow execution failed at task 1 (ValidateFailover): task '' @
        quoted ''ValidateFailover'' @ '' failed: '' @ msg) \<and> tbl (fst (fst s')) = tbl (fst (fst s))) s"
proof -
  obtain p c where s: "s = (p, c)" by (cases s)
  have val: "wp (Execute rt (injected NewValidateFailoverTask))
      (\<lambda>r s'. r = Err (ErrorString msg) \<and> tbl (fst (fst s')) = tbl (fst p)) (p, mark_state st c)" for st
    unfolding Execute_def InjectDependencies_sel bt_Type_new task_type.case ValidateFailoverTask_Execute_def
  proof (rule wp_note_state, simp, goal_cases)
    case (1 s1)
    obtain q d where s1: "s1 = (q, d)" by (cases s1)
    have "validation_error (wc_FailoverGroup d) (wc_TargetClusterName d) (fs_Force (fo_Spec (wc_Failover d))) = Some msg"
      using assms(2) 1(2) by (simp add: s s1 plan_eq_iff mark_state_def)
    then show ?case
      using 1(1) by (simp add: s1 wp_bind wp_get_ctx wp_raise calm_def)
  qed
  have names: "bt_TaskName (NewValidateFailoverTask :: 'a base_task) = ''ValidateFailover''" "show_nat (Suc 0) = ''1''"
    by (simp add: NewValidateFailoverTask_def new_task_def, code_simp)
  show ?thesis
    unfolding Engine_Execute_def NewEngine_def Let_def engine.simps option.case split_tasks [OF assms(1)] append_Cons
      execute_tasks.simps wp_check s wp_ExecuteTask_injected
    by (rule wp_mono [OF val]) (auto simp: names)
qed

end

section \<open>A group and a failover\<close>

definition demo_info :: "string \<Rightarrow> string \<Rightarrow> cluster_info" where
  "demo_info c role = \<lparr> ci_Name = c, ci_Role = role, ci_Health = ''OK'', ci_LastHeartbeat = '''' \<rparr>"

definition demo_meta :: "string \<Rightarrow> object_meta" where
  "demo_meta n = \<lparr> om_Name = n, om_Namespace = ''ns'', om_ResourceVersion = ''1'', om_Generation = 1,
     om_DeletionTimestamp = None, om_Finalizers = [], om_Labels = [], om_Annotations = [] \<rparr>"

definition demo_group :: "cluster_info list \<Rightarrow> failover_group" where
  "demo_group cs =
     \<lparr> gr_Meta = demo_meta ''g'',
       gr_Spec = \<lparr> sp_OperatorID = ''op'', sp_Suspended = False, sp_SuspensionReason = '''',
         sp_Timeouts = \<lparr> gt_TransitoryState = '''', gt_UnhealthyPrimary = '''', gt_Heartbeat = '''' \<rparr>,
         sp_HeartbeatInterval = '''', sp_Workloads = [], sp_NetworkResources = [], sp_FluxResources = [] \<rparr>,
       gr_Status = \<lparr> st_Health = ''OK'', st_Suspended = False, st_Workloads = [], st_NetworkResources = [],
         st_FluxResources = [], st_LastFailoverTime = '''',
         st_GlobalState = \<lparr> gs_ActiveCluster = ''east'', gs_ThisCluster = '''', gs_LastFailover = [],
           gs_DBSyncStatus = '''', gs_LastSyncTime = '''', gs_Clusters = cs \<rparr>,
         st_Conditions = [] \<rparr> \<rparr>"

definition demo_failover :: "string \<Rightarrow> bool \<Rightarrow> failover" where
  "demo_failover mode force =
     \<lparr> fo_Meta = demo_meta ''f1'',
       fo_Spec = \<lparr> fs_TargetCluster = ''west'', fs_FailoverMode = mode, fs_Force = force, fs_Reason = ''why'',
         fs_FailoverGroups = [] \<rparr>,
       fo_Status = \<lparr> ft_Status = '''', ft_State = '''', ft_Message = '''', ft_FailoverGroups = [],
         ft_Metrics = \<lparr> fm_TotalDowntimeSeconds = 0, fm_TotalFailoverTimeSeconds = 0 \<rparr>, ft_Conditions = [] \<rparr> \<rparr>"

abbreviation demo_clusters :: "cluster_info list" where
  "demo_clusters \<equiv> [demo_info ''east'' ''PRIMARY'', demo_info ''west'' ''STANDBY'']"

definition demo_context :: "string \<Rightarrow> bool \<Rightarrow> cluster_info list \<Rightarrow> workflow_context" where
  "demo_context mode force cs = NewWorkflowContext (demo_failover mode force) (demo_group cs) ''west'' (mem_time mem_empty)"

definition world_demo :: "failover \<Rightarrow> world" where
  "world_demo f = (mem_demo, [failover_key f \<mapsto> f])"

lemma demo_context_sel [simp]:
  "wc_ns (demo_context mode force cs) = ''ns''" "wc_n (demo_context mode force cs) = ''g''"
  "wc_TargetClusterName (demo_context mode force cs) = ''west''" "wc_ForceFailover (demo_context mode force cs) = force"
  "wc_IsTargetCluster (demo_context mode force cs)" "wc_Results (demo_context mode force cs) = []"
  "fs_FailoverMode (fo_Spec (wc_Failover (demo_context mode force cs))) = mode"
  "fs_Force (fo_Spec (wc_Failover (demo_context mode force cs))) = force"
  "wc_FailoverGroup (demo_context mode force cs) = demo_group cs"
  by (simp_all add: demo_context_def NewWorkflowContext_def demo_group_def demo_failover_def demo_meta_def)

lemma demo_group_names [simp]: "gr_Namespace (demo_group cs) = ''ns''" "gr_Name (demo_group cs) = ''g''"
  by (simp_all add: demo_group_def demo_meta_def)

lemma demo_source [simp]: "wc_SourceClusterName (demo_context mode force demo_clusters) = ''east''"
  by (simp add: demo_context_def NewWorkflowContext_def primary_cluster_def demo_group_def demo_info_def)

lemma demo_valid: "validation_error (demo_group demo_clusters) ''west'' force = None"
  by (simp add: validation_error_def demo_group_def demo_info_def target_healthy_def Let_def)

lemma world_demo_tbl [simp]: "world_tbl (world_demo f) = mem_tbl mem_demo"
  by (simp add: world_demo_def world_tbl_def)

lemma demo_world_keys [simp]:
  "config_key (world_manager strict d) ''ns'' ''g'' = (''GROUP#op#ns#g'', ''CONFIG'')"
  "lock_key (world_manager strict d) ''ns'' ''g'' = (''GROUP#op#ns#g'', ''LOCK'')"
  by (simp_all add: config_key_def lock_key_def getGroupPK_def)

lemma demo_flags: "flags_ok (demo_context mode force cs)"
  by (simp add: flags_ok_def)

text \<open>The same failover on the cluster \<open>east\<close> that owns the group.\<close>

definition source_context :: "string \<Rightarrow> workflow_context" where
  "source_context mode = NewWorkflowContext (demo_failover mode False) (demo_group demo_clusters) ''east'' (mem_time mem_empty)"

lemma source_context_sel [simp]:
  "wc_ns (source_context mode) = ''ns''" "wc_n (source_context mode) = ''g''"
  "wc_TargetClusterName (source_context mode) = ''west''" "wc_SourceClusterName (source_context mode) = ''east''"
  "\<not> wc_ForceFailover (source_context mode)" "wc_FailoverGroup (source_context mode) = demo_group demo_clusters"
  "fs_FailoverMode (fo_Spec (wc_Failover (source_context mode))) = mode"
  "fs_Force (fo_Spec (wc_Failover (source_context mode))) = False" "flags_ok (source_context mode)"
  by (simp_all add: source_context_def NewWorkflowContext_def primary_cluster_def demo_group_def demo_info_def
      demo_failover_def demo_meta_def flags_ok_def)

section \<open>The properties\<close>

text \<open>C8: A workflow that reports success has moved the group: in either mode, when the engine has run
  all tasks without an error, the stored owner of the group is the workflow's target cluster,
  whatever the calls of the API server answered.\<close>

theorem workflow_moves:
  assumes "workflow_world m rt Z tbl clk kc sv" "workflow_tasks ts"
    and "run_state (Engine_Execute rt (NewEngine ts (Some \<lparr> di_Client = kc, di_DynamoDBManager = Some sv \<rparr>)))
      ((w, ca), c) = (Ok (), ((w', ca'), c'))"
  shows "owner_of m (wc_ns c) (wc_n c) (tbl w') = wc_TargetClusterName c"
  using wpD [OF assms(3) workflow_world.engine_owns [OF assms(1,2), of "((w, ca), c)",
    unfolded workflow_world.injector_def [OF assms(1)]]]
  by (simp add: workflow_world.owns_def [OF assms(1)])

text \<open>Runs on the concrete group: on the target cluster with a clock that runs or stands still, and on
  the source cluster.\<close>

abbreviation demo_injector :: "string \<Rightarrow> world dependency_injector" where
  "demo_injector cluster \<equiv> \<lparr> di_Client = kube_in_memory, di_DynamoDBManager = Some (world_service False cluster) \<rparr>"

definition demo_run ::
    "string \<Rightarrow> bool \<Rightarrow> cluster_info list \<Rightarrow> unit outcome \<times> (world \<times> service_cache) \<times> workflow_context" where
  "demo_run mode force cs = run_state
     (Engine_Execute world_runtime (NewEngine createUptimeTasks (Some (demo_injector ''west''))))
     ((world_demo (demo_failover mode force), empty_cache), demo_context mode force cs)"

definition source_run :: "unit outcome \<times> (world \<times> service_cache) \<times> workflow_context" where
  "source_run = run_state
     (Engine_Execute still_runtime (NewEngine createConsistencyTasks (Some (demo_injector ''east''))))
     ((world_demo (demo_failover ''CONSISTENCY'' False), empty_cache), source_context ''CONSISTENCY'')"

lemma demo_owner: "gc_OwnerCluster (config_of_item (group_config_item (demo_config ''east'' '''' 2))) = ''east''"
  by (rule config_ready_of_item(1) [OF mem_demo_ready])

lemma locked_by_east: "isLockedBySourceCluster (wrapf ''failover preconditions not met''
    (ErrorString ''failover group is locked by: east'')) ''east''"
  by code_simp

lemma source_run_ok: "is_ok (fst source_run)"
  using still.engine_bypass_succeeds [where ts = createConsistencyTasks and
      s = "((world_demo (demo_failover ''CONSISTENCY'' False), empty_cache), source_context ''CONSISTENCY'')" and
      it = "group_config_item (demo_config ''east'' '''' 2)" and strict = False and c = "''east''"]
  unfolding still.injector_def source_run_def
  by (simp add: valid_start_def demo_valid own_bypass_def locked_error_def locked_by_east demo_owner workflow_tasks_def
      wp_def lock_lease_def second_def split_beta)

theorem workflow_moves_witness:
  "owner_of (world_manager False ''east'') ''ns'' ''g'' (world_tbl (fst (fst (snd source_run)))) = ''west''"
proof -
  obtain u w ca c where r: "source_run = (u, ((w, ca), c))"
    by (cases source_run) auto
  have u: "u = Ok ()" using source_run_ok by (simp add: r is_ok_iff)
  show ?thesis
    using workflow_moves [OF reliable_workflow.axioms(2) [OF still.reliable_workflow_axioms] _
        r [unfolded source_run_def u]]
    by (simp add: workflow_tasks_def r)
qed

text \<open>C3: A workflow that is not forced succeeds and moves the group when it runs in CONSISTENCY mode on
  the cluster that owns the group (more exactly, when the message of its own lock opens the bypass for
  the source cluster): the group is free and has a record with another owner than the target, the
  status passes the validation, and the run ends within one lease less a second. The completion finds
  the workflow's own lock, gives it up and transfers the ownership, without a transaction. No answer of
  the API server can stop it. Together with C9 this covers the workflows that are not forced
  on a group that is free and passes the validation.\<close>

theorem consistency_workflow_succeeds:
  assumes "reliable_workflow m rt Z tbl clk kc sv" "workflow_tasks ts"
    and "\<not> wc_ForceFailover c" "fs_FailoverMode (fo_Spec (wc_Failover c)) = ''CONSISTENCY''"
    and "isLockedBySourceCluster (wrapf ''failover preconditions not met''
          (ErrorString (''failover group is locked by: '' @ bm_clusterName m))) (wc_SourceClusterName c)"
    and "validation_error (wc_FailoverGroup c) (wc_TargetClusterName c) (fs_Force (fo_Spec (wc_Failover c))) = None"
    and "flags_ok c" "tbl w (lock_key m (wc_ns c) (wc_n c)) = None"
    and "tbl w (config_key m (wc_ns c) (wc_n c)) = Some it"
    and "gc_OwnerCluster (config_of_item it) \<noteq> wc_TargetClusterName c"
    and "run_state (Engine_Execute rt (NewEngine ts (Some \<lparr> di_Client = kc, di_DynamoDBManager = Some sv \<rparr>)))
      ((w, ca), c) = (r, ((w', ca'), c'))"
    and "nanos (clk w') \<le> nanos (clk w) + lock_lease - second"
  shows "r = Ok () \<and> owner_of m (wc_ns c) (wc_n c) (tbl w') = wc_TargetClusterName c"
proof -
  note world = reliable_workflow.axioms(2) [OF assms(1)]
  have "is_ok r"
    using wpD [OF assms(11) reliable_workflow.engine_bypass_succeeds [OF assms(1,2), of "((w, ca), c)" it,
      unfolded workflow_world.injector_def [OF world]]] assms(3-10,12)
    by (auto simp: own_bypass_def locked_error_def valid_start_def)
  then show ?thesis
    using wpD [OF assms(11) workflow_world.engine_owns [OF world assms(2), of "((w, ca), c)",
      unfolded workflow_world.injector_def [OF world]]]
    by (auto simp: workflow_world.owns_def [OF world] is_ok_iff)
qed

theorem consistency_workflow_succeeds_witness:
  "fst source_run = Ok () \<and>
   owner_of (world_manager False ''east'') ''ns'' ''g'' (world_tbl (fst (fst (snd source_run)))) = ''west''"
proof -
  obtain r w ca c where run: "source_run = (r, ((w, ca), c))"
    by (cases source_run) auto
  show ?thesis
    using consistency_workflow_succeeds [OF still.reliable_workflow_axioms _ _ _ _ _ _ _ _ _ run [unfolded source_run_def]]
    by (simp add: workflow_tasks_def run lock_lease_def second_def locked_by_east demo_valid demo_owner)
qed

text \<open>The same on a clock that stands still.\<close>

definition still_run :: "string \<Rightarrow> bool \<Rightarrow> unit outcome \<times> (world \<times> service_cache) \<times> workflow_context" where
  "still_run mode force = run_state
     (Engine_Execute still_runtime (NewEngine createUptimeTasks (Some (demo_injector ''west''))))
     ((world_demo (demo_failover mode force), empty_cache), demo_context mode force demo_clusters)"

text \<open>C9: A workflow that is not forced locks itself out, when the group is free at its start, the run ends
  within one lease less a second of its start, and no bypass is open for its own lock: the mode is not
  CONSISTENCY, or the name of the cluster that runs it does not begin with the name of the source
  cluster. It takes the lock of its group as its second task, and the failover that its completion runs
  finds the group locked, by the very cluster that runs it: the workflow fails and the owner stays. (In
  the excluded case the bypass breaks the lock and transfers the ownership: C3.)\<close>

theorem workflow_locked_out:
  assumes "reliable_workflow m rt Z tbl clk kc sv" "workflow_tasks ts"
    and "\<not> wc_ForceFailover c"
    and "fs_FailoverMode (fo_Spec (wc_Failover c)) \<noteq> ''CONSISTENCY'' \<or>
      \<not> isLockedBySourceCluster (wrapf ''failover preconditions not met''
          (ErrorString (''failover group is locked by: '' @ bm_clusterName m))) (wc_SourceClusterName c)"
    and "tbl w (lock_key m (wc_ns c) (wc_n c)) = None"
    and "run_state (Engine_Execute rt (NewEngine ts (Some \<lparr> di_Client = kc, di_DynamoDBManager = Some sv \<rparr>)))
      ((w, ca), c) = (r, ((w', ca'), c'))"
    and "nanos (clk w') \<le> nanos (clk w) + lock_lease - second"
  shows "\<not> is_ok r \<and> owner_of m (wc_ns c) (wc_n c) (tbl w') = owner_of m (wc_ns c) (wc_n c) (tbl w)"
  using wpD [OF assms(6) reliable_workflow.engine_locked_out [OF assms(1,2), of "((w, ca), c)",
    unfolded workflow_world.injector_def [OF reliable_workflow.axioms(2) [OF assms(1)]]]] assms(3-5,7)
  by (auto simp: no_bypass_def locked_error_def)

theorem workflow_locked_out_witness:
  "\<not> is_ok (fst (still_run ''UPTIME'' False)) \<and>
   owner_of (world_manager False ''west'') ''ns'' ''g'' (world_tbl (fst (fst (snd (still_run ''UPTIME'' False))))) = ''east''"
proof -
  obtain r w ca c where run: "still_run ''UPTIME'' False = (r, ((w, ca), c))"
    by (cases "still_run ''UPTIME'' False") auto
  have east: "owner_of (world_manager False ''west'') ''ns'' ''g'' (mem_tbl mem_demo) = ''east''"
    by (simp add: owner_of_def or_else_def)
  show ?thesis
    using workflow_locked_out [OF still.reliable_workflow_axioms _ _ _ _ run [unfolded still_run_def]] east
    by (simp add: workflow_tasks_def run lock_lease_def second_def)
qed

text \<open>C32: The Failover object is never reported as processed. When the API server accepts writes of the
  current version, the workflow's first write of a copy makes its own object outdated: ProcessFailover
  returns an error whatever the workflow did, and the stored status stays as it was, in state
  VALIDATING.\<close>

theorem failover_never_reported:
  assumes "kube_workflow kc fos m rt (ad_DynamoDBManager a)" "ad_Client a = kc"
    and "fos w (failover_key f) = Some g" "failover_key g = failover_key f"
    and "om_ResourceVersion (fo_Meta f) = om_ResourceVersion (fo_Meta g)"
    and "run_state (ProcessFailover rt a f grp) (w, ca) = ((r, f'), (w', ca'))"
  shows "\<not> is_ok r \<and> (\<exists>h. fos w' (failover_key f) = Some h \<and>
      fo_Status h = (fo_Status f)\<lparr> ft_State := ''VALIDATING'' \<rparr>)"
  using wpD [OF assms(6) kube_workflow.wp_ProcessFailover [OF assms(1,3-5,2) refl]] by auto

definition demo_adapter :: "world manager_adapter" where
  "demo_adapter = \<lparr> ad_Client = kube_in_memory, ad_ClusterName = ''west'',
     ad_DynamoDBManager = Some (world_service False ''west'') \<rparr>"

definition demo_process :: "(unit outcome \<times> failover) \<times> (world \<times> service_cache)" where
  "demo_process = run_state (ProcessFailover world_runtime demo_adapter (demo_failover ''UPTIME'' True) (demo_group demo_clusters))
     (world_demo (demo_failover ''UPTIME'' True), empty_cache)"

theorem failover_never_reported_witness:
  "\<not> is_ok (fst (fst demo_process)) \<and> (\<exists>h. snd (fst (snd demo_process)) (''ns'', ''f1'') = Some h \<and>
     ft_State (fo_Status h) = ''VALIDATING'' \<and> ft_Status (fo_Status h) = '''')"
proof -
  obtain r f w ca where run: "demo_process = ((r, f), (w, ca))"
    by (cases demo_process) auto
  have "kube_workflow kube_in_memory (\<lambda>p. snd p) (world_manager False ''west'') world_runtime
      (ad_DynamoDBManager demo_adapter)"
    using world_status.kube_workflow_axioms [of False "''west''"] by (simp add: demo_adapter_def)
  from failover_never_reported [OF this _ _ _ _ run [unfolded demo_process_def],
      of "demo_failover ''UPTIME'' True"]
  show ?thesis
    by (auto simp: run world_demo_def demo_adapter_def failover_key_def demo_failover_def demo_meta_def)
qed

text \<open>A workflow whose group does not pass the validation fails at its first task with the message of
  the first prerequisite that is not met, and nothing of the database is written.\<close>

theorem workflow_refused:
  assumes "workflow_world m rt Z tbl clk kc sv" "workflow_tasks ts"
    and "validation_error (wc_FailoverGroup c) (wc_TargetClusterName c) (fs_Force (fo_Spec (wc_Failover c))) = Some msg"
    and "run_state (Engine_Execute rt (NewEngine ts (Some \<lparr> di_Client = kc, di_DynamoDBManager = Some sv \<rparr>)))
      ((w, ca), c) = (r, ((w', ca'), c'))"
  shows "(\<exists>e. r = Err e \<and> err_msg e =
      ''workflow execution failed at task 1 (ValidateFailover): task '' @ quoted ''ValidateFailover'' @ '' failed: '' @ msg) \<and>
    tbl w' = tbl w"
  using wpD [OF assms(4) workflow_world.engine_refused [OF assms(1,2), of "((w, ca), c)" msg,
    unfolded workflow_world.injector_def [OF assms(1)]]] assms(3)
  by simp

lemma quoted_validate: "quoted ''ValidateFailover'' = CHR 0x27 # ''ValidateFailover'' @ [CHR 0x27]"
  by code_simp

theorem workflow_refused_witness:
  "\<exists>e. fst (demo_run ''UPTIME'' False []) = Err e \<and> err_msg e = ''workflow execution failed at task 1 (ValidateFailover): '' @
     ''task 'ValidateFailover' failed: target cluster west does not exist in failover group''"
proof -
  obtain r w ca c where run: "demo_run ''UPTIME'' False [] = (r, ((w, ca), c))"
    by (cases "demo_run ''UPTIME'' False []") auto
  show ?thesis
    using workflow_refused [OF world.workflow_world_axioms [of False] _ _ run [unfolded demo_run_def]]
    by (auto simp: workflow_tasks_def run validation_error_def demo_group_def Let_def quoted_validate)
qed

lemma execute_tasks_first_failure:
  "run_state (execute_tasks rt injector i ts) s = (Err e, s') \<Longrightarrow>
   \<exists>pre t post e1 s1. ts = pre @ t # post \<and> run_state (execute_tasks rt injector i pre) s = (Ok (), s1) \<and>
     run_state (ExecuteTask rt injector t) s1 = (Err e1, s') \<and>
     e = Wrapped (''workflow execution failed at task '' @ show_nat (i + length pre) @ '' ('' @ bt_TaskName t @ ''): '') e1 ''''"
proof (induction ts arbitrary: i s)
  case Nil
  then show ?case by (simp add: ret_def)
next
  case (Cons t ts)
  obtain r s1 where t: "run_state (ExecuteTask rt injector t) s = (r, s1)" by (cases "run_state (ExecuteTask rt injector t) s")
  show ?case
  proof (cases r)
    case (Ok u)
    then have "run_state (execute_tasks rt injector (Suc i) ts) s1 = (Err e, s')"
      using Cons.prems t by (simp add: check_def try_or_def)
    from Cons.IH [OF this] obtain pre t' post e1 s2 where
      *: "ts = pre @ t' # post" "run_state (execute_tasks rt injector (Suc i) pre) s1 = (Ok (), s2)"
        "run_state (ExecuteTask rt injector t') s2 = (Err e1, s')"
        "e = Wrapped (''workflow execution failed at task '' @ show_nat (Suc i + length pre) @ '' ('' @
           bt_TaskName t' @ ''): '') e1 ''''" by blast
    then have "run_state (execute_tasks rt injector i (t # pre)) s = (Ok (), s2)"
      using t Ok by (simp add: check_def try_or_def)
    with * show ?thesis by (intro exI [of _ "t # pre"] exI [of _ t'] exI [of _ post]) auto
  next
    case (Err e1)
    then show ?thesis
      using Cons.prems t
      by (intro exI [of _ "[]"] exI [of _ t] exI [of _ ts]) (auto simp: check_def try_or_def raise_def ret_def)
  next
    case Panic
    then show ?thesis using Cons.prems t by (simp add: check_def try_or_def)
  qed
qed

text \<open>C33: The engine stops at the first task that fails: its error names the number and the name of that
  task, all tasks before it succeeded in order, and the state is the one the failing task left.\<close>

theorem engine_first_failure:
  assumes "run_state (Engine_Execute rt (NewEngine ts (Some i))) s = (Err e, s')"
  shows "\<exists>pre t post e1 s1. ts = pre @ t # post \<and>
     run_state (Engine_Execute rt (NewEngine pre (Some i))) s = (Ok (), s1) \<and>
     run_state (ExecuteTask rt (Some i) (InjectDependencies i t)) s1 = (Err e1, s') \<and>
     e = Wrapped (''workflow execution failed at task '' @ show_nat (Suc (length pre)) @ '' ('' @ bt_TaskName t @ ''): '')
       e1 ''''"
proof -
  have "run_state (execute_tasks rt (Some i) 1 (map (InjectDependencies i) ts)) s = (Err e, s')"
    using assms by (simp add: Engine_Execute_def NewEngine_def)
  from execute_tasks_first_failure [OF this] obtain pre t post e1 s1 where
    *: "map (InjectDependencies i) ts = pre @ t # post" "run_state (execute_tasks rt (Some i) 1 pre) s = (Ok (), s1)"
      "run_state (ExecuteTask rt (Some i) t) s1 = (Err e1, s')"
      "e = Wrapped (''workflow execution failed at task '' @ show_nat (1 + length pre) @ '' ('' @ bt_TaskName t @ ''): '')
       e1 ''''" by blast
  from *(1) obtain pre' t' post' where "ts = pre' @ t' # post'" "pre = map (InjectDependencies i) pre'"
      "t = InjectDependencies i t'"
    by (auto simp: map_eq_append_conv)
  with * show ?thesis
    by (intro exI [of _ pre'] exI [of _ t'] exI [of _ post'] exI [of _ e1] exI [of _ s1])
       (simp add: Engine_Execute_def NewEngine_def)
qed

lemma refused_run: "\<exists>e s'. demo_run ''UPTIME'' False [] = (Err e, s')"
proof -
  have v: "validation_error (demo_group []) ''west'' False \<noteq> None"
    by (simp add: validation_error_def demo_group_def Let_def)
  then obtain msg where "validation_error (demo_group []) ''west'' False = Some msg" by blast
  then show ?thesis
    using world.engine_refused [of createUptimeTasks
      "((world_demo (demo_failover ''UPTIME'' False), empty_cache), demo_context ''UPTIME'' False [])" msg False "''west''"]
    unfolding world.injector_def demo_run_def
    by (auto simp: workflow_tasks_def wp_def split: prod.splits)
qed

theorem engine_first_failure_witness:
  "\<exists>e s' pre t post. demo_run ''UPTIME'' False [] = (Err e, s') \<and> createUptimeTasks = pre @ (t :: world base_task) # post \<and>
     prefix (''workflow execution failed at task '' @ show_nat (Suc (length pre)) @ '' ('' @ bt_TaskName t) (err_msg e)"
proof -
  obtain e s' where run: "demo_run ''UPTIME'' False [] = (Err e, s')" using refused_run by blast
  from engine_first_failure [OF run [unfolded demo_run_def]] obtain pre t post e1 where
    "createUptimeTasks = pre @ (t :: world base_task) # post" "e = Wrapped (''workflow execution failed at task '' @ show_nat (Suc (length pre)) @
       '' ('' @ bt_TaskName t @ ''): '') e1 ''''" by blast
  with run show ?thesis by (intro exI [of _ e] exI [of _ s'] exI [of _ pre] exI [of _ t] exI [of _ post]) simp
qed

section \<open>The factory and the adapter\<close>

text \<open>The side of the failover a task is on.\<close>

definition source_side :: "task_type \<Rightarrow> bool" where
  "source_side ty \<longleftrightarrow> ty \<in> {UpdateNetworkResourcesTask ''disable'', ScaleDownWorkloadsTask, DisableFluxReconciliationTask,
     WaitForWorkloadsScaledDownTask, DemoteVolumesTask, WaitForVolumesDemotedTask, MarkVolumesReadyForPromotionTask,
     WaitForTrafficTransitionCompleteTask}"

definition target_side :: "task_type \<Rightarrow> bool" where
  "target_side ty \<longleftrightarrow> ty \<in> {UpdateNetworkResourcesTask ''enable'', UpdateNetworkResourcesTask ''transition'',
     WaitForVolumesReadyForPromotionTask, PromoteVolumesTask, WaitForVolumesPromotedTask, VerifyDataAvailabilityTask,
     ScaleUpWorkloadsTask, TriggerFluxReconciliationTask, WaitForTargetReadyTask, MarkTargetReadyForTrafficTask,
     WaitForTargetReadyForTrafficTask, MarkTrafficTransitionCompleteTask}"

definition runs_here :: "workflow_context \<Rightarrow> 'w base_task \<Rightarrow> bool" where
  "runs_here c t \<longleftrightarrow> (source_side (bt_Type t) \<longrightarrow> wc_IsSourceCluster c) \<and> (target_side (bt_Type t) \<longrightarrow> wc_IsTargetCluster c)"

text \<open>The factory enables the network where the adapter makes a transition.\<close>

definition as_enable :: "'w base_task \<Rightarrow> 'w base_task" where
  "as_enable t = (if bt_Type t = UpdateNetworkResourcesTask ''transition'' then NewUpdateNetworkResourcesTask ''enable'' else t)"

text \<open>The factory's workflows are the adapter's task lists restricted to the side of the failover that
  the cluster is on, in the same order (in UPTIME mode up to the action of one network task): the
  adapter itself runs the tasks of both sides on every cluster.\<close>

theorem factory_tasks:
  "concat (map sg_Tasks (wf_Stages (createConsistencyModeWorkflow c))) = filter (runs_here c) createConsistencyTasks \<and>
   concat (map sg_Tasks (wf_Stages (createUptimeModeWorkflow c))) = filter (runs_here c) (map as_enable createUptimeTasks)"
  by (cases "wc_IsSourceCluster c"; cases "wc_IsTargetCluster c";
      simp add: createConsistencyModeWorkflow_def createUptimeModeWorkflow_def init_stage_def completion_stage_def
        source_shutdown_stages_def target_activation_stages_def target_preparation_stages_def
        source_deactivation_stage_def createConsistencyTasks_def createUptimeTasks_def runs_here_def
        source_side_def target_side_def as_enable_def)

section \<open>The wait for the volumes\<close>

lemma wp_mark_volumes:
  "wp (mark_volumes_ready rt) (\<lambda>_ s'. map_of (wc_Results (snd s')) ''VolumesReadyForPromotion'' = Some (ResultBool True)) s"
  by (cases s, case_tac a) (simp add: mark_volumes_ready_def wp_simps wp_any)

lemma wp_poll:
  "flags_ok (snd s) \<Longrightarrow> i + n = 10 \<Longrightarrow> i \<le> 3 \<Longrightarrow> wp (poll_volumes_ready rt i n) (\<lambda>r s'. r = Ok () \<and>
     map_of (wc_Results (snd s')) ''VolumesReadyForPromotion'' = Some (ResultBool True)) s"
    (is "_ \<Longrightarrow> _ \<Longrightarrow> _ \<Longrightarrow> wp _ ?Q s")
proof (induction n arbitrary: i s)
  case (Suc n)
  let ?again = "if 3 \<le> i then State_Monad.bind (mark_volumes_ready rt) (\<lambda>_. ret ())
      else State_Monad.bind (sleep rt second) (\<lambda>_. poll_volumes_ready rt (Suc i) n)"
  obtain p c where s: "s = (p, c)" by (cases s)
  have again: "wp ?again ?Q s"
  proof (cases "3 \<le> i")
    case True
    show ?thesis
      unfolding if_P [OF True] wp_bind by (rule wp_mono [OF wp_mark_volumes]) (simp add: wp_ret)
  next
    case False
    show ?thesis
      unfolding if_not_P [OF False] wp_bind
      by (rule wp_mono [OF wp_flags [OF keeps_plan_delay(3) Suc.prems(1)]], rule Suc.IH) (use Suc.prems False in auto)
  qed
  show ?case
  proof (cases "map_of (wc_Results c) ''VolumesReadyForPromotion''")
    case None
    then show ?thesis
      using again by (simp add: s wp_bind wp_get_ctx Let_def)
  next
    case (Some v)
    then have "is_ResultBool v" using Suc.prems(1) by (simp add: s flags_ok_def flag_def)
    then show ?thesis
      using again Some by (cases v) (auto simp: s wp_bind wp_get_ctx Let_def wp_ret)
  qed
qed simp

text \<open>The wait for the volumes always succeeds, and leaves them marked as ready, whatever the source
  cluster did: when nothing has marked them after three rounds the task marks them itself. (The time-out
  it also has is never reached.)\<close>

theorem volumes_wait_succeeds:
  assumes "flags_ok c"
    and "run_state (WaitForVolumesReadyForPromotionTask_Execute rt) (p, c) = (r, (p', c'))"
  shows "r = Ok () \<and> map_of (wc_Results c') ''VolumesReadyForPromotion'' = Some (ResultBool True)"
  using wpD [OF assms(2) [unfolded WaitForVolumesReadyForPromotionTask_Execute_def] wp_poll] assms(1) by simp

theorem volumes_wait_succeeds_witness:
  "fst (run_state (WaitForVolumesReadyForPromotionTask_Execute mem_runtime)
     ((mem_empty, empty_cache), demo_context ''CONSISTENCY'' False [])) = Ok ()"
proof -
  obtain r p c where run: "run_state (WaitForVolumesReadyForPromotionTask_Execute mem_runtime)
      ((mem_empty, empty_cache), demo_context ''CONSISTENCY'' False []) = (r, (p, c))"
    by (cases "run_state (WaitForVolumesReadyForPromotionTask_Execute mem_runtime)
      ((mem_empty, empty_cache), demo_context ''CONSISTENCY'' False [])") auto
  show ?thesis using volumes_wait_succeeds [OF demo_flags run] run by simp
qed

end
