(* ===== verification/Failover_Controller.thy ===== *)
theory Failover_Controller
  imports Workflow_Engine
begin

text \<open>
  internal/controller/failover/failover_controller.go: the reconciler of Failover objects. The object
  that Reconcile fetches and changes is part of the state. Logging is left out; the loop over the
  groups, the retry loop and the deletion are definitions of their own.
\<close>

section \<open>Actions on an object at hand\<close>

type_synonym ('w, 'o, 'a) object_action = "(('w \<times> service_cache) \<times> 'o, 'a) state"

definition on_service :: "('w, 'a) service_action \<Rightarrow> ('w, 'o, 'a) object_action" where
  "on_service x = State (\<lambda>(p, f). case run_state x p of (r, p') \<Rightarrow> (r, (p', f)))"

definition on_world :: "('w, 'a) state \<Rightarrow> ('w, 'o, 'a) object_action" where
  "on_world x = on_service (uncached x)"

definition get_object :: "('w, 'o, 'o) object_action" where
  "get_object = State (\<lambda>(p, f). (f, (p, f)))"

definition modify_object :: "('o \<Rightarrow> 'o) \<Rightarrow> ('w, 'o, unit) object_action" where
  "modify_object h = State (\<lambda>(p, f). ((), (p, h f)))"

text \<open>A write of the object: what the server answers is decoded into it.\<close>

definition store_object :: "('o \<Rightarrow> ('w, 'o outcome) state) \<Rightarrow> ('w, 'o, unit outcome) object_action" where
  "store_object write = do {
     f \<leftarrow> get_object;
     check (on_world (write f)) (\<lambda>e. e) (\<lambda>g. do { modify_object (\<lambda>_. g); ret () })
   }"

definition edit_status :: "(failover_status \<Rightarrow> failover_status) \<Rightarrow> ('w, failover, unit) object_action" where
  "edit_status h = modify_object (on_status h)"

text \<open>\<open>failover.Status.FailoverGroups[i]\<close>: out of range is a panic.\<close>

definition group_at :: "nat \<Rightarrow> ('w, failover, failover_group_reference outcome) object_action" where
  "group_at i = do {
     f \<leftarrow> get_object;
     if i < length (ft_FailoverGroups (fo_Status f)) then ret (ft_FailoverGroups (fo_Status f) ! i)
     else State_Monad.return Panic
   }"

definition edit_group ::
    "nat \<Rightarrow> (failover_group_reference \<Rightarrow> failover_group_reference) \<Rightarrow> ('w, failover, unit outcome) object_action" where
  "edit_group i h = check (group_at i) (\<lambda>e. e) (\<lambda>g. do {
     edit_status (\<lambda>s. s\<lparr> ft_FailoverGroups := (ft_FailoverGroups s)[i := h g] \<rparr>);
     ret ()
   })"

definition pending_groups :: "failover_group_reference list \<Rightarrow> failover_group_reference list" where
  "pending_groups gs = map (\<lambda>g. \<lparr> fg_Name = fg_Name g, fg_Namespace = fg_Namespace g, fg_Status = ''PENDING'',
     fg_StartTime = '''', fg_CompletionTime = '''', fg_Message = '''' \<rparr>) gs"

definition group_ref_key :: "failover \<Rightarrow> failover_group_reference \<Rightarrow> object_key" where
  "group_ref_key f g = (if fg_Namespace g = '''' then fo_Namespace f else fg_Namespace g, fg_Name g)"

section \<open>The checker for failover requests\<close>

text \<open>
  internal/controller/failover/auto_failover_checker.go. A tick of the loop does nothing so far; the
  loop is as many of its ticks as there are before it is stopped. A ticker whose interval is not
  positive panics.
\<close>

record 'w failover_checker =
  ac_client :: "'w kube_client"
  ac_clusterName :: string
  ac_dynamoDB :: "'w dynamo_service option"

definition NewAutoFailoverChecker ::
    "'w kube_client \<Rightarrow> string \<Rightarrow> 'w dynamo_service option \<Rightarrow> 'w failover_checker" where
  "NewAutoFailoverChecker kc clusterName s = \<lparr> ac_client = kc, ac_clusterName = clusterName, ac_dynamoDB = s \<rparr>"

definition checkForFailoverRequests :: "'w failover_checker \<Rightarrow> ('w, unit) state" where
  "checkForFailoverRequests c = State_Monad.return ()"

fun StartChecker :: "'w go_runtime \<Rightarrow> 'w failover_checker \<Rightarrow> int \<Rightarrow> nat \<Rightarrow> ('w, unit outcome) state" where
  "StartChecker rt c intervalSeconds 0 = (if intervalSeconds \<le> 0 then State_Monad.return Panic else ret ())"
| "StartChecker rt c intervalSeconds (Suc ticks) =
     (if intervalSeconds \<le> 0 then State_Monad.return Panic
      else do {
        stopped \<leftarrow> timer_wait rt (intervalSeconds * second);
        (case stopped of
           Some _ \<Rightarrow> ret ()
         | None \<Rightarrow> do {
             _ \<leftarrow> checkForFailoverRequests c;
             StartChecker rt c intervalSeconds ticks
           })
      })"

section \<open>The reconciler\<close>

definition finalizerName :: string where
  "finalizerName = ''failover.failover-operator.io/finalizer''"

record 'w failover_reconciler =
  rc_Client :: "'w kube_client"
  rc_ClusterName :: string
  rc_DynamoDBManager :: "'w dynamo_service option"
  rc_WorkflowAdapter :: "'w manager_adapter option"
  rc_AutoFailoverCheck :: "'w failover_checker option"

text \<open>What SetupWithManager does to the reconciler before it is registered, and the loop it starts.\<close>

definition setup_reconciler :: "'w failover_reconciler \<Rightarrow> 'w failover_reconciler" where
  "setup_reconciler rc =
     (case rc_DynamoDBManager rc of
        None \<Rightarrow> rc
      | Some s \<Rightarrow> rc\<lparr>
          rc_WorkflowAdapter := (case rc_WorkflowAdapter rc of Some a \<Rightarrow> Some a
            | None \<Rightarrow> Some (NewManagerAdapter (rc_Client rc) (rc_ClusterName rc) (Some s))),
          rc_AutoFailoverCheck := (case rc_AutoFailoverCheck rc of Some c \<Rightarrow> Some c
            | None \<Rightarrow> Some (NewAutoFailoverChecker (rc_Client rc) (rc_ClusterName rc) (Some s))) \<rparr>)"

definition start_checker :: "'w go_runtime \<Rightarrow> 'w failover_reconciler \<Rightarrow> nat \<Rightarrow> ('w, unit outcome) state" where
  "start_checker rt rc ticks =
     (case rc_AutoFailoverCheck (setup_reconciler rc) of None \<Rightarrow> ret () | Some c \<Rightarrow> StartChecker rt c 30 ticks)"

record reconcile_result =
  rq_Requeue :: bool
  rq_RequeueAfter :: int

definition no_requeue :: reconcile_result where
  "no_requeue = \<lparr> rq_Requeue = False, rq_RequeueAfter = 0 \<rparr>"

definition ContainsFinalizer :: "object_meta \<Rightarrow> string \<Rightarrow> bool" where
  "ContainsFinalizer o_meta fin \<longleftrightarrow> fin \<in> set (om_Finalizers o_meta)"

definition AddFinalizer :: "string \<Rightarrow> object_meta \<Rightarrow> object_meta" where
  "AddFinalizer fin o_meta = (if ContainsFinalizer o_meta fin then o_meta
     else o_meta\<lparr> om_Finalizers := om_Finalizers o_meta @ [fin] \<rparr>)"

definition RemoveFinalizer :: "string \<Rightarrow> object_meta \<Rightarrow> object_meta" where
  "RemoveFinalizer fin o_meta = o_meta\<lparr> om_Finalizers := filter (\<lambda>f. f \<noteq> fin) (om_Finalizers o_meta) \<rparr>"

definition edit_meta :: "(object_meta \<Rightarrow> object_meta) \<Rightarrow> failover \<Rightarrow> failover" where
  "edit_meta h f = f\<lparr> fo_Meta := h (fo_Meta f) \<rparr>"

subsection \<open>The status with retries\<close>

text \<open>The attempts from number \<open>i\<close> on; a wait that the context cancels first answers its error.\<close>

fun update_status_from ::
    "'w go_runtime \<Rightarrow> 'w kube_client \<Rightarrow> int \<Rightarrow> nat \<Rightarrow> ('w, failover, unit outcome) object_action" where
  "update_status_from rt kc backoffDelay 0 = raise (ErrorString ''failed to update failover status after 3 retries'')"
| "update_status_from rt kc backoffDelay (Suc n) =
     try_or (store_object (StatusUpdateFailover kc))
       (\<lambda>e. if contains (err_msg e) ''rate limiter''
             then do {
               c \<leftarrow> on_world (timer_wait rt backoffDelay);
               (case c of
                  Some err \<Rightarrow> raise (wrapf ''context cancelled while retrying status update'' err)
                | None \<Rightarrow> update_status_from rt kc (backoffDelay * 2) n)
             }
             else raise e)
       ret"

definition UpdateFailoverStatus :: "'w go_runtime \<Rightarrow> 'w kube_client \<Rightarrow> ('w, failover, unit outcome) object_action" where
  "UpdateFailoverStatus rt kc = update_status_from rt kc (second div 2) 3"

subsection \<open>Deletion\<close>

text \<open>One group: the lock is released with whatever the arguments name; the result is dropped.\<close>

definition release_group_lock ::
    "'w failover_reconciler \<Rightarrow> 'w dynamo_service \<Rightarrow> failover_group_reference \<Rightarrow> ('w, failover, unit outcome) object_action" where
  "release_group_lock rc s groupRef = do {
     f \<leftarrow> get_object;
     let key = group_ref_key f groupRef;
     r \<leftarrow> on_world (GetFailoverGroup (rc_Client rc) key);
     (case r of
        Panic \<Rightarrow> State_Monad.return Panic
      | _ \<Rightarrow>
          let operatorID = (case r of Ok g \<Rightarrow> if sp_OperatorID (gr_Spec g) \<noteq> '''' then sp_OperatorID (gr_Spec g)
                              else ''failover-operator'' | _ \<Rightarrow> ''failover-operator'')
          in ignore_err (on_service (svc_ReleaseLock s operatorID (fst key) (fg_Name groupRef))))
   }"

fun release_group_locks ::
    "'w failover_reconciler \<Rightarrow> 'w dynamo_service \<Rightarrow> failover_group_reference list \<Rightarrow> ('w, failover, unit outcome) object_action" where
  "release_group_locks rc s [] = ret ()"
| "release_group_locks rc s (g # gs) = check (release_group_lock rc s g) (\<lambda>e. e) (\<lambda>_. release_group_locks rc s gs)"

definition handleDeletion :: "'w failover_reconciler \<Rightarrow> ('w, failover, reconcile_result outcome) object_action" where
  "handleDeletion rc = do {
     f \<leftarrow> get_object;
     if ContainsFinalizer (fo_Meta f) finalizerName
     then check (case rc_DynamoDBManager rc of None \<Rightarrow> ret ()
                 | Some s \<Rightarrow> release_group_locks rc s (fs_FailoverGroups (fo_Spec f))) (\<lambda>e. e)
       (\<lambda>_. do {
          modify_object (edit_meta (RemoveFinalizer finalizerName));
          check (store_object (UpdateFailoverObject (rc_Client rc))) (\<lambda>e. e) (\<lambda>_. ret no_requeue)
        })
     else ret no_requeue
   }"

subsection \<open>Reconcile\<close>

text \<open>The adapter works on the object at hand; a call of one that is nil panics.\<close>

definition run_adapter ::
    "'w go_runtime \<Rightarrow> 'w manager_adapter option \<Rightarrow> failover_group \<Rightarrow> ('w, failover, unit outcome) object_action" where
  "run_adapter rt a g =
     (case a of
        None \<Rightarrow> State_Monad.return Panic
      | Some a \<Rightarrow> State (\<lambda>(p, f). case run_state (ProcessFailover rt a f g) p of ((r, f'), p') \<Rightarrow> (r, (p', f'))))"

definition other_operator :: "'w dynamo_service option \<Rightarrow> failover_group \<Rightarrow> bool" where
  "other_operator s g \<longleftrightarrow> sp_OperatorID (gr_Spec g) \<noteq> '''' \<and>
     (case s of None \<Rightarrow> False | Some s \<Rightarrow> sp_OperatorID (gr_Spec g) \<noteq> bm_operatorID (sv_base s))"

text \<open>One group of the loop. (The text of a failed Get is used as a format, which matters only if
  it has percent signs.)\<close>

definition process_group ::
    "'w go_runtime \<Rightarrow> 'w failover_reconciler \<Rightarrow> nat \<Rightarrow> failover_group_reference \<Rightarrow> ('w, failover, unit outcome) object_action" where
  "process_group rt rc i groupRef = do {
     f \<leftarrow> get_object;
     let kc = rc_Client rc;
     let key = group_ref_key f groupRef;
     try_or (on_world (GetFailoverGroup kc key))
       (\<lambda>e.
          let errorMsg = ''Failed to get FailoverGroup '' @ fg_Name groupRef @ '' in namespace '' @ fst key @ '': '' @ err_msg e in
          check (edit_group i (\<lambda>g. g\<lparr> fg_Status := ''FAILED'', fg_Message := errorMsg \<rparr>)) (\<lambda>e. e)
          (\<lambda>_. do {
            edit_status (\<lambda>s. s\<lparr> ft_Status := ''FAILED'',
              ft_Message := ''Required FailoverGroup not found: '' @ fst key @ ''/'' @ fg_Name groupRef \<rparr>);
            check (ignore_err (store_object (StatusUpdateFailover kc))) (\<lambda>e. e) (\<lambda>_. raise (ErrorString errorMsg))
          }))
       (\<lambda>failoverGroup.
          if other_operator (rc_DynamoDBManager rc) failoverGroup then ret ()
          else check (group_at i) (\<lambda>e. e) (\<lambda>g.
            if fg_Status g = ''SUCCESS'' \<or> fg_Status g = ''FAILED'' then ret ()
            else check (edit_group i (\<lambda>g. g\<lparr> fg_Status := ''IN_PROGRESS'' \<rparr>)) (\<lambda>e. e) (\<lambda>_. do {
              edit_status (\<lambda>s. s\<lparr> ft_State := ''PROCESSING_GROUP'' \<rparr>);
              check (UpdateFailoverStatus rt kc) (\<lambda>e. e) (\<lambda>_.
                try_or (run_adapter rt (rc_WorkflowAdapter rc) failoverGroup)
                  (\<lambda>err. check (edit_group i (\<lambda>g. g\<lparr> fg_Status := ''FAILED'', fg_Message := ''Failover failed: '' @ err_msg err \<rparr>)) (\<lambda>e. e)
                    (\<lambda>_. do {
                      edit_status (\<lambda>s. s\<lparr> ft_State := ''GROUP_FAILURE'' \<rparr>);
                      check (ignore_err (UpdateFailoverStatus rt kc)) (\<lambda>e. e) (\<lambda>_. raise err)
                    }))
                  (\<lambda>_. check (edit_group i (\<lambda>g. g\<lparr> fg_Status := ''SUCCESS'' \<rparr>)) (\<lambda>e. e)
                    (\<lambda>_. do {
                      edit_status (\<lambda>s. s\<lparr> ft_State := ''GROUP_SUCCESS'' \<rparr>);
                      UpdateFailoverStatus rt kc
                    })))
            })))
   }"

fun process_groups ::
    "'w go_runtime \<Rightarrow> 'w failover_reconciler \<Rightarrow> nat \<Rightarrow> failover_group_reference list \<Rightarrow> ('w, failover, unit outcome) object_action" where
  "process_groups rt rc i [] = ret ()"
| "process_groups rt rc i (g # gs) = check (process_group rt rc i g) (\<lambda>e. e) (\<lambda>_. process_groups rt rc (Suc i) gs)"

text \<open>Reconcile from the fetched object on.\<close>

definition reconcile_failover ::
    "'w go_runtime \<Rightarrow> 'w failover_reconciler \<Rightarrow> ('w, failover, reconcile_result outcome) object_action" where
  "reconcile_failover rt rc = do {
     f \<leftarrow> get_object;
     let kc = rc_Client rc;
     if om_DeletionTimestamp (fo_Meta f) \<noteq> None then handleDeletion rc
     else if \<not> ContainsFinalizer (fo_Meta f) finalizerName then do {
       modify_object (edit_meta (AddFinalizer finalizerName));
       check (store_object (UpdateFailoverObject kc)) (\<lambda>e. e) (\<lambda>_. ret (no_requeue\<lparr> rq_Requeue := True \<rparr>))
     }
     else if ft_Status (fo_Status f) = ''SUCCESS'' \<or> ft_Status (fo_Status f) = ''FAILED'' then ret no_requeue
     else
       check (if ft_Status (fo_Status f) \<noteq> ''IN_PROGRESS''
              then do {
                edit_status (\<lambda>s. s\<lparr> ft_Status := ''IN_PROGRESS'', ft_State := ''IN_PROGRESS'' \<rparr>);
                UpdateFailoverStatus rt kc
              }
              else ret ()) (\<lambda>e. e)
       (\<lambda>_. do {
         f \<leftarrow> get_object;
         check (if ft_FailoverGroups (fo_Status f) = []
                then do {
                  edit_status (\<lambda>s. s\<lparr> ft_FailoverGroups := pending_groups (fs_FailoverGroups (fo_Spec f)) \<rparr>);
                  store_object (StatusUpdateFailover kc)
                }
                else ret ()) (\<lambda>e. e)
         (\<lambda>_. do {
           f \<leftarrow> get_object;
           check (process_groups rt rc 0 (fs_FailoverGroups (fo_Spec f))) (\<lambda>e. e)
           (\<lambda>_. do {
             f \<leftarrow> get_object;
             if list_all (\<lambda>g. fg_Status g = ''SUCCESS'') (ft_FailoverGroups (fo_Status f))
             then do {
               edit_status (\<lambda>s. s\<lparr> ft_Status := ''SUCCESS'', ft_State := ''OVERALL_SUCCESS'',
                 ft_Message := ''All failover groups were processed successfully'' \<rparr>);
               check (UpdateFailoverStatus rt kc) (\<lambda>e. e) (\<lambda>_. ret no_requeue)
             }
             else ret no_requeue
           })
         })
       })
   }"

definition Reconcile ::
    "'w go_runtime \<Rightarrow> 'w failover_reconciler \<Rightarrow> object_key \<Rightarrow> ('w, reconcile_result outcome) service_action" where
  "Reconcile rt rc key =
     try_or (uncached (GetFailover (rc_Client rc) key))
       (\<lambda>e. if is_not_found e then ret no_requeue else raise e)
       (\<lambda>f. State (\<lambda>p. case run_state (reconcile_failover rt rc) (p, f) of (r, (p', f')) \<Rightarrow> (r, p')))"

end
