(* ===== verification/Failover_Status.thy ===== *)
theory Failover_Status
  imports Workflow_Status Failover_Controller
begin

text \<open>
  The reconciler and the status of its object: a Failover that is being processed stays so, and is
  processed again by every reconciliation.
\<close>

section \<open>Weakest preconditions\<close>

lemma wp_on_world [wp_simps]: "wp (on_world x) Q ((w, ca), f) = wp x (\<lambda>r w'. Q r ((w', ca), f)) w"
  by (simp add: wp_def on_world_def on_service_def uncached_def split: prod.splits)

lemma wp_get_object [wp_simps]: "wp get_object Q (p, f) = Q f (p, f)"
  by (simp add: wp_def get_object_def)

lemma wp_modify_object [wp_simps]: "wp (modify_object h) Q (p, f) = Q () (p, h f)"
  by (simp add: wp_def modify_object_def)

lemma wp_edit_status [wp_simps]: "wp (edit_status h) Q (p, f) = Q () (p, on_status h f)"
  by (simp add: edit_status_def wp_modify_object)

lemma wp_group_at:
  "wp (group_at i) Q (p, f) = (if i < length (ft_FailoverGroups (fo_Status f))
     then Q (Ok (ft_FailoverGroups (fo_Status f) ! i)) (p, f) else Q Panic (p, f))"
  by (simp add: group_at_def wp_bind wp_get_object wp_ret wp_return)

lemma wp_edit_group:
  "wp (edit_group i h) Q (p, f) = (if i < length (ft_FailoverGroups (fo_Status f))
     then Q (Ok ()) (p, on_status (\<lambda>s. s\<lparr> ft_FailoverGroups :=
       (ft_FailoverGroups s)[i := h (ft_FailoverGroups (fo_Status f) ! i)] \<rparr>) f)
     else Q Panic (p, f))"
  by (simp add: edit_group_def wp_check wp_group_at wp_bind wp_edit_status wp_ret)

lemma wp_run_adapter:
  "wp (run_adapter rt (Some a) g) Q (p, f) = wp (ProcessFailover rt a f g) (\<lambda>(r, f') p'. Q r (p', f')) p"
  by (simp add: wp_def run_adapter_def split: prod.splits)

lemma on_status_revised [simp]: "on_status h (revised g st v) = revised g (h st) v"
  by (simp add: on_status_def revised_def)

section \<open>What the reconciler finds\<close>

text \<open>A group that is there, and of this operator.\<close>

definition served ::
    "'w kube_client \<Rightarrow> ('w \<Rightarrow> object_key \<Rightarrow> failover option) \<Rightarrow> 'w dynamo_service option \<Rightarrow> object_key \<Rightarrow> failover_group \<Rightarrow> bool" where
  "served kc fos s key grp \<longleftrightarrow> \<not> other_operator s grp \<and>
     (\<forall>w r w'. run_state (GetFailoverGroup kc key) w = (r, w') \<longrightarrow> r = Ok grp \<and> fos w' = fos w)"

text \<open>A Failover that is to be processed, from its first group on.\<close>

definition open_status :: "string \<Rightarrow> bool" where
  "open_status s \<longleftrightarrow> s \<noteq> ''SUCCESS'' \<and> s \<noteq> ''FAILED''"

definition unfinished :: "failover \<Rightarrow> bool" where
  "unfinished f \<longleftrightarrow> om_DeletionTimestamp (fo_Meta f) = None \<and> ContainsFinalizer (fo_Meta f) finalizerName \<and>
     open_status (ft_Status (fo_Status f)) \<and> fs_FailoverGroups (fo_Spec f) \<noteq> [] \<and>
     (case ft_FailoverGroups (fo_Status f) of [] \<Rightarrow> True | g # gs \<Rightarrow> open_status (fg_Status g))"

text \<open>In the middle of it, as the workflow leaves it.\<close>

definition validating_still :: "failover \<Rightarrow> failover \<Rightarrow> bool" where
  "validating_still f g \<longleftrightarrow> unfinished g \<and> fo_Spec g = fo_Spec f \<and> failover_key g = failover_key f \<and>
     ft_Status (fo_Status g) = ''IN_PROGRESS'' \<and> ft_State (fo_Status g) = ''VALIDATING''"

section \<open>Writes of the object at hand\<close>

context kube_workflow
begin

text \<open>The object at hand is the stored one with another status: the write is accepted.\<close>

definition at_hand :: "object_key \<Rightarrow> failover \<Rightarrow> failover_status \<Rightarrow> (('w \<times> service_cache) \<times> failover) \<Rightarrow> bool" where
  "at_hand k g st s \<longleftrightarrow> failover_key g = k \<and>
     (\<exists>st0 v. fos (fst (fst s)) k = Some (revised g st0 v) \<and> snd s = revised g st v)"

text \<open>After it they are the same.\<close>

definition saved :: "object_key \<Rightarrow> failover \<Rightarrow> failover_status \<Rightarrow> (('w \<times> service_cache) \<times> failover) \<Rightarrow> bool" where
  "saved k g st s \<longleftrightarrow> failover_key g = k \<and> (\<exists>v. fos (fst (fst s)) k = Some (revised g st v) \<and> snd s = revised g st v)"

lemma saved_edit: "saved k g st (p, f) \<Longrightarrow> at_hand k g (h st) (p, on_status h f)"
  unfolding saved_def at_hand_def by (metis snd_conv on_status_revised fst_conv)

lemma at_hand_edit: "at_hand k g st (p, f) \<Longrightarrow> at_hand k g (h st) (p, on_status h f)"
  unfolding at_hand_def by (metis snd_conv on_status_revised fst_conv)

lemma wp_store_current:
  assumes "at_hand k g st s"
  shows "wp (store_object (StatusUpdateFailover kc)) (\<lambda>r s'. r = Ok () \<and> saved k g st s') s"
proof -
  obtain w ca f where s: "s = ((w, ca), f)" by (cases s) auto
  obtain st0 v where k: "failover_key g = k" "fos w k = Some (revised g st0 v)" "f = revised g st v"
    using assms by (auto simp: at_hand_def s)
  have "wp (StatusUpdateFailover kc f) (\<lambda>r w'. \<exists>v'. r = Ok (revised g st v') \<and> fos w' k = Some (revised g st v')) w"
  proof (rule wpI)
    fix r w'
    assume run: "run_state (StatusUpdateFailover kc f) w = (r, w')"
    have old: "fos w (failover_key f) = Some (revised g st0 v)"
      "om_ResourceVersion (fo_Meta f) = om_ResourceVersion (fo_Meta (revised g st0 v))" using k by simp_all
    have "is_ok r" by (rule status_answered [OF run old])
    then obtain g' where g': "r = Ok g'" "status_written f (revised g st0 v) g'" "fos w' (failover_key f) = Some g'"
      using status_update_law [OF run] old by (auto simp: is_ok_iff)
    then show "\<exists>v'. r = Ok (revised g st v') \<and> fos w' k = Some (revised g st v')"
      using status_written_revised [OF g'(2)] k by auto
  qed
  then show ?thesis
    unfolding s store_object_def wp_bind wp_get_object wp_check wp_on_world
    by (rule wp_mono) (use k in \<open>auto simp: wp_bind wp_modify_object wp_ret saved_def\<close>)
qed

lemma wp_UpdateFailoverStatus_current:
  "at_hand k g st s \<Longrightarrow> wp (UpdateFailoverStatus rt kc) (\<lambda>r s'. r = Ok () \<and> saved k g st s') s"
  unfolding UpdateFailoverStatus_def numeral_3_eq_3 update_status_from.simps wp_try_or
  by (rule wp_mono [OF wp_store_current]) (auto simp: wp_ret)

text \<open>The object at hand is of another version than the stored one: every write is refused.\<close>

definition behind :: "object_key \<Rightarrow> failover \<Rightarrow> (('w \<times> service_cache) \<times> failover) \<Rightarrow> bool" where
  "behind k h s \<longleftrightarrow> fos (fst (fst s)) k = Some h \<and> failover_key (snd s) = k \<and>
     om_ResourceVersion (fo_Meta (snd s)) \<noteq> om_ResourceVersion (fo_Meta h)"

lemma behind_edit: "behind k h (p, f) \<Longrightarrow> behind k h (p, on_status e f)"
  by (simp add: behind_def failover_key_def)

lemma wp_store_behind:
  assumes "behind k h s"
  shows "wp (store_object (StatusUpdateFailover kc)) (\<lambda>r s'. is_err r \<and> behind k h s') s"
proof -
  obtain w ca f where s: "s = ((w, ca), f)" by (cases s) auto
  have "wp (StatusUpdateFailover kc f) (\<lambda>r w'. is_err r \<and> fos w' = fos w) w"
    by (rule wpI, drule status_update_law) (use assms in \<open>auto simp: status_written_def behind_def s\<close>)
  then show ?thesis
    unfolding s store_object_def wp_bind wp_get_object wp_check wp_on_world
    by (rule wp_mono) (use assms in \<open>auto simp: behind_def s split: outcome.split\<close>)
qed

lemma wp_update_behind:
  "behind k h s \<Longrightarrow> wp (update_status_from rt kc d n) (\<lambda>r s'. is_err r \<and> behind k h s') s"
proof (induction n arbitrary: d s)
  case 0
  then show ?case by (simp add: wp_raise)
next
  case (Suc n)
  have wait: "wp (on_world (timer_wait rt d) \<bind> (\<lambda>c. case c of
      None \<Rightarrow> update_status_from rt kc (d * 2) n
    | Some err \<Rightarrow> raise (wrapf ''context cancelled while retrying status update'' err)))
      (\<lambda>r s'. is_err r \<and> behind k h s') s'" if b: "behind k h s'" for s'
  proof -
    obtain w ca f where s': "s' = ((w, ca), f)" by (cases s') auto
    show ?thesis
      unfolding s' wp_bind wp_on_world
    proof (rule wp_mono [OF keeps_wp [OF runtime_keeps(3)]], goal_cases)
      case (1 c w')
      then have "behind k h ((w', ca), f)" using b by (simp add: s' behind_def)
      then show ?case by (cases c) (simp_all add: Suc.IH wp_raise)
    qed
  qed
  show ?case
    unfolding update_status_from.simps wp_try_or
  proof (rule wp_mono [OF wp_store_behind [OF Suc.prems]], goal_cases)
    case (1 r s')
    then show ?case by (cases r) (simp_all add: wp_if wp_raise wait)
  qed
qed

section \<open>Reconciling\<close>

lemma wp_get_group:
  "served kc fos s key grp \<Longrightarrow> wp (GetFailoverGroup kc key) (\<lambda>r w'. r = Ok grp \<and> fos w' = fos w) w"
  by (rule wpI) (auto simp: served_def)

lemma wp_group_failed:
  assumes "behind k h s"
  shows "wp (check (edit_group i u) (\<lambda>e. e) (\<lambda>_. do {
      edit_status v;
      check (ignore_err (UpdateFailoverStatus rt kc)) (\<lambda>e. e) (\<lambda>_. raise err)
    })) (\<lambda>r s'. \<not> is_ok r \<and> behind k h s') s"
proof -
  obtain w ca f where s: "s = ((w, ca), f)" by (cases s) auto
  have upd: "wp (check (ignore_err (UpdateFailoverStatus rt kc)) (\<lambda>e. e) (\<lambda>_. raise err))
      (\<lambda>r s'. \<not> is_ok r \<and> behind k h s') s1" if "behind k h s1" for s1 :: "(('w \<times> service_cache) \<times> failover)"
    unfolding wp_check wp_ignore_err UpdateFailoverStatus_def
    by (rule wp_mono [OF wp_update_behind [OF that]]) (auto simp: wp_raise is_err_iff)
  show ?thesis
    unfolding s wp_check wp_edit_group wp_bind wp_edit_status
    using assms unfolding s by (auto intro!: upd [unfolded wp_check] behind_edit)
qed

lemma wp_process_first:
  assumes "saved k g st s" "served kc fos (rc_DynamoDBManager rc) (group_ref_key g gref) grp"
    and rc: "rc_Client rc = kc" "rc_WorkflowAdapter rc = Some a" "ad_Client a = kc" "ad_DynamoDBManager a = sv"
    and first: "ft_FailoverGroups st = r0 # rs" "fg_Status r0 \<noteq> ''SUCCESS''" "fg_Status r0 \<noteq> ''FAILED''"
  shows "wp (process_group rt rc 0 gref) (\<lambda>r s'. \<not> is_ok r \<and>
      (\<exists>v. fos (fst (fst s')) k = Some (revised g (st\<lparr> ft_FailoverGroups := r0\<lparr> fg_Status := ''IN_PROGRESS'' \<rparr> # rs,
         ft_State := ''VALIDATING'' \<rparr>) v))) s"
    (is "wp _ ?Q s")
proof -
  obtain w ca f where s: "s = ((w, ca), f)" by (cases s) auto
  have k: "failover_key g = k" and f: "\<exists>v. f = revised g st v" using assms(1) by (auto simp: saved_def s)
  then have key: "group_ref_key f gref = group_ref_key g gref"
    by (auto simp: group_ref_key_def revised_def)
  let ?st = "st\<lparr> ft_FailoverGroups := r0\<lparr> fg_Status := ''IN_PROGRESS'' \<rparr> # rs, ft_State := ''PROCESSING_GROUP'' \<rparr>"
  show ?thesis
    unfolding process_group_def s wp_bind wp_get_object Let_def key rc wp_try_or wp_on_world
  proof (rule wp_mono [OF wp_get_group [OF assms(2)]], goal_cases)
    case (1 r w1)
    let ?f = "on_status (\<lambda>s. s\<lparr> ft_State := ''PROCESSING_GROUP'' \<rparr>) (on_status (\<lambda>s. s\<lparr> ft_FailoverGroups :=
      (ft_FailoverGroups s)[0 := r0\<lparr> fg_Status := ''IN_PROGRESS'' \<rparr>] \<rparr>) f)"
    have groups: "ft_FailoverGroups (fo_Status f) = r0 # rs" using f first(1) by (auto simp: revised_def)
    have other: "\<not> other_operator (rc_DynamoDBManager rc) grp" using assms(2) by (simp add: served_def)
    have "saved k g st ((w1, ca), f)" using 1 assms(1) by (simp add: saved_def s)
    then have hand: "at_hand k g ?st ((w1, ca), ?f)"
      using at_hand_edit [OF saved_edit, of k g st "(w1, ca)" f "\<lambda>s. s\<lparr> ft_State := ''PROCESSING_GROUP'' \<rparr>"
        "\<lambda>s. s\<lparr> ft_FailoverGroups := (ft_FailoverGroups s)[0 := r0\<lparr> fg_Status := ''IN_PROGRESS'' \<rparr>] \<rparr>"] first(1)
      by simp
    have run: "wp (try_or (run_adapter rt (Some a) grp)
                  (\<lambda>err. check (edit_group 0 (\<lambda>g. g\<lparr> fg_Status := ''FAILED'', fg_Message := ''Failover failed: '' @ err_msg err \<rparr>)) (\<lambda>e. e)
                    (\<lambda>_. do {
                      edit_status (\<lambda>s. s\<lparr> ft_State := ''GROUP_FAILURE'' \<rparr>);
                      check (ignore_err (UpdateFailoverStatus rt kc)) (\<lambda>e. e) (\<lambda>_. raise err)
                    })) ok) ?Q s2" if sv2: "saved k g ?st s2" for s2 ok
    proof -
      obtain w2 ca2 v2 where s2: "s2 = ((w2, ca2), revised g ?st v2)" "fos w2 k = Some (revised g ?st v2)"
        using sv2 unfolding saved_def by (cases s2) auto
      have pf: "wp (ProcessFailover rt a (revised g ?st v2) grp) (\<lambda>(r, f') (w', ca').
          \<not> is_ok r \<and> failover_key f' = k \<and> (\<exists>v. om_ResourceVersion (fo_Meta f') \<noteq> v \<and>
            fos w' k = Some (revised (revised g ?st v2) (?st\<lparr> ft_State := ''VALIDATING'' \<rparr>) v))) (w2, ca2)"
        using wp_ProcessFailover [of w2 "revised g ?st v2" "revised g ?st v2" a] s2 k rc(3,4) by simp
      show ?thesis
        unfolding s2(1) wp_try_or wp_run_adapter
      proof (rule wp_mono [OF pf], goal_cases)
        case (1 x p)
        obtain r f' w' ca' v where x: "x = (r, f')" "p = (w', ca')" "\<not> is_ok r"
          and b: "behind k (revised g (?st\<lparr> ft_State := ''VALIDATING'' \<rparr>) v) (p, f')"
          using 1 by (cases x; cases p) (auto simp: behind_def revised_def)
        show ?case
        proof (cases r)
          case (Err e)
          show ?thesis
            unfolding x(1) Err prod.case outcome.case
            by (rule wp_mono [OF wp_group_failed [OF b]]) (auto simp: behind_def)
        qed (use x(3) b in \<open>auto simp: x(1) behind_def\<close>)
      qed
    qed
    show ?case
      using 1 other groups first(2,3) wp_mono [OF wp_UpdateFailoverStatus_current [OF hand]] run
      by (simp add: wp_if wp_check wp_group_at wp_edit_group wp_bind wp_edit_status)
  qed
qed

lemma wp_reconcile_groups:
  assumes "saved k g st s" "unfinished g" "served kc fos (rc_DynamoDBManager rc) (group_ref_key g (hd (fs_FailoverGroups (fo_Spec g)))) grp"
    and rc: "rc_Client rc = kc" "rc_WorkflowAdapter rc = Some a" "ad_Client a = kc" "ad_DynamoDBManager a = sv"
    and st: "ft_Status st = ''IN_PROGRESS''" "ft_FailoverGroups st = r0 # rs" "open_status (fg_Status r0)"
  shows "wp (process_groups rt rc 0 (fs_FailoverGroups (fo_Spec g))) (\<lambda>r s'. \<not> is_ok r \<and>
      (\<exists>f'. fos (fst (fst s')) k = Some f' \<and> validating_still g f')) s"
proof -
  obtain gref grefs where groups: "fs_FailoverGroups (fo_Spec g) = gref # grefs"
    using assms(2) by (auto simp: unfinished_def neq_Nil_conv)
  have key: "failover_key g = k" using assms(1) by (simp add: saved_def)
  have first: "fg_Status r0 \<noteq> ''SUCCESS''" "fg_Status r0 \<noteq> ''FAILED''" using st(3) by (simp_all add: open_status_def)
  show ?thesis
    unfolding groups process_groups.simps wp_check
  proof (rule wp_mono [OF wp_process_first [OF assms(1) assms(3) [unfolded groups list.sel] rc st(2) first]], goal_cases)
    case (1 r s')
    have "validating_still g (revised g (st\<lparr> ft_FailoverGroups := r0\<lparr> fg_Status := ''IN_PROGRESS'' \<rparr> # rs,
        ft_State := ''VALIDATING'' \<rparr>) v)" for v
      using assms(2) st(1) by (simp add: validating_still_def unfinished_def open_status_def failover_key_def revised_def ContainsFinalizer_def)
    with 1 show ?case by (cases r) auto
  qed
qed

lemma wp_edit_save:
  assumes "saved k g st s"
  shows "wp (edit_status h \<bind> (\<lambda>_. UpdateFailoverStatus rt kc)) (\<lambda>r s'. r = Ok () \<and> saved k g (h st) s') s"
    "wp (edit_status h \<bind> (\<lambda>_. store_object (StatusUpdateFailover kc))) (\<lambda>r s'. r = Ok () \<and> saved k g (h st) s') s"
  using saved_edit [of k g st "fst s" "snd s" h] assms
  by (cases s; simp add: wp_bind wp_edit_status wp_UpdateFailoverStatus_current wp_store_current)+

lemma savedD: "saved k g st s \<Longrightarrow> \<exists>v. s = (fst s, revised g st v)"
  by (metis prod.collapse saved_def)

lemma wp_reconcile_failover:
  assumes "saved k g (fo_Status g) s" and todo: "unfinished g"
    and grp: "served kc fos (rc_DynamoDBManager rc) (group_ref_key g (hd (fs_FailoverGroups (fo_Spec g)))) grp"
    and rc: "rc_Client rc = kc" "rc_WorkflowAdapter rc = Some a" "ad_Client a = kc" "ad_DynamoDBManager a = sv"
  shows "wp (reconcile_failover rt rc) (\<lambda>r s'. \<not> is_ok r \<and>
      (\<exists>f'. fos (fst (fst s')) k = Some f' \<and> validating_still g f')) s" (is "wp _ ?Q s")
proof -
  obtain p v where s: "s = (p, revised g (fo_Status g) v)" using savedD [OF assms(1)] by metis
  have start: "wp (if ft_Status (fo_Status g) \<noteq> ''IN_PROGRESS''
              then do {
                edit_status (\<lambda>s. s\<lparr> ft_Status := ''IN_PROGRESS'', ft_State := ''IN_PROGRESS'' \<rparr>);
                UpdateFailoverStatus rt kc
              }
              else ret ()) (\<lambda>r s'. r = Ok () \<and> (\<exists>st. saved k g st s' \<and> ft_Status st = ''IN_PROGRESS'' \<and>
                ft_FailoverGroups st = ft_FailoverGroups (fo_Status g))) s"
    using assms(1) unfolding wp_if
    by (auto simp: wp_ret intro: exI [of _ "fo_Status g"] intro!: wp_mono [OF wp_edit_save(1) [OF assms(1)]])
  have fill: "wp (if ft_FailoverGroups st = []
                then do {
                  edit_status (\<lambda>s. s\<lparr> ft_FailoverGroups := pending_groups (fs_FailoverGroups (fo_Spec g)) \<rparr>);
                  store_object (StatusUpdateFailover kc)
                }
                else ret ()) (\<lambda>r s'. r = Ok () \<and> (\<exists>st r0 rs. saved k g st s' \<and> ft_Status st = ''IN_PROGRESS'' \<and>
                ft_FailoverGroups st = r0 # rs \<and> open_status (fg_Status r0))) s'"
    if st: "saved k g st s'" "ft_Status st = ''IN_PROGRESS''" "ft_FailoverGroups st = ft_FailoverGroups (fo_Status g)" for st s'
  proof -
    obtain gref grefs where groups: "fs_FailoverGroups (fo_Spec g) = gref # grefs"
      using todo by (auto simp: unfinished_def neq_Nil_conv)
    have "\<exists>r0 rs. pending_groups (fs_FailoverGroups (fo_Spec g)) = r0 # rs \<and> open_status (fg_Status r0)"
      by (simp add: groups pending_groups_def open_status_def)
    moreover have "\<exists>r0 rs. ft_FailoverGroups st = r0 # rs \<and> open_status (fg_Status r0)" if "ft_FailoverGroups st \<noteq> []"
      using that st(3) todo by (auto simp: unfinished_def split: list.splits)
    ultimately show ?thesis
      unfolding wp_if using st(1,2) by (fastforce simp: wp_ret intro!: wp_mono [OF wp_edit_save(2) [OF st(1)]])
  qed
  have del: "om_DeletionTimestamp (fo_Meta g) = None" "ContainsFinalizer (fo_Meta g) finalizerName"
    "ft_Status (fo_Status g) \<noteq> ''SUCCESS''" "ft_Status (fo_Status g) \<noteq> ''FAILED''"
    using todo by (simp_all add: unfinished_def open_status_def)
  have fin: "ContainsFinalizer (fo_Meta (revised g st v)) finalizerName = ContainsFinalizer (fo_Meta g) finalizerName" for st v
    by (simp add: ContainsFinalizer_def revised_def)
  show ?thesis
    unfolding reconcile_failover_def wp_bind s wp_get_object Let_def rc revised_sel fin
    using del apply (simp only: if_False if_True not_True_eq_False simp_thms)
    unfolding wp_check
  proof (rule wp_mono [OF start [unfolded s]], goal_cases)
    case (1 r1 s1)
    then obtain st where st: "r1 = Ok ()" "saved k g st s1" "ft_Status st = ''IN_PROGRESS''"
      "ft_FailoverGroups st = ft_FailoverGroups (fo_Status g)" by blast
    obtain p1 v1 where s1: "s1 = (p1, revised g st v1)" using savedD [OF st(2)] by metis
    show ?case
      unfolding st(1) outcome.case wp_bind s1 wp_get_object wp_check revised_sel
    proof (rule wp_mono [OF fill [OF st(2-4), unfolded s1]], goal_cases)
      case (1 r2 s2)
      then obtain st2 r0 rs where st2: "r2 = Ok ()" "saved k g st2 s2" "ft_Status st2 = ''IN_PROGRESS''"
        "ft_FailoverGroups st2 = r0 # rs" "open_status (fg_Status r0)" by blast
      obtain p2 v2 where s2: "s2 = (p2, revised g st2 v2)" using savedD [OF st2(2)] by metis
      show ?case
        unfolding st2(1) outcome.case wp_bind s2 wp_get_object wp_check revised_sel
        by (rule wp_mono [OF wp_reconcile_groups [OF st2(2) [unfolded s2] todo grp rc st2(3-5)]])
          (auto split: outcome.split)
    qed
  qed
qed

lemma wp_Reconcile:
  assumes "fos w k = Some g" "failover_key g = k" "unfinished g"
    and grp: "served kc fos (rc_DynamoDBManager rc) (group_ref_key g (hd (fs_FailoverGroups (fo_Spec g)))) grp"
    and rc: "rc_Client rc = kc" "rc_WorkflowAdapter rc = Some a" "ad_Client a = kc" "ad_DynamoDBManager a = sv"
  shows "wp (Reconcile rt rc k) (\<lambda>r p'. \<not> is_ok r \<and> (\<exists>f'. fos (fst p') k = Some f' \<and> validating_still g f')) (w, ca)"
  unfolding Reconcile_def rc wp_try_or wp_uncached
proof (rule wpI)
  fix r w1
  assume run: "run_state (GetFailover kc k) w = (r, w1)"
  have r: "r = Ok g" "fos w1 k = Some g"
    using get_failover_law [OF run] get_answered [OF run assms(1)] assms(1) by (auto simp: is_ok_iff)
  have "saved k g (fo_Status g) ((w1, ca), g)"
    using assms(2) r(2) by (auto simp: saved_def revised_def intro!: exI [of _ "om_ResourceVersion (fo_Meta g)"])
  from wp_reconcile_failover [OF this assms(3) grp rc] r(1)
  show "case r of Ok f \<Rightarrow> wp (State (\<lambda>p. case run_state (reconcile_failover rt rc) (p, f) of (r, p', f') \<Rightarrow> (r, p')))
        (\<lambda>r p'. \<not> is_ok r \<and> (\<exists>f'. fos (fst p') k = Some f' \<and> validating_still g f')) (w1, ca)
      | Err e \<Rightarrow> wp (if is_not_found e then ret no_requeue else raise e)
        (\<lambda>r p'. \<not> is_ok r \<and> (\<exists>f'. fos (fst p') k = Some f' \<and> validating_still g f')) (w1, ca)
      | Panic \<Rightarrow> \<not> is_ok Panic \<and> (\<exists>f'. fos (fst (w1, ca)) k = Some f' \<and> validating_still g f')"
    by (auto simp: wp_def split: prod.splits)
qed

end

end
