(* ===== verification/Failover_Properties.thy ===== *)
theory Failover_Properties
  imports Failover_Status Workflow_Properties
begin

text \<open>
  Properties of the reconciler of Failover objects.
\<close>

fun Reconcile_times ::
    "'w go_runtime \<Rightarrow> 'w failover_reconciler \<Rightarrow> object_key \<Rightarrow> nat \<Rightarrow> ('w, reconcile_result outcome list) service_action" where
  "Reconcile_times rt rc key 0 = State_Monad.return []"
| "Reconcile_times rt rc key (Suc n) = do {
     r \<leftarrow> Reconcile rt rc key;
     rs \<leftarrow> Reconcile_times rt rc key n;
     State_Monad.return (r # rs)
   }"

lemma validating_still_trans:
  "validating_still f g \<Longrightarrow> validating_still g h \<Longrightarrow> validating_still f h"
  by (simp add: validating_still_def)

context kube_workflow
begin

lemma wp_Reconcile_times:
  assumes "fos (fst p) k = Some g" "failover_key g = k" "unfinished g"
    and grp: "served kc fos (rc_DynamoDBManager rc) (group_ref_key g (hd (fs_FailoverGroups (fo_Spec g)))) grp"
    and rc: "rc_Client rc = kc" "rc_WorkflowAdapter rc = Some a" "ad_Client a = kc" "ad_DynamoDBManager a = sv"
  shows "wp (Reconcile_times rt rc k n) (\<lambda>rs p'. length rs = n \<and> list_all (\<lambda>r. \<not> is_ok r) rs \<and>
      (\<exists>h. fos (fst p') k = Some h \<and> (if n = 0 then h = g else validating_still g h))) p"
  using assms(1-4)
proof (induction n arbitrary: p g)
  case 0
  then show ?case by (simp add: wp_return)
next
  case (Suc n)
  have step: "wp (Reconcile rt rc k) (\<lambda>r p'. \<not> is_ok r \<and> (\<exists>f'. fos (fst p') k = Some f' \<and> validating_still g f')) p"
    using wp_Reconcile [OF _ Suc.prems(2-4) rc, of "fst p" "snd p"] Suc.prems(1) by simp
  show ?case
    unfolding Reconcile_times.simps wp_bind wp_return
  proof (rule wp_mono [OF step], goal_cases)
    case (1 r p')
    then obtain f' where f': "fos (fst p') k = Some f'" "validating_still g f'" by blast
    have ref: "group_ref_key f' x = group_ref_key g x" for x
      using f'(2) by (simp add: group_ref_key_def validating_still_def failover_key_def)
    have key: "failover_key f' = k" "unfinished f'" "fo_Spec f' = fo_Spec g"
      using f'(2) Suc.prems(2) by (simp_all add: validating_still_def)
    show ?case
      by (rule wp_mono [OF Suc.IH [OF f'(1) key(1,2)]])
        (use 1 f'(2) Suc.prems(4) in \<open>auto simp: ref key(3) split: if_splits intro: validating_still_trans\<close>)
  qed
qed

end

text \<open>C10: A Failover whose first group is served is processed for ever. Every reconciliation returns an
  error, so the object is queued again, and leaves it in progress, in state VALIDATING, whatever the
  workflow of the group did; after any number of reconciliations it is as unfinished as before. (The
  controller means not to retry: a group that fails is to be marked FAILED and left.)\<close>

theorem Reconcile_never_finishes:
  assumes "kube_workflow kc fos m rt (ad_DynamoDBManager a)"
    and "rc_Client rc = kc" "rc_WorkflowAdapter rc = Some a" "ad_Client a = kc"
    and "fos w key = Some f" "failover_key f = key" "unfinished f"
    and "served kc fos (rc_DynamoDBManager rc) (group_ref_key f (hd (fs_FailoverGroups (fo_Spec f)))) grp"
    and "run_state (Reconcile_times rt rc key n) (w, ca) = (rs, (w', ca'))"
  shows "length rs = n \<and> list_all (\<lambda>r. \<not> is_ok r) rs \<and>
    (\<exists>g. fos w' key = Some g \<and> (if n = 0 then g = f else validating_still f g))"
  using wpD [OF assms(9) kube_workflow.wp_Reconcile_times [OF assms(1) _ assms(6-8,2,3,4) refl]] assms(5) by simp

section \<open>A run in memory\<close>

definition kube_serving :: "(object_key \<Rightarrow> failover_group option) \<Rightarrow> ('w \<times> kube_store) kube_client" where
  "kube_serving grs = kube_in_memory\<lparr> GetFailoverGroup := \<lambda>key. State_Monad.return (case grs key of Some g \<Rightarrow> Ok g
     | None \<Rightarrow> Err (ServiceError ''NotFound'' ''the object is not found'' [])) \<rparr>"

lemma kube_serving_sel [simp]:
  "StatusUpdateFailover (kube_serving grs) = StatusUpdateFailover kube_in_memory"
  "GetFailover (kube_serving grs) = GetFailover kube_in_memory"
  by (simp_all add: kube_serving_def)

interpretation kube_serving: kube_reliable "kube_serving grs :: ('w \<times> kube_store) kube_client" "\<lambda>p. snd p"
  for grs
proof (unfold_locales, unfold kube_serving_sel, goal_cases)
  case 1
  then show ?case by (rule kube_mem.status_update_law)
next
  case 2
  then show ?case by (rule kube_mem.get_failover_law)
next
  case 3
  then show ?case by (rule kube_mem.status_answered)
next
  case 4
  then show ?case by (rule kube_mem.get_answered)
qed

interpretation world_serving: kube_workflow "kube_serving grs" "\<lambda>p. snd p" "world_manager strict c" world_runtime
    "Some (world_service strict c)"
  for grs strict c
  by (intro kube_workflow.intro kube_serving.kube_reliable_axioms world_status.calls_keep_axioms
    kube_workflow_axioms.intro) (auto simp: world_service_def)

definition serving_client :: "world kube_client" where
  "serving_client = kube_serving [(''ns'', ''g'') \<mapsto> demo_group demo_clusters]"

definition serving_adapter :: "world manager_adapter" where
  "serving_adapter = NewManagerAdapter serving_client ''west'' (Some (world_service False ''west''))"

definition demo_reconciler :: "world failover_reconciler" where
  "demo_reconciler = \<lparr> rc_Client = serving_client, rc_ClusterName = ''west'',
     rc_DynamoDBManager = Some (world_service False ''west''),
     rc_WorkflowAdapter = Some serving_adapter, rc_AutoFailoverCheck = None \<rparr>"

definition demo_request :: failover where
  "demo_request = (let f = demo_failover ''CONSISTENCY'' True in
     f\<lparr> fo_Meta := AddFinalizer finalizerName (fo_Meta f),
        fo_Spec := (fo_Spec f)\<lparr> fs_FailoverGroups := [\<lparr> fg_Name = ''g'', fg_Namespace = '''', fg_Status = '''',
          fg_StartTime = '''', fg_CompletionTime = '''', fg_Message = '''' \<rparr>] \<rparr> \<rparr>)"

definition demo_reconciles :: "nat \<Rightarrow> reconcile_result outcome list \<times> (world \<times> service_cache)" where
  "demo_reconciles n = run_state (Reconcile_times world_runtime demo_reconciler (''ns'', ''f1'') n)
     (world_demo demo_request, empty_cache)"

lemma demo_request_sel [simp]:
  "failover_key demo_request = (''ns'', ''f1'')" "unfinished demo_request"
  "group_ref_key demo_request (hd (fs_FailoverGroups (fo_Spec demo_request))) = (''ns'', ''g'')"
  by (simp_all add: demo_request_def Let_def failover_key_def unfinished_def open_status_def demo_failover_def
    demo_meta_def AddFinalizer_def ContainsFinalizer_def group_ref_key_def)

lemma demo_served: "served serving_client (\<lambda>p. snd p) (Some (world_service False ''west'')) (''ns'', ''g'') (demo_group demo_clusters)"
  by (auto simp: served_def serving_client_def kube_serving_def other_operator_def demo_group_def world_service_def)

theorem Reconcile_never_finishes_witness:
  "list_all (\<lambda>r. \<not> is_ok r) (fst (demo_reconciles 3)) \<and>
   (\<exists>g. snd (fst (snd (demo_reconciles 3))) (''ns'', ''f1'') = Some g \<and> ft_State (fo_Status g) = ''VALIDATING'')"
proof -
  obtain rs w ca where run: "demo_reconciles 3 = (rs, (w, ca))"
    by (cases "demo_reconciles 3") auto
  have "kube_workflow serving_client (\<lambda>p. snd p) (world_manager False ''west'') world_runtime
      (ad_DynamoDBManager serving_adapter)"
    using world_serving.kube_workflow_axioms [of _ False "''west''"] by (simp add: serving_adapter_def NewManagerAdapter_def serving_client_def)
  from Reconcile_never_finishes [OF this _ _ _ _ _ _ _ run [unfolded demo_reconciles_def], of demo_request]
  show ?thesis
    using demo_served by (auto simp: run world_demo_def demo_reconciler_def serving_adapter_def NewManagerAdapter_def validating_still_def)
qed

end
