(* ===== verification/Failover_Manager.thy ===== *)
theory Failover_Manager
  imports Failover_Controller
begin

text \<open>
  internal/controller/failover/manager.go: the failover manager, which runs a Failover through its
  own two workflows. Its resource managers are set by NewManager and not used by any of its
  methods, so they are left out, and so is logging. The Failover that a method is given and changes
  is the object at hand.
\<close>

record 'w failover_manager =
  mg_Client :: "'w kube_client"
  mg_ClusterName :: string
  mg_DynamoDBManager :: "'w dynamo_service option"

definition NewManager :: "'w kube_client \<Rightarrow> string \<Rightarrow> 'w failover_manager" where
  "NewManager kc clusterName = \<lparr> mg_Client = kc, mg_ClusterName = clusterName, mg_DynamoDBManager = None \<rparr>"

definition SetDynamoDBManager :: "'w dynamo_service option \<Rightarrow> 'w failover_manager \<Rightarrow> 'w failover_manager" where
  "SetDynamoDBManager s m = m\<lparr> mg_DynamoDBManager := s \<rparr>"

section \<open>The stages\<close>

text \<open>Each of them is a stub that returns nil.\<close>

type_synonym 'w stage = "'w failover_manager \<Rightarrow> failover_group \<Rightarrow> ('w, failover, unit outcome) object_action"

definition updateNetworkResourcesForSourceCluster :: "'w stage" where
  "updateNetworkResourcesForSourceCluster m failoverGroup = ret ()"

definition disableFluxReconciliation :: "'w stage" where
  "disableFluxReconciliation m failoverGroup = ret ()"

definition waitForWorkloadsScaledDown :: "'w stage" where
  "waitForWorkloadsScaledDown m failoverGroup = ret ()"

definition demoteVolumes :: "'w stage" where
  "demoteVolumes m failoverGroup = ret ()"

definition waitForVolumesDemoted :: "'w stage" where
  "waitForVolumesDemoted m failoverGroup = ret ()"

definition markVolumesReadyForPromotion :: "'w stage" where
  "markVolumesReadyForPromotion m failoverGroup = ret ()"

definition waitForVolumesReadyForPromotion :: "'w stage" where
  "waitForVolumesReadyForPromotion m failoverGroup = ret ()"

definition promoteVolumes :: "'w stage" where
  "promoteVolumes m failoverGroup = ret ()"

definition waitForVolumesPromoted :: "'w stage" where
  "waitForVolumesPromoted m failoverGroup = ret ()"

definition verifyDataAvailability :: "'w stage" where
  "verifyDataAvailability m failoverGroup = ret ()"

definition triggerFluxReconciliation :: "'w stage" where
  "triggerFluxReconciliation m failoverGroup = ret ()"

definition updateNetworkResourcesForTargetCluster :: "'w stage" where
  "updateNetworkResourcesForTargetCluster m failoverGroup = ret ()"

definition recordFailoverHistory :: "'w stage" where
  "recordFailoverHistory m failoverGroup = ret ()"

definition scaleDownWorkloads :: "'w stage" where
  "scaleDownWorkloads m failoverGroup = ret ()"

definition waitForDataSync :: "'w stage" where
  "waitForDataSync m failoverGroup = ret ()"

definition scaleUpWorkloads :: "'w stage" where
  "scaleUpWorkloads m failoverGroup = ret ()"

definition waitForTargetReady :: "'w stage" where
  "waitForTargetReady m failoverGroup = ret ()"

definition handleFluxResources :: "'w stage" where
  "handleFluxResources m failoverGroup = ret ()"

definition updateNetworkResources :: "'w stage" where
  "updateNetworkResources m failoverGroup = ret ()"

definition updateGlobalState :: "'w stage" where
  "updateGlobalState m failoverGroup = ret ()"

definition updateFailoverGroupStatus :: "'w stage" where
  "updateFailoverGroupStatus m failoverGroup = ret ()"

definition releaseLock :: "'w stage" where
  "releaseLock m failoverGroup = ret ()"

definition markTargetReadyForTraffic :: "'w stage" where
  "markTargetReadyForTraffic m failoverGroup = ret ()"

definition waitForTargetReadyForTraffic :: "'w stage" where
  "waitForTargetReadyForTraffic m failoverGroup = ret ()"

definition markTrafficTransitionComplete :: "'w stage" where
  "markTrafficTransitionComplete m failoverGroup = ret ()"

definition waitForTrafficTransitionComplete :: "'w stage" where
  "waitForTrafficTransitionComplete m failoverGroup = ret ()"

definition handleVolumeReplications :: "'w stage" where
  "handleVolumeReplications m failoverGroup = ret ()"

definition verifyAndAcquireLock :: "'w failover_manager \<Rightarrow> failover_group \<Rightarrow> string \<Rightarrow> ('w, failover, unit outcome) object_action" where
  "verifyAndAcquireLock m failoverGroup targetCluster = ret ()"

section \<open>The workflows\<close>

text \<open>Stages in their order; the first that fails ends them, with its message.\<close>

fun run_stages ::
    "'w failover_manager \<Rightarrow> failover_group \<Rightarrow> ('w stage \<times> string) list \<Rightarrow> ('w, failover, unit outcome) object_action" where
  "run_stages m g [] = ret ()"
| "run_stages m g ((stage, failed) # stages) = check (stage m g) (wrapf failed) (\<lambda>_. run_stages m g stages)"

text \<open>\<open>if m.ClusterName == failover.Spec.TargetCluster { ... }\<close>\<close>

definition if_target ::
    "'w failover_manager \<Rightarrow> ('w, failover, unit outcome) object_action \<Rightarrow> ('w, failover, unit outcome) object_action" where
  "if_target m x = do {
     f \<leftarrow> get_object;
     if mg_ClusterName m = fs_TargetCluster (fo_Spec f) then x else ret ()
   }"

definition executeConsistencyModeWorkflow :: "'w stage" where
  "executeConsistencyModeWorkflow m g =
     check (run_stages m g
       [(updateNetworkResourcesForSourceCluster, ''consistency mode stage 2 - failed to update network resources for source cluster''),
        (scaleDownWorkloads, ''consistency mode stage 2 - failed to scale down workloads''),
        (disableFluxReconciliation, ''consistency mode stage 2 - failed to disable Flux reconciliation''),
        (waitForWorkloadsScaledDown, ''consistency mode stage 2 - failed waiting for workloads to scale down''),
        (demoteVolumes, ''consistency mode stage 3 - failed to demote volumes''),
        (waitForVolumesDemoted, ''consistency mode stage 3 - failed waiting for volumes to be demoted''),
        (markVolumesReadyForPromotion, ''consistency mode stage 3 - failed to mark volumes as ready for promotion'')]) (\<lambda>e. e)
     (\<lambda>_. check (if_target m (run_stages m g
       [(waitForVolumesReadyForPromotion, ''consistency mode stage 4 - failed waiting for volumes to be ready for promotion''),
        (promoteVolumes, ''consistency mode stage 4 - failed to promote volumes''),
        (waitForVolumesPromoted, ''consistency mode stage 4 - failed waiting for volumes to be promoted''),
        (verifyDataAvailability, ''consistency mode stage 4 - failed to verify data availability''),
        (scaleUpWorkloads, ''consistency mode stage 4 - failed to scale up workloads''),
        (triggerFluxReconciliation, ''consistency mode stage 4 - failed to trigger Flux reconciliation''),
        (waitForTargetReady, ''consistency mode stage 4 - failed waiting for target to be ready''),
        (updateNetworkResourcesForTargetCluster, ''consistency mode stage 4 - failed to update network resources for target cluster'')])) (\<lambda>e. e)
     (\<lambda>_. run_stages m g
       [(updateGlobalState, ''consistency mode stage 5 - failed to update global state''),
        (recordFailoverHistory, ''consistency mode stage 5 - failed to record failover history'')]))"

definition executeUptimeModeWorkflow :: "'w stage" where
  "executeUptimeModeWorkflow m g =
     check (if_target m (run_stages m g
       [(promoteVolumes, ''uptime mode stage 2 - failed to promote volumes''),
        (waitForVolumesPromoted, ''uptime mode stage 2 - failed waiting for volumes to be promoted''),
        (verifyDataAvailability, ''uptime mode stage 2 - failed to verify data availability''),
        (scaleUpWorkloads, ''uptime mode stage 2 - failed to scale up workloads''),
        (triggerFluxReconciliation, ''uptime mode stage 2 - failed to trigger Flux reconciliation''),
        (waitForTargetReady, ''uptime mode stage 2 - failed waiting for target to be ready''),
        (markTargetReadyForTraffic, ''uptime mode stage 2 - failed to mark target as ready for traffic'')])) (\<lambda>e. e)
     (\<lambda>_. check (if_target m (run_stages m g
       [(waitForTargetReadyForTraffic, ''uptime mode stage 3 - failed waiting for target to be ready for traffic''),
        (updateNetworkResourcesForTargetCluster, ''uptime mode stage 3 - failed to update network resources for target cluster''),
        (markTrafficTransitionComplete, ''uptime mode stage 3 - failed to mark traffic transition as complete'')])) (\<lambda>e. e)
     (\<lambda>_. run_stages m g
       [(waitForTrafficTransitionComplete, ''uptime mode stage 4 - failed waiting for traffic transition to complete''),
        (updateNetworkResourcesForSourceCluster, ''uptime mode stage 4 - failed to update network resources for source cluster''),
        (scaleDownWorkloads, ''uptime mode stage 4 - failed to scale down workloads''),
        (disableFluxReconciliation, ''uptime mode stage 4 - failed to disable Flux reconciliation''),
        (waitForWorkloadsScaledDown, ''uptime mode stage 4 - failed waiting for workloads to scale down''),
        (demoteVolumes, ''uptime mode stage 4 - failed to demote volumes''),
        (waitForVolumesDemoted, ''uptime mode stage 4 - failed waiting for volumes to be demoted''),
        (updateGlobalState, ''uptime mode stage 5 - failed to update global state''),
        (recordFailoverHistory, ''uptime mode stage 5 - failed to record failover history'')]))"

text \<open>An unknown mode counts as CONSISTENCY.\<close>

definition executeFailoverWorkflow :: "'w stage" where
  "executeFailoverWorkflow m g = do {
     f \<leftarrow> get_object;
     let failoverMode = to_upper (fs_FailoverMode (fo_Spec f));
     if failoverMode = ''CONSISTENCY'' then executeConsistencyModeWorkflow m g
     else if failoverMode = ''UPTIME'' then executeUptimeModeWorkflow m g
     else executeConsistencyModeWorkflow m g
   }"

section \<open>One group\<close>

text \<open>The first cluster of that name in the status, and its health.\<close>

definition verifyFailoverPossible ::
    "'w go_runtime \<Rightarrow> 'w failover_manager \<Rightarrow> failover_group \<Rightarrow> string \<Rightarrow> ('w, unit outcome) service_action" where
  "verifyFailoverPossible rt m g targetCluster =
     (if sp_Suspended (gr_Spec g)
      then raise (ErrorString (''failover group is suspended: '' @ sp_SuspensionReason (gr_Spec g)))
      else
        let gs = st_GlobalState (gr_Status g);
            known = find (\<lambda>c. ci_Name c = targetCluster) (gs_Clusters gs);
            remaining = (\<lambda>targetClusterFound.
              if \<not> targetClusterFound
              then raise (ErrorString (''target cluster '' @ quoted targetCluster @ '' not found in failover group''))
              else if gs_ActiveCluster gs = targetCluster
              then raise (ErrorString (''target cluster '' @ quoted targetCluster @ '' is already the active cluster''))
              else (case mg_DynamoDBManager m of
                  None \<Rightarrow> ret ()
                | Some s \<Rightarrow> check (svc_IsLocked rt s (gr_Namespace g) (gr_Name g))
                    (wrapf ''failed to check lock status'')
                    (\<lambda>(locked, lockedBy). if locked
                       then raise (ErrorString (''failover group is locked by '' @ quoted lockedBy)) else ret ())))
        in (case known of
              Some c \<Rightarrow> if ci_Health c = ''ERROR''
                then raise (ErrorString ''target cluster is in ERROR health state'') else remaining True
            | None \<Rightarrow> (case mg_DynamoDBManager m of
                None \<Rightarrow> remaining False
              | Some s \<Rightarrow> check (svc_GetAllClusterStatuses rt s (gr_Namespace g) (gr_Name g))
                  (wrapf ''failed to verify target cluster in DynamoDB'')
                  (\<lambda>sts. remaining (targetCluster \<in> fst ` set sts \<or> targetCluster = mg_ClusterName m)))))"

text \<open>A group is marked as failed; the error of the write is logged.\<close>

definition fail_group ::
    "'w failover_manager \<Rightarrow> nat \<Rightarrow> string \<Rightarrow> go_error \<Rightarrow> ('w, failover, unit outcome) object_action" where
  "fail_group m i what err =
     check (edit_group i (\<lambda>g. g\<lparr> fg_Status := ''FAILED'', fg_Message := what @ '': '' @ err_msg err \<rparr>)) (\<lambda>e. e)
     (\<lambda>_. check (ignore_err (store_object (StatusUpdateFailover (mg_Client m)))) (\<lambda>e. e) (\<lambda>_. raise err))"

definition note_downtime :: "int \<Rightarrow> failover_status \<Rightarrow> failover_status" where
  "note_downtime downtime s =
     (if fm_TotalDowntimeSeconds (ft_Metrics s) < downtime
      then s\<lparr> ft_Metrics := (ft_Metrics s)\<lparr> fm_TotalDowntimeSeconds := downtime \<rparr> \<rparr> else s)"

definition processFailoverGroup ::
    "'w go_runtime \<Rightarrow> 'w failover_manager \<Rightarrow> failover_group \<Rightarrow> nat \<Rightarrow> ('w, failover, unit outcome) object_action" where
  "processFailoverGroup rt m g i = do {
     f \<leftarrow> get_object;
     let targetCluster = fs_TargetCluster (fo_Spec f);
     check (case mg_DynamoDBManager m of
              Some s \<Rightarrow> if mg_ClusterName m = targetCluster
                then ignore_err (on_service (svc_UpdateClusterStatus rt s (gr_Namespace g) (gr_Name g)
                       (mg_ClusterName m) ''OK'' ''STANDBY'' ''''))
                else ret ()
            | None \<Rightarrow> ret ()) (\<lambda>e. e)
     (\<lambda>_. try_or (on_service (verifyFailoverPossible rt m g targetCluster))
       (fail_group m i ''Failover prerequisites not met'')
       (\<lambda>_. check (edit_group i (\<lambda>r. r\<lparr> fg_Status := ''IN_PROGRESS'' \<rparr>)) (\<lambda>e. e)
       (\<lambda>_. do {
         now \<leftarrow> on_world (time_now rt);
         check (edit_group i (\<lambda>r. r\<lparr> fg_StartTime := format_rfc3339 now \<rparr>)) (\<lambda>e. e)
         (\<lambda>_. check (store_object (StatusUpdateFailover (mg_Client m))) (\<lambda>e. e)
         (\<lambda>_. try_or (verifyAndAcquireLock m g targetCluster)
           (fail_group m i ''Failed to acquire lock'')
           (\<lambda>_. do {
             startTime \<leftarrow> on_world (time_now rt);
             r \<leftarrow> executeFailoverWorkflow m g;
             (case r of
                Panic \<Rightarrow> State_Monad.return Panic
              | _ \<Rightarrow> do {
                  endTime \<leftarrow> on_world (time_now rt);
                  edit_status (note_downtime (whole_seconds (time_sub endTime startTime)));
                  check (edit_group i (\<lambda>g. case r of
                      Err err \<Rightarrow> g\<lparr> fg_Status := ''FAILED'', fg_Message := ''Failover execution failed: '' @ err_msg err \<rparr>
                    | _ \<Rightarrow> g\<lparr> fg_Status := ''SUCCESS'', fg_CompletionTime := format_rfc3339 endTime \<rparr>)) (\<lambda>e. e)
                  (\<lambda>_. check (ignore_err (releaseLock m g)) (\<lambda>e. e)
                  (\<lambda>_. check (store_object (StatusUpdateFailover (mg_Client m))) (\<lambda>e. e)
                  (\<lambda>_. State_Monad.return r)))
                })
           })))
       })))
   }"

section \<open>The status of the Failover\<close>

definition error_messages :: "go_error list \<Rightarrow> string" where
  "error_messages errors = concat (map (\<lambda>e. err_msg e @ ''; '') errors)"

definition outcome_conditions :: "string \<Rightarrow> go_error list \<Rightarrow> go_time \<Rightarrow> condition list" where
  "outcome_conditions status errors now =
     (if errors \<noteq> []
      then [\<lparr> cn_Type = ''Failed'', cn_Status = ''True'', cn_ObservedGeneration = 0, cn_LastTransitionTime = now,
              cn_Reason = ''FailoverErrors'', cn_Message = error_messages errors \<rparr>]
      else if status = ''SUCCESS''
      then [\<lparr> cn_Type = ''Succeeded'', cn_Status = ''True'', cn_ObservedGeneration = 0, cn_LastTransitionTime = now,
              cn_Reason = ''FailoverCompleted'', cn_Message = ''Failover completed successfully'' \<rparr>]
      else [])"

definition fill_groups :: "failover \<Rightarrow> failover_status \<Rightarrow> failover_status" where
  "fill_groups f s =
     (if ft_FailoverGroups s = [] then s\<lparr> ft_FailoverGroups := pending_groups (fs_FailoverGroups (fo_Spec f)) \<rparr> else s)"

definition Manager_updateFailoverStatus ::
    "'w go_runtime \<Rightarrow> 'w failover_manager \<Rightarrow> string \<Rightarrow> go_error list \<Rightarrow> ('w, failover, unit outcome) object_action" where
  "Manager_updateFailoverStatus rt m status errors = do {
     edit_status (\<lambda>s. s\<lparr> ft_Status := status \<rparr>);
     f \<leftarrow> get_object;
     edit_status (fill_groups f);
     (if errors \<noteq> [] \<or> status = ''SUCCESS''
      then do {
        now \<leftarrow> on_world (time_now rt);
        edit_status (\<lambda>s. s\<lparr> ft_Conditions := ft_Conditions s @ outcome_conditions status errors now \<rparr>)
      }
      else State_Monad.return ());
     store_object (StatusUpdateFailover (mg_Client m))
   }"

section \<open>All groups\<close>

text \<open>The loop over the groups of the specification, from number \<open>i\<close> on, with the errors so far.\<close>

definition process_nth_group ::
    "'w go_runtime \<Rightarrow> 'w failover_manager \<Rightarrow> nat \<Rightarrow> failover_group_reference \<Rightarrow> ('w, failover, unit outcome) object_action" where
  "process_nth_group rt m i ref = do {
     f \<leftarrow> get_object;
     try_or (on_world (GetFailoverGroup (mg_Client m) (group_ref_key f ref)))
       (\<lambda>err. check (edit_group i (\<lambda>g. g\<lparr> fg_Status := ''FAILED'',
            fg_Message := ''Failed to get failover group: '' @ err_msg err \<rparr>)) (\<lambda>e. e) (\<lambda>_. raise err))
       (\<lambda>g. if other_operator (mg_DynamoDBManager m) g then ret () else processFailoverGroup rt m g i)
   }"

fun process_all_groups ::
    "'w go_runtime \<Rightarrow> 'w failover_manager \<Rightarrow> nat \<Rightarrow> failover_group_reference list \<Rightarrow> go_error list \<Rightarrow>
     ('w, failover, go_error list outcome) object_action" where
  "process_all_groups rt m i [] errs = ret errs"
| "process_all_groups rt m i (ref # refs) errs = do {
     r \<leftarrow> process_nth_group rt m i ref;
     (case r of
        Panic \<Rightarrow> State_Monad.return Panic
      | Err e \<Rightarrow> process_all_groups rt m (Suc i) refs (errs @ [e])
      | Ok _ \<Rightarrow> process_all_groups rt m (Suc i) refs errs)
   }"

definition Manager_ProcessFailover ::
    "'w go_runtime \<Rightarrow> 'w failover_manager \<Rightarrow> ('w, failover, unit outcome) object_action" where
  "Manager_ProcessFailover rt m = do {
     f \<leftarrow> get_object;
     check (if ft_Status (fo_Status f) \<noteq> ''IN_PROGRESS''
            then Manager_updateFailoverStatus rt m ''IN_PROGRESS'' [] else ret ()) (\<lambda>e. e)
     (\<lambda>_. do {
       startTime \<leftarrow> on_world (time_now rt);
       f \<leftarrow> get_object;
       check (if ft_FailoverGroups (fo_Status f) = []
              then do {
                edit_status (fill_groups f);
                store_object (StatusUpdateFailover (mg_Client m))
              }
              else ret ()) (wrapf ''failed to initialize failover group status'')
       (\<lambda>_. do {
         f \<leftarrow> get_object;
         check (process_all_groups rt m 0 (fs_FailoverGroups (fo_Spec f)) []) (\<lambda>e. e)
         (\<lambda>processingErrors. do {
           endTime \<leftarrow> on_world (time_now rt);
           edit_status (\<lambda>s. s\<lparr> ft_Metrics := (ft_Metrics s)\<lparr> fm_TotalFailoverTimeSeconds :=
             whole_seconds (time_sub endTime startTime) \<rparr> \<rparr>);
           Manager_updateFailoverStatus rt m (if processingErrors \<noteq> [] then ''FAILED'' else ''SUCCESS'') processingErrors
         })
       })
     })
   }"

section \<open>Clean-up\<close>

definition cleaned_up :: "go_time \<Rightarrow> condition" where
  "cleaned_up now = \<lparr> cn_Type = ''CleanedUp'', cn_Status = ''True'', cn_ObservedGeneration = 0,
     cn_LastTransitionTime = now, cn_Reason = ''FailoverResourceDeleted'',
     cn_Message = ''Resources cleaned up due to failover resource deletion'' \<rparr>"

definition cleanup_group ::
    "'w go_runtime \<Rightarrow> 'w failover_manager \<Rightarrow> failover_group_reference \<Rightarrow> ('w, failover, unit outcome) object_action" where
  "cleanup_group rt m ref = do {
     f \<leftarrow> get_object;
     try_or (on_world (GetFailoverGroup (mg_Client m) (group_ref_key f ref)))
       (\<lambda>_. ret ())
       (\<lambda>g. check (ignore_err (releaseLock m g)) (\<lambda>e. e) (\<lambda>_. do {
          now \<leftarrow> on_world (time_now rt);
          ignore_err (on_world (StatusUpdateGroup (mg_Client m)
            (on_group_status (\<lambda>s. s\<lparr> st_Conditions := st_Conditions s @ [cleaned_up now] \<rparr>) g)))
        }))
   }"

fun cleanup_groups ::
    "'w go_runtime \<Rightarrow> 'w failover_manager \<Rightarrow> failover_group_reference list \<Rightarrow> ('w, failover, unit outcome) object_action" where
  "cleanup_groups rt m [] = ret ()"
| "cleanup_groups rt m (ref # refs) = check (cleanup_group rt m ref) (\<lambda>e. e) (\<lambda>_. cleanup_groups rt m refs)"

definition CleanupFailoverResources ::
    "'w go_runtime \<Rightarrow> 'w failover_manager \<Rightarrow> ('w, failover, unit outcome) object_action" where
  "CleanupFailoverResources rt m = do {
     f \<leftarrow> get_object;
     cleanup_groups rt m (fs_FailoverGroups (fo_Spec f))
   }"

end
