(* ===== verification/Auto_Failover.thy ===== *)
theory Auto_Failover
  imports Failover_Manager
begin

text \<open>
  internal/controller/failover/auto_failover.go: automatic failovers. The groups of the cluster are
  listed, and a Failover is created for each whose primary does not send heartbeats.
\<close>

definition findPrimaryCluster :: "failover_group \<Rightarrow> cluster_info outcome" where
  "findPrimaryCluster g =
     (case find (\<lambda>c. ci_Role c = ''PRIMARY'') (gs_Clusters (st_GlobalState (gr_Status g))) of
        Some c \<Rightarrow> Ok c
      | None \<Rightarrow> Err (ErrorString ''no primary cluster found''))"

definition findHealthyStandbyCluster :: "failover_group \<Rightarrow> cluster_info outcome" where
  "findHealthyStandbyCluster g =
     (case find (\<lambda>c. ci_Role c = ''STANDBY'' \<and> (ci_Health c = ''OK'' \<or> ci_Health c = ''DEGRADED''))
        (gs_Clusters (st_GlobalState (gr_Status g))) of
        Some c \<Rightarrow> Ok c
      | None \<Rightarrow> Err (ErrorString ''no healthy standby cluster found''))"

text \<open>A placeholder in the code.\<close>

definition hasBeenUnhealthyLongEnough :: "failover_group \<Rightarrow> int \<Rightarrow> bool" where
  "hasBeenUnhealthyLongEnough g timeout = False"

text \<open>\<open>now\<close> is what \<open>time.Since\<close> reads; a text that is no duration stands for five minutes.\<close>

definition five_minutes :: int where "five_minutes = 300 * second"

definition duration_or_default :: "string \<Rightarrow> int" where
  "duration_or_default s = (case parse_duration s of Some d \<Rightarrow> d | None \<Rightarrow> five_minutes)"

definition hasHeartbeatTimeout :: "failover_group \<Rightarrow> cluster_info \<Rightarrow> go_time \<Rightarrow> bool" where
  "hasHeartbeatTimeout g primary now \<longleftrightarrow>
     (if ci_LastHeartbeat primary = '''' then False
      else (case parse_rfc3339 (ci_LastHeartbeat primary) of
          None \<Rightarrow> False
        | Some heartbeatTime \<Rightarrow>
            duration_or_default (gt_Heartbeat (sp_Timeouts (gr_Spec g))) < time_sub now heartbeatTime))"

text \<open>The target cluster and the reason, if a failover is needed. (In the code the clock is read
  only when a heartbeat is compared; no other step depends on it.)\<close>

definition checkGroupNeedsFailover :: "failover_group \<Rightarrow> go_time \<Rightarrow> (string \<times> string) option" where
  "checkGroupNeedsFailover g now =
     (case findPrimaryCluster g of
        Ok primaryCluster \<Rightarrow>
          (case findHealthyStandbyCluster g of
             Ok targetCluster \<Rightarrow>
               if ci_Health primaryCluster = ''ERROR'' \<and>
                  hasBeenUnhealthyLongEnough g (duration_or_default (gt_UnhealthyPrimary (sp_Timeouts (gr_Spec g))))
               then Some (ci_Name targetCluster, ''Primary cluster health is in ERROR state'')
               else if hasHeartbeatTimeout g primaryCluster now
               then Some (ci_Name targetCluster, ''Primary cluster heartbeat timeout'')
               else None
           | _ \<Rightarrow> None)
      | _ \<Rightarrow> None)"

text \<open>\<open>time.Now().Format("20060102-150405")\<close>\<close>

definition format_stamp :: "go_time \<Rightarrow> string" where
  "format_stamp t =
     (case civil_of_day (wall_seconds t div 86400) of (y, m, d) \<Rightarrow>
        let r = wall_seconds t mod 86400 in
        show_year y @ show2 m @ show2 d @ ''-'' @ show2 (r div 3600) @ show2 (r mod 3600 div 60) @ show2 (r mod 60))"

definition automatic_failover :: "failover_group \<Rightarrow> string \<Rightarrow> string \<Rightarrow> go_time \<Rightarrow> failover" where
  "automatic_failover g targetCluster reason now =
     \<lparr> fo_Meta = \<lparr> om_Name = ''auto-failover-'' @ gr_Name g @ ''-'' @ format_stamp now, om_Namespace = gr_Namespace g,
         om_ResourceVersion = '''', om_Generation = 0, om_DeletionTimestamp = None, om_Finalizers = [],
         om_Labels = [(''app.kubernetes.io/managed-by'', ''failover-operator''), (''app.kubernetes.io/component'', ''auto-failover'')],
         om_Annotations = [(''failover-operator.hahomelabs.com/automatic'', ''true''),
           (''failover-operator.hahomelabs.com/reason'', reason)] \<rparr>,
       fo_Spec = \<lparr> fs_TargetCluster = targetCluster, fs_FailoverMode = ''UPTIME'', fs_Force = False,
         fs_Reason = ''Automatic failover: '' @ reason,
         fs_FailoverGroups = [\<lparr> fg_Name = gr_Name g, fg_Namespace = gr_Namespace g, fg_Status = '''',
           fg_StartTime = '''', fg_CompletionTime = '''', fg_Message = '''' \<rparr>] \<rparr>,
       fo_Status = \<lparr> ft_Status = '''', ft_State = '''', ft_Message = '''', ft_FailoverGroups = [],
         ft_Metrics = \<lparr> fm_TotalDowntimeSeconds = 0, fm_TotalFailoverTimeSeconds = 0 \<rparr>, ft_Conditions = [] \<rparr> \<rparr>"

definition createAutomaticFailover ::
    "'w go_runtime \<Rightarrow> 'w failover_manager \<Rightarrow> failover_group \<Rightarrow> string \<Rightarrow> string \<Rightarrow> ('w, unit outcome) state" where
  "createAutomaticFailover rt m g targetCluster reason = do {
     now \<leftarrow> time_now rt;
     check (CreateFailover (mg_Client m) (automatic_failover g targetCluster reason now))
       (wrapf ''failed to create automatic failover resource'') (\<lambda>_. ret ())
   }"

text \<open>One group of the list; a Failover that cannot be created is logged.\<close>

definition check_group ::
    "'w go_runtime \<Rightarrow> 'w failover_manager \<Rightarrow> failover_group \<Rightarrow> ('w, unit outcome) state" where
  "check_group rt m g =
     (if sp_Suspended (gr_Spec g) then ret ()
      else do {
        now \<leftarrow> time_now rt;
        (case checkGroupNeedsFailover g now of
           None \<Rightarrow> ret ()
         | Some (targetCluster, reason) \<Rightarrow> ignore_err (createAutomaticFailover rt m g targetCluster reason))
      })"

fun check_groups ::
    "'w go_runtime \<Rightarrow> 'w failover_manager \<Rightarrow> failover_group list \<Rightarrow> ('w, unit outcome) state" where
  "check_groups rt m [] = ret ()"
| "check_groups rt m (g # gs) = check (check_group rt m g) (\<lambda>e. e) (\<lambda>_. check_groups rt m gs)"

definition CheckAutomaticFailoverTriggers ::
    "'w go_runtime \<Rightarrow> 'w failover_manager \<Rightarrow> ('w, unit outcome) state" where
  "CheckAutomaticFailoverTriggers rt m =
     check (ListFailoverGroups (mg_Client m)) (wrapf ''failed to list failover groups'')
       (\<lambda>items. check_groups rt m items)"

definition Manager_GetFailoverGroup ::
    "'w failover_manager \<Rightarrow> string \<Rightarrow> string \<Rightarrow> ('w, failover_group outcome) state" where
  "Manager_GetFailoverGroup m name namespace = GetFailoverGroup (mg_Client m) (namespace, name)"

text \<open>The background loop: its interval, and as many of its ticks as there are before it is stopped.\<close>

definition checker_interval :: "int \<Rightarrow> int" where
  "checker_interval intervalSeconds = (if intervalSeconds \<le> 0 then 60 else intervalSeconds) * second"

fun StartAutomaticFailoverChecker ::
    "'w go_runtime \<Rightarrow> 'w failover_manager \<Rightarrow> int \<Rightarrow> nat \<Rightarrow> ('w, unit outcome) state" where
  "StartAutomaticFailoverChecker rt m intervalSeconds 0 = ret ()"
| "StartAutomaticFailoverChecker rt m intervalSeconds (Suc ticks) = do {
     stopped \<leftarrow> timer_wait rt (checker_interval intervalSeconds);
     (case stopped of
        Some _ \<Rightarrow> ret ()
      | None \<Rightarrow> check (ignore_err (CheckAutomaticFailoverTriggers rt m)) (\<lambda>e. e)
          (\<lambda>_. StartAutomaticFailoverChecker rt m intervalSeconds ticks))
   }"

end
