(* ===== verification/Auto_Properties.thy ===== *)
theory Auto_Properties
  imports Auto_Failover Failover_Properties
begin

text \<open>
  Properties of the automatic failovers: which Failover objects a check creates.
\<close>

text \<open>What the check relies on: a Failover that is created is stored with its specification, and only
  where there was none; other calls do not touch the stored Failovers, and the clock does not go
  back.\<close>

locale auto_world =
  fixes kc :: "'w kube_client" and rt :: "'w go_runtime" and fos :: "'w \<Rightarrow> object_key \<Rightarrow> failover option"
    and clk :: "'w \<Rightarrow> go_time"
  assumes now_reads: "run_state (time_now rt) w = (t, w') \<Longrightarrow>
      fos w' = fos w \<and> nanos (clk w) \<le> nanos t \<and> nanos t \<le> nanos (clk w')"
    and create_law: "run_state (CreateFailover kc f) w = (r, w') \<Longrightarrow> r \<noteq> Panic \<and> nanos (clk w) \<le> nanos (clk w') \<and>
      (fos w' = fos w \<and> is_err r \<or>
       (\<exists>h. fo_Spec h = fo_Spec f \<and> fos w (failover_key f) = None \<and> fos w' = (fos w)(failover_key f \<mapsto> h)))"
    and list_reads: "run_state (ListFailoverGroups kc) w = (l, w') \<Longrightarrow>
      fos w' = fos w \<and> nanos (clk w) \<le> nanos (clk w') \<and> l \<noteq> Panic"

text \<open>A Failover for one of the groups, whose primary's heartbeat was overdue between two times.\<close>

definition automatic :: "failover_group list \<Rightarrow> int \<Rightarrow> int \<Rightarrow> failover \<Rightarrow> bool" where
  "automatic gs lo hi f \<longleftrightarrow> (\<exists>g \<in> set gs. \<exists>p s t.
     \<not> sp_Suspended (gr_Spec g) \<and>
     {p, s} \<subseteq> set (gs_Clusters (st_GlobalState (gr_Status g))) \<and> ci_Role p = ''PRIMARY'' \<and>
     ci_Role s = ''STANDBY'' \<and> ci_Health s \<in> {''OK'', ''DEGRADED''} \<and>
     lo \<le> nanos t \<and> nanos t \<le> hi \<and> hasHeartbeatTimeout g p t \<and>
     fs_TargetCluster (fo_Spec f) = ci_Name s \<and> fs_FailoverMode (fo_Spec f) = ''UPTIME'' \<and> \<not> fs_Force (fo_Spec f) \<and>
     map (\<lambda>r. (fg_Namespace r, fg_Name r)) (fs_FailoverGroups (fo_Spec f)) = [group_key g])"

lemma automatic_mono: "automatic gs lo hi f \<Longrightarrow> set gs \<subseteq> set gs' \<Longrightarrow> lo' \<le> lo \<Longrightarrow> hi \<le> hi' \<Longrightarrow> automatic gs' lo' hi' f"
  unfolding automatic_def by (meson order_trans subsetD)

lemma checkGroupNeedsFailover_Some:
  assumes "checkGroupNeedsFailover g now = Some (target, reason)"
  shows "\<exists>p s. {p, s} \<subseteq> set (gs_Clusters (st_GlobalState (gr_Status g))) \<and> ci_Role p = ''PRIMARY'' \<and>
     ci_Role s = ''STANDBY'' \<and> ci_Health s \<in> {''OK'', ''DEGRADED''} \<and> hasHeartbeatTimeout g p now \<and> target = ci_Name s"
  using assms
  by (auto simp: checkGroupNeedsFailover_def findPrimaryCluster_def findHealthyStandbyCluster_def
      hasBeenUnhealthyLongEnough_def find_Some_iff split: outcome.splits option.splits if_splits) (metis nth_mem)+

text \<open>A check of some of the groups has created nothing but automatic Failovers.\<close>

definition only_automatic ::
    "('w \<Rightarrow> object_key \<Rightarrow> failover option) \<Rightarrow> ('w \<Rightarrow> go_time) \<Rightarrow> failover_group list \<Rightarrow> 'w \<Rightarrow> 'w \<Rightarrow> bool" where
  "only_automatic fos clk gs w w' \<longleftrightarrow> nanos (clk w) \<le> nanos (clk w') \<and>
     (\<forall>k. fos w' k = fos w k \<or>
       fos w k = None \<and> (\<exists>f. fos w' k = Some f \<and> automatic gs (nanos (clk w)) (nanos (clk w')) f))"

lemma only_automatic_refl: "fos w' = fos w \<Longrightarrow> nanos (clk w) \<le> nanos (clk w') \<Longrightarrow> only_automatic fos clk gs w w'"
  by (simp add: only_automatic_def)

lemma only_automatic_trans:
  assumes "only_automatic fos clk gs w w1" "only_automatic fos clk gs' w1 w2" "set gs \<subseteq> set hs" "set gs' \<subseteq> set hs"
  shows "only_automatic fos clk hs w w2"
proof -
  have "fos w2 k = fos w k \<or> fos w k = None \<and> (\<exists>f. fos w2 k = Some f \<and> automatic hs (nanos (clk w)) (nanos (clk w2)) f)" for k
    using assms automatic_mono [of gs "nanos (clk w)" "nanos (clk w1)" _ hs "nanos (clk w)" "nanos (clk w2)"]
      automatic_mono [of gs' "nanos (clk w1)" "nanos (clk w2)" _ hs "nanos (clk w)" "nanos (clk w2)"]
    unfolding only_automatic_def by (metis order_refl)
  then show ?thesis using assms(1,2) by (auto simp: only_automatic_def)
qed

context auto_world
begin

lemma wp_check_group: "wp (check_group rt m g) (\<lambda>r w'. only_automatic fos clk [g] w w') w"
  if "mg_Client m = kc"
proof -
  have create: "wp (CreateFailover kc (automatic_failover g target reason t2))
      (\<lambda>r w'. r \<noteq> Panic \<and> only_automatic fos clk [g] w w') w2"
    if need: "checkGroupNeedsFailover g now = Some (target, reason)" and sus: "\<not> sp_Suspended (gr_Spec g)"
      and now: "fos w2 = fos w" "nanos (clk w) \<le> nanos now" "nanos now \<le> nanos (clk w2)" for now target reason t2 w2
  proof (rule wpI)
    fix r w'
    assume run: "run_state (CreateFailover kc (automatic_failover g target reason t2)) w2 = (r, w')"
    have le: "nanos (clk w2) \<le> nanos (clk w')" and nP: "r \<noteq> Panic" using create_law [OF run] by auto
    obtain p s where ps: "{p, s} \<subseteq> set (gs_Clusters (st_GlobalState (gr_Status g)))" "ci_Role p = ''PRIMARY''"
      "ci_Role s = ''STANDBY''" "ci_Health s \<in> {''OK'', ''DEGRADED''}" "hasHeartbeatTimeout g p now" "target = ci_Name s"
      using checkGroupNeedsFailover_Some [OF need] by blast
    have "automatic [g] (nanos (clk w)) (nanos (clk w')) h" if spec: "fo_Spec h = fo_Spec (automatic_failover g target reason t2)" for h
      unfolding automatic_def spec
      using ps sus now(2,3) le by (intro bexI [of _ g] exI [of _ p] exI [of _ s] exI [of _ now])
        (simp_all add: automatic_failover_def group_key_def)
    then show "r \<noteq> Panic \<and> only_automatic fos clk [g] w w'"
      using create_law [OF run] now le nP by (auto simp: only_automatic_def split: if_splits)
  qed
  show ?thesis
  proof (cases "sp_Suspended (gr_Spec g)")
    case True
    then show ?thesis by (simp add: check_group_def wp_ret only_automatic_refl)
  next
    case False
    have "wp (time_now rt) (\<lambda>now w1. fos w1 = fos w \<and> nanos (clk w) \<le> nanos now \<and> nanos now \<le> nanos (clk w1)) w"
      by (rule wpI) (rule now_reads)
    then show ?thesis
      unfolding check_group_def if_not_P [OF False] wp_bind
    proof (rule wp_mono, goal_cases)
      case (1 now w1)
      show ?case
      proof (cases "checkGroupNeedsFailover g now")
        case None
        then show ?thesis using 1 by (simp add: wp_ret only_automatic_refl)
      next
        case (Some tr)
        obtain target reason where tr: "tr = (target, reason)" by (cases tr)
        have "wp (createAutomaticFailover rt m g target reason) (\<lambda>r w'. only_automatic fos clk [g] w w') w1"
          unfolding createAutomaticFailover_def wp_bind that
        proof (rule wpI, drule now_reads)
          fix t2 :: go_time and w2
          assume "fos w2 = fos w1 \<and> nanos (clk w1) \<le> nanos t2 \<and> nanos t2 \<le> nanos (clk w2)"
          then show "wp (check (CreateFailover kc (automatic_failover g target reason t2))
              (wrapf ''failed to create automatic failover resource'') (\<lambda>_. ret ())) (\<lambda>r w'. only_automatic fos clk [g] w w') w2"
            unfolding wp_check
            by (intro wp_mono [OF create [OF Some [unfolded tr] False]]) (use 1 in \<open>auto simp: wp_ret split: outcome.split\<close>)
        qed
        then show ?thesis
          unfolding Some tr option.case prod.case wp_ignore_err
          by (rule wp_mono) (auto split: outcome.split)
      qed
    qed
  qed
qed

lemma wp_check_groups: "mg_Client m = kc \<Longrightarrow> wp (check_groups rt m gs) (\<lambda>r w'. only_automatic fos clk gs w w') w"
proof (induction gs arbitrary: w)
  case Nil
  then show ?case by (simp add: wp_ret only_automatic_refl)
next
  case (Cons g gs)
  show ?case
    unfolding check_groups.simps wp_check
  proof (rule wp_mono [OF wp_check_group [OF Cons.prems]], goal_cases)
    case (1 r w1)
    have head: "only_automatic fos clk (g # gs) w w1" by (rule only_automatic_trans [OF 1 only_automatic_refl]) auto
    have "wp (check_groups rt m gs) (\<lambda>r w'. only_automatic fos clk (g # gs) w w') w1"
      by (rule wp_mono [OF Cons.IH [OF Cons.prems]]) (rule only_automatic_trans [OF 1], auto)
    with head show ?case by (cases r) simp_all
  qed
qed

lemma wp_CheckAutomaticFailoverTriggers:
  assumes "mg_Client m = kc" "run_state (ListFailoverGroups kc) w = (Ok gs, w0)"
  shows "wp (CheckAutomaticFailoverTriggers rt m) (\<lambda>r w'. only_automatic fos clk gs w w') w"
proof -
  have w0: "only_automatic fos clk gs w w0"
    by (rule only_automatic_refl) (use list_reads [OF assms(2)] in auto)
  have "wp (check_groups rt m gs) (\<lambda>r w'. only_automatic fos clk gs w w') w0"
    by (rule wp_mono [OF wp_check_groups [OF assms(1)]]) (rule only_automatic_trans [OF w0], auto)
  then show ?thesis
    unfolding CheckAutomaticFailoverTriggers_def assms(1) wp_check by (simp add: wp_def assms(2))
qed

end

text \<open>C12: A check for automatic failovers creates Failovers only for the groups it lists, and among them
  only for one that is not suspended and whose primary's heartbeat was overdue while it ran; each
  targets a healthy standby of its group, in mode UPTIME and not forced. No other Failover changes.
  In particular a primary whose health is ERROR never causes one by itself.\<close>

theorem automatic_failovers_justified:
  assumes "auto_world kc rt fos clk" "mg_Client m = kc"
    and "run_state (ListFailoverGroups kc) w = (Ok gs, w0)"
    and "run_state (CheckAutomaticFailoverTriggers rt m) w = (r, w')"
  shows "fos w' k = fos w k \<or>
    fos w k = None \<and> (\<exists>f. fos w' k = Some f \<and> automatic gs (nanos (clk w)) (nanos (clk w')) f)"
  using wpD [OF assms(4) auto_world.wp_CheckAutomaticFailoverTriggers [OF assms(1-3)]]
  unfolding only_automatic_def by blast

section \<open>A check in memory\<close>

definition kube_listing :: "failover_group list \<Rightarrow> ('w \<times> kube_store) kube_client" where
  "kube_listing gs = kube_in_memory\<lparr> ListFailoverGroups := ret gs \<rparr>"

lemma run_world_clock:
  "run_state (time_now world_runtime) w = (t, w') \<Longrightarrow>
     snd w' = snd w \<and> nanos (world_time w) \<le> nanos t \<and> nanos t \<le> nanos (world_time w')"
  by (cases w; cases w')
     (auto simp: world_runtime_def beside_def mem_runtime_def mem_now_def Let_def world_time_def mem_time_def second_def)

lemma api_create_law:
  assumes "api_create f k = (r, k')"
  shows "r \<noteq> Panic \<and> (k' = k \<and> is_err r \<or>
    (\<exists>h. fo_Spec h = fo_Spec f \<and> k (failover_key f) = None \<and> k' = k(failover_key f \<mapsto> h)))"
proof (cases "k (failover_key f)")
  case None
  let ?h = "f\<lparr> fo_Meta := (fo_Meta f)\<lparr> om_ResourceVersion := ''1'' \<rparr> \<rparr>"
  have "r = Ok ?h" "k' = k(failover_key f \<mapsto> ?h)" using assms None by (simp_all add: api_create_def Let_def)
  then show ?thesis using None by (intro conjI disjI2 exI [of _ ?h]) simp_all
qed (use assms in \<open>auto simp: api_create_def\<close>)

interpretation listing: auto_world "kube_listing gs :: world kube_client" world_runtime "\<lambda>p. snd p" world_time for gs
proof (unfold_locales, goal_cases)
  case 1
  then show ?case by (rule run_world_clock)
next
  case (2 f w r w')
  then show ?case
    using api_create_law [of f "snd w" r "snd w'"]
    by (cases w; cases w') (simp add: kube_listing_def kube_in_memory_def world_time_def split: prod.splits)
next
  case 3
  then show ?case by (auto simp: kube_listing_def ret_def)
qed

definition lost_group :: failover_group where
  "lost_group = demo_group [\<lparr> ci_Name = ''east'', ci_Role = ''PRIMARY'', ci_Health = ''OK'', ci_LastHeartbeat = ''2024-12-31T23:00:00Z'' \<rparr>,
     \<lparr> ci_Name = ''west'', ci_Role = ''STANDBY'', ci_Health = ''OK'', ci_LastHeartbeat = '''' \<rparr>]"

definition lost_manager :: "world failover_manager" where
  "lost_manager = NewManager (kube_listing [lost_group]) ''west''"

definition lost_check :: "unit outcome \<times> world" where
  "lost_check = run_state (CheckAutomaticFailoverTriggers world_runtime lost_manager) (mem_empty, Map.empty)"

lemma lost_check_creates: "map_option (\<lambda>f. fs_TargetCluster (fo_Spec f)) (snd (snd lost_check) (''ns'', ''auto-failover-g-20250101-000002'')) = Some ''west''"
  by code_simp

theorem automatic_failovers_justified_witness:
  "\<exists>f. snd (snd lost_check) (''ns'', ''auto-failover-g-20250101-000002'') = Some f \<and>
     automatic [lost_group] (nanos (world_time (mem_empty, Map.empty))) (nanos (world_time (snd lost_check))) f"
proof -
  obtain r w where run: "lost_check = (r, w)" by (cases lost_check)
  have list: "run_state (ListFailoverGroups (kube_listing [lost_group])) (mem_empty, Map.empty) =
      (Ok [lost_group], (mem_empty, Map.empty) :: world)"
    by (simp add: kube_listing_def ret_def)
  have client: "mg_Client lost_manager = kube_listing [lost_group]" by (simp add: lost_manager_def NewManager_def)
  define k :: object_key where "k = (''ns'', ''auto-failover-g-20250101-000002'')"
  have "snd w k \<noteq> None"
    using lost_check_creates unfolding run k_def by (metis option.distinct(1) option.map(1) snd_conv)
  then show ?thesis
    using automatic_failovers_justified [OF listing.auto_world_axioms client list run [unfolded lost_check_def], of k]
    unfolding run k_def [symmetric] by auto
qed

end
