(* ===== verification/Manager_Facts.thy ===== *)
theory Manager_Facts
  imports Failover_Manager Failover_Status Calls_Keep
begin

text \<open>
  What the failover manager does to the database: reads, and writes of this cluster's own status
  records.
\<close>

lemma wp_keeps: "(\<And>w. wp x (\<lambda>r w'. R w w') w) \<Longrightarrow> keeps R x"
  unfolding keeps_def by (blast dest: wpD)

section \<open>Reads\<close>

context manager_store
begin

lemma unchanged_calls:
  "gi_TableName gi = bm_tableName m \<Longrightarrow> keeps (\<lambda>w w'. tbl w' = tbl w) (GetItem (bm_client m) gi)"
  "qi_TableName qi = bm_tableName m \<Longrightarrow> query_valid qi \<Longrightarrow> keeps (\<lambda>w w'. tbl w' = tbl w) (Query (bm_client m) qi)"
  "si_TableName si = bm_tableName m \<Longrightarrow> keeps (\<lambda>w w'. tbl w' = tbl w) (Scan (bm_client m) si)"
  "keeps (\<lambda>w w'. tbl w' = tbl w) (BatchGetItem (bm_client m) bi)"
  "keeps (\<lambda>w w'. tbl w' = tbl w) (time_now rt)"
  by (auto simp: keeps_def dest: get_law query_law scan_law batch_get_law now_law)

lemma unchanged_IsLocked: "keeps (\<lambda>w w'. tbl w' = tbl w) (IsLocked rt m ns n)"
  unfolding IsLocked_def Let_def
  by (auto intro!: observed.keep_flow unchanged_calls split: option.split)

lemma unchanged_GetAllClusterStatuses: "keeps (\<lambda>w w'. tbl w' = tbl w) (GetAllClusterStatuses rt m ns n)"
  unfolding GetAllClusterStatuses_def batch_get_statuses_def add_batch_item_def add_scan_item_def Let_def
  by (auto intro!: observed.keep_flow unchanged_calls simp: sk_prefix_query_def query_valid_def split: outcome.split)

end

section \<open>Writes of a cluster's status records\<close>

definition statuses_only :: "'w base_manager \<Rightarrow> string \<Rightarrow> dynamo_table \<Rightarrow> dynamo_table \<Rightarrow> bool" where
  "statuses_only m c t t' \<longleftrightarrow> (\<forall>k. (\<forall>ns n. k \<noteq> cluster_key m ns n c) \<longrightarrow> t' k = t k)"

lemma statuses_only_refl [simp]: "statuses_only m c t t"
  by (simp add: statuses_only_def)

lemma statuses_only_owner: "statuses_only m c t t' \<Longrightarrow> owner_of m ns n t' = owner_of m ns n t"
  by (simp add: statuses_only_def owner_of_def config_key_def cluster_key_def getClusterSK_def)

locale manager_world = manager_store +
  fixes kc :: "'a kube_client" and svo :: "'a dynamo_service option"
  assumes api_unchanged: "keeps (\<lambda>w w'. tbl w' = tbl w) (StatusUpdateFailover kc f)"
      "keeps (\<lambda>w w'. tbl w' = tbl w) (GetFailoverGroup kc key)"
    and service_manager: "svo = Some s \<Longrightarrow> sv_operations s = Some m \<and> sv_base s = m"

context manager_world
begin

abbreviation spares :: "string \<Rightarrow> (('a \<times> service_cache) \<times> 'o, 'b) state \<Rightarrow> bool" where
  "spares c \<equiv> keeps (\<lambda>s s'. statuses_only m c (tbl (fst (fst s))) (tbl (fst (fst s'))))"

lemma spares_rules: "keep_rules (\<lambda>s s'. statuses_only m c (tbl (fst (fst s))) (tbl (fst (fst s'))))"
  by unfold_locales (auto simp: statuses_only_def)

lemmas spares_flow = keep_rules.keep_flow [OF spares_rules]

lemma spares_world:
  assumes "keeps (\<lambda>w w'. statuses_only m c (tbl w) (tbl w')) x"
  shows "spares c (on_world x)" "keeps (\<lambda>p p'. statuses_only m c (tbl (fst p)) (tbl (fst p'))) (uncached x)"
  using assms by (auto simp: keeps_def on_world_def on_service_def uncached_def split: prod.splits)

lemma spares_unchanged:
  assumes "keeps (\<lambda>w w'. tbl w' = tbl w) x"
  shows "keeps (\<lambda>w w'. statuses_only m c (tbl w) (tbl w')) x"
  using assms by (auto simp: keeps_def)

lemma spares_service: "keeps (\<lambda>p p'. statuses_only m c (tbl (fst p)) (tbl (fst p'))) x \<Longrightarrow> spares c (on_service x)"
  by (auto simp: keeps_def on_service_def split: prod.splits)

lemma spares_object: "spares c get_object" "spares c (modify_object h)" "spares c (edit_status e)"
  by (auto simp: keeps_def get_object_def modify_object_def edit_status_def)

lemma spares_store: "spares c (store_object (StatusUpdateFailover kc))"
  unfolding store_object_def
  by (intro spares_flow spares_object spares_world spares_unchanged api_unchanged)

lemma spares_group: "spares c (group_at i)" "spares c (edit_group i h)"
  unfolding edit_group_def group_at_def by (auto intro!: spares_flow spares_object)

lemma status_put_only:
  assumes "put_effect \<lparr> pi_TableName = T, pi_Item = cluster_status_item m ns n c h st j t, pi_Condition = cond,
      pi_Names = names, pi_Values = vals \<rparr> t1 = Some t2"
  shows "statuses_only m c t1 t2"
proof -
  have "item_key_of (cluster_status_item m ns n c h st j t) = Some (cluster_key m ns n c)"
    by (simp add: cluster_status_item_def item_key_of_def cluster_key_def)
  then have "t2 k = t1 k" if "k \<noteq> cluster_key m ns n c" for k
    using put_effect_other [OF assms] that by simp
  then show ?thesis by (auto simp: statuses_only_def)
qed

lemma spares_UpdateClusterStatus:
  "keeps (\<lambda>w w'. statuses_only m c (tbl w) (tbl w')) (UpdateClusterStatus rt m ns n c h st j)"
proof -
  have "wp (UpdateClusterStatus rt m ns n c h st j) (\<lambda>r w'. statuses_only m c (tbl w) (tbl w')) w" for w
    unfolding UpdateClusterStatus_def wp_simps
    by (rule wp_now, rule wp_put) (auto simp: wp_simps dest: status_put_only)
  then show ?thesis by (rule wp_keeps)
qed

lemma spares_svc:
  assumes "svo = Some s"
  shows "spares c (on_service (svc_UpdateClusterStatus rt s ns n c h st j))"
    and "keeps (\<lambda>p p'. statuses_only m c (tbl (fst p)) (tbl (fst p'))) (svc_GetAllClusterStatuses rt s ns n)"
    and "keeps (\<lambda>p p'. statuses_only m c (tbl (fst p)) (tbl (fst p'))) (svc_IsLocked rt s ns n)"
proof -
  have rules: "keep_rules (\<lambda>p p'. statuses_only m c (tbl (fst p)) (tbl (fst p')))"
    by unfold_locales (auto simp: statuses_only_def)
  note flow = keep_rules.keep_flow [OF rules]
  have cache: "keeps (\<lambda>p p'. statuses_only m c (tbl (fst p)) (tbl (fst p'))) (change_cache g)" for g
    by (auto simp: keeps_def change_cache_def)
  show "spares c (on_service (svc_UpdateClusterStatus rt s ns n c h st j))"
    unfolding svc_UpdateClusterStatus_def service_manager [OF assms, THEN conjunct2]
    by (auto intro!: spares_service flow cache spares_world spares_UpdateClusterStatus)
  show "keeps (\<lambda>p p'. statuses_only m c (tbl (fst p)) (tbl (fst p'))) (svc_GetAllClusterStatuses rt s ns n)"
    unfolding svc_GetAllClusterStatuses_def service_manager [OF assms, THEN conjunct2]
    by (intro spares_world spares_unchanged unchanged_GetAllClusterStatuses)
  show "keeps (\<lambda>p p'. statuses_only m c (tbl (fst p)) (tbl (fst p'))) (svc_IsLocked rt s ns n)"
    unfolding svc_IsLocked_def delegate_def service_manager [OF assms, THEN conjunct1] option.case
    by (intro spares_world spares_unchanged unchanged_IsLocked)
qed

end

section \<open>The workflows do nothing\<close>

lemmas stage_defs = updateNetworkResourcesForSourceCluster_def disableFluxReconciliation_def
  waitForWorkloadsScaledDown_def demoteVolumes_def waitForVolumesDemoted_def markVolumesReadyForPromotion_def
  waitForVolumesReadyForPromotion_def promoteVolumes_def waitForVolumesPromoted_def verifyDataAvailability_def
  triggerFluxReconciliation_def updateNetworkResourcesForTargetCluster_def recordFailoverHistory_def
  scaleDownWorkloads_def scaleUpWorkloads_def waitForTargetReady_def updateGlobalState_def releaseLock_def
  markTargetReadyForTraffic_def waitForTargetReadyForTraffic_def markTrafficTransitionComplete_def
  waitForTrafficTransitionComplete_def verifyAndAcquireLock_def

lemma check_ret [simp]: "check (ret x) h k = k x"
  by (simp add: check_def try_or_def ret_def)

lemma bind_get_object: "State_Monad.bind get_object (\<lambda>_. x) = x"
  by (cases x) (auto simp: get_object_def State_Monad.bind_def fun_eq_iff)

lemma if_target_ret [simp]: "if_target m (ret ()) = ret ()"
  by (simp add: if_target_def bind_get_object cong: if_cong)

lemma executeConsistencyModeWorkflow_stub: "executeConsistencyModeWorkflow m g = ret ()"
  by (simp add: executeConsistencyModeWorkflow_def stage_defs)

lemma executeUptimeModeWorkflow_stub: "executeUptimeModeWorkflow m g = ret ()"
  by (simp add: executeUptimeModeWorkflow_def stage_defs)

lemma executeFailoverWorkflow_stub: "executeFailoverWorkflow m g = ret ()"
  by (simp add: executeFailoverWorkflow_def executeConsistencyModeWorkflow_stub executeUptimeModeWorkflow_stub Let_def
    bind_get_object cong: if_cong)

section \<open>A whole failover\<close>

context manager_world
begin

lemma spares_verify:
  assumes "mg_DynamoDBManager mgr = svo"
  shows "spares c (on_service (verifyFailoverPossible rt mgr g target))"
proof (rule spares_service)
  have rules: "keep_rules (\<lambda>p p'. statuses_only m c (tbl (fst p)) (tbl (fst p')))"
    by unfold_locales (auto simp: statuses_only_def)
  show "keeps (\<lambda>p p'. statuses_only m c (tbl (fst p)) (tbl (fst p'))) (verifyFailoverPossible rt mgr g target)"
    unfolding verifyFailoverPossible_def Let_def assms
    by (auto intro!: keep_rules.keep_flow [OF rules] spares_svc split: option.split)
qed

lemma spares_fail_group:
  assumes "mg_Client mgr = kc"
  shows "spares c (fail_group mgr i what err)"
  unfolding fail_group_def assms by (auto intro!: spares_flow spares_group spares_store)

lemma spares_clock: "spares c (on_world (time_now rt))"
  by (intro spares_world spares_unchanged unchanged_calls)

lemma spares_processFailoverGroup:
  assumes "mg_Client mgr = kc" "mg_DynamoDBManager mgr = svo" "mg_ClusterName mgr = c"
  shows "spares c (processFailoverGroup rt mgr g i)"
  unfolding processFailoverGroup_def Let_def executeFailoverWorkflow_stub verifyAndAcquireLock_def releaseLock_def assms
  by (auto intro!: spares_flow spares_object spares_group spares_store spares_clock spares_svc spares_verify
      spares_fail_group assms split: option.split outcome.split)

lemma spares_process_all:
  assumes "mg_Client mgr = kc" "mg_DynamoDBManager mgr = svo" "mg_ClusterName mgr = c"
  shows "spares c (process_all_groups rt mgr i refs errs)"
proof (induction refs arbitrary: i errs)
  case (Cons ref refs)
  have "spares c (process_nth_group rt mgr i ref)"
    unfolding process_nth_group_def assms(1)
    by (auto intro!: spares_flow spares_object spares_group spares_world spares_unchanged api_unchanged
        spares_processFailoverGroup assms)
  then show ?case
    by (auto intro!: spares_flow Cons.IH split: outcome.split)
qed (simp add: spares_flow)

lemma spares_updateStatus:
  assumes "mg_Client mgr = kc"
  shows "spares c (Manager_updateFailoverStatus rt mgr status errors)"
  unfolding Manager_updateFailoverStatus_def assms
  by (auto intro!: spares_flow spares_object spares_store spares_clock)

lemma spares_ProcessFailover:
  assumes "mg_Client mgr = kc" "mg_DynamoDBManager mgr = svo" "mg_ClusterName mgr = c"
  shows "spares c (Manager_ProcessFailover rt mgr)"
  unfolding Manager_ProcessFailover_def Let_def assms(1)
  by (auto intro!: spares_flow spares_object spares_store spares_clock spares_process_all spares_updateStatus assms)

end

end
