(* ===== verification/Manager_Properties.thy ===== *)
theory Manager_Properties
  imports Manager_Facts Failover_Properties
begin

text \<open>
  Properties of the failover manager.
\<close>

text \<open>C34: The failover manager moves nothing. Whatever Manager.ProcessFailover reports, a success of all
  groups included, no group has another owner in the database than before, and no record has been
  written but the status records of the manager's own cluster: all stages of its two workflows, the
  lock and the history among them, are stubs.\<close>

theorem failover_manager_moves_nothing:
  assumes "manager_world m rt Z tbl clk kc (mg_DynamoDBManager mgr)" "mg_Client mgr = kc"
    and "run_state (Manager_ProcessFailover rt mgr) ((w, ca), f) = (r, ((w', ca'), f'))"
  shows "owner_of m ns n (tbl w') = owner_of m ns n (tbl w) \<and> statuses_only m (mg_ClusterName mgr) (tbl w) (tbl w')"
  using keepsD [OF manager_world.spares_ProcessFailover [OF assms(1,2) refl refl] assms(3)]
  by (simp add: statuses_only_owner)

interpretation world_manages: manager_world "world_manager strict c" world_runtime 0 world_tbl world_time
    "kube_serving grs" "Some (world_service strict c)" for strict c grs
proof (intro manager_world.intro manager_world_axioms.intro)
  show "manager_store (world_manager strict c) world_runtime 0 world_tbl world_time"
    using world_reliable [of strict c] by (simp add: manager_store_def manager_reliable_def dynamo_reliable_def dynamo_definite_def)
qed (auto simp: keeps_def kube_serving_def world_service_def world_tbl_def run_kube_in_memory)

definition demo_manager :: "world failover_manager" where
  "demo_manager = SetDynamoDBManager (Some (world_service False ''west'')) (NewManager serving_client ''west'')"

definition demo_managed :: "unit outcome \<times> ((world \<times> service_cache) \<times> failover)" where
  "demo_managed = run_state (Manager_ProcessFailover world_runtime demo_manager) ((world_demo demo_request, empty_cache), demo_request)"

lemma demo_managed_succeeds: "(case demo_managed of (r, (p, f)) \<Rightarrow> (r, ft_Status (fo_Status f))) = (Ok (), ''SUCCESS'')"
  by code_simp

theorem failover_manager_moves_nothing_witness:
  "fst demo_managed = Ok () \<and> ft_Status (fo_Status (snd (snd demo_managed))) = ''SUCCESS'' \<and>
   owner_of (world_manager False ''west'') ''ns'' ''g'' (world_tbl (fst (fst (snd demo_managed)))) = ''east''"
proof -
  obtain r w ca f where run: "demo_managed = (r, ((w, ca), f))" by (metis surj_pair)
  have east: "owner_of (world_manager False ''west'') ''ns'' ''g'' (mem_tbl mem_demo) = ''east''"
    by (simp add: owner_of_def or_else_def)
  have client: "mg_Client demo_manager = serving_client" and svo: "mg_DynamoDBManager demo_manager = Some (world_service False ''west'')"
    by (simp_all add: demo_manager_def SetDynamoDBManager_def NewManager_def)
  have "manager_world (world_manager False ''west'') world_runtime 0 world_tbl world_time serving_client (mg_DynamoDBManager demo_manager)"
    unfolding svo serving_client_def by (rule world_manages.manager_world_axioms)
  from failover_manager_moves_nothing [OF this client run [unfolded demo_managed_def], of "''ns''" "''g''"]
  show ?thesis using east demo_managed_succeeds by (simp add: run)
qed

end
