(* ===== verification/Group_Manager.thy ===== *)
theory Group_Manager
  imports Failover_Controller
begin

text \<open>
  internal/controller/failovergroup/manager.go: the manager of FailoverGroups, which keeps the status
  of a group and the database in step. The group that a method is given and changes is the object at
  hand, together with the manager's map of known clusters. A Go map is ranged over in an arbitrary
  order; here it is the order of the list. Logging is left out.
\<close>

record 'w group_manager =
  gm_Client :: "'w kube_client"
  gm_ClusterName :: string
  gm_DynamoDBManager :: "'w dynamo_service option"

type_synonym known_clusters = "(string \<times> string list) list"

record group_hand =
  hd_Group :: failover_group
  hd_Known :: known_clusters

type_synonym ('w, 'a) group_action = "('w, group_hand, 'a) object_action"

definition NewGroupManager :: "'w kube_client \<Rightarrow> string \<Rightarrow> 'w group_manager" where
  "NewGroupManager kc clusterName = \<lparr> gm_Client = kc, gm_ClusterName = clusterName, gm_DynamoDBManager = None \<rparr>"

definition SetGroupDynamoDBManager :: "'w dynamo_service option \<Rightarrow> 'w group_manager \<Rightarrow> 'w group_manager" where
  "SetGroupDynamoDBManager s m = m\<lparr> gm_DynamoDBManager := s \<rparr>"

definition edit_group_status :: "(group_status \<Rightarrow> group_status) \<Rightarrow> ('w, unit) group_action" where
  "edit_group_status h = modify_object (\<lambda>d. d\<lparr> hd_Group := on_group_status h (hd_Group d) \<rparr>)"

definition edit_global :: "(global_state_info \<Rightarrow> global_state_info) \<Rightarrow> ('w, unit) group_action" where
  "edit_global h = edit_group_status (\<lambda>s. s\<lparr> st_GlobalState := h (st_GlobalState s) \<rparr>)"

definition get_group :: "('w, failover_group) group_action" where
  "get_group = State_Monad.bind get_object (\<lambda>d. State_Monad.return (hd_Group d))"

definition global_state :: "failover_group \<Rightarrow> global_state_info" where
  "global_state g = st_GlobalState (gr_Status g)"

definition store_group :: "(failover_group \<Rightarrow> ('w, failover_group outcome) state) \<Rightarrow> ('w, unit outcome) group_action" where
  "store_group write = do {
     g \<leftarrow> get_group;
     check (on_world (write g)) (\<lambda>e. e) (\<lambda>h. do { modify_object (\<lambda>d. d\<lparr> hd_Group := h \<rparr>); ret () })
   }"

text \<open>A call whose error is logged, and that then counts as no result.\<close>

definition try_option :: "('w, 'a outcome) state \<Rightarrow> ('w, 'a option outcome) state" where
  "try_option x = try_or x (\<lambda>_. ret None) (\<lambda>v. ret (Some v))"

section \<open>Known clusters and names\<close>

definition trackKnownCluster :: "string \<Rightarrow> string \<Rightarrow> known_clusters \<Rightarrow> known_clusters" where
  "trackKnownCluster fgKey clusterName known =
     (case map_of known fgKey of
        None \<Rightarrow> map_put fgKey [clusterName] known
      | Some names \<Rightarrow> if clusterName \<in> set names then known else map_put fgKey (names @ [clusterName]) known)"

definition getKnownClusters :: "known_clusters \<Rightarrow> string \<Rightarrow> string list" where
  "getKnownClusters known fgKey = (case map_of known fgKey of Some clusters \<Rightarrow> clusters | None \<Rightarrow> [])"

definition getClusterNames :: "cluster_info list \<Rightarrow> string list" where
  "getClusterNames clusters = map ci_Name clusters"

definition splitClusterName :: "string \<Rightarrow> string list" where
  "splitClusterName clusterName =
     (if CHR ''-'' \<in> set clusterName
      then [takeWhile (\<lambda>c. c \<noteq> CHR ''-'') clusterName, drop 1 (dropWhile (\<lambda>c. c \<noteq> CHR ''-'') clusterName)]
      else [clusterName, ''''])"

section \<open>The status of the resources\<close>

record component_resource =
  cr_Kind :: string
  cr_Name :: string
  cr_Health :: string
  cr_Status :: string

record workload_replication =
  wr_WorkloadKind :: string
  wr_WorkloadName :: string
  wr_VolumeReplications :: "component_resource list"

record status_data =
  sd_Workloads :: "component_resource list"
  sd_NetworkResources :: "component_resource list"
  sd_FluxResources :: "component_resource list"
  sd_VolumeReplications :: "workload_replication list"

text \<open>What a gatherer answers: statuses, health and an error.\<close>

type_synonym 'a gathered = "'a list \<times> string \<times> go_error option"

definition placeholder :: "string \<Rightarrow> string \<Rightarrow> string \<Rightarrow> component_resource gathered" where
  "placeholder kind name status =
     ([\<lparr> cr_Kind = kind, cr_Name = name, cr_Health = HealthOK, cr_Status = status \<rparr>], HealthOK, None)"

definition gatherDeploymentStatuses :: "string \<Rightarrow> workload_spec \<Rightarrow> component_resource gathered" where
  "gatherDeploymentStatuses namespace selector = placeholder ''Deployment'' (wl_Name selector) ''Available''"

definition gatherStatefulSetStatuses :: "string \<Rightarrow> workload_spec \<Rightarrow> component_resource gathered" where
  "gatherStatefulSetStatuses namespace selector = placeholder ''StatefulSet'' (wl_Name selector) ''Available''"

definition gatherCronJobStatuses :: "string \<Rightarrow> workload_spec \<Rightarrow> component_resource gathered" where
  "gatherCronJobStatuses namespace selector = placeholder ''CronJob'' (wl_Name selector) ''Scheduled''"

definition gatherIngressStatuses :: "string \<Rightarrow> network_resource_spec \<Rightarrow> component_resource gathered" where
  "gatherIngressStatuses namespace selector = placeholder ''Ingress'' (nr_Name selector) ''Available''"

definition gatherVirtualServiceStatuses :: "string \<Rightarrow> network_resource_spec \<Rightarrow> component_resource gathered" where
  "gatherVirtualServiceStatuses namespace selector = placeholder ''VirtualService'' (nr_Name selector) ''Available''"

definition gatherKustomizationStatuses :: "string \<Rightarrow> flux_resource_spec \<Rightarrow> component_resource gathered" where
  "gatherKustomizationStatuses namespace selector = placeholder ''Kustomization'' (fx_Name selector) ''Ready''"

definition gatherHelmReleaseStatuses :: "string \<Rightarrow> flux_resource_spec \<Rightarrow> component_resource gathered" where
  "gatherHelmReleaseStatuses namespace selector = placeholder ''HelmRelease'' (fx_Name selector) ''Ready''"

definition gatherStatefulSetVolumeReplications :: "string \<Rightarrow> workload_spec \<Rightarrow> workload_replication gathered" where
  "gatherStatefulSetVolumeReplications namespace workload =
     ([\<lparr> wr_WorkloadKind = wl_Kind workload, wr_WorkloadName = wl_Name workload,
         wr_VolumeReplications = map (\<lambda>vr. \<lparr> cr_Kind = ''VolumeReplication'', cr_Name = vr, cr_Health = HealthOK,
           cr_Status = ''Replicating'' \<rparr>) (wl_VolumeReplications workload) \<rparr>], HealthOK, None)"

text \<open>The loop of the gatherers: a selector of another kind (None) is passed over, an error ends it.
  Where the code checks for ERROR, \<open>escalate\<close> is set: then it counts whatever came before.\<close>

fun gather_all :: "bool \<Rightarrow> ('s \<Rightarrow> 'a gathered option) \<Rightarrow> 's list \<Rightarrow> 'a list \<Rightarrow> string \<Rightarrow> 'a gathered" where
  "gather_all escalate one [] statuses overall = (statuses, overall, None)"
| "gather_all escalate one (selector # selectors) statuses overall =
     (case one selector of
        None \<Rightarrow> gather_all escalate one selectors statuses overall
      | Some (new, health, err) \<Rightarrow>
          if err \<noteq> None then (statuses, HealthDegraded, err)
          else gather_all escalate one selectors (statuses @ new)
            (if escalate \<and> health = HealthError then HealthError
             else if health \<noteq> HealthOK \<and> overall = HealthOK then health else overall))"

definition gatherWorkloadStatuses :: "failover_group \<Rightarrow> component_resource gathered" where
  "gatherWorkloadStatuses fg = gather_all True
     (\<lambda>s. if wl_Kind s = ''Deployment'' then Some (gatherDeploymentStatuses (gr_Namespace fg) s)
          else if wl_Kind s = ''StatefulSet'' then Some (gatherStatefulSetStatuses (gr_Namespace fg) s)
          else if wl_Kind s = ''CronJob'' then Some (gatherCronJobStatuses (gr_Namespace fg) s)
          else None) (sp_Workloads (gr_Spec fg)) [] HealthOK"

definition gatherNetworkResourceStatuses :: "failover_group \<Rightarrow> component_resource gathered" where
  "gatherNetworkResourceStatuses fg = gather_all False
     (\<lambda>s. if nr_Kind s = ''Ingress'' then Some (gatherIngressStatuses (gr_Namespace fg) s)
          else if nr_Kind s = ''VirtualService'' then Some (gatherVirtualServiceStatuses (gr_Namespace fg) s)
          else None) (sp_NetworkResources (gr_Spec fg)) [] HealthOK"

definition gatherFluxResourceStatuses :: "failover_group \<Rightarrow> component_resource gathered" where
  "gatherFluxResourceStatuses fg = gather_all False
     (\<lambda>s. if fx_Kind s = ''Kustomization'' then Some (gatherKustomizationStatuses (gr_Namespace fg) s)
          else if fx_Kind s = ''HelmRelease'' then Some (gatherHelmReleaseStatuses (gr_Namespace fg) s)
          else None) (sp_FluxResources (gr_Spec fg)) [] HealthOK"

definition gatherVolumeReplicationStatuses :: "failover_group \<Rightarrow> workload_replication gathered" where
  "gatherVolumeReplicationStatuses fg = gather_all True
     (\<lambda>w. if wl_Kind w \<noteq> ''StatefulSet'' \<or> wl_VolumeReplications w = [] then None
          else Some (gatherStatefulSetVolumeReplications (gr_Namespace fg) w)) (sp_Workloads (gr_Spec fg)) [] HealthOK"

definition determineOverallHealth :: "string \<Rightarrow> string \<Rightarrow> string \<Rightarrow> string \<Rightarrow> string" where
  "determineOverallHealth workloadHealth networkHealth fluxHealth volumeHealth =
     (if HealthError \<in> {workloadHealth, networkHealth, fluxHealth, volumeHealth} then HealthError
      else if HealthDegraded \<in> {workloadHealth, networkHealth, fluxHealth, volumeHealth} then HealthDegraded
      else HealthOK)"

definition gatherClusterResourceStatuses :: "failover_group \<Rightarrow> status_data \<times> string" where
  "gatherClusterResourceStatuses fg =
     (let (workloads, workloadHealth, _) = gatherWorkloadStatuses fg;
          (networks, networkHealth, _) = gatherNetworkResourceStatuses fg;
          (fluxes, fluxHealth, _) = gatherFluxResourceStatuses fg;
          (volumes, volumeHealth, _) = gatherVolumeReplicationStatuses fg
      in (\<lparr> sd_Workloads = workloads, sd_NetworkResources = networks, sd_FluxResources = fluxes,
            sd_VolumeReplications = volumes \<rparr>,
          determineOverallHealth workloadHealth networkHealth fluxHealth volumeHealth))"

subsection \<open>As JSON\<close>

text \<open>json.Marshal of a StatusData: fields that are empty are omitted.\<close>

definition json_field :: "string \<Rightarrow> string \<Rightarrow> string" where
  "json_field k v = json_string k @ '':'' @ v"

definition json_object :: "string list \<Rightarrow> string" where
  "json_object members = ''{'' @ intercalate '','' members @ ''}''"

definition json_array :: "('a \<Rightarrow> string) \<Rightarrow> 'a list \<Rightarrow> string" where
  "json_array f xs = ''['' @ intercalate '','' (map f xs) @ '']''"

definition json_resource :: "component_resource \<Rightarrow> string" where
  "json_resource r = json_object [json_field ''kind'' (json_string (cr_Kind r)), json_field ''name'' (json_string (cr_Name r)),
     json_field ''health'' (json_string (cr_Health r)), json_field ''status'' (json_string (cr_Status r))]"

definition json_replication :: "workload_replication \<Rightarrow> string" where
  "json_replication r = json_object [json_field ''workloadKind'' (json_string (wr_WorkloadKind r)),
     json_field ''workloadName'' (json_string (wr_WorkloadName r)),
     json_field ''volumeReplications'' (json_array json_resource (wr_VolumeReplications r))]"

definition json_unless_empty :: "string \<Rightarrow> ('a \<Rightarrow> string) \<Rightarrow> 'a list \<Rightarrow> string list" where
  "json_unless_empty k f xs = (if xs = [] then [] else [json_field k (json_array f xs)])"

definition json_status_data :: "status_data \<Rightarrow> string" where
  "json_status_data d = json_object
     (json_unless_empty ''workloads'' json_resource (sd_Workloads d) @
      json_unless_empty ''networkResources'' json_resource (sd_NetworkResources d) @
      json_unless_empty ''fluxResources'' json_resource (sd_FluxResources d) @
      json_unless_empty ''volumeReplications'' json_replication (sd_VolumeReplications d))"

section \<open>Writing this cluster's status\<close>

definition determineClusterRole :: "'w group_manager \<Rightarrow> failover_group \<Rightarrow> string" where
  "determineClusterRole m g = (if gs_ActiveCluster (global_state g) = gm_ClusterName m then ''PRIMARY'' else ''STANDBY'')"

definition UpdateDynamoDBStatus :: "'w go_runtime \<Rightarrow> 'w group_manager \<Rightarrow> failover_group \<Rightarrow> ('w, unit outcome) service_action" where
  "UpdateDynamoDBStatus rt m g =
     (case gm_DynamoDBManager m of
        None \<Rightarrow> ret ()
      | Some s \<Rightarrow>
          let (statusData, health) = gatherClusterResourceStatuses g in
          svc_UpdateClusterStatus rt s (gr_Namespace g) (gr_Name g) (gm_ClusterName m) health
            (determineClusterRole m g) (json_status_data statusData))"

definition Group_UpdateHeartbeat ::
    "(string \<Rightarrow> (string \<times> component_status) list option option) \<Rightarrow> 'w go_runtime \<Rightarrow> 'w group_manager \<Rightarrow> failover_group \<Rightarrow>
     ('w, unit outcome) service_action" where
  "Group_UpdateHeartbeat json_map rt m g =
     (case gm_DynamoDBManager m of
        None \<Rightarrow> ret ()
      | Some s \<Rightarrow> svc_UpdateHeartbeat json_map rt s (gr_Namespace g) (gr_Name g) (gm_ClusterName m))"

section \<open>The local view\<close>

definition configureAsPrimary :: "'w group_manager \<Rightarrow> ('w, unit outcome) group_action" where
  "configureAsPrimary m = ret ()"

definition configureAsStandby :: "'w group_manager \<Rightarrow> ('w, unit outcome) group_action" where
  "configureAsStandby m = ret ()"

definition init_global :: "string \<Rightarrow> global_state_info \<Rightarrow> global_state_info" where
  "init_global clusterName gs =
     (if gs_ActiveCluster gs = ''''
      then \<lparr> gs_ActiveCluster = '''', gs_ThisCluster = clusterName, gs_LastFailover = [], gs_DBSyncStatus = ''Syncing'',
             gs_LastSyncTime = '''', gs_Clusters = [] \<rparr>
      else if gs_DBSyncStatus gs = '''' then gs\<lparr> gs_DBSyncStatus := ''Syncing'' \<rparr> else gs)"

definition choose_active :: "string \<Rightarrow> group_config_record option \<Rightarrow> string \<Rightarrow> string" where
  "choose_active clusterName config active =
     (case config of
        Some c \<Rightarrow> if gc_OwnerCluster c \<noteq> '''' then gc_OwnerCluster c else if active = '''' then clusterName else active
      | None \<Rightarrow> if active = '''' then clusterName else active)"

definition role_of :: "string \<Rightarrow> string \<Rightarrow> string" where
  "role_of activeCluster clusterName = (if clusterName = activeCluster then ''PRIMARY'' else ''STANDBY'')"

text \<open>The other clusters of the database, one by one.\<close>

fun other_clusters ::
    "'w go_runtime \<Rightarrow> 'w group_manager \<Rightarrow> string \<Rightarrow> string \<Rightarrow> statuses \<Rightarrow> ('w, cluster_info list) group_action" where
  "other_clusters rt m fgKey activeCluster [] = State_Monad.return []"
| "other_clusters rt m fgKey activeCluster ((clusterName, status) # sts) =
     (if clusterName = gm_ClusterName m then other_clusters rt m fgKey activeCluster sts
      else do {
        now \<leftarrow> on_world (time_now rt);
        let lastHeartbeat = (if is_zero_time (cs_LastHeartbeat status) then format_rfc3339 now
                             else format_rfc3339 (cs_LastHeartbeat status));
        modify_object (\<lambda>d. d\<lparr> hd_Known := trackKnownCluster fgKey clusterName (hd_Known d) \<rparr>);
        rest \<leftarrow> other_clusters rt m fgKey activeCluster sts;
        State_Monad.return (\<lparr> ci_Name = clusterName, ci_Role = role_of activeCluster clusterName,
          ci_Health = cs_Health status, ci_LastHeartbeat = lastHeartbeat \<rparr> # rest)
      })"

text \<open>Whether a status differs: \<open>existingMap\<close> has the last of the old entries of a name.\<close>

definition clusters_changed :: "cluster_info list \<Rightarrow> cluster_info list \<Rightarrow> bool" where
  "clusters_changed old new \<longleftrightarrow> length old \<noteq> length new \<or>
     list_ex (\<lambda>c. case find (\<lambda>d. ci_Name d = ci_Name c) (rev old) of
         None \<Rightarrow> True
       | Some d \<Rightarrow> ci_Role d \<noteq> ci_Role c \<or> ci_Health d \<noteq> ci_Health c \<or> ci_LastHeartbeat d \<noteq> ci_LastHeartbeat c) new"

definition primary_health :: "cluster_info list \<Rightarrow> string" where
  "primary_health cs = (case find (\<lambda>c. ci_Role c = ''PRIMARY'') cs of Some c \<Rightarrow> ci_Health c | None \<Rightarrow> ''UNKNOWN'')"

definition from_service ::
    "'w dynamo_service option \<Rightarrow> ('w dynamo_service \<Rightarrow> ('w, 'a outcome) service_action) \<Rightarrow> ('w, 'a option outcome) group_action" where
  "from_service s call = (case s of None \<Rightarrow> ret None | Some s \<Rightarrow> try_option (on_service (call s)))"

text \<open>The second half: what has been computed is put into the status and written.\<close>

definition publish_status ::
    "'w go_runtime \<Rightarrow> 'w group_manager \<Rightarrow> bool \<Rightarrow> cluster_info list \<Rightarrow> ('w, unit outcome) group_action" where
  "publish_status rt m updated newClusters = do {
     g \<leftarrow> get_group;
     let clustersChanged = clusters_changed (gs_Clusters (global_state g)) newClusters;
     (if clustersChanged then edit_global (\<lambda>gs. gs\<lparr> gs_Clusters := newClusters \<rparr>) else State_Monad.return ());
     let updated = (updated \<or> clustersChanged);
     g \<leftarrow> get_group;
     check (if updated \<and> gs_ActiveCluster (global_state g) \<noteq> ''''
            then if gs_ActiveCluster (global_state g) = gm_ClusterName m then configureAsPrimary m else configureAsStandby m
            else ret ()) (\<lambda>e. e)
     (\<lambda>_. do {
       g \<leftarrow> get_group;
       let newHealth = primary_health (gs_Clusters (global_state g));
       let healthChanged = (st_Health (gr_Status g) \<noteq> newHealth);
       (if healthChanged then edit_group_status (\<lambda>s. s\<lparr> st_Health := newHealth \<rparr>) else State_Monad.return ());
       check (if updated \<or> healthChanged then store_group (StatusUpdateGroup (gm_Client m)) else ret ())
         (wrapf ''failed to update FailoverGroup health'')
       (\<lambda>_. do {
         g \<leftarrow> get_group;
         if gs_DBSyncStatus (global_state g) \<noteq> ''Synced''
         then do {
           now \<leftarrow> on_world (time_now rt);
           edit_global (\<lambda>gs. gs\<lparr> gs_DBSyncStatus := ''Synced'', gs_LastSyncTime := format_rfc3339 now \<rparr>);
           check (store_group (StatusUpdateGroup (gm_Client m))) (wrapf ''failed to update DBSyncStatus to Synced'') ret
         }
         else ret ()
       })
     })
   }"

definition updateLocalStatus :: "'w go_runtime \<Rightarrow> 'w group_manager \<Rightarrow> ('w, unit outcome) group_action" where
  "updateLocalStatus rt m = do {
     edit_global (init_global (gm_ClusterName m));
     g \<leftarrow> get_group;
     check (from_service (gm_DynamoDBManager m) (\<lambda>s. svc_GetGroupConfig rt s (gr_Namespace g) (gr_Name g))) (\<lambda>e. e)
     (\<lambda>config. do {
       let renamed = (gs_ThisCluster (global_state g) \<noteq> gm_ClusterName m);
       edit_global (\<lambda>gs. gs\<lparr> gs_ThisCluster := gm_ClusterName m \<rparr>);
       let activeCluster = choose_active (gm_ClusterName m) config (gs_ActiveCluster (global_state g));
       let moved = (gs_ActiveCluster (global_state g) \<noteq> activeCluster);
       edit_global (\<lambda>gs. gs\<lparr> gs_ActiveCluster := activeCluster \<rparr>);
       check (from_service (gm_DynamoDBManager m) (\<lambda>s. svc_GetAllClusterStatuses rt s (gr_Namespace g) (gr_Name g))) (\<lambda>e. e)
       (\<lambda>clusterStatuses. do {
         now \<leftarrow> on_world (time_now rt);
         let thisCluster = \<lparr> ci_Name = gm_ClusterName m, ci_Role = role_of activeCluster (gm_ClusterName m),
               ci_Health = ''OK'', ci_LastHeartbeat = format_rfc3339 now \<rparr>;
         others \<leftarrow> other_clusters rt m (gr_Namespace g @ ''/'' @ gr_Name g) activeCluster
           (case clusterStatuses of Some sts \<Rightarrow> sts | None \<Rightarrow> []);
         publish_status rt m (renamed \<or> moved) (thisCluster # others)
       })
     })
   }"

text \<open>The group state that is read first is not used.\<close>

definition SyncWithDynamoDB :: "'w go_runtime \<Rightarrow> 'w group_manager \<Rightarrow> ('w, unit outcome) group_action" where
  "SyncWithDynamoDB rt m =
     (case gm_DynamoDBManager m of
        None \<Rightarrow> ret ()
      | Some s \<Rightarrow> do {
          g \<leftarrow> get_group;
          check (ignore_err (on_service (svc_GetGroupState rt s (gr_Namespace g) (gr_Name g)))) (\<lambda>e. e)
          (\<lambda>_. updateLocalStatus rt m)
        })"

section \<open>Stale clusters\<close>

definition staleThreshold :: int where "staleThreshold = 300 * second"

fun remove_stale ::
    "'w group_manager \<Rightarrow> 'w dynamo_service \<Rightarrow> failover_group \<Rightarrow> go_time \<Rightarrow> statuses \<Rightarrow> ('w, unit outcome) service_action" where
  "remove_stale m s g now [] = ret ()"
| "remove_stale m s g now ((clusterName, status) # sts) =
     check (if clusterName \<noteq> gm_ClusterName m \<and> staleThreshold < time_sub now (cs_LastHeartbeat status)
            then ignore_err (uncached (RemoveClusterStatus (sv_base s) (gr_Namespace g) (gr_Name g) clusterName))
            else ret ()) (\<lambda>e. e)
       (\<lambda>_. remove_stale m s g now sts)"

definition CleanupStaleClusterStatuses ::
    "'w go_runtime \<Rightarrow> 'w group_manager \<Rightarrow> failover_group \<Rightarrow> ('w, unit outcome) service_action" where
  "CleanupStaleClusterStatuses rt m g =
     (case gm_DynamoDBManager m of
        None \<Rightarrow> ret ()
      | Some s \<Rightarrow> check (svc_GetAllClusterStatuses rt s (gr_Namespace g) (gr_Name g))
          (wrapf ''failed to get cluster statuses'')
          (\<lambda>statuses. do {
             now \<leftarrow> uncached (time_now rt);
             remove_stale m s g now statuses
           }))"

section \<open>All groups, periodically\<close>

text \<open>A group of the manager's own: the known clusters stay.\<close>

definition with_group :: "failover_group \<Rightarrow> ('w, 'a) group_action \<Rightarrow> ('w, known_clusters, 'a) object_action" where
  "with_group g x = State (\<lambda>(p, k). case run_state x (p, \<lparr> hd_Group = g, hd_Known = k \<rparr>) of (r, (p', h)) \<Rightarrow> (r, (p', hd_Known h)))"

definition register_cluster :: "'w go_runtime \<Rightarrow> 'w group_manager \<Rightarrow> ('w, unit outcome) group_action" where
  "register_cluster rt m =
     (case gm_DynamoDBManager m of
        None \<Rightarrow> ret ()
      | Some s \<Rightarrow> do {
          g \<leftarrow> get_group;
          try_or (on_service (svc_GetAllClusterStatuses rt s (gr_Namespace g) (gr_Name g)))
            (\<lambda>_. ret ())
            (\<lambda>statuses.
              if gm_ClusterName m \<in> fst ` set statuses then ret ()
              else ignore_err (on_service (svc_UpdateClusterStatus rt s (gr_Namespace g) (gr_Name g) (gm_ClusterName m)
                     ''OK'' (determineClusterRole m g) ''{}'')))
        })"

definition sync_group :: "'w go_runtime \<Rightarrow> 'w group_manager \<Rightarrow> ('w, unit outcome) group_action" where
  "sync_group rt m =
     check (register_cluster rt m) (\<lambda>e. e)
     (\<lambda>_. try_or (SyncWithDynamoDB rt m) (\<lambda>_. ret ())
     (\<lambda>_. do {
       g \<leftarrow> get_group;
       check (ignore_err (on_service (UpdateDynamoDBStatus rt m g))) (\<lambda>e. e)
       (\<lambda>_. ignore_err (on_service (CleanupStaleClusterStatuses rt m g)))
     }))"

fun sync_groups ::
    "'w go_runtime \<Rightarrow> 'w group_manager \<Rightarrow> failover_group list \<Rightarrow> ('w, known_clusters, unit outcome) object_action" where
  "sync_groups rt m [] = ret ()"
| "sync_groups rt m (g # gs) = check (with_group g (sync_group rt m)) (\<lambda>e. e) (\<lambda>_. sync_groups rt m gs)"

definition syncAllFailoverGroups ::
    "'w go_runtime \<Rightarrow> 'w group_manager \<Rightarrow> ('w, known_clusters, unit outcome) object_action" where
  "syncAllFailoverGroups rt m =
     check (on_world (ListFailoverGroups (gm_Client m))) (wrapf ''failed to list FailoverGroups'')
       (\<lambda>items. sync_groups rt m items)"

text \<open>The background loop: its interval, and as many of its ticks as there are before it is stopped.\<close>

definition sync_interval :: "int \<Rightarrow> int" where
  "sync_interval intervalSeconds = (if intervalSeconds \<le> 0 then 30 else intervalSeconds) * second"

fun StartPeriodicSynchronization ::
    "'w go_runtime \<Rightarrow> 'w group_manager \<Rightarrow> int \<Rightarrow> nat \<Rightarrow> ('w, known_clusters, unit outcome) object_action" where
  "StartPeriodicSynchronization rt m intervalSeconds 0 = ret ()"
| "StartPeriodicSynchronization rt m intervalSeconds (Suc ticks) = do {
     stopped \<leftarrow> on_world (timer_wait rt (sync_interval intervalSeconds));
     (case stopped of
        Some _ \<Rightarrow> ret ()
      | None \<Rightarrow> check (ignore_err (syncAllFailoverGroups rt m)) (\<lambda>e. e)
          (\<lambda>_. StartPeriodicSynchronization rt m intervalSeconds ticks))
   }"

section \<open>Stages of a failover\<close>

definition Group_GetFailoverGroup :: "'w group_manager \<Rightarrow> string \<Rightarrow> string \<Rightarrow> ('w, failover_group outcome) state" where
  "Group_GetFailoverGroup m namespace name = GetFailoverGroup (gm_Client m) (namespace, name)"

text \<open>The volume state, if there is one.\<close>

definition GetVolumeStateFromDynamoDB ::
    "'w go_runtime \<Rightarrow> 'w group_manager \<Rightarrow> failover_group \<Rightarrow> ('w, string option outcome) service_action" where
  "GetVolumeStateFromDynamoDB rt m g =
     (case gm_DynamoDBManager m of
        None \<Rightarrow> ret None
      | Some s \<Rightarrow> try_or (svc_GetVolumeState rt s (gr_Namespace g) (gr_Name g)) (\<lambda>_. ret None)
          (\<lambda>volumeState. ret (if volumeState = '''' then None else Some volumeState)))"

type_synonym 'w group_stage = "'w group_manager \<Rightarrow> failover_group \<Rightarrow> ('w, unit outcome) service_action"

definition group_promoteVolumes :: "'w group_stage" where "group_promoteVolumes m g = ret ()"
definition group_waitForVolumesPromoted :: "'w group_stage" where "group_waitForVolumesPromoted m g = ret ()"
definition group_scaleUpWorkloads :: "'w group_stage" where "group_scaleUpWorkloads m g = ret ()"
definition group_triggerFluxReconciliation :: "'w group_stage" where "group_triggerFluxReconciliation m g = ret ()"
definition group_waitForWorkloadsReady :: "'w group_stage" where "group_waitForWorkloadsReady m g = ret ()"
definition group_updateNetworkResources :: "'w group_stage" where "group_updateNetworkResources m g = ret ()"

definition set_volume_state ::
    "'w go_runtime \<Rightarrow> 'w group_manager \<Rightarrow> failover_group \<Rightarrow> string \<Rightarrow> string \<Rightarrow> ('w, unit outcome) service_action" where
  "set_volume_state rt m g st failed =
     (case gm_DynamoDBManager m of
        None \<Rightarrow> ret ()
      | Some s \<Rightarrow> check (svc_SetVolumeState rt s (gr_Namespace g) (gr_Name g) st) (wrapf failed) (\<lambda>_. ret ()))"

definition HandleVolumePromotion ::
    "'w go_runtime \<Rightarrow> 'w group_manager \<Rightarrow> failover_group \<Rightarrow> ('w, unit outcome) service_action" where
  "HandleVolumePromotion rt m g =
     check (group_promoteVolumes m g) (wrapf ''failed to promote volumes'')
     (\<lambda>_. check (group_waitForVolumesPromoted m g) (wrapf ''failed to wait for volumes promotion'')
     (\<lambda>_. set_volume_state rt m g ''PROMOTED'' ''failed to update volume state in DynamoDB''))"

definition HandleTargetActivation ::
    "'w go_runtime \<Rightarrow> 'w group_manager \<Rightarrow> failover_group \<Rightarrow> ('w, unit outcome) service_action" where
  "HandleTargetActivation rt m g =
     check (group_scaleUpWorkloads m g) (wrapf ''failed to scale up workloads'')
     (\<lambda>_. check (group_triggerFluxReconciliation m g) (wrapf ''failed to trigger Flux reconciliation'')
     (\<lambda>_. check (group_waitForWorkloadsReady m g) (wrapf ''failed to wait for workloads to be ready'')
     (\<lambda>_. check (group_updateNetworkResources m g) (wrapf ''failed to update network resources'')
     (\<lambda>_. set_volume_state rt m g ''COMPLETED'' ''failed to update state in DynamoDB''))))"

end
