(* ===== verification/Group_Controller.thy ===== *)
theory Group_Controller
  imports Group_Manager
begin

text \<open>
  internal/controller/failovergroup/controller.go: the reconciler of FailoverGroup objects. The
  object fetched by Reconcile is the object at hand, with the manager's map of known clusters.
  Logging is left out.
\<close>

definition group_finalizerName :: string where
  "group_finalizerName = ''failovergroup.failover-operator.io/finalizer''"

record 'w group_reconciler =
  gl_Client :: "'w kube_client"
  gl_ClusterName :: string
  gl_Manager :: "'w group_manager option"

section \<open>The stages of a failover\<close>

text \<open>Whether it is handled, and how. (A result is dropped when there is an error.)\<close>

definition requeue_after :: "int \<Rightarrow> reconcile_result" where
  "requeue_after d = no_requeue\<lparr> rq_RequeueAfter := d \<rparr>"

definition handled_by ::
    "('w, unit outcome) service_action \<Rightarrow> ('w, reconcile_result option outcome) service_action" where
  "handled_by stage = check stage (\<lambda>e. e) (\<lambda>_. ret (Some (requeue_after (10 * second))))"

definition checkAndHandleFailoverStages ::
    "'w go_runtime \<Rightarrow> 'w group_reconciler \<Rightarrow> 'w group_manager \<Rightarrow> failover_group \<Rightarrow>
     ('w, reconcile_result option outcome) service_action" where
  "checkAndHandleFailoverStages rt rc m g =
     check (GetVolumeStateFromDynamoDB rt m g) (\<lambda>e. e)
     (\<lambda>found. case found of
         None \<Rightarrow> ret None
       | Some volumeState \<Rightarrow>
           if volumeState = ''READY_FOR_PROMOTION'' \<and> gl_ClusterName rc = gs_ActiveCluster (global_state g)
           then handled_by (HandleVolumePromotion rt m g)
           else if volumeState = ''PROMOTED'' \<and> gl_ClusterName rc = gs_ActiveCluster (global_state g)
           then handled_by (HandleTargetActivation rt m g)
           else ret None)"

section \<open>Deletion\<close>

text \<open>Calls of the base manager whose errors are logged.\<close>

definition logged :: "('w, 'a outcome) state \<Rightarrow> ('w, unit outcome) service_action" where
  "logged x = ignore_err (uncached x)"

fun in_order :: "('w, unit outcome) service_action list \<Rightarrow> ('w, unit outcome) service_action" where
  "in_order [] = ret ()"
| "in_order (x # xs) = check x (\<lambda>e. e) (\<lambda>_. in_order xs)"

definition delete_records :: "'w base_manager \<Rightarrow> string \<Rightarrow> string \<Rightarrow> ('w, unit outcome) service_action" where
  "delete_records bm namespace name = in_order
     [logged (DeleteGroupConfig bm namespace name), logged (DeleteAllHistoryRecords bm namespace name),
      logged (DeleteLock bm namespace name), logged (DeleteAllClusterStatuses bm namespace name)]"

text \<open>Whether the ownership went to one of the other healthy clusters, which are tried in turn.\<close>

fun hand_over ::
    "'w go_runtime \<Rightarrow> 'w base_manager \<Rightarrow> string \<Rightarrow> string \<Rightarrow> string \<Rightarrow> statuses \<Rightarrow> ('w, bool outcome) service_action" where
  "hand_over rt bm namespace name clusterName [] = ret False"
| "hand_over rt bm namespace name clusterName ((otherCluster, status) # sts) =
     (if otherCluster \<noteq> clusterName \<and> cs_Health status = ''OK''
      then try_or (uncached (TransferOwnership rt bm namespace name otherCluster))
        (\<lambda>_. hand_over rt bm namespace name clusterName sts) (\<lambda>_. ret True)
      else hand_over rt bm namespace name clusterName sts)"

definition service_option :: "('w, 'a outcome) service_action \<Rightarrow> ('w, 'a option outcome) service_action" where
  "service_option x = try_or x (\<lambda>_. ret None) (\<lambda>v. ret (Some v))"

definition remove_records ::
    "'w go_runtime \<Rightarrow> 'w dynamo_service \<Rightarrow> string \<Rightarrow> string \<Rightarrow> string \<Rightarrow> ('w, unit outcome) service_action" where
  "remove_records rt s clusterName namespace name =
     (let bm = sv_base s in
      check (service_option (svc_GetAllClusterStatuses rt s namespace name)) (\<lambda>e. e)
      (\<lambda>statuses.
        let isLastCluster = (case statuses of None \<Rightarrow> True | Some sts \<Rightarrow> length sts \<le> 1) in
        check (service_option (svc_GetGroupConfig rt s namespace name)) (\<lambda>e. e)
        (\<lambda>groupConfig.
          let isPrimary = (case groupConfig of None \<Rightarrow> False | Some c \<Rightarrow> gc_OwnerCluster c = clusterName) in
          if isLastCluster then delete_records bm namespace name
          else if isPrimary
          then check (hand_over rt bm namespace name clusterName (case statuses of Some sts \<Rightarrow> sts | None \<Rightarrow> [])) (\<lambda>e. e)
            (\<lambda>transferredOwnership. in_order
              [if transferredOwnership then ret () else logged (DeleteGroupConfig bm namespace name),
               logged (RemoveClusterStatus bm namespace name clusterName)])
          else logged (RemoveClusterStatus bm namespace name clusterName))))"

text \<open>The lock is released with the name of its holder for a token.\<close>

definition release_held_lock ::
    "'w go_runtime \<Rightarrow> 'w dynamo_service \<Rightarrow> string \<Rightarrow> string \<Rightarrow> ('w, unit outcome) service_action" where
  "release_held_lock rt s namespace name =
     try_or (svc_IsLocked rt s namespace name)
       (\<lambda>_. ret ())
       (\<lambda>(lockAcquired, leaseToken). if lockAcquired then ignore_err (svc_ReleaseLock s namespace name leaseToken) else ret ())"

definition cleanup_database ::
    "'w go_runtime \<Rightarrow> 'w dynamo_service \<Rightarrow> string \<Rightarrow> string \<Rightarrow> string \<Rightarrow> ('w, unit outcome) service_action" where
  "cleanup_database rt s clusterName namespace name = in_order
     [remove_records rt s clusterName namespace name, release_held_lock rt s namespace name,
      ignore_err (svc_RemoveVolumeState rt s namespace name)]"

definition edit_group_meta :: "(object_meta \<Rightarrow> object_meta) \<Rightarrow> ('w, unit) group_action" where
  "edit_group_meta h = modify_object (\<lambda>d. d\<lparr> hd_Group := (hd_Group d)\<lparr> gr_Meta := h (gr_Meta (hd_Group d)) \<rparr> \<rparr>)"

definition Group_handleDeletion :: "'w go_runtime \<Rightarrow> 'w group_reconciler \<Rightarrow> ('w, unit outcome) group_action" where
  "Group_handleDeletion rt rc = do {
     fg \<leftarrow> get_group;
     if \<not> ContainsFinalizer (gr_Meta fg) group_finalizerName then ret ()
     else (case gl_Manager rc of
         None \<Rightarrow> State_Monad.return Panic
       | Some m \<Rightarrow> (case gm_DynamoDBManager m of
           None \<Rightarrow> State_Monad.return Panic
         | Some s \<Rightarrow>
             check (on_service (cleanup_database rt s (gl_ClusterName rc) (gr_Namespace fg) (gr_Name fg))) (\<lambda>e. e)
             (\<lambda>_. do {
               edit_group_meta (RemoveFinalizer group_finalizerName);
               check (store_group (UpdateGroupObject (gl_Client rc))) (wrapf ''failed to remove finalizer'') ret
             })))
   }"

section \<open>Reconcile\<close>

text \<open>From the fetched object on.\<close>

definition reconcile_group ::
    "(string \<Rightarrow> (string \<times> component_status) list option option) \<Rightarrow> 'w go_runtime \<Rightarrow> 'w group_reconciler \<Rightarrow>
     ('w, reconcile_result outcome) group_action" where
  "reconcile_group json_map rt rc = do {
     g \<leftarrow> get_group;
     if om_DeletionTimestamp (gr_Meta g) \<noteq> None
     then check (Group_handleDeletion rt rc) (\<lambda>e. e) (\<lambda>_. ret no_requeue)
     else if \<not> ContainsFinalizer (gr_Meta g) group_finalizerName
     then do {
       edit_group_meta (AddFinalizer group_finalizerName);
       check (store_group (UpdateGroupObject (gl_Client rc))) (\<lambda>e. e) (\<lambda>_. ret (no_requeue\<lparr> rq_Requeue := True \<rparr>))
     }
     else if st_Suspended (gr_Status g) \<noteq> sp_Suspended (gr_Spec g)
     then check (on_world (StatusUpdateGroup (gl_Client rc)
              (on_group_status (\<lambda>s. s\<lparr> st_Suspended := sp_Suspended (gr_Spec g) \<rparr>) g))) (\<lambda>e. e)
       (\<lambda>fgCopy. do {
          edit_group_status (\<lambda>s. s\<lparr> st_Suspended := st_Suspended (gr_Status fgCopy) \<rparr>);
          ret (no_requeue\<lparr> rq_Requeue := True \<rparr>)
        })
     else (case gl_Manager rc of
         None \<Rightarrow> raise (ErrorString ''FailoverGroup manager not initialized'')
       | Some m \<Rightarrow>
           check (ignore_err (SyncWithDynamoDB rt m)) (\<lambda>e. e)
           (\<lambda>_. do {
             g \<leftarrow> get_group;
             check (on_service (in_order
               [ignore_err (Group_UpdateHeartbeat json_map rt m g),
                ignore_err (UpdateDynamoDBStatus rt m g),
                ignore_err (CleanupStaleClusterStatuses rt m g)])) (\<lambda>e. e)
             (\<lambda>_. check (on_service (checkAndHandleFailoverStages rt rc m g)) (\<lambda>e. e)
             (\<lambda>handled. case handled of
                 Some result \<Rightarrow> ret result
               | None \<Rightarrow> ret (requeue_after (30 * second))))
           }))
   }"

definition Group_Reconcile ::
    "(string \<Rightarrow> (string \<times> component_status) list option option) \<Rightarrow> 'w go_runtime \<Rightarrow> 'w group_reconciler \<Rightarrow> object_key \<Rightarrow>
     ('w, known_clusters, reconcile_result outcome) object_action" where
  "Group_Reconcile json_map rt rc key =
     try_or (on_world (GetFailoverGroup (gl_Client rc) key))
       (\<lambda>e. if is_not_found e then ret no_requeue else raise e)
       (\<lambda>g. with_group g (reconcile_group json_map rt rc))"

text \<open>What SetupWithManager does to the reconciler before it is registered.\<close>

definition setup_manager :: "'w group_reconciler \<Rightarrow> 'w group_reconciler" where
  "setup_manager rc =
     (case gl_Manager rc of
        Some m \<Rightarrow> rc
      | None \<Rightarrow> rc\<lparr> gl_Manager := Some (NewGroupManager (gl_Client rc) (gl_ClusterName rc)) \<rparr>)"

end
