(* ===== verification/Group_Facts.thy ===== *)
theory Group_Facts
  imports Group_Controller Failover_Status "HOL-Library.Multiset"
begin

text \<open>
  Facts about the FailoverGroup manager: the view of the clusters that a synchronisation
  leaves in the status.
\<close>

section \<open>Weakest preconditions\<close>

lemma wp_hand_group [wp_simps]: "wp get_group Q (p, d) = Q (hd_Group d) (p, d)"
  by (simp add: get_group_def wp_simps)

lemma wp_edit_group_meta [wp_simps]: "wp (edit_group_meta h) Q (p, d) =
    Q () (p, d\<lparr> hd_Group := (hd_Group d)\<lparr> gr_Meta := h (gr_Meta (hd_Group d)) \<rparr> \<rparr>)"
  by (simp add: edit_group_meta_def wp_simps)

lemma wp_on_service [wp_simps]: "wp (on_service x) Q (p, f) = wp x (\<lambda>r p'. Q r (p', f)) p"
  by (simp add: wp_def on_service_def split: prod.splits)

section \<open>Comparing the lists of clusters\<close>

lemma clusters_unchanged:
  assumes "\<not> clusters_changed old new" "distinct (map ci_Name new)"
  shows "mset old = mset new"
proof -
  have len: "length old = length new"
    and entry: "\<And>c. c \<in> set new \<Longrightarrow> \<exists>d. find (\<lambda>d. ci_Name d = ci_Name c) (rev old) = Some d \<and>
      ci_Role d = ci_Role c \<and> ci_Health d = ci_Health c \<and> ci_LastHeartbeat d = ci_LastHeartbeat c"
    using assms(1) by (auto simp: clusters_changed_def list_ex_iff split: option.splits)
  have "c \<in> set old" if mem: "c \<in> set new" for c
  proof -
    obtain d where d: "find (\<lambda>d. ci_Name d = ci_Name c) (rev old) = Some d" "ci_Role d = ci_Role c"
      "ci_Health d = ci_Health c" "ci_LastHeartbeat d = ci_LastHeartbeat c" using entry [OF mem] by blast
    have "d \<in> set old" "ci_Name d = ci_Name c" using d(1) by (auto simp: find_Some_iff rev_nth)
    with d show ?thesis by (metis cluster_info.equality old.unit.exhaust)
  qed
  then have sub: "set new \<subseteq> set old" by blast
  have new: "distinct new" using assms(2) by (simp add: distinct_map)
  have "card (set old) = length old" "set new = set old"
    using sub len distinct_card [OF new] card_length [of old] card_mono [OF _ sub] card_subset_eq [OF _ sub] by simp_all
  then have "distinct old" "set old = set new" by (simp_all add: card_distinct)
  then show ?thesis using new by (simp add: set_eq_iff_mset_eq_distinct)
qed

section \<open>The names in the statuses\<close>

definition distinct_names :: "statuses \<Rightarrow> bool" where
  "distinct_names sts \<longleftrightarrow> distinct (map fst sts)"

lemma wp_loop:
  assumes "I s w" "\<And>x s w. I s w \<Longrightarrow> wp (f x s) I w"
  shows "wp (loop f xs s) I w"
  using assms(1)
proof (induction xs arbitrary: s w)
  case Nil
  then show ?case by (simp add: wp_simps)
next
  case (Cons x xs)
  show ?case
    unfolding loop.simps wp_bind by (rule wp_mono [OF assms(2) [OF Cons.prems] Cons.IH])
qed

lemma wp_GetAllClusterStatuses_names:
  "wp (GetAllClusterStatuses rt m ns n) (\<lambda>r w'. \<forall>sts. r = Ok sts \<longrightarrow> distinct_names sts) w"
proof -
  have one: "wp (add_batch_item rt m ns n it sts) (\<lambda>sts' w'. distinct_names sts') w"
    "wp (add_scan_item rt m ns n it sts) (\<lambda>sts' w'. distinct_names sts') w" if "distinct_names sts" for it sts w
    using that unfolding add_batch_item_def add_scan_item_def Let_def wp_simps
    by (auto simp: distinct_names_def intro!: wp_any distinct_map_put)
  have batch: "wp (batch_get_statuses rt m ns n cs sts) (\<lambda>sts' w'. distinct_names sts') w" if "distinct_names sts" for cs sts w
    unfolding batch_get_statuses_def wp_simps
    by (rule wp_any) (auto simp: wp_simps that intro!: wp_loop [where I = "\<lambda>s w. distinct_names s"] one split: outcome.split)
  have scan: "wp (loop (add_scan_item rt m ns n) its []) (\<lambda>sts' w'. distinct_names sts') w" for its w
    by (rule wp_loop) (auto simp: distinct_names_def [of "[]"] intro: one)
  have first: "wp (case q of Ok items \<Rightarrow> loop (batch_get_statuses rt m ns n) (batches 100 (cluster_names items)) []
      | _ \<Rightarrow> State_Monad.return []) (\<lambda>sts' w'. distinct_names sts') w" for q w
    by (cases q) (auto simp: wp_simps distinct_names_def [of "[]"] intro!: wp_loop [where I = "\<lambda>s w. distinct_names s"] batch)
  show ?thesis
    unfolding GetAllClusterStatuses_def wp_bind
  proof (rule wp_any, rule wp_mono [OF first], goal_cases)
    case (1 q s' sts w')
    have "wp (case q of Ok items \<Rightarrow> State_Monad.bind (loop (add_scan_item rt m ns n) items []) (\<lambda>sts'. ret sts') | _ \<Rightarrow> ret sts)
        (\<lambda>r w'. \<forall>sts. r = Ok sts \<longrightarrow> distinct_names sts) w''" for q w''
      using 1 by (cases q) (auto simp: wp_simps intro!: wp_mono [OF scan])
    then have "wp x (\<lambda>q. wp (case q of Ok items \<Rightarrow> State_Monad.bind (loop (add_scan_item rt m ns n) items []) (\<lambda>sts'. ret sts') | _ \<Rightarrow> ret sts)
        (\<lambda>r w'. \<forall>sts. r = Ok sts \<longrightarrow> distinct_names sts)) w'" for x
      by (rule wp_any)
    with 1 show ?case
      unfolding wp_if wp_bind by (simp add: wp_ret)
  qed
qed

section \<open>The view\<close>

text \<open>This cluster is in the list, once as every other; the active cluster alone is PRIMARY, and the
  health of the group is that of its primary.\<close>

definition consistent_view :: "string \<Rightarrow> failover_group \<Rightarrow> bool" where
  "consistent_view c g \<longleftrightarrow>
     (let gs = global_state g; cs = gs_Clusters gs in
      gs_ThisCluster gs = c \<and> gs_DBSyncStatus gs = ''Synced'' \<and> (c \<noteq> '''' \<longrightarrow> gs_ActiveCluster gs \<noteq> '''') \<and>
      c \<in> ci_Name ` set cs \<and> distinct (map ci_Name cs) \<and>
      (\<forall>x \<in> set cs. ci_Role x = role_of (gs_ActiveCluster gs) (ci_Name x)) \<and>
      st_Health (gr_Status g) = primary_health cs)"

text \<open>A list of clusters that may be published.\<close>

definition good_clusters :: "string \<Rightarrow> string \<Rightarrow> cluster_info list \<Rightarrow> bool" where
  "good_clusters c active cs \<longleftrightarrow> c \<in> ci_Name ` set cs \<and> distinct (map ci_Name cs) \<and>
     (\<forall>x \<in> set cs. ci_Role x = role_of active (ci_Name x))"

lemma good_clusters_mset: "good_clusters c active cs \<Longrightarrow> mset ds = mset cs \<Longrightarrow> good_clusters c active ds"
  unfolding good_clusters_def
  by (metis mset_eq_setD mset_map mset_eq_imp_distinct_iff)

lemma wp_edit_global [wp_simps]: "wp (edit_global h) Q (p, d) =
    Q () (p, d\<lparr> hd_Group := on_group_status (\<lambda>s. s\<lparr> st_GlobalState := h (st_GlobalState s) \<rparr>) (hd_Group d) \<rparr>)"
  by (simp add: edit_global_def edit_group_status_def wp_simps)

lemma wp_edit_group_status [wp_simps]: "wp (edit_group_status h) Q (p, d) =
    Q () (p, d\<lparr> hd_Group := on_group_status h (hd_Group d) \<rparr>)"
  by (simp add: edit_group_status_def wp_simps)

text \<open>What the API server answers to a write of the status is what was sent, in a new version.\<close>

locale kube_groups =
  fixes kc :: "'w kube_client"
  assumes group_status_law: "run_state (StatusUpdateGroup kc g) w = (Ok h, w') \<Longrightarrow> gr_Status h = gr_Status g"

context kube_groups
begin

lemma wp_store_status:
  "wp (store_group (StatusUpdateGroup kc)) (\<lambda>r s'. r = Ok () \<longrightarrow> gr_Status (hd_Group (snd s')) = gr_Status (hd_Group (snd s))) s"
proof -
  obtain w ca d where s: "s = ((w, ca), d)" by (cases s) auto
  have "wp (StatusUpdateGroup kc (hd_Group d)) (\<lambda>r w'. \<forall>h. r = Ok h \<longrightarrow> gr_Status h = gr_Status (hd_Group d)) w"
    by (rule wpI) (auto dest: group_status_law)
  then show ?thesis
    unfolding store_group_def s wp_bind wp_hand_group wp_check wp_on_world
  proof (rule wp_mono, goal_cases)
    case (1 r w')
    then show ?case by (cases r) (simp_all add: wp_bind wp_modify_object wp_ret)
  qed
qed

end

lemma wp_other_clusters:
  "wp (other_clusters rt m key active sts) (\<lambda>cs s'. hd_Group (snd s') = hd_Group (snd s) \<and>
      map ci_Name cs = filter (\<lambda>n. n \<noteq> gm_ClusterName m) (map fst sts) \<and>
      (\<forall>x \<in> set cs. ci_Role x = role_of active (ci_Name x))) s"
proof (induction sts arbitrary: s)
  case Nil
  then show ?case by (simp add: wp_simps)
next
  case (Cons p sts)
  obtain n st where p: "p = (n, st)" by (cases p)
  obtain w ca d where s: "s = ((w, ca), d)" by (cases s) auto
  show ?case
  proof (cases "n = gm_ClusterName m")
    case True
    with Cons.IH [of s] show ?thesis by (simp add: p)
  next
    case False
    have rest: "wp (other_clusters rt m key active sts) (\<lambda>cs s'. hd_Group (snd s') = hd_Group d \<and>
        map ci_Name cs = filter (\<lambda>n. n \<noteq> gm_ClusterName m) (map fst sts) \<and>
        (\<forall>x \<in> set cs. ci_Role x = role_of active (ci_Name x))) ((w', ca), d\<lparr> hd_Known := k \<rparr>)" for w' k
      using Cons.IH [of "((w', ca), d\<lparr> hd_Known := k \<rparr>)"] by simp
    show ?thesis
      unfolding p s other_clusters.simps if_not_P [OF False] wp_bind wp_on_world Let_def wp_modify_object wp_return
      by (rule wp_any, rule wp_mono [OF rest]) (auto simp: False)
  qed
qed

lemma wp_set_clusters:
  "wp (if b then edit_global (\<lambda>gs. gs\<lparr> gs_Clusters := new \<rparr>) else State_Monad.return ()) Q (p, d) =
   Q () (p, d\<lparr> hd_Group := on_group_status (\<lambda>s. s\<lparr> st_GlobalState := (st_GlobalState s)
     \<lparr> gs_Clusters := if b then new else gs_Clusters (global_state (hd_Group d)) \<rparr> \<rparr>) (hd_Group d) \<rparr>)"
  by (cases b) (simp_all add: wp_edit_global wp_return on_group_status_def global_state_def)

lemma wp_set_health:
  "wp (if st_Health (gr_Status g) \<noteq> h then edit_group_status (\<lambda>s. s\<lparr> st_Health := h \<rparr>) else State_Monad.return ()) Q
     (p, d\<lparr> hd_Group := g \<rparr>) = Q () (p, d\<lparr> hd_Group := on_group_status (\<lambda>s. s\<lparr> st_Health := h \<rparr>) g \<rparr>)"
  by (auto simp: wp_edit_group_status wp_return on_group_status_def)

text \<open>All of it but the mark.\<close>

definition almost_view :: "string \<Rightarrow> group_status \<Rightarrow> bool" where
  "almost_view c st \<longleftrightarrow>
     (let gs = st_GlobalState st in
      gs_ThisCluster gs = c \<and> (c \<noteq> '''' \<longrightarrow> gs_ActiveCluster gs \<noteq> '''') \<and>
      good_clusters c (gs_ActiveCluster gs) (gs_Clusters gs) \<and> st_Health st = primary_health (gs_Clusters gs))"

lemma consistent_view_iff:
  "consistent_view c g \<longleftrightarrow> almost_view c (gr_Status g) \<and> gs_DBSyncStatus (global_state g) = ''Synced''"
  by (auto simp: consistent_view_def almost_view_def good_clusters_def global_state_def Let_def)

context kube_groups
begin

lemma wp_mark_synced:
  assumes "almost_view c (gr_Status (hd_Group (snd s)))" and m: "gm_Client m = kc"
  shows "wp (get_group \<bind> (\<lambda>g. if gs_DBSyncStatus (global_state g) \<noteq> ''Synced''
         then do {
           now \<leftarrow> on_world (time_now rt);
           edit_global (\<lambda>gs. gs\<lparr> gs_DBSyncStatus := ''Synced'', gs_LastSyncTime := format_rfc3339 now \<rparr>);
           check (store_group (StatusUpdateGroup (gm_Client m))) (wrapf ''failed to update DBSyncStatus to Synced'') ret
         }
         else ret ())) (\<lambda>r s'. r = Ok () \<longrightarrow> consistent_view c (hd_Group (snd s'))) s"
proof -
  obtain w ca d where s: "s = ((w, ca), d)" by (cases s) auto
  let ?d = "\<lambda>now. d\<lparr> hd_Group := on_group_status (\<lambda>s. s\<lparr> st_GlobalState := (st_GlobalState s)
      \<lparr> gs_DBSyncStatus := ''Synced'', gs_LastSyncTime := format_rfc3339 now \<rparr> \<rparr>) (hd_Group d) \<rparr>"
  have view: "consistent_view c (hd_Group (?d now))" for now
    using assms(1) by (simp add: consistent_view_iff almost_view_def global_state_def s Let_def)
  have kept: "consistent_view c h" if "gr_Status h = gr_Status (hd_Group (?d now))" for h now
    using view [of now] that unfolding consistent_view_iff global_state_def by metis
  show ?thesis
  proof (cases "gs_DBSyncStatus (global_state (hd_Group d)) = ''Synced''")
    case True
    then show ?thesis using assms(1) by (simp add: s wp_bind wp_hand_group wp_ret consistent_view_iff)
  next
    case False
    have upd: "wp (check (store_group (StatusUpdateGroup kc)) (wrapf ''failed to update DBSyncStatus to Synced'') ret)
        (\<lambda>r s'. r = Ok () \<longrightarrow> consistent_view c (hd_Group (snd s'))) ((w', ca), ?d now)" for w' now
      unfolding wp_check
      by (rule wp_mono [OF wp_store_status]) (auto simp: wp_ret intro: kept [of _ now] split: outcome.split)
    show ?thesis
      using False unfolding s wp_bind wp_hand_group if_P [OF False] wp_on_world wp_edit_global m
      by (intro wp_any upd)
  qed
qed

lemma wp_publish_status:
  assumes good: "good_clusters c (gs_ActiveCluster (global_state (hd_Group (snd s)))) new"
    and own: "gs_ThisCluster (global_state (hd_Group (snd s))) = c"
    and active: "c \<noteq> '''' \<longrightarrow> gs_ActiveCluster (global_state (hd_Group (snd s))) \<noteq> ''''"
    and m: "gm_Client m = kc"
  shows "wp (publish_status rt m updated new) (\<lambda>r s'. r = Ok () \<longrightarrow> consistent_view c (hd_Group (snd s'))) s"
proof -
  obtain p d where s: "s = (p, d)" by (cases s)
  let ?old = "gs_Clusters (global_state (hd_Group d))"
  let ?cs = "if clusters_changed ?old new then new else ?old"
  let ?g = "on_group_status (\<lambda>s. s\<lparr> st_GlobalState := (st_GlobalState s)\<lparr> gs_Clusters := ?cs \<rparr> \<rparr>) (hd_Group d)"
  let ?h = "on_group_status (\<lambda>s. s\<lparr> st_Health := primary_health ?cs \<rparr>) ?g"
  have cs: "good_clusters c (gs_ActiveCluster (global_state (hd_Group d))) ?cs"
    using good clusters_unchanged [of ?old new] good_clusters_mset [of c _ new ?old]
    by (auto simp: s good_clusters_def)
  have view: "almost_view c (gr_Status ?h)"
    using cs own active by (simp add: almost_view_def global_state_def s Let_def)
  have rest: "wp (check (if b then store_group (StatusUpdateGroup (gm_Client m)) else ret ())
         (wrapf ''failed to update FailoverGroup health'')
       (\<lambda>_. get_group \<bind> (\<lambda>g. if gs_DBSyncStatus (global_state g) \<noteq> ''Synced''
         then do {
           now \<leftarrow> on_world (time_now rt);
           edit_global (\<lambda>gs. gs\<lparr> gs_DBSyncStatus := ''Synced'', gs_LastSyncTime := format_rfc3339 now \<rparr>);
           check (store_group (StatusUpdateGroup (gm_Client m))) (wrapf ''failed to update DBSyncStatus to Synced'') ret
         }
         else ret ()))) (\<lambda>r s'. r = Ok () \<longrightarrow> consistent_view c (hd_Group (snd s'))) (p, d\<lparr> hd_Group := ?h \<rparr>)" for b
  proof -
    have st: "wp (if b then store_group (StatusUpdateGroup (gm_Client m)) else ret ())
        (\<lambda>r s'. r = Ok () \<longrightarrow> gr_Status (hd_Group (snd s')) = gr_Status ?h) (p, d\<lparr> hd_Group := ?h \<rparr>)"
      unfolding wp_if m using wp_store_status [of "(p, d\<lparr> hd_Group := ?h \<rparr>)"] by (simp add: wp_ret)
    show ?thesis
      unfolding wp_check
    proof (rule wp_mono [OF st], goal_cases)
      case (1 r s')
      then show ?case using wp_mark_synced [OF _ m, of c s'] view by (cases r) simp_all
    qed
  qed
  have conf: "wp (check (if b then if b' then configureAsPrimary m else configureAsStandby m else ret ()) (\<lambda>e. e) k) Q s2 = wp (k ()) Q s2"
    for b b' k Q s2
    by (simp add: configureAsPrimary_def configureAsStandby_def wp_check wp_ret)
  have first: "wp (if clusters_changed ?old new then edit_global (\<lambda>gs. gs\<lparr> gs_Clusters := new \<rparr>) else State_Monad.return ()) Q (p, d) =
      Q () (p, d\<lparr> hd_Group := ?g \<rparr>)" for Q
    by (rule wp_set_clusters)
  have second: "wp (if st_Health (gr_Status ?g) \<noteq> primary_health ?cs then edit_group_status (\<lambda>s. s\<lparr> st_Health := primary_health ?cs \<rparr>)
      else State_Monad.return ()) Q (p, d\<lparr> hd_Group := ?g \<rparr>) = Q () (p, d\<lparr> hd_Group := ?h \<rparr>)" for Q
    by (rule wp_set_health)
  have sel: "hd_Group (d\<lparr> hd_Group := x \<rparr>) = x" for x by simp
  have gcs: "gs_Clusters (global_state ?g) = ?cs" by (simp add: global_state_def)
  show ?thesis
    unfolding publish_status_def s wp_bind wp_hand_group Let_def first conf sel gcs second by (rule rest)
qed

end

definition in_step :: "('w group_manager) \<Rightarrow> string \<Rightarrow> failover_group \<Rightarrow> bool" where
  "in_step m active g \<longleftrightarrow> gs_ThisCluster (global_state g) = gm_ClusterName m \<and> gs_ActiveCluster (global_state g) = active"

lemma choose_active_nonempty: "c \<noteq> '''' \<Longrightarrow> choose_active c config active \<noteq> ''''"
  by (simp add: choose_active_def split: option.split)

lemma good_this_others:
  assumes "map ci_Name cs = filter (\<lambda>n. n \<noteq> c) (map fst sts)" "distinct_names sts"
    and "\<forall>x \<in> set cs. ci_Role x = role_of active (ci_Name x)"
  shows "good_clusters c active (\<lparr> ci_Name = c, ci_Role = role_of active c, ci_Health = h, ci_LastHeartbeat = t \<rparr> # cs)"
proof -
  have names: "ci_Name ` set cs = set (filter (\<lambda>n. n \<noteq> c) (map fst sts))"
    using assms(1) by (metis set_map)
  have "distinct (map ci_Name cs)"
    unfolding assms(1) using assms(2) by (simp add: distinct_names_def)
  then show ?thesis using names assms(3) by (auto simp: good_clusters_def)
qed

lemma wp_from_service_statuses:
  "wp (from_service svo (\<lambda>s. svc_GetAllClusterStatuses rt s ns n))
     (\<lambda>r s'. snd s' = snd s \<and> (\<forall>v. r = Ok v \<longrightarrow> distinct_names (case v of Some sts \<Rightarrow> sts | None \<Rightarrow> []))) s"
proof -
  obtain w ca d where s: "s = ((w, ca), d)" by (cases s) auto
  show ?thesis
    unfolding from_service_def try_option_def s
    by (auto simp: svc_GetAllClusterStatuses_def wp_try_or wp_ret wp_on_service wp_uncached distinct_names_def [of "[]"]
        intro!: wp_mono [OF wp_GetAllClusterStatuses_names] split: option.split outcome.split)
qed

lemma wp_from_service_hand: "wp (from_service svo call) (\<lambda>r s'. snd s' = snd s) s"
proof -
  obtain p d where s: "s = (p, d)" by (cases s)
  show ?thesis
    unfolding from_service_def try_option_def s
    by (auto simp: wp_try_or wp_ret wp_on_service intro!: wp_any split: option.split outcome.split)
qed

context kube_groups
begin

lemma wp_updateLocalStatus:
  assumes m: "gm_Client m = kc"
  shows "wp (updateLocalStatus rt m) (\<lambda>r s'. r = Ok () \<longrightarrow> consistent_view (gm_ClusterName m) (hd_Group (snd s'))) s"
proof -
  let ?c = "gm_ClusterName m"
  obtain p d where s: "s = (p, d)" by (cases s)
  let ?d = "d\<lparr> hd_Group := on_group_status (\<lambda>s. s\<lparr> st_GlobalState := init_global ?c (st_GlobalState s) \<rparr>) (hd_Group d) \<rparr>"
  have publish: "wp (publish_status rt m b new) (\<lambda>r s'. r = Ok () \<longrightarrow> consistent_view ?c (hd_Group (snd s'))) s3"
    if "in_step m (choose_active ?c config a) (hd_Group (snd s3))" "good_clusters ?c (choose_active ?c config a) new"
    for b new s3 config a
    using wp_publish_status [OF _ _ _ m, of ?c s3 new] that choose_active_nonempty [of ?c config a] by (simp add: in_step_def)
  have others: "wp (on_world (time_now rt) \<bind> (\<lambda>now.
         let thisCluster = \<lparr> ci_Name = ?c, ci_Role = role_of active ?c, ci_Health = ''OK'', ci_LastHeartbeat = format_rfc3339 now \<rparr>
         in other_clusters rt m key active (case sts of Some x \<Rightarrow> x | None \<Rightarrow> []) \<bind>
           (\<lambda>others. publish_status rt m b (thisCluster # others))))
      (\<lambda>r s'. r = Ok () \<longrightarrow> consistent_view ?c (hd_Group (snd s'))) s2"
    if "active = choose_active ?c config a" "in_step m active (hd_Group (snd s2))"
      "distinct_names (case sts of Some x \<Rightarrow> x | None \<Rightarrow> [])" for active key sts b s2 config a
  proof -
    obtain w2 ca2 d2 where s2: "s2 = ((w2, ca2), d2)" by (cases s2) auto
    show ?thesis
      unfolding Let_def wp_bind s2 wp_on_world
    proof (rule wp_any, rule wp_mono [OF wp_other_clusters], goal_cases)
      case (1 now w3 cs s3)
      show ?case
        by (rule publish [of config a, folded that(1)])
          (use 1 that good_this_others [OF _ that(3)] in \<open>auto simp: s2\<close>)
    qed
  qed
  show ?thesis
    unfolding updateLocalStatus_def s wp_bind wp_edit_global wp_hand_group wp_check
  proof (rule wp_mono [OF wp_from_service_hand], goal_cases)
    case (1 r s1)
    then obtain p1 where s1: "s1 = (p1, ?d)" by (cases s1) simp
    show ?case
    proof (cases r)
      case (Ok config)
      show ?thesis
        unfolding Ok outcome.case s1 Let_def wp_bind wp_edit_global wp_hand_group wp_check
      proof (rule wp_mono [OF wp_from_service_statuses], goal_cases)
        case (1 r2 s2)
        let ?active = "choose_active ?c config (gs_ActiveCluster (global_state (hd_Group ?d)))"
        show ?case
        proof (cases r2)
          case (Ok sts)
          have "in_step m ?active (hd_Group (snd s2))" using 1 by (simp add: in_step_def global_state_def)
          moreover have "distinct_names (case sts of Some x \<Rightarrow> x | None \<Rightarrow> [])" using 1 Ok by simp
          ultimately show ?thesis
            unfolding Ok outcome.case by (rule others [OF refl, unfolded Let_def wp_bind])
        qed simp_all
      qed
    qed simp_all
  qed
qed

lemma wp_SyncWithDynamoDB:
  assumes "gm_Client m = kc" "gm_DynamoDBManager m = Some sv"
  shows "wp (SyncWithDynamoDB rt m) (\<lambda>r s'. r = Ok () \<longrightarrow> consistent_view (gm_ClusterName m) (hd_Group (snd s'))) s"
proof -
  obtain p d where s: "s = (p, d)" by (cases s)
  show ?thesis
    unfolding SyncWithDynamoDB_def assms(2) option.case s wp_bind wp_hand_group wp_check
    by (rule wp_any) (use wp_updateLocalStatus [OF assms(1)] in \<open>auto split: outcome.split\<close>)
qed

end

end
