(* ===== verification/Group_Properties.thy ===== *)
theory Group_Properties
  imports Group_Facts Failover_Properties
begin

text \<open>
  Facts and properties of the reconciler of FailoverGroups: what a deletion leaves in the database.
\<close>

section \<open>The configuration comes back\<close>

context manager_reliable
begin

text \<open>RemoveVolumeState reads the configuration, which creates a missing one, and writes it again.\<close>

lemma wp_RemoveVolumeState_present:
  "wp (RemoveVolumeState rt m ns n) (\<lambda>r w'. tbl w' (config_key m ns n) \<noteq> None) w"
proof -
  have upd: "wp (UpdateGroupConfig rt m c) (\<lambda>r w'. tbl w' (config_key m ns n) \<noteq> None) w'"
    if here: "tbl w' (config_key m ns n) \<noteq> None" for c w'
    by (rule wp_UpdateGroupConfig_ok) (use here in \<open>auto dest!: config_cas_SomeD\<close>)
  show ?thesis
    unfolding RemoveVolumeState_def wp_check
    by (rule wp_GetGroupConfig_ok) (auto simp: wp_simps split: option.split intro!: wp_mono [OF upd])
qed

lemma wp_cleanup_database:
  assumes "sv_volumeState s = Some m"
  shows "wp (cleanup_database rt s c ns n) (\<lambda>r p'. r = Ok () \<longrightarrow> tbl (fst p') (config_key m ns n) \<noteq> None) p"
proof -
  have last: "wp (in_order [ignore_err (svc_RemoveVolumeState rt s ns n)])
      (\<lambda>r p'. r = Ok () \<longrightarrow> tbl (fst p') (config_key m ns n) \<noteq> None) q" for q :: "'w \<times> service_cache"
  proof -
    obtain w ca where q: "q = (w, ca)" by (cases q)
    show ?thesis
      unfolding in_order.simps svc_RemoveVolumeState_def delegate_def assms option.case q wp_check wp_ignore_err wp_uncached
      by (rule wp_mono [OF wp_RemoveVolumeState_present]) (auto simp: wp_ret split: outcome.split)
  qed
  have skip: "wp (in_order (x # xs)) Q q" if "\<And>q. wp (in_order xs) Q q" "\<And>r q. \<not> is_ok r \<Longrightarrow> Q r q"
    for x :: "('w, unit outcome) service_action" and xs Q q
    unfolding in_order.simps wp_check by (rule wp_any) (auto simp: that split: outcome.split)
  show ?thesis
    unfolding cleanup_database_def by (rule skip, rule skip, rule last) auto
qed

end

text \<open>C18: A deletion does not empty the database. When the last FailoverGroup object of a group is deleted,
  all records of the group are to be removed; but the last step of the clean-up, which removes the
  volume state, reads the configuration and thereby creates it again. Whatever the deletion did
  before: when it ends without an error, the group has a configuration record.\<close>

theorem deletion_leaves_configuration:
  assumes "manager_reliable m rt Z tbl clk" "sv_volumeState s = Some m"
    and "gl_Manager rc = Some gm" "gm_DynamoDBManager gm = Some s"
    and "\<forall>g w r w'. run_state (UpdateGroupObject (gl_Client rc) g) w = (r, w') \<longrightarrow> tbl w' = tbl w"
    and "ContainsFinalizer (gr_Meta (hd_Group d)) group_finalizerName"
    and "run_state (Group_handleDeletion rt rc) ((w, ca), d) = (Ok (), ((w', ca'), d'))"
  shows "tbl w' (config_key m (gr_Namespace (hd_Group d)) (gr_Name (hd_Group d))) \<noteq> None"
proof -
  let ?k = "config_key m (gr_Namespace (hd_Group d)) (gr_Name (hd_Group d))"
  let ?Q = "\<lambda>r s'. r = Ok () \<longrightarrow> tbl (fst (fst s')) ?k \<noteq> None"
  have fin: "(\<not> ContainsFinalizer (gr_Meta (hd_Group d)) group_finalizerName) = False" using assms(6) by simp
  have "wp (Group_handleDeletion rt rc) ?Q ((w, ca), d)"
    unfolding Group_handleDeletion_def wp_bind wp_hand_group assms(3,4) option.case
      fin if_False wp_check wp_on_service
  proof (rule wp_mono [OF manager_reliable.wp_cleanup_database [OF assms(1,2)]], goal_cases)
    case (1 r p')
    obtain w1 ca1 where p': "p' = (w1, ca1)" by (cases p')
    have api: "wp (UpdateGroupObject (gl_Client rc) g) (\<lambda>r w'. tbl w' = tbl w1) w1" for g
      by (rule wpI) (use assms(5) in blast)
    show ?case
      using 1 by (cases r) (auto simp: p' store_group_def wp_simps wp_on_world intro!: wp_mono [OF api] split: outcome.split)
  qed
  from wpD [OF assms(7) this] show ?thesis by simp
qed

section \<open>A deletion in memory\<close>

definition kube_writing :: "('w \<times> kube_store) kube_client" where
  "kube_writing = kube_in_memory\<lparr> UpdateGroupObject := ret, StatusUpdateGroup := ret \<rparr>"

definition west_manager :: "world group_manager" where
  "west_manager = SetGroupDynamoDBManager (Some (world_service False ''west'')) (NewGroupManager kube_writing ''west'')"

definition west_reconciler :: "world group_reconciler" where
  "west_reconciler = \<lparr> gl_Client = kube_writing, gl_ClusterName = ''west'', gl_Manager = Some west_manager \<rparr>"

definition last_group :: group_hand where
  "last_group = \<lparr> hd_Group = (demo_group [])\<lparr> gr_Meta := AddFinalizer group_finalizerName (demo_meta ''g'') \<rparr>, hd_Known = [] \<rparr>"

definition last_deletion :: "unit outcome \<times> ((world \<times> service_cache) \<times> group_hand)" where
  "last_deletion = run_state (Group_handleDeletion world_runtime west_reconciler)
     (((mem_with [group_config_item (demo_config ''west'' '''' 2), demo_status ''west'' HealthOK StatePrimary], Map.empty),
       empty_cache), last_group)"

lemma last_deletion_ends: "fst last_deletion = Ok ()"
  by code_simp

theorem deletion_leaves_configuration_witness:
  "fst last_deletion = Ok () \<and>
   world_tbl (fst (fst (snd last_deletion))) (''GROUP#op#ns#g'', ''CONFIG'') \<noteq> None"
proof -
  obtain w ca d where run: "last_deletion = (Ok (), ((w, ca), d))"
    using last_deletion_ends by (metis prod.collapse)
  have "gl_Manager west_reconciler = Some west_manager" "gm_DynamoDBManager west_manager = Some (world_service False ''west'')"
    "sv_volumeState (world_service False ''west'') = Some (world_manager False ''west'')"
    by (simp_all add: west_reconciler_def west_manager_def SetGroupDynamoDBManager_def world_service_def)
  moreover have "\<forall>g w r w'. run_state (UpdateGroupObject (gl_Client west_reconciler) g) w = (r, w') \<longrightarrow> world_tbl w' = world_tbl w"
    by (simp add: west_reconciler_def kube_writing_def ret_def)
  moreover have "ContainsFinalizer (gr_Meta (hd_Group last_group)) group_finalizerName"
    by (simp add: last_group_def AddFinalizer_def ContainsFinalizer_def demo_meta_def)
  moreover have "gr_Namespace (hd_Group last_group) = ''ns''" "gr_Name (hd_Group last_group) = ''g''"
    by (simp_all add: last_group_def AddFinalizer_def ContainsFinalizer_def demo_meta_def)
  ultimately show ?thesis
    using deletion_leaves_configuration [OF world_reliable _ _ _ _ _ run [unfolded last_deletion_def], of "world_service False ''west''"]
    by (simp add: run)
qed

section \<open>The view of the clusters\<close>

text \<open>C11: A synchronisation that ends without an error leaves a consistent view in the status, whatever the
  database answered and whatever the status was: this cluster is in the list of clusters, no cluster is
  there twice, the active cluster and no other is PRIMARY, the health of the group is that of the
  primary, and the status is marked as synced. When the list is kept because nothing seems to have
  changed, the old list has the same entries as the new one.\<close>

theorem synchronised_view:
  assumes "kube_groups (gm_Client m)" "gm_DynamoDBManager m = Some sv"
    and "run_state (SyncWithDynamoDB rt m) ((w, ca), d) = (Ok (), ((w', ca'), d'))"
  shows "consistent_view (gm_ClusterName m) (hd_Group d')"
  using wpD [OF assms(3) kube_groups.wp_SyncWithDynamoDB [OF assms(1) refl assms(2)]] by simp

interpretation writing: kube_groups "kube_writing :: ('w \<times> kube_store) kube_client"
  by unfold_locales (auto simp: kube_writing_def ret_def)

definition west_sync :: "unit outcome \<times> ((world \<times> service_cache) \<times> group_hand)" where
  "west_sync = run_state (SyncWithDynamoDB world_runtime west_manager)
     (((mem_demo, Map.empty), empty_cache), \<lparr> hd_Group = demo_group [], hd_Known = [] \<rparr>)"

lemma west_sync_ends:
  "(case west_sync of (r, (p, d)) \<Rightarrow> (r, map ci_Name (gs_Clusters (global_state (hd_Group d))))) = (Ok (), [''west'', ''east''])"
  by code_simp

theorem synchronised_view_witness:
  "consistent_view ''west'' (hd_Group (snd (snd west_sync))) \<and>
   map ci_Name (gs_Clusters (global_state (hd_Group (snd (snd west_sync))))) = [''west'', ''east'']"
proof -
  obtain r w ca d where run: "west_sync = (r, ((w, ca), d))" by (metis surj_pair)
  have ok: "r = Ok ()" using west_sync_ends by (simp add: run)
  have "kube_groups (gm_Client west_manager)" "gm_DynamoDBManager west_manager = Some (world_service False ''west'')"
    "gm_ClusterName west_manager = ''west''"
    using writing.kube_groups_axioms by (simp_all add: west_manager_def SetGroupDynamoDBManager_def NewGroupManager_def)
  then show ?thesis
    using synchronised_view [OF _ _ run [unfolded west_sync_def ok]] west_sync_ends by (simp add: run)
qed

end
