(* ===== verification/Resource_Client.thy ===== *)
theory Resource_Client
  imports Kube_Client Go_Text Dynamo_Client
begin

text \<open>
  What the managers of workloads, network resources, volumes and Flux resources share: the client
  for one kind of object, the steps \<open>get, change, update\<close> and \<open>get, look\<close> that their methods
  take, the loops over names, and the waiting functions of k8s.io/apimachinery, which are
  parameters with a contract.
\<close>

section \<open>Objects of one kind\<close>

text \<open>\<open>Get\<close> and \<open>Update\<close> of controller-runtime's client at one kind of object.\<close>

record ('w, 'a) resource_client =
  rs_Get :: "object_key \<Rightarrow> ('w, 'a outcome) state"
  rs_Update :: "'a \<Rightarrow> ('w, 'a outcome) state"

text \<open>An object is fetched and changed; no change (None) is not written.\<close>

definition edit_resource ::
    "('w, 'a) resource_client \<Rightarrow> object_key \<Rightarrow> ('a \<Rightarrow> 'a option outcome) \<Rightarrow> ('w, unit outcome) state" where
  "edit_resource kc key h =
     check (rs_Get kc key) (\<lambda>e. e)
     (\<lambda>x. check (State_Monad.return (h x)) (\<lambda>e. e)
     (\<lambda>changed. case changed of
         None \<Rightarrow> ret ()
       | Some y \<Rightarrow> check (rs_Update kc y) (\<lambda>e. e) (\<lambda>_. ret ())))"

text \<open>An object is fetched and looked at.\<close>

definition query_resource ::
    "('w, 'a) resource_client \<Rightarrow> object_key \<Rightarrow> ('a \<Rightarrow> 'b outcome) \<Rightarrow> ('w, 'b outcome) state" where
  "query_resource kc key h = check (rs_Get kc key) (\<lambda>e. e) (\<lambda>x. State_Monad.return (h x))"

text \<open>Loops over names: errors are logged, or the first one ends it.\<close>

fun for_each :: "(string \<Rightarrow> ('w, unit outcome) state) \<Rightarrow> string list \<Rightarrow> ('w, unit outcome) state" where
  "for_each f [] = ret ()"
| "for_each f (name # names) = check (ignore_err (f name)) (\<lambda>e. e) (\<lambda>_. for_each f names)"

fun all_in_turn :: "(string \<Rightarrow> ('w, unit outcome) state) \<Rightarrow> string list \<Rightarrow> ('w, unit outcome) state" where
  "all_in_turn f [] = ret ()"
| "all_in_turn f (name # names) = check (f name) (\<lambda>e. e) (\<lambda>_. all_in_turn f names)"

section \<open>Annotations\<close>

definition annotation :: "object_meta \<Rightarrow> string \<Rightarrow> string option" where
  "annotation mt k = map_of (om_Annotations mt) k"

definition set_annotation :: "string \<Rightarrow> string \<Rightarrow> object_meta \<Rightarrow> object_meta" where
  "set_annotation k v mt = mt\<lparr> om_Annotations := map_put k v (om_Annotations mt) \<rparr>"

definition del_annotation :: "string \<Rightarrow> object_meta \<Rightarrow> object_meta" where
  "del_annotation k mt = mt\<lparr> om_Annotations := map_del k (om_Annotations mt) \<rparr>"

text \<open>\<open>m[k]\<close> of a map of texts: the empty text when there is no entry.\<close>

definition text_at :: "object_meta \<Rightarrow> string \<Rightarrow> string" where
  "text_at mt k = (case annotation mt k of Some v \<Rightarrow> v | None \<Rightarrow> '''')"

lemma annotation_set [simp]: "annotation (set_annotation k v mt) j = (if j = k then Some v else annotation mt j)"
  by (simp add: annotation_def set_annotation_def)

lemma annotation_del [simp]: "annotation (del_annotation k mt) j = (if j = k then None else annotation mt j)"
  by (simp add: annotation_def del_annotation_def)

lemma set_annotation_sel [simp]:
  "om_Name (set_annotation k v mt) = om_Name mt" "om_Namespace (set_annotation k v mt) = om_Namespace mt"
  "om_ResourceVersion (set_annotation k v mt) = om_ResourceVersion mt"
  by (simp_all add: set_annotation_def)

lemma del_annotation_sel [simp]:
  "om_Name (del_annotation k mt) = om_Name mt" "om_Namespace (del_annotation k mt) = om_Namespace mt"
  "om_ResourceVersion (del_annotation k mt) = om_ResourceVersion mt"
  by (simp_all add: del_annotation_def)

definition meta_key :: "object_meta \<Rightarrow> object_key" where
  "meta_key mt = (om_Namespace mt, om_Name mt)"

lemma meta_key_annotations [simp]:
  "meta_key (set_annotation k v mt) = meta_key mt" "meta_key (del_annotation k mt) = meta_key mt"
  by (simp_all add: meta_key_def)

section \<open>The contract of the API server\<close>

text \<open>
  \<open>objs\<close> is the stored objects. A write stores what the client decides of the object (\<open>part\<close>: the
  specification and the metadata it may change; the server keeps the rest), or fails; a failed
  call has had its effect or none.
\<close>

locale resource_store =
  fixes kc :: "('w, 'a) resource_client" and key_of :: "'a \<Rightarrow> object_key" and part :: "'a \<Rightarrow> 'p"
    and objs :: "'w \<Rightarrow> object_key \<Rightarrow> 'a option"
  assumes get_law: "run_state (rs_Get kc k) w = (r, w') \<Longrightarrow>
      objs w' = objs w \<and> r \<noteq> Panic \<and> (\<forall>x. r = Ok x \<longrightarrow> objs w k = Some x)"
    and update_law: "run_state (rs_Update kc x) w = (r, w') \<Longrightarrow>
      r \<noteq> Panic \<and> (objs w' = objs w \<and> is_err r \<or>
        (\<exists>y. part y = part x \<and> objs w (key_of x) \<noteq> None \<and> objs w' = (objs w)(key_of x \<mapsto> y)))"
    and keyed: "objs w k = Some x \<Longrightarrow> key_of x = k"

text \<open>A server that answers: a stored object is read, and a write of what was read is accepted.\<close>

locale resource_reliable = resource_store +
  fixes version :: "'a \<Rightarrow> string"
  assumes get_answered: "run_state (rs_Get kc k) w = (r, w') \<Longrightarrow> objs w k = Some x \<Longrightarrow> is_ok r"
    and update_answered: "run_state (rs_Update kc x) w = (r, w') \<Longrightarrow> objs w (key_of x) = Some y \<Longrightarrow>
      version x = version y \<Longrightarrow> is_ok r"

text \<open>What a write does: the object under a key becomes one whose \<open>part\<close> is the written one's.\<close>

definition edited ::
    "('a \<Rightarrow> 'p) \<Rightarrow> object_key \<Rightarrow> ('a \<Rightarrow> 'a option outcome) \<Rightarrow> (object_key \<Rightarrow> 'a option) \<Rightarrow> (object_key \<Rightarrow> 'a option) \<Rightarrow> bool" where
  "edited part k h st st' \<longleftrightarrow> (\<exists>x y z. st k = Some x \<and> h x = Ok (Some y) \<and> part z = part y \<and> st' = st(k \<mapsto> z))"

context resource_store
begin

lemma wp_query:
  "wp (query_resource kc k h) (\<lambda>r w'. objs w' = objs w \<and>
     (\<forall>v. r = Ok v \<longrightarrow> (\<exists>x. objs w k = Some x \<and> h x = Ok v)) \<and> (r = Panic \<longrightarrow> (\<exists>x. objs w k = Some x \<and> h x = Panic))) w"
  unfolding query_resource_def wp_check
  by (rule wpI) (auto dest!: get_law split: outcome.splits simp: wp_simps)

text \<open>An edit changes one object at most, and only as it says.\<close>

lemma wp_edit:
  assumes "\<And>x y. h x = Ok (Some y) \<Longrightarrow> key_of y = key_of x"
  shows "wp (edit_resource kc k h) (\<lambda>r w'.
     (objs w' = objs w \<or> edited part k h (objs w) (objs w')) \<and>
     (r = Ok () \<longrightarrow> (\<exists>x. objs w k = Some x \<and> h x = Ok None \<and> objs w' = objs w) \<or> edited part k h (objs w) (objs w'))) w"
    (is "wp _ ?Q w")
  unfolding edit_resource_def wp_check
proof (rule wpI, goal_cases)
  case (1 r w1)
  note g = get_law [OF 1]
  show ?case
  proof (cases r)
    case (Ok x)
    then have x: "objs w k = Some x" "objs w1 = objs w" using g by auto
    have upd: "wp (rs_Update kc y) (\<lambda>r w'. r \<noteq> Panic \<and> (objs w' = objs w \<and> is_err r \<or> edited part k h (objs w) (objs w'))) w1"
      if y: "h x = Ok (Some y)" for y
      using update_law [of y w1] assms [OF y] keyed [OF x(1)] x y
      by (fastforce intro!: wpI simp: edited_def)
    show ?thesis
    proof (cases "h x")
      case [simp]: (Ok c)
      show ?thesis
      proof (cases c)
        case (Some y)
        then show ?thesis
          by (auto simp: \<open>r = Ok x\<close> wp_simps x intro!: wp_mono [OF upd] split: outcome.splits)
      qed (use x in \<open>simp add: \<open>r = Ok x\<close> wp_simps\<close>)
    qed (use x in \<open>auto simp: \<open>r = Ok x\<close> wp_simps\<close>)
  qed (use g in auto)
qed

end

context resource_reliable
begin

lemma wp_get_answered:
  assumes "objs w k = Some x"
  shows "wp (rs_Get kc k) (\<lambda>r w'. r = Ok x \<and> objs w' = objs w) w"
proof (rule wpI)
  fix r w' assume run: "run_state (rs_Get kc k) w = (r, w')"
  from get_law [OF run] get_answered [OF run assms] assms show "r = Ok x \<and> objs w' = objs w"
    by (auto simp: is_ok_iff)
qed

lemma wp_update_answered:
  assumes "objs w (key_of x) = Some y" "version x = version y"
  shows "wp (rs_Update kc x) (\<lambda>r w'. is_ok r \<and> (\<exists>z. part z = part x \<and> objs w' = (objs w)(key_of x \<mapsto> z))) w"
proof (rule wpI)
  fix r w' assume run: "run_state (rs_Update kc x) w = (r, w')"
  have "is_ok r" by (rule update_answered [OF run assms])
  with update_law [OF run] show "is_ok r \<and> (\<exists>z. part z = part x \<and> objs w' = (objs w)(key_of x \<mapsto> z))"
    by (cases r) auto
qed

lemma wp_edit_answered:
  assumes "objs w k = Some x" "h x \<noteq> Panic"
    and "\<And>y. h x = Ok (Some y) \<Longrightarrow> key_of y = key_of x \<and> version y = version x"
  shows "wp (edit_resource kc k h) (\<lambda>r w'.
     (case h x of
        Ok (Some y) \<Rightarrow> r = Ok () \<and> (\<exists>z. part z = part y \<and> objs w' = (objs w)(k \<mapsto> z))
      | Ok None \<Rightarrow> r = Ok () \<and> objs w' = objs w
      | Err e \<Rightarrow> r = Err e \<and> objs w' = objs w
      | Panic \<Rightarrow> False)) w"
  unfolding edit_resource_def wp_check
proof (rule wp_mono [OF wp_get_answered [OF assms(1)]], goal_cases)
  case (1 r w1)
  then have g: "r = Ok x" "objs w1 = objs w" by auto
  show ?case
  proof (cases "h x")
    case [simp]: (Ok c)
    show ?thesis
    proof (cases c)
      case (Some y)
      have key: "key_of y = k" "version y = version x" using assms(3) [of y] Some keyed [OF assms(1)] by auto
      have upd: "wp (rs_Update kc y) (\<lambda>r w'. is_ok r \<and> (\<exists>z. part z = part y \<and> objs w' = (objs w1)(key_of y \<mapsto> z))) w1"
        by (rule wp_update_answered [of _ _ x]) (use g key assms(1) in simp_all)
      from Some show ?thesis
        by (auto simp: g key wp_simps is_ok_iff intro!: wp_mono [OF upd]; blast)
    qed (simp add: g wp_simps)
  qed (use assms(2) in \<open>simp_all add: g wp_simps\<close>)
qed

lemma wp_edit_absent:
  assumes "objs w k = None"
  shows "wp (edit_resource kc k h) (\<lambda>r w'. is_err r \<and> objs w' = objs w) w"
  unfolding edit_resource_def wp_check
  by (rule wpI) (use assms in \<open>auto dest!: get_law split: outcome.splits\<close>)

text \<open>The loop that edits every named object: what the edit does to one (\<open>P\<close>) is done to each.\<close>

lemma wp_for_each_edit:
  assumes h: "\<And>x. h x \<noteq> Panic" "\<And>x y. h x = Ok (Some y) \<Longrightarrow> key_of y = key_of x \<and> version y = version x"
    and P: "\<And>x e. h x = Err e \<Longrightarrow> P x x" "\<And>x. h x = Ok None \<Longrightarrow> P x x"
      "\<And>x y z. h x = Ok (Some y) \<Longrightarrow> part z = part y \<Longrightarrow> P x z" "\<And>x y z. P x y \<Longrightarrow> P y z \<Longrightarrow> P x z"
  shows "wp (for_each (\<lambda>name. edit_resource kc (ns, name) h) names) (\<lambda>r w'. r = Ok () \<and>
     (\<forall>k. if fst k = ns \<and> snd k \<in> set names then rel_option P (objs w k) (objs w' k) else objs w' k = objs w k)) w"
proof (induction names arbitrary: w)
  case Nil
  then show ?case by (simp add: wp_simps)
next
  case (Cons name names)
  let ?k = "(ns, name)"
  have one: "wp (edit_resource kc ?k h) (\<lambda>r w'. r \<noteq> Panic \<and> rel_option P (objs w ?k) (objs w' ?k) \<and>
      (\<forall>j. j \<noteq> ?k \<longrightarrow> objs w' j = objs w j)) w"
  proof (cases "objs w ?k")
    case None
    show ?thesis by (rule wp_mono [OF wp_edit_absent [OF None]]) (use None in auto)
  next
    case (Some x)
    show ?thesis
      by (rule wp_mono [OF wp_edit_answered [OF Some h(1) h(2)]])
        (use Some P(1-3) in \<open>auto split: outcome.splits option.splits\<close>)
  qed
  show ?case
    unfolding for_each.simps wp_check wp_ignore_err
  proof (rule wp_mono [OF one], goal_cases)
    case (1 r w1)
    have "wp (for_each (\<lambda>name. edit_resource kc (ns, name) h) names) (\<lambda>r w'. r = Ok () \<and>
      (\<forall>k. if fst k = ns \<and> snd k \<in> set (name # names) then rel_option P (objs w k) (objs w' k) else objs w' k = objs w k)) w1"
    proof (rule wp_mono [OF Cons.IH [of w1]], elim conjE, intro conjI allI)
      fix r' w2 k
      assume r: "\<forall>k. if fst k = ns \<and> snd k \<in> set names then rel_option P (objs w1 k) (objs w2 k) else objs w2 k = objs w1 k"
      have trans: "rel_option P a c" if "rel_option P a b" "rel_option P b c" for a b c
        using that by (cases a; cases b; cases c) (simp_all, meson P(4))
      show "if fst k = ns \<and> snd k \<in> set (name # names) then rel_option P (objs w k) (objs w2 k) else objs w2 k = objs w k"
      proof (cases "k = ?k")
        case True
        have "rel_option P (objs w ?k) (objs w1 ?k)" using 1 by blast
        with trans [of "objs w ?k" "objs w1 ?k" "objs w2 ?k"] r [rule_format, of ?k] show ?thesis
          by (cases "name \<in> set names") (simp_all add: True)
      next
        case False
        then have "objs w1 k = objs w k" "fst k = ns \<Longrightarrow> snd k \<noteq> name" using 1 by (blast, metis prod.collapse)
        with r [rule_format, of k] show ?thesis by (cases "fst k = ns \<and> snd k \<in> set names") auto
      qed
    qed
    with 1 show ?case by (cases r) auto
  qed
qed

end

end
