(* ===== verification/Resource_Waiting.thy ===== *)
theory Resource_Waiting
  imports Resource_Client Complex_Main
begin

text \<open>
  Waiting: the functions of k8s.io/apimachinery/pkg/util/wait that the managers call, as parameters
  with a contract. While one of them waits the world goes on (\<open>idle\<close>): other processes act on it.
\<close>

record backoff =
  bo_Duration :: int
  bo_Factor :: rat
  bo_Jitter :: rat
  bo_Steps :: nat
  bo_Cap :: int

record 'w wait_lib =
  ErrWaitTimeout :: go_error
  PollImmediate :: "int \<Rightarrow> int \<Rightarrow> ('w, bool outcome) state \<Rightarrow> ('w, unit outcome) state"
  ExponentialBackoff :: "backoff \<Rightarrow> ('w, bool outcome) state \<Rightarrow> ('w, unit outcome) state"

text \<open>A condition whose error is logged: the polling goes on.\<close>

definition or_false :: "('w, bool outcome) state \<Rightarrow> ('w, bool outcome) state" where
  "or_false c = try_or c (\<lambda>_. ret False) ret"

text \<open>A duration of whole seconds as the verb %v shows it.\<close>

definition show_seconds :: "int \<Rightarrow> string" where
  "show_seconds s =
     (let u = nat \<bar>s\<bar>
      in (if s < 0 then ''-'' else '''') @
         (if u < 60 then [] else
           (if u < 3600 then [] else show_nat (u div 3600) @ ''h'') @ show_nat (u mod 3600 div 60) @ ''m'') @
         show_nat (u mod 60) @ ''s'')"

definition ready_backoff :: backoff where
  "ready_backoff = \<lparr> bo_Duration = second, bo_Factor = 3 / 2, bo_Jitter = 1 / 10, bo_Steps = 10, bo_Cap = 30 * second \<rparr>"

text \<open>The wait for one network resource: the timeout only shows in the message.\<close>

definition wait_ready ::
    "'w wait_lib \<Rightarrow> string \<Rightarrow> string \<Rightarrow> string \<Rightarrow> int \<Rightarrow> ('w, bool outcome) state \<Rightarrow> ('w, unit outcome) state" where
  "wait_ready wl kind namespace name timeoutSeconds isReady =
     try_or (ExponentialBackoff wl ready_backoff isReady)
       (\<lambda>e. if e = ErrWaitTimeout wl
             then raise (ErrorString (''timeout waiting for '' @ kind @ '' '' @ namespace @ ''/'' @ name @
               '' to be ready after '' @ show_seconds timeoutSeconds))
             else raise e)
       (\<lambda>_. ret ())"

section \<open>The contract\<close>

text \<open>A poll: the condition is called until it holds, fails, or the time is up.\<close>

inductive polled ::
    "('w \<Rightarrow> 'w \<Rightarrow> bool) \<Rightarrow> go_error \<Rightarrow> ('w, bool outcome) state \<Rightarrow> nat \<Rightarrow> 'w \<Rightarrow> unit outcome \<Rightarrow> 'w \<Rightarrow> bool"
  for idle timeout c where
  poll_done: "run_state c w = (Ok True, w') \<Longrightarrow> polled idle timeout c 1 w (Ok ()) w'"
| poll_fails: "run_state c w = (Err e, w') \<Longrightarrow> polled idle timeout c 1 w (Err e) w'"
| poll_panics: "run_state c w = (Panic, w') \<Longrightarrow> polled idle timeout c 1 w Panic w'"
| poll_ends: "run_state c w = (Ok False, w1) \<Longrightarrow> idle w1 w' \<Longrightarrow> polled idle timeout c 1 w (Err timeout) w'"
| poll_goes_on: "run_state c w = (Ok False, w1) \<Longrightarrow> idle w1 w2 \<Longrightarrow> polled idle timeout c n w2 r w' \<Longrightarrow>
    polled idle timeout c (Suc n) w r w'"

locale waiting =
  fixes wl :: "'w wait_lib" and idle :: "'w \<Rightarrow> 'w \<Rightarrow> bool"
  assumes idle_refl: "idle w w" and idle_trans: "idle w w1 \<Longrightarrow> idle w1 w2 \<Longrightarrow> idle w w2"
    and poll_law: "run_state (PollImmediate wl i t c) w = (r, w') \<Longrightarrow> \<exists>n. polled idle (ErrWaitTimeout wl) c n w r w'"
    and backoff_law: "run_state (ExponentialBackoff wl b c) w = (r, w') \<Longrightarrow> 0 < bo_Steps b \<Longrightarrow>
      \<exists>n\<le>bo_Steps b. polled idle (ErrWaitTimeout wl) c n w r w'"

text \<open>A poll that reports success ends with a call of the condition that answers true.\<close>

lemma polled_ok: "polled idle timeout c n w r w' \<Longrightarrow> r = Ok () \<Longrightarrow> \<exists>w1. run_state c w1 = (Ok True, w')"
  by (induction rule: polled.induct) auto

text \<open>A condition whose errors are logged can only time out.\<close>

lemma polled_or_false:
  "polled idle timeout (or_false c) n w r w' \<Longrightarrow> r = Ok () \<or> r = Panic \<or> r = Err timeout"
proof (induction rule: polled.induct)
  case (poll_fails w e w')
  then show ?case by (auto simp: or_false_def try_or_def ret_def split: prod.splits outcome.splits)
qed auto

lemma or_false_True: "run_state (or_false c) w = (Ok True, w') \<Longrightarrow> run_state c w = (Ok True, w')"
  by (auto simp: or_false_def try_or_def ret_def split: prod.splits outcome.splits)

context waiting
begin

lemma wp_poll_or_false:
  "wp (PollImmediate wl i t (or_false c)) (\<lambda>r w'. (r = Ok () \<longrightarrow> (\<exists>w1. run_state c w1 = (Ok True, w'))) \<and>
     (\<forall>e. r = Err e \<longrightarrow> e = ErrWaitTimeout wl)) w"
proof (rule wpI)
  fix r w' assume "run_state (PollImmediate wl i t (or_false c)) w = (r, w')"
  then obtain n where p: "polled idle (ErrWaitTimeout wl) (or_false c) n w r w'" using poll_law by blast
  show "(r = Ok () \<longrightarrow> (\<exists>w1. run_state c w1 = (Ok True, w'))) \<and> (\<forall>e. r = Err e \<longrightarrow> e = ErrWaitTimeout wl)"
    using polled_ok [OF p] polled_or_false [OF p] or_false_True [of c] by (cases r) (blast, auto)
qed

lemma wp_wait_ready:
  "wp (wait_ready wl kind ns name t c) (\<lambda>r w'. \<exists>n\<le>10. \<exists>q. polled idle (ErrWaitTimeout wl) c n w q w' \<and>
     (r = Ok () \<longleftrightarrow> q = Ok ())) w"
  unfolding wait_ready_def wp_try_or
proof (rule wpI, goal_cases)
  case (1 r w')
  then obtain n where n: "n \<le> 10" "polled idle (ErrWaitTimeout wl) c n w r w'"
    using backoff_law [OF 1] by (auto simp: ready_backoff_def)
  then show ?case by (cases r) (auto simp: wp_simps intro!: exI [of _ n])
qed

end

end
