(* ===== verification/Resource_Memory.thy ===== *)
theory Resource_Memory
  imports Resource_Waiting
begin

text \<open>
  A server that keeps objects in memory, and waiting functions that call a condition a number of times
  without waiting: instances of the contracts of the resource managers.
\<close>

section \<open>A server in memory\<close>

text \<open>Objects under their keys; a write of another version than the stored one is a conflict, one that is
  accepted makes a new version.\<close>

type_synonym 'a stored_objects = "object_key \<Rightarrow> 'a option"

definition under_key :: "('a \<Rightarrow> object_key) \<Rightarrow> 'a stored_objects \<Rightarrow> object_key \<Rightarrow> 'a option" where
  "under_key key st k = (case st k of Some x \<Rightarrow> if key x = k then Some x else None | None \<Rightarrow> None)"

definition mem_objects ::
    "('a \<Rightarrow> object_key) \<Rightarrow> ('a \<Rightarrow> string) \<Rightarrow> ('a \<Rightarrow> 'a) \<Rightarrow> ('a stored_objects, 'a) resource_client" where
  "mem_objects key ver bump =
     \<lparr> rs_Get = (\<lambda>k. State (\<lambda>st. (case under_key key st k of Some x \<Rightarrow> Ok x
         | None \<Rightarrow> Err (ServiceError ''NotFound'' ''the object is not found'' []), st))),
       rs_Update = (\<lambda>x. State (\<lambda>st. case under_key key st (key x) of
           None \<Rightarrow> (Err (ServiceError ''NotFound'' ''the object is not found'' []), st)
         | Some y \<Rightarrow> if ver x = ver y then (Ok (bump x), st(key x \<mapsto> bump x))
             else (Err (ServiceError ''Conflict'' ''the object has been modified'' []), st))) \<rparr>"

locale versioned =
  fixes key :: "'a \<Rightarrow> object_key" and ver :: "'a \<Rightarrow> string" and bump :: "'a \<Rightarrow> 'a" and part :: "'a \<Rightarrow> 'p"
  assumes bump_key: "key (bump x) = key x" and bump_part: "part (bump x) = part x"

sublocale versioned \<subseteq> in_memory: resource_reliable "mem_objects key ver bump" key part "under_key key" ver
proof
  fix k r w w'
  assume "run_state (rs_Get (mem_objects key ver bump) k) w = (r, w')"
  then show "under_key key w' = under_key key w \<and> r \<noteq> Panic \<and> (\<forall>x. r = Ok x \<longrightarrow> under_key key w k = Some x)"
    by (auto simp: mem_objects_def split: option.splits)
next
  fix x r w w'
  assume run: "run_state (rs_Update (mem_objects key ver bump) x) w = (r, w')"
  show "r \<noteq> Panic \<and> (under_key key w' = under_key key w \<and> is_err r \<or>
      (\<exists>y. part y = part x \<and> under_key key w (key x) \<noteq> None \<and> under_key key w' = (under_key key w)(key x \<mapsto> y)))"
  proof (cases "under_key key w (key x)")
    case (Some y)
    have "under_key key (w(key x \<mapsto> bump x)) = (under_key key w)(key x \<mapsto> bump x)"
      by (auto simp: under_key_def bump_key split: option.splits)
    with run Some bump_part [of x] show ?thesis
      by (auto simp: mem_objects_def split: if_splits intro!: exI [of _ "bump x"])
  qed (use run in \<open>auto simp: mem_objects_def\<close>)
next
  fix w k x assume "under_key key w k = Some x"
  then show "key x = k" by (auto simp: under_key_def split: option.splits if_splits)
next
  fix k r w w' x
  assume "run_state (rs_Get (mem_objects key ver bump) k) w = (r, w')" "under_key key w k = Some x"
  then show "is_ok r" by (auto simp: mem_objects_def)
next
  fix x r w w' y
  assume "run_state (rs_Update (mem_objects key ver bump) x) w = (r, w')" "under_key key w (key x) = Some y" "ver x = ver y"
  then show "is_ok r" by (auto simp: mem_objects_def)
qed

definition next_version :: "object_meta \<Rightarrow> object_meta" where
  "next_version mt = mt\<lparr> om_ResourceVersion := om_ResourceVersion mt @ ''+'' \<rparr>"

lemma next_version_sel [simp]: "meta_key (next_version mt) = meta_key mt" "om_Annotations (next_version mt) = om_Annotations mt"
  by (simp_all add: next_version_def meta_key_def)

text \<open>Waiting without waiting: a condition is called so many times, one after the other.\<close>

fun poll_turns :: "nat \<Rightarrow> go_error \<Rightarrow> ('w, bool outcome) state \<Rightarrow> ('w, unit outcome) state" where
  "poll_turns 0 timeout c = raise timeout"
| "poll_turns (Suc n) timeout c = check c (\<lambda>e. e) (\<lambda>b. if b then ret () else poll_turns n timeout c)"

definition timed_out :: go_error where
  "timed_out = ErrorString ''timed out waiting for the condition''"

definition wait_in_turn :: "nat \<Rightarrow> 'w wait_lib" where
  "wait_in_turn n = \<lparr> ErrWaitTimeout = timed_out, PollImmediate = (\<lambda>i t c. poll_turns (Suc n) timed_out c),
     ExponentialBackoff = (\<lambda>b c. poll_turns (bo_Steps b) timed_out c) \<rparr>"

lemma poll_turns_polled:
  assumes "\<And>w. idle w w"
  shows "run_state (poll_turns (Suc n) timeout c) w = (r, w') \<Longrightarrow> \<exists>k\<le>Suc n. polled idle timeout c k w r w'"
proof (induction n arbitrary: w)
  case 0
  then show ?case
    using assms by (auto simp: check_def try_or_def ret_def raise_def split: prod.splits outcome.splits if_splits
        intro!: exI [of _ 1] intro: polled.intros)
next
  case (Suc n)
  obtain q w1 where c: "run_state c w = (q, w1)" by (cases "run_state c w")
  show ?case
  proof (cases "q = Ok False")
    case True
    then have "run_state (poll_turns (Suc n) timeout c) w1 = (r, w')"
      using Suc.prems c by (simp add: check_def try_or_def)
    from Suc.IH [OF this] obtain k where "k \<le> Suc n" "polled idle timeout c k w1 r w'" by blast
    with c True show ?thesis
      by (auto intro!: exI [of _ "Suc k"] intro: poll_goes_on assms)
  next
    case False
    with Suc.prems c show ?thesis
      by (auto simp: check_def try_or_def ret_def raise_def split: outcome.splits bool.splits if_splits
        intro!: exI [of _ 1] intro: polled.intros)
  qed
qed

text \<open>What stays while one waits: an observation of the world.\<close>

definition same :: "('w \<Rightarrow> 'x) \<Rightarrow> 'w \<Rightarrow> 'w \<Rightarrow> bool" where
  "same f w w' \<longleftrightarrow> f w = f w'"

lemma same_refl: "same f w w"
  by (simp add: same_def)

interpretation turns: waiting "wait_in_turn n" "same f" for n f
proof (unfold_locales, unfold wait_in_turn_def wait_lib.simps, goal_cases)
  case (3 i t c w r w')
  then show ?case using poll_turns_polled [of "same f", OF same_refl 3] by blast
next
  case (4 b c w r w')
  then obtain k where "bo_Steps b = Suc k" using not0_implies_Suc by auto
  then show ?case using poll_turns_polled [of "same f" k timed_out c w r w', OF same_refl] 4 by auto
qed (auto simp: same_def)

end
