(* ===== verification/Resource_Fan_Out.thy ===== *)
theory Resource_Fan_Out
  imports Resource_Waiting "HOL-Library.Multiset"
begin

text \<open>
  Waiting for many at once (deployments/manager.go, cronjobs/manager.go): a goroutine for every name
  polls its condition and answers on one of two buffered channels, and the caller receives as many
  answers as there are names. What the scheduler, the clock and other processes decide is a schedule, a
  list of turns; \<open>fan_turn\<close> is what one turn makes of the state, or None when nothing can be done in it.

  A goroutine spends its life in \<open>wait.PollImmediate\<close>, whose documented behaviour is written out: it
  calls the condition at once and then again and again, until it answers true or an error, or until the
  time is up (a timeout of 0 is none). The interval between the calls is left to the schedule.

  Shown: whatever the schedule, success means that each condition was seen to hold, an error lists
  exactly the conditions whose time was up (\<open>fan_inv\<close>); no answer is lost and no channel blocks, so
  that once the time is up the caller returns after a bounded number of turns (\<open>fan_rank\<close>).
\<close>

section \<open>The state and its turns\<close>

text \<open>A goroutine polls (and has called its condition, or not yet), has the error of its poll (nil is
  None), or has answered, on \<open>doneChan\<close> or not.\<close>

datatype routine = Polling bool | Polled "go_error option" | Answered bool

record 'w fan =
  fn_world :: 'w
  fn_elapsed :: int
  fn_routines :: "routine list"
  fn_errChan :: "go_error list"
  fn_doneChan :: "bool list"
  fn_left :: nat
  fn_errs :: "go_error list"
  fn_crashed :: bool

text \<open>A goroutine calls its condition, gives up or answers; the caller receives from a channel; time goes
  by, in which others act on the world.\<close>

datatype 'w turn = Look nat | GiveUp nat | Answer nat | TakeErr | TakeDone | Elapse int "'w \<Rightarrow> 'w"

definition fan_start :: "'w \<Rightarrow> nat \<Rightarrow> 'w fan" where
  "fan_start w n = \<lparr> fn_world = w, fn_elapsed = 0, fn_routines = replicate n (Polling False), fn_errChan = [],
     fn_doneChan = [], fn_left = n, fn_errs = [], fn_crashed = False \<rparr>"

definition look ::
    "('w, bool outcome) state list \<Rightarrow> nat \<Rightarrow> 'w fan \<Rightarrow> 'w fan" where
  "look cs i s =
     (case run_state (cs ! i) (fn_world s) of
        (Ok b, w') \<Rightarrow> s\<lparr> fn_world := w', fn_routines := (fn_routines s)[i := if b then Polled None else Polling True] \<rparr>
      | (Err e, w') \<Rightarrow> s\<lparr> fn_world := w', fn_routines := (fn_routines s)[i := Polled (Some e)] \<rparr>
      | (Panic, w') \<Rightarrow> s\<lparr> fn_world := w', fn_crashed := True \<rparr>)"

text \<open>A send on a channel waits for room in its buffer, a receive for a value; a panic in a goroutine ends
  the program.\<close>

fun fan_turn ::
    "go_error \<Rightarrow> int \<Rightarrow> (nat \<Rightarrow> go_error) \<Rightarrow> ('w, bool outcome) state list \<Rightarrow> 'w turn \<Rightarrow> 'w fan \<Rightarrow> 'w fan option" where
  "fan_turn timed_out timeout late cs (Look i) s =
     (if i < length cs then (case fn_routines s ! i of Polling _ \<Rightarrow> Some (look cs i s) | _ \<Rightarrow> None) else None)"
| "fan_turn timed_out timeout late cs (GiveUp i) s =
     (if i < length cs \<and> fn_routines s ! i = Polling True \<and> timeout \<noteq> 0 \<and> timeout \<le> fn_elapsed s
      then Some (s\<lparr> fn_routines := (fn_routines s)[i := Polled (Some timed_out)] \<rparr>) else None)"
| "fan_turn timed_out timeout late cs (Answer i) s =
     (if i < length cs
      then (case fn_routines s ! i of
              Polled None \<Rightarrow>
                if length (fn_doneChan s) < length cs
                then Some (s\<lparr> fn_doneChan := fn_doneChan s @ [True], fn_routines := (fn_routines s)[i := Answered True] \<rparr>)
                else None
            | Polled (Some e) \<Rightarrow>
                if length (fn_errChan s) < length cs
                then Some (s\<lparr> fn_errChan := fn_errChan s @ [late i], fn_routines := (fn_routines s)[i := Answered False] \<rparr>)
                else None
            | _ \<Rightarrow> None)
      else None)"
| "fan_turn timed_out timeout late cs TakeErr s =
     (case fn_errChan s of
        e # es \<Rightarrow> Some (s\<lparr> fn_errChan := es, fn_errs := fn_errs s @ [e], fn_left := fn_left s - 1 \<rparr>)
      | [] \<Rightarrow> None)"
| "fan_turn timed_out timeout late cs TakeDone s =
     (case fn_doneChan s of
        d # ds \<Rightarrow> Some (s\<lparr> fn_doneChan := ds, fn_left := fn_left s - 1 \<rparr>)
      | [] \<Rightarrow> None)"
| "fan_turn timed_out timeout late cs (Elapse d f) s =
     (if 0 \<le> d then Some (s\<lparr> fn_world := f (fn_world s), fn_elapsed := fn_elapsed s + d \<rparr>) else None)"

text \<open>When the caller has received all answers it returns, and nothing is left to happen.\<close>

definition fan_ended :: "'w fan \<Rightarrow> bool" where
  "fan_ended s \<longleftrightarrow> fn_crashed s \<or> fn_left s = 0"

fun fan_run ::
    "go_error \<Rightarrow> int \<Rightarrow> (nat \<Rightarrow> go_error) \<Rightarrow> ('w, bool outcome) state list \<Rightarrow> 'w turn list \<Rightarrow> 'w fan \<Rightarrow> 'w fan option" where
  "fan_run timed_out timeout late cs [] s = Some s"
| "fan_run timed_out timeout late cs (t # ts) s =
     (if fan_ended s then None
      else (case fan_turn timed_out timeout late cs t s of
              Some s' \<Rightarrow> fan_run timed_out timeout late cs ts s' | None \<Rightarrow> None))"

section \<open>The wait\<close>

definition newline :: string where
  "newline = [char_of (10 :: nat)]"

definition late_error :: "string \<Rightarrow> string \<Rightarrow> string \<Rightarrow> go_error" where
  "late_error kind target name =
     ErrorString (''timeout waiting for '' @ kind @ '' '' @ name @ '' to be '' @ target)"

text \<open>The text of the common error. (It is used as a format, which matters only if a name has percent
  signs.)\<close>

definition failed_text :: "string \<Rightarrow> string \<Rightarrow> go_error list \<Rightarrow> string" where
  "failed_text plural target errs =
     show_nat (length errs) @ '' '' @ plural @ '' failed to reach '' @ target @ '' state:'' @
     concat (map (\<lambda>e. newline @ ''- '' @ err_msg e) errs)"

definition fan_out ::
    "'w wait_lib \<Rightarrow> 'w turn list \<Rightarrow> int \<Rightarrow> string \<Rightarrow> string \<Rightarrow> (string \<Rightarrow> ('w, bool outcome) state) \<Rightarrow> string list \<Rightarrow>
     'w \<Rightarrow> 'w fan option" where
  "fan_out wl sched timeout kind target reached names w =
     fan_run (ErrWaitTimeout wl) timeout (\<lambda>i. late_error kind target (names ! i))
       (map (\<lambda>name. or_false (reached name)) names) sched (fan_start w (length names))"

text \<open>What the caller returns, and the world then; None when the schedule is none of the program or ends
  before.\<close>

definition wait_for_all ::
    "'w wait_lib \<Rightarrow> 'w turn list \<Rightarrow> int \<Rightarrow> string \<Rightarrow> string \<Rightarrow> string \<Rightarrow> (string \<Rightarrow> ('w, bool outcome) state) \<Rightarrow>
     string list \<Rightarrow> 'w \<Rightarrow> (unit outcome \<times> 'w) option" where
  "wait_for_all wl sched timeout plural kind target reached names w =
     (case fan_out wl sched timeout kind target reached names w of
        None \<Rightarrow> None
      | Some s \<Rightarrow>
          if fn_crashed s then Some (Panic, fn_world s)
          else if fn_left s \<noteq> 0 then None
          else Some (if fn_errs s \<noteq> [] then Err (ErrorString (failed_text plural target (fn_errs s))) else Ok (),
                     fn_world s))"

definition elapsed_of :: "'w turn list \<Rightarrow> int" where
  "elapsed_of sched = sum_list (map (\<lambda>t. case t of Elapse d f \<Rightarrow> d | _ \<Rightarrow> 0) sched)"

section \<open>The invariant\<close>

definition answered :: "routine \<Rightarrow> bool" where
  "answered r \<longleftrightarrow> (\<exists>b. r = Answered b)"

text \<open>The numbers of those whose time was up, out of \<open>rs\<close>.\<close>

definition gave_up :: "routine list \<Rightarrow> nat multiset" where
  "gave_up rs = mset (filter (\<lambda>i. rs ! i = Answered False) [0..<length rs])"

text \<open>How the answers are spread: each is in a channel or was received.\<close>

definition answers_kept :: "(nat \<Rightarrow> go_error) \<Rightarrow> 'w fan \<Rightarrow> bool" where
  "answers_kept late s \<longleftrightarrow>
     fn_left s = length (fn_errChan s) + length (fn_doneChan s) + length (filter (\<lambda>r. \<not> answered r) (fn_routines s)) \<and>
     (\<exists>sent got. fn_errChan s = map late sent \<and> fn_errs s = map late got \<and> mset sent + mset got = gave_up (fn_routines s))"

text \<open>What a goroutine has to show for its outcome.\<close>

definition seen ::
    "('w \<Rightarrow> 'w \<Rightarrow> bool) \<Rightarrow> 'w \<Rightarrow> ('w, bool outcome) state \<Rightarrow> 'w \<Rightarrow> bool" where
  "seen idle w c w' \<longleftrightarrow> (\<exists>w1 w2. idle w w1 \<and> run_state c w1 = (Ok True, w2) \<and> idle w2 w')"

definition earned ::
    "('w \<Rightarrow> 'w \<Rightarrow> bool) \<Rightarrow> int \<Rightarrow> 'w \<Rightarrow> ('w, bool outcome) state \<Rightarrow> 'w fan \<Rightarrow> routine \<Rightarrow> bool" where
  "earned idle timeout w c s r \<longleftrightarrow>
     (r \<in> {Polled None, Answered True} \<longrightarrow> seen idle w c (fn_world s)) \<and>
     (r = Answered False \<or> (\<exists>e. r = Polled (Some e)) \<longrightarrow> timeout \<noteq> 0 \<and> timeout \<le> fn_elapsed s)"

definition fan_inv ::
    "('w \<Rightarrow> 'w \<Rightarrow> bool) \<Rightarrow> int \<Rightarrow> (nat \<Rightarrow> go_error) \<Rightarrow> ('w, bool outcome) state list \<Rightarrow> 'w \<Rightarrow> 'w fan \<Rightarrow> bool" where
  "fan_inv idle timeout late cs w s \<longleftrightarrow>
     length (fn_routines s) = length cs \<and> idle w (fn_world s) \<and> answers_kept late s \<and>
     (\<forall>i<length cs. earned idle timeout w (cs ! i) s (fn_routines s ! i)) \<and>
     (fn_crashed s \<longrightarrow> (\<exists>c\<in>set cs. \<exists>w1 w2. run_state c w1 = (Panic, w2)))"

lemma filter_length_update:
  "i < length rs \<Longrightarrow> length (filter P (rs[i := r])) + (if P (rs ! i) then 1 else 0) =
     length (filter P rs) + (if P r then 1 else 0)"
proof (induction rs arbitrary: i)
  case (Cons a rs)
  then show ?case by (cases i) auto
qed simp

lemma count_gave_up: "count (gave_up rs) j = (if j < length rs \<and> rs ! j = Answered False then 1 else 0)"
  by (simp add: gave_up_def mset_filter count_mset_set)

lemma gave_up_update:
  assumes "i < length rs" "\<not> answered (rs ! i)"
  shows "gave_up (rs[i := r]) = gave_up rs + (if r = Answered False then {#i#} else {#})"
  by (rule multiset_eqI) (use assms in \<open>auto simp: count_gave_up nth_list_update answered_def\<close>)

lemma gave_up_start: "gave_up (replicate n (Polling False)) = {#}"
  by (rule multiset_eqI) (simp add: count_gave_up)

lemma answers_kept_update:
  assumes "answers_kept late s" "i < length (fn_routines s)" "\<not> answered (fn_routines s ! i)" "\<not> answered r"
    "fn_left s' = fn_left s" "fn_errChan s' = fn_errChan s" "fn_doneChan s' = fn_doneChan s" "fn_errs s' = fn_errs s"
    "fn_routines s' = (fn_routines s)[i := r]"
  shows "answers_kept late s'"
  using assms filter_length_update [of i "fn_routines s" "\<lambda>r. \<not> answered r" r] gave_up_update [OF assms(2,3), of r]
  by (auto simp: answers_kept_def answered_def)

lemma answers_kept_answer:
  assumes "answers_kept late s" "i < length (fn_routines s)" "\<not> answered (fn_routines s ! i)"
  shows "answers_kept late (s\<lparr> fn_doneChan := fn_doneChan s @ [True], fn_routines := (fn_routines s)[i := Answered True] \<rparr>)"
    and "answers_kept late (s\<lparr> fn_errChan := fn_errChan s @ [late i], fn_routines := (fn_routines s)[i := Answered False] \<rparr>)"
proof -
  obtain sent got where k: "fn_errChan s = map late sent" "fn_errs s = map late got"
    "mset sent + mset got = gave_up (fn_routines s)" "fn_left s = length (fn_errChan s) + length (fn_doneChan s) +
       length (filter (\<lambda>r. \<not> answered r) (fn_routines s))"
    using assms(1) unfolding answers_kept_def by blast
  have left: "length (filter (\<lambda>r. \<not> answered r) ((fn_routines s)[i := Answered b])) + 1 =
      length (filter (\<lambda>r. \<not> answered r) (fn_routines s))" for b
    using filter_length_update [OF assms(2), of "\<lambda>r. \<not> answered r" "Answered b"] assms(3) by (simp add: answered_def)
  show "answers_kept late (s\<lparr> fn_doneChan := fn_doneChan s @ [True], fn_routines := (fn_routines s)[i := Answered True] \<rparr>)"
    using k left [of True] gave_up_update [OF assms(2,3), of "Answered True"] by (auto simp: answers_kept_def)
  have "mset (sent @ [i]) + mset got = gave_up ((fn_routines s)[i := Answered False])"
    using k(3) gave_up_update [OF assms(2,3), of "Answered False"] by simp
  with k(1,2,4) left [of False]
  show "answers_kept late (s\<lparr> fn_errChan := fn_errChan s @ [late i], fn_routines := (fn_routines s)[i := Answered False] \<rparr>)"
    unfolding answers_kept_def by (intro conjI exI [of _ "sent @ [i]"] exI [of _ got]) simp_all
qed

lemma answers_kept_take:
  assumes "answers_kept late s"
  shows "fn_errChan s = e # es \<Longrightarrow> answers_kept late (s\<lparr> fn_errChan := es, fn_errs := fn_errs s @ [e], fn_left := fn_left s - 1 \<rparr>)"
    and "fn_doneChan s = d # ds \<Longrightarrow> answers_kept late (s\<lparr> fn_doneChan := ds, fn_left := fn_left s - 1 \<rparr>)"
proof -
  obtain sent got where k: "fn_errChan s = map late sent" "fn_errs s = map late got"
    "mset sent + mset got = gave_up (fn_routines s)" "fn_left s = length (fn_errChan s) + length (fn_doneChan s) +
       length (filter (\<lambda>r. \<not> answered r) (fn_routines s))"
    using assms(1) unfolding answers_kept_def by blast
  {
    assume "fn_errChan s = e # es"
    with k(1) obtain i rest where i: "sent = i # rest" "e = late i" "es = map late rest" by (cases sent) auto
    then have "mset rest + mset (got @ [i]) = gave_up (fn_routines s)" using k(3) by simp
    with k(1,2,4) i show "answers_kept late (s\<lparr> fn_errChan := es, fn_errs := fn_errs s @ [e], fn_left := fn_left s - 1 \<rparr>)"
      unfolding answers_kept_def by (intro conjI exI [of _ rest] exI [of _ "got @ [i]"]) simp_all
  next
    assume "fn_doneChan s = d # ds"
    with k show "answers_kept late (s\<lparr> fn_doneChan := ds, fn_left := fn_left s - 1 \<rparr>)"
      unfolding answers_kept_def by auto
  }
qed

text \<open>Conditions that only look, and whose errors are logged.\<close>

locale watched =
  fixes idle :: "'w \<Rightarrow> 'w \<Rightarrow> bool" and cs :: "('w, bool outcome) state list"
  assumes idle_refl: "idle w w" and idle_trans: "idle w w1 \<Longrightarrow> idle w1 w2 \<Longrightarrow> idle w w2"
    and looks: "c \<in> set cs \<Longrightarrow> run_state c w = (r, w') \<Longrightarrow> idle w w' \<and> \<not> is_err r"

context watched
begin

lemma earned_later:
  "earned idle timeout w c s r \<Longrightarrow> idle (fn_world s) (fn_world s') \<Longrightarrow> fn_elapsed s \<le> fn_elapsed s' \<Longrightarrow>
   earned idle timeout w c s' r"
  unfolding earned_def seen_def by (blast intro: idle_trans order_trans)

lemma fan_inv_move:
  assumes "fan_inv idle timeout late cs w s" "idle (fn_world s) (fn_world s')" "fn_elapsed s \<le> fn_elapsed s'"
    "answers_kept late s'" "fn_crashed s' \<Longrightarrow> \<exists>c\<in>set cs. \<exists>w1 w2. run_state c w1 = (Panic, w2)"
    "fn_routines s' = fn_routines s \<or> (\<exists>i r. i < length cs \<and> fn_routines s' = (fn_routines s)[i := r] \<and>
       earned idle timeout w (cs ! i) s' r)"
  shows "fan_inv idle timeout late cs w s'"
proof -
  have len: "length (fn_routines s) = length cs" using assms(1) by (simp add: fan_inv_def)
  have old: "earned idle timeout w (cs ! j) s' (fn_routines s ! j)" if "j < length cs" for j
    using assms(1) that by (intro earned_later [OF _ assms(2,3)]) (simp add: fan_inv_def)
  have "earned idle timeout w (cs ! j) s' (fn_routines s' ! j)" if "j < length cs" for j
    using assms(6) old [OF that] that len by (auto simp: nth_list_update)
  moreover have "length (fn_routines s') = length cs" using assms(6) len by auto
  moreover have "idle w (fn_world s')" using assms(1,2) idle_trans unfolding fan_inv_def by blast
  ultimately show ?thesis using assms(4,5) unfolding fan_inv_def by blast
qed

lemma fan_inv_turn:
  assumes "fan_turn e timeout late cs t s = Some s'" "fan_inv idle timeout late cs w s"
    "\<And>d f v. t = Elapse d f \<Longrightarrow> idle v (f v)" "\<not> fn_crashed s"
  shows "fan_inv idle timeout late cs w s'"
proof -
  have inv: "length (fn_routines s) = length cs" "idle w (fn_world s)" "answers_kept late s"
    "\<And>i. i < length cs \<Longrightarrow> earned idle timeout w (cs ! i) s (fn_routines s ! i)"
    using assms(2) by (simp_all add: fan_inv_def)
  show ?thesis
  proof (cases t)
    case (Look i)
    then have i: "i < length cs" and p: "\<exists>b. fn_routines s ! i = Polling b" and s': "s' = look cs i s"
      using assms(1) by (auto split: if_splits routine.splits)
    obtain r w' where run: "run_state (cs ! i) (fn_world s) = (r, w')" by (cases "run_state (cs ! i) (fn_world s)")
    have step: "idle (fn_world s) w'" "\<not> is_err r" using looks [OF _ run] i by auto
    have kept: "answers_kept late (s\<lparr> fn_world := w', fn_routines := (fn_routines s)[i := q] \<rparr>)" if "\<not> answered q" for q
      using p that i inv(1) by (intro answers_kept_update [OF inv(3), of i q]) (auto simp: answered_def)
    show ?thesis
    proof (cases r)
      case (Ok b)
      define q where "q = (if b then Polled None else Polling True)"
      have q: "s' = s\<lparr> fn_world := w', fn_routines := (fn_routines s)[i := q] \<rparr>" "\<not> answered q"
        using Ok s' run by (simp_all add: look_def q_def answered_def)
      have "seen idle w (cs ! i) w'" if b
        unfolding seen_def
        by (rule exI [of _ "fn_world s"], rule exI [of _ w']) (use that run Ok inv(2) idle_refl in simp)
      then have "earned idle timeout w (cs ! i) s' q" by (simp add: earned_def q q_def)
      with q kept i step(1) assms(4) show ?thesis
        by (intro fan_inv_move [OF assms(2)]) auto
    next
      case Panic
      have "run_state (cs ! i) (fn_world s) = (Panic, w')" "cs ! i \<in> set cs" using run Panic i by simp_all
      with Panic s' run step inv(3) show ?thesis
        by (intro fan_inv_move [OF assms(2)]) (auto simp: look_def answers_kept_def)
    qed (use step in simp)
  next
    case (GiveUp i)
    then have i: "i < length cs" "fn_routines s ! i = Polling True" "timeout \<noteq> 0" "timeout \<le> fn_elapsed s"
      and s': "s' = s\<lparr> fn_routines := (fn_routines s)[i := Polled (Some e)] \<rparr>"
      using assms(1) by (auto split: if_splits)
    have "answers_kept late s'" unfolding s'
      by (rule answers_kept_update [OF inv(3), of i "Polled (Some e)"]) (use i inv(1) in \<open>simp_all add: answered_def\<close>)
    with i show ?thesis
      by (intro fan_inv_move [OF assms(2)]) (auto simp: s' earned_def idle_refl assms(4))
  next
    case (Answer i)
    then have i: "i < length cs" using assms(1) by (auto split: if_splits)
    have e: "earned idle timeout w (cs ! i) s (fn_routines s ! i)" by (rule inv(4) [OF i])
    consider "fn_routines s ! i = Polled None"
        "s' = s\<lparr> fn_doneChan := fn_doneChan s @ [True], fn_routines := (fn_routines s)[i := Answered True] \<rparr>"
      | x where "fn_routines s ! i = Polled (Some x)"
        "s' = s\<lparr> fn_errChan := fn_errChan s @ [late i], fn_routines := (fn_routines s)[i := Answered False] \<rparr>"
      using assms(1) Answer i by (auto split: if_splits routine.splits option.splits)
    then show ?thesis
    proof cases
      case 1
      with e i inv(1) answers_kept_answer(1) [OF inv(3), of i] show ?thesis
        by (intro fan_inv_move [OF assms(2)]) (auto simp: earned_def answered_def idle_refl assms(4))
    next
      case 2
      with e i inv(1) answers_kept_answer(2) [OF inv(3), of i] show ?thesis
        by (intro fan_inv_move [OF assms(2)]) (auto simp: earned_def answered_def idle_refl assms(4))
    qed
  next
    case TakeErr
    then show ?thesis
      using assms(1) answers_kept_take(1) [OF inv(3)]
      by (intro fan_inv_move [OF assms(2)]) (auto simp: idle_refl assms(4) split: list.splits)
  next
    case TakeDone
    then show ?thesis
      using assms(1) answers_kept_take(2) [OF inv(3)]
      by (intro fan_inv_move [OF assms(2)]) (auto simp: idle_refl assms(4) split: list.splits)
  next
    case (Elapse d f)
    have "answers_kept late (s\<lparr> fn_world := f (fn_world s), fn_elapsed := fn_elapsed s + d \<rparr>)"
      using inv(3) by (simp add: answers_kept_def)
    with Elapse assms(1) assms(3) [OF Elapse] show ?thesis
      by (intro fan_inv_move [OF assms(2)]) (auto simp: assms(4) split: if_splits)
  qed
qed

lemma fan_inv_start: "fan_inv idle timeout late cs w (fan_start w (length cs))"
proof -
  have "filter (\<lambda>r. \<not> answered r) (replicate n (Polling False)) = replicate n (Polling False)" for n
    by (induction n) (simp_all add: answered_def)
  then show ?thesis
    by (auto simp: fan_inv_def fan_start_def answers_kept_def gave_up_start earned_def idle_refl)
qed

lemma fan_inv_run:
  assumes "fan_run e timeout late cs ts s = Some s'" "fan_inv idle timeout late cs w s"
    "\<And>d f v. Elapse d f \<in> set ts \<Longrightarrow> idle v (f v)"
  shows "fan_inv idle timeout late cs w s'"
  using assms
proof (induction ts arbitrary: s)
  case (Cons t ts)
  then obtain s1 where s1: "fan_turn e timeout late cs t s = Some s1" "\<not> fan_ended s" "fan_run e timeout late cs ts s1 = Some s'"
    by (auto split: if_splits option.splits)
  have "fan_inv idle timeout late cs w s1"
    by (rule fan_inv_turn [OF s1(1) Cons.prems(2)]) (use Cons.prems(3) s1(2) in \<open>auto simp: fan_ended_def\<close>)
  then show ?case by (rule Cons.IH [OF s1(3)]) (use Cons.prems(3) in auto)
qed simp

end

lemma fan_run_elapsed:
  assumes "fan_run e timeout late cs ts s = Some s'"
  shows "fn_elapsed s' = fn_elapsed s + elapsed_of ts"
  using assms
proof (induction ts arbitrary: s)
  case (Cons t ts)
  then obtain s1 where s1: "fan_turn e timeout late cs t s = Some s1" "fan_run e timeout late cs ts s1 = Some s'"
    by (auto split: if_splits option.splits)
  have "fn_elapsed s1 = fn_elapsed s + elapsed_of [t]"
    using s1(1) by (cases t) (auto simp: elapsed_of_def look_def split: if_splits routine.splits option.splits list.splits
      prod.splits outcome.splits)
  with Cons.IH [OF s1(2)] show ?case by (simp add: elapsed_of_def)
qed (simp add: elapsed_of_def)

section \<open>What the wait returns\<close>

text \<open>When all answers are in, those received say it all.\<close>

lemma fan_inv_ended:
  assumes "fan_inv idle timeout late cs w s" "fn_left s = 0"
  shows "\<exists>got. fn_errs s = map late got \<and> mset got = gave_up (fn_routines s)" "i < length cs \<Longrightarrow> answered (fn_routines s ! i)"
proof -
  obtain sent got where k: "fn_errChan s = map late sent" "fn_errs s = map late got"
    "mset sent + mset got = gave_up (fn_routines s)" "length (fn_errChan s) + length (fn_doneChan s) +
       length (filter (\<lambda>r. \<not> answered r) (fn_routines s)) = 0" and len: "length (fn_routines s) = length cs"
    using assms unfolding fan_inv_def answers_kept_def by auto
  then show "\<exists>got. fn_errs s = map late got \<and> mset got = gave_up (fn_routines s)" by auto
  show "i < length cs \<Longrightarrow> answered (fn_routines s ! i)"
    using k(4) len by (auto simp: filter_empty_conv)
qed

lemma wait_for_all_outcome:
  assumes "watched idle (map (\<lambda>name. or_false (reached name)) names)"
    and "wait_for_all wl sched timeout plural kind target reached names w = Some (r, w')"
    and "\<And>d f v. Elapse d f \<in> set sched \<Longrightarrow> idle v (f v)"
  shows "(r = Ok () \<longrightarrow> (\<forall>name\<in>set names. seen idle w (reached name) w')) \<and>
    (\<forall>e. r = Err e \<longrightarrow> timeout \<noteq> 0 \<and> timeout \<le> elapsed_of sched \<and> (\<exists>late. late \<noteq> [] \<and> mset late \<subseteq># mset names \<and>
       e = ErrorString (failed_text plural target (map (late_error kind target) late)))) \<and>
    (r = Panic \<longrightarrow> (\<exists>name\<in>set names. \<exists>w1 w2. run_state (reached name) w1 = (Panic, w2)))"
proof -
  let ?cs = "map (\<lambda>name. or_false (reached name)) names" and ?late = "\<lambda>i. late_error kind target (names ! i)"
  obtain s where s: "fan_run (ErrWaitTimeout wl) timeout ?late ?cs sched (fan_start w (length ?cs)) = Some s"
    and r: "if fn_crashed s then r = Panic else fn_left s = 0 \<and>
      r = (if fn_errs s \<noteq> [] then Err (ErrorString (failed_text plural target (fn_errs s))) else Ok ())" "w' = fn_world s"
    using assms(2) by (auto simp: wait_for_all_def fan_out_def split: option.splits if_splits)
  have inv: "fan_inv idle timeout ?late ?cs w s"
    by (rule watched.fan_inv_run [OF assms(1) s]) (rule watched.fan_inv_start [OF assms(1)], rule assms(3))
  have elapsed: "fn_elapsed s = elapsed_of sched" using fan_run_elapsed [OF s] by (simp add: fan_start_def)
  have len: "length (fn_routines s) = length names"
    and earned: "\<And>i. i < length names \<Longrightarrow> earned idle timeout w (or_false (reached (names ! i))) s (fn_routines s ! i)"
    using inv by (auto simp: fan_inv_def)
  show ?thesis
  proof (cases "fn_crashed s")
    case True
    then obtain name w1 w2 where "name \<in> set names" "run_state (or_false (reached name)) w1 = (Panic, w2)"
      using inv by (auto simp: fan_inv_def)
    moreover from this(2) have "run_state (reached name) w1 = (Panic, w2)"
      by (auto simp: or_false_def try_or_def ret_def split: prod.splits outcome.splits)
    ultimately show ?thesis using True r(1) by auto
  next
    case False
    then have left: "fn_left s = 0" using r(1) by simp
    obtain got where got: "fn_errs s = map ?late got" "mset got = gave_up (fn_routines s)"
      using fan_inv_ended(1) [OF inv left] by blast
    have mem: "i \<in> set got \<longleftrightarrow> i < length names \<and> fn_routines s ! i = Answered False" for i
      using arg_cong [OF got(2), of "\<lambda>M. i \<in># M"] by (auto simp: gave_up_def len)
    show ?thesis
    proof (cases "got = []")
      case True
      have "seen idle w (reached (names ! i)) w'" if i: "i < length names" for i
      proof -
        obtain b where b: "fn_routines s ! i = Answered b"
          using fan_inv_ended(2) [OF inv left, of i] i by (auto simp: answered_def)
        then have "b" using mem [of i] i True by (cases b) auto
        with b earned [OF i] have "seen idle w (or_false (reached (names ! i))) w'" by (simp add: earned_def r(2))
        then obtain w1 w2 where "idle w w1" "run_state (or_false (reached (names ! i))) w1 = (Ok True, w2)" "idle w2 w'"
          unfolding seen_def by blast
        with or_false_True [OF this(2)] show ?thesis unfolding seen_def by blast
      qed
      then show ?thesis using r(1) False True got(1) by (auto simp: in_set_conv_nth)
    next
      case late: False
      then obtain i where "i \<in> set got" by (cases got) auto
      then have "timeout \<noteq> 0 \<and> timeout \<le> elapsed_of sched"
        using mem [of i] earned [of i] elapsed by (auto simp: earned_def)
      moreover have "mset (map ((!) names) got) \<subseteq># mset (map ((!) names) [0..<length names])"
        unfolding mset_map got(2) gave_up_def len mset_filter
        by (intro image_mset_subseteq_mono multiset_filter_subset)
      then have "mset (map ((!) names) got) \<subseteq># mset names" by (simp only: map_nth)
      moreover have "map ?late got = map (late_error kind target) (map ((!) names) got)" by simp
      ultimately show ?thesis
        using r(1) False late got(1) by (auto simp: comp_def intro!: exI [of _ "map ((!) names) got"])
    qed
  qed
qed

section \<open>The wait ends\<close>

text \<open>How many turns are left to take, at most.\<close>

fun routine_rank :: "routine \<Rightarrow> nat" where
  "routine_rank (Polling looked) = (if looked then 2 else 3)"
| "routine_rank (Polled e) = 1"
| "routine_rank (Answered b) = 0"

definition fan_rank :: "'w fan \<Rightarrow> nat" where
  "fan_rank s = sum_list (map routine_rank (fn_routines s)) + fn_left s"

lemma fan_rank_routine:
  assumes "i < length (fn_routines s)" "fn_left s' = fn_left s" "fn_routines s' = (fn_routines s)[i := r]"
  shows "fan_rank s' + routine_rank (fn_routines s ! i) = fan_rank s + routine_rank r"
proof -
  have "routine_rank (fn_routines s ! i) \<le> sum_list (map routine_rank (fn_routines s))"
    using elem_le_sum_list [of i "map routine_rank (fn_routines s)"] assms(1) by simp
  then show ?thesis
    using assms by (simp add: fan_rank_def map_update sum_list_update)
qed

lemma fan_rank_turn:
  assumes "fan_turn e timeout late cs t s = Some s'" "length (fn_routines s) = length cs"
  shows "fan_rank s' \<le> fan_rank s \<and> length (fn_routines s') = length cs"
proof (cases t)
  case (Look i)
  then obtain b where i: "i < length cs" "fn_routines s ! i = Polling b" "s' = look cs i s"
    using assms(1) by (auto split: if_splits routine.splits)
  obtain r w' where run: "run_state (cs ! i) (fn_world s) = (r, w')" by (cases "run_state (cs ! i) (fn_world s)")
  have 2: "routine_rank (Polled x) \<le> 2" "routine_rank (Polling True) \<le> 2" "2 \<le> routine_rank (Polling b)" for x by simp_all
  consider q where "s' = s\<lparr> fn_world := w', fn_routines := (fn_routines s)[i := q] \<rparr>" "routine_rank q \<le> 2"
    | "s' = s\<lparr> fn_world := w', fn_crashed := True \<rparr>"
    using i(3) run 2 by (cases r) (auto simp: look_def split: if_splits)
  then show ?thesis
  proof cases
    case (1 q)
    have "fan_rank s' + routine_rank (fn_routines s ! i) = fan_rank s + routine_rank q"
      by (rule fan_rank_routine) (use 1 i assms(2) in simp_all)
    with 1 2(3) i(2) assms(2) show ?thesis by simp
  qed (use assms(2) in \<open>simp add: fan_rank_def\<close>)
next
  case (GiveUp i)
  then show ?thesis
    using assms fan_rank_routine [of i s s' "Polled (Some e)"] by (auto split: if_splits)
next
  case (Answer i)
  then show ?thesis
    using assms fan_rank_routine [of i s s' "Answered True"] fan_rank_routine [of i s s' "Answered False"]
    by (auto split: if_splits routine.splits option.splits)
qed (use assms in \<open>auto simp: fan_rank_def split: list.splits if_splits\<close>)

lemma fan_rank_run:
  "fan_run e timeout late cs ts s = Some s' \<Longrightarrow> length (fn_routines s) = length cs \<Longrightarrow> fan_rank s' \<le> fan_rank s"
proof (induction ts arbitrary: s)
  case (Cons t ts)
  then obtain s1 where "fan_turn e timeout late cs t s = Some s1" "fan_run e timeout late cs ts s1 = Some s'"
    by (auto split: if_splits option.splits)
  with fan_rank_turn [OF this(1) Cons.prems(2)] Cons.IH [OF this(2)] show ?case by simp
qed simp

lemma fan_run_append:
  "fan_run e timeout late cs (ts @ us) s =
     (case fan_run e timeout late cs ts s of Some s' \<Rightarrow> fan_run e timeout late cs us s' | None \<Rightarrow> None)"
  by (induction ts arbitrary: s) (simp_all split: option.split)

text \<open>Once the time is up, there is always a turn that can be taken, and it brings the end nearer.\<close>

lemma fan_progress:
  assumes "answers_kept late s" "length (fn_routines s) = length cs" "\<not> fan_ended s" "timeout \<noteq> 0" "timeout \<le> fn_elapsed s"
    "\<And>c w. c \<in> set cs \<Longrightarrow> \<not> is_err (fst (run_state c w))"
  shows "\<exists>t s'. fan_turn e timeout late cs t s = Some s' \<and> (fn_crashed s' \<or> fan_rank s' < fan_rank s) \<and>
    (\<forall>d f. t \<noteq> Elapse d f)"
proof -
  consider "fn_errChan s \<noteq> []" | "fn_doneChan s \<noteq> []"
    | "fn_errChan s = []" "fn_doneChan s = []" "\<exists>r\<in>set (fn_routines s). \<not> answered r"
    using assms(1,3) by (auto simp: answers_kept_def fan_ended_def filter_empty_conv)
  then show ?thesis
  proof cases
    case 1
    then show ?thesis
      using assms(3) by (cases "fn_errChan s") (auto intro!: exI [of _ TakeErr] simp: fan_rank_def fan_ended_def)
  next
    case 2
    then show ?thesis
      using assms(3) by (cases "fn_doneChan s") (auto intro!: exI [of _ TakeDone] simp: fan_rank_def fan_ended_def)
  next
    case 3
    then obtain i where i: "i < length cs" "\<not> answered (fn_routines s ! i)"
      using assms(2) by (auto simp: in_set_conv_nth)
    then have room: "length (fn_errChan s) < length cs" "length (fn_doneChan s) < length cs" using 3 by auto
    show ?thesis
    proof (cases "fn_routines s ! i")
      case (Polling looked)
      show ?thesis
      proof (cases looked)
        case True
        have "fan_rank (s\<lparr> fn_routines := (fn_routines s)[i := Polled (Some e)] \<rparr>) < fan_rank s"
          using fan_rank_routine [of i s "s\<lparr> fn_routines := (fn_routines s)[i := Polled (Some e)] \<rparr>" "Polled (Some e)"]
            i Polling True assms(2) by simp
        with i Polling True assms(4,5) show ?thesis by (intro exI [of _ "GiveUp i"]) simp
      next
        case False
        obtain r w' where run: "run_state (cs ! i) (fn_world s) = (r, w')" by (cases "run_state (cs ! i) (fn_world s)")
        have "\<not> is_err r" using assms(6) [of "cs ! i" "fn_world s"] i run by simp
        then have "fn_crashed (look cs i s) \<or> fan_rank (look cs i s) < fan_rank s"
        proof (cases r)
          case (Ok b)
          have "fan_rank (look cs i s) < fan_rank s"
            using fan_rank_routine [of i s "look cs i s" "if b then Polled None else Polling True"]
              i Polling False assms(2) run Ok by (simp add: look_def split: if_splits)
          then show ?thesis ..
        qed (use run in \<open>simp_all add: look_def\<close>)
        with i Polling show ?thesis by (intro exI [of _ "Look i"]) simp
      qed
    next
      case (Polled x)
      have less: "fan_rank s' < fan_rank s" if "fn_left s' = fn_left s" "fn_routines s' = (fn_routines s)[i := Answered b]" for s' b
        using fan_rank_routine [of i s s' "Answered b"] i Polled assms(2) that by simp
      show ?thesis
        using i Polled room
          less [of "s\<lparr> fn_doneChan := fn_doneChan s @ [True], fn_routines := (fn_routines s)[i := Answered True] \<rparr>" True]
          less [of "s\<lparr> fn_errChan := fn_errChan s @ [late i], fn_routines := (fn_routines s)[i := Answered False] \<rparr>" False]
        by (intro exI [of _ "Answer i"]) (cases x, simp_all)
    next
      case (Answered b)
      then show ?thesis using i by (simp add: answered_def)
    qed
  qed
qed

context watched
begin

lemma fan_finishes:
  assumes "fan_inv idle timeout late cs w s" "timeout \<noteq> 0" "timeout \<le> fn_elapsed s"
  shows "\<exists>ts s'. length ts \<le> fan_rank s \<and> fan_run e timeout late cs ts s = Some s' \<and> fan_ended s'"
  using assms(1,3)
proof (induction "fan_rank s" arbitrary: s rule: less_induct)
  case less
  show ?case
  proof (cases "fan_ended s")
    case True
    then show ?thesis by (intro exI [of _ "[]"]) simp
  next
    case False
    have "\<not> is_err (fst (run_state c v))" if "c \<in> set cs" for c v
      using looks [OF that, of v] by (cases "run_state c v") auto
    with less.prems False assms(2) obtain t s1 where t: "fan_turn e timeout late cs t s = Some s1"
        "fn_crashed s1 \<or> fan_rank s1 < fan_rank s" "\<forall>d f. t \<noteq> Elapse d f"
      using fan_progress [of late s cs timeout e] unfolding fan_inv_def by blast
    have run: "fan_run e timeout late cs [t] s = Some s1" using t(1) False by simp
    show ?thesis
    proof (cases "fan_ended s1")
      case True
      have "0 < fan_rank s" using False by (simp add: fan_rank_def fan_ended_def)
      with True run show ?thesis by (intro exI [of _ "[t]"] exI [of _ s1]) simp
    next
      case going: False
      have "fan_inv idle timeout late cs w s1"
        by (rule fan_inv_turn [OF t(1) less.prems(1)]) (use t(3) False in \<open>auto simp: fan_ended_def\<close>)
      moreover have "fn_elapsed s1 = fn_elapsed s"
        using fan_run_elapsed [OF run] t(3) by (auto simp: elapsed_of_def split: turn.splits)
      moreover have "fan_rank s1 < fan_rank s" using t(2) going by (simp add: fan_ended_def)
      ultimately obtain ts s' where "length ts \<le> fan_rank s1" "fan_run e timeout late cs ts s1 = Some s'" "fan_ended s'"
        using less.hyps [of s1] less.prems(2) by auto
      with run \<open>fan_rank s1 < fan_rank s\<close> show ?thesis
        by (intro exI [of _ "t # ts"] exI [of _ s']) (auto split: option.splits if_splits)
    qed
  qed
qed

end

lemma fan_out_ends:
  assumes "watched idle (map (\<lambda>name. or_false (reached name)) names)" "\<And>d f v. Elapse d f \<in> set sched \<Longrightarrow> idle v (f v)"
    and "fan_out wl sched timeout kind target reached names w \<noteq> None" "timeout \<noteq> 0" "timeout \<le> elapsed_of sched"
  shows "\<exists>ts. length ts \<le> 4 * length names \<and>
    wait_for_all wl (sched @ ts) timeout plural kind target reached names w \<noteq> None"
proof -
  let ?cs = "map (\<lambda>name. or_false (reached name)) names" and ?late = "\<lambda>i. late_error kind target (names ! i)"
  obtain s where s: "fan_run (ErrWaitTimeout wl) timeout ?late ?cs sched (fan_start w (length ?cs)) = Some s"
    using assms(3) by (auto simp: fan_out_def)
  have inv: "fan_inv idle timeout ?late ?cs w s"
    by (rule watched.fan_inv_run [OF assms(1) s]) (rule watched.fan_inv_start [OF assms(1)], rule assms(2))
  have "fan_rank s \<le> fan_rank (fan_start w (length ?cs))"
    by (rule fan_rank_run [OF s]) (simp add: fan_start_def)
  also have "\<dots> = 4 * length names" by (simp add: fan_rank_def fan_start_def sum_list_replicate)
  finally have rank: "fan_rank s \<le> 4 * length names" .
  have "timeout \<le> fn_elapsed s" using fan_run_elapsed [OF s] assms(5) by (simp add: fan_start_def)
  from watched.fan_finishes [OF assms(1) inv assms(4) this, of "ErrWaitTimeout wl"] obtain ts s' where
    ts: "length ts \<le> fan_rank s" "fan_run (ErrWaitTimeout wl) timeout ?late ?cs ts s = Some s'" "fan_ended s'" by blast
  then have "wait_for_all wl (sched @ ts) timeout plural kind target reached names w \<noteq> None"
    using s by (auto simp: wait_for_all_def fan_out_def fan_run_append fan_ended_def)
  with ts(1) rank show ?thesis by (intro exI [of _ ts]) simp
qed

text \<open>Conditions that only look are watched when their errors are logged.\<close>

lemma watched_or_false:
  assumes "reflp idle" "transp idle" "\<And>name. keeps idle (reached name)"
  shows "watched idle (map (\<lambda>name. or_false (reached name)) names)"
proof
  fix c r and w w' assume "c \<in> set (map (\<lambda>name. or_false (reached name)) names)" and run: "run_state c w = (r, w')"
  then obtain name where c: "c = or_false (reached name)" by auto
  obtain q v where q: "run_state (reached name) w = (q, v)" by (cases "run_state (reached name) w")
  have "idle w v" using assms(3) q by (simp add: keeps_def)
  then show "idle w w' \<and> \<not> is_err r"
    using run q by (auto simp: c or_false_def try_or_def ret_def split: outcome.splits)
qed (use assms(1,2) in \<open>auto elim: reflpD transpD\<close>)

end
