(* ===== verification/Deployments.thy ===== *)
theory Deployments
  imports Resource_Fan_Out
begin

text \<open>
  internal/controller/deployments/manager.go: the manager of Deployments. A manager is its client;
  of a Deployment there are the fields the manager reads or writes (\<open>spec.replicas\<close> may be nil).
  Logging is left out.
\<close>

record deployment =
  dp_Meta :: object_meta
  dp_Replicas :: "int option"
  dp_StatusReplicas :: int
  dp_AvailableReplicas :: int

type_synonym 'w deployments = "('w, deployment) resource_client"

definition workload_FluxReconcileAnnotation :: string where
  "workload_FluxReconcileAnnotation = ''kustomize.toolkit.fluxcd.io/reconcile''"

definition DisabledValue :: string where
  "DisabledValue = ''disabled''"

section \<open>Scaling\<close>

definition ScaleDeployment :: "'w deployments \<Rightarrow> string \<Rightarrow> string \<Rightarrow> int \<Rightarrow> ('w, unit outcome) state" where
  "ScaleDeployment m name namespace replicas =
     edit_resource m (namespace, name) (\<lambda>d.
       if dp_Replicas d = Some replicas then Ok None else Ok (Some (d\<lparr> dp_Replicas := Some replicas \<rparr>)))"

definition deploy_ScaleDown :: "'w deployments \<Rightarrow> string \<Rightarrow> string \<Rightarrow> ('w, unit outcome) state" where
  "deploy_ScaleDown m name namespace = ScaleDeployment m name namespace 0"

definition deploy_ScaleUp :: "'w deployments \<Rightarrow> string \<Rightarrow> string \<Rightarrow> int \<Rightarrow> ('w, unit outcome) state" where
  "deploy_ScaleUp m name namespace replicas = ScaleDeployment m name namespace replicas"

definition deploy_GetCurrentReplicas :: "'w deployments \<Rightarrow> string \<Rightarrow> string \<Rightarrow> ('w, int outcome) state" where
  "deploy_GetCurrentReplicas m name namespace =
     query_resource m (namespace, name) (\<lambda>d. Ok (case dp_Replicas d of None \<Rightarrow> 0 | Some n \<Rightarrow> n))"

text \<open>Whether a Deployment is ready; the last comparison looks through a pointer that may be nil, if
  the first holds.\<close>

definition deployment_ready :: "deployment \<Rightarrow> bool outcome" where
  "deployment_ready d =
     (if dp_Replicas d = Some 0 then Ok (dp_StatusReplicas d = 0)
      else if dp_AvailableReplicas d \<noteq> dp_StatusReplicas d then Ok False
      else (case dp_Replicas d of None \<Rightarrow> Panic | Some n \<Rightarrow> Ok (dp_StatusReplicas d = n)))"

definition deploy_IsReady :: "'w deployments \<Rightarrow> string \<Rightarrow> string \<Rightarrow> ('w, bool outcome) state" where
  "deploy_IsReady m name namespace = query_resource m (namespace, name) deployment_ready"

definition deploy_IsScaledDown :: "'w deployments \<Rightarrow> string \<Rightarrow> string \<Rightarrow> ('w, bool outcome) state" where
  "deploy_IsScaledDown m name namespace = query_resource m (namespace, name) (\<lambda>d. Ok (dp_Replicas d = Some 0))"

definition deploy_WaitForReplicasReady ::
    "'w wait_lib \<Rightarrow> 'w deployments \<Rightarrow> string \<Rightarrow> string \<Rightarrow> int \<Rightarrow> ('w, unit outcome) state" where
  "deploy_WaitForReplicasReady wl m name namespace timeout =
     PollImmediate wl second (timeout * second) (deploy_IsReady m name namespace)"

section \<open>Annotations\<close>

text \<open>An annotation that has the value already is left.\<close>

definition deploy_AddAnnotation ::
    "'w deployments \<Rightarrow> string \<Rightarrow> string \<Rightarrow> string \<Rightarrow> string \<Rightarrow> ('w, unit outcome) state" where
  "deploy_AddAnnotation m name namespace annotationKey annotationValue =
     edit_resource m (namespace, name) (\<lambda>d.
       if annotation (dp_Meta d) annotationKey = Some annotationValue then Ok None
       else Ok (Some (d\<lparr> dp_Meta := set_annotation annotationKey annotationValue (dp_Meta d) \<rparr>)))"

text \<open>An annotation whose value is empty counts as missing.\<close>

definition deploy_RemoveAnnotation :: "'w deployments \<Rightarrow> string \<Rightarrow> string \<Rightarrow> string \<Rightarrow> ('w, unit outcome) state" where
  "deploy_RemoveAnnotation m name namespace annotationKey =
     edit_resource m (namespace, name) (\<lambda>d.
       if text_at (dp_Meta d) annotationKey = '''' then Ok None
       else Ok (Some (d\<lparr> dp_Meta := del_annotation annotationKey (dp_Meta d) \<rparr>)))"

definition deploy_GetAnnotation :: "'w deployments \<Rightarrow> string \<Rightarrow> string \<Rightarrow> string \<Rightarrow> ('w, string option outcome) state" where
  "deploy_GetAnnotation m name namespace annotationKey =
     query_resource m (namespace, name) (\<lambda>d. Ok (annotation (dp_Meta d) annotationKey))"

definition deploy_AddFluxAnnotation :: "'w deployments \<Rightarrow> string \<Rightarrow> string \<Rightarrow> ('w, unit outcome) state" where
  "deploy_AddFluxAnnotation m name namespace =
     deploy_AddAnnotation m name namespace workload_FluxReconcileAnnotation DisabledValue"

definition deploy_RemoveFluxAnnotation :: "'w deployments \<Rightarrow> string \<Rightarrow> string \<Rightarrow> ('w, unit outcome) state" where
  "deploy_RemoveFluxAnnotation m name namespace =
     deploy_RemoveAnnotation m name namespace workload_FluxReconcileAnnotation"

section \<open>Many Deployments\<close>

definition ProcessDeployments ::
    "'w deployments \<Rightarrow> string \<Rightarrow> string list \<Rightarrow> bool \<Rightarrow> int \<Rightarrow> ('w, unit outcome) state" where
  "ProcessDeployments m namespace names active targetReplicas =
     for_each (\<lambda>name. if active then deploy_ScaleUp m name namespace targetReplicas else deploy_ScaleDown m name namespace) names"

text \<open>The goroutines are scheduled by \<open>sched\<close>.\<close>

definition WaitForAllDeploymentsState ::
    "'w wait_lib \<Rightarrow> 'w turn list \<Rightarrow> 'w deployments \<Rightarrow> string \<Rightarrow> string list \<Rightarrow> bool \<Rightarrow> int \<Rightarrow>
     'w \<Rightarrow> (unit outcome \<times> 'w) option" where
  "WaitForAllDeploymentsState wl sched m namespace names expectScaledDown timeout =
     wait_for_all wl sched timeout ''Deployments'' ''Deployment'' (if expectScaledDown then ''scaled down'' else ''ready'')
       (\<lambda>name. if expectScaledDown then deploy_IsScaledDown m name namespace else deploy_IsReady m name namespace) names"

end
