(* ===== verification/Stateful_Sets.thy ===== *)
theory Stateful_Sets
  imports Deployments
begin

text \<open>
  internal/controller/statefulsets/manager.go: the manager of StatefulSets. A manager is its client;
  of a StatefulSet there are the fields the manager reads or writes. Logging is left out. (The
  annotation that disables Flux has the same name and value as for Deployments.)
\<close>

record stateful_set =
  ss_Meta :: object_meta
  ss_Replicas :: "int option"
  ss_StatusReplicas :: int
  ss_ReadyReplicas :: int
  ss_CurrentReplicas :: int

type_synonym 'w stateful_sets = "('w, stateful_set) resource_client"

definition ScaleStatefulSet :: "'w stateful_sets \<Rightarrow> string \<Rightarrow> string \<Rightarrow> int \<Rightarrow> ('w, unit outcome) state" where
  "ScaleStatefulSet m name namespace replicas =
     edit_resource m (namespace, name) (\<lambda>s. Ok (Some (s\<lparr> ss_Replicas := Some replicas \<rparr>)))"

definition sts_ScaleDown :: "'w stateful_sets \<Rightarrow> string \<Rightarrow> string \<Rightarrow> ('w, unit outcome) state" where
  "sts_ScaleDown m name namespace = ScaleStatefulSet m name namespace 0"

definition sts_ScaleUp :: "'w stateful_sets \<Rightarrow> string \<Rightarrow> string \<Rightarrow> int \<Rightarrow> ('w, unit outcome) state" where
  "sts_ScaleUp m name namespace replicas = ScaleStatefulSet m name namespace replicas"

definition sts_GetCurrentReplicas :: "'w stateful_sets \<Rightarrow> string \<Rightarrow> string \<Rightarrow> ('w, int outcome) state" where
  "sts_GetCurrentReplicas m name namespace =
     query_resource m (namespace, name) (\<lambda>s. Ok (case ss_Replicas s of None \<Rightarrow> 0 | Some n \<Rightarrow> n))"

text \<open>The number of replicas that is desired does not count, unless it is zero.\<close>

definition stateful_set_ready :: "stateful_set \<Rightarrow> bool" where
  "stateful_set_ready s \<longleftrightarrow> ss_Replicas s = Some 0 \<or>
     ss_ReadyReplicas s = ss_StatusReplicas s \<and> ss_StatusReplicas s = ss_CurrentReplicas s"

definition sts_IsReady :: "'w stateful_sets \<Rightarrow> string \<Rightarrow> string \<Rightarrow> ('w, bool outcome) state" where
  "sts_IsReady m name namespace = query_resource m (namespace, name) (\<lambda>s. Ok (stateful_set_ready s))"

text \<open>A StatefulSet without a number of replicas counts as scaled down.\<close>

definition sts_IsScaledDown :: "'w stateful_sets \<Rightarrow> string \<Rightarrow> string \<Rightarrow> ('w, bool outcome) state" where
  "sts_IsScaledDown m name namespace =
     check (sts_GetCurrentReplicas m name namespace) (\<lambda>e. e) (\<lambda>replicas. ret (replicas = 0))"

section \<open>Annotations\<close>

definition sts_AddAnnotation ::
    "'w stateful_sets \<Rightarrow> string \<Rightarrow> string \<Rightarrow> string \<Rightarrow> string \<Rightarrow> ('w, unit outcome) state" where
  "sts_AddAnnotation m name namespace key val =
     edit_resource m (namespace, name) (\<lambda>s. Ok (Some (s\<lparr> ss_Meta := set_annotation key val (ss_Meta s) \<rparr>)))"

definition sts_RemoveAnnotation :: "'w stateful_sets \<Rightarrow> string \<Rightarrow> string \<Rightarrow> string \<Rightarrow> ('w, unit outcome) state" where
  "sts_RemoveAnnotation m name namespace key =
     edit_resource m (namespace, name) (\<lambda>s.
       if annotation (ss_Meta s) key = None then Ok None
       else Ok (Some (s\<lparr> ss_Meta := del_annotation key (ss_Meta s) \<rparr>)))"

definition sts_GetAnnotation :: "'w stateful_sets \<Rightarrow> string \<Rightarrow> string \<Rightarrow> string \<Rightarrow> ('w, string option outcome) state" where
  "sts_GetAnnotation m name namespace key =
     query_resource m (namespace, name) (\<lambda>s. Ok (annotation (ss_Meta s) key))"

definition sts_AddFluxAnnotation :: "'w stateful_sets \<Rightarrow> string \<Rightarrow> string \<Rightarrow> ('w, unit outcome) state" where
  "sts_AddFluxAnnotation m name namespace =
     sts_AddAnnotation m name namespace workload_FluxReconcileAnnotation DisabledValue"

definition sts_RemoveFluxAnnotation :: "'w stateful_sets \<Rightarrow> string \<Rightarrow> string \<Rightarrow> ('w, unit outcome) state" where
  "sts_RemoveFluxAnnotation m name namespace =
     sts_RemoveAnnotation m name namespace workload_FluxReconcileAnnotation"

section \<open>Waiting, and many StatefulSets\<close>

definition sts_WaitForReplicasReady ::
    "'w wait_lib \<Rightarrow> 'w stateful_sets \<Rightarrow> string \<Rightarrow> string \<Rightarrow> int \<Rightarrow> ('w, unit outcome) state" where
  "sts_WaitForReplicasReady wl m name namespace timeout =
     PollImmediate wl (2 * second) timeout (or_false (sts_IsReady m name namespace))"

definition ProcessStatefulSets ::
    "'w stateful_sets \<Rightarrow> string \<Rightarrow> string list \<Rightarrow> bool \<Rightarrow> int \<Rightarrow> ('w, unit outcome) state" where
  "ProcessStatefulSets m namespace names active targetReplicas =
     for_each (\<lambda>name. if active then sts_ScaleUp m name namespace targetReplicas else sts_ScaleDown m name namespace) names"

definition WaitForAllStatefulSetsReady ::
    "'w wait_lib \<Rightarrow> 'w stateful_sets \<Rightarrow> string \<Rightarrow> string list \<Rightarrow> int \<Rightarrow> ('w, unit outcome) state" where
  "WaitForAllStatefulSetsReady wl m namespace names timeout =
     all_in_turn (\<lambda>name. check (sts_WaitForReplicasReady wl m name namespace timeout)
       (wrapf (''timeout waiting for StatefulSet '' @ name @ '' to be ready'')) (\<lambda>_. ret ())) names"

end
