(* ===== verification/Cron_Jobs.thy ===== *)
theory Cron_Jobs
  imports Deployments
begin

text \<open>
  internal/controller/cronjobs/manager.go: the manager of CronJobs, which suspends and resumes them.
  A manager is its client; of a CronJob there are the fields the manager reads or writes. Logging is
  left out.
\<close>

record cron_job =
  cj_Meta :: object_meta
  cj_Suspend :: "bool option"

type_synonym 'w cron_jobs = "('w, cron_job) resource_client"

definition ScaleCronJob :: "'w cron_jobs \<Rightarrow> string \<Rightarrow> string \<Rightarrow> bool \<Rightarrow> ('w, unit outcome) state" where
  "ScaleCronJob m name namespace suspend =
     edit_resource m (namespace, name) (\<lambda>c. Ok (Some (c\<lparr> cj_Suspend := Some suspend \<rparr>)))"

definition cron_Suspend :: "'w cron_jobs \<Rightarrow> string \<Rightarrow> string \<Rightarrow> ('w, unit outcome) state" where
  "cron_Suspend m name namespace = ScaleCronJob m name namespace True"

definition cron_Resume :: "'w cron_jobs \<Rightarrow> string \<Rightarrow> string \<Rightarrow> ('w, unit outcome) state" where
  "cron_Resume m name namespace = ScaleCronJob m name namespace False"

definition suspended :: "cron_job \<Rightarrow> bool" where
  "suspended c \<longleftrightarrow> cj_Suspend c = Some True"

definition cron_IsReady :: "'w cron_jobs \<Rightarrow> string \<Rightarrow> string \<Rightarrow> bool \<Rightarrow> ('w, bool outcome) state" where
  "cron_IsReady m name namespace shouldBeSuspended =
     query_resource m (namespace, name) (\<lambda>c. Ok (suspended c = shouldBeSuspended))"

definition cron_IsSuspended :: "'w cron_jobs \<Rightarrow> string \<Rightarrow> string \<Rightarrow> ('w, bool outcome) state" where
  "cron_IsSuspended m name namespace = query_resource m (namespace, name) (\<lambda>c. Ok (suspended c))"

definition WaitForSuspended ::
    "'w wait_lib \<Rightarrow> 'w cron_jobs \<Rightarrow> string \<Rightarrow> string \<Rightarrow> int \<Rightarrow> ('w, unit outcome) state" where
  "WaitForSuspended wl m name namespace timeout =
     PollImmediate wl (2 * second) timeout (or_false (cron_IsSuspended m name namespace))"

definition WaitForResumed ::
    "'w wait_lib \<Rightarrow> 'w cron_jobs \<Rightarrow> string \<Rightarrow> string \<Rightarrow> int \<Rightarrow> ('w, unit outcome) state" where
  "WaitForResumed wl m name namespace timeout =
     PollImmediate wl (2 * second) timeout
       (or_false (check (cron_IsSuspended m name namespace) (\<lambda>e. e) (\<lambda>s. ret (\<not> s))))"

section \<open>Annotations\<close>

definition cron_AddAnnotation ::
    "'w cron_jobs \<Rightarrow> string \<Rightarrow> string \<Rightarrow> string \<Rightarrow> string \<Rightarrow> ('w, unit outcome) state" where
  "cron_AddAnnotation m name namespace key val =
     edit_resource m (namespace, name) (\<lambda>c. Ok (Some (c\<lparr> cj_Meta := set_annotation key val (cj_Meta c) \<rparr>)))"

definition cron_RemoveAnnotation :: "'w cron_jobs \<Rightarrow> string \<Rightarrow> string \<Rightarrow> string \<Rightarrow> ('w, unit outcome) state" where
  "cron_RemoveAnnotation m name namespace key =
     edit_resource m (namespace, name) (\<lambda>c.
       if annotation (cj_Meta c) key = None then Ok None
       else Ok (Some (c\<lparr> cj_Meta := del_annotation key (cj_Meta c) \<rparr>)))"

definition cron_GetAnnotation :: "'w cron_jobs \<Rightarrow> string \<Rightarrow> string \<Rightarrow> string \<Rightarrow> ('w, string option outcome) state" where
  "cron_GetAnnotation m name namespace key =
     query_resource m (namespace, name) (\<lambda>c. Ok (annotation (cj_Meta c) key))"

definition cron_AddFluxAnnotation :: "'w cron_jobs \<Rightarrow> string \<Rightarrow> string \<Rightarrow> ('w, unit outcome) state" where
  "cron_AddFluxAnnotation m name namespace =
     cron_AddAnnotation m name namespace workload_FluxReconcileAnnotation DisabledValue"

definition cron_RemoveFluxAnnotation :: "'w cron_jobs \<Rightarrow> string \<Rightarrow> string \<Rightarrow> ('w, unit outcome) state" where
  "cron_RemoveFluxAnnotation m name namespace =
     cron_RemoveAnnotation m name namespace workload_FluxReconcileAnnotation"

section \<open>Many CronJobs\<close>

definition ProcessCronJobs :: "'w cron_jobs \<Rightarrow> string \<Rightarrow> string list \<Rightarrow> bool \<Rightarrow> ('w, unit outcome) state" where
  "ProcessCronJobs m namespace names active =
     for_each (\<lambda>name. if active then cron_Resume m name namespace else cron_Suspend m name namespace) names"

definition WaitForAllCronJobsState ::
    "'w wait_lib \<Rightarrow> 'w turn list \<Rightarrow> 'w cron_jobs \<Rightarrow> string \<Rightarrow> string list \<Rightarrow> bool \<Rightarrow> int \<Rightarrow>
     'w \<Rightarrow> (unit outcome \<times> 'w) option" where
  "WaitForAllCronJobsState wl sched m namespace names shouldBeSuspended timeout =
     wait_for_all wl sched timeout ''CronJobs'' ''CronJob'' (if shouldBeSuspended then ''suspended'' else ''resumed'')
       (\<lambda>name. cron_IsReady m name namespace shouldBeSuspended) names"

end
