(* ===== verification/Unstructured.thy ===== *)
theory Unstructured
  imports Resource_Waiting
begin

text \<open>
  Objects without a Go type: \<open>map[string]interface{}\<close>, and the functions of
  k8s.io/apimachinery/pkg/apis/meta/v1/unstructured that read and write them along a path of field
  names. The functions are parameters with a contract.
\<close>

datatype json =
    JNull
  | JBool bool
  | JInt int
  | JText string
  | JList "json list"
  | JMap "(string \<times> json) list"

text \<open>A reader answers None when the path leads nowhere, and fails when it leads through, or to, a value
  of another type; a writer fails when it leads through a value that is not a map.\<close>

record unstructured_lib =
  NestedString :: "json \<Rightarrow> string list \<Rightarrow> string option outcome"
  NestedBool :: "json \<Rightarrow> string list \<Rightarrow> bool option outcome"
  NestedSlice :: "json \<Rightarrow> string list \<Rightarrow> json list option outcome"
  NestedStringMap :: "json \<Rightarrow> string list \<Rightarrow> (string \<times> string) list option outcome"
  SetNestedField :: "json \<Rightarrow> json \<Rightarrow> string list \<Rightarrow> json outcome"
  SetNestedStringMap :: "json \<Rightarrow> (string \<times> string) list \<Rightarrow> string list \<Rightarrow> json outcome"
  GetAnnotations :: "json \<Rightarrow> (string \<times> string) list"
  SetAnnotations :: "json \<Rightarrow> (string \<times> string) list \<Rightarrow> json"

definition annotations_path :: "string list" where
  "annotations_path = [''metadata'', ''annotations'']"

text \<open>\<open>s, found, _ := NestedString(m, field)\<close>: an error counts as nothing found. A value that is not a
  map is passed over by the callers.\<close>

definition field_text :: "unstructured_lib \<Rightarrow> json \<Rightarrow> string \<Rightarrow> string option" where
  "field_text ul j field = (case NestedString ul j [field] of Ok s \<Rightarrow> s | _ \<Rightarrow> None)"

definition condition_true :: "unstructured_lib \<Rightarrow> string \<Rightarrow> json \<Rightarrow> bool" where
  "condition_true ul kind j \<longleftrightarrow> (case j of JMap _ \<Rightarrow> field_text ul j ''type'' = Some kind \<and> field_text ul j ''status'' = Some ''True''
     | _ \<Rightarrow> False)"

text \<open>The conditions in the status; an object without any is not in the state that is asked for.\<close>

definition check_conditions :: "unstructured_lib \<Rightarrow> (json list \<Rightarrow> bool) \<Rightarrow> json \<Rightarrow> bool outcome" where
  "check_conditions ul P j =
     (case NestedSlice ul j [''status'', ''conditions''] of
        Ok (Some cs) \<Rightarrow> Ok (cs \<noteq> [] \<and> P cs)
      | Ok None \<Rightarrow> Ok False
      | Err e \<Rightarrow> Err e
      | Panic \<Rightarrow> Panic)"

text \<open>A changed object is written; what the writer answers with an error is not.\<close>

definition changed :: "json outcome \<Rightarrow> json option outcome" where
  "changed r = (case r of Ok j \<Rightarrow> Ok (Some j) | Err e \<Rightarrow> Err e | Panic \<Rightarrow> Panic)"

section \<open>The contract\<close>

text \<open>Paths are apart when neither begins with the other: then a write along one is not seen along the
  other.\<close>

definition apart :: "string list \<Rightarrow> string list \<Rightarrow> bool" where
  "apart p q \<longleftrightarrow> \<not> prefix p q \<and> \<not> prefix q p"

locale unstructured =
  fixes ul :: unstructured_lib
  assumes set_text: "SetNestedField ul j (JText s) p = Ok j' \<Longrightarrow> NestedString ul j' p = Ok (Some s)"
    and set_bool: "SetNestedField ul j (JBool b) p = Ok j' \<Longrightarrow> NestedBool ul j' p = Ok (Some b)"
    and set_apart: "SetNestedField ul j v p = Ok j' \<Longrightarrow> apart p q \<Longrightarrow>
      NestedString ul j' q = NestedString ul j q \<and> NestedBool ul j' q = NestedBool ul j q \<and>
      NestedStringMap ul j' q = NestedStringMap ul j q"
    and set_returns: "SetNestedField ul j v p \<noteq> Panic"
    and string_returns: "NestedString ul j p \<noteq> Panic"
    and set_map: "SetNestedStringMap ul j m p = Ok j' \<Longrightarrow> NestedStringMap ul j' p = Ok (Some m)"

section \<open>An implementation\<close>

text \<open>Reading and writing along a path of field names.\<close>

fun json_at :: "string list \<Rightarrow> json \<Rightarrow> json option outcome" where
  "json_at [] j = Ok (Some j)"
| "json_at (f # p) (JMap m) = (case map_of m f of None \<Rightarrow> Ok None | Some j \<Rightarrow> json_at p j)"
| "json_at (f # p) j = Err (ErrorString ''accessor error: a value of another type'')"

fun json_put :: "string list \<Rightarrow> json \<Rightarrow> json \<Rightarrow> json outcome" where
  "json_put [] v j = Ok v"
| "json_put (f # p) v (JMap m) =
     (case json_put p v (case map_of m f of Some j \<Rightarrow> j | None \<Rightarrow> JMap []) of
        Ok j \<Rightarrow> Ok (JMap (map_put f j m))
      | Err e \<Rightarrow> Err e
      | Panic \<Rightarrow> Panic)"
| "json_put (f # p) v j = Err (ErrorString ''value cannot be set because a parent is not a map'')"

definition json_read :: "(json \<Rightarrow> 'a option) \<Rightarrow> json \<Rightarrow> string list \<Rightarrow> 'a option outcome" where
  "json_read conv j p =
     (case json_at p j of
        Ok None \<Rightarrow> Ok None
      | Ok (Some v) \<Rightarrow> (case conv v of Some x \<Rightarrow> Ok (Some x) | None \<Rightarrow> Err (ErrorString ''accessor error: a value of another type''))
      | Err e \<Rightarrow> Err e
      | Panic \<Rightarrow> Panic)"

primrec as_text :: "json \<Rightarrow> string option" where
  "as_text JNull = None" | "as_text (JBool b) = None" | "as_text (JInt i) = None" | "as_text (JText s) = Some s"
| "as_text (JList js) = None" | "as_text (JMap m) = None"

primrec as_bool :: "json \<Rightarrow> bool option" where
  "as_bool JNull = None" | "as_bool (JBool b) = Some b" | "as_bool (JInt i) = None" | "as_bool (JText s) = None"
| "as_bool (JList js) = None" | "as_bool (JMap m) = None"

primrec as_list :: "json \<Rightarrow> json list option" where
  "as_list JNull = None" | "as_list (JBool b) = None" | "as_list (JInt i) = None" | "as_list (JText s) = None"
| "as_list (JList js) = Some js" | "as_list (JMap m) = None"

definition texts_of :: "(string \<times> json) list \<Rightarrow> (string \<times> string) list option" where
  "texts_of m = (if list_all (\<lambda>(k, v). as_text v \<noteq> None) m then Some (map (\<lambda>(k, v). (k, the (as_text v))) m) else None)"

primrec as_texts :: "json \<Rightarrow> (string \<times> string) list option" where
  "as_texts JNull = None" | "as_texts (JBool b) = None" | "as_texts (JInt i) = None" | "as_texts (JText s) = None"
| "as_texts (JList js) = None" | "as_texts (JMap m) = texts_of m"

definition text_map :: "(string \<times> string) list \<Rightarrow> json" where
  "text_map m = JMap (map (\<lambda>(k, v). (k, JText v)) m)"

definition json_lib :: unstructured_lib where
  "json_lib = \<lparr> NestedString = json_read as_text, NestedBool = json_read as_bool, NestedSlice = json_read as_list,
     NestedStringMap = json_read as_texts, SetNestedField = (\<lambda>j v p. json_put p v j),
     SetNestedStringMap = (\<lambda>j m p. json_put p (text_map m) j),
     GetAnnotations = (\<lambda>j. case json_read as_texts j annotations_path of Ok (Some m) \<Rightarrow> m | _ \<Rightarrow> []),
     SetAnnotations = (\<lambda>j m. case json_put annotations_path (text_map m) j of Ok j' \<Rightarrow> j' | _ \<Rightarrow> j) \<rparr>"

lemma json_put_at: "json_put p v j = Ok j' \<Longrightarrow> json_at p j' = Ok (Some v)"
  by (induction p v j arbitrary: j' rule: json_put.induct) (auto split: outcome.splits)

lemma json_at_empty: "p \<noteq> [] \<Longrightarrow> json_at p (JMap []) = Ok None"
  by (cases p) auto

lemma json_put_apart: "json_put p v j = Ok j' \<Longrightarrow> apart p q \<Longrightarrow> json_at q j' = json_at q j"
proof (induction p v j arbitrary: j' q rule: json_put.induct)
  case (2 f p v m)
  obtain g r where q: "q = g # r" using 2(3) by (cases q) (auto simp: apart_def)
  show ?case
  proof (cases "g = f")
    case True
    then have pr: "apart p r" using 2(3) by (simp add: q apart_def)
    then have "r \<noteq> []" by (auto simp: apart_def)
    with 2 pr show ?thesis
      by (auto simp: q True json_at_empty split: outcome.splits option.splits)
  next
    case False
    with 2(2) show ?thesis by (auto simp: q split: outcome.splits)
  qed
qed (auto simp: apart_def)

lemma json_put_returns: "json_put p v j \<noteq> Panic"
  by (induction p v j rule: json_put.induct) (auto split: outcome.splits)

lemma json_at_returns: "json_at p j \<noteq> Panic"
  by (induction p j rule: json_at.induct) (auto split: option.splits)

lemma texts_of_map: "texts_of (map (\<lambda>(k, v). (k, JText v)) m) = Some m"
  by (induction m) (auto simp: texts_of_def split: if_splits)

interpretation json: unstructured json_lib
  by unfold_locales
    (auto simp: json_lib_def json_read_def json_put_at json_put_apart json_put_returns json_at_returns text_map_def texts_of_map
      split: outcome.splits option.splits)

end
