(* ===== verification/Volume_Replications.thy ===== *)
theory Volume_Replications
  imports Unstructured
begin

text \<open>
  internal/controller/volumereplications/manager.go: the manager of VolumeReplications, which are
  objects without a Go type. A manager is its client; the library of paths is a parameter. Logging is
  left out.
\<close>

type_synonym 'w objects = "('w, json) resource_client"

definition Primary :: string where "Primary = ''primary''"
definition Secondary :: string where "Secondary = ''secondary''"

definition state_path :: "string list" where
  "state_path = [''spec'', ''replicationState'']"

definition SetVolumeReplicationState ::
    "unstructured_lib \<Rightarrow> 'w objects \<Rightarrow> string \<Rightarrow> string \<Rightarrow> string \<Rightarrow> ('w, unit outcome) state" where
  "SetVolumeReplicationState ul m name namespace st =
     edit_resource m (namespace, name) (\<lambda>vr. changed (SetNestedField ul vr (JText st) state_path))"

definition SetPrimary :: "unstructured_lib \<Rightarrow> 'w objects \<Rightarrow> string \<Rightarrow> string \<Rightarrow> ('w, unit outcome) state" where
  "SetPrimary ul m name namespace = SetVolumeReplicationState ul m name namespace Primary"

definition SetSecondary :: "unstructured_lib \<Rightarrow> 'w objects \<Rightarrow> string \<Rightarrow> string \<Rightarrow> ('w, unit outcome) state" where
  "SetSecondary ul m name namespace = SetVolumeReplicationState ul m name namespace Secondary"

text \<open>The state of a volume: one without a state is primary.\<close>

definition volume_state :: "unstructured_lib \<Rightarrow> json \<Rightarrow> string outcome" where
  "volume_state ul vr =
     (case NestedString ul vr state_path of
        Ok (Some st) \<Rightarrow> Ok st
      | Ok None \<Rightarrow> Ok Primary
      | Err e \<Rightarrow> Err e
      | Panic \<Rightarrow> Panic)"

definition GetCurrentState :: "unstructured_lib \<Rightarrow> 'w objects \<Rightarrow> string \<Rightarrow> string \<Rightarrow> ('w, string outcome) state" where
  "GetCurrentState ul m name namespace = query_resource m (namespace, name) (volume_state ul)"

definition WaitForStateChange ::
    "'w wait_lib \<Rightarrow> unstructured_lib \<Rightarrow> 'w objects \<Rightarrow> string \<Rightarrow> string \<Rightarrow> string \<Rightarrow> int \<Rightarrow> ('w, unit outcome) state" where
  "WaitForStateChange wl ul m name namespace st timeout =
     PollImmediate wl (2 * second) timeout
       (or_false (check (GetCurrentState ul m name namespace) (\<lambda>e. e) (\<lambda>currentState. ret (currentState = st))))"

text \<open>Healthy and DataProtected, among the conditions.\<close>

definition volume_healthy :: "unstructured_lib \<Rightarrow> json \<Rightarrow> bool outcome" where
  "volume_healthy ul = check_conditions ul
     (\<lambda>cs. list_ex (condition_true ul ''Healthy'') cs \<and> list_ex (condition_true ul ''DataProtected'') cs)"

definition IsHealthy :: "unstructured_lib \<Rightarrow> 'w objects \<Rightarrow> string \<Rightarrow> string \<Rightarrow> ('w, bool outcome) state" where
  "IsHealthy ul m name namespace = query_resource m (namespace, name) (volume_healthy ul)"

definition WaitForHealthy ::
    "'w wait_lib \<Rightarrow> unstructured_lib \<Rightarrow> 'w objects \<Rightarrow> string \<Rightarrow> string \<Rightarrow> int \<Rightarrow> ('w, unit outcome) state" where
  "WaitForHealthy wl ul m name namespace timeout =
     PollImmediate wl (2 * second) timeout (or_false (IsHealthy ul m name namespace))"

definition volume_IsPrimary :: "unstructured_lib \<Rightarrow> 'w objects \<Rightarrow> string \<Rightarrow> string \<Rightarrow> ('w, bool outcome) state" where
  "volume_IsPrimary ul m name namespace =
     check (GetCurrentState ul m name namespace) (\<lambda>e. e) (\<lambda>st. ret (st = Primary))"

definition volume_IsSecondary :: "unstructured_lib \<Rightarrow> 'w objects \<Rightarrow> string \<Rightarrow> string \<Rightarrow> ('w, bool outcome) state" where
  "volume_IsSecondary ul m name namespace =
     check (GetCurrentState ul m name namespace) (\<lambda>e. e) (\<lambda>st. ret (st = Secondary))"

section \<open>Many volumes\<close>

definition ProcessVolumeReplications ::
    "unstructured_lib \<Rightarrow> 'w objects \<Rightarrow> string \<Rightarrow> string list \<Rightarrow> bool \<Rightarrow> ('w, unit outcome) state" where
  "ProcessVolumeReplications ul m namespace names active =
     for_each (\<lambda>name. SetVolumeReplicationState ul m name namespace (if active then Primary else Secondary)) names"

definition WaitForAllReplicationsHealthy ::
    "'w wait_lib \<Rightarrow> unstructured_lib \<Rightarrow> 'w objects \<Rightarrow> string \<Rightarrow> string list \<Rightarrow> int \<Rightarrow> ('w, unit outcome) state" where
  "WaitForAllReplicationsHealthy wl ul m namespace names timeout =
     all_in_turn (\<lambda>name. check (WaitForHealthy wl ul m name namespace timeout)
       (wrapf (''timeout waiting for VolumeReplication '' @ name @ '' to be healthy'')) (\<lambda>_. ret ())) names"

definition WaitForAllReplicationsState ::
    "'w wait_lib \<Rightarrow> unstructured_lib \<Rightarrow> 'w objects \<Rightarrow> string \<Rightarrow> string list \<Rightarrow> string \<Rightarrow> int \<Rightarrow> ('w, unit outcome) state" where
  "WaitForAllReplicationsState wl ul m namespace names st timeout =
     all_in_turn (\<lambda>name. check (WaitForStateChange wl ul m name namespace st timeout)
       (wrapf (''timeout waiting for VolumeReplication '' @ name @ '' to reach state '' @ st)) (\<lambda>_. ret ())) names"

end
