(* ===== verification/Ingresses.thy ===== *)
theory Ingresses
  imports Deployments
begin

text \<open>
  internal/controller/ingresses/manager.go: the manager of Ingresses. A manager is its client; of an
  Ingress there are its metadata and the entries of its load balancer. Logging is left out.
\<close>

record ingress =
  ig_Meta :: object_meta
  ig_LoadBalancer :: "string list"

type_synonym 'w ingresses = "('w, ingress) resource_client"

definition network_FluxReconcileAnnotation :: string where
  "network_FluxReconcileAnnotation = ''reconcile.fluxcd.io/requestedAt''"

definition DNSControllerAnnotation :: string where
  "DNSControllerAnnotation = ''dns-controller.kubernetes.io/enabled''"

definition DNSControllerEnabled :: string where "DNSControllerEnabled = ''true''"
definition DNSControllerDisabled :: string where "DNSControllerDisabled = ''false''"

section \<open>Updating\<close>

text \<open>The annotations of an Ingress that is active or not, and whether they are to be written: only if
  the one for DNS changes.\<close>

definition dns_updated :: "string \<Rightarrow> object_meta \<Rightarrow> bool" where
  "dns_updated st mt \<longleftrightarrow> text_at (set_annotation network_FluxReconcileAnnotation DisabledValue mt) DNSControllerAnnotation \<noteq>
     (if st = ''active'' then DNSControllerEnabled else DNSControllerDisabled)"

definition dns_annotations :: "string \<Rightarrow> object_meta \<Rightarrow> object_meta" where
  "dns_annotations st mt = set_annotation DNSControllerAnnotation
     (if st = ''active'' then DNSControllerEnabled else DNSControllerDisabled)
     (set_annotation network_FluxReconcileAnnotation DisabledValue mt)"

definition UpdateIngress :: "'w ingresses \<Rightarrow> string \<Rightarrow> string \<Rightarrow> string \<Rightarrow> ('w, bool outcome) state" where
  "UpdateIngress m name namespace st =
     check (rs_Get m (namespace, name)) (\<lambda>e. e)
     (\<lambda>i. if dns_updated st (ig_Meta i)
        then check (rs_Update m (i\<lparr> ig_Meta := dns_annotations st (ig_Meta i) \<rparr>)) (\<lambda>e. e) (\<lambda>_. ret True)
        else ret False)"

definition ProcessIngresses :: "'w ingresses \<Rightarrow> string \<Rightarrow> string list \<Rightarrow> bool \<Rightarrow> ('w, unit outcome) state" where
  "ProcessIngresses m namespace names active =
     for_each (\<lambda>name. ignore_err (UpdateIngress m name namespace (if active then ''active'' else ''passive''))) names"

section \<open>Annotations\<close>

definition ingress_AddAnnotation ::
    "'w ingresses \<Rightarrow> string \<Rightarrow> string \<Rightarrow> string \<Rightarrow> string \<Rightarrow> ('w, unit outcome) state" where
  "ingress_AddAnnotation m name namespace key val =
     edit_resource m (namespace, name) (\<lambda>i. Ok (Some (i\<lparr> ig_Meta := set_annotation key val (ig_Meta i) \<rparr>)))"

definition ingress_RemoveAnnotation :: "'w ingresses \<Rightarrow> string \<Rightarrow> string \<Rightarrow> string \<Rightarrow> ('w, unit outcome) state" where
  "ingress_RemoveAnnotation m name namespace key =
     edit_resource m (namespace, name) (\<lambda>i.
       if annotation (ig_Meta i) key = None then Ok None
       else Ok (Some (i\<lparr> ig_Meta := del_annotation key (ig_Meta i) \<rparr>)))"

definition ingress_GetAnnotation :: "'w ingresses \<Rightarrow> string \<Rightarrow> string \<Rightarrow> string \<Rightarrow> ('w, string option outcome) state" where
  "ingress_GetAnnotation m name namespace key =
     query_resource m (namespace, name) (\<lambda>i. Ok (annotation (ig_Meta i) key))"

definition ingress_AddFluxAnnotation :: "'w ingresses \<Rightarrow> string \<Rightarrow> string \<Rightarrow> ('w, unit outcome) state" where
  "ingress_AddFluxAnnotation m name namespace =
     ingress_AddAnnotation m name namespace network_FluxReconcileAnnotation DisabledValue"

definition ingress_RemoveFluxAnnotation :: "'w ingresses \<Rightarrow> string \<Rightarrow> string \<Rightarrow> ('w, unit outcome) state" where
  "ingress_RemoveFluxAnnotation m name namespace =
     ingress_RemoveAnnotation m name namespace network_FluxReconcileAnnotation"

definition ingress_SetDNSController :: "'w ingresses \<Rightarrow> string \<Rightarrow> string \<Rightarrow> bool \<Rightarrow> ('w, unit outcome) state" where
  "ingress_SetDNSController m name namespace enable =
     ingress_AddAnnotation m name namespace DNSControllerAnnotation
       (if enable then DNSControllerEnabled else DNSControllerDisabled)"

section \<open>Roles and readiness\<close>

definition ingress_IsPrimary :: "'w ingresses \<Rightarrow> string \<Rightarrow> string \<Rightarrow> ('w, bool outcome) state" where
  "ingress_IsPrimary m name namespace =
     check (ingress_GetAnnotation m name namespace DNSControllerAnnotation) (\<lambda>e. e)
     (\<lambda>found. case found of None \<Rightarrow> ret False | Some val \<Rightarrow> ret (val = DNSControllerEnabled))"

definition ingress_IsSecondary :: "'w ingresses \<Rightarrow> string \<Rightarrow> string \<Rightarrow> ('w, bool outcome) state" where
  "ingress_IsSecondary m name namespace =
     check (ingress_IsPrimary m name namespace) (\<lambda>e. e) (\<lambda>isPrimary. ret (\<not> isPrimary))"

definition ingress_IsReady :: "'w ingresses \<Rightarrow> string \<Rightarrow> string \<Rightarrow> ('w, bool outcome) state" where
  "ingress_IsReady m name namespace = query_resource m (namespace, name) (\<lambda>i. Ok (ig_LoadBalancer i \<noteq> []))"

definition ingress_WaitForReady ::
    "'w wait_lib \<Rightarrow> 'w ingresses \<Rightarrow> string \<Rightarrow> string \<Rightarrow> int \<Rightarrow> ('w, unit outcome) state" where
  "ingress_WaitForReady wl m name namespace timeoutSeconds =
     wait_ready wl ''Ingress'' namespace name timeoutSeconds (ingress_IsReady m name namespace)"

definition WaitForAllIngressesReady ::
    "'w wait_lib \<Rightarrow> 'w ingresses \<Rightarrow> string \<Rightarrow> string list \<Rightarrow> int \<Rightarrow> ('w, unit outcome) state" where
  "WaitForAllIngressesReady wl m namespace names timeoutSeconds =
     all_in_turn (\<lambda>name. ingress_WaitForReady wl m name namespace timeoutSeconds) names"

end
