(* ===== verification/Virtual_Services.thy ===== *)
theory Virtual_Services
  imports Volume_Replications Ingresses
begin

text \<open>
  internal/controller/virtualservices/manager.go: the manager of Istio's VirtualServices, which are
  objects without a Go type. A manager is its client; the library of paths is a parameter. Logging is
  left out.
\<close>

definition vs_DNSControllerAnnotation :: string where
  "vs_DNSControllerAnnotation = ''external-dns.alpha.kubernetes.io/controller''"

definition vs_DNSControllerEnabled :: string where "vs_DNSControllerEnabled = ''dns-controller''"
definition vs_DNSControllerDisabled :: string where "vs_DNSControllerDisabled = ''ignore''"

text \<open>\<open>annotations[k]\<close>: the empty text when there is no entry.\<close>

definition entry :: "(string \<times> string) list \<Rightarrow> string \<Rightarrow> string" where
  "entry m k = (case map_of m k of Some v \<Rightarrow> v | None \<Rightarrow> '''')"

section \<open>Updating\<close>

definition getVirtualService :: "'w objects \<Rightarrow> string \<Rightarrow> string \<Rightarrow> ('w, json outcome) state" where
  "getVirtualService m name namespace = rs_Get m (namespace, name)"

definition UpdateVirtualService ::
    "unstructured_lib \<Rightarrow> 'w objects \<Rightarrow> string \<Rightarrow> string \<Rightarrow> string \<Rightarrow> ('w, bool outcome) state" where
  "UpdateVirtualService ul m name namespace st =
     check (getVirtualService m name namespace) (\<lambda>e. e)
     (\<lambda>vs. let annotations = map_put network_FluxReconcileAnnotation DisabledValue (GetAnnotations ul vs);
               wanted = (if st = ''active'' then vs_DNSControllerEnabled else vs_DNSControllerDisabled)
           in if entry annotations vs_DNSControllerAnnotation \<noteq> wanted
              then check (rs_Update m (SetAnnotations ul vs (map_put vs_DNSControllerAnnotation wanted annotations))) (\<lambda>e. e)
                (\<lambda>_. ret True)
              else ret False)"

definition ProcessVirtualServices ::
    "unstructured_lib \<Rightarrow> 'w objects \<Rightarrow> string \<Rightarrow> string list \<Rightarrow> string \<Rightarrow> ('w, unit outcome) state" where
  "ProcessVirtualServices ul m namespace vsNames desiredState =
     for_each (\<lambda>vsName. ignore_err (UpdateVirtualService ul m vsName namespace desiredState)) vsNames"

section \<open>Annotations\<close>

definition vs_AddAnnotation ::
    "unstructured_lib \<Rightarrow> 'w objects \<Rightarrow> string \<Rightarrow> string \<Rightarrow> string \<Rightarrow> string \<Rightarrow> ('w, unit outcome) state" where
  "vs_AddAnnotation ul m name namespace annotationKey annotationValue =
     edit_resource m (namespace, name) (\<lambda>vs.
       Ok (Some (SetAnnotations ul vs (map_put annotationKey annotationValue (GetAnnotations ul vs)))))"

definition vs_RemoveAnnotation ::
    "unstructured_lib \<Rightarrow> 'w objects \<Rightarrow> string \<Rightarrow> string \<Rightarrow> string \<Rightarrow> ('w, unit outcome) state" where
  "vs_RemoveAnnotation ul m name namespace annotationKey =
     edit_resource m (namespace, name) (\<lambda>vs.
       if map_of (GetAnnotations ul vs) annotationKey = None then Ok None
       else Ok (Some (SetAnnotations ul vs (map_del annotationKey (GetAnnotations ul vs)))))"

definition vs_GetAnnotation ::
    "unstructured_lib \<Rightarrow> 'w objects \<Rightarrow> string \<Rightarrow> string \<Rightarrow> string \<Rightarrow> ('w, string option outcome) state" where
  "vs_GetAnnotation ul m name namespace annotationKey =
     query_resource m (namespace, name) (\<lambda>vs. Ok (map_of (GetAnnotations ul vs) annotationKey))"

definition vs_AddFluxAnnotation :: "unstructured_lib \<Rightarrow> 'w objects \<Rightarrow> string \<Rightarrow> string \<Rightarrow> ('w, unit outcome) state" where
  "vs_AddFluxAnnotation ul m name namespace =
     vs_AddAnnotation ul m name namespace network_FluxReconcileAnnotation DisabledValue"

definition vs_RemoveFluxAnnotation :: "unstructured_lib \<Rightarrow> 'w objects \<Rightarrow> string \<Rightarrow> string \<Rightarrow> ('w, unit outcome) state" where
  "vs_RemoveFluxAnnotation ul m name namespace =
     vs_RemoveAnnotation ul m name namespace network_FluxReconcileAnnotation"

definition vs_SetDNSController ::
    "unstructured_lib \<Rightarrow> 'w objects \<Rightarrow> string \<Rightarrow> string \<Rightarrow> bool \<Rightarrow> ('w, unit outcome) state" where
  "vs_SetDNSController ul m name namespace enable =
     vs_AddAnnotation ul m name namespace vs_DNSControllerAnnotation
       (if enable then vs_DNSControllerEnabled else vs_DNSControllerDisabled)"

section \<open>Roles and readiness\<close>

definition vs_IsPrimary :: "unstructured_lib \<Rightarrow> 'w objects \<Rightarrow> string \<Rightarrow> string \<Rightarrow> ('w, bool outcome) state" where
  "vs_IsPrimary ul m name namespace =
     check (vs_GetAnnotation ul m name namespace vs_DNSControllerAnnotation) (\<lambda>e. e)
     (\<lambda>found. case found of None \<Rightarrow> ret False | Some val \<Rightarrow> ret (val = vs_DNSControllerEnabled))"

definition vs_IsSecondary :: "unstructured_lib \<Rightarrow> 'w objects \<Rightarrow> string \<Rightarrow> string \<Rightarrow> ('w, bool outcome) state" where
  "vs_IsSecondary ul m name namespace =
     check (vs_IsPrimary ul m name namespace) (\<lambda>e. e) (\<lambda>isPrimary. ret (\<not> isPrimary))"

definition vs_IsReady :: "'w objects \<Rightarrow> string \<Rightarrow> string \<Rightarrow> ('w, bool outcome) state" where
  "vs_IsReady m name namespace = check (getVirtualService m name namespace) (\<lambda>e. e) (\<lambda>_. ret True)"

definition vs_WaitForReady ::
    "'w wait_lib \<Rightarrow> 'w objects \<Rightarrow> string \<Rightarrow> string \<Rightarrow> int \<Rightarrow> ('w, unit outcome) state" where
  "vs_WaitForReady wl m name namespace timeoutSeconds =
     wait_ready wl ''VirtualService'' namespace name timeoutSeconds (vs_IsReady m name namespace)"

definition WaitForAllVirtualServicesReady ::
    "'w wait_lib \<Rightarrow> 'w objects \<Rightarrow> string \<Rightarrow> string list \<Rightarrow> int \<Rightarrow> ('w, unit outcome) state" where
  "WaitForAllVirtualServicesReady wl m namespace names timeoutSeconds =
     all_in_turn (\<lambda>name. vs_WaitForReady wl m name namespace timeoutSeconds) names"

end
