(* ===== verification/Flux_Resources.thy ===== *)
theory Flux_Resources
  imports Volume_Replications Ingresses
begin

text \<open>
  internal/controller/kustomizations/manager.go and helmreleases/manager.go: the managers of the two
  kinds of Flux resources, which are objects without a Go type. The two files differ in the kind that
  the client asks for, and in nothing else; the definitions of the second are those of the first, at a
  client for the other kind. The library of paths is a parameter. Logging is left out.
\<close>

text \<open>\<open>time.RFC3339Nano\<close>: the fraction of a second without its trailing zeros, if there is any.\<close>

definition nano_fraction :: "int \<Rightarrow> string" where
  "nano_fraction n =
     (if n = 0 then [] else ''.'' @ rev (dropWhile (\<lambda>c. c = CHR ''0'') (rev (show_width 9 (nat n)))))"

definition format_rfc3339_nano :: "go_time \<Rightarrow> string" where
  "format_rfc3339_nano t = format_wall (wall_seconds t) @ nano_fraction (nanos t mod second) @ show_zone (zone t)"

section \<open>Reconciliation\<close>

definition reconcile_path :: "string list" where
  "reconcile_path = annotations_path @ [network_FluxReconcileAnnotation]"

definition suspend_path :: "string list" where
  "suspend_path = [''spec'', ''suspend'']"

definition getKustomization :: "'w objects \<Rightarrow> string \<Rightarrow> string \<Rightarrow> ('w, json outcome) state" where
  "getKustomization m name namespace = rs_Get m (namespace, name)"

text \<open>The time is taken after the object is fetched.\<close>

definition stamp_and_update ::
    "unstructured_lib \<Rightarrow> 'w go_runtime \<Rightarrow> 'w objects \<Rightarrow> json \<Rightarrow> ('w, unit outcome) state" where
  "stamp_and_update ul rt m kust = do {
     now \<leftarrow> time_now rt;
     check (State_Monad.return (SetNestedField ul kust (JText (format_rfc3339_nano now)) reconcile_path)) (\<lambda>e. e)
     (\<lambda>k. check (rs_Update m k) (\<lambda>e. e) (\<lambda>_. ret ()))
   }"

definition TriggerReconciliation ::
    "unstructured_lib \<Rightarrow> 'w go_runtime \<Rightarrow> 'w objects \<Rightarrow> string \<Rightarrow> string \<Rightarrow> ('w, unit outcome) state" where
  "TriggerReconciliation ul rt m name namespace =
     check (getKustomization m name namespace) (\<lambda>e. e) (stamp_and_update ul rt m)"

text \<open>\<open>kust.Object["status"] = nil\<close>\<close>

definition without_status :: "json \<Rightarrow> json" where
  "without_status j = (case j of JMap m \<Rightarrow> JMap (map_put ''status'' JNull m) | _ \<Rightarrow> j)"

definition ForceReconciliation ::
    "unstructured_lib \<Rightarrow> 'w go_runtime \<Rightarrow> 'w objects \<Rightarrow> string \<Rightarrow> string \<Rightarrow> ('w, unit outcome) state" where
  "ForceReconciliation ul rt m name namespace =
     check (getKustomization m name namespace) (\<lambda>e. e) (\<lambda>kust. stamp_and_update ul rt m (without_status kust))"

definition flux_Suspend :: "unstructured_lib \<Rightarrow> 'w objects \<Rightarrow> string \<Rightarrow> string \<Rightarrow> ('w, unit outcome) state" where
  "flux_Suspend ul m name namespace =
     edit_resource m (namespace, name) (\<lambda>k. changed (SetNestedField ul k (JBool True) suspend_path))"

definition flux_Resume :: "unstructured_lib \<Rightarrow> 'w objects \<Rightarrow> string \<Rightarrow> string \<Rightarrow> ('w, unit outcome) state" where
  "flux_Resume ul m name namespace =
     edit_resource m (namespace, name) (\<lambda>k. changed (SetNestedField ul k (JBool False) suspend_path))"

definition flux_suspended :: "unstructured_lib \<Rightarrow> json \<Rightarrow> bool outcome" where
  "flux_suspended ul k =
     (case NestedBool ul k suspend_path of
        Ok (Some b) \<Rightarrow> Ok b
      | Ok None \<Rightarrow> Ok False
      | Err e \<Rightarrow> Err e
      | Panic \<Rightarrow> Panic)"

definition flux_IsSuspended :: "unstructured_lib \<Rightarrow> 'w objects \<Rightarrow> string \<Rightarrow> string \<Rightarrow> ('w, bool outcome) state" where
  "flux_IsSuspended ul m name namespace = query_resource m (namespace, name) (flux_suspended ul)"

section \<open>Annotations\<close>

definition flux_annotations :: "unstructured_lib \<Rightarrow> json \<Rightarrow> (string \<times> string) list outcome" where
  "flux_annotations ul k =
     (case NestedStringMap ul k annotations_path of
        Ok (Some m) \<Rightarrow> Ok m
      | Ok None \<Rightarrow> Ok []
      | Err e \<Rightarrow> Err e
      | Panic \<Rightarrow> Panic)"

definition with_annotations ::
    "unstructured_lib \<Rightarrow> ((string \<times> string) list \<Rightarrow> (string \<times> string) list option) \<Rightarrow> json \<Rightarrow> json option outcome" where
  "with_annotations ul h k =
     (case flux_annotations ul k of
        Ok m \<Rightarrow> (case h m of None \<Rightarrow> Ok None | Some m' \<Rightarrow> changed (SetNestedStringMap ul k m' annotations_path))
      | Err e \<Rightarrow> Err e
      | Panic \<Rightarrow> Panic)"

definition flux_AddAnnotation ::
    "unstructured_lib \<Rightarrow> 'w objects \<Rightarrow> string \<Rightarrow> string \<Rightarrow> string \<Rightarrow> string \<Rightarrow> ('w, unit outcome) state" where
  "flux_AddAnnotation ul m name namespace annotationKey annotationValue =
     edit_resource m (namespace, name) (with_annotations ul (\<lambda>a. Some (map_put annotationKey annotationValue a)))"

definition flux_RemoveAnnotation ::
    "unstructured_lib \<Rightarrow> 'w objects \<Rightarrow> string \<Rightarrow> string \<Rightarrow> string \<Rightarrow> ('w, unit outcome) state" where
  "flux_RemoveAnnotation ul m name namespace annotationKey =
     edit_resource m (namespace, name) (with_annotations ul
       (\<lambda>a. if map_of a annotationKey = None then None else Some (map_del annotationKey a)))"

definition flux_GetAnnotation ::
    "unstructured_lib \<Rightarrow> 'w objects \<Rightarrow> string \<Rightarrow> string \<Rightarrow> string \<Rightarrow> ('w, string option outcome) state" where
  "flux_GetAnnotation ul m name namespace annotationKey =
     check (query_resource m (namespace, name) (flux_annotations ul)) (\<lambda>e. e) (\<lambda>a. ret (map_of a annotationKey))"

definition flux_AddFluxAnnotation :: "unstructured_lib \<Rightarrow> 'w objects \<Rightarrow> string \<Rightarrow> string \<Rightarrow> ('w, unit outcome) state" where
  "flux_AddFluxAnnotation ul m name namespace =
     flux_AddAnnotation ul m name namespace network_FluxReconcileAnnotation DisabledValue"

definition flux_RemoveFluxAnnotation :: "unstructured_lib \<Rightarrow> 'w objects \<Rightarrow> string \<Rightarrow> string \<Rightarrow> ('w, unit outcome) state" where
  "flux_RemoveFluxAnnotation ul m name namespace =
     flux_RemoveAnnotation ul m name namespace network_FluxReconcileAnnotation"

section \<open>Waiting\<close>

definition flux_reconciled :: "unstructured_lib \<Rightarrow> json \<Rightarrow> bool outcome" where
  "flux_reconciled ul = check_conditions ul (list_ex (condition_true ul ''Ready''))"

definition IsReconciled :: "unstructured_lib \<Rightarrow> 'w objects \<Rightarrow> string \<Rightarrow> string \<Rightarrow> ('w, bool outcome) state" where
  "IsReconciled ul m name namespace = query_resource m (namespace, name) (flux_reconciled ul)"

definition WaitForReconciliation ::
    "'w wait_lib \<Rightarrow> unstructured_lib \<Rightarrow> 'w objects \<Rightarrow> string \<Rightarrow> string \<Rightarrow> int \<Rightarrow> ('w, unit outcome) state" where
  "WaitForReconciliation wl ul m name namespace timeout =
     PollImmediate wl (2 * second) timeout (or_false (IsReconciled ul m name namespace))"

section \<open>HelmReleases\<close>

definition helm_TriggerReconciliation ::
    "unstructured_lib \<Rightarrow> 'w go_runtime \<Rightarrow> 'w objects \<Rightarrow> string \<Rightarrow> string \<Rightarrow> ('w, unit outcome) state" where
  "helm_TriggerReconciliation = TriggerReconciliation"

definition helm_ForceReconciliation ::
    "unstructured_lib \<Rightarrow> 'w go_runtime \<Rightarrow> 'w objects \<Rightarrow> string \<Rightarrow> string \<Rightarrow> ('w, unit outcome) state" where
  "helm_ForceReconciliation = ForceReconciliation"

definition helm_Suspend :: "unstructured_lib \<Rightarrow> 'w objects \<Rightarrow> string \<Rightarrow> string \<Rightarrow> ('w, unit outcome) state" where
  "helm_Suspend = flux_Suspend"

definition helm_Resume :: "unstructured_lib \<Rightarrow> 'w objects \<Rightarrow> string \<Rightarrow> string \<Rightarrow> ('w, unit outcome) state" where
  "helm_Resume = flux_Resume"

definition helm_IsSuspended :: "unstructured_lib \<Rightarrow> 'w objects \<Rightarrow> string \<Rightarrow> string \<Rightarrow> ('w, bool outcome) state" where
  "helm_IsSuspended = flux_IsSuspended"

definition helm_AddAnnotation ::
    "unstructured_lib \<Rightarrow> 'w objects \<Rightarrow> string \<Rightarrow> string \<Rightarrow> string \<Rightarrow> string \<Rightarrow> ('w, unit outcome) state" where
  "helm_AddAnnotation = flux_AddAnnotation"

definition helm_RemoveAnnotation ::
    "unstructured_lib \<Rightarrow> 'w objects \<Rightarrow> string \<Rightarrow> string \<Rightarrow> string \<Rightarrow> ('w, unit outcome) state" where
  "helm_RemoveAnnotation = flux_RemoveAnnotation"

definition helm_GetAnnotation ::
    "unstructured_lib \<Rightarrow> 'w objects \<Rightarrow> string \<Rightarrow> string \<Rightarrow> string \<Rightarrow> ('w, string option outcome) state" where
  "helm_GetAnnotation = flux_GetAnnotation"

definition helm_AddFluxAnnotation :: "unstructured_lib \<Rightarrow> 'w objects \<Rightarrow> string \<Rightarrow> string \<Rightarrow> ('w, unit outcome) state" where
  "helm_AddFluxAnnotation = flux_AddFluxAnnotation"

definition helm_RemoveFluxAnnotation :: "unstructured_lib \<Rightarrow> 'w objects \<Rightarrow> string \<Rightarrow> string \<Rightarrow> ('w, unit outcome) state" where
  "helm_RemoveFluxAnnotation = flux_RemoveFluxAnnotation"

definition helm_IsReconciled :: "unstructured_lib \<Rightarrow> 'w objects \<Rightarrow> string \<Rightarrow> string \<Rightarrow> ('w, bool outcome) state" where
  "helm_IsReconciled = IsReconciled"

definition helm_WaitForReconciliation ::
    "'w wait_lib \<Rightarrow> unstructured_lib \<Rightarrow> 'w objects \<Rightarrow> string \<Rightarrow> string \<Rightarrow> int \<Rightarrow> ('w, unit outcome) state" where
  "helm_WaitForReconciliation = WaitForReconciliation"

definition getHelmRelease :: "'w objects \<Rightarrow> string \<Rightarrow> string \<Rightarrow> ('w, json outcome) state" where
  "getHelmRelease = getKustomization"

end
