(* ===== verification/Resource_Properties.thy ===== *)
theory Resource_Properties
  imports Resource_Memory Stateful_Sets Cron_Jobs Virtual_Services Flux_Resources
begin

text \<open>
  Properties of the resource managers: scaling and waiting for Deployments, the DNS annotation of
  Ingresses, the role of volumes.
\<close>

section \<open>Deployments\<close>

definition dp_key :: "deployment \<Rightarrow> object_key" where "dp_key d = meta_key (dp_Meta d)"
definition dp_version :: "deployment \<Rightarrow> string" where "dp_version d = om_ResourceVersion (dp_Meta d)"

text \<open>What a client decides of a Deployment.\<close>

definition dp_part :: "deployment \<Rightarrow> int option \<times> (string \<times> string) list" where
  "dp_part d = (dp_Replicas d, om_Annotations (dp_Meta d))"

text \<open>A Deployment that is scaled: the number of replicas is set, the annotations stay.\<close>

definition scaled :: "int \<Rightarrow> deployment \<Rightarrow> deployment \<Rightarrow> bool" where
  "scaled n d d' \<longleftrightarrow> dp_part d' = (Some n, om_Annotations (dp_Meta d))"

text \<open>C35: Processing Deployments against a server that answers scales every one of the named that exists
  to the target number of replicas (none, if the cluster is not active) and changes no other object.\<close>

theorem ProcessDeployments_scales:
  assumes "resource_reliable m dp_key dp_part objs dp_version"
    and "run_state (ProcessDeployments m ns names active n) w = (r, w')"
  shows "r = Ok () \<and> (\<forall>k. if fst k = ns \<and> snd k \<in> set names
    then rel_option (scaled (if active then n else 0)) (objs w k) (objs w' k) else objs w' k = objs w k)"
proof -
  let ?t = "if active then n else 0"
  let ?h = "\<lambda>d. if dp_Replicas d = Some ?t then Ok None else Ok (Some (d\<lparr> dp_Replicas := Some ?t \<rparr>))"
  have eq: "ProcessDeployments m ns names active n = for_each (\<lambda>name. edit_resource m (ns, name) ?h) names"
    by (simp add: ProcessDeployments_def deploy_ScaleUp_def deploy_ScaleDown_def ScaleDeployment_def)
  have loop: "wp (for_each (\<lambda>name. edit_resource m (ns, name) ?h) names) (\<lambda>r w'. r = Ok () \<and>
      (\<forall>k. if fst k = ns \<and> snd k \<in> set names then rel_option (scaled ?t) (objs w k) (objs w' k) else objs w' k = objs w k)) w"
    by (rule resource_reliable.wp_for_each_edit [OF assms(1)])
      (auto simp: scaled_def dp_part_def dp_key_def dp_version_def split: if_splits)
  show ?thesis by (rule wpD [OF assms(2) [unfolded eq] loop])
qed

definition bump_deployment :: "deployment \<Rightarrow> deployment" where
  "bump_deployment d = d\<lparr> dp_Meta := next_version (dp_Meta d) \<rparr>"

interpretation deployments: versioned dp_key dp_version bump_deployment dp_part
  by unfold_locales (simp_all add: bump_deployment_def dp_key_def dp_part_def)

abbreviation deployments_in_memory :: "(deployment stored_objects, deployment) resource_client" where
  "deployments_in_memory \<equiv> mem_objects dp_key dp_version bump_deployment"

definition demo_deployment :: "string \<Rightarrow> int \<Rightarrow> deployment" where
  "demo_deployment name n = \<lparr> dp_Meta = \<lparr> om_Name = name, om_Namespace = ''ns'', om_ResourceVersion = ''1'', om_Generation = 1,
     om_DeletionTimestamp = None, om_Finalizers = [], om_Labels = [], om_Annotations = [] \<rparr>,
     dp_Replicas = Some n, dp_StatusReplicas = n, dp_AvailableReplicas = n \<rparr>"

definition demo_deployments :: "deployment stored_objects" where
  "demo_deployments = [(''ns'', ''web'') \<mapsto> demo_deployment ''web'' 3, (''ns'', ''db'') \<mapsto> demo_deployment ''db'' 1]"

lemma demo_deployments_at:
  "under_key dp_key demo_deployments k =
     (if k = (''ns'', ''web'') then Some (demo_deployment ''web'' 3) else if k = (''ns'', ''db'') then Some (demo_deployment ''db'' 1) else None)"
  by (auto simp: under_key_def demo_deployments_def demo_deployment_def dp_key_def meta_key_def)

theorem ProcessDeployments_scales_witness:
  "rel_option (scaled 0) (Some (demo_deployment ''web'' 3))
     (under_key dp_key (snd (run_state (ProcessDeployments deployments_in_memory ''ns'' [''web''] False 5) demo_deployments)) (''ns'', ''web'')) \<and>
   under_key dp_key (snd (run_state (ProcessDeployments deployments_in_memory ''ns'' [''web''] False 5) demo_deployments)) (''ns'', ''db'')
     = Some (demo_deployment ''db'' 1)"
proof -
  obtain r st where run: "run_state (ProcessDeployments deployments_in_memory ''ns'' [''web''] False 5) demo_deployments = (r, st)"
    by (cases "run_state (ProcessDeployments deployments_in_memory ''ns'' [''web''] False 5) demo_deployments")
  note all = ProcessDeployments_scales [OF deployments.in_memory.resource_reliable_axioms run, THEN conjunct2, rule_format]
  show ?thesis
    using all [of "(''ns'', ''web'')"] all [of "(''ns'', ''db'')"] by (simp add: run demo_deployments_at)
qed

text \<open>What the wait for Deployments looks at.\<close>

definition deployment_reached :: "'w deployments \<Rightarrow> string \<Rightarrow> bool \<Rightarrow> string \<Rightarrow> ('w, bool outcome) state" where
  "deployment_reached m ns down name = (if down then deploy_IsScaledDown m name ns else deploy_IsReady m name ns)"

definition deployment_target :: "bool \<Rightarrow> string" where
  "deployment_target down = (if down then ''scaled down'' else ''ready'')"

lemma WaitForAllDeploymentsState_alt:
  "WaitForAllDeploymentsState wl sched m ns names down timeout =
     wait_for_all wl sched timeout ''Deployments'' ''Deployment'' (deployment_target down) (deployment_reached m ns down) names"
  by (simp add: WaitForAllDeploymentsState_def deployment_reached_def [abs_def] deployment_target_def)

lemma deployment_reached_query:
  "deployment_reached m ns down name =
     query_resource m (ns, name) (\<lambda>d. if down then Ok (dp_Replicas d = Some 0) else deployment_ready d)"
  by (simp add: deployment_reached_def deploy_IsScaledDown_def deploy_IsReady_def)

lemma keeps_deployment_reached:
  assumes "\<forall>k. keeps idle (rs_Get m k)"
  shows "keeps idle (deployment_reached m ns down name)"
proof -
  have "idle v v'" if run: "run_state (deployment_reached m ns down name) v = (q, v')" for v q v'
  proof -
    obtain a v1 where g: "run_state (rs_Get m (ns, name)) v = (a, v1)" by (cases "run_state (rs_Get m (ns, name)) v")
    have "v' = v1" using run g
      by (auto simp: deployment_reached_query query_resource_def check_def try_or_def raise_def split: outcome.splits if_splits)
    then show ?thesis using assms g by (auto simp: keeps_def)
  qed
  then show ?thesis by (auto simp: keeps_def)
qed

text \<open>C20: Whatever the scheduler does with the goroutines of a wait for Deployments: when it reports success,
  each of them was seen in the state that was waited for, during the wait; when it reports an error, the
  time was up, and it lists that error for Deployments of the list; it panics only on a Deployment
  without a number of replicas.\<close>

theorem WaitForAllDeploymentsState_seen:
  assumes "resource_store m dp_key dp_part objs" "reflp idle" "transp idle" "\<forall>k. keeps idle (rs_Get m k)"
    and "\<forall>d f v. Elapse d f \<in> set sched \<longrightarrow> idle v (f v)"
    and "WaitForAllDeploymentsState wl sched m ns names down timeout w = Some (r, w')"
  shows "(r = Ok () \<longrightarrow> (\<forall>name\<in>set names. \<exists>w1 d. idle w w1 \<and> idle w1 w' \<and> objs w1 (ns, name) = Some d \<and>
      (if down then dp_Replicas d = Some 0 else deployment_ready d = Ok True))) \<and>
    (\<forall>e. r = Err e \<longrightarrow> timeout \<noteq> 0 \<and> timeout \<le> elapsed_of sched \<and> (\<exists>late. late \<noteq> [] \<and> mset late \<subseteq># mset names \<and>
      e = ErrorString (failed_text ''Deployments'' (deployment_target down)
        (map (late_error ''Deployment'' (deployment_target down)) late)))) \<and>
    (r = Panic \<longrightarrow> \<not> down \<and> (\<exists>name\<in>set names. \<exists>w1 d. objs w1 (ns, name) = Some d \<and> dp_Replicas d = None))"
proof -
  let ?c = "deployment_reached m ns down" and ?h = "\<lambda>d. if down then Ok (dp_Replicas d = Some 0) else deployment_ready d"
  note still = keeps_deployment_reached [OF assms(4)]
  have sees: "\<exists>d. objs v (ns, name) = Some d \<and> ?h d = q" if "run_state (?c name) v = (q, v')" "\<not> is_err q" for name v q v'
    using wpD [OF that(1) [unfolded deployment_reached_query] resource_store.wp_query [OF assms(1)]] that(2)
    by (cases q) auto
  have "watched idle (map (\<lambda>name. or_false (?c name)) names)" by (rule watched_or_false [OF assms(2,3) still])
  from wait_for_all_outcome [OF this assms(6) [unfolded WaitForAllDeploymentsState_alt]] assms(5)
  have out: "(r = Ok () \<longrightarrow> (\<forall>name\<in>set names. seen idle w (?c name) w')) \<and>
    (\<forall>e. r = Err e \<longrightarrow> timeout \<noteq> 0 \<and> timeout \<le> elapsed_of sched \<and> (\<exists>late. late \<noteq> [] \<and> mset late \<subseteq># mset names \<and>
       e = ErrorString (failed_text ''Deployments'' (deployment_target down)
         (map (late_error ''Deployment'' (deployment_target down)) late)))) \<and>
    (r = Panic \<longrightarrow> (\<exists>name\<in>set names. \<exists>w1 w2. run_state (?c name) w1 = (Panic, w2)))" by blast
  show ?thesis
  proof (intro conjI impI ballI)
    fix name assume "r = Ok ()" "name \<in> set names"
    then obtain w1 w2 where w1: "idle w w1" "run_state (?c name) w1 = (Ok True, w2)" "idle w2 w'"
      using out unfolding seen_def by blast
    have "idle w1 w2" using still [of ns down name] w1(2) by (simp add: keeps_def)
    then have "idle w1 w'" using w1(3) assms(3) by (rule_tac transpD)
    moreover obtain d where "objs w1 (ns, name) = Some d" "?h d = Ok True" using sees [OF w1(2)] by auto
    ultimately show "\<exists>w1 d. idle w w1 \<and> idle w1 w' \<and> objs w1 (ns, name) = Some d \<and>
        (if down then dp_Replicas d = Some 0 else deployment_ready d = Ok True)"
      using w1(1) by (cases down) auto
  next
    assume "r = Panic"
    then obtain name w1 w2 where n: "name \<in> set names" "run_state (?c name) w1 = (Panic, w2)" using out by blast
    then obtain d where "objs w1 (ns, name) = Some d" "?h d = Panic" using sees [OF n(2)] by auto
    then show "\<not> down" "\<exists>name\<in>set names. \<exists>w1 d. objs w1 (ns, name) = Some d \<and> dp_Replicas d = None"
      using n(1) by (auto simp: deployment_ready_def split: if_splits option.splits)
  qed (use out in blast)
qed

lemma query_in_memory_keeps: "keeps (same f) (rs_Get (mem_objects key ver bump) k)"
  by (simp add: keeps_def same_def mem_objects_def)

lemma same_order: "reflp (same f)" "transp (same f)"
  by (auto simp: same_def reflp_def transp_def)

interpretation deployments_watched: watched "same f"
    "map (\<lambda>name. or_false (deployment_reached deployments_in_memory ns down name)) names" for f ns down names
  by (intro watched_or_false same_order keeps_deployment_reached allI query_in_memory_keeps)

definition scaled_deployments :: "deployment stored_objects" where
  "scaled_deployments = [(''ns'', ''web'') \<mapsto> demo_deployment ''web'' 0]"

lemma wait_for_web:
  "WaitForAllDeploymentsState (wait_in_turn 2) [Look 0, Answer 0, TakeDone] deployments_in_memory ''ns'' [''web''] True
     (60 * second) scaled_deployments = Some (Ok (), scaled_deployments)"
  "WaitForAllDeploymentsState (wait_in_turn 2) [Look 0, Elapse (60 * second) (\<lambda>st. st), GiveUp 0, Answer 0, TakeErr]
     deployments_in_memory ''ns'' [''web''] True (60 * second) demo_deployments =
   Some (Err (ErrorString (failed_text ''Deployments'' ''scaled down'' [late_error ''Deployment'' ''scaled down'' ''web''])),
     demo_deployments)"
  by (simp_all add: WaitForAllDeploymentsState_def wait_for_all_def fan_out_def fan_start_def fan_ended_def look_def or_false_def
      deploy_IsScaledDown_def query_resource_def mem_objects_def under_key_def check_def try_or_def ret_def raise_def
      second_def scaled_deployments_def demo_deployments_def demo_deployment_def dp_key_def meta_key_def)

theorem WaitForAllDeploymentsState_seen_witness:
  "(\<exists>w1 d. same (\<lambda>st. st) scaled_deployments w1 \<and> under_key dp_key w1 (''ns'', ''web'') = Some d \<and> dp_Replicas d = Some 0) \<and>
   60 * second \<le> elapsed_of [Look 0, Elapse (60 * second) (\<lambda>st :: deployment stored_objects. st), GiveUp 0, Answer 0, TakeErr]"
proof -
  have idle: "\<forall>k. keeps (same (\<lambda>st. st)) (rs_Get deployments_in_memory k)" by (simp add: query_in_memory_keeps)
  show ?thesis
    using WaitForAllDeploymentsState_seen [OF deployments.in_memory.resource_store_axioms same_order idle _ wait_for_web(1)]
      WaitForAllDeploymentsState_seen [OF deployments.in_memory.resource_store_axioms same_order idle _ wait_for_web(2)]
    by (simp add: same_refl) blast
qed




section \<open>Ingresses\<close>

definition ig_key :: "ingress \<Rightarrow> object_key" where "ig_key i = meta_key (ig_Meta i)"
definition ig_version :: "ingress \<Rightarrow> string" where "ig_version i = om_ResourceVersion (ig_Meta i)"
definition ig_part :: "ingress \<Rightarrow> (string \<times> string) list" where "ig_part i = om_Annotations (ig_Meta i)"

definition dns_wanted :: "string \<Rightarrow> string" where
  "dns_wanted st = (if st = ''active'' then ''true'' else ''false'')"

lemma dns_updated_iff: "dns_updated st mt \<longleftrightarrow> text_at mt ''dns-controller.kubernetes.io/enabled'' \<noteq> dns_wanted st"
  by (simp add: dns_updated_def text_at_def dns_wanted_def DNSControllerAnnotation_def DNSControllerEnabled_def
      DNSControllerDisabled_def network_FluxReconcileAnnotation_def)

lemma dns_annotations_at:
  "map_of (om_Annotations (dns_annotations st mt)) a =
     (if a = ''dns-controller.kubernetes.io/enabled'' then Some (dns_wanted st)
      else if a = ''reconcile.fluxcd.io/requestedAt'' then Some ''disabled'' else map_of (om_Annotations mt) a)"
  by (simp add: dns_annotations_def set_annotation_def dns_wanted_def DNSControllerAnnotation_def DNSControllerEnabled_def
      DNSControllerDisabled_def network_FluxReconcileAnnotation_def DisabledValue_def)

text \<open>Against a server that answers, updating an Ingress writes it exactly if its DNS annotation is not
  the wanted one; then the stored annotations are the old ones with the DNS annotation and the one that
  disables Flux. Otherwise nothing is written: an Ingress whose DNS annotation is right already does not
  get the annotation that disables Flux.\<close>

theorem UpdateIngress_writes:
  assumes "resource_reliable m ig_key ig_part objs ig_version" "objs w (ns, name) = Some i"
    and "run_state (UpdateIngress m name ns st) w = (r, w')"
  shows "let differs = (text_at (ig_Meta i) ''dns-controller.kubernetes.io/enabled'' \<noteq> dns_wanted st) in
    r = Ok differs \<and>
    (if differs
     then \<exists>j. objs w' = (objs w)((ns, name) \<mapsto> j) \<and> (\<forall>a. map_of (ig_part j) a =
       (if a = ''dns-controller.kubernetes.io/enabled'' then Some (dns_wanted st)
        else if a = ''reconcile.fluxcd.io/requestedAt'' then Some ''disabled'' else map_of (ig_part i) a))
     else objs w' = objs w)"
proof -
  note get = resource_reliable.wp_get_answered [OF assms(1,2)]
  let ?i = "i\<lparr> ig_Meta := dns_annotations st (ig_Meta i) \<rparr>"
  have "ig_key i = (ns, name)" by (rule resource_store.keyed [OF resource_reliable.axioms(1) [OF assms(1)] assms(2)])
  then have key: "ig_key ?i = (ns, name)" "ig_version ?i = ig_version i"
    by (simp_all add: ig_key_def ig_version_def dns_annotations_def)
  have upd: "wp (rs_Update m ?i) (\<lambda>r w'. is_ok r \<and> (\<exists>z. ig_part z = ig_part ?i \<and> objs w' = (objs w1)(ig_key ?i \<mapsto> z))) w1"
    if "objs w1 = objs w" for w1
    by (rule resource_reliable.wp_update_answered [OF assms(1)]) (use assms(2) key that in auto)
  have "wp (UpdateIngress m name ns st) (\<lambda>r w'. r = Ok (dns_updated st (ig_Meta i)) \<and>
    (if dns_updated st (ig_Meta i)
     then \<exists>j. objs w' = (objs w)((ns, name) \<mapsto> j) \<and> ig_part j = om_Annotations (dns_annotations st (ig_Meta i))
     else objs w' = objs w)) w"
    unfolding UpdateIngress_def wp_check
    by (rule wp_mono [OF get])
      (auto simp: wp_simps key ig_part_def is_ok_iff intro!: wp_mono [OF upd]; blast)
  from wpD [OF assms(3) this] show ?thesis
    unfolding dns_updated_iff Let_def by (auto simp: dns_annotations_at ig_part_def split: if_splits)
qed

definition bump_ingress :: "ingress \<Rightarrow> ingress" where
  "bump_ingress i = i\<lparr> ig_Meta := next_version (ig_Meta i) \<rparr>"

interpretation ingresses: versioned ig_key ig_version bump_ingress ig_part
  by unfold_locales (simp_all add: bump_ingress_def ig_key_def ig_part_def)

abbreviation ingresses_in_memory :: "(ingress stored_objects, ingress) resource_client" where
  "ingresses_in_memory \<equiv> mem_objects ig_key ig_version bump_ingress"

definition demo_ingress :: "string \<Rightarrow> string \<Rightarrow> ingress" where
  "demo_ingress name dns = \<lparr> ig_Meta = \<lparr> om_Name = name, om_Namespace = ''ns'', om_ResourceVersion = ''1'', om_Generation = 1,
     om_DeletionTimestamp = None, om_Finalizers = [], om_Labels = [], om_Annotations = [(DNSControllerAnnotation, dns)] \<rparr>,
     ig_LoadBalancer = [] \<rparr>"

definition demo_ingresses :: "ingress stored_objects" where
  "demo_ingresses = [(''ns'', ''web'') \<mapsto> demo_ingress ''web'' ''true'', (''ns'', ''api'') \<mapsto> demo_ingress ''api'' ''false'']"

lemma demo_ingresses_at:
  "under_key ig_key demo_ingresses (''ns'', ''web'') = Some (demo_ingress ''web'' ''true'')"
  "under_key ig_key demo_ingresses (''ns'', ''api'') = Some (demo_ingress ''api'' ''false'')"
  by (simp_all add: under_key_def demo_ingresses_def demo_ingress_def ig_key_def meta_key_def)

lemma demo_ingress_dns:
  "text_at (ig_Meta (demo_ingress name dns)) ''dns-controller.kubernetes.io/enabled'' = dns"
  by (simp add: demo_ingress_def text_at_def annotation_def DNSControllerAnnotation_def)

theorem UpdateIngress_writes_witness:
  "(\<exists>j. under_key ig_key (snd (run_state (UpdateIngress ingresses_in_memory ''web'' ''ns'' ''passive'') demo_ingresses)) (''ns'', ''web'')
      = Some j \<and> map_of (ig_part j) ''dns-controller.kubernetes.io/enabled'' = Some ''false'' \<and>
      map_of (ig_part j) ''reconcile.fluxcd.io/requestedAt'' = Some ''disabled'') \<and>
   under_key ig_key (snd (run_state (UpdateIngress ingresses_in_memory ''api'' ''ns'' ''passive'') demo_ingresses)) =
     under_key ig_key demo_ingresses"
proof -
  note written = UpdateIngress_writes [OF ingresses.in_memory.resource_reliable_axioms _ surjective_pairing,
    where st = "''passive''", unfolded Let_def, THEN conjunct2]
  from written [OF demo_ingresses_at(1)] written [OF demo_ingresses_at(2)]
  show ?thesis by (auto simp: demo_ingress_dns dns_wanted_def split: if_splits)
qed

text \<open>C37: The wait for an Ingress looks for a load balancer at most ten times and succeeds exactly if the
  polling does; the timeout that is asked for changes neither what is done nor whether it succeeds.\<close>

theorem ingress_WaitForReady_bounded:
  assumes "waiting wl idle"
    and "run_state (ingress_WaitForReady wl m name ns t) w = (r, w')"
  shows "(\<exists>n\<le>10. \<exists>q. polled idle (ErrWaitTimeout wl) (ingress_IsReady m name ns) n w q w' \<and> (r = Ok () \<longleftrightarrow> q = Ok ())) \<and>
    snd (run_state (ingress_WaitForReady wl m name ns t') w) = w' \<and>
    (fst (run_state (ingress_WaitForReady wl m name ns t') w) = Ok () \<longleftrightarrow> r = Ok ())"
proof (rule conjI)
  show "\<exists>n\<le>10. \<exists>q. polled idle (ErrWaitTimeout wl) (ingress_IsReady m name ns) n w q w' \<and> (r = Ok () \<longleftrightarrow> q = Ok ())"
    by (rule wpD [OF assms(2) [unfolded ingress_WaitForReady_def] waiting.wp_wait_ready [OF assms(1)]])
  show "snd (run_state (ingress_WaitForReady wl m name ns t') w) = w' \<and>
    (fst (run_state (ingress_WaitForReady wl m name ns t') w) = Ok () \<longleftrightarrow> r = Ok ())"
    using assms(2)
    by (auto simp: ingress_WaitForReady_def wait_ready_def try_or_def raise_def ret_def split: prod.splits outcome.splits if_splits)
qed

theorem ingress_WaitForReady_bounded_witness:
  "\<exists>n\<le>10. \<exists>q w'. polled (same (\<lambda>st. st)) timed_out (ingress_IsReady ingresses_in_memory ''web'' ''ns'') n demo_ingresses q w'"
proof -
  have timeout: "ErrWaitTimeout (wait_in_turn 3) = timed_out" by (simp add: wait_in_turn_def)
  note looks = ingress_WaitForReady_bounded [OF turns.waiting_axioms [of 3 "\<lambda>st. st"] surjective_pairing,
    where m = ingresses_in_memory and name = "''web''" and ns = "''ns''" and w = demo_ingresses, THEN conjunct1, unfolded timeout]
  from looks [of 600] show ?thesis by blast
qed

section \<open>Volumes\<close>

definition text_along :: "unstructured_lib \<Rightarrow> string list \<Rightarrow> json \<Rightarrow> string" where
  "text_along ul p j = (case NestedString ul j p of Ok (Some s) \<Rightarrow> s | _ \<Rightarrow> '''')"

definition un_key :: "unstructured_lib \<Rightarrow> json \<Rightarrow> object_key" where
  "un_key ul j = (text_along ul [''metadata'', ''namespace''] j, text_along ul [''metadata'', ''name''] j)"

definition un_version :: "unstructured_lib \<Rightarrow> json \<Rightarrow> string" where
  "un_version ul = text_along ul [''metadata'', ''resourceVersion'']"

definition vr_part :: "unstructured_lib \<Rightarrow> json \<Rightarrow> string option outcome" where
  "vr_part ul j = NestedString ul j state_path"

text \<open>A volume that was given a state: it is in it, or is as it was and the path to the state leads
  through something that is not a map.\<close>

definition moved_to :: "unstructured_lib \<Rightarrow> string \<Rightarrow> json \<Rightarrow> json \<Rightarrow> bool" where
  "moved_to ul st v v' \<longleftrightarrow> volume_state ul v' = Ok st \<or> v' = v \<and> is_err (SetNestedField ul v (JText st) state_path)"

text \<open>C19: Processing volumes against a server that answers brings each of the named that exists into the
  target state (primary if the cluster is active, else secondary), except one that has no place for a state,
  and changes no other object.\<close>

theorem ProcessVolumeReplications_moves:
  assumes "unstructured ul" "resource_reliable m (un_key ul) (vr_part ul) objs (un_version ul)"
    and "run_state (ProcessVolumeReplications ul m ns names active) w = (r, w')"
  shows "r = Ok () \<and> (\<forall>k. if fst k = ns \<and> snd k \<in> set names
    then rel_option (moved_to ul (if active then ''primary'' else ''secondary'')) (objs w k) (objs w' k)
    else objs w' k = objs w k)"
proof -
  let ?t = "if active then ''primary'' else ''secondary''"
  let ?h = "\<lambda>vr. changed (SetNestedField ul vr (JText ?t) state_path)"
  have apart: "apart state_path [''metadata'', f]" for f
    by (simp add: apart_def state_path_def)
  have away: "un_key ul y = un_key ul x \<and> un_version ul y = un_version ul x"
    if "SetNestedField ul x (JText ?t) state_path = Ok y" for x y
    using unstructured.set_apart [OF assms(1) that apart] by (simp add: un_key_def un_version_def text_along_def)
  have eq: "ProcessVolumeReplications ul m ns names active = for_each (\<lambda>name. edit_resource m (ns, name) ?h) names"
    by (simp add: ProcessVolumeReplications_def SetVolumeReplicationState_def Primary_def Secondary_def)
  have loop: "wp (for_each (\<lambda>name. edit_resource m (ns, name) ?h) names) (\<lambda>r w'. r = Ok () \<and>
      (\<forall>k. if fst k = ns \<and> snd k \<in> set names then rel_option (moved_to ul ?t) (objs w k) (objs w' k) else objs w' k = objs w k)) w"
  proof (rule resource_reliable.wp_for_each_edit [OF assms(2)], goal_cases)
    case (1 x)
    then show ?case using unstructured.set_returns [OF assms(1)] by (auto simp: changed_def split: outcome.splits)
  next
    case (2 x y)
    then show ?case using away by (auto simp: changed_def split: outcome.splits)
  next
    case (5 x y z)
    then have "NestedString ul y state_path = Ok (Some ?t)"
      using unstructured.set_text [OF assms(1)] by (auto simp: changed_def split: outcome.splits)
    with 5 show ?case by (simp add: vr_part_def moved_to_def volume_state_def)
  qed (auto simp: moved_to_def changed_def split: outcome.splits)
  show ?thesis by (rule wpD [OF assms(3) [unfolded eq] loop])
qed

definition bump_json :: "json \<Rightarrow> json" where
  "bump_json j = (case SetNestedField json_lib j (JText (un_version json_lib j @ ''+'')) [''metadata'', ''resourceVersion''] of
     Ok j' \<Rightarrow> j' | _ \<Rightarrow> j)"

lemma bump_json_apart:
  assumes "apart [''metadata'', ''resourceVersion''] q"
  shows "NestedString json_lib (bump_json j) q = NestedString json_lib j q"
  using json.set_apart [OF _ assms] by (auto simp: bump_json_def split: outcome.splits)

interpretation volumes: versioned "un_key json_lib" "un_version json_lib" bump_json "vr_part json_lib"
  by unfold_locales (simp_all add: un_key_def text_along_def vr_part_def state_path_def bump_json_apart apart_def)

abbreviation volumes_in_memory :: "(json stored_objects, json) resource_client" where
  "volumes_in_memory \<equiv> mem_objects (un_key json_lib) (un_version json_lib) bump_json"

definition demo_volume :: "string \<Rightarrow> json" where
  "demo_volume name = JMap [(''metadata'', JMap [(''namespace'', JText ''ns''), (''name'', JText name), (''resourceVersion'', JText ''1'')]),
     (''spec'', JMap [(''replicationState'', JText ''primary'')])]"

definition demo_volumes :: "json stored_objects" where
  "demo_volumes = [(''ns'', ''data'') \<mapsto> demo_volume ''data'', (''ns'', ''logs'') \<mapsto> demo_volume ''logs'']"

lemma demo_volumes_at:
  "under_key (un_key json_lib) demo_volumes (''ns'', ''data'') = Some (demo_volume ''data'')"
  "under_key (un_key json_lib) demo_volumes (''ns'', ''logs'') = Some (demo_volume ''logs'')"
  by (simp_all add: under_key_def demo_volumes_def demo_volume_def un_key_def text_along_def json_lib_def json_read_def as_text_def)

lemma demo_volume_has_place: "\<not> is_err (SetNestedField json_lib (demo_volume name) (JText st) state_path)"
  by (simp add: demo_volume_def json_lib_def state_path_def)

theorem ProcessVolumeReplications_moves_witness:
  "(\<exists>v. under_key (un_key json_lib) (snd (run_state (ProcessVolumeReplications json_lib volumes_in_memory ''ns'' [''data''] False)
      demo_volumes)) (''ns'', ''data'') = Some v \<and> volume_state json_lib v = Ok ''secondary'') \<and>
   under_key (un_key json_lib) (snd (run_state (ProcessVolumeReplications json_lib volumes_in_memory ''ns'' [''data''] False)
      demo_volumes)) (''ns'', ''logs'') = Some (demo_volume ''logs'')"
proof -
  note all = ProcessVolumeReplications_moves [OF json.unstructured_axioms volumes.in_memory.resource_reliable_axioms surjective_pairing,
    THEN conjunct2, rule_format, where ns = "''ns''" and names = "[''data'']" and active = False and w = demo_volumes]
  show ?thesis
    using all [of "(''ns'', ''data'')"] all [of "(''ns'', ''logs'')"] demo_volume_has_place
    by (auto simp: demo_volumes_at moved_to_def option_rel_Some1)
qed


section \<open>Corners\<close>

text \<open>An annotation that is there with an empty value is not removed from a Deployment, and a Deployment
  without a number of replicas makes the check for readiness panic; for a StatefulSet neither is so.\<close>

theorem deploy_RemoveAnnotation_keeps_empty:
  assumes "resource_reliable m dp_key dp_part objs dp_version" "objs w (ns, name) = Some d"
    and "annotation (dp_Meta d) key = Some ''''" "run_state (deploy_RemoveAnnotation m name ns key) w = (r, w')"
  shows "r = Ok () \<and> objs w' = objs w"
  using wpD [OF assms(4) [unfolded deploy_RemoveAnnotation_def] resource_reliable.wp_edit_answered [OF assms(1,2)]] assms(3)
  by (auto simp: text_at_def)

theorem deployment_without_replicas_panics:
  "dp_Replicas d = None \<Longrightarrow> dp_AvailableReplicas d = dp_StatusReplicas d \<Longrightarrow> deployment_ready d = Panic"
  by (simp add: deployment_ready_def)

end
