(* ===== verification/Operator_Config.thy ===== *)
theory Operator_Config
  imports Resource_Client
begin

text \<open>
  internal/config/config.go, configmap.go and secrets.go, and the command line of cmd/main.go: the
  configuration of the operator. The environment is a function from names to texts (the empty text for a
  variable that is not set). Of a ConfigMap or a Secret there is its data. What is printed is left out.
\<close>

section \<open>The configuration\<close>

record operator_config =
  cf_AWSRegion :: string
  cf_AWSAccessKey :: string
  cf_AWSSecretKey :: string
  cf_AWSSessionToken :: string
  cf_AWSEndpoint :: string
  cf_AWSUseLocalEndpoint :: bool
  cf_DynamoDBTableName :: string
  cf_ClusterName :: string
  cf_OperatorID :: string
  cf_ReconcileInterval :: int
  cf_DefaultHeartbeatInterval :: int

type_synonym environment = "string \<Rightarrow> string"

text \<open>\<open>strconv.ParseBool\<close>\<close>

definition parse_bool :: "string \<Rightarrow> bool option" where
  "parse_bool s =
     (if s \<in> {''1'', ''t'', ''T'', ''true'', ''TRUE'', ''True''} then Some True
      else if s \<in> {''0'', ''f'', ''F'', ''false'', ''FALSE'', ''False''} then Some False
      else None)"

definition getEnv :: "environment \<Rightarrow> string \<Rightarrow> string \<Rightarrow> string" where
  "getEnv env key defaultValue = (let val = env key in if val = '''' then defaultValue else val)"

definition getEnvBool :: "environment \<Rightarrow> string \<Rightarrow> bool \<Rightarrow> bool" where
  "getEnvBool env key defaultValue =
     (let valueStr = env key in
      if valueStr = '''' then defaultValue
      else case parse_bool valueStr of None \<Rightarrow> defaultValue | Some val \<Rightarrow> val)"

definition getEnvDuration :: "environment \<Rightarrow> string \<Rightarrow> int \<Rightarrow> int" where
  "getEnvDuration env key defaultValue =
     (let valueStr = env key in
      if valueStr = '''' then defaultValue
      else case parse_duration valueStr of None \<Rightarrow> defaultValue | Some val \<Rightarrow> val)"

definition LoadConfig :: "environment \<Rightarrow> operator_config outcome" where
  "LoadConfig env =
     (let awsEndpoint = getEnv env ''AWS_ENDPOINT'' '''';
          awsUseLocalEndpoint = getEnvBool env ''AWS_USE_LOCAL_ENDPOINT'' False;
          awsUseLocalEndpoint = (if awsUseLocalEndpoint \<and> awsEndpoint = '''' then False else awsUseLocalEndpoint);
          config = \<lparr>
            cf_AWSRegion = getEnv env ''AWS_REGION'' ''us-west-2'',
            cf_AWSAccessKey = getEnv env ''AWS_ACCESS_KEY_ID'' '''',
            cf_AWSSecretKey = getEnv env ''AWS_SECRET_ACCESS_KEY'' '''',
            cf_AWSSessionToken = getEnv env ''AWS_SESSION_TOKEN'' '''',
            cf_AWSEndpoint = awsEndpoint,
            cf_AWSUseLocalEndpoint = awsUseLocalEndpoint,
            cf_DynamoDBTableName = getEnv env ''DYNAMODB_TABLE_NAME'' ''failover-operator'',
            cf_ClusterName = getEnv env ''CLUSTER_NAME'' ''default-cluster'',
            cf_OperatorID = getEnv env ''OPERATOR_ID'' ''failover-operator'',
            cf_ReconcileInterval = getEnvDuration env ''RECONCILE_INTERVAL'' (30 * second),
            cf_DefaultHeartbeatInterval = getEnvDuration env ''DEFAULT_HEARTBEAT_INTERVAL'' (30 * second) \<rparr>
      in if cf_ClusterName config = '''' then Err (ErrorString ''CLUSTER_NAME must be set'') else Ok config)"

text \<open>The flags of the operator that override its configuration; the others are in Operator_Command.\<close>

record command_line =
  fl_clusterName :: string
  fl_operatorID :: string
  fl_dynamoDBTableName :: string
  fl_awsRegion :: string
  fl_awsEndpoint :: string
  fl_useLocalEndpoint :: bool

definition override_config :: "command_line \<Rightarrow> operator_config \<Rightarrow> operator_config" where
  "override_config fl c =
     c\<lparr> cf_ClusterName := (if fl_clusterName fl \<noteq> '''' then fl_clusterName fl else cf_ClusterName c),
        cf_OperatorID := (if fl_operatorID fl \<noteq> '''' then fl_operatorID fl else cf_OperatorID c),
        cf_DynamoDBTableName := (if fl_dynamoDBTableName fl \<noteq> '''' then fl_dynamoDBTableName fl else cf_DynamoDBTableName c),
        cf_AWSRegion := (if fl_awsRegion fl \<noteq> '''' then fl_awsRegion fl else cf_AWSRegion c),
        cf_AWSEndpoint := (if fl_awsEndpoint fl \<noteq> '''' then fl_awsEndpoint fl else cf_AWSEndpoint c),
        cf_AWSUseLocalEndpoint := (if fl_useLocalEndpoint fl then fl_useLocalEndpoint fl else cf_AWSUseLocalEndpoint c) \<rparr>"

section \<open>ConfigMaps\<close>

type_synonym 'w data_objects = "('w, (string \<times> string) list) resource_client"

definition parseBool :: "string \<Rightarrow> bool \<Rightarrow> bool" where
  "parseBool val defaultValue =
     (if val = '''' then defaultValue
      else case parse_bool val of None \<Rightarrow> defaultValue | Some parsedValue \<Rightarrow> parsedValue)"

definition parseDuration :: "string \<Rightarrow> int \<Rightarrow> int" where
  "parseDuration val defaultValue =
     (if val = '''' then defaultValue
      else case parse_duration val of None \<Rightarrow> defaultValue | Some parsedValue \<Rightarrow> parsedValue)"

text \<open>\<open>if v, exists := data[key]; exists && v != ""\<close>, and the form without the second test.\<close>

definition nonempty_at :: "(string \<times> string) list \<Rightarrow> string \<Rightarrow> string \<Rightarrow> string" where
  "nonempty_at d key old = (case map_of d key of Some v \<Rightarrow> if v \<noteq> '''' then v else old | None \<Rightarrow> old)"

definition parsed_at :: "(string \<times> string) list \<Rightarrow> string \<Rightarrow> (string \<Rightarrow> 'a \<Rightarrow> 'a) \<Rightarrow> 'a \<Rightarrow> 'a" where
  "parsed_at d key parse old = (case map_of d key of Some v \<Rightarrow> parse v old | None \<Rightarrow> old)"

definition config_from_data :: "(string \<times> string) list \<Rightarrow> operator_config \<Rightarrow> operator_config" where
  "config_from_data d c =
     c\<lparr> cf_AWSRegion := nonempty_at d ''AWS_REGION'' (cf_AWSRegion c),
        cf_AWSEndpoint := parsed_at d ''AWS_ENDPOINT'' (\<lambda>v _. v) (cf_AWSEndpoint c),
        cf_AWSUseLocalEndpoint := parsed_at d ''AWS_USE_LOCAL_ENDPOINT'' parseBool (cf_AWSUseLocalEndpoint c),
        cf_DynamoDBTableName := nonempty_at d ''DYNAMODB_TABLE_NAME'' (cf_DynamoDBTableName c),
        cf_ClusterName := nonempty_at d ''CLUSTER_NAME'' (cf_ClusterName c),
        cf_OperatorID := nonempty_at d ''OPERATOR_ID'' (cf_OperatorID c),
        cf_ReconcileInterval := parsed_at d ''RECONCILE_INTERVAL'' parseDuration (cf_ReconcileInterval c),
        cf_DefaultHeartbeatInterval := parsed_at d ''DEFAULT_HEARTBEAT_INTERVAL'' parseDuration (cf_DefaultHeartbeatInterval c) \<rparr>"

definition GetOperatorConfig ::
    "environment \<Rightarrow> 'w data_objects \<Rightarrow> string \<Rightarrow> string \<Rightarrow> ('w, operator_config outcome) state" where
  "GetOperatorConfig env m namespace name =
     check (State_Monad.return (LoadConfig env)) (wrapf ''failed to load default configuration'')
     (\<lambda>config. check (rs_Get m (namespace, name)) (wrapf ''failed to get ConfigMap'')
     (\<lambda>configMap. ret (config_from_data configMap config)))"

section \<open>Secrets\<close>

record aws_credentials =
  cr_AccessKey :: string
  cr_SecretKey :: string
  cr_SessionToken :: string
  cr_Region :: string

definition credentials_of :: "(string \<times> string) list \<Rightarrow> aws_credentials outcome" where
  "credentials_of d =
     (case map_of d ''access_key'' of
        None \<Rightarrow> Err (ErrorString ''AWS access key not found in secret'')
      | Some accessKey \<Rightarrow>
        (case map_of d ''secret_key'' of
           None \<Rightarrow> Err (ErrorString ''AWS secret key not found in secret'')
         | Some secretKey \<Rightarrow> Ok \<lparr>
             cr_AccessKey = accessKey, cr_SecretKey = secretKey,
             cr_SessionToken = (case map_of d ''session_token'' of Some sessionToken \<Rightarrow> sessionToken | None \<Rightarrow> ''''),
             cr_Region = (case map_of d ''region'' of Some region \<Rightarrow> region | None \<Rightarrow> '''') \<rparr>))"

definition GetAWSCredentials ::
    "'w data_objects \<Rightarrow> string \<Rightarrow> string \<Rightarrow> ('w, aws_credentials outcome) state" where
  "GetAWSCredentials m namespace secretName =
     check (rs_Get m (namespace, secretName)) (wrapf ''failed to get AWS credentials secret'')
     (\<lambda>secret. State_Monad.return (credentials_of secret))"

text \<open>The changed configuration; with an error it is unchanged.\<close>

definition UpdateConfigWithSecret ::
    "'w data_objects \<Rightarrow> operator_config \<Rightarrow> string \<Rightarrow> string \<Rightarrow> ('w, operator_config outcome) state" where
  "UpdateConfigWithSecret m cfg namespace secretName =
     (if secretName = '''' then ret cfg
      else check (GetAWSCredentials m namespace secretName) (\<lambda>e. e)
      (\<lambda>cr. ret (cfg\<lparr>
         cf_AWSAccessKey := (if cf_AWSAccessKey cfg = '''' then cr_AccessKey cr else cf_AWSAccessKey cfg),
         cf_AWSSecretKey := (if cf_AWSSecretKey cfg = '''' then cr_SecretKey cr else cf_AWSSecretKey cfg),
         cf_AWSSessionToken := (if cf_AWSSessionToken cfg = '''' \<and> cr_SessionToken cr \<noteq> '''' then cr_SessionToken cr
           else cf_AWSSessionToken cfg),
         cf_AWSRegion := (if cf_AWSRegion cfg = '''' \<and> cr_Region cr \<noteq> '''' then cr_Region cr else cf_AWSRegion cfg) \<rparr>)))"

section \<open>Well-formed configurations\<close>

definition named :: "operator_config \<Rightarrow> bool" where
  "named c \<longleftrightarrow> cf_AWSRegion c \<noteq> '''' \<and> cf_DynamoDBTableName c \<noteq> '''' \<and> cf_ClusterName c \<noteq> '''' \<and> cf_OperatorID c \<noteq> ''''"

lemma LoadConfig_named: "\<exists>c. LoadConfig env = Ok c \<and> named c \<and> (cf_AWSUseLocalEndpoint c \<longrightarrow> cf_AWSEndpoint c \<noteq> '''')"
  by (simp add: LoadConfig_def getEnv_def named_def Let_def)

lemma override_config_named: "named c \<Longrightarrow> named (override_config fl c)"
  by (simp add: named_def override_config_def)

lemma config_from_data_named: "named c \<Longrightarrow> named (config_from_data d c)"
  by (auto simp: named_def config_from_data_def nonempty_at_def split: option.splits)

text \<open>A Secret cannot change the region of a configuration that was loaded: it always has one.\<close>

lemma UpdateConfigWithSecret_region:
  assumes "named c" "run_state (UpdateConfigWithSecret m c namespace secretName) w = (Ok c', w')"
  shows "named c' \<and> cf_AWSRegion c' = cf_AWSRegion c"
  using assms
  by (auto simp: UpdateConfigWithSecret_def check_def try_or_def raise_def ret_def named_def split: prod.splits outcome.splits if_splits)

end
