(* ===== verification/Table_Setup.thy ===== *)
theory Table_Setup
  imports Operator_Config Retry_Client
begin

text \<open>
  internal/config/aws.go, internal/controller/dynamodb/service.go and table_setup.go, and the command
  cmd/setup-dynamodb: the clients of DynamoDB, the service that is made from the environment, and the
  table. The AWS SDK is a parameter. Logging is left out.
\<close>

section \<open>The SDK\<close>

record http_settings =
  hs_DialTimeout :: int
  hs_KeepAlive :: int
  hs_MaxIdleConns :: int
  hs_MaxIdleConnsPerHost :: int
  hs_IdleConnTimeout :: int
  hs_TLSHandshakeTimeout :: int
  hs_ExpectContinueTimeout :: int
  hs_ForceAttemptHTTP2 :: bool
  hs_ClientTimeout :: int

datatype load_option =
    WithRegion string
  | WithCredentialsProvider string string string
  | WithSharedConfigProfile string
  | WithHTTPClient http_settings

record provisioned_throughput =
  pt_ReadCapacityUnits :: int
  pt_WriteCapacityUnits :: int

record secondary_index =
  gx_IndexName :: string
  gx_KeySchema :: "(string \<times> string) list"
  gx_ProjectionType :: string
  gx_ProvisionedThroughput :: "provisioned_throughput option"

record create_table_input =
  ct_TableName :: string
  ct_BillingMode :: string
  ct_KeySchema :: "(string \<times> string) list"
  ct_AttributeDefinitions :: "(string \<times> string) list"
  ct_GlobalSecondaryIndexes :: "secondary_index list"
  ct_ProvisionedThroughput :: "provisioned_throughput option"

text \<open>\<open>*dynamodb.Client\<close>: the methods on items, and those on tables. DescribeTable answers the status.\<close>

record 'w sdk_client =
  sdk_Items :: "'w dynamo_client"
  ListTables :: "int \<Rightarrow> ('w, unit outcome) state"
  DescribeTable :: "string \<Rightarrow> ('w, string outcome) state"
  CreateTable :: "create_table_input \<Rightarrow> ('w, unit outcome) state"

record ('w, 'c) aws_sdk =
  LoadDefaultConfig :: "load_option list \<Rightarrow> ('w, 'c outcome) state"
  NewFromConfig :: "'c \<Rightarrow> string option \<Rightarrow> 'w sdk_client"

section \<open>Clients\<close>

definition local_endpoint :: "bool \<Rightarrow> string \<Rightarrow> string option" where
  "local_endpoint useLocalEndpoint endpoint = (if useLocalEndpoint \<and> endpoint \<noteq> '''' then Some endpoint else None)"

text \<open>The factory of config/aws.go, which the operator uses.\<close>

definition CreateDynamoDBClient :: "('w, 'c) aws_sdk \<Rightarrow> operator_config \<Rightarrow> ('w, 'w sdk_client outcome) state" where
  "CreateDynamoDBClient sdk cfg =
     (let options =
        (if cf_AWSAccessKey cfg \<noteq> '''' \<and> cf_AWSSecretKey cfg \<noteq> ''''
         then [WithCredentialsProvider (cf_AWSAccessKey cfg) (cf_AWSSecretKey cfg) (cf_AWSSessionToken cfg)] else [])
        @ [WithRegion (cf_AWSRegion cfg)]
      in check (LoadDefaultConfig sdk options) (wrapf ''failed to load AWS configuration'')
         (\<lambda>awsCfg. ret (NewFromConfig sdk awsCfg (local_endpoint (cf_AWSUseLocalEndpoint cfg) (cf_AWSEndpoint cfg)))))"

text \<open>The credentials options of service.go and of the setup command.\<close>

definition credential_options :: "string \<Rightarrow> string \<Rightarrow> string \<Rightarrow> load_option list" where
  "credential_options profile accessKey secretKey =
     (if profile \<noteq> '''' then [WithSharedConfigProfile profile]
      else if accessKey \<noteq> '''' \<and> secretKey \<noteq> '''' then [WithCredentialsProvider accessKey secretKey '''']
      else [])"

text \<open>The tested client: it must be able to list one table.\<close>

definition connect ::
    "('w, 'c) aws_sdk \<Rightarrow> load_option list \<Rightarrow> bool \<Rightarrow> string \<Rightarrow> ('w, 'w sdk_client outcome) state" where
  "connect sdk options useLocalEndpoint endpoint =
     check (LoadDefaultConfig sdk options) (wrapf ''failed to load AWS configuration'')
     (\<lambda>cfg. let client = NewFromConfig sdk cfg (local_endpoint useLocalEndpoint endpoint)
        in check (ListTables client 1) (wrapf ''DynamoDB connection test failed'') (\<lambda>_. ret client))"

text \<open>\<open>i, _ := strconv.Atoi(s)\<close>: zero when it is no number, the nearest int when it does not fit.\<close>

definition atoi :: "string \<Rightarrow> int" where
  "atoi s =
     (let (neg, ds) = (case s of [] \<Rightarrow> (False, []) | c # cs \<Rightarrow>
          if c = CHR ''-'' then (True, cs) else if c = CHR ''+'' then (False, cs) else (False, s));
          n = int (fst (scan_digits 0 ds))
      in if ds = [] \<or> \<not> list_all is_digit ds then 0
         else max int64_min (min int64_max (if neg then - n else n)))"

text \<open>getEnvWithDefault is getEnv of config.go again.\<close>

definition getEnvWithDefault :: "environment \<Rightarrow> string \<Rightarrow> string \<Rightarrow> string" where
  "getEnvWithDefault env key defaultValue = (let val = env key in if val = '''' then defaultValue else val)"

definition configureHTTPClientSettings :: "environment \<Rightarrow> http_settings" where
  "configureHTTPClientSettings env =
     (let timeoutSec = atoi (getEnvWithDefault env ''AWS_HTTP_TIMEOUT_SEC'' ''30'');
          keepAliveSec = atoi (getEnvWithDefault env ''AWS_HTTP_KEEPALIVE_SEC'' ''30'');
          maxIdleConns = atoi (getEnvWithDefault env ''AWS_HTTP_MAX_IDLE_CONNS'' ''100'');
          maxIdleConnsPerHost = atoi (getEnvWithDefault env ''AWS_HTTP_MAX_IDLE_CONNS_PER_HOST'' ''100'');
          idleConnTimeoutSec = atoi (getEnvWithDefault env ''AWS_HTTP_IDLE_CONN_TIMEOUT_SEC'' ''90'')
      in \<lparr> hs_DialTimeout = wrap64 (timeoutSec * second), hs_KeepAlive = wrap64 (keepAliveSec * second),
           hs_MaxIdleConns = maxIdleConns, hs_MaxIdleConnsPerHost = maxIdleConnsPerHost,
           hs_IdleConnTimeout = wrap64 (idleConnTimeoutSec * second),
           hs_TLSHandshakeTimeout = 10 * second, hs_ExpectContinueTimeout = 1 * second, hs_ForceAttemptHTTP2 = True,
           hs_ClientTimeout = wrap64 (timeoutSec * second) \<rparr>)"

definition CreateAWSDynamoDBClient ::
    "('w, 'c) aws_sdk \<Rightarrow> error_types \<Rightarrow> 'w go_runtime \<Rightarrow> environment \<Rightarrow> ('w, 'w dynamo_client outcome) state" where
  "CreateAWSDynamoDBClient sdk ty rt env =
     (let region = (if env ''AWS_REGION'' = '''' then ''us-west-2'' else env ''AWS_REGION'');
          options = [WithRegion region, WithHTTPClient (configureHTTPClientSettings env)] @
            credential_options (env ''AWS_PROFILE'') (env ''AWS_ACCESS_KEY_ID'') (env ''AWS_SECRET_ACCESS_KEY'')
      in check (connect sdk options (env ''AWS_USE_LOCAL_ENDPOINT'' = ''true'') (env ''AWS_ENDPOINT'')) (\<lambda>e. e)
         (\<lambda>client. ret (NewRetryingDynamoDBClient ty rt (sdk_Items client) None)))"

section \<open>The table\<close>

record table_setup_options =
  ts_TableName :: string
  ts_BillingMode :: string
  ts_ProvisionedThroughput :: "provisioned_throughput option"
  ts_WaitForActive :: bool
  ts_MaxWaitSeconds :: int

definition DefaultTableSetupOptions :: "string \<Rightarrow> table_setup_options" where
  "DefaultTableSetupOptions tableName =
     \<lparr> ts_TableName = tableName, ts_BillingMode = ''PAY_PER_REQUEST'', ts_ProvisionedThroughput = None,
       ts_WaitForActive = True, ts_MaxWaitSeconds = 300 \<rparr>"

definition tableExists :: "'w sdk_client \<Rightarrow> string \<Rightarrow> ('w, bool outcome) state" where
  "tableExists client tableName =
     try_or (DescribeTable client tableName)
       (\<lambda>err. if errors_as ''ResourceNotFoundException'' err then ret False else raise err)
       (\<lambda>_. ret True)"

text \<open>What is asked for: the throughput only for provisioned tables, for the table and for its index.\<close>

definition throughput :: "table_setup_options \<Rightarrow> provisioned_throughput option" where
  "throughput options =
     (if ts_BillingMode options = ''PROVISIONED''
      then (case ts_ProvisionedThroughput options of
              None \<Rightarrow> Some \<lparr> pt_ReadCapacityUnits = 5, pt_WriteCapacityUnits = 5 \<rparr>
            | Some t \<Rightarrow> Some t)
      else None)"

definition table_request :: "table_setup_options \<Rightarrow> create_table_input" where
  "table_request options =
     \<lparr> ct_TableName = ts_TableName options, ct_BillingMode = ts_BillingMode options,
       ct_KeySchema = [(''PK'', ''HASH''), (''SK'', ''RANGE'')],
       ct_AttributeDefinitions = [(''PK'', ''S''), (''SK'', ''S''), (''GSI1PK'', ''S''), (''GSI1SK'', ''S'')],
       ct_GlobalSecondaryIndexes = [
         \<lparr> gx_IndexName = ''GSI1'', gx_KeySchema = [(''GSI1PK'', ''HASH''), (''GSI1SK'', ''RANGE'')],
           gx_ProjectionType = ''ALL'', gx_ProvisionedThroughput = throughput options \<rparr>],
       ct_ProvisionedThroughput = throughput options \<rparr>"

text \<open>The loop of waitForTableActive. None is the answer when \<open>fuel\<close> rounds have gone by; time.Sleep is a
  parameter.\<close>

fun poll_table ::
    "'w go_runtime \<Rightarrow> (int \<Rightarrow> ('w, unit) state) \<Rightarrow> 'w sdk_client \<Rightarrow> string \<Rightarrow> go_time \<Rightarrow> nat \<Rightarrow>
     ('w, unit outcome option) state" where
  "poll_table rt slp client tableName deadline 0 = State_Monad.return None"
| "poll_table rt slp client tableName deadline (Suc fuel) = do {
     now \<leftarrow> time_now rt;
     (if \<not> time_before now deadline
      then State_Monad.return (Some (Err (ErrorString (''timed out waiting for table '' @ tableName @ '' to become active''))))
      else do {
        r \<leftarrow> DescribeTable client tableName;
        (case r of
           Err e \<Rightarrow> State_Monad.return (Some (Err e))
         | Panic \<Rightarrow> State_Monad.return (Some Panic)
         | Ok tableStatus \<Rightarrow>
             (if tableStatus = ''ACTIVE'' then State_Monad.return (Some (Ok ()))
              else do {
                _ \<leftarrow> slp (5 * second);
                poll_table rt slp client tableName deadline fuel
              }))
      })
   }"

definition waitForTableActive ::
    "'w go_runtime \<Rightarrow> (int \<Rightarrow> ('w, unit) state) \<Rightarrow> 'w sdk_client \<Rightarrow> string \<Rightarrow> int \<Rightarrow> nat \<Rightarrow>
     ('w, unit outcome option) state" where
  "waitForTableActive rt slp client tableName maxWaitSeconds fuel = do {
     now \<leftarrow> time_now rt;
     poll_table rt slp client tableName (time_add now (maxWaitSeconds * second)) fuel
   }"

definition SetupDynamoDBTable ::
    "'w go_runtime \<Rightarrow> (int \<Rightarrow> ('w, unit) state) \<Rightarrow> 'w sdk_client \<Rightarrow> table_setup_options \<Rightarrow> nat \<Rightarrow>
     ('w, unit outcome option) state" where
  "SetupDynamoDBTable rt slp client options fuel = do {
     r \<leftarrow> tableExists client (ts_TableName options);
     (case r of
        Err e \<Rightarrow> State_Monad.return (Some (Err (wrapf ''failed to check if table exists'' e)))
      | Panic \<Rightarrow> State_Monad.return (Some Panic)
      | Ok exists \<Rightarrow>
          (if exists then State_Monad.return (Some (Ok ()))
           else do {
             c \<leftarrow> CreateTable client (table_request options);
             (case c of
                Err e \<Rightarrow> State_Monad.return (Some (Err (wrapf ''failed to create table'' e)))
              | Panic \<Rightarrow> State_Monad.return (Some Panic)
              | Ok _ \<Rightarrow>
                  (if \<not> ts_WaitForActive options then State_Monad.return (Some (Ok ()))
                   else do {
                     a \<leftarrow> waitForTableActive rt slp client (ts_TableName options) (ts_MaxWaitSeconds options) fuel;
                     State_Monad.return (case a of
                        Some (Err e) \<Rightarrow> Some (Err (wrapf ''error waiting for table to become active'' e))
                      | _ \<Rightarrow> a)
                   }))
           }))
   }"

section \<open>The setup command\<close>

record setup_flags =
  sf_tableName :: string
  sf_region :: string
  sf_endpoint :: string
  sf_local :: bool
  sf_accessKey :: string
  sf_secretKey :: string
  sf_profile :: string
  sf_payPerRequest :: bool
  sf_readCapacity :: int
  sf_writeCapacity :: int

text \<open>The environment counts where the command line says nothing; a region that is the default one counts
  as not said.\<close>

definition complete_flags :: "environment \<Rightarrow> setup_flags \<Rightarrow> setup_flags" where
  "complete_flags env fl =
     (let fromEnv = sf_endpoint fl = '''' \<and> env ''AWS_ENDPOINT'' \<noteq> '''';
          endpoint = (if fromEnv then env ''AWS_ENDPOINT'' else sf_endpoint fl);
          useLocal = sf_local fl \<or> fromEnv
      in fl\<lparr> sf_accessKey := (if sf_accessKey fl = '''' then env ''AWS_ACCESS_KEY_ID'' else sf_accessKey fl),
             sf_secretKey := (if sf_secretKey fl = '''' then env ''AWS_SECRET_ACCESS_KEY'' else sf_secretKey fl),
             sf_region := (if sf_region fl = ''us-west-2'' \<and> env ''AWS_REGION'' \<noteq> '''' then env ''AWS_REGION'' else sf_region fl),
             sf_profile := (if sf_profile fl = '''' \<and> env ''AWS_PROFILE'' \<noteq> '''' then env ''AWS_PROFILE'' else sf_profile fl),
             sf_endpoint := (if useLocal \<and> endpoint = '''' then ''http://localhost:8000'' else endpoint),
             sf_local := useLocal \<rparr>)"

definition setup_client :: "('w, 'c) aws_sdk \<Rightarrow> setup_flags \<Rightarrow> ('w, 'w sdk_client outcome) state" where
  "setup_client sdk fl =
     connect sdk ([WithRegion (sf_region fl)] @ credential_options (sf_profile fl) (sf_accessKey fl) (sf_secretKey fl))
       (sf_local fl) (sf_endpoint fl)"

definition setup_options :: "setup_flags \<Rightarrow> table_setup_options" where
  "setup_options fl =
     \<lparr> ts_TableName = sf_tableName fl,
       ts_BillingMode = (if sf_payPerRequest fl then ''PAY_PER_REQUEST'' else ''PROVISIONED''),
       ts_ProvisionedThroughput = (if sf_payPerRequest fl then None else Some
         \<lparr> pt_ReadCapacityUnits = sf_readCapacity fl, pt_WriteCapacityUnits = sf_writeCapacity fl \<rparr>),
       ts_WaitForActive = True, ts_MaxWaitSeconds = 300 \<rparr>"

text \<open>The command; an error is its exit code 1.\<close>

definition setup_command ::
    "('w, 'c) aws_sdk \<Rightarrow> 'w go_runtime \<Rightarrow> (int \<Rightarrow> ('w, unit) state) \<Rightarrow> environment \<Rightarrow> setup_flags \<Rightarrow> nat \<Rightarrow>
     ('w, unit outcome option) state" where
  "setup_command sdk rt slp env flags fuel = do {
     let fl = complete_flags env flags;
     r \<leftarrow> setup_client sdk fl;
     (case r of
        Err e \<Rightarrow> State_Monad.return (Some (Err e))
      | Panic \<Rightarrow> State_Monad.return (Some Panic)
      | Ok client \<Rightarrow> SetupDynamoDBTable rt slp client (setup_options fl) fuel)
   }"

section \<open>The table set-up ends\<close>

text \<open>A clock that a sleep moves on by what was asked for, and that nothing moves back.\<close>

locale sleeping_clock =
  fixes rt :: "'w go_runtime" and slp :: "int \<Rightarrow> ('w, unit) state" and client :: "'w sdk_client" and clock :: "'w \<Rightarrow> int"
  assumes now_law: "run_state (time_now rt) w = (t, w') \<Longrightarrow> clock w \<le> nanos t \<and> nanos t \<le> clock w'"
    and sleep_law: "run_state (slp d) w = (u, w') \<Longrightarrow> clock w + d \<le> clock w'"
    and describe_law: "run_state (DescribeTable client name) w = (r, w') \<Longrightarrow> clock w \<le> clock w'"

context sleeping_clock
begin

lemma wp_poll_table:
  assumes "nanos deadline \<le> clock w + int k * (5 * second)" "k < fuel"
  shows "wp (poll_table rt slp client name deadline fuel) (\<lambda>r w'. r \<noteq> None \<and>
     (r = Some (Ok ()) \<longrightarrow> (\<exists>w1. run_state (DescribeTable client name) w1 = (Ok ''ACTIVE'', w')))) w"
  using assms
proof (induction fuel arbitrary: w k)
  case (Suc fuel)
  show ?case
    unfolding poll_table.simps wp_bind
  proof (rule wpI, goal_cases)
    case (1 now w1)
    note now = now_law [OF 1]
    show ?case
    proof (cases "time_before now deadline")
      case True
      have "k \<noteq> 0"
      proof
        assume "k = 0"
        then show False using True now Suc.prems(1) by (simp add: time_before_def)
      qed
      then obtain j where j: "k = Suc j" using not0_implies_Suc by blast
      show ?thesis
        unfolding if_not_P [OF True [THEN not_not [THEN iffD2]]] wp_bind
      proof (rule wpI, goal_cases)
        case (1 r w2)
        have goes_on: "wp (State_Monad.bind (slp (5 * second)) (\<lambda>_. poll_table rt slp client name deadline fuel))
          (\<lambda>r w'. r \<noteq> None \<and> (r = Some (Ok ()) \<longrightarrow> (\<exists>w1. run_state (DescribeTable client name) w1 = (Ok ''ACTIVE'', w')))) w2"
          unfolding wp_bind
        proof (rule wpI, rule Suc.IH [of _ j])
          fix u w3 assume "run_state (slp (5 * second)) w2 = (u, w3)"
          from sleep_law [OF this] describe_law [OF 1] now Suc.prems(1) j
          show "nanos deadline \<le> clock w3 + int j * (5 * second)" by (simp add: algebra_simps)
          show "j < fuel" using Suc.prems(2) j by simp
        qed
        show ?case using 1 goes_on by (cases r) (auto simp: wp_simps)
      qed
    qed (simp add: wp_simps)
  qed
qed simp

lemma wp_waitForTableActive:
  assumes "nat (maxWaitSeconds div 5) + 1 < fuel"
  shows "wp (waitForTableActive rt slp client name maxWaitSeconds fuel) (\<lambda>r w'. r \<noteq> None \<and>
     (r = Some (Ok ()) \<longrightarrow> (\<exists>w1. run_state (DescribeTable client name) w1 = (Ok ''ACTIVE'', w')))) w"
  unfolding waitForTableActive_def wp_bind
proof (rule wpI, rule wp_poll_table)
  fix t w1 assume "run_state (time_now rt) w = (t, w1)"
  note now = now_law [OF this]
  define q where "q = maxWaitSeconds div 5"
  have "maxWaitSeconds = q * 5 + maxWaitSeconds mod 5" "maxWaitSeconds mod 5 < 5" by (simp_all add: q_def)
  moreover have "q \<le> int (nat q)" by simp
  ultimately have "maxWaitSeconds \<le> int (nat q) * 5 + 5" by linarith
  with now
  show "nanos (time_add t (maxWaitSeconds * second)) \<le> clock w1 + int (nat (maxWaitSeconds div 5) + 1) * (5 * second)"
    unfolding q_def [symmetric] by (simp add: time_add_def second_def)
qed (rule assms)

end

section \<open>A table that becomes active\<close>

text \<open>An instance: a clock in nanoseconds, and a table that is active from some time on.\<close>

record table_world =
  tw_clock :: int
  tw_created :: bool
  tw_active :: int

definition tw_runtime :: "table_world go_runtime" where
  "tw_runtime =
     \<lparr> time_now = State (\<lambda>w. (\<lparr> nanos = tw_clock w, zone = 0 \<rparr>, w)),
       uuid_new = State_Monad.return ''uuid'',
       timer_wait = (\<lambda>d. State (\<lambda>w. (None, w\<lparr> tw_clock := tw_clock w + d \<rparr>))) \<rparr>"

definition tw_sleep :: "int \<Rightarrow> (table_world, unit) state" where
  "tw_sleep d = State (\<lambda>w. ((), w\<lparr> tw_clock := tw_clock w + d \<rparr>))"

definition tw_client :: "table_world dynamo_client \<Rightarrow> table_world sdk_client" where
  "tw_client items =
     \<lparr> sdk_Items = items, ListTables = (\<lambda>n. ret ()),
       DescribeTable = (\<lambda>name. State (\<lambda>w.
         (if \<not> tw_created w then Err (ServiceError ''ResourceNotFoundException'' ''Requested resource not found'' [])
          else Ok (if tw_active w \<le> tw_clock w then ''ACTIVE'' else ''CREATING''), w))),
       CreateTable = (\<lambda>i. State (\<lambda>w. (Ok (), w\<lparr> tw_created := True \<rparr>))) \<rparr>"

interpretation active_table: sleeping_clock tw_runtime tw_sleep "tw_client items" tw_clock for items
  by unfold_locales (auto simp: tw_runtime_def tw_sleep_def tw_client_def)

section \<open>Properties\<close>

text \<open>C40: Setting the table up ends, within one round of the wait per five seconds; a success means that the
  table was there, or that it was created and (if that was asked for) was seen active in the end.\<close>

theorem SetupDynamoDBTable_ends:
  assumes "sleeping_clock rt slp client clock" "nat (ts_MaxWaitSeconds options div 5) + 1 < fuel"
    and "run_state (SetupDynamoDBTable rt slp client options fuel) w = (r, w')"
  shows "r \<noteq> None \<and> (r = Some (Ok ()) \<longrightarrow>
    (\<exists>st. run_state (DescribeTable client (ts_TableName options)) w = (Ok st, w')) \<or>
    (\<exists>w1 w2. run_state (CreateTable client (table_request options)) w1 = (Ok (), w2) \<and>
      (if ts_WaitForActive options
       then \<exists>w3. run_state (DescribeTable client (ts_TableName options)) w3 = (Ok ''ACTIVE'', w') else w' = w2)))"
    (is "?Q r w'")
proof -
  have "wp (SetupDynamoDBTable rt slp client options fuel) ?Q w"
    unfolding SetupDynamoDBTable_def tableExists_def wp_bind wp_try_or
  proof (rule wpI, goal_cases)
    case (1 d w1)
    show ?case
    proof (cases d)
      case (Ok st)
      with 1 show ?thesis by (auto simp: wp_simps)
    next
      case (Err e)
      have create: "wp (CreateTable client (table_request options)) (\<lambda>c w2. c = Ok () \<longrightarrow>
        (\<exists>w1. run_state (CreateTable client (table_request options)) w1 = (Ok (), w2))) w1"
        by (auto intro: wpI)
      note wait = sleeping_clock.wp_waitForTableActive [OF assms(1,2)]
      show ?thesis
        unfolding Err
        by (auto simp: wp_simps intro!: wp_mono [OF create] wp_mono [OF wait] split: outcome.splits option.splits; blast)
    qed (simp add: wp_simps)
  qed
  from wpD [OF assms(3) this] show ?thesis .
qed


theorem SetupDynamoDBTable_ends_witness:
  "\<forall>items. fst (run_state (SetupDynamoDBTable tw_runtime tw_sleep (tw_client items) (DefaultTableSetupOptions ''failover-operator'') 62)
     \<lparr> tw_clock = 0, tw_created = False, tw_active = 12 * second \<rparr>) \<noteq> None"
  using SetupDynamoDBTable_ends [OF active_table.sleeping_clock_axioms _ surjective_pairing,
    of "DefaultTableSetupOptions ''failover-operator''" 62] by (simp add: DefaultTableSetupOptions_def)

end
