(* ===== verification/Operator_Setup.thy ===== *)
theory Operator_Setup
  imports Table_Setup Failover_Controller Group_Controller
begin

text \<open>
  internal/controller/setup.go, and GetDynamoDBService of internal/controller/dynamodb/service.go: how
  the operator is put together. Of the manager of controller-runtime there is its client and what the
  registration of a controller answers. The registration of the schemes and logging are left out; the
  loops that the registrations start are StartChecker and StartPeriodicSynchronization.
\<close>

text \<open>\<open>hostname\<close> is what os.Hostname answers, if anything; \<open>pid\<close> is os.Getpid.\<close>

definition GetDynamoDBService ::
    "('w, 'c) aws_sdk \<Rightarrow> error_types \<Rightarrow> 'w go_runtime \<Rightarrow> environment \<Rightarrow> string option \<Rightarrow> nat \<Rightarrow>
     ('w, 'w dynamo_service outcome) state" where
  "GetDynamoDBService sdk ty rt env hostname pid =
     (let tableName = (if env ''DYNAMODB_TABLE_NAME'' = '''' then ''failover-operator'' else env ''DYNAMODB_TABLE_NAME'');
          clusterName = (if env ''CLUSTER_NAME'' = ''''
            then (case hostname of Some h \<Rightarrow> if h \<noteq> '''' then h else ''unknown-cluster'' | None \<Rightarrow> ''unknown-cluster'')
            else env ''CLUSTER_NAME'');
          operatorID = (if env ''OPERATOR_ID'' = ''''
            then (case hostname of Some h \<Rightarrow> h | None \<Rightarrow> '''') @ ''-'' @ show_nat pid
            else env ''OPERATOR_ID'')
      in check (CreateAWSDynamoDBClient sdk ty rt env) (wrapf ''failed to create DynamoDB client'')
         (\<lambda>client. ret (NewDynamoDBService client tableName clusterName operatorID hostname)))"

definition setupDynamoDB ::
    "('w, 'c) aws_sdk \<Rightarrow> string option \<Rightarrow> operator_config \<Rightarrow> ('w, 'w dynamo_service option outcome) state" where
  "setupDynamoDB sdk hostname cfg =
     (if cf_DynamoDBTableName cfg = '''' then ret None
      else check (CreateDynamoDBClient sdk cfg) (wrapf ''failed to create DynamoDB client'')
      (\<lambda>dynamoClient. ret (Some (NewDynamoDBService (sdk_Items dynamoClient) (cf_DynamoDBTableName cfg)
         (cf_ClusterName cfg) (cf_OperatorID cfg) hostname))))"

definition failover_parts ::
    "'w kube_client \<Rightarrow> operator_config \<Rightarrow> 'w dynamo_service option \<Rightarrow> 'w failover_reconciler" where
  "failover_parts kc cfg dynamoDBService =
     \<lparr> rc_Client = kc, rc_ClusterName = cf_ClusterName cfg, rc_DynamoDBManager = dynamoDBService,
       rc_WorkflowAdapter = (if dynamoDBService = None then None else Some (NewManagerAdapter kc (cf_ClusterName cfg) dynamoDBService)),
       rc_AutoFailoverCheck = (if dynamoDBService = None then None else Some (NewAutoFailoverChecker kc (cf_ClusterName cfg) dynamoDBService)) \<rparr>"

definition group_parts ::
    "'w kube_client \<Rightarrow> operator_config \<Rightarrow> 'w dynamo_service option \<Rightarrow> 'w group_reconciler" where
  "group_parts kc cfg dynamoDBService =
     \<lparr> gl_Client = kc, gl_ClusterName = cf_ClusterName cfg,
       gl_Manager = (if dynamoDBService = None then None
         else Some (SetGroupDynamoDBManager dynamoDBService (NewGroupManager kc (cf_ClusterName cfg)))) \<rparr>"

text \<open>The reconcilers as they are registered.\<close>

definition SetupControllers ::
    "('w, 'c) aws_sdk \<Rightarrow> 'w kube_client \<Rightarrow> (string \<Rightarrow> ('w, unit outcome) state) \<Rightarrow> string option \<Rightarrow> operator_config \<Rightarrow>
     ('w, ('w failover_reconciler \<times> 'w group_reconciler) outcome) state" where
  "SetupControllers sdk kc register hostname config =
     check (setupDynamoDB sdk hostname config) (wrapf ''failed to setup DynamoDB'')
     (\<lambda>dynamoDBService.
        let failoverReconciler = setup_reconciler (failover_parts kc config dynamoDBService);
            failoverGroupReconciler = setup_manager (group_parts kc config dynamoDBService)
        in check (register ''Failover'') (wrapf ''failed to setup Failover controller'')
        (\<lambda>_. check (register ''FailoverGroup'') (wrapf ''failed to setup FailoverGroup controller'')
        (\<lambda>_. ret (failoverReconciler, failoverGroupReconciler))))"

text \<open>The operator from its environment and its command line.\<close>

definition start_operator ::
    "('w, 'c) aws_sdk \<Rightarrow> 'w kube_client \<Rightarrow> (string \<Rightarrow> ('w, unit outcome) state) \<Rightarrow> string option \<Rightarrow> environment \<Rightarrow> command_line \<Rightarrow>
     ('w, ('w failover_reconciler \<times> 'w group_reconciler) outcome) state" where
  "start_operator sdk kc register hostname env fl =
     check (State_Monad.return (LoadConfig env)) (\<lambda>e. e)
     (\<lambda>config. SetupControllers sdk kc register hostname (override_config fl config))"

lemma wp_setupDynamoDB:
  assumes "cf_DynamoDBTableName cfg \<noteq> []"
  shows "wp (setupDynamoDB sdk hostname cfg) (\<lambda>r w'. \<forall>x. r = Ok x \<longrightarrow> (\<exists>awsCfg endpoint.
     x = Some (NewDynamoDBService (sdk_Items (NewFromConfig sdk awsCfg endpoint)) (cf_DynamoDBTableName cfg)
       (cf_ClusterName cfg) (cf_OperatorID cfg) hostname))) w"
  unfolding setupDynamoDB_def CreateDynamoDBClient_def
  using assms by (auto simp: wp_simps Let_def intro!: wpI split: outcome.splits)

lemma registered_parts:
  "setup_reconciler (failover_parts kc cfg (Some s)) = failover_parts kc cfg (Some s)"
  "setup_manager (group_parts kc cfg (Some s)) = group_parts kc cfg (Some s)"
  by (simp_all add: setup_reconciler_def setup_manager_def failover_parts_def group_parts_def)

section \<open>Properties\<close>

text \<open>C38: A configuration that was loaded is well formed whatever the environment: loading never fails, the
  region, the table, the cluster and the operator have names, a local endpoint is only used if there is one;
  the command line and ConfigMaps leave the names there.\<close>

theorem LoadConfig_type:
  "\<exists>c. LoadConfig env = Ok c \<and> named c \<and> \<not> (cf_AWSUseLocalEndpoint c \<and> cf_AWSEndpoint c = '''') \<and>
     named (override_config fl c) \<and> named (config_from_data d c)"
  using LoadConfig_named [of env] override_config_named config_from_data_named by blast

text \<open>C39: An operator that starts has one service of the database, for the table, the cluster and the operator
  that its configuration names, on the SDK's client as it is: all four parts that use a service use this one,
  and its calls are not repeated.\<close>

theorem start_operator_shares_service:
  assumes "run_state (start_operator sdk kc register hostname env fl) w = (Ok (fr, gr), w')"
  shows "\<exists>config awsCfg endpoint s. LoadConfig env = Ok config \<and>
     (let cfg = override_config fl config;
          cluster = cf_ClusterName cfg
      in sv_base s = \<lparr> bm_client = sdk_Items (NewFromConfig sdk awsCfg endpoint), bm_tableName = cf_DynamoDBTableName cfg,
           bm_clusterName = cluster, bm_operatorID = cf_OperatorID cfg \<rparr> \<and>
         rc_DynamoDBManager fr = Some s \<and> rc_WorkflowAdapter fr = Some (NewManagerAdapter kc cluster (Some s)) \<and>
         rc_AutoFailoverCheck fr = Some (NewAutoFailoverChecker kc cluster (Some s)) \<and>
         (\<exists>m. gl_Manager gr = Some m \<and> gm_DynamoDBManager m = Some s \<and> gm_ClusterName m = cluster))"
proof -
  obtain c where c: "LoadConfig env = Ok c" "named c" using LoadConfig_named [of env] by blast
  have n: "named (override_config fl c)" by (rule override_config_named [OF c(2)])
  have run: "run_state (SetupControllers sdk kc register hostname (override_config fl c)) w = (Ok (fr, gr), w')"
    using assms by (simp add: start_operator_def c check_def try_or_def)
  define cfg where "cfg = override_config fl c"
  have names: "cf_DynamoDBTableName cfg \<noteq> ''''" "cf_ClusterName cfg \<noteq> ''''" "cf_OperatorID cfg \<noteq> ''''"
    using n by (simp_all add: cfg_def named_def)
  have made: "wp (SetupControllers sdk kc register hostname cfg) (\<lambda>r w'. \<forall>fr gr. r = Ok (fr, gr) \<longrightarrow>
      (\<exists>awsCfg endpoint s. s = NewDynamoDBService (sdk_Items (NewFromConfig sdk awsCfg endpoint)) (cf_DynamoDBTableName cfg)
          (cf_ClusterName cfg) (cf_OperatorID cfg) hostname \<and>
        fr = failover_parts kc cfg (Some s) \<and> gr = group_parts kc cfg (Some s))) w"
    unfolding SetupControllers_def wp_check
    by (rule wp_mono [OF wp_setupDynamoDB [OF names(1)]])
      (auto simp: wp_simps Let_def registered_parts intro!: wpI split: outcome.splits; blast)
  from wpD [OF run [folded cfg_def] made] obtain awsCfg endpoint s where
    s: "s = NewDynamoDBService (sdk_Items (NewFromConfig sdk awsCfg endpoint)) (cf_DynamoDBTableName cfg)
          (cf_ClusterName cfg) (cf_OperatorID cfg) hostname"
      "fr = failover_parts kc cfg (Some s)" "gr = group_parts kc cfg (Some s)"
    by blast
  show ?thesis
    by (rule exI [of _ c], rule exI [of _ awsCfg], rule exI [of _ endpoint], rule exI [of _ s])
      (simp add: c Let_def s NewDynamoDBService_def names failover_parts_def group_parts_def SetGroupDynamoDBManager_def
        NewGroupManager_def flip: cfg_def)
qed

definition demo_sdk :: "table_world dynamo_client \<Rightarrow> (table_world, load_option list) aws_sdk" where
  "demo_sdk items = \<lparr> LoadDefaultConfig = (\<lambda>options. ret options), NewFromConfig = (\<lambda>cfg endpoint. tw_client items) \<rparr>"

definition table_flags :: command_line where
  "table_flags = \<lparr> fl_clusterName = '''', fl_operatorID = '''', fl_dynamoDBTableName = ''other'', fl_awsRegion = '''',
     fl_awsEndpoint = '''', fl_useLocalEndpoint = False \<rparr>"

lemma table_demo_start:
  "\<exists>fr gr. run_state (start_operator (demo_sdk items) kc (\<lambda>_. ret ()) None (\<lambda>_. '''') table_flags) w = (Ok (fr, gr), w)"
  by (auto simp: start_operator_def LoadConfig_def getEnv_def getEnvBool_def getEnvDuration_def Let_def override_config_def table_flags_def
      SetupControllers_def setupDynamoDB_def CreateDynamoDBClient_def demo_sdk_def check_def try_or_def ret_def)

theorem start_operator_shares_service_witness:
  "\<forall>items kc w. \<exists>fr gr s. fst (run_state (start_operator (demo_sdk items) kc (\<lambda>_. ret ()) None (\<lambda>_. '''') table_flags) w) = Ok (fr, gr) \<and>
     rc_DynamoDBManager fr = Some s \<and> bm_client (sv_base s) = items \<and> bm_tableName (sv_base s) = ''other''"
proof (intro allI)
  fix items and kc :: "table_world kube_client" and w
  obtain fr gr where run: "run_state (start_operator (demo_sdk items) kc (\<lambda>_. ret ()) None (\<lambda>_. '''') table_flags) w = (Ok (fr, gr), w)"
    using table_demo_start by blast
  from start_operator_shares_service [OF run]
  have "\<exists>s. rc_DynamoDBManager fr = Some s \<and> bm_client (sv_base s) = items \<and> bm_tableName (sv_base s) = ''other''"
    by (auto simp: Let_def override_config_def table_flags_def demo_sdk_def tw_client_def)
  with run show "\<exists>fr gr s. fst (run_state (start_operator (demo_sdk items) kc (\<lambda>_. ret ()) None (\<lambda>_. []) table_flags) w) = Ok (fr, gr) \<and>
     rc_DynamoDBManager fr = Some s \<and> bm_client (sv_base s) = items \<and> bm_tableName (sv_base s) = ''other''"
    by (metis fst_conv)
qed

end
