(* ===== verification/Config_Protocol.thy ===== *)
theory Config_Protocol
  imports Operations_Facts
begin

text \<open>
  The configuration of a group under interleaving. Operator processes read the record and write it
  later. The careful writes (\<open>conf_step\<close>) are conditional on the version their process has read: by
  UpdateGroupConfig (\<open>config_cas\<close>) or by the transaction of a failover or failback
  (\<open>transfer_effect\<close>). The program has others (\<open>program_step\<close>): an UpdateGroupConfig on a version that
  was raised by hand (UpdateSuspension, UpdateGroupState, TransferOwnership) or on any other, the
  unconditional update of TransferOwnership, and the deletion of the record. Any number of steps of
  other processes may come between.

  Shown: what a process has read is older than the stored record or is that record (\<open>conf_inv\<close>, kept
  by every step of the program), so a write conditional on it takes effect only on the record it was
  computed from, as long as versions do not wrap around. Excepted are the processes whose last read
  lies before an unconditional update or a deletion (\<open>cw_stale\<close>): these may bring a version back.
  \<open>conf_runs\<close> and \<open>program_runs\<close> are what steps can make of a table; Config_Steps shows them of the
  operations.
\<close>

record 'p conf_world =
  cw_tbl :: dynamo_table
  cw_read :: "'p \<Rightarrow> item option"
  cw_stale :: "'p set"

section \<open>Versions\<close>

definition conf_version :: "item \<Rightarrow> int \<Rightarrow> bool" where
  "conf_version it v \<longleftrightarrow> map_of it ''version'' = Some (AvN (show_int v)) \<and> int64 v"

text \<open>The version a process finds in a record it has read.\<close>

definition read_version :: "item \<Rightarrow> int" where
  "read_version it = gc_Version (config_of_item it)"

lemma conf_version_read: "conf_version it v \<Longrightarrow> read_version it = v"
  by (simp add: conf_version_def read_version_def config_of_item_def unmarshalDynamoDBItem_def zero_group_config_def
      get_int_def get_N_def parseInt_def scan_int_show_int)

lemma conf_version_unique: "conf_version it v \<Longrightarrow> conf_version it v' \<Longrightarrow> v' = v"
  using conf_version_read by metis

lemma conf_version_config_item [simp]: "conf_version (group_config_item c) v \<longleftrightarrow> v = gc_Version c \<and> int64 v"
  by (auto simp: conf_version_def)

lemma conf_version_moved_item [simp]: "conf_version (moved_item target prev v stamp ref it) v' \<longleftrightarrow> v' = v \<and> int64 v'"
  by (auto simp: conf_version_def moved_item_def)

lemma int64_next: "int64 v \<Longrightarrow> v < int64_max \<Longrightarrow> int64 (v + 1)"
  by (simp add: int64_def int64_min_def)

section \<open>Steps\<close>

text \<open>\<open>ms p\<close> is the manager of process \<open>p\<close>.\<close>

inductive conf_step ::
    "('p \<Rightarrow> 'w base_manager) \<Rightarrow> string \<Rightarrow> string \<Rightarrow> 'p conf_world \<Rightarrow> 'p conf_world \<Rightarrow> bool"
  for ms :: "'p \<Rightarrow> 'w base_manager" and ns n :: string where
  read: "cw_tbl s (config_key (ms p) ns n) = Some it \<Longrightarrow>
     conf_step ms ns n s (s\<lparr> cw_read := (cw_read s)(p \<mapsto> it), cw_stale := cw_stale s - {p} \<rparr>)"
| create: "cw_tbl s (config_key (ms p) ns n) = None \<Longrightarrow> int64 (gc_Version c) \<Longrightarrow>
     conf_step ms ns n s (s\<lparr> cw_tbl := (cw_tbl s)(config_key (ms p) ns n \<mapsto> group_config_item c) \<rparr>)"
| update: "cw_read s p = Some it \<Longrightarrow>
     (gc_PK c, gc_SK c) = config_key (ms p) ns n \<Longrightarrow> gc_Version c = wrap64 (read_version it + 1) \<Longrightarrow>
     config_cas (cw_tbl s) (read_version it) c = Some u \<Longrightarrow>
     conf_step ms ns n s (s\<lparr> cw_tbl := u \<rparr>)"
| transfer: "cw_read s p = Some it \<Longrightarrow>
     transfer_effect (ms p) ns n source prev target st (read_version it) ref t1 t2 t3 (cw_tbl s) = Some u \<Longrightarrow>
     conf_step ms ns n s (s\<lparr> cw_tbl := u \<rparr>)"
| other: "(\<And>p. u (config_key (ms p) ns n) = cw_tbl s (config_key (ms p) ns n)) \<Longrightarrow>
     conf_step ms ns n s (s\<lparr> cw_tbl := u \<rparr>)"

abbreviation conf_steps ::
    "('p \<Rightarrow> 'w base_manager) \<Rightarrow> string \<Rightarrow> string \<Rightarrow> 'p conf_world \<Rightarrow> 'p conf_world \<Rightarrow> bool" where
  "conf_steps ms ns n \<equiv> (conf_step ms ns n)\<^sup>*\<^sup>*"

text \<open>All the program does to the record: besides those steps, a put on whatever version (a missing record
  is created), the unconditional update, and the removal. After the last two, a process has to read
  again before what it has read counts.\<close>

inductive program_step ::
    "('p \<Rightarrow> 'w base_manager) \<Rightarrow> string \<Rightarrow> string \<Rightarrow> 'p conf_world \<Rightarrow> 'p conf_world \<Rightarrow> bool"
  for ms :: "'p \<Rightarrow> 'w base_manager" and ns n :: string where
  conf: "conf_step ms ns n s s' \<Longrightarrow> program_step ms ns n s s'"
| put: "(gc_PK c, gc_SK c) = config_key (ms p) ns n \<Longrightarrow> gc_Version c = wrap64 (v + 1) \<Longrightarrow>
     config_cas (cw_tbl s) v c = Some u \<Longrightarrow> program_step ms ns n s (s\<lparr> cw_tbl := u \<rparr>)"
| force: "update_effect (forced_transfer (ms p) ns n newOwner prev (wrap64 v) now) (cw_tbl s) = Some u \<Longrightarrow>
     program_step ms ns n s (s\<lparr> cw_tbl := u, cw_stale := UNIV \<rparr>)"
| delete: "program_step ms ns n s (s\<lparr> cw_tbl := (cw_tbl s)(config_key (ms p) ns n := None), cw_stale := UNIV \<rparr>)"

text \<open>At the start no process has read the record, which is missing or has a version. A run goes on as
  long as the version stays below the largest number.\<close>

definition conf_init :: "('p \<Rightarrow> 'w base_manager) \<Rightarrow> string \<Rightarrow> string \<Rightarrow> 'p conf_world \<Rightarrow> bool" where
  "conf_init ms ns n s \<longleftrightarrow> cw_read s = (\<lambda>p. None) \<and>
     (\<forall>p it. cw_tbl s (config_key (ms p) ns n) = Some it \<longrightarrow> (\<exists>v. conf_version it v))"

definition below_overflow :: "('p \<Rightarrow> 'w base_manager) \<Rightarrow> string \<Rightarrow> string \<Rightarrow> 'p conf_world \<Rightarrow> bool" where
  "below_overflow ms ns n s \<longleftrightarrow>
     (\<forall>p it. cw_tbl s (config_key (ms p) ns n) = Some it \<longrightarrow> read_version it < int64_max)"

inductive conf_reach :: "('p \<Rightarrow> 'w base_manager) \<Rightarrow> string \<Rightarrow> string \<Rightarrow> 'p conf_world \<Rightarrow> bool"
  for ms :: "'p \<Rightarrow> 'w base_manager" and ns n :: string where
  init: "conf_init ms ns n s \<Longrightarrow> conf_reach ms ns n s"
| step: "conf_reach ms ns n s \<Longrightarrow> below_overflow ms ns n s \<Longrightarrow> program_step ms ns n s s' \<Longrightarrow> conf_reach ms ns n s'"

text \<open>All processes are of one operator, so they use one record.\<close>

definition one_config :: "('p \<Rightarrow> 'w base_manager) \<Rightarrow> string \<Rightarrow> string \<Rightarrow> bool" where
  "one_config ms ns n \<longleftrightarrow> (\<forall>p q. config_key (ms p) ns n = config_key (ms q) ns n)"

section \<open>The invariant\<close>

text \<open>What a process has read is an older version than the stored record, or is that record.\<close>

definition read_inv :: "item option \<Rightarrow> item \<Rightarrow> bool" where
  "read_inv cur it \<longleftrightarrow> (\<exists>now v w. cur = Some now \<and> conf_version now v \<and> conf_version it w \<and> w \<le> v \<and> (w = v \<longrightarrow> it = now))"

definition conf_inv :: "('p \<Rightarrow> 'w base_manager) \<Rightarrow> string \<Rightarrow> string \<Rightarrow> 'p conf_world \<Rightarrow> bool" where
  "conf_inv ms ns n s \<longleftrightarrow>
     (\<forall>p it. cw_tbl s (config_key (ms p) ns n) = Some it \<longrightarrow> (\<exists>v. conf_version it v)) \<and>
     (\<forall>p it. p \<notin> cw_stale s \<longrightarrow> cw_read s p = Some it \<longrightarrow> read_inv (cw_tbl s (config_key (ms p) ns n)) it)"

lemma conf_inv_init: "conf_init ms ns n s \<Longrightarrow> conf_inv ms ns n s"
  by (simp add: conf_init_def conf_inv_def)

text \<open>A newer version in the place of the record keeps the invariant.\<close>

lemma read_inv_newer:
  assumes "read_inv cur it" "\<And>now v. cur = Some now \<Longrightarrow> conf_version now v \<Longrightarrow> v < v'" "conf_version new v'"
  shows "read_inv (Some new) it"
  using assms unfolding read_inv_def by (metis less_le_not_le order_le_less_trans order_less_imp_le)

lemma conf_inv_write:
  assumes inv: "conf_inv ms ns n s" and one: "one_config ms ns n"
    and u: "u (config_key (ms p) ns n) = Some new" and new: "conf_version new v'"
    and newer: "\<And>now v. cw_tbl s (config_key (ms p) ns n) = Some now \<Longrightarrow> conf_version now v \<Longrightarrow> v < v'"
  shows "conf_inv ms ns n (s\<lparr> cw_tbl := u \<rparr>)"
proof -
  define K where "K = config_key (ms p) ns n"
  have k: "config_key (ms q) ns n = K" for q
    using one unfolding one_config_def K_def by blast
  have "read_inv (Some new) it" if "q \<notin> cw_stale s" "cw_read s q = Some it" for q it
    using inv that unfolding conf_inv_def
    by (intro read_inv_newer [OF _ newer new, of _ it]) (simp_all add: k)
  with u new show ?thesis unfolding conf_inv_def by (auto simp: k)
qed

lemma version_matches_conf: "version_matches (Some it) v \<Longrightarrow> conf_version it w \<Longrightarrow> w = v"
  by (auto simp: version_matches_def conf_version_def show_int_inject)

lemma transfer_effect_config:
  assumes "transfer_effect m ns n source prev target st v ref t1 t2 t3 t = Some u"
  shows "\<exists>it. t (config_key m ns n) = Some it \<and> get_S it ''ownerCluster'' = Some source \<and>
    map_of it ''version'' = Some (AvN (show_int v)) \<and>
    u (config_key m ns n) = Some (moved_item target prev (wrap64 (v + 1)) (format_rfc3339 t1) ref it)"
  using assms by (auto simp: transfer_effect_def get_N_def split: option.splits if_splits attribute_value.splits)

text \<open>A write that is accepted on the version its process has read finds the record it has read.\<close>

lemma conf_inv_current:
  assumes "conf_inv ms ns n s" "p \<notin> cw_stale s" "cw_read s p = Some it" "cw_tbl s (config_key (ms p) ns n) = Some cur"
    "map_of cur ''version'' = Some (AvN (show_int (read_version it)))"
  shows "cur = it" "int64 (read_version it)"
proof -
  obtain v w where vw: "conf_version cur v" "conf_version it w" "w = v \<longrightarrow> it = cur"
    using assms(1-4) unfolding conf_inv_def read_inv_def by force
  moreover have "read_version it = w" by (rule conf_version_read [OF vw(2)])
  moreover have "v = read_version it" using vw(1) assms(5) by (simp add: conf_version_def show_int_inject)
  ultimately show "cur = it" "int64 (read_version it)" by (simp_all add: conf_version_def)
qed

text \<open>The next version after that of the stored record does not wrap around.\<close>

lemma conf_inv_next:
  assumes "conf_inv ms ns n s" "below_overflow ms ns n s" "cw_tbl s (config_key (ms p) ns n) = Some cur"
    "map_of cur ''version'' = Some (AvN (show_int v))"
  shows "int64 (v + 1)" "wrap64 (v + 1) = v + 1" "conf_version cur w \<Longrightarrow> w = v"
proof -
  obtain x where x: "conf_version cur x" using assms(1,3) unfolding conf_inv_def by blast
  then have v: "int64 v" "conf_version cur v" using assms(4) by (auto simp: conf_version_def show_int_inject)
  have "v < int64_max" using assms(2,3) conf_version_read [OF v(2)] unfolding below_overflow_def by blast
  from int64_next [OF v(1) this] show "int64 (v + 1)" "wrap64 (v + 1) = v + 1" by simp_all
  show "conf_version cur w \<Longrightarrow> w = v" by (rule conf_version_unique [OF v(2)])
qed

lemma conf_inv_put:
  assumes "conf_inv ms ns n s" "below_overflow ms ns n s" "one_config ms ns n"
    and "(gc_PK c, gc_SK c) = config_key (ms p) ns n" "gc_Version c = wrap64 (v + 1)" "config_cas (cw_tbl s) v c = Some u"
  shows "conf_inv ms ns n (s\<lparr> cw_tbl := u \<rparr>)"
proof (rule conf_inv_write [OF assms(1,3)])
  show "u (config_key (ms p) ns n) = Some (group_config_item c)"
    using config_cas_SomeD [OF assms(6)] assms(4) by simp
  show "conf_version (group_config_item c) (wrap64 (v + 1))" using assms(5) by simp
next
  fix cur w assume cur: "cw_tbl s (config_key (ms p) ns n) = Some cur" "conf_version cur w"
  then have "map_of cur ''version'' = Some (AvN (show_int v))"
    using config_cas_SomeD [OF assms(6)] assms(4) by (simp add: version_matches_def)
  from conf_inv_next [OF assms(1,2) cur(1) this] cur(2) show "w < wrap64 (v + 1)" by simp
qed

lemma conf_inv_conf_step:
  assumes "conf_step ms ns n s s'" "conf_inv ms ns n s" "below_overflow ms ns n s" "one_config ms ns n"
  shows "conf_inv ms ns n s'"
  using assms
proof (induction rule: conf_step.induct)
  case (read s p it)
  then obtain v where "conf_version it v" unfolding conf_inv_def by blast
  then have "read_inv (Some it) it" unfolding read_inv_def by blast
  moreover have "cw_tbl s (config_key (ms q) ns n) = Some it" for q
    using read(1,4) unfolding one_config_def by metis
  ultimately have "read_inv (cw_tbl s (config_key (ms q) ns n)) it" for q by simp
  with read(2) show ?case unfolding conf_inv_def by simp
next
  case (create s p c)
  then show ?case by (intro conf_inv_write [where p = p and new = "group_config_item c" and v' = "gc_Version c"]) auto
next
  case (update s p it c u)
  then show ?case by (intro conf_inv_put)
next
  case (transfer s p it source prev target st ref t1 t2 t3 u)
  obtain cur where cur: "cw_tbl s (config_key (ms p) ns n) = Some cur"
      "map_of cur ''version'' = Some (AvN (show_int (read_version it)))"
      "u (config_key (ms p) ns n) = Some (moved_item target prev (wrap64 (read_version it + 1)) (format_rfc3339 t1) ref cur)"
    using transfer_effect_config [OF transfer(2)] by blast
  with transfer(3,5) conf_inv_next [OF transfer(3,4) cur(1,2)] show ?case
    by (intro conf_inv_write [where p = p and v' = "read_version it + 1"]) auto
qed (simp_all add: conf_inv_def)

text \<open>The unconditional update leaves a record with a version, whatever was there.\<close>

lemma forced_transfer_version:
  assumes "update_effect (forced_transfer m ns n newOwner prev (wrap64 v) now) t = Some u"
  shows "\<exists>new. u (config_key m ns n) = Some new \<and> conf_version new (wrap64 v)"
    "k \<noteq> config_key m ns n \<Longrightarrow> u k = t k"
  using assms
  by (auto simp: update_effect_def forced_transfer_def config_key_def conf_version_def resolve_path_def
      resolve_name_def is_placeholder_def split: option.splits if_splits)

lemma conf_inv_step:
  assumes "program_step ms ns n s s'" "conf_inv ms ns n s" "below_overflow ms ns n s" "one_config ms ns n"
  shows "conf_inv ms ns n s'"
  using assms
proof (induction rule: program_step.induct)
  case (conf s s')
  then show ?case by (rule conf_inv_conf_step)
next
  case (put c p v s u)
  then show ?case by (intro conf_inv_put)
next
  case (force p newOwner prev v now s u)
  define K where "K = config_key (ms p) ns n"
  have k: "config_key (ms q) ns n = K" for q
    using force(4) unfolding one_config_def K_def by blast
  obtain new where "u K = Some new" "conf_version new (wrap64 v)"
    using forced_transfer_version(1) [OF force(1)] unfolding K_def by blast
  then show ?case unfolding conf_inv_def by (auto simp: k)
next
  case (delete s p)
  have "config_key (ms q) ns n = config_key (ms p) ns n" for q
    using delete(3) unfolding one_config_def by blast
  then show ?case unfolding conf_inv_def by simp
qed

lemma conf_inv_reach: "conf_reach ms ns n s \<Longrightarrow> one_config ms ns n \<Longrightarrow> conf_inv ms ns n s"
  by (induction rule: conf_reach.induct) (auto intro: conf_inv_init conf_inv_step)

section \<open>The operations are such steps\<close>

text \<open>What a process can make of the table by steps.\<close>

definition conf_runs ::
    "('p \<Rightarrow> 'w base_manager) \<Rightarrow> string \<Rightarrow> string \<Rightarrow> dynamo_table \<Rightarrow> dynamo_table \<Rightarrow> bool" where
  "conf_runs ms ns n t u \<longleftrightarrow> (\<forall>s. cw_tbl s = t \<longrightarrow> (\<exists>s'. conf_steps ms ns n s s' \<and> cw_tbl s' = u))"

lemma conf_runs_refl: "conf_runs ms ns n t t"
  unfolding conf_runs_def by blast

lemma conf_runs_trans: "conf_runs ms ns n t u \<Longrightarrow> conf_runs ms ns n u v \<Longrightarrow> conf_runs ms ns n t v"
  unfolding conf_runs_def by (blast intro: rtranclp_trans)

lemma conf_runs_step:
  assumes "\<And>s. cw_tbl s = t \<Longrightarrow> conf_step ms ns n s (s\<lparr> cw_tbl := u \<rparr>)"
  shows "conf_runs ms ns n t u"
  unfolding conf_runs_def using assms by (metis conf_world.select_convs(1) conf_world.surjective conf_world.update_convs(1) r_into_rtranclp)

lemma conf_runs_other:
  "(\<And>p. u (config_key (ms p) ns n) = t (config_key (ms p) ns n)) \<Longrightarrow> conf_runs ms ns n t u"
  by (rule conf_runs_step, rule conf_step.other) auto

lemma conf_runs_create:
  "t (config_key (ms p) ns n) = None \<Longrightarrow> int64 (gc_Version c) \<Longrightarrow>
   conf_runs ms ns n t (t(config_key (ms p) ns n \<mapsto> group_config_item c))"
  by (rule conf_runs_step) (use conf_step.create [where ms = ms and p = p] in auto)

text \<open>A record is read and then written by a conditional transfer or put.\<close>

lemma conf_runs_read_write:
  fixes ms :: "'p \<Rightarrow> 'w base_manager"
  assumes "t (config_key (ms p) ns n) = Some it"
    "\<And>s. cw_tbl s = t \<Longrightarrow> cw_read s p = Some it \<Longrightarrow> conf_step ms ns n s (s\<lparr> cw_tbl := u \<rparr>)"
  shows "conf_runs ms ns n t u"
  unfolding conf_runs_def
proof (intro allI impI)
  fix s :: "'p conf_world"
  assume s: "cw_tbl s = t"
  define r where "r = s\<lparr> cw_read := (cw_read s)(p \<mapsto> it), cw_stale := cw_stale s - {p} \<rparr>"
  have "conf_step ms ns n s r" unfolding r_def by (rule conf_step.read) (simp add: s assms(1))
  moreover have "conf_step ms ns n r (r\<lparr> cw_tbl := u \<rparr>)" by (rule assms(2)) (simp_all add: r_def s)
  ultimately have "conf_steps ms ns n s (r\<lparr> cw_tbl := u \<rparr>)" by (meson converse_rtranclp_into_rtranclp r_into_rtranclp)
  then show "\<exists>s'. conf_steps ms ns n s s' \<and> cw_tbl s' = u" by force
qed

lemma conf_runs_transfer:
  assumes "t (config_key (ms p) ns n) = Some it"
    "transfer_effect (ms p) ns n source prev target st (read_version it) ref t1 t2 t3 t = Some u"
  shows "conf_runs ms ns n t u"
  using assms by (intro conf_runs_read_write [where p = p and it = it] conf_step.transfer) auto

lemma conf_runs_update:
  assumes "t (config_key (ms p) ns n) = Some it" "(gc_PK c, gc_SK c) = config_key (ms p) ns n"
    "gc_Version c = wrap64 (read_version it + 1)" "config_cas t (read_version it) c = Some u"
  shows "conf_runs ms ns n t u"
  using assms by (intro conf_runs_read_write [where p = p and it = it] conf_step.update) auto

lemma conf_runs_before:
  assumes "one_config ms ns n" "before (ms p) ns n t u"
  shows "conf_runs ms ns n t u"
proof -
  define K where "K = config_key (ms p) ns n"
  have k: "config_key (ms q) ns n = K" for q using assms(1) unfolding one_config_def K_def by blast
  show ?thesis
  proof (cases "u K = t K")
    case True
    then show ?thesis by (intro conf_runs_other) (simp add: k)
  next
    case False
    then obtain now where c: "t K = None" "u K = Some (group_config_item (created_config (ms p) ns n now))"
      using assms(2) unfolding before_def K_def by blast
    have "conf_runs ms ns n t (t(K \<mapsto> group_config_item (created_config (ms p) ns n now)))"
      unfolding K_def by (rule conf_runs_create)
        (use c(1) in \<open>simp_all add: K_def created_config_def int64_def int64_min_def int64_max_def\<close>)
    then show ?thesis by (rule conf_runs_trans) (rule conf_runs_other, simp add: k c(2))
  qed
qed

section \<open>What the whole program can do\<close>

definition program_runs ::
    "('p \<Rightarrow> 'w base_manager) \<Rightarrow> string \<Rightarrow> string \<Rightarrow> dynamo_table \<Rightarrow> dynamo_table \<Rightarrow> bool" where
  "program_runs ms ns n t u \<longleftrightarrow> (\<forall>s. cw_tbl s = t \<longrightarrow> (\<exists>s'. (program_step ms ns n)\<^sup>*\<^sup>* s s' \<and> cw_tbl s' = u))"

lemma program_runs_refl: "program_runs ms ns n t t"
  unfolding program_runs_def by blast

lemma program_runs_trans: "program_runs ms ns n t u \<Longrightarrow> program_runs ms ns n u v \<Longrightarrow> program_runs ms ns n t v"
  unfolding program_runs_def by (blast intro: rtranclp_trans)

lemma conf_runs_program: "conf_runs ms ns n t u \<Longrightarrow> program_runs ms ns n t u"
  unfolding conf_runs_def program_runs_def
  using rtranclp_mono [of "conf_step ms ns n" "program_step ms ns n"] program_step.conf [of ms ns n] by blast

lemma program_runs_step:
  assumes "\<And>s. cw_tbl s = t \<Longrightarrow> \<exists>s'. program_step ms ns n s s' \<and> cw_tbl s' = u"
  shows "program_runs ms ns n t u"
  unfolding program_runs_def using assms r_into_rtranclp [of "program_step ms ns n"] by blast

lemma program_runs_put:
  assumes "(gc_PK c, gc_SK c) = config_key (ms p) ns n" "gc_Version c = wrap64 (v + 1)" "config_cas t v c = Some u"
  shows "program_runs ms ns n t u"
  by (rule program_runs_step, rule exI, rule conjI, rule program_step.put) (use assms in simp_all)

lemma program_runs_force:
  assumes "update_effect (forced_transfer (ms p) ns n newOwner prev (wrap64 v) now) t = Some u"
  shows "program_runs ms ns n t u"
  by (rule program_runs_step, rule exI, rule conjI, rule program_step.force) (use assms in simp_all)

lemma program_runs_delete: "program_runs ms ns n t (t(config_key (ms p) ns n := None))"
  by (rule program_runs_step, rule exI, rule conjI, rule program_step.delete) simp

end
