(* ===== verification/Primary_Properties.thy ===== *)
theory Primary_Properties
  imports Operations_Properties Manager_Facts Volume_Properties
begin

text \<open>
  The clusters that say they are primary. Failover, failback and the synchronisation of a cluster's
  state leave no other primary than the owner; the first heartbeat of a cluster makes another one.
\<close>

text \<open>No cluster but the owner has a status record with state PRIMARY.\<close>

definition sole_primary :: "'w base_manager \<Rightarrow> string \<Rightarrow> string \<Rightarrow> dynamo_table \<Rightarrow> bool" where
  "sole_primary m ns n t \<longleftrightarrow>
     (\<forall>c. item_S t (cluster_key m ns n c) ''state'' = Some StatePrimary \<longrightarrow> c = owner_of m ns n t)"

lemma cluster_key_no_history [simp]: "\<not> prefix ''HISTORY#'' (snd (cluster_key m ns n c))"
  by (simp add: cluster_key_def getClusterSK_def)

lemma before_cluster: "before m ns n t u \<Longrightarrow> u (cluster_key m ns n c) = t (cluster_key m ns n c)"
  by (simp add: before_def del: split_paired_All)

lemma sole_primary_before: "before m ns n t u \<Longrightarrow> sole_primary m ns n t \<Longrightarrow> sole_primary m ns n u"
  unfolding sole_primary_def by (simp add: owner_of_before item_S_def before_cluster)

lemma sole_primary_moved:
  assumes "moved m ns n st source prev target t u" "source = owner_of m ns n t" "st \<noteq> StatePrimary"
    "sole_primary m ns n t"
  shows "sole_primary m ns n u"
  unfolding sole_primary_def
proof (intro allI impI)
  fix c
  assume c: "item_S u (cluster_key m ns n c) ''state'' = Some StatePrimary"
  have "c \<noteq> source" using assms(1,3) c by (auto simp: moved_def)
  show "c = owner_of m ns n u"
  proof (rule ccontr)
    assume "c \<noteq> owner_of m ns n u"
    then have "u (cluster_key m ns n c) = t (cluster_key m ns n c)"
      using assms(1) \<open>c \<noteq> source\<close> by (simp add: moved_def del: split_paired_All)
    then show False using c assms(2,4) \<open>c \<noteq> source\<close> by (simp add: sole_primary_def item_S_def)
  qed
qed

lemma sole_primary_transfer:
  "transfer_step m ns n st (owner_of m ns n t) prev target t u r \<Longrightarrow> st \<noteq> StatePrimary \<Longrightarrow>
   sole_primary m ns n t \<Longrightarrow> sole_primary m ns n u"
  unfolding transfer_step_def by (auto intro: sole_primary_before sole_primary_moved)

lemma other_states: "StateFailover \<noteq> StatePrimary" "StateFailback \<noteq> StatePrimary" "StateStandby \<noteq> StatePrimary"
  by (simp_all add: StateFailover_def StateFailback_def StateStandby_def StatePrimary_def)

lemma get_state_status_item [simp]: "get_S (cluster_status_item m ns n c h st j now) ''state'' = Some st"
  by (simp add: cluster_status_item_def get_S_def)

lemma sole_primary_status:
  assumes "sole_primary m ns n t" "st = StatePrimary \<longrightarrow> c = owner_of m ns n t"
  shows "sole_primary m ns n (t(cluster_key m ns n c \<mapsto> cluster_status_item m ns n c h st j now))"
  using assms unfolding sole_primary_def
  by (auto simp: item_S_def owner_of_def)

context manager_store
begin

lemma wp_UpdateClusterStatus:
  assumes "\<And>r w'. r \<noteq> Panic \<Longrightarrow> tbl w' = tbl w \<or> (\<exists>now. tbl w' =
      (tbl w)(cluster_key m ns n c \<mapsto> cluster_status_item m ns n c h st j now)) \<Longrightarrow> Q r w'"
  shows "wp (UpdateClusterStatus rt m ns n c h st j) Q w"
  unfolding UpdateClusterStatus_def wp_simps
proof (rule wp_now, rule wp_put, goal_cases)
  case (2 now w1 w2)
  then have "tbl w2 = (tbl w)(cluster_key m ns n c \<mapsto> cluster_status_item m ns n c h st j now)"
    by (simp add: put_effect_def condition_holds_def)
  then show ?case unfolding outcome.case wp_simps by (intro assms disjI2 exI) simp_all
next
  case (3 now w1 w2 e)
  then have "tbl w2 = tbl w \<or> tbl w2 = (tbl w)(cluster_key m ns n c \<mapsto> cluster_status_item m ns n c h st j now)"
    by (auto simp: put_effect_def condition_holds_def)
  then have "Q (Err e') w2" for e' by (intro assms) auto
  then show ?case by (simp add: wp_simps)
qed simp

lemma wp_SyncClusterState:
  assumes "sole_primary m ns n (tbl w)"
  shows "wp (SyncClusterState rt m ns n) (\<lambda>r w'. sole_primary m ns n (tbl w')) w"
  unfolding SyncClusterState_def wp_simps
proof (rule wp_read_config, goal_cases)
  case (1 it x w1)
  have s1: "sole_primary m ns n (tbl w1)" by (rule sole_primary_before [OF 1(2) assms])
  have o1: "owner_of m ns n (tbl w1) = gc_OwnerCluster ((config_of_item it)\<lparr> gc_LastUpdated := x \<rparr>)"
    using 1(4) by (simp add: owner_of_def config_of_item_owner)
  show ?case
    unfolding outcome.case Let_def wp_simps o1 [symmetric]
  proof (rule wp_UpdateClusterStatus, goal_cases)
    case (1 r w2)
    have s2: "sole_primary m ns n (tbl w2)"
      using 1(2) s1 sole_primary_status [OF s1]
      by (auto simp: StateStandby_def StatePrimary_def split: if_splits)
    have "wp (GetAllClusterStatuses rt m ns n) (\<lambda>r' w'. tbl w' = tbl w2) w2"
      using unchanged_GetAllClusterStatuses by (auto simp: keeps_def wp_def split: prod.split)
    then have "wp (GetAllClusterStatuses rt m ns n) (\<lambda>r' w'. sole_primary m ns n (tbl w')) w2"
      by (rule wp_mono) (simp add: s2)
    with s2 show ?case by (cases r) (simp_all add: wp_simps)
  qed
next
  case (2 e w1)
  show ?case by (simp add: sole_primary_before [OF 2(2) assms])
qed

lemma sole_primary_contract:
  assumes "sole_primary m ns n (tbl w)"
    "op \<in> {ExecuteFailover rt m ns n name target reason force, ExecuteFailback rt m ns n reason, SyncClusterState rt m ns n}"
  shows "wp op (\<lambda>r w'. sole_primary m ns n (tbl w')) w"
proof -
  have "wp (ExecuteFailover rt m ns n name target reason force) (\<lambda>r w'. sole_primary m ns n (tbl w')) w"
    by (rule wp_mono [OF failover_contract]) (use assms(1) in \<open>auto simp: other_states intro: sole_primary_transfer\<close>)
  moreover have "wp (ExecuteFailback rt m ns n reason) (\<lambda>r w'. sole_primary m ns n (tbl w')) w"
    by (rule wp_mono [OF failback_contract]) (use assms(1) in \<open>auto simp: other_states intro: sole_primary_transfer\<close>)
  ultimately show ?thesis using assms(2) wp_SyncClusterState [OF assms(1)] by auto
qed

end

text \<open>C5: Two primaries are never made by a failover, a failback or the synchronisation of a cluster's
  state: if no cluster but the owner has the state PRIMARY, this is so afterwards, too, whatever the
  operation reports.\<close>

theorem sole_primary_kept:
  assumes "manager_store m rt Z tbl clk" "sole_primary m ns n (tbl w)"
    and "op \<in> {ExecuteFailover rt m ns n name target reason force, ExecuteFailback rt m ns n reason, SyncClusterState rt m ns n}"
    and "run_state op w = (r, w')"
  shows "sole_primary m ns n (tbl w')"
  by (rule wpD [OF assms(4) manager_store.sole_primary_contract [OF assms(1-3)]])

lemma mem_demo_sole: "sole_primary (mem_manager strict c) ''ns'' ''g'' (mem_tbl mem_demo)"
proof -
  have "item_S (mem_tbl mem_demo) (''GROUP#op#ns#g'', ''CLUSTER#'' @ d) ''state'' = Some StatePrimary \<Longrightarrow> d = ''east''" for d
    by (auto simp: mem_demo_def mem_tbl_with item_S_def demo_status_def other_states get_S_def [of "[]"] the_item_def
        split: if_splits)
  then show ?thesis by (simp add: sole_primary_def)
qed

theorem sole_primary_kept_witness:
  "sole_primary (mem_manager False ''west'') ''ns'' ''g'' (mem_tbl (snd (run_state (ExecuteFailover mem_runtime
     (mem_manager False ''west'') ''ns'' ''g'' ''f1'' ''west'' ''why'' False) mem_demo)))"
proof -
  obtain r w' where r: "run_state (ExecuteFailover mem_runtime (mem_manager False ''west'') ''ns'' ''g'' ''f1'' ''west''
      ''why'' False) mem_demo = (r, w')" by (metis surj_pair)
  show ?thesis
    using sole_primary_kept [OF mem_manager_store mem_demo_sole insertI1 r] by (simp add: r)
qed

text \<open>C16: The heartbeat of a cluster that has no status record yet makes one with state PRIMARY,
  whoever owns the group: with the owner there are two primaries then.\<close>

theorem heartbeat_makes_second_primary:
  assumes "manager_reliable m rt Z tbl clk" "ns \<noteq> ''''" "n \<noteq> ''''" "c \<noteq> ''''"
    and "tbl w (cluster_key m ns n c) = None" "c \<noteq> owner_of m ns n (tbl w)"
    and "run_state (UpdateHeartbeat json_map rt m ns n c) w = (r, w')"
  shows "r = Ok () \<and> item_S (tbl w') (cluster_key m ns n c) ''state'' = Some StatePrimary \<and>
    owner_of m ns n (tbl w') = owner_of m ns n (tbl w) \<and>
    item_S (tbl w') (cluster_key m ns n (owner_of m ns n (tbl w))) ''state'' =
      item_S (tbl w) (cluster_key m ns n (owner_of m ns n (tbl w))) ''state'' \<and>
    \<not> sole_primary m ns n (tbl w')"
proof -
  have "wp (UpdateHeartbeat json_map rt m ns n c) (\<lambda>r w'. r = Ok () \<and> (\<exists>j now.
      tbl w' = (tbl w)(cluster_key m ns n c \<mapsto> cluster_status_item m ns n c HealthOK StatePrimary j now))) w"
    by (rule manager_reliable.wp_UpdateHeartbeat_ok [where c' = c, OF assms(1-3)]) (use assms(4,5) in auto)
  from wpD [OF assms(7) this] obtain j now where "r = Ok ()"
    "tbl w' = (tbl w)(cluster_key m ns n c \<mapsto> cluster_status_item m ns n c HealthOK StatePrimary j now)" by blast
  moreover from this have "owner_of m ns n (tbl w') = owner_of m ns n (tbl w)" by (simp add: owner_of_def)
  ultimately show ?thesis using assms(6) by (auto simp: sole_primary_def item_S_def)
qed

theorem heartbeat_makes_second_primary_witness:
  "\<exists>w'. run_state (UpdateHeartbeat (\<lambda>s. Some (Some [])) mem_runtime (mem_manager False ''north'') ''ns'' ''g''
       ''north'') mem_demo = (Ok (), w') \<and>
     item_S (mem_tbl w') (''GROUP#op#ns#g'', ''CLUSTER#north'') ''state'' = Some StatePrimary \<and>
     item_S (mem_tbl w') (''GROUP#op#ns#g'', ''CLUSTER#east'') ''state'' = Some StatePrimary"
proof -
  obtain r w' where r: "run_state (UpdateHeartbeat (\<lambda>s. Some (Some [])) mem_runtime (mem_manager False ''north'')
      ''ns'' ''g'' ''north'') mem_demo = (r, w')" by (metis surj_pair)
  have none: "mem_tbl mem_demo (''GROUP#op#ns#g'', ''CLUSTER#north'') = None"
    by (simp add: mem_demo_def mem_tbl_with)
  have st: "item_S (mem_tbl mem_demo) (''GROUP#op#ns#g'', ''CLUSTER#east'') ''state'' = Some StatePrimary"
    by (simp add: item_S_def demo_status_def)
  show ?thesis
    using heartbeat_makes_second_primary [OF mem_mgr.manager_reliable_axioms _ _ _ _ _ r] r none st by simp
qed

end
