(* ===== verification/Config_Steps.thy ===== *)
theory Config_Steps
  imports Config_Protocol Primary_Properties
begin

text \<open>
  The operations of a manager as runs of the configuration protocol: whatever they report, what they do
  to the table is what some steps of their process do. Operations that only read, and writes to other
  items, are such runs; so are the transactions of failover and failback, and the rewrites of a record
  that was read; control flow composes runs. UpdateSuspension, UpdateGroupState, TransferOwnership,
  DeleteGroupConfig and UpdateGroupConfig with any record are runs of the whole program's steps.
\<close>

locale config_user = manager_store m rt Z tbl clk
  for m :: "'w base_manager" and rt :: "'w go_runtime" and Z :: int
    and tbl :: "'w \<Rightarrow> dynamo_table" and clk :: "'w \<Rightarrow> go_time" +
  fixes ms :: "'p \<Rightarrow> 'w base_manager" and p :: 'p and ns n :: string
  assumes one: "one_config ms ns n" and mine: "ms p = m"

context config_user
begin

abbreviation runs :: "'w \<Rightarrow> 'w \<Rightarrow> bool" where
  "runs w w' \<equiv> conf_runs ms ns n (tbl w) (tbl w')"

lemma runs_rules: "keep_rules runs"
  by unfold_locales (auto intro: conf_runs_refl conf_runs_trans)

lemmas runs_flow = keep_rules.keep_flow [OF runs_rules]

lemma config_keys: "config_key (ms q) ns n = config_key m ns n"
  using one mine unfolding one_config_def by metis

lemma runs_elsewhere: "tbl w' (config_key m ns n) = tbl w (config_key m ns n) \<Longrightarrow> runs w w'"
  by (rule conf_runs_other) (simp add: config_keys)

lemma runs_before: "before m ns n (tbl w) (tbl w') \<Longrightarrow> runs w w'"
  using conf_runs_before [OF one, of p] by (simp add: mine)

lemma runs_unchanged: "keeps (\<lambda>w w'. tbl w' = tbl w) x \<Longrightarrow> keeps runs x"
  unfolding keeps_def by (metis runs_elsewhere)

lemma runs_now: "keeps runs (time_now rt)" "keeps runs (uuid_new rt)"
  by (auto simp: keeps_def intro!: runs_elsewhere dest: now_law uuid_law)

section \<open>Reads and writes of other items\<close>

lemma runs_reads:
  "keeps runs (GetGroupConfig rt m ns n)" "keeps runs (ValidateFailoverPreconditions rt m ns n c skip)"
  "keeps runs (GetClusterStatus rt m ns n c)" "keeps runs (GetAllClusterStatuses rt m ns n)"
proof -
  show "keeps runs (GetGroupConfig rt m ns n)"
    by (rule wp_keeps, rule wp_read_config) (auto intro: runs_before)
  show "keeps runs (ValidateFailoverPreconditions rt m ns n c skip)"
    by (rule wp_keeps, rule wp_ValidateFailoverPreconditions) (rule runs_before)
  show "keeps runs (GetClusterStatus rt m ns n c)"
    by (rule wp_keeps, rule wp_GetClusterStatus) (simp add: runs_elsewhere)
  show "keeps runs (GetAllClusterStatuses rt m ns n)"
    by (rule runs_unchanged [OF unchanged_GetAllClusterStatuses])
qed

lemma runs_writes:
  "keeps runs (AcquireLock rt m ns n reason)" "keeps runs (ReleaseLock m ns n token)"
  "keeps runs (UpdateClusterStatus rt m ns n c h st j)"
proof -
  have lock: "runs w w'" if "lock_taken m ns n reason now token (tbl w) = Some (tbl w')" for now token w w'
    by (rule runs_elsewhere) (simp add: lock_taken_other [OF that])
  show "keeps runs (AcquireLock rt m ns n reason)"
    by (rule wp_keeps, rule wp_AcquireLock) (auto intro: lock runs_elsewhere)
  show "keeps runs (ReleaseLock m ns n token)"
    by (rule wp_keeps, rule wp_ReleaseLock, rule runs_elsewhere, rule atomic_write_lock_frame) auto
  show "keeps runs (UpdateClusterStatus rt m ns n c h st j)"
    by (rule wp_keeps, rule wp_UpdateClusterStatus) (auto intro: runs_elsewhere)
qed

section \<open>Writes of the configuration\<close>

lemma wp_transfer_runs:
  assumes "tbl w (config_key m ns n) = Some it"
    "update_effect cu (tbl w) = config_moved m ns n source prev target (read_version it) ref tc (tbl w)"
    "ui_TableName cu = bm_tableName m" "ui_Key cu = key_item (getGroupPK m ns n) ''CONFIG''"
    "(q, a) \<in> {('':failoverState'', StateFailover), ('':failbackState'', StateFailback)}"
    "\<And>r w'. r \<noteq> Panic \<Longrightarrow> runs w w' \<Longrightarrow> Q r w'"
  shows "wp (TransactWriteItems (bm_client m)
     [cu, status_update m ns n source q a t2, status_update m ns n target '':primaryState'' StatePrimary t3]) Q w"
proof (cases "source = target")
  case True
  then show ?thesis
    by (intro wp_transact_duplicate assms(6) runs_elsewhere) (auto simp: transact_keys_def status_update_def)
next
  case False
  note eff = transact_effect_transfer [OF stored_tbl False assms(2,5)]
  have run: "runs w w'" if "transact_effect [cu, status_update m ns n source q a t2,
      status_update m ns n target '':primaryState'' StatePrimary t3] (tbl w) = Some (tbl w')" for w'
    using that conf_runs_transfer [where ms = ms and p = p and t = "tbl w" and ns = ns and n = n, unfolded mine, OF assms(1)] unfolding eff by blast
  show ?thesis
  proof (rule wp_transact, goal_cases)
    case 1
    show ?case using assms(3) by (simp add: status_update_def)
  next
    case 2
    show ?case using False assms(4) by (auto simp: transact_keys_def status_update_def)
  next
    case (3 w')
    from run [OF 3(2)] show ?case by (intro assms(6)) simp_all
  next
    case (4 w' e)
    then have "runs w w'" using run runs_elsewhere by metis
    then show ?case by (intro assms(6)) simp_all
  qed
qed

lemma config_update_sel:
  "ui_TableName (failover_config_update m ns n c source target name start t1) = bm_tableName m"
  "ui_Key (failover_config_update m ns n c source target name start t1) = key_item (getGroupPK m ns n) ''CONFIG''"
  "ui_TableName (failback_config_update m ns n c source target name start t1) = bm_tableName m"
  "ui_Key (failback_config_update m ns n c source target name start t1) = key_item (getGroupPK m ns n) ''CONFIG''"
  by (simp_all add: failover_config_update_def failback_config_update_def)

text \<open>An operation that goes on with a record it has read.\<close>

lemma runs_read_then:
  assumes "\<And>w it x. tbl w (config_key m ns n) = Some it \<Longrightarrow>
      wp (k ((config_of_item it)\<lparr> gc_LastUpdated := x \<rparr>)) (\<lambda>r w'. runs w w') w" "\<And>e. keeps runs (h e)"
  shows "keeps runs (try_or (GetGroupConfig rt m ns n) h k)"
proof (rule wp_keeps, unfold wp_try_or, rule wp_read_config, unfold outcome.case, goal_cases)
  case (1 w it x w1)
  show ?case
    by (rule wp_mono [OF assms(1) [OF 1(4)]]) (rule conf_runs_trans [OF runs_before [OF 1(2)]])
next
  case (2 w e w1)
  show ?case
    by (rule wp_mono [OF keeps_wp [OF assms(2)]]) (rule conf_runs_trans [OF runs_before [OF 2(2)]])
qed

lemma runs_transactions:
  "keeps runs (executeFailoverTransaction rt m ns n source target reason name start)"
  "keeps runs (executeFailbackTransaction rt m ns n source target reason name start)"
  unfolding executeFailoverTransaction_def executeFailbackTransaction_def check_def
proof (rule_tac [!] runs_read_then, unfold wp_simps, goal_cases)
  case (1 w it x)
  show ?case
  proof (rule wp_now, rule wp_now, rule wp_now, goal_cases)
    case (1 t1 w1 t2 w2 t3 w3)
    then have "tbl w3 = tbl w" by simp
    with \<open>tbl w (config_key m ns n) = Some it\<close> show ?case
      by (intro wp_transfer_runs [where it = it and prev = source and tc = t1 and ref = "failover_ref name ns start"])
        (auto simp: wp_simps read_version_def config_update_sel update_effect_failover_config [OF stored_tbl]
          split: outcome.splits)
  qed
next
  case (3 w it x)
  show ?case
  proof (rule wp_now, rule wp_now, rule wp_now, goal_cases)
    case (1 t1 w1 t2 w2 t3 w3)
    then have "tbl w3 = tbl w" by simp
    with \<open>tbl w (config_key m ns n) = Some it\<close> show ?case
      by (intro wp_transfer_runs [where it = it and prev = "''''" and tc = t1 and ref = "failover_ref name ns start"])
        (auto simp: wp_simps read_version_def config_update_sel update_effect_failback_config [OF stored_tbl]
          split: outcome.splits)
  qed
qed (simp_all add: keep_rules.keep_return [OF runs_rules])

text \<open>A record that was read is written again, with other fields but its key and version.\<close>

lemma wp_rewrite_runs:
  assumes "tbl w (config_key m ns n) = Some it" "gc_PK c = gc_PK (config_of_item it)" "gc_SK c = gc_SK (config_of_item it)"
    "gc_Version c = gc_Version (config_of_item it)" "\<And>r w'. r \<noteq> Panic \<Longrightarrow> runs w w' \<Longrightarrow> Q (r, stamped c (clk w')) w'"
  shows "wp (UpdateGroupConfig rt m c) Q w"
proof (rule wp_UpdateGroupConfig, goal_cases)
  case (1 r w')
  have key: "(gc_PK (stamped c (clk w')), gc_SK (stamped c (clk w'))) = config_key m ns n"
    using config_key_of_item [OF stored_tbl assms(1)] assms(2,3) by (simp add: stamped_def)
  have "runs w w'" if "config_cas (tbl w) (gc_Version c) (stamped c (clk w')) = Some (tbl w')"
    by (rule conf_runs_update [where ms = ms and p = p and t = "tbl w" and ns = ns and n = n, unfolded mine, OF assms(1) key])
      (use that assms(4) in \<open>simp_all add: stamped_def read_version_def\<close>)
  with 1(3) show ?case
    by (intro assms(5)) (auto simp: atomic_write_def runs_elsewhere split: outcome.splits)
qed

lemma runs_rewrites:
  "keeps runs (recordFailoverEvent rt m ns n name src tgt reason s e st down dur)"
  "keeps runs (RemoveVolumeState rt m ns n)"
proof -
  have other: "item_key_of (history_item m ns n name src tgt reason s e st down dur) \<noteq> Some (config_key m ns n)"
    by (simp add: history_item_def item_key_of_def config_key_def getHistorySK_def)
  have put: "keeps runs (PutItem (bm_client m)
      \<lparr> pi_TableName = bm_tableName m, pi_Item = history_item m ns n name src tgt reason s e st down dur,
        pi_Condition = None, pi_Names = [], pi_Values = [] \<rparr>)"
  proof (rule wp_keeps, rule wp_put, goal_cases)
    case (2 w w')
    then show ?case by (intro runs_elsewhere put_effect_other) (auto simp: other)
  next
    case (3 w w' e)
    then show ?case by (intro runs_elsewhere) (auto simp: other intro: put_effect_other)
  qed simp
  show "keeps runs (recordFailoverEvent rt m ns n name src tgt reason s e st down dur)"
    unfolding recordFailoverEvent_def
  proof (rule keep_rules.keep_check [OF runs_rules put], rule runs_read_then, goal_cases)
    case (1 x w it y)
    show ?case
      unfolding wp_simps by (rule wp_rewrite_runs [OF 1]) (auto simp: wp_simps split: outcome.splits)
  qed (rule keep_rules.keep_return [OF runs_rules])
  show "keeps runs (RemoveVolumeState rt m ns n)"
    unfolding RemoveVolumeState_def check_def
  proof (rule runs_read_then, goal_cases)
    case (1 w it x)
    show ?case
      unfolding wp_simps by (rule wp_rewrite_runs [OF 1]) (auto simp: wp_simps)
  qed (rule keep_rules.keep_return [OF runs_rules])
qed

section \<open>The whole operations\<close>

lemma runs_cases:
  "keeps runs x \<Longrightarrow> keeps runs y \<Longrightarrow> keeps runs (if b then x else y)"
  "keeps runs x \<Longrightarrow> (\<And>v. keeps runs (f v)) \<Longrightarrow> keeps runs (case opt of None \<Rightarrow> x | Some v \<Rightarrow> f v)"
  "(\<And>v. keeps runs (g v)) \<Longrightarrow> (\<And>e. keeps runs (h e)) \<Longrightarrow> keeps runs z \<Longrightarrow>
   keeps runs (case r of Ok v \<Rightarrow> g v | Err e \<Rightarrow> h e | Panic \<Rightarrow> z)"
  by (cases b, simp_all, cases opt, simp_all, cases r, simp_all)

lemma runs_operations:
  "keeps runs (ExecuteFailover rt m ns n name target reason force)"
  "keeps runs (ExecuteFailback rt m ns n reason)"
  "keeps runs (SyncClusterState rt m ns n)"
  "keeps runs (UpdateHeartbeat json_map rt m ns n c)"
  unfolding ExecuteFailover_def ExecuteFailback_def SyncClusterState_def UpdateHeartbeat_def Let_def
  by (intro runs_flow runs_cases runs_reads runs_writes runs_now runs_transactions runs_rewrites)+

section \<open>The writes that do not check what was read\<close>

abbreviation progs :: "'w \<Rightarrow> 'w \<Rightarrow> bool" where
  "progs w w' \<equiv> program_runs ms ns n (tbl w) (tbl w')"

lemma progs_rules: "keep_rules progs"
  by unfold_locales (auto intro: program_runs_refl program_runs_trans)

lemmas progs_flow = keep_rules.keep_flow [OF progs_rules]

lemma runs_progs: "keeps runs x \<Longrightarrow> keeps progs x"
  unfolding keeps_def by (metis conf_runs_program)

lemma progs_UpdateGroupConfig: "keeps progs (UpdateGroupConfig rt m c)"
proof (rule wp_keeps, rule wp_UpdateGroupConfig, goal_cases)
  case (1 w r w')
  have "progs w w'" if u: "config_cas (tbl w) (gc_Version c) (stamped c (clk w')) = Some (tbl w')"
  proof (cases "(gc_PK c, gc_SK c) = config_key m ns n")
    case True
    then show ?thesis
      by (intro program_runs_put [where ms = ms and p = p and ns = ns and n = n, unfolded mine, OF _ _ u]) (simp_all add: stamped_def)
  next
    case False
    then have "tbl w' (config_key m ns n) = tbl w (config_key m ns n)"
      using config_cas_SomeD [OF u] by (simp add: stamped_def)
    then show ?thesis by (rule conf_runs_program [OF runs_elsewhere])
  qed
  with 1(3) show ?case
    by (auto simp: atomic_write_def program_runs_refl split: outcome.splits)
qed

lemma progs_forced: "keeps progs (UpdateItem (bm_client m) (forced_transfer m ns n newOwner prev (wrap64 v) now))"
proof (rule wp_keeps, rule wp_update, goal_cases)
  case (2 w w')
  then show ?case
    by (intro program_runs_force [where ms = ms and p = p and ns = ns and n = n, unfolded mine])
next
  case (3 w w' e)
  then show ?case
    using program_runs_force [where ms = ms and p = p and ns = ns and n = n, unfolded mine]
    by (metis program_runs_refl)
qed (simp add: forced_transfer_def)

lemma progs_DeleteGroupConfig: "keeps progs (DeleteGroupConfig m ns n)"
  unfolding DeleteGroupConfig_def
proof (rule keep_rules.keep_check [OF progs_rules])
  let ?d = "\<lparr> di_TableName = bm_tableName m, di_Key = key_item (getGroupPK m ns n) ''CONFIG'',
    di_Condition = None, di_Names = [], di_Values = [] \<rparr>"
  have del: "progs w w'" if "delete_effect ?d (tbl w) = Some (tbl w')" for w w'
    using that program_runs_delete [of ms ns n "tbl w" p]
    by (simp add: mine delete_effect_def condition_holds_def config_key_def)
  show "keeps progs (DeleteItem (bm_client m) ?d)"
    by (rule wp_keeps, rule wp_delete) (auto simp: program_runs_refl dest: del)
qed (rule progs_flow)

lemma progs_operations:
  "keeps progs (UpdateSuspension rt m ns n suspended reason)"
  "keeps progs (UpdateGroupState rt m ns n st)"
  "keeps progs (SetVolumeState rt m ns n volume)"
  "keeps progs (TransferOwnership rt m ns n newOwner)"
  unfolding UpdateSuspension_def UpdateGroupState_def SetVolumeState_def TransferOwnership_def transferOwnership_def Let_def
  by (auto intro!: progs_flow runs_progs [OF runs_reads(1)] runs_progs [OF runs_now(1)] progs_UpdateGroupConfig
      progs_forced split: option.splits outcome.splits prod.splits)

end

end
