(* ===== verification/Config_Properties.thy ===== *)
theory Config_Properties
  imports Config_Steps
begin

text \<open>
  The properties of the configuration under interleaving: writes that check the version they have
  read replace what they have read; the operations of a failover are such writes; an update that
  raises the version before it is checked is not, and undoes the update that came between.
\<close>

section \<open>Serial writes\<close>

lemma transact_effect_failover:
  assumes "stored t" "source \<noteq> target" "gc_LastFailover c = None"
  shows "transact_effect
      [failover_config_update m ns n c source target name start t1,
       status_update m ns n source '':failoverState'' StateFailover t2,
       status_update m ns n target '':primaryState'' StatePrimary t3] t =
     transfer_effect m ns n source source target StateFailover (gc_Version c) (failover_ref name ns start) t1 t2 t3 t"
  by (rule transact_effect_transfer [OF assms(1,2) update_effect_failover_config [OF assms(1,3)]]) simp

text \<open>C6: A process that has read the configuration, and after any interleaving with all the program's
  writes of it (updates on any version, failovers and failbacks of other processes, forced transfers,
  deletions and new creations) gets the transaction of a failover through, replaces exactly the record
  it has read: nobody else's change is lost. The record names its source as owner, and its successor
  names the target, with the next version. Excepted is a process that has not read again since a
  forced transfer or a deletion; and versions stay below the overflow.\<close>

theorem failover_replaces_what_was_read:
  assumes "conf_reach ms ns n s" "one_config ms ns n" "stored (cw_tbl s)" "cw_read s p = Some it" "p \<notin> cw_stale s"
    and "source \<noteq> target"
    and "transact_effect
      [failover_config_update (ms p) ns n (config_of_item it) source target name start t1,
       status_update (ms p) ns n source '':failoverState'' StateFailover t2,
       status_update (ms p) ns n target '':primaryState'' StatePrimary t3] (cw_tbl s) = Some u"
  shows "cw_tbl s (config_key (ms p) ns n) = Some it \<and> gc_OwnerCluster (config_of_item it) = source \<and>
    (\<exists>new. u (config_key (ms p) ns n) = Some new \<and> gc_OwnerCluster (config_of_item new) = target \<and>
       gc_PreviousOwner (config_of_item new) = source \<and> read_version new = wrap64 (read_version it + 1))"
proof -
  have "transfer_effect (ms p) ns n source source target StateFailover (read_version it)
      (failover_ref name ns start) t1 t2 t3 (cw_tbl s) = Some u"
    using assms(7) transact_effect_failover [OF assms(3,6) config_of_item_simps(1), where m = "ms p"]
    by (simp only: read_version_def)
  from transfer_effect_config [OF this] obtain cur where
    cur: "cw_tbl s (config_key (ms p) ns n) = Some cur" "get_S cur ''ownerCluster'' = Some source"
      "map_of cur ''version'' = Some (AvN (show_int (read_version it)))"
    and u: "u (config_key (ms p) ns n) =
      Some (moved_item target source (wrap64 (read_version it + 1)) (format_rfc3339 t1) (failover_ref name ns start) cur)"
      (is "_ = Some ?new")
    by blast
  note inv = conf_inv_current [OF conf_inv_reach [OF assms(1,2)] assms(5,4) cur(1,3)]
  have "read_version ?new = wrap64 (read_version it + 1)" by (rule conf_version_read) simp
  with cur(1,2) u inv(1) show ?thesis by (simp add: config_of_item_owner)
qed

text \<open>All clusters of an operator, by their names; \<open>west\<close> has read the record.\<close>

abbreviation demo_managers :: "string \<Rightarrow> mem base_manager" where
  "demo_managers \<equiv> mem_manager False"

lemma demo_one_config: "one_config demo_managers ''ns'' ''g''"
  by (simp add: one_config_def)

definition demo_world :: "string conf_world" where
  "demo_world = \<lparr> cw_tbl = mem_tbl mem_demo,
     cw_read = [''west'' \<mapsto> group_config_item (demo_config ''east'' '''' 2)], cw_stale = {} \<rparr>"

lemma demo_version: "conf_version (group_config_item (demo_config owner prev 2)) 2"
  by (simp add: int64_def int64_min_def int64_max_def)

lemma demo_world_reach: "conf_reach demo_managers ''ns'' ''g'' demo_world"
proof -
  let ?s = "\<lparr> cw_tbl = mem_tbl mem_demo, cw_read = \<lambda>_. None, cw_stale = {} \<rparr> :: string conf_world"
  have "conf_init demo_managers ''ns'' ''g'' ?s" using demo_version by (auto simp: conf_init_def)
  moreover have "conf_step demo_managers ''ns'' ''g'' ?s demo_world"
    using conf_step.read [of ?s demo_managers "''west''" "''ns''" "''g''"] by (simp add: demo_world_def)
  moreover have "below_overflow demo_managers ''ns'' ''g'' ?s"
    using demo_version by (simp add: below_overflow_def conf_version_read int64_max_def)
  ultimately show ?thesis by (meson conf_reach.intros program_step.conf)
qed

theorem failover_replaces_what_was_read_witness:
  "\<exists>u new. transact_effect
      [failover_config_update (mem_manager False ''west'') ''ns'' ''g''
         (config_of_item (group_config_item (demo_config ''east'' '''' 2))) ''east'' ''west'' ''f1'' zero_time zero_time,
       status_update (mem_manager False ''west'') ''ns'' ''g'' ''east'' '':failoverState'' StateFailover zero_time,
       status_update (mem_manager False ''west'') ''ns'' ''g'' ''west'' '':primaryState'' StatePrimary zero_time]
      (mem_tbl mem_demo) = Some u \<and>
     u (''GROUP#op#ns#g'', ''CONFIG'') = Some new \<and> gc_OwnerCluster (config_of_item new) = ''west'' \<and>
     read_version new = 3"
proof -
  let ?it = "group_config_item (demo_config ''east'' '''' 2)"
  let ?m = "mem_manager False ''west''"
  let ?txn = "transact_effect
      [failover_config_update ?m ''ns'' ''g'' (config_of_item ?it) ''east'' ''west'' ''f1'' zero_time zero_time,
       status_update ?m ''ns'' ''g'' ''east'' '':failoverState'' StateFailover zero_time,
       status_update ?m ''ns'' ''g'' ''west'' '':primaryState'' StatePrimary zero_time] (mem_tbl mem_demo)"
  have v: "read_version ?it = 2" by (rule conf_version_read [OF demo_version])
  have st: "stored (mem_tbl mem_demo)" by (rule mem_mgr.stored_tbl)
  have "?txn = transfer_effect ?m ''ns'' ''g'' ''east'' ''east'' ''west'' StateFailover 2
      (failover_ref ''f1'' ''ns'' zero_time) zero_time zero_time zero_time (mem_tbl mem_demo)"
    using transact_effect_failover [OF st _ config_of_item_simps(1), where source = "''east''" and target = "''west''"
        and m = ?m] v
    by (simp add: read_version_def)
  moreover have "\<exists>u. transfer_effect ?m ''ns'' ''g'' ''east'' ''east'' ''west'' StateFailover 2
      (failover_ref ''f1'' ''ns'' zero_time) zero_time zero_time zero_time (mem_tbl mem_demo) = Some u"
    by (simp add: transfer_effect_def)
  ultimately obtain u where u: "?txn = Some u" by metis
  have s: "cw_tbl demo_world = mem_tbl mem_demo" "cw_read demo_world ''west'' = Some ?it" "''west'' \<notin> cw_stale demo_world"
    by (simp_all add: demo_world_def)
  from failover_replaces_what_was_read [OF demo_world_reach demo_one_config st [folded s(1)] s(2,3) _ u [folded s(1)]]
  show ?thesis using u v by (auto simp: wrap64_def)
qed

text \<open>The same for UpdateGroupConfig.\<close>

theorem update_replaces_what_was_read:
  assumes "conf_reach ms ns n s" "one_config ms ns n" "cw_read s p = Some it" "p \<notin> cw_stale s"
    and "(gc_PK c, gc_SK c) = config_key (ms p) ns n" "config_cas (cw_tbl s) (read_version it) c = Some u"
    and "cw_tbl s (config_key (ms p) ns n) \<noteq> None"
  shows "cw_tbl s (config_key (ms p) ns n) = Some it"
proof -
  obtain cur where cur: "cw_tbl s (config_key (ms p) ns n) = Some cur" using assms(7) by blast
  then have "map_of cur ''version'' = Some (AvN (show_int (read_version it)))"
    using config_cas_SomeD [OF assms(6)] assms(5) by (simp add: version_matches_def)
  from conf_inv_current(1) [OF conf_inv_reach [OF assms(1,2)] assms(4,3) cur this] cur show ?thesis by simp
qed

section \<open>A write on a raised version\<close>

text \<open>What UpdateSuspension does with the record it has read.\<close>

definition suspension_write ::
    "'w go_runtime \<Rightarrow> 'w base_manager \<Rightarrow> bool \<Rightarrow> string \<Rightarrow> group_config_record \<Rightarrow> ('w, unit outcome) state" where
  "suspension_write rt m suspended reason config = do {
     let config = config\<lparr> gc_Suspended := suspended, gc_SuspensionReason := reason,
                          gc_Version := wrap64 (gc_Version config + 1) \<rparr>;
     now \<leftarrow> time_now rt;
     (r, _) \<leftarrow> UpdateGroupConfig rt m (config\<lparr> gc_LastUpdated := now \<rparr>);
     State_Monad.return r
   }"

lemma UpdateSuspension_parts:
  "UpdateSuspension rt m ns n suspended reason =
     check (GetGroupConfig rt m ns n) (wrapf ''failed to get current config'') (suspension_write rt m suspended reason)"
  by (simp add: UpdateSuspension_def suspension_write_def [abs_def])

context manager_reliable
begin

lemma read_config_key:
  "tbl w (config_key m' ns n) = Some it \<Longrightarrow>
   (gc_PK (config_of_item it), gc_SK (config_of_item it)) = config_key m' ns n"
  by (rule config_key_of_item [OF stored_tbl])

lemma wp_suspension_write:
  assumes "tbl w (gc_PK c, gc_SK c) = Some cur" "conf_version cur (gc_Version c + 1)"
    "\<And>w' c'. gc_OwnerCluster c' = gc_OwnerCluster c \<Longrightarrow> gc_PreviousOwner c' = gc_PreviousOwner c \<Longrightarrow>
       tbl w' = (tbl w)((gc_PK c, gc_SK c) \<mapsto> group_config_item c') \<Longrightarrow> Q (Ok ()) w'"
  shows "wp (suspension_write rt m sus why c) Q w"
proof -
  have v: "wrap64 (gc_Version c + 1) = gc_Version c + 1"
    using assms(2) by (simp add: conf_version_def)
  have m: "version_matches (tbl w (gc_PK c, gc_SK c)) (gc_Version c + 1)"
    using assms(1,2) by (simp add: version_matches_def conf_version_def)
  show ?thesis
    unfolding suspension_write_def Let_def wp_simps
  proof (rule wp_now, rule wp_UpdateGroupConfig_ok, goal_cases)
    case (1 now w1 w2)
    then have "config_cas (tbl w) (gc_Version c + 1) (stamped (c\<lparr> gc_Suspended := sus, gc_SuspensionReason := why,
        gc_Version := gc_Version c + 1, gc_LastUpdated := now \<rparr>) (clk w2)) = Some (tbl w2)"
      by (simp add: v)
    from config_cas_SomeD [OF this] show ?case
      by (simp add: wp_simps) (rule assms(3), simp_all add: stamped_def)
  next
    case (2 now w1 w2)
    then show ?case using m by (simp add: v config_cas_def stamped_def)
  qed
qed

end

text \<open>C15: UpdateSuspension raises the version by hand, and UpdateGroupConfig takes the raised version
  for the one it has to find: when another update of the same record commits between its read and its
  write, the write is accepted, and the record of before the other update, with its old owner and
  previous owner, replaces the new one. Both report success.\<close>

theorem suspension_overwrites_update:
  assumes "manager_reliable m rt Z tbl clk" "manager_reliable m' rt Z tbl clk"
    and "config_key m' ns n = config_key m ns n"
    and "tbl w (config_key m ns n) = Some it" "conf_version it v" "v < int64_max"
    and "(gc_PK c, gc_SK c) = config_key m ns n" "gc_Version c = v"
    and "run_state (UpdateGroupConfig rt m c) w = ((r, c'), w1)"
    and "run_state (suspension_write rt m' suspended why (config_of_item it)) w1 = (r', w2)"
  shows "r = Ok () \<and> tbl w1 (config_key m ns n) = Some (group_config_item c') \<and> gc_OwnerCluster c' = gc_OwnerCluster c \<and>
    r' = Ok () \<and> owner_of m ns n (tbl w2) = owner_of m ns n (tbl w) \<and>
    previous_owner_of m ns n (tbl w2) = previous_owner_of m ns n (tbl w)"
proof -
  let ?K = "config_key m ns n"
  have v: "int64 v" "wrap64 (v + 1) = v + 1" "int64 (v + 1)"
    using int64_next [OF _ assms(6)] assms(5) by (simp_all add: conf_version_def)
  have "wp (UpdateGroupConfig rt m c) (\<lambda>(r, c') w1. r = Ok () \<and> tbl w1 ?K = Some (group_config_item c') \<and>
      gc_OwnerCluster c' = gc_OwnerCluster c \<and> gc_Version c' = v + 1) w"
  proof (rule manager_reliable.wp_UpdateGroupConfig_ok [OF assms(1)], goal_cases)
    case (1 w1)
    then show ?case using config_cas_SomeD [OF 1(3)] assms(7,8) v(2) by (simp add: stamped_def)
  next
    case (2 w1)
    moreover have "version_matches (tbl w (gc_PK c, gc_SK c)) v"
      using assms(4,5,7) by (simp add: version_matches_def conf_version_def)
    ultimately show ?case using assms(8) by (simp add: config_cas_def stamped_def)
  qed
  from wpD [OF assms(9) this] have w1: "r = Ok ()" "tbl w1 ?K = Some (group_config_item c')"
    "gc_OwnerCluster c' = gc_OwnerCluster c" "gc_Version c' = v + 1" by simp_all
  have key: "(gc_PK (config_of_item it), gc_SK (config_of_item it)) = ?K"
    by (rule manager_reliable.read_config_key [OF assms(2,4)])
  have read: "gc_Version (config_of_item it) = v" using conf_version_read [OF assms(5)] by (simp add: read_version_def)
  have "wp (suspension_write rt m' suspended why (config_of_item it))
      (\<lambda>r' w2. r' = Ok () \<and> owner_of m ns n (tbl w2) = owner_of m ns n (tbl w) \<and>
        previous_owner_of m ns n (tbl w2) = previous_owner_of m ns n (tbl w)) w1"
    using w1(2,4) v(3) assms(4)
    by (intro manager_reliable.wp_suspension_write [OF assms(2)])
      (auto simp: key read owner_of_def previous_owner_of_def config_of_item_owner)
  from wpD [OF assms(10) this] w1 show ?thesis by simp
qed

theorem suspension_overwrites_update_witness:
  "\<exists>c' w1. run_state (UpdateGroupConfig mem_runtime (mem_manager True ''west'') (demo_config ''west'' ''east'' 2)) mem_demo
       = ((Ok (), c'), w1) \<and> gc_OwnerCluster c' = ''west'' \<and>
     owner_of (mem_manager True ''west'') ''ns'' ''g'' (mem_tbl (snd (run_state
       (suspension_write mem_runtime (mem_manager True ''east'') True ''maintenance''
         (config_of_item (group_config_item (demo_config ''east'' '''' 2)))) w1))) = ''east''"
proof -
  obtain r c' w1 where 1: "run_state (UpdateGroupConfig mem_runtime (mem_manager True ''west'')
      (demo_config ''west'' ''east'' 2)) mem_demo = ((r, c'), w1)"
    by (metis surj_pair)
  obtain r' w2 where 2: "run_state (suspension_write mem_runtime (mem_manager True ''east'') True ''maintenance''
      (config_of_item (group_config_item (demo_config ''east'' '''' 2)))) w1 = (r', w2)"
    by (metis surj_pair)
  have k: "config_key (mem_manager True ''east'') ''ns'' ''g'' = config_key (mem_manager True ''west'') ''ns'' ''g''"
    "mem_tbl mem_demo (config_key (mem_manager True ''west'') ''ns'' ''g'') = Some (group_config_item (demo_config ''east'' '''' 2))"
    "(gc_PK (demo_config ''west'' ''east'' 2), gc_SK (demo_config ''west'' ''east'' 2)) = config_key (mem_manager True ''west'') ''ns'' ''g''"
    by simp_all
  show ?thesis
    using suspension_overwrites_update [OF mem_mgr.manager_reliable_axioms mem_mgr.manager_reliable_axioms k(1,2)
        demo_version _ k(3) _ 1 2] 1
    by (simp add: 2 int64_max_def)
qed

section \<open>The operations are steps\<close>




text \<open>The other operations that write the record, whatever they report, are steps of the protocol of
  the whole program: suspending, the group state and the volume state (puts on a version they have
  raised or read), the transfer of the ownership (a put, or the unconditional update after a conflict)
  and the deletion.\<close>

theorem unchecked_operations_are_program_steps:
  assumes "manager_store (ms p) rt Z tbl clk" "one_config ms ns n"
    and "op \<in> {UpdateSuspension rt (ms p) ns n suspended reason, UpdateGroupState rt (ms p) ns n st,
           TransferOwnership rt (ms p) ns n newOwner, SetVolumeState rt (ms p) ns n volume, DeleteGroupConfig (ms p) ns n}"
    and "run_state op w = (r, w')" "cw_tbl s = tbl w"
  shows "\<exists>s'. (program_step ms ns n)\<^sup>*\<^sup>* s s' \<and> cw_tbl s' = tbl w'"
proof -
  have user: "config_user (ms p) rt Z tbl clk ms p ns n"
    by (intro config_user.intro config_user_axioms.intro assms(1,2) refl)
  have "keeps (\<lambda>w w'. program_runs ms ns n (tbl w) (tbl w')) op"
    using assms(3) config_user.progs_operations [OF user] config_user.progs_DeleteGroupConfig [OF user] by blast
  from keepsD [OF this assms(4)] assms(5) show ?thesis unfolding program_runs_def by blast
qed

theorem unchecked_operations_are_program_steps_witness:
  "\<exists>s'. (program_step demo_managers ''ns'' ''g'')\<^sup>*\<^sup>* demo_world s' \<and>
     cw_tbl s' = mem_tbl (snd (run_state (TransferOwnership mem_runtime (mem_manager False ''west'') ''ns'' ''g'' ''west'') mem_demo))"
proof -
  obtain r w' where r: "run_state (TransferOwnership mem_runtime (demo_managers ''west'') ''ns'' ''g'' ''west'') mem_demo = (r, w')"
    by (metis surj_pair)
  have "cw_tbl demo_world = mem_tbl mem_demo" by (simp add: demo_world_def)
  from unchecked_operations_are_program_steps [where ms = demo_managers and p = "''west''",
      OF mem_manager_store demo_one_config insertI2 [OF insertI2 [OF insertI1]] r this]
  show ?thesis by (simp add: r)
qed

text \<open>The processes of the clusters of an operator in memory are users of the protocol.\<close>

interpretation demo_user: config_user "mem_manager False c" mem_runtime 0 mem_tbl mem_time "mem_manager False" c
    "''ns''" "''g''" for c
  by (intro config_user.intro config_user_axioms.intro mem_manager_store demo_one_config refl)

end
