(* ===== verification/Base_Types.thy ===== *)
theory Base_Types
  imports Dynamo_Records
begin

text \<open>
  api/v1alpha1/base_types.go: the kinds of resources the operator supports, the states of a group in the
  API, and the component types of the older layout of the custom resources. The kinds are one table; both
  lists that are read off it are aligned, no kind is in it twice, and the states that the database knows
  are among those of the API.
\<close>

section \<open>Components\<close>

record resource_ref =
  rr_Kind :: string
  rr_Name :: string

record component_spec =
  cm_Name :: string
  cm_FailoverMode :: string
  cm_Workloads :: "resource_ref list"
  cm_VolumeReplications :: "string list"
  cm_VirtualServices :: "string list"
  cm_Ingresses :: "string list"

record api_component_status =
  ac_Name :: string
  ac_Health :: string
  ac_Message :: string

section \<open>Supported kinds\<close>

record supported_resource_kind =
  sk_Kind :: string
  sk_APIGroup :: string
  sk_DefaultAPIGroup :: string

definition VolumeReplicationKind :: supported_resource_kind where
  "VolumeReplicationKind = \<lparr> sk_Kind = ''VolumeReplication'', sk_APIGroup = ''replication.storage.openshift.io'',
     sk_DefaultAPIGroup = ''replication.storage.openshift.io'' \<rparr>"

definition DeploymentKind :: supported_resource_kind where
  "DeploymentKind = \<lparr> sk_Kind = ''Deployment'', sk_APIGroup = ''apps'', sk_DefaultAPIGroup = ''apps'' \<rparr>"

definition StatefulSetKind :: supported_resource_kind where
  "StatefulSetKind = \<lparr> sk_Kind = ''StatefulSet'', sk_APIGroup = ''apps'', sk_DefaultAPIGroup = ''apps'' \<rparr>"

definition CronJobKind :: supported_resource_kind where
  "CronJobKind = \<lparr> sk_Kind = ''CronJob'', sk_APIGroup = ''batch'', sk_DefaultAPIGroup = ''batch'' \<rparr>"

definition VirtualServiceKind :: supported_resource_kind where
  "VirtualServiceKind = \<lparr> sk_Kind = ''VirtualService'', sk_APIGroup = ''networking.istio.io'',
     sk_DefaultAPIGroup = ''networking.istio.io'' \<rparr>"

definition HelmReleaseKind :: supported_resource_kind where
  "HelmReleaseKind = \<lparr> sk_Kind = ''HelmRelease'', sk_APIGroup = ''helm.toolkit.fluxcd.io'',
     sk_DefaultAPIGroup = ''helm.toolkit.fluxcd.io'' \<rparr>"

definition KustomizationKind :: supported_resource_kind where
  "KustomizationKind = \<lparr> sk_Kind = ''Kustomization'', sk_APIGroup = ''kustomize.toolkit.fluxcd.io'',
     sk_DefaultAPIGroup = ''kustomize.toolkit.fluxcd.io'' \<rparr>"

definition IngressKind :: supported_resource_kind where
  "IngressKind = \<lparr> sk_Kind = ''Ingress'', sk_APIGroup = ''networking.k8s.io'',
     sk_DefaultAPIGroup = ''networking.k8s.io'' \<rparr>"

definition AllSupportedResourceKinds :: "supported_resource_kind list" where
  "AllSupportedResourceKinds =
     [VolumeReplicationKind, DeploymentKind, StatefulSetKind, CronJobKind, VirtualServiceKind, HelmReleaseKind,
      KustomizationKind, IngressKind]"

definition GetSupportedKinds :: "string list" where
  "GetSupportedKinds = map sk_Kind AllSupportedResourceKinds"

definition GetSupportedAPIGroups :: "string list" where
  "GetSupportedAPIGroups = map sk_APIGroup AllSupportedResourceKinds"

lemmas kind_defs = VolumeReplicationKind_def DeploymentKind_def StatefulSetKind_def CronJobKind_def
  VirtualServiceKind_def HelmReleaseKind_def KustomizationKind_def IngressKind_def

lemma supported_kinds_distinct: "distinct GetSupportedKinds"
  by (simp add: GetSupportedKinds_def AllSupportedResourceKinds_def kind_defs)

text \<open>So the two lists are one function from kinds to groups, and the default is the group.\<close>

lemma supported_group:
  assumes "k \<in> set AllSupportedResourceKinds"
  shows "map_of (zip GetSupportedKinds GetSupportedAPIGroups) (sk_Kind k) = Some (sk_APIGroup k)"
    "sk_DefaultAPIGroup k = sk_APIGroup k"
proof -
  have d: "distinct (map sk_Kind AllSupportedResourceKinds)"
    using supported_kinds_distinct by (simp add: GetSupportedKinds_def)
  show "map_of (zip GetSupportedKinds GetSupportedAPIGroups) (sk_Kind k) = Some (sk_APIGroup k)"
    using assms d unfolding GetSupportedKinds_def GetSupportedAPIGroups_def
    by (intro map_of_is_SomeI) (auto simp: zip_map1 zip_map2 zip_same_conv_map comp_def)
  show "sk_DefaultAPIGroup k = sk_APIGroup k"
    using assms by (auto simp: AllSupportedResourceKinds_def kind_defs)
qed

section \<open>States of a group\<close>

type_synonym failover_group_state = string

definition FailoverGroupStatePrimary :: failover_group_state where "FailoverGroupStatePrimary = ''PRIMARY''"
definition FailoverGroupStateStandby :: failover_group_state where "FailoverGroupStateStandby = ''STANDBY''"
definition FailoverGroupStateInProgress :: failover_group_state where "FailoverGroupStateInProgress = ''IN_PROGRESS''"
definition FailoverGroupStateFailover :: failover_group_state where "FailoverGroupStateFailover = ''FAILOVER''"
definition FailoverGroupStateFailback :: failover_group_state where "FailoverGroupStateFailback = ''FAILBACK''"

lemmas group_state_defs = FailoverGroupStatePrimary_def FailoverGroupStateStandby_def FailoverGroupStateInProgress_def
  FailoverGroupStateFailover_def FailoverGroupStateFailback_def

lemma database_states:
  "StatePrimary = FailoverGroupStatePrimary" "StateStandby = FailoverGroupStateStandby"
  "StateFailover = FailoverGroupStateFailover" "StateFailback = FailoverGroupStateFailback"
  "FailoverGroupStateInProgress \<notin> {StatePrimary, StateStandby, StateFailover, StateFailback}"
  by (simp_all add: group_state_defs StatePrimary_def StateStandby_def StateFailover_def StateFailback_def)

end
