(* ===== verification/Operator_Command.thy ===== *)
theory Operator_Command
  imports Operator_Setup Go_Text
begin

text \<open>
  cmd/main.go: the command of the operator. The files of the environment, what flag.Parse makes of the
  defaults, and controller-runtime (NewManager, the checks, Start) are parameters; texts that are printed
  and the options of the logger are left out. An error is exit code 1.
\<close>

section \<open>The file of the environment\<close>

text \<open>filepath.Clean on paths with slashes: segments in reverse order.\<close>

definition clean_segment :: "bool \<Rightarrow> string \<Rightarrow> string list \<Rightarrow> string list" where
  "clean_segment rooted seg out =
     (if seg = '''' \<or> seg = ''.'' then out
      else if seg = ''..'' then
        (case out of
           [] \<Rightarrow> if rooted then [] else [''..'']
         | d # ds \<Rightarrow> if d = ''..'' then ''..'' # out else ds)
      else seg # out)"

definition clean_path :: "string \<Rightarrow> string" where
  "clean_path path =
     (let rooted = prefix ''/'' path;
          segs = rev (fold (clean_segment rooted) (str_split path ''/'') [])
      in if rooted then ''/'' @ intercalate ''/'' segs else if segs = [] then ''.'' else intercalate ''/'' segs)"

text \<open>filepath.Join of two elements: leading empty ones are left out.\<close>

definition join_path :: "string \<Rightarrow> string \<Rightarrow> string" where
  "join_path a b =
     (if a \<noteq> '''' then clean_path (a @ ''/'' @ b) else if b \<noteq> '''' then clean_path b else '''')"

text \<open>\<open>Stat\<close> is os.Stat, \<open>LoadEnv\<close> godotenv.Load, which sets variables of the environment.\<close>

record 'w env_files =
  Getenvs :: "('w, environment) state"
  Stat :: "string \<Rightarrow> ('w, unit outcome) state"
  IsNotExist :: "go_error \<Rightarrow> bool"
  LoadEnv :: "string \<Rightarrow> ('w, unit outcome) state"
  WriteFile :: "string \<Rightarrow> string \<Rightarrow> ('w, unit outcome) state"

definition env_locations :: "environment \<Rightarrow> string list" where
  "env_locations env = [''.env'', join_path ''..'' ''.env'', join_path (env ''HOME'') ''.env'']"

definition default_env_lines :: "string list" where
  "default_env_lines =
     [''# AWS Configuration'', ''AWS_REGION=us-west-2'', ''AWS_ACCESS_KEY_ID='', ''AWS_SECRET_ACCESS_KEY='',
      ''AWS_SESSION_TOKEN='', ''AWS_ENDPOINT='', ''AWS_USE_LOCAL_ENDPOINT=false'', '''',
      ''# DynamoDB Configuration'', ''DYNAMODB_TABLE_NAME=failover-operator'', '''',
      ''# Operator Configuration'', ''CLUSTER_NAME=test-cluster'', ''OPERATOR_ID=failover-operator'',
      ''HEALTH_PROBE_PORT=8081'', '''',
      ''# Timeouts and intervals'', ''RECONCILE_INTERVAL=30s'', ''DEFAULT_HEARTBEAT_INTERVAL=30s'', '''']"

definition default_env :: string where
  "default_env = intercalate [char_of (10 :: nat)] default_env_lines"

text \<open>The first file that is there and loads ends the search.\<close>

fun load_first :: "'w env_files \<Rightarrow> string list \<Rightarrow> ('w, bool) state" where
  "load_first ef [] = State_Monad.return False"
| "load_first ef (location # locations) = do {
     s \<leftarrow> Stat ef location;
     (case s of
        Ok _ \<Rightarrow> do {
          r \<leftarrow> LoadEnv ef location;
          (case r of Ok _ \<Rightarrow> State_Monad.return True | _ \<Rightarrow> load_first ef locations)
        }
      | _ \<Rightarrow> load_first ef locations)
   }"

definition loadEnvFromFile :: "'w env_files \<Rightarrow> ('w, unit) state" where
  "loadEnvFromFile ef = do {
     env \<leftarrow> Getenvs ef;
     loaded \<leftarrow> load_first ef (env_locations env);
     (if loaded then State_Monad.return ()
      else do {
        s \<leftarrow> Stat ef ''.env'';
        (case s of
           Err e \<Rightarrow>
             if IsNotExist ef e
             then do { _ \<leftarrow> WriteFile ef ''.env'' default_env; State_Monad.return () }
             else State_Monad.return ()
         | _ \<Rightarrow> State_Monad.return ())
      })
   }"

section \<open>Flags and options\<close>

record operator_flags =
  of_metricsAddr :: string
  of_probeAddr :: string
  of_enableLeaderElection :: bool
  of_secureMetrics :: bool
  of_enableHTTP2 :: bool
  of_command_line :: command_line

text \<open>The values of the flags that are not given.\<close>

definition default_flags :: "environment \<Rightarrow> operator_flags" where
  "default_flags env =
     \<lparr> of_metricsAddr = ''0'',
       of_probeAddr = (if env ''HEALTH_PROBE_PORT'' \<noteq> '''' then '':'' @ env ''HEALTH_PROBE_PORT'' else '':8081''),
       of_enableLeaderElection = False, of_secureMetrics = True, of_enableHTTP2 = False,
       of_command_line = \<lparr> fl_clusterName = '''', fl_operatorID = '''', fl_dynamoDBTableName = '''', fl_awsRegion = '''',
         fl_awsEndpoint = '''', fl_useLocalEndpoint = False \<rparr> \<rparr>"

record tls_config =
  tc_NextProtos :: "string list"

type_synonym tls_option = "tls_config \<Rightarrow> tls_config"

definition disableHTTP2 :: tls_option where
  "disableHTTP2 c = c\<lparr> tc_NextProtos := [''http/1.1''] \<rparr>"

definition tls_options :: "operator_flags \<Rightarrow> tls_option list" where
  "tls_options fl = (if \<not> of_enableHTTP2 fl then [disableHTTP2] else [])"

record metrics_options =
  mo_BindAddress :: string
  mo_SecureServing :: bool
  mo_TLSOpts :: "tls_option list"
  mo_AuthenticationAndAuthorization :: bool

record manager_options =
  ma_Metrics :: metrics_options
  ma_WebhookTLSOpts :: "tls_option list"
  ma_HealthProbeBindAddress :: string
  ma_LeaderElection :: bool
  ma_LeaderElectionID :: string

text \<open>The filter provider of the metrics server is authentication and authorization, or none.\<close>

definition metrics_server_options :: "operator_flags \<Rightarrow> metrics_options" where
  "metrics_server_options fl =
     (let o1 = \<lparr> mo_BindAddress = of_metricsAddr fl, mo_SecureServing = of_secureMetrics fl,
                 mo_TLSOpts = tls_options fl, mo_AuthenticationAndAuthorization = False \<rparr>
      in if of_secureMetrics fl then o1\<lparr> mo_AuthenticationAndAuthorization := True \<rparr> else o1)"

definition operator_manager_options :: "operator_flags \<Rightarrow> manager_options" where
  "operator_manager_options fl =
     \<lparr> ma_Metrics = metrics_server_options fl, ma_WebhookTLSOpts = tls_options fl,
       ma_HealthProbeBindAddress = of_probeAddr fl, ma_LeaderElection = of_enableLeaderElection fl,
       ma_LeaderElectionID = ''fecc9312.hahomelabs.com'' \<rparr>"

section \<open>The command\<close>

text \<open>A manager of controller-runtime: its client and what is asked of it.\<close>

record 'w runtime_manager =
  GetClient :: "'w kube_client"
  CompleteController :: "string \<Rightarrow> ('w, unit outcome) state"
  AddHealthzCheck :: "string \<Rightarrow> ('w, unit outcome) state"
  AddReadyzCheck :: "string \<Rightarrow> ('w, unit outcome) state"
  Start :: "('w, unit outcome) state"

definition run_manager ::
    "('w, 'c) aws_sdk \<Rightarrow> string option \<Rightarrow> environment \<Rightarrow> operator_flags \<Rightarrow> 'w runtime_manager \<Rightarrow> ('w, unit outcome) state" where
  "run_manager sdk hostname env fl mgr =
     check (start_operator sdk (GetClient mgr) (CompleteController mgr) hostname env (of_command_line fl))
       (wrapf ''unable to setup controllers'')
     (\<lambda>_. check (AddHealthzCheck mgr ''healthz'') (wrapf ''unable to set up health check'')
     (\<lambda>_. check (AddReadyzCheck mgr ''readyz'') (wrapf ''unable to set up ready check'')
     (\<lambda>_. check (Start mgr) (wrapf ''problem running manager'') ret)))"

definition operator_command ::
    "'w env_files \<Rightarrow> (operator_flags \<Rightarrow> operator_flags) \<Rightarrow> (manager_options \<Rightarrow> ('w, 'w runtime_manager outcome) state) \<Rightarrow>
     ('w, 'c) aws_sdk \<Rightarrow> string option \<Rightarrow> ('w, unit outcome) state" where
  "operator_command ef parse newManager sdk hostname = do {
     _ \<leftarrow> loadEnvFromFile ef;
     env \<leftarrow> Getenvs ef;
     let fl = parse (default_flags env);
     check (newManager (operator_manager_options fl)) (wrapf ''unable to start manager'')
       (run_manager sdk hostname env fl)
   }"

section \<open>What the options say\<close>

text \<open>HTTP/2 is off in both servers unless it is asked for; the metrics are served with authentication and
  authorization exactly if they are served securely, which is so unless it is asked otherwise.\<close>

lemma http2_disabled:
  assumes "\<not> of_enableHTTP2 fl"
  shows "tc_NextProtos (fold (\<lambda>opt. opt) (ma_WebhookTLSOpts (operator_manager_options fl)) c) = [''http/1.1'']"
    "tc_NextProtos (fold (\<lambda>opt. opt) (mo_TLSOpts (ma_Metrics (operator_manager_options fl))) c) = [''http/1.1'']"
  using assms by (simp_all add: operator_manager_options_def metrics_server_options_def tls_options_def disableHTTP2_def Let_def)

lemma metrics_protected:
  "mo_AuthenticationAndAuthorization (metrics_server_options fl) = mo_SecureServing (metrics_server_options fl)"
  "mo_SecureServing (metrics_server_options (default_flags env))"
  by (simp_all add: metrics_server_options_def default_flags_def Let_def)

lemma env_locations_example:
  "env_locations ((\<lambda>_. '''')(''HOME'' := ''/root/'')) = [''.env'', ''../.env'', ''/root/.env'']"
  "env_locations (\<lambda>_. '''') = [''.env'', ''../.env'', ''.env'']"
  by code_simp+

text \<open>Where no file of the environment is there, the environment of this run is not touched, and the file that
  is written names every cluster \<open>test-cluster\<close> for the next one.\<close>

lemma loadEnv_writes_default:
  assumes "\<And>w l. run_state (Stat ef l) w = (Err e, w)" "IsNotExist ef e" "\<And>w. run_state (Getenvs ef) w = (env, w)"
    and "run_state (WriteFile ef ''.env'' default_env) w = (r, w')"
  shows "run_state (loadEnvFromFile ef) w = ((), w')"
proof -
  have "run_state (load_first ef ls) v = (False, v)" for ls v
    by (induction ls arbitrary: v) (simp_all add: assms(1))
  then show ?thesis using assms by (simp add: loadEnvFromFile_def)
qed

end
