(* ===== verification/Spec2Isabelle.thy ===== *)
theory Spec2Isabelle
  imports State_Properties Operations_Properties Volume_Properties Service_Properties Retry_Properties
    Workflow_Properties Failover_Properties Auto_Properties Manager_Properties Group_Properties Resource_Properties
    Operator_Setup Config_Properties Primary_Properties Base_Types
    Operator_Command
begin

text \<open>
  A verification development for the Failover-Operator, a Kubernetes operator in Go that runs in each
  of several clusters and moves groups of workloads from one cluster to another. The paths below are
  those of the repository, with src/internal/ left out where it is clear.

  \<^bold>\<open>The program.\<close> Two custom resources drive the operator: a FailoverGroup names the workloads,
  volumes, network resources and Flux resources that move together, a Failover asks for groups to be
  moved to a target cluster. The operators of the clusters coordinate through one DynamoDB table, with
  four kinds of items per group: its configuration (the owner, with a version for optimistic concurrency),
  a status per cluster, a lock with a lease, and a history. A reconciler for each custom resource, a
  workflow of some twenty tasks, an older failover manager, a check for automatic failovers and a periodic
  synchronisation read and write the table through one service, which caches reads for thirty seconds.
  Managers for each kind of Kubernetes object scale, annotate and wait for the members of a group.

  \<^bold>\<open>The theories and the code.\<close>

  \<^item> Prelude: errors and outcomes of Go functions, control flow over state actions, weakest preconditions.
    Go_Strings, Go_Text, Go_Time: the parts of Go's packages fmt, strings, strconv and time that are used.
  \<^item> Dynamo_Client (the interface of dynamodb/manager.go and the requests of the AWS SDK, with what a
    request does to a table), Dynamo_Store (the contracts a service may keep), Mem_Store and Mem_Manager (a
    store in memory that keeps them). Dynamo_Records: common_types.go and the keys.
  \<^item> State_Manager (dynamodb/state_manager.go), Operations_Manager (operations_manager.go), Volume_State
    (volume_state.go), Service_Cache (manager.go), Retry_Client (retry_client.go): the models. A manager of
    Go is a record of its fields; its state is the world behind its client, the cache is a second component.
    State_Facts, Operations_Facts, Operations_Liveness, Operations_Validation, Calls_Keep: what the operations
    do under each contract. Lock_Protocol: the lock as a step relation over many processes, with every write
    the program makes to it (AcquireLock, ReleaseLock, DeleteLock), crashes and time. Config_Protocol: the
    configuration record, with the checked writes as \<open>conf_step\<close> and all writes of the program as
    \<open>program_step\<close>; Config_Steps: the operations are such steps.
  \<^item> Api_Types and Base_Types (api/v1alpha1), Kube_Client (the client of controller-runtime at the custom resources, with its
    contracts), Kube_World (the database and an API server side by side).
  \<^item> Workflow_Tasks (workflow/types.go, tasks.go, tasks_additional.go, tasks_completion.go) and Workflow_Engine
    (engine.go, injector.go, factory.go, adapter.go): the models; a task runs over the world, the cache and the
    shared context, and what it writes into the shared Failover object is seen by those after it.
    Workflow_Facts, Workflow_Lock, Workflow_Moves, Workflow_Status: the frame of a workflow, its lock, its
    effect on the database, the versions of its object.
  \<^item> Failover_Controller and Failover_Status (controller/failover/failover_controller.go and
    auto_failover_checker.go), Failover_Manager and Manager_Facts (failover/manager.go), Auto_Failover
    (failover/auto_failover.go), Group_Manager and Group_Facts (failovergroup/manager.go), Group_Controller
    (failovergroup/controller.go). The object that a reconciler has fetched is a component of the state.
  \<^item> Resource_Client and Resource_Waiting (what the managers of objects share), Resource_Fan_Out (the goroutines
    and channels of a wait for many, in deployments/manager.go and cronjobs/manager.go), Deployments, Stateful_Sets,
    Cron_Jobs, Ingresses, Unstructured, Volume_Replications, Virtual_Services, Flux_Resources (Kustomizations and
    HelmReleases): one manager.go each. Resource_Memory: a server in memory and waiting functions, as instances.
  \<^item> Operator_Config (config/config.go, configmap.go, secrets.go, the command line), Table_Setup (config/aws.go,
    dynamodb/service.go and table_setup.go, cmd/setup-dynamodb), Operator_Setup (controller/setup.go) and
    Operator_Command (cmd/main.go).
  \<^item> The theories whose names end in Properties, Table_Setup and Operator_Setup hold the numbered properties, each with a
    concrete run.

  \<^bold>\<open>Interfaces.\<close> Code outside the repository is a parameter: the client of DynamoDB, the API server, the clock
  and the timers, the waiting functions and the path functions of apimachinery, the AWS SDK. What the operator
  relies on is stated in locales (\<open>dynamo_store\<close> and its extensions, \<open>kube_failovers\<close>, \<open>kube_reliable\<close>,
  \<open>resource_store\<close>, \<open>resource_reliable\<close>, \<open>waiting\<close>, \<open>unstructured\<close>, \<open>sleeping_clock\<close>), each interpreted on an
  instance in memory; the retrying client is shown to keep the contract of the client it wraps, so that all that
  is proved from the contract holds with it, too. A contract says what may happen: a failed call may have had its
  effect, a read may be refused at any time; the stronger contracts, in which nothing is down, are only used
  where something is shown to succeed or to fail with one error; none of them promises that a transaction succeeds.

  \<^bold>\<open>What is shown.\<close>

  \<^item> Failover and failback in the database: a reported success has moved owner, previous owner and both statuses and
    nothing else; every outcome is all or nothing; DynamoDB, which validates placeholders, rejects every such
    transaction, so that no contract here promises a success. (The store in memory can be told not to
    validate, for concrete runs of the statements about a reported success.)
  \<^item> The lock: at most one holder of a lease that runs on every clock, among those whose lease was not deleted
    with the group, under all interleavings of processes in one zone whose clocks differ by a bounded skew, by rule
    induction over the steps, which all three operations that write the lock are shown to make. A deletion does break the
    exclusion (\<open>deletion_breaks_exclusion\<close>), and across zones a dead lease stays closed.
  \<^item> The configuration record: UpdateGroupConfig is a compare-and-swap on the version; under all interleavings of
    all the program's writes what a failover replaces is what its process has read, unless a forced transfer or a
    deletion came in between; all that the operations do is made of such steps; the callers that raise the version
    themselves fail when nobody interferes, and undo an update that comes between their read and their write; what a
    record loses when it is written and read back.
  \<^item> The primaries: failover, failback and synchronisation leave no other cluster in state PRIMARY than the owner;
    the first heartbeat of a cluster does not.
  \<^item> The service: which reads may be stale and how long; that the goroutine which cleans the cache is invisible.
  \<^item> The retrying client: number of attempts, bounds of the waits, refinement of the contract.
  \<^item> The workflow: success means that the group has moved; a workflow that is not forced is locked out by its own
    lock, unless it runs in CONSISTENCY mode on the source cluster, where it gives the lock up and succeeds; the first failing task ends it; the object of a finished
    workflow is never stored as successful, so that the reconciler repeats it for ever.
  \<^item> The controllers: what a deletion leaves behind, the consistent view a synchronisation leaves, why automatic
    failovers are created, that the older failover manager moves nothing.
  \<^item> The managers of objects: scaling, roles of volumes, annotations, how often a wait looks; what a wait for many has
    seen when it succeeds or fails, whatever the schedule of its goroutines, and that it can always be brought to its end.
  \<^item> Starting up: configurations are well formed whatever the environment, all parts share one database service, the
    set-up of the table ends.

  \<^bold>\<open>Bounds and fuel.\<close> Loops over lists are recursions on them. The background loops (startCacheCleanup, StartChecker,
  StartAutomaticFailoverChecker, StartPeriodicSynchronization) take the number of their ticks: a loop that is
  never stopped is one such run for every number. The status update tries three times, the retrying client
  \<open>MaxRetries + 1\<close> times, the simulated wait for volumes ten times, as in the code. \<open>poll_table\<close> has fuel and
  answers None without it; one round per five seconds of the limit and two more are shown to be enough. A wait for
  many takes its schedule as fuel: from any point, when the time is up, four more turns for each name can end it. The
  recursion of \<open>parse_duration\<close> has fuel as long as the text, which is shown to be enough. The polls of
  apimachinery may take any number of rounds (\<open>polled\<close>), ExponentialBackoff at most its number of steps.

  \<^bold>\<open>Simplifications.\<close> Versions are int64 and wrap around; durations and replica counts are integers without
  bound. Strings are lists of bytes. A float64 of the backoff is a real number. A map of Go is an association
  list, ranged over in the order of the list, where the order can show. Logging, and what is printed, is left out.
  The goroutines that wait for many objects at once, their channels and the caller run along a schedule, an argument
  of the model; the interval between the looks of a poll is left to it. The processes of the two protocols
  interleave at the requests to the database; other concurrency (two reconcilers in one process, the mutex of the cache) is left out.

  \<^bold>\<open>Not modelled.\<close> The generated deep copies (a value is its own copy), the registration of the API group
  (groupversion_info.go), failover_stages.go (a comment) and the helpers of the tests: generated code, calls of
  libraries, and code that only tests use. Of the commands, the parsing of flags, the options of the loggers and
  what is printed.
\<close>

end
